(* ===== verification/JsPrelude.thy ===== *)
theory JsPrelude
  imports Complex_Main "HOL-Library.Sublist"
begin

text \<open>
  The vocabulary every component shares: the part of the JavaScript string and array library
  the sources call, as executable functions on \<open>string\<close>, and the lemma collections
  the component theories feed their automation with.

  A JavaScript string is modelled as a list of \<open>char\<close>, each standing for the UTF-16
  code unit of the same number, so the model covers strings over the code units 0 to 255
  (Latin-1). White space and letter case below are the ones ECMA-262 gives for these units.
\<close>

named_theorems js_str \<open>defining equations of the string library\<close>
named_theorems js_intro \<open>membership and containment facts about built strings\<close>

section \<open>Characters\<close>

definition nl :: string where
  "nl = [CHR 0x0A]"

definition sq :: string where
  "sq = [CHR 0x27]"

definition dq :: string where
  "dq = [CHR 0x22]"

definition bsl :: string where
  "bsl = [CHR 0x5C]"

definition cu :: "char \<Rightarrow> nat" where
  "cu c = of_char c"

definition is_space :: "char \<Rightarrow> bool" where
  "is_space c \<longleftrightarrow> cu c \<in> {9, 10, 11, 12, 13, 32, 160}"

definition is_digit :: "char \<Rightarrow> bool" where
  "is_digit c \<longleftrightarrow> 48 \<le> cu c \<and> cu c \<le> 57"

definition is_upper :: "char \<Rightarrow> bool" where
  "is_upper c \<longleftrightarrow> 65 \<le> cu c \<and> cu c \<le> 90"

definition is_lower :: "char \<Rightarrow> bool" where
  "is_lower c \<longleftrightarrow> 97 \<le> cu c \<and> cu c \<le> 122"

definition is_alpha :: "char \<Rightarrow> bool" where
  "is_alpha c \<longleftrightarrow> is_upper c \<or> is_lower c"

text \<open>The class \<open>\w\<close> of a regular expression.\<close>

definition is_word :: "char \<Rightarrow> bool" where
  "is_word c \<longleftrightarrow> is_alpha c \<or> is_digit c \<or> c = CHR ''_''"

text \<open>\<open>toLowerCase\<close> on one code unit: the ASCII letters and the Latin-1 letters 192-222
  without the multiplication sign 215.\<close>

definition lower_char :: "char \<Rightarrow> char" where
  "lower_char c =
     (if is_upper c \<or> (192 \<le> cu c \<and> cu c \<le> 222 \<and> cu c \<noteq> 215)
      then char_of (cu c + 32) else c)"

section \<open>Strings\<close>

definition js_lower :: "string \<Rightarrow> string" where
  "js_lower = map lower_char"

definition js_trim_start :: "string \<Rightarrow> string" where
  "js_trim_start = dropWhile is_space"

definition js_trim :: "string \<Rightarrow> string" where
  "js_trim s = rev (dropWhile is_space (rev (dropWhile is_space s)))"

definition js_starts_with :: "string \<Rightarrow> string \<Rightarrow> bool" where
  "js_starts_with s p \<longleftrightarrow> prefix p s"

definition js_ends_with :: "string \<Rightarrow> string \<Rightarrow> bool" where
  "js_ends_with s p \<longleftrightarrow> suffix p s"

definition js_includes :: "string \<Rightarrow> string \<Rightarrow> bool" where
  "js_includes s p \<longleftrightarrow> sublist p s"

text \<open>The operator \<open>||\<close> on two strings: the empty string is the only falsy one.\<close>

definition js_or :: "string \<Rightarrow> string \<Rightarrow> string" where
  "js_or a b = (if a = [] then b else a)"

fun js_join :: "string \<Rightarrow> string list \<Rightarrow> string" where
  "js_join sep [] = []"
| "js_join sep [x] = x"
| "js_join sep (x # y # xs) = x @ sep @ js_join sep (y # xs)"

text \<open>\<open>split\<close> at a one-character separator; \<open>''.split\<close> gives one empty piece.\<close>

fun js_split :: "char \<Rightarrow> string \<Rightarrow> string list" where
  "js_split d [] = [[]]"
| "js_split d (c # cs) =
     (if c = d then [] # js_split d cs
      else (case js_split d cs of [] \<Rightarrow> [[c]] | p # ps \<Rightarrow> (c # p) # ps))"

abbreviation js_lines :: "string \<Rightarrow> string list" where
  "js_lines \<equiv> js_split (CHR 0x0A)"

text \<open>\<open>slice(-n)\<close>: the last \<open>n\<close> code units, or all of a shorter string.\<close>

definition js_slice_last :: "nat \<Rightarrow> string \<Rightarrow> string" where
  "js_slice_last n s = drop (length s - n) s"

text \<open>\<open>String(n)\<close> for a non-negative integer.\<close>

fun js_nat :: "nat \<Rightarrow> string" where
  "js_nat n = (if n < 10 then [char_of (48 + n)] else js_nat (n div 10) @ [char_of (48 + n mod 10)])"

declare js_nat.simps [simp del]

definition js_int :: "int \<Rightarrow> string" where
  "js_int i = (if i < 0 then ''-'' @ js_nat (nat (- i)) else js_nat (nat i))"

text \<open>
  \<open>parseInt(s, 10)\<close> on a string of decimal digits, and \<open>parseFloat\<close>: the number
  written by the longest prefix of digits with at most one point, and \<open>None\<close> (the value
  \<open>NaN\<close>) when that prefix has no digit. The result is the exact decimal; the rounding to
  a double is not modelled.
\<close>

definition digit_val :: "char \<Rightarrow> nat" where
  "digit_val c = cu c - 48"

definition parse_digits :: "string \<Rightarrow> nat" where
  "parse_digits ds = foldl (\<lambda>n c. 10 * n + digit_val c) 0 ds"

definition js_parse_float :: "string \<Rightarrow> rat option" where
  "js_parse_float s =
     (let whole = takeWhile is_digit s;
          after = dropWhile is_digit s;
          frac = (case after of [] \<Rightarrow> [] | c # cs \<Rightarrow> if c = CHR ''.'' then takeWhile is_digit cs else [])
      in if whole = [] \<and> frac = [] then None
         else Some (of_nat (parse_digits (whole @ frac)) / 10 ^ length frac))"

section \<open>Arrays\<close>

text \<open>\<open>[...new Set(xs)]\<close>: the first occurrence of every element, in order.\<close>

fun js_unique_acc :: "'a list \<Rightarrow> 'a list \<Rightarrow> 'a list" where
  "js_unique_acc seen [] = []"
| "js_unique_acc seen (x # xs) =
     (if x \<in> set seen then js_unique_acc seen xs else x # js_unique_acc (x # seen) xs)"

definition js_unique :: "'a list \<Rightarrow> 'a list" where
  "js_unique = js_unique_acc []"

text \<open>\<open>if (b) xs.push(x)\<close> in a run of conditional pushes.\<close>

definition push_if :: "bool \<Rightarrow> 'a \<Rightarrow> 'a list" where
  "push_if b x = (if b then [x] else [])"

section \<open>Evaluating the character classes\<close>

text \<open>
  Code equations on the bits of a character, so that a pattern evaluates without arithmetic on
  character numbers.
\<close>

lemma cu_Char: "cu (Char b0 b1 b2 b3 b4 b5 b6 b7) =
  of_bool b0 + 2 * of_bool b1 + 4 * of_bool b2 + 8 * of_bool b3 + 16 * of_bool b4 + 32 * of_bool b5 +
  64 * of_bool b6 + 128 * of_bool b7"
  by (simp add: cu_def)


lemma is_digit_code [code]:
  "is_digit (Char b0 b1 b2 b3 b4 b5 b6 b7) = (\<not> b7 \<and> \<not> b6 \<and> b5 \<and> b4 \<and> \<not> (b3 \<and> (b2 \<or> b1)))"
  unfolding is_digit_def cu_Char
  by (cases b0; cases b1; cases b2; cases b3; cases b4; cases b5; cases b6; cases b7; simp)

lemma is_upper_code [code]:
  "is_upper (Char b0 b1 b2 b3 b4 b5 b6 b7) =
    (\<not> b7 \<and> b6 \<and> \<not> b5 \<and> (b4 \<or> b3 \<or> b2 \<or> b1 \<or> b0) \<and> \<not> (b4 \<and> b3 \<and> (b2 \<or> b1 \<and> b0)))"
  unfolding is_upper_def cu_Char
  by (cases b0; cases b1; cases b2; cases b3; cases b4; cases b5; cases b6; cases b7; simp)

lemma is_lower_code [code]:
  "is_lower (Char b0 b1 b2 b3 b4 b5 b6 b7) =
    (\<not> b7 \<and> b6 \<and> b5 \<and> (b4 \<or> b3 \<or> b2 \<or> b1 \<or> b0) \<and> \<not> (b4 \<and> b3 \<and> (b2 \<or> b1 \<and> b0)))"
  unfolding is_lower_def cu_Char
  by (cases b0; cases b1; cases b2; cases b3; cases b4; cases b5; cases b6; cases b7; simp)

lemma is_space_code [code]:
  "is_space (Char b0 b1 b2 b3 b4 b5 b6 b7) =
    (\<not> b6 \<and> \<not> b4 \<and> (if b5 then \<not> b3 \<and> \<not> b2 \<and> \<not> b1 \<and> \<not> b0
                 else \<not> b7 \<and> b3 \<and> (if b2 then \<not> b1 else b1 \<or> b0)))"
  unfolding is_space_def cu_Char
  by (cases b0; cases b1; cases b2; cases b3; cases b4; cases b5; cases b6; cases b7; simp)

lemma char_of_bits:
  "char_of (n::nat) = Char (odd n) (odd (n div 2)) (odd (n div 4)) (odd (n div 8)) (odd (n div 16))
     (odd (n div 32)) (odd (n div 64)) (odd (n div 128))"
  by (simp add: char_of_def bit_iff_odd)

lemma lower_char_code [code]:
  "lower_char (Char b0 b1 b2 b3 b4 b5 b6 b7) =
    (if b6 \<and> \<not> b5 \<and>
        (if b7 then \<not> (b4 \<and> b3 \<and> b2 \<and> b1 \<and> b0) \<and> \<not> (b4 \<and> \<not> b3 \<and> b2 \<and> b1 \<and> b0)
         else (b4 \<or> b3 \<or> b2 \<or> b1 \<or> b0) \<and> \<not> (b4 \<and> b3 \<and> (b2 \<or> b1 \<and> b0)))
     then Char b0 b1 b2 b3 b4 True b6 b7 else Char b0 b1 b2 b3 b4 b5 b6 b7)"
  unfolding lower_char_def is_upper_def cu_Char
  by (cases b0; cases b1; cases b2; cases b3; cases b4; cases b5; cases b6; cases b7; simp add: char_of_bits)

section \<open>Lemmas\<close>

lemma set_js_unique_acc: "set (js_unique_acc seen xs) = set xs - set seen"
  by (induction xs arbitrary: seen) auto

lemma set_js_unique [simp]: "set (js_unique xs) = set xs"
  by (simp add: js_unique_def set_js_unique_acc)

lemma distinct_js_unique_acc: "distinct (js_unique_acc seen xs)"
  by (induction seen xs rule: js_unique_acc.induct) (auto simp: set_js_unique_acc)

lemma distinct_js_unique [simp]: "distinct (js_unique xs)"
  by (simp add: js_unique_def distinct_js_unique_acc)

lemma js_unique_Nil_iff [simp]: "js_unique xs = [] \<longleftrightarrow> xs = []"
  by (metis set_empty set_js_unique)

lemma set_push_if [simp]: "set (push_if b x) = (if b then {x} else {})"
  by (cases b) (auto simp: push_if_def)

lemma push_if_Nil [simp]: "push_if b x = [] \<longleftrightarrow> \<not> b"
  by (simp add: push_if_def)

lemma push_if_False [simp]: "push_if False x = []"
  by (simp add: push_if_def)

lemma mem_push_if: "x \<in> set (push_if b y) \<longleftrightarrow> b \<and> x = y"
  by simp

lemma filter_push_if: "filter P (push_if b x) = push_if (b \<and> P x) x"
  by (cases b) (simp_all add: push_if_def)

lemma js_or_Nil [simp]: "js_or [] b = b"
  by (simp add: js_or_def)

lemma js_or_eq_Nil [simp]: "js_or a b = [] \<longleftrightarrow> a = [] \<and> b = []"
  by (simp add: js_or_def)

lemma js_split_not_Nil [simp]: "js_split d s \<noteq> []"
  by (induction d s rule: js_split.induct) (auto split: list.splits)

lemma js_join_split: "js_join [d] (js_split d s) = s"
proof (induction d s rule: js_split.induct)
  case (1 d)
  show ?case by simp
next
  case (2 d c cs)
  obtain p ps where ps: "js_split d cs = p # ps"
    using js_split_not_Nil [of d cs] by (cases "js_split d cs") auto
  show ?case
    using 2 ps by (cases ps) auto
qed

text \<open>What a joined text contains: every piece, and what every piece contains.\<close>

lemma includes_trans: "js_includes s p \<Longrightarrow> js_includes p q \<Longrightarrow> js_includes s q"
  by (auto simp: js_includes_def intro: sublist_order.order_trans)

lemma includes_refl [simp, js_intro]: "js_includes s s"
  by (simp add: js_includes_def)

lemma includes_append1 [js_intro]: "js_includes s p \<Longrightarrow> js_includes (s @ t) p"
  by (auto simp: js_includes_def sublist_append)

lemma includes_append2 [js_intro]: "js_includes t p \<Longrightarrow> js_includes (s @ t) p"
  by (auto simp: js_includes_def sublist_append)

lemma includes_join: "x \<in> set xs \<Longrightarrow> js_includes (js_join sep xs) x"
  by (induction sep xs rule: js_join.induct) (auto intro: js_intro)

lemma includes_join_trans:
  "x \<in> set xs \<Longrightarrow> js_includes x p \<Longrightarrow> js_includes (js_join sep xs) p"
  by (blast intro: includes_join includes_trans)

lemma hd_dropWhile_not: "dropWhile P xs \<noteq> [] \<Longrightarrow> \<not> P (hd (dropWhile P xs))"
  by (induction xs) auto

lemma dropWhile_id: "xs = [] \<or> \<not> P (hd xs) \<Longrightarrow> dropWhile P xs = xs"
  by (cases xs) auto

lemma js_trim_no_space_ends:
  assumes ne: "js_trim s \<noteq> []"
  shows "\<not> is_space (hd (js_trim s)) \<and> \<not> is_space (last (js_trim s))"
proof -
  let ?u = "dropWhile is_space s"
  let ?r = "dropWhile is_space (rev ?u)"
  have r: "?r \<noteq> []" using ne unfolding js_trim_def by simp
  have u: "?u \<noteq> []"
  proof
    assume "?u = []"
    then have "?r = []" by (simp only: rev.simps dropWhile.simps)
    with r show False ..
  qed
  obtain pre where pre: "rev ?u = pre @ ?r"
    by (metis takeWhile_dropWhile_id)
  then have "?u = rev ?r @ rev pre" by (metis rev_append rev_rev_ident)
  then have "hd (rev ?r) = hd ?u" using r by (metis Nil_is_rev_conv hd_append2)
  then show ?thesis
    using hd_dropWhile_not [OF r] hd_dropWhile_not [OF u] r
    unfolding js_trim_def by (simp add: last_rev)
qed

lemma js_trim_idem [simp]: "js_trim (js_trim s) = js_trim s"
proof (cases "js_trim s = []")
  case True
  then show ?thesis by (simp add: js_trim_def [of "[]"])
next
  case False
  from js_trim_no_space_ends [OF False]
  have "dropWhile is_space (js_trim s) = js_trim s"
    and "dropWhile is_space (rev (js_trim s)) = rev (js_trim s)"
    using False by (auto intro!: dropWhile_id simp: hd_rev)
  then show ?thesis by (subst js_trim_def) simp
qed

end
