(* ===== verification/JsRegex.thy ===== *)
theory JsRegex
  imports JsPrelude
begin

text \<open>
  The regular expressions of the sources and their ECMA-262 semantics. A pattern is a term of
  \<open>re\<close>; \<open>mt\<close> is the specification's backtracking matcher in continuation-passing
  style, tried in priority order (greedy or lazy), and \<open>js_exec\<close>, \<open>js_test\<close>,
  \<open>js_replace\<close> and \<open>js_replace_all\<close> are \<open>exec\<close>, \<open>test\<close> and
  \<open>replace\<close> over it. \<open>reach\<close> is the declarative relation (which match states a
  pattern can lead to, in no order); \<open>js_test_iff\<close> shows that the matcher decides it, so
  the component theories reason about a pattern through \<open>reach\<close> and never unfold the
  backtracking.

  A repetition body must consume a character to be iterated again, as in the specification's
  empty check, which bounds a star by the remaining length. The patterns have no \<open>m\<close> flag, so
  \<open>^\<close> and \<open>$\<close> are the ends of the input. The \<open>i\<close> flag is the folding of
  \<open>ci\<close> in the classes and literals of a pattern.
\<close>

text \<open>Match states are quantified over as such, not component by component.\<close>

declare split_paired_Ex [simp del] split_paired_All [simp del]

section \<open>Patterns and match states\<close>

datatype re =
    Eps
  | Cls "char \<Rightarrow> bool"
  | Seq re re
  | Alt re re
  | Star re
  | LazyStar re
  | Bol
  | Eol
  | WordB
  | Grp nat re
  | Look re

text \<open>A match state: the consumed characters (last first), the remaining ones, the captures.\<close>

type_synonym caps = "(nat \<times> string) list"
type_synonym st = "string \<times> string \<times> caps"

abbreviation rest :: "st \<Rightarrow> string" where
  "rest s \<equiv> fst (snd s)"

definition at_word :: "string \<Rightarrow> bool" where
  "at_word s \<longleftrightarrow> (case s of [] \<Rightarrow> False | c # _ \<Rightarrow> is_word c)"

definition capture :: "nat \<Rightarrow> st \<Rightarrow> st \<Rightarrow> st" where
  "capture n s t =
     (fst t, rest t, (n, take (length (rest s) - length (rest t)) (rest s)) # snd (snd t))"

definition cap :: "nat \<Rightarrow> caps \<Rightarrow> string" where
  "cap n cs = (case map_of cs n of None \<Rightarrow> [] | Some v \<Rightarrow> v)"

section \<open>The backtracking matcher\<close>

type_synonym cont = "st \<Rightarrow> st option"

fun mstar :: "(cont \<Rightarrow> cont) \<Rightarrow> cont \<Rightarrow> nat \<Rightarrow> cont" where
  "mstar f k 0 s = k s"
| "mstar f k (Suc n) s =
     (case f (\<lambda>t. if length (rest t) < length (rest s) then mstar f k n t else None) s of
        None \<Rightarrow> k s
      | Some r \<Rightarrow> Some r)"

fun mlazy :: "(cont \<Rightarrow> cont) \<Rightarrow> cont \<Rightarrow> nat \<Rightarrow> cont" where
  "mlazy f k 0 s = k s"
| "mlazy f k (Suc n) s =
     (case k s of
        None \<Rightarrow> f (\<lambda>t. if length (rest t) < length (rest s) then mlazy f k n t else None) s
      | Some r \<Rightarrow> Some r)"

primrec mt :: "re \<Rightarrow> cont \<Rightarrow> cont" where
  "mt Eps k s = k s"
| "mt (Cls p) k s =
     (case rest s of [] \<Rightarrow> None | c # cs \<Rightarrow> if p c then k (c # fst s, cs, snd (snd s)) else None)"
| "mt (Seq a b) k s = mt a (mt b k) s"
| "mt (Alt a b) k s = (case mt a k s of None \<Rightarrow> mt b k s | Some r \<Rightarrow> Some r)"
| "mt (Star a) k s = mstar (mt a) k (length (rest s)) s"
| "mt (LazyStar a) k s = mlazy (mt a) k (length (rest s)) s"
| "mt Bol k s = (if fst s = [] then k s else None)"
| "mt Eol k s = (if rest s = [] then k s else None)"
| "mt WordB k s = (if at_word (fst s) \<noteq> at_word (rest s) then k s else None)"
| "mt (Grp n a) k s = mt a (\<lambda>t. k (capture n s t)) s"
| "mt (Look a) k s =
     (case mt a Some s of None \<Rightarrow> None | Some t \<Rightarrow> k (fst s, rest s, snd (snd t)))"

text \<open>The first position, from the left, at which the pattern matches.\<close>

fun exec_from :: "re \<Rightarrow> string \<Rightarrow> string \<Rightarrow> (st \<times> st) option" where
  "exec_from r l [] =
     (case mt r Some (l, [], []) of None \<Rightarrow> None | Some t \<Rightarrow> Some ((l, [], []), t))"
| "exec_from r l (c # cs) =
     (case mt r Some (l, c # cs, []) of
        Some t \<Rightarrow> Some ((l, c # cs, []), t)
      | None \<Rightarrow> exec_from r (c # l) cs)"

definition js_exec :: "re \<Rightarrow> string \<Rightarrow> (st \<times> st) option" where
  "js_exec r s = exec_from r [] s"

definition js_test :: "re \<Rightarrow> string \<Rightarrow> bool" where
  "js_test r s \<longleftrightarrow> js_exec r s \<noteq> None"

text \<open>The matched text of a successful \<open>exec\<close>, and its captures.\<close>

definition matched :: "st \<times> st \<Rightarrow> string" where
  "matched m = take (length (rest (fst m)) - length (rest (snd m))) (rest (fst m))"

definition match_caps :: "st \<times> st \<Rightarrow> caps" where
  "match_caps m = snd (snd (snd m))"

text \<open>\<open>replace\<close> without and with the \<open>g\<close> flag; the replacement sees the match
  and its captures.\<close>

definition js_replace :: "re \<Rightarrow> (string \<Rightarrow> caps \<Rightarrow> string) \<Rightarrow> string \<Rightarrow> string" where
  "js_replace r f s =
     (case js_exec r s of
        None \<Rightarrow> s
      | Some m \<Rightarrow> rev (fst (fst m)) @ f (matched m) (match_caps m) @ rest (snd m))"

function replace_from :: "re \<Rightarrow> (string \<Rightarrow> caps \<Rightarrow> string) \<Rightarrow> string \<Rightarrow> string \<Rightarrow> string" where
  "replace_from r f l s =
     (case mt r Some (l, s, []) of
        None \<Rightarrow> (case s of [] \<Rightarrow> [] | c # cs \<Rightarrow> c # replace_from r f (c # l) cs)
      | Some (l', s', caps) \<Rightarrow>
          if length s' < length s
          then f (take (length s - length s') s) caps @ replace_from r f l' s'
          else f [] caps @ (case s of [] \<Rightarrow> [] | c # cs \<Rightarrow> c # replace_from r f (c # l) cs))"
  by pat_completeness auto
termination
  by (relation "measure (\<lambda>(r, f, l, s). length s)") auto

declare replace_from.simps [simp del]

definition js_replace_all :: "re \<Rightarrow> (string \<Rightarrow> caps \<Rightarrow> string) \<Rightarrow> string \<Rightarrow> string" where
  "js_replace_all r f s = replace_from r f [] s"

section \<open>Building patterns\<close>

fun seqs :: "re list \<Rightarrow> re" where
  "seqs [] = Eps"
| "seqs [r] = r"
| "seqs (r # rs) = Seq r (seqs rs)"

fun alts :: "re list \<Rightarrow> re" where
  "alts [] = Cls (\<lambda>_. False)"
| "alts [r] = r"
| "alts (r # rs) = Alt r (alts rs)"

definition opt :: "re \<Rightarrow> re" where
  "opt r = Alt r Eps"

definition plus :: "re \<Rightarrow> re" where
  "plus r = Seq r (Star r)"

fun copies :: "nat \<Rightarrow> re \<Rightarrow> re" where
  "copies 0 r = Eps"
| "copies (Suc n) r = Seq r (copies n r)"

text \<open>\<open>r{m,n}\<close> as \<open>m\<close> copies and \<open>n - m\<close> nested optional ones.\<close>

fun upto_copies :: "nat \<Rightarrow> re \<Rightarrow> re" where
  "upto_copies 0 r = Eps"
| "upto_copies (Suc n) r = opt (Seq r (upto_copies n r))"

definition between :: "nat \<Rightarrow> nat \<Rightarrow> re \<Rightarrow> re" where
  "between m n r = Seq (copies m r) (upto_copies (n - m) r)"

definition chr :: "char \<Rightarrow> re" where
  "chr c = Cls (\<lambda>x. x = c)"

definition lit :: "string \<Rightarrow> re" where
  "lit s = seqs (map chr s)"

definition one_of :: "string \<Rightarrow> re" where
  "one_of s = Cls (\<lambda>x. x \<in> set s)"

definition none_of :: "string \<Rightarrow> re" where
  "none_of s = Cls (\<lambda>x. x \<notin> set s)"

text \<open>The \<open>i\<close> flag: two characters are the same when their lower case is.\<close>

definition ci :: "char \<Rightarrow> re" where
  "ci c = Cls (\<lambda>x. lower_char x = lower_char c)"

definition lit_i :: "string \<Rightarrow> re" where
  "lit_i s = seqs (map ci s)"

definition dot :: re where
  "dot = Cls (\<lambda>x. x \<noteq> CHR 0x0A \<and> x \<noteq> CHR 0x0D)"

definition any_char :: re where
  "any_char = Cls (\<lambda>_. True)"

definition digit :: re where
  "digit = Cls is_digit"

definition space :: re where
  "space = Cls is_space"

section \<open>The declarative semantics\<close>

primrec reach :: "re \<Rightarrow> st \<Rightarrow> st \<Rightarrow> bool" where
  "reach Eps s t = (t = s)"
| "reach (Cls p) s t = (\<exists>c cs. rest s = c # cs \<and> p c \<and> t = (c # fst s, cs, snd (snd s)))"
| "reach (Seq a b) s t = (\<exists>u. reach a s u \<and> reach b u t)"
| "reach (Alt a b) s t = (reach a s t \<or> reach b s t)"
| "reach (Star a) s t = (\<lambda>s t. reach a s t \<and> length (rest t) < length (rest s))\<^sup>*\<^sup>* s t"
| "reach (LazyStar a) s t = (\<lambda>s t. reach a s t \<and> length (rest t) < length (rest s))\<^sup>*\<^sup>* s t"
| "reach Bol s t = (fst s = [] \<and> t = s)"
| "reach Eol s t = (rest s = [] \<and> t = s)"
| "reach WordB s t = (at_word (fst s) \<noteq> at_word (rest s) \<and> t = s)"
| "reach (Grp n a) s t = (\<exists>u. reach a s u \<and> t = capture n s u)"
| "reach (Look a) s t = (\<exists>u. mt a Some s = Some u \<and> t = (fst s, rest s, snd (snd u)))"


section \<open>The matcher decides the declarative semantics\<close>

lemma mstar_sound:
  assumes f: "\<And>k s r. f k s = Some r \<Longrightarrow> \<exists>t. R s t \<and> k t = Some r"
  shows "mstar f k n s = Some r \<Longrightarrow>
    \<exists>t. (\<lambda>s t. R s t \<and> length (rest t) < length (rest s))\<^sup>*\<^sup>* s t \<and> k t = Some r"
proof (induction n arbitrary: s)
  case 0
  then show ?case by auto
next
  case (Suc n)
  let ?c = "\<lambda>t. if length (rest t) < length (rest s) then mstar f k n t else None"
  show ?case
  proof (cases "f ?c s")
    case None
    with Suc.prems show ?thesis by auto
  next
    case (Some x)
    with Suc.prems have "f ?c s = Some r" by simp
    from f [OF this] obtain u where "R s u" "?c u = Some r" by blast
    then show ?thesis
      by (auto split: if_splits dest!: Suc.IH intro: converse_rtranclp_into_rtranclp)
  qed
qed

lemma mlazy_sound:
  assumes f: "\<And>k s r. f k s = Some r \<Longrightarrow> \<exists>t. R s t \<and> k t = Some r"
  shows "mlazy f k n s = Some r \<Longrightarrow>
    \<exists>t. (\<lambda>s t. R s t \<and> length (rest t) < length (rest s))\<^sup>*\<^sup>* s t \<and> k t = Some r"
proof (induction n arbitrary: s)
  case 0
  then show ?case by auto
next
  case (Suc n)
  let ?c = "\<lambda>t. if length (rest t) < length (rest s) then mlazy f k n t else None"
  show ?case
  proof (cases "k s")
    case None
    with Suc.prems have "f ?c s = Some r" by simp
    from f [OF this] obtain u where "R s u" "?c u = Some r" by blast
    then show ?thesis
      by (auto split: if_splits dest!: Suc.IH intro: converse_rtranclp_into_rtranclp)
  next
    case (Some x)
    with Suc.prems show ?thesis by auto
  qed
qed

lemma mstar_complete:
  assumes f: "\<And>k s t. R s t \<Longrightarrow> k t \<noteq> None \<Longrightarrow> f k s \<noteq> None"
    and "(\<lambda>s t. R s t \<and> length (rest t) < length (rest s))\<^sup>*\<^sup>* s t" and "k t \<noteq> None"
  shows "length (rest s) \<le> n \<Longrightarrow> mstar f k n s \<noteq> None"
  using assms(2,3)
proof (induction arbitrary: n rule: converse_rtranclp_induct)
  case base
  then show ?case by (cases n) (auto split: option.splits)
next
  case (step s u)
  then obtain m where n: "n = Suc m" by (cases n) auto
  with step have "mstar f k m u \<noteq> None" by auto
  with step.hyps(1) have "f (\<lambda>t. if length (rest t) < length (rest s) then mstar f k m t else None) s \<noteq> None"
    by (intro f [of s u]) auto
  then show ?case using n by (auto split: option.splits)
qed

lemma mlazy_complete:
  assumes f: "\<And>k s t. R s t \<Longrightarrow> k t \<noteq> None \<Longrightarrow> f k s \<noteq> None"
    and "(\<lambda>s t. R s t \<and> length (rest t) < length (rest s))\<^sup>*\<^sup>* s t" and "k t \<noteq> None"
  shows "length (rest s) \<le> n \<Longrightarrow> mlazy f k n s \<noteq> None"
  using assms(2,3)
proof (induction arbitrary: n rule: converse_rtranclp_induct)
  case base
  then show ?case by (cases n) (auto split: option.splits)
next
  case (step s u)
  then obtain m where n: "n = Suc m" by (cases n) auto
  with step have "mlazy f k m u \<noteq> None" by auto
  with step.hyps(1) have "f (\<lambda>t. if length (rest t) < length (rest s) then mlazy f k m t else None) s \<noteq> None"
    by (intro f [of s u]) auto
  then show ?case using n by (auto split: option.splits)
qed

lemma mt_sound: "mt r k s = Some x \<Longrightarrow> \<exists>t. reach r s t \<and> k t = Some x"
proof (induction r arbitrary: k s x)
  case (Cls p)
  then show ?case by (auto split: list.splits if_splits)
next
  case (Seq a b)
  then show ?case by fastforce
next
  case (Alt a b)
  show ?case
  proof (cases "mt a k s")
    case None
    with Alt.prems have "mt b k s = Some x" by simp
    from Alt.IH(2) [OF this] show ?thesis by auto
  next
    case (Some y)
    with Alt.prems have "mt a k s = Some x" by simp
    from Alt.IH(1) [OF this] show ?thesis by auto
  qed
next
  case (Star a)
  from mstar_sound [of "mt a" "reach a", OF Star.IH] Star.prems show ?case by simp
next
  case (LazyStar a)
  from mlazy_sound [of "mt a" "reach a", OF LazyStar.IH] LazyStar.prems show ?case by simp
next
  case (Grp n a)
  then show ?case by fastforce
next
  case (Look a)
  then show ?case by (auto split: option.splits)
qed (auto split: if_splits)

lemma mt_complete: "reach r s t \<Longrightarrow> k t \<noteq> None \<Longrightarrow> mt r k s \<noteq> None"
proof (induction r arbitrary: k s t)
  case (Seq a b)
  then obtain u where "reach a s u" "reach b u t" by auto
  with Seq.IH(2) [of u t k] Seq.prems have "mt b k u \<noteq> None" by simp
  with Seq.IH(1) [of s u "mt b k"] \<open>reach a s u\<close> show ?case by simp
next
  case (Alt a b)
  then show ?case by (auto split: option.splits dest!: Alt.IH)
next
  case (Star a)
  have "mstar (mt a) k (length (rest s)) s \<noteq> None"
    by (rule mstar_complete [where R = "reach a" and t = t]) (use Star in auto)
  then show ?case by simp
next
  case (LazyStar a)
  have "mlazy (mt a) k (length (rest s)) s \<noteq> None"
    by (rule mlazy_complete [where R = "reach a" and t = t]) (use LazyStar in auto)
  then show ?case by simp
next
  case (Grp n a)
  then show ?case by fastforce
qed auto

lemma mt_iff: "mt r Some s \<noteq> None \<longleftrightarrow> (\<exists>t. reach r s t)"
  using mt_sound [of r Some s] mt_complete [of r s _ Some] by fastforce

lemma exec_from_iff:
  "exec_from r l s \<noteq> None \<longleftrightarrow> (\<exists>w u t. s = w @ u \<and> reach r (rev w @ l, u, []) t)"
proof (induction r l s rule: exec_from.induct)
  case (1 r l)
  show ?case using mt_iff [of r "(l, [], [])"] by (auto split: option.splits)
next
  case (2 r l c cs)
  show ?case
  proof (cases "mt r Some (l, c # cs, [])")
    case (Some t)
    then have "\<exists>t. reach r (l, c # cs, []) t" using mt_iff by blast
    then have "\<exists>w u t. c # cs = w @ u \<and> reach r (rev w @ l, u, []) t"
      by (metis append_Nil rev.simps(1))
    with Some show ?thesis by simp
  next
    case None
    then have no: "\<not> reach r (l, c # cs, []) t" for t using mt_iff by blast
    have "(\<exists>w u t. c # cs = w @ u \<and> reach r (rev w @ l, u, []) t) \<longleftrightarrow>
        (\<exists>w u t. cs = w @ u \<and> reach r (rev w @ c # l, u, []) t)" (is "?A \<longleftrightarrow> ?B")
    proof
      assume ?A
      then obtain w u t where w: "c # cs = w @ u" "reach r (rev w @ l, u, []) t" by blast
      with no obtain v where "w = c # v" by (cases w) auto
      with w show ?B by auto
    next
      assume ?B
      then obtain w u t where w: "cs = w @ u" "reach r (rev w @ c # l, u, []) t" by blast
      then have "c # cs = (c # w) @ u" "reach r (rev (c # w) @ l, u, []) t" by simp_all
      then show ?A by blast
    qed
    with None 2 show ?thesis by simp
  qed
qed

theorem js_test_iff: "js_test r s \<longleftrightarrow> (\<exists>w u t. s = w @ u \<and> reach r (rev w, u, []) t)"
  using exec_from_iff [of r "[]" s] by (simp add: js_test_def js_exec_def)

section \<open>What the building blocks match\<close>

named_theorems re_reach \<open>which states the basic patterns lead to\<close>

text \<open>\<open>eats s w t\<close>: from \<open>s\<close> the characters \<open>w\<close> are consumed, with no
  capture, leading to \<open>t\<close>.\<close>

definition eats :: "st \<Rightarrow> string \<Rightarrow> st \<Rightarrow> bool" where
  "eats s w t \<longleftrightarrow> rest s = w @ rest t \<and> fst t = rev w @ fst s \<and> snd (snd t) = snd (snd s)"

lemma eats_Nil [simp]: "eats s [] t \<longleftrightarrow> t = s"
  by (cases s; cases t) (auto simp: eats_def)

lemma eats_append: "eats s (v @ w) t \<longleftrightarrow> (\<exists>u. eats s v u \<and> eats u w t)"
proof
  assume "eats s (v @ w) t"
  then have "eats s v (rev v @ fst s, w @ rest t, snd (snd s))
      \<and> eats (rev v @ fst s, w @ rest t, snd (snd s)) w t"
    by (simp add: eats_def)
  then show "\<exists>u. eats s v u \<and> eats u w t" by blast
qed (auto simp: eats_def)

lemma reach_Cls [re_reach]: "reach (Cls p) s t \<longleftrightarrow> (\<exists>c. p c \<and> eats s [c] t)"
  by (cases s; cases t) (auto simp: eats_def)

lemma reach_seqs_Cons [re_reach]: "reach (seqs (r # rs)) s t \<longleftrightarrow> (\<exists>u. reach r s u \<and> reach (seqs rs) u t)"
  by (cases rs) auto

lemma reach_seqs_Nil [re_reach]: "reach (seqs []) s t \<longleftrightarrow> t = s"
  by simp

lemma reach_alts_Cons [re_reach]: "reach (alts (r # rs)) s t \<longleftrightarrow> reach r s t \<or> reach (alts rs) s t"
  by (cases rs) auto

lemma reach_alts_Nil [re_reach]: "reach (alts []) s t \<longleftrightarrow> False"
  by simp

lemma reach_lit [re_reach]: "reach (lit w) s t \<longleftrightarrow> eats s w t"
proof (induction w arbitrary: s)
  case Nil
  then show ?case by (simp add: lit_def)
next
  case (Cons c w)
  have "reach (lit (c # w)) s t \<longleftrightarrow> (\<exists>u. eats s [c] u \<and> reach (lit w) u t)"
    by (simp add: lit_def reach_seqs_Cons chr_def re_reach del: reach.simps)
  also have "\<dots> \<longleftrightarrow> eats s ([c] @ w) t"
    unfolding eats_append using Cons by simp
  finally show ?case by simp
qed

lemma reach_star_Cls [re_reach]:
  "reach (Star (Cls p)) s t \<longleftrightarrow> (\<exists>w. (\<forall>c \<in> set w. p c) \<and> eats s w t)"
proof
  let ?R = "\<lambda>s t. reach (Cls p) s t \<and> length (rest t) < length (rest s)"
  assume "reach (Star (Cls p)) s t"
  then have "?R\<^sup>*\<^sup>* s t" by simp
  then show "\<exists>w. (\<forall>c \<in> set w. p c) \<and> eats s w t"
  proof (induction rule: converse_rtranclp_induct)
    case base
    show ?case by (rule exI [of _ "[]"]) simp
  next
    case (step s u)
    then obtain c w where "p c" "eats s [c] u" "\<forall>c \<in> set w. p c" "eats u w t"
      by (auto simp: reach_Cls simp del: reach.simps)
    then have "(\<forall>d \<in> set ([c] @ w). p d) \<and> eats s ([c] @ w) t"
      unfolding eats_append by auto
    then show ?case by blast
  qed
next
  let ?R = "\<lambda>s t. reach (Cls p) s t \<and> length (rest t) < length (rest s)"
  assume "\<exists>w. (\<forall>c \<in> set w. p c) \<and> eats s w t"
  then obtain w where "\<forall>c \<in> set w. p c" "eats s w t" by blast
  then have "?R\<^sup>*\<^sup>* s t"
  proof (induction w arbitrary: s)
    case Nil
    then show ?case by simp
  next
    case (Cons c w)
    then obtain u where u: "eats s [c] u" "eats u w t"
      using eats_append [of s "[c]" w t] by auto
    then have "?R s u" using Cons.prems
      by (auto simp: reach_Cls eats_def simp del: reach.simps)
    moreover from Cons.prems have "\<forall>c \<in> set w. p c" by simp
    then have "?R\<^sup>*\<^sup>* u t" using u(2) by (rule Cons.IH)
    ultimately show ?case by (rule converse_rtranclp_into_rtranclp)
  qed
  then show "reach (Star (Cls p)) s t" by simp
qed

lemma reach_plus_Cls [re_reach]:
  "reach (plus (Cls p)) s t \<longleftrightarrow> (\<exists>w. w \<noteq> [] \<and> (\<forall>c \<in> set w. p c) \<and> eats s w t)"
proof -
  have "reach (plus (Cls p)) s t \<longleftrightarrow>
      (\<exists>u c w. p c \<and> eats s [c] u \<and> (\<forall>d \<in> set w. p d) \<and> eats u w t)"
    unfolding plus_def reach.simps(3) reach_Cls reach_star_Cls by blast
  also have "\<dots> \<longleftrightarrow> (\<exists>c w. p c \<and> (\<forall>d \<in> set w. p d) \<and> eats s ([c] @ w) t)"
    unfolding eats_append by blast
  also have "\<dots> \<longleftrightarrow> (\<exists>w. w \<noteq> [] \<and> (\<forall>c \<in> set w. p c) \<and> eats s w t)"
  proof
    assume "\<exists>w. w \<noteq> [] \<and> (\<forall>c \<in> set w. p c) \<and> eats s w t"
    then obtain w where w: "w \<noteq> []" "\<forall>c \<in> set w. p c" "eats s w t" by blast
    then obtain c v where "w = [c] @ v" by (cases w) auto
    with w show "\<exists>c w. p c \<and> (\<forall>d \<in> set w. p d) \<and> eats s ([c] @ w) t" by auto
  next
    assume "\<exists>c w. p c \<and> (\<forall>d \<in> set w. p d) \<and> eats s ([c] @ w) t"
    then obtain c w where w: "p c" "\<forall>d \<in> set w. p d" "eats s ([c] @ w) t" by blast
    then show "\<exists>w. w \<noteq> [] \<and> (\<forall>c \<in> set w. p c) \<and> eats s w t"
      by (intro exI [of _ "[c] @ w"]) simp
  qed
  finally show ?thesis .
qed

lemma reach_copies_Cls [re_reach]:
  "reach (copies n (Cls p)) s t \<longleftrightarrow> (\<exists>w. length w = n \<and> (\<forall>c \<in> set w. p c) \<and> eats s w t)"
proof (induction n arbitrary: s)
  case 0
  then show ?case by simp
next
  case (Suc n)
  have "reach (copies (Suc n) (Cls p)) s t \<longleftrightarrow>
      (\<exists>u c w. p c \<and> eats s [c] u \<and> length w = n \<and> (\<forall>d \<in> set w. p d) \<and> eats u w t)"
    unfolding copies.simps reach.simps(3) reach_Cls Suc by blast
  also have "\<dots> \<longleftrightarrow> (\<exists>c w. p c \<and> length w = n \<and> (\<forall>d \<in> set w. p d) \<and> eats s ([c] @ w) t)"
    unfolding eats_append by blast
  also have "\<dots> \<longleftrightarrow> (\<exists>w. length w = Suc n \<and> (\<forall>c \<in> set w. p c) \<and> eats s w t)"
  proof
    assume "\<exists>w. length w = Suc n \<and> (\<forall>c \<in> set w. p c) \<and> eats s w t"
    then obtain w where w: "length w = Suc n" "\<forall>c \<in> set w. p c" "eats s w t" by blast
    then obtain c v where "w = [c] @ v" by (cases w) auto
    with w show "\<exists>c w. p c \<and> length w = n \<and> (\<forall>d \<in> set w. p d) \<and> eats s ([c] @ w) t" by auto
  next
    assume "\<exists>c w. p c \<and> length w = n \<and> (\<forall>d \<in> set w. p d) \<and> eats s ([c] @ w) t"
    then obtain c w where w: "p c" "length w = n" "\<forall>d \<in> set w. p d" "eats s ([c] @ w) t" by blast
    then show "\<exists>w. length w = Suc n \<and> (\<forall>c \<in> set w. p c) \<and> eats s w t"
      by (intro exI [of _ "[c] @ w"]) simp
  qed
  finally show ?case .
qed

section \<open>Whole-string patterns and literals\<close>

text \<open>\<open>/literal/.test(s)\<close> is \<open>s.includes(literal)\<close>.\<close>

lemma js_test_lit: "js_test (lit w) s \<longleftrightarrow> js_includes s w"
proof
  assume "js_test (lit w) s"
  then obtain a u t where "s = a @ u" "eats (rev a, u, []) w t"
    unfolding js_test_iff reach_lit by blast
  then show "js_includes s w" by (auto simp: eats_def js_includes_def)
next
  assume "js_includes s w"
  then obtain a b where s: "s = a @ w @ b" by (auto simp: js_includes_def sublist_def)
  have "eats (rev a, w @ b, []) w (rev w @ rev a, b, [])" by (simp add: eats_def)
  with s show "js_test (lit w) s" unfolding js_test_iff reach_lit by blast
qed

lemma reach_lit_i [re_reach]:
  "reach (lit_i w) s t \<longleftrightarrow> (\<exists>v. js_lower v = js_lower w \<and> eats s v t)"
proof (induction w arbitrary: s)
  case Nil
  then show ?case by (simp add: lit_i_def js_lower_def)
next
  case (Cons c w)
  have "reach (lit_i (c # w)) s t \<longleftrightarrow>
      (\<exists>u d. lower_char d = lower_char c \<and> eats s [d] u \<and> reach (lit_i w) u t)"
    unfolding lit_i_def list.map reach_seqs_Cons ci_def reach_Cls by blast
  also have "\<dots> \<longleftrightarrow>
      (\<exists>d v. lower_char d = lower_char c \<and> js_lower v = js_lower w \<and> eats s ([d] @ v) t)"
    unfolding Cons eats_append by blast
  also have "\<dots> \<longleftrightarrow> (\<exists>v. js_lower v = js_lower (c # w) \<and> eats s v t)"
  proof
    assume "\<exists>v. js_lower v = js_lower (c # w) \<and> eats s v t"
    then obtain v where v: "js_lower v = js_lower (c # w)" "eats s v t" by blast
    then obtain d u where "v = [d] @ u" by (cases v) (auto simp: js_lower_def)
    with v show "\<exists>d v. lower_char d = lower_char c \<and> js_lower v = js_lower w \<and> eats s ([d] @ v) t"
      by (auto simp: js_lower_def)
  next
    assume "\<exists>d v. lower_char d = lower_char c \<and> js_lower v = js_lower w \<and> eats s ([d] @ v) t"
    then obtain d v where "lower_char d = lower_char c" "js_lower v = js_lower w" "eats s ([d] @ v) t"
      by blast
    then show "\<exists>v. js_lower v = js_lower (c # w) \<and> eats s v t"
      by (intro exI [of _ "[d] @ v"]) (simp add: js_lower_def)
  qed
  finally show ?case .
qed

text \<open>\<open>/literal/i.test(s)\<close> is \<open>s.toLowerCase().includes(literal.toLowerCase())\<close>.\<close>

lemma js_test_lit_i: "js_test (lit_i w) s \<longleftrightarrow> js_includes (js_lower s) (js_lower w)"
proof
  assume "js_test (lit_i w) s"
  then obtain a u v t where "s = a @ u" "js_lower v = js_lower w" "eats (rev a, u, []) v t"
    unfolding js_test_iff reach_lit_i by blast
  then have "js_lower s = js_lower a @ js_lower w @ js_lower (rest t)"
    by (auto simp: eats_def js_lower_def)
  then show "js_includes (js_lower s) (js_lower w)" by (auto simp: js_includes_def)
next
  assume "js_includes (js_lower s) (js_lower w)"
  then obtain a v b where "s = a @ v @ b" "js_lower v = js_lower w"
    by (auto simp: js_includes_def sublist_def js_lower_def map_eq_append_conv append_eq_map_conv)
  moreover have "eats (rev a, v @ b, []) v (rev v @ rev a, b, [])" by (simp add: eats_def)
  ultimately show "js_test (lit_i w) s" unfolding js_test_iff reach_lit_i by blast
qed

text \<open>A pattern \<open>^...$\<close> constrains the whole input.\<close>

lemma js_test_anchored:
  assumes "\<And>s t. reach r s t \<longleftrightarrow> (\<exists>w. L w \<and> eats s w t)"
  shows "js_test (Seq Bol (Seq r Eol)) s \<longleftrightarrow> L s"
proof
  assume "js_test (Seq Bol (Seq r Eol)) s"
  then obtain w u t where "s = u" "w = []" "reach r ([], u, []) t" "rest t = []"
    unfolding js_test_iff by auto
  then show "L s" using assms by (auto simp: eats_def)
next
  assume "L s"
  then have "reach r ([], s, []) (rev s, [], [])" using assms by (auto simp: eats_def)
  then have "reach (Seq Bol (Seq r Eol)) ([], s, []) (rev s, [], [])" by force
  then show "js_test (Seq Bol (Seq r Eol)) s" unfolding js_test_iff
    by (metis append_Nil rev.simps(1))
qed

lemma js_test_all_plus:
  "js_test (Seq Bol (Seq (plus (Cls p)) Eol)) s \<longleftrightarrow> s \<noteq> [] \<and> (\<forall>c \<in> set s. p c)"
  using js_test_anchored [of "plus (Cls p)" "\<lambda>w. w \<noteq> [] \<and> (\<forall>c \<in> set w. p c)"]
  by (simp add: reach_plus_Cls)

text \<open>Matching a longer text that contains a match: no pattern without anchors, boundaries or
  lookahead looks outside the characters it eats, so \<open>test\<close> is monotone for it.\<close>

primrec plain :: "re \<Rightarrow> bool" where
  "plain Eps = True"
| "plain (Cls p) = True"
| "plain (Seq a b) = (plain a \<and> plain b)"
| "plain (Alt a b) = (plain a \<and> plain b)"
| "plain (Star a) = plain a"
| "plain (LazyStar a) = plain a"
| "plain Bol = False"
| "plain Eol = False"
| "plain WordB = False"
| "plain (Grp n a) = False"
| "plain (Look a) = False"

definition in_context :: "string \<Rightarrow> string \<Rightarrow> st \<Rightarrow> st" where
  "in_context l r s = (fst s @ l, rest s @ r, snd (snd s))"

lemma reach_in_context:
  "plain p \<Longrightarrow> reach p s t \<Longrightarrow> reach p (in_context l r s) (in_context l r t)"
proof (induction p arbitrary: s t)
  case (Cls x)
  then show ?case by (auto simp: in_context_def)
next
  case (Star a)
  from Star.prems(2) have "(\<lambda>s t. reach a s t \<and> length (rest t) < length (rest s))\<^sup>*\<^sup>* s t" by simp
  then show ?case
  proof (induction rule: rtranclp_induct)
    case (step u v)
    then have "reach a (in_context l r u) (in_context l r v)
        \<and> length (rest (in_context l r v)) < length (rest (in_context l r u))"
      using Star by (auto simp: in_context_def)
    with step.IH show ?case by (auto intro: rtranclp.rtrancl_into_rtrancl)
  qed simp
next
  case (LazyStar a)
  from LazyStar.prems(2) have "(\<lambda>s t. reach a s t \<and> length (rest t) < length (rest s))\<^sup>*\<^sup>* s t" by simp
  then show ?case
  proof (induction rule: rtranclp_induct)
    case (step u v)
    then have "reach a (in_context l r u) (in_context l r v)
        \<and> length (rest (in_context l r v)) < length (rest (in_context l r u))"
      using LazyStar by (auto simp: in_context_def)
    with step.IH show ?case by (auto intro: rtranclp.rtrancl_into_rtrancl)
  qed simp
qed (auto, blast)

theorem js_test_mono:
  assumes "plain r" and "js_test r p" and "js_includes s p"
  shows "js_test r s"
proof -
  from assms(2) obtain w u t where p: "p = w @ u" "reach r (rev w, u, []) t"
    unfolding js_test_iff by blast
  from assms(3) obtain a b where s: "s = a @ p @ b"
    by (auto simp: js_includes_def sublist_def)
  from reach_in_context [OF assms(1) p(2), of "rev a" b]
  have "reach r (rev (a @ w), u @ b, []) (in_context (rev a) b t)"
    by (simp add: in_context_def)
  with p(1) s have "s = (a @ w) @ (u @ b)" by simp
  with \<open>reach r (rev (a @ w), u @ b, []) _\<close> show ?thesis unfolding js_test_iff by blast
qed

section \<open>Where a match is and what it captures\<close>

lemma exec_from_sound:
  "exec_from r l s = Some (s0, t) \<Longrightarrow> \<exists>w u. s = w @ u \<and> s0 = (rev w @ l, u, []) \<and> reach r s0 t"
proof (induction r l s rule: exec_from.induct)
  case (1 r l)
  then show ?case using mt_sound [of r Some "(l, [], [])"] by (auto split: option.splits)
next
  case (2 r l c cs)
  show ?case
  proof (cases "mt r Some (l, c # cs, [])")
    case None
    with 2 obtain w u where "cs = w @ u" "s0 = (rev w @ c # l, u, [])" "reach r s0 t" by auto
    then show ?thesis by (intro exI [of _ "c # w"] exI [of _ u]) simp
  next
    case (Some x)
    with 2(2) mt_sound [OF Some] show ?thesis by (intro exI [of _ "[]"] exI [of _ "c # cs"]) auto
  qed
qed

lemma js_exec_sound:
  "js_exec r s = Some (s0, t) \<Longrightarrow> \<exists>w u. s = w @ u \<and> s0 = (rev w, u, []) \<and> reach r s0 t"
  using exec_from_sound [of r "[]" s s0 t] by (simp add: js_exec_def)

lemma js_exec_None_iff: "js_exec r s = None \<longleftrightarrow> \<not> js_test r s"
  by (simp add: js_test_def)

lemma capture_eats: "eats s w t \<Longrightarrow> capture n s t = (fst t, rest t, (n, w) # snd (snd t))"
  by (simp add: capture_def eats_def)

lemma cap_Cons [simp]: "cap n ((n, w) # cs) = w"
  by (simp add: cap_def)

end
