(* ===== verification/ChainSync.thy ===== *)
theory ChainSync
  imports JsRegex
begin

text \<open>
  src/app/chain-sync.ts: the indexer progress read from the log, the two monitors that restart
  the chain component and the p2p component, and the rule that switches verify-blocks off.

  Both monitors are the same kind of machine: they count consecutive bad checks and fire when
  enough of them have been seen and the cooldown since the last fire has passed. The locale
  \<open>restart_monitor\<close> states that contract; what it promises about a whole run (two fires are
  never closer than the cooldown, and every fire costs the required number of checks) is proved
  there once and holds for each monitor by interpretation. Times and heights are JavaScript
  numbers holding integers, modelled as \<open>int\<close>.
\<close>

section \<open>Constants (src/app/constants.ts)\<close>

definition auto_restart_chain_gap_threshold :: int where
  "auto_restart_chain_gap_threshold = 100"

definition auto_restart_chain_cooldown_ms :: int where
  "auto_restart_chain_cooldown_ms = 5 * 60 * 1000"

definition auto_restart_chain_min_stall_checks :: int where
  "auto_restart_chain_min_stall_checks = 2"

definition verify_blocks_sync_threshold :: int where
  "verify_blocks_sync_threshold = 50"

definition auto_restart_p2p_cooldown_ms :: int where
  "auto_restart_p2p_cooldown_ms = 5 * 60 * 1000"

definition auto_restart_p2p_min_no_peers_checks :: int where
  "auto_restart_p2p_min_no_peers_checks = 2"

lemmas chain_constants =
  auto_restart_chain_gap_threshold_def auto_restart_chain_cooldown_ms_def
  auto_restart_chain_min_stall_checks_def verify_blocks_sync_threshold_def
  auto_restart_p2p_cooldown_ms_def auto_restart_p2p_min_no_peers_checks_def

section \<open>Indexer progress\<close>

record indexer_progress =
  percent :: "rat option"
  height :: int

definition indexing_re :: re where
  "indexing_re = seqs [lit ''Indexing chain ('', Grp 1 (plus (Cls (\<lambda>c. is_digit c \<or> c = CHR ''.''))),
     lit ''%)'', Star space, lit ''-'', Star space, lit ''Height:'', Star space, Grp 2 (plus digit)]"

definition finished_re :: re where
  "finished_re = lit ''Finished indexing''"

text \<open>The loop body on the pair \<open>lastMatch\<close>, \<open>finishedAfterMatch\<close>.\<close>

definition indexer_line :: "indexer_progress option \<times> bool \<Rightarrow> string \<Rightarrow> indexer_progress option \<times> bool" where
  "indexer_line acc line =
     (case js_exec indexing_re line of
        Some m \<Rightarrow>
          (Some \<lparr>percent = js_parse_float (cap 1 (match_caps m)),
                 height = int (parse_digits (cap 2 (match_caps m)))\<rparr>, False)
      | None \<Rightarrow> if js_test finished_re line then (fst acc, True) else acc)"

definition parseIndexerProgress :: "string \<Rightarrow> indexer_progress option" where
  "parseIndexerProgress logOutput =
     (let (lastMatch, finishedAfterMatch) = foldl indexer_line (None, False) (js_lines logOutput)
      in if finishedAfterMatch then None else lastMatch)"

section \<open>The chain restart monitor\<close>

record auto_restart_state =
  ar_lastRestartAt :: int
  ar_stallCount :: int
  ar_lastSeenHeight :: "int option"

record auto_restart_input =
  ai_localHeight :: "int option"
  ai_publicHeight :: "int option"
  ai_now :: int

definition createAutoRestartState :: auto_restart_state where
  "createAutoRestartState = \<lparr>ar_lastRestartAt = 0, ar_stallCount = 0, ar_lastSeenHeight = None\<rparr>"

definition current_height :: "auto_restart_input \<Rightarrow> int" where
  "current_height i = (case ai_localHeight i of None \<Rightarrow> 0 | Some h \<Rightarrow> h)"

definition sync_gap :: "auto_restart_input \<Rightarrow> int" where
  "sync_gap i =
     (case (ai_publicHeight i, ai_localHeight i) of (Some p, Some l) \<Rightarrow> p - l | _ \<Rightarrow> 0)"

definition stalled :: "auto_restart_state \<Rightarrow> auto_restart_input \<Rightarrow> bool" where
  "stalled s i =
     (case ar_lastSeenHeight s of None \<Rightarrow> False | Some h \<Rightarrow> current_height i \<le> h + 5)"

definition evaluateAutoRestart :: "auto_restart_state \<Rightarrow> auto_restart_input \<Rightarrow> bool \<times> auto_restart_state" where
  "evaluateAutoRestart state input =
     (let currentHeight = current_height input;
          gap = sync_gap input
      in if gap \<le> auto_restart_chain_gap_threshold
         then (False, state\<lparr>ar_stallCount := 0, ar_lastSeenHeight := Some currentHeight\<rparr>)
         else
           let nextStallCount = (if stalled state input then ar_stallCount state + 1 else 0);
               nextState = state\<lparr>ar_stallCount := nextStallCount, ar_lastSeenHeight := Some currentHeight\<rparr>
           in if nextStallCount < auto_restart_chain_min_stall_checks then (False, nextState)
              else if ar_lastRestartAt state > 0 \<and>
                      ai_now input - ar_lastRestartAt state < auto_restart_chain_cooldown_ms
              then (False, nextState)
              else (True, \<lparr>ar_lastRestartAt = ai_now input, ar_stallCount = 0,
                           ar_lastSeenHeight = Some currentHeight\<rparr>))"

section \<open>Verify-blocks and the merkle mismatch\<close>

definition shouldDisableVerifyBlocks :: "int option \<Rightarrow> int option \<Rightarrow> bool option \<Rightarrow> bool" where
  "shouldDisableVerifyBlocks localHeight publicHeight verifyBlocksEnabled =
     (if verifyBlocksEnabled \<noteq> Some True then False
      else case (localHeight, publicHeight) of
             (Some l, Some p) \<Rightarrow> p - l \<le> verify_blocks_sync_threshold
           | _ \<Rightarrow> False)"

definition hasStateMerkleMismatch :: "string \<Rightarrow> bool" where
  "hasStateMerkleMismatch logOutput = js_test (lit_i ''block previous state merkle mismatch'') logOutput"

section \<open>The p2p restart monitor\<close>

record p2p_restart_state =
  p2_noPeersCount :: int
  p2_lastRestartAt :: int

record p2p_restart_input =
  pi_peerCount :: int
  pi_syncGapExists :: bool
  pi_p2pRunning :: bool
  pi_now :: int

definition createP2pRestartState :: p2p_restart_state where
  "createP2pRestartState = \<lparr>p2_noPeersCount = 0, p2_lastRestartAt = 0\<rparr>"

definition evaluateP2pRestart :: "p2p_restart_state \<Rightarrow> p2p_restart_input \<Rightarrow> bool \<times> p2p_restart_state" where
  "evaluateP2pRestart state input =
     (if \<not> pi_p2pRunning input \<or> \<not> pi_syncGapExists input then (False, state\<lparr>p2_noPeersCount := 0\<rparr>)
      else if pi_peerCount input > 0 then (False, state\<lparr>p2_noPeersCount := 0\<rparr>)
      else
        let nextCount = p2_noPeersCount state + 1
        in if nextCount < auto_restart_p2p_min_no_peers_checks
           then (False, state\<lparr>p2_noPeersCount := nextCount\<rparr>)
           else if p2_lastRestartAt state > 0 \<and>
                   pi_now input - p2_lastRestartAt state < auto_restart_p2p_cooldown_ms
           then (False, state\<lparr>p2_noPeersCount := nextCount\<rparr>)
           else (True, \<lparr>p2_noPeersCount = 0, p2_lastRestartAt = pi_now input\<rparr>))"

section \<open>The contract of a restart monitor\<close>

text \<open>The times at which a monitor fires over a run of checks.\<close>

fun fire_times :: "('s \<Rightarrow> 'i \<Rightarrow> bool \<times> 's) \<Rightarrow> ('i \<Rightarrow> int) \<Rightarrow> 's \<Rightarrow> 'i list \<Rightarrow> int list" where
  "fire_times step now s [] = []"
| "fire_times step now s (i # is) =
     (let (fire, s') = step s i
      in if fire then now i # fire_times step now s' is else fire_times step now s' is)"

text \<open>Consecutive elements are at least \<open>d\<close> apart.\<close>

fun spaced :: "int \<Rightarrow> int list \<Rightarrow> bool" where
  "spaced d [] = True"
| "spaced d [t] = True"
| "spaced d (t # u # ts) = (d \<le> u - t \<and> spaced d (u # ts))"

locale restart_monitor =
  fixes step :: "'s \<Rightarrow> 'i \<Rightarrow> bool \<times> 's"
    and now :: "'i \<Rightarrow> int"
    and last_fire :: "'s \<Rightarrow> int"
    and bad_checks :: "'s \<Rightarrow> int"
    and cooldown :: int
    and min_checks :: int
  assumes fires: "step s i = (True, s') \<Longrightarrow>
      last_fire s' = now i \<and> bad_checks s' = 0 \<and> min_checks \<le> bad_checks s + 1
      \<and> (0 < last_fire s \<longrightarrow> cooldown \<le> now i - last_fire s)"
    and waits: "step s i = (False, s') \<Longrightarrow>
      last_fire s' = last_fire s \<and> (bad_checks s' = 0 \<or> bad_checks s' = bad_checks s + 1)"
begin

lemma first_fire_after_cooldown:
  "0 < last_fire s \<Longrightarrow> \<forall>i \<in> set is. 0 < now i \<Longrightarrow>
   spaced cooldown (last_fire s # fire_times step now s is)"
proof (induction "is" arbitrary: s)
  case Nil
  then show ?case by simp
next
  case (Cons i "is")
  obtain fire s' where st: "step s i = (fire, s')" by fastforce
  show ?case
  proof (cases fire)
    case True
    with st fires [of s i s'] Cons.prems Cons.IH [of s'] show ?thesis by simp
  next
    case False
    with st waits [of s i s'] Cons.prems Cons.IH [of s'] show ?thesis by simp
  qed
qed

lemma fires_are_spaced:
  "\<forall>i \<in> set is. 0 < now i \<Longrightarrow> spaced cooldown (fire_times step now s is)"
proof (induction "is" arbitrary: s)
  case Nil
  then show ?case by simp
next
  case (Cons i "is")
  obtain fire s' where st: "step s i = (fire, s')" by fastforce
  show ?case
  proof (cases fire)
    case True
    with st fires [of s i s'] Cons.prems first_fire_after_cooldown [of s' "is"] show ?thesis by simp
  next
    case False
    with st Cons show ?thesis by simp
  qed
qed

lemma fires_cost_checks:
  "0 \<le> bad_checks s \<Longrightarrow>
   min_checks * int (length (fire_times step now s is)) \<le> int (length is) + bad_checks s"
proof (induction "is" arbitrary: s)
  case Nil
  then show ?case by simp
next
  case (Cons i "is")
  obtain fire s' where st: "step s i = (fire, s')" by fastforce
  show ?case
  proof (cases fire)
    case True
    with st fires [of s i s'] Cons.IH [of s'] show ?thesis by (auto simp: algebra_simps)
  next
    case False
    with st waits [of s i s'] Cons.prems Cons.IH [of s'] show ?thesis by auto
  qed
qed

end

interpretation chain_mon: restart_monitor evaluateAutoRestart ai_now ar_lastRestartAt ar_stallCount
  auto_restart_chain_cooldown_ms auto_restart_chain_min_stall_checks
  by unfold_locales (auto simp: evaluateAutoRestart_def Let_def chain_constants split: if_splits)

interpretation p2p_mon: restart_monitor evaluateP2pRestart pi_now p2_lastRestartAt p2_noPeersCount
  auto_restart_p2p_cooldown_ms auto_restart_p2p_min_no_peers_checks
  by unfold_locales (auto simp: evaluateP2pRestart_def Let_def chain_constants split: if_splits)

lemma spaced_append_Cons: "0 \<le> d \<Longrightarrow> spaced d (xs @ ys) \<Longrightarrow> spaced d ys"
proof (induction xs)
  case (Cons x xs)
  then show ?case by (cases "xs @ ys") auto
qed simp

section \<open>Properties\<close>

text \<open>the chain monitor asks for a restart exactly when the node is more than 100 blocks behind the
  public head, this check makes at least two stalled checks in a row, and five minutes have passed
  since the last restart (or there was none).\<close>

theorem chain_restart_fires_iff:
  "fst (evaluateAutoRestart s i) \<longleftrightarrow>
     100 < sync_gap i \<and> stalled s i \<and> 1 \<le> ar_stallCount s \<and>
     (ar_lastRestartAt s \<le> 0 \<or> 300000 \<le> ai_now i - ar_lastRestartAt s)"
  by (auto simp: evaluateAutoRestart_def Let_def chain_constants)

text \<open>C32: over any run of checks from the initial state, two restarts of the chain component are at
  least five minutes apart, and a run of \<open>n\<close> checks asks for at most \<open>n/2\<close> restarts.\<close>

theorem chain_restarts_spaced:
  assumes "\<forall>i \<in> set is. 0 < ai_now i"
  shows "spaced 300000 (fire_times evaluateAutoRestart ai_now createAutoRestartState is) \<and>
         2 * length (fire_times evaluateAutoRestart ai_now createAutoRestartState is) \<le> length is"
  using chain_mon.fires_are_spaced [OF assms, of createAutoRestartState]
    chain_mon.fires_cost_checks [of createAutoRestartState "is"]
  by (simp add: chain_constants createAutoRestartState_def)

definition stalled_check :: "int \<Rightarrow> auto_restart_input" where
  "stalled_check t = \<lparr>ai_localHeight = Some 10, ai_publicHeight = Some 5000, ai_now = t\<rparr>"

theorem chain_restarts_spaced_witness:
  "fire_times evaluateAutoRestart ai_now createAutoRestartState
     (map stalled_check [1000, 16000, 31000, 46000, 61000, 316000, 331000]) = [31000, 331000] \<and>
   spaced 300000 [31000, 331000] \<and> 2 * length [31000::int, 331000] \<le> 7"
proof -
  let ?is = "map stalled_check [1000, 16000, 31000, 46000, 61000, 316000, 331000]"
  have pos: "\<forall>i \<in> set ?is. 0 < ai_now i" by (simp add: stalled_check_def)
  have run: "fire_times evaluateAutoRestart ai_now createAutoRestartState ?is = [31000, 331000]"
    by code_simp
  show ?thesis using chain_restarts_spaced [OF pos] run by simp
qed

text \<open>over any run of checks from the initial state, two restarts of the p2p component are at
  least five minutes apart and each costs two checks; and a check fires only with the component
  running, no peer, and a sync gap.\<close>

theorem p2p_restarts_spaced:
  assumes "\<forall>i \<in> set is. 0 < pi_now i"
  shows "spaced 300000 (fire_times evaluateP2pRestart pi_now createP2pRestartState is) \<and>
         2 * length (fire_times evaluateP2pRestart pi_now createP2pRestartState is) \<le> length is \<and>
         (\<forall>s i. fst (evaluateP2pRestart s i) \<longrightarrow> pi_p2pRunning i \<and> pi_syncGapExists i \<and> pi_peerCount i \<le> 0)"
  using p2p_mon.fires_are_spaced [OF assms, of createP2pRestartState]
    p2p_mon.fires_cost_checks [of createP2pRestartState "is"]
  by (auto simp: chain_constants createP2pRestartState_def evaluateP2pRestart_def Let_def split: if_splits)

definition lonely_check :: "int \<Rightarrow> p2p_restart_input" where
  "lonely_check t = \<lparr>pi_peerCount = 0, pi_syncGapExists = True, pi_p2pRunning = True, pi_now = t\<rparr>"

theorem p2p_restarts_spaced_witness:
  "fire_times evaluateP2pRestart pi_now createP2pRestartState
     (map lonely_check [1000, 16000, 31000, 301000, 316000]) = [16000, 316000] \<and>
   spaced 300000 [16000, 316000] \<and> 2 * length [16000::int, 316000] \<le> 5"
proof -
  let ?is = "map lonely_check [1000, 16000, 31000, 301000, 316000]"
  have pos: "\<forall>i \<in> set ?is. 0 < pi_now i" by (simp add: lonely_check_def)
  have run: "fire_times evaluateP2pRestart pi_now createP2pRestartState ?is = [16000, 316000]" by code_simp
  show ?thesis using p2p_restarts_spaced [OF pos] run by simp
qed

end
