(* ===== verification/JsValue.thy ===== *)
theory JsValue
  imports JsPrelude
begin

text \<open>
  Values of type \<open>unknown\<close>: what the code reads from persisted JSON, IPC payloads and
  parsed configuration before it has checked the shape. A number is a rational or one of the
  three special values (rounding is in JsNumber, for the amounts that need it); an object is its list of
  own properties in insertion order, one per key.
\<close>

datatype jsnum = NaN | PosInf | NegInf | Fin rat

datatype jsval =
    JUndefined
  | JNull
  | JBool bool
  | JNum jsnum
  | JStr string
  | JArr "jsval list"
  | JObj "(string \<times> jsval) list"

text \<open>The test \<open>if (v)\<close>.\<close>

fun truthy :: "jsval \<Rightarrow> bool" where
  "truthy JUndefined = False"
| "truthy JNull = False"
| "truthy (JBool b) = b"
| "truthy (JNum NaN) = False"
| "truthy (JNum (Fin r)) = (r \<noteq> 0)"
| "truthy (JNum _) = True"
| "truthy (JStr s) = (s \<noteq> [])"
| "truthy (JArr _) = True"
| "truthy (JObj _) = True"

text \<open>\<open>o[k]\<close>, and the optional chain \<open>o?.k\<close>: a missing property, and a property of
  a value that is no object, is \<open>undefined\<close>.\<close>

fun js_prop :: "string \<Rightarrow> jsval \<Rightarrow> jsval" where
  "js_prop k (JObj ps) = (case map_of ps k of None \<Rightarrow> JUndefined | Some v \<Rightarrow> v)"
| "js_prop k _ = JUndefined"

text \<open>\<open>typeof v === 'string' ? v : fallback\<close>.\<close>

fun str_or :: "string \<Rightarrow> jsval \<Rightarrow> string" where
  "str_or d (JStr s) = s"
| "str_or d _ = d"

definition finite_num :: "jsval \<Rightarrow> rat option" where
  "finite_num v = (case v of JNum (Fin r) \<Rightarrow> Some r | _ \<Rightarrow> None)"

text \<open>A file that should hold JSON: absent, not parseable, or with the value it holds.\<close>

datatype stored_file = Missing | Garbled | Content jsval

end
