(* ===== verification/Networks.thy ===== *)
theory Networks
  imports JsValue
begin

text \<open>
  The three Koinos networks and what each fixes: src/app/network.ts and
  src/app/public-bootstrap.ts on the renderer side, electron/lib/network-profiles.ts in the
  main process. The two sides keep their own copies of the tables; \<open>rpc_urls_agree\<close> shows
  that the copies agree.
\<close>

section \<open>src/app/network.ts\<close>

datatype network = Mainnet | Testnet | Custom

fun network_str :: "network \<Rightarrow> string" where
  "network_str Mainnet = ''mainnet''"
| "network_str Testnet = ''testnet''"
| "network_str Custom = ''custom''"

definition mainnet_public_rpc_urls :: "string list" where
  "mainnet_public_rpc_urls = [''https://api.koinos.io/'', ''https://api.koinosblocks.com/'']"

definition testnet_public_rpc_urls :: "string list" where
  "testnet_public_rpc_urls = [''https://testnet.koinosfoundation.org/jsonrpc'']"

record network_option =
  no_id :: network
  no_label :: string
  no_description :: string

definition koinos_network_options :: "network_option list" where
  "koinos_network_options =
     [\<lparr>no_id = Mainnet, no_label = ''Mainnet'',
       no_description = ''Koinos mainnet with local JSON-RPC on 8080 by default.''\<rparr>,
      \<lparr>no_id = Testnet, no_label = ''Testnet'',
       no_description = ''Koinos Foundation public testnet with local JSON-RPC on 18122 by default.''\<rparr>,
      \<lparr>no_id = Custom, no_label = ''Custom'',
       no_description = ''Use manually edited node config and endpoints.''\<rparr>]"

definition normalizeKoinosNetworkId :: "jsval \<Rightarrow> network" where
  "normalizeKoinosNetworkId value =
     (if value = JStr ''testnet'' then Testnet
      else if value = JStr ''custom'' then Custom
      else Mainnet)"

definition publicRpcUrlsForNetwork :: "network \<Rightarrow> string list" where
  "publicRpcUrlsForNetwork n =
     (if n = Testnet then testnet_public_rpc_urls else mainnet_public_rpc_urls)"

definition nativeTokenSymbolForNetwork :: "network \<Rightarrow> string" where
  "nativeTokenSymbolForNetwork n = (if n = Testnet then ''vKOIN'' else ''KOIN'')"

section \<open>src/app/public-bootstrap.ts\<close>

definition testnet_public_bootstrap_url :: string where
  "testnet_public_bootstrap_url = ''https://testnet.koinosfoundation.org/backups/testnet/teleno-bootstrap''"

definition mainnet_public_bootstrap_url :: string where
  "mainnet_public_bootstrap_url = ''https://seed.koinosfoundation.org/backups/prodnet/teleno-bootstrap''"

definition publicBootstrapUrlForNetwork :: "network \<Rightarrow> string" where
  "publicBootstrapUrlForNetwork n =
     (if n = Testnet then testnet_public_bootstrap_url
      else if n = Mainnet then mainnet_public_bootstrap_url
      else [])"

definition publicBootstrapDescriptionForNetwork :: "network \<Rightarrow> string" where
  "publicBootstrapDescriptionForNetwork n =
     (if n = Mainnet then
        ''Official read-only prodnet public backups for new mainnet nodes. Restore starts as an observer with block production disabled.''
      else if n = Testnet then
        ''Read-only signed testnet public backups for new testnet nodes. No SSH credentials are required.''
      else ''Public backup restore is not available for custom networks.'')"

section \<open>electron/lib/network-profiles.ts\<close>

record network_contracts =
  nc_koin :: string
  nc_vhp :: string
  nc_pob :: string

record network_profile =
  np_id :: network
  np_label :: string
  np_defaultProfiles :: "string list"
  np_publicRpcUrls :: "string list"
  np_peerAddresses :: "string list"
  np_p2pListen :: string
  np_jsonrpcListen :: string
  np_blockchainBackupUrl :: "string option"
  np_chainId :: "string option"
  np_contracts :: network_contracts

definition profile_mainnet_rpc_urls :: "string list" where
  "profile_mainnet_rpc_urls = [''https://api.koinos.io/'', ''https://api.koinosblocks.com/'']"

definition profile_testnet_rpc_urls :: "string list" where
  "profile_testnet_rpc_urls = [''https://testnet.koinosfoundation.org/jsonrpc'']"

definition mainnet_blockchain_backup_url :: string where
  "mainnet_blockchain_backup_url =
     ''http://seed.koinosfoundation.org/backups/koinos_blockchain_backup.tar.gz''"

definition mainnet_contracts :: network_contracts where
  "mainnet_contracts =
     \<lparr>nc_koin = ''19GYjDBVXU7keLbYvMLazsGQn3GTWHjHkK'',
      nc_vhp = ''12Y5vW6gk8GceH53YfRkRre2Rrcsgw7Naq'',
      nc_pob = ''159myq5YUhhoVWu3wsHKHiJYKPKGUrGiyv''\<rparr>"

definition testnet_contracts :: network_contracts where
  "testnet_contracts =
     \<lparr>nc_koin = ''1FaSvLjQJsCJKq5ybmGsMMQs8RQYyVv8ju'',
      nc_vhp = ''17n12ktwN79sR6ia9DDgCfmw77EgpbTyBi'',
      nc_pob = ''1MAbK5pYkhp9yHnfhYamC3tfSLmVRTDjd9''\<rparr>"

definition mainnet_peer_addresses :: "string list" where
  "mainnet_peer_addresses =
    [''/ip4/46.62.204.73/tcp/8888/p2p/QmPcF1YrxamfKGpyvP6uAZcPxnmK2WUBC4K4N5ZaWky8Sh'',
     ''/ip4/37.27.7.221/tcp/8888/p2p/QmY8NBHwoVrxBvrjS3wQoeTmWG4UUKMxmYHss7QYRXktrs'',
     ''/ip4/95.216.68.185/tcp/8888/p2p/QmeTy5SE79ksZruNZ1DJJqR6UCe1oZvWcYaUnn6MuYE8Ea'',
     ''/ip4/46.62.245.240/tcp/8888/p2p/QmWmxqE6WhcMWZEKwqUAbu87Qgm6JroZLdM4Xmxouu1Mmi'',
     ''/ip4/94.130.148.114/tcp/8888/p2p/QmQ841mUuYeCtbZXdEMeKcYCx4CZydgz84zSDqWVCeJ4H8'']"

definition testnet_peer_addresses :: "string list" where
  "testnet_peer_addresses =
    [''/dns4/testnet.koinosfoundation.org/tcp/8888/p2p/QmYV414G6xRzkSUytntEsBsCSjXrVGubfYJn4vpeER2s2W'']"

definition koinos_network_profiles :: "network \<Rightarrow> network_profile" where
  "koinos_network_profiles n =
     (case n of
        Mainnet \<Rightarrow>
          \<lparr>np_id = Mainnet, np_label = ''Mainnet'', np_defaultProfiles = [''mainnet_observer''],
           np_publicRpcUrls = profile_mainnet_rpc_urls, np_peerAddresses = mainnet_peer_addresses,
           np_p2pListen = ''/ip4/0.0.0.0/tcp/8888'', np_jsonrpcListen = ''127.0.0.1:8080'',
           np_blockchainBackupUrl = Some mainnet_blockchain_backup_url, np_chainId = None,
           np_contracts = mainnet_contracts\<rparr>
      | Testnet \<Rightarrow>
          \<lparr>np_id = Testnet, np_label = ''Testnet'', np_defaultProfiles = [''testnet_observer''],
           np_publicRpcUrls = profile_testnet_rpc_urls, np_peerAddresses = testnet_peer_addresses,
           np_p2pListen = ''/ip4/0.0.0.0/tcp/18888'', np_jsonrpcListen = ''127.0.0.1:18122'',
           np_blockchainBackupUrl = None,
           np_chainId = Some ''EiAIKVvm6-V2qmsmUvPJy09vCCLbtn9lHFpwrJbcTIEWRQ=='',
           np_contracts = testnet_contracts\<rparr>
      | Custom \<Rightarrow>
          \<lparr>np_id = Custom, np_label = ''Custom'', np_defaultProfiles = [],
           np_publicRpcUrls = profile_mainnet_rpc_urls, np_peerAddresses = [],
           np_p2pListen = ''/ip4/0.0.0.0/tcp/8888'', np_jsonrpcListen = ''127.0.0.1:8080'',
           np_blockchainBackupUrl = None, np_chainId = None,
           np_contracts = mainnet_contracts\<rparr>)"

definition profile_normalizeKoinosNetworkId :: "jsval \<Rightarrow> network" where
  "profile_normalizeKoinosNetworkId value =
     (if value = JStr ''testnet'' then Testnet
      else if value = JStr ''custom'' then Custom
      else Mainnet)"

definition inferNetworkFromProfiles :: "string list option \<Rightarrow> network" where
  "inferNetworkFromProfiles profiles =
     (let profileSet = map js_trim (case profiles of None \<Rightarrow> [] | Some ps \<Rightarrow> ps)
      in if list_ex (\<lambda>p. js_starts_with p ''testnet_'' \<or> p = ''testnet'') profileSet
         then Testnet else Mainnet)"

definition resolveNetworkProfile :: "jsval \<Rightarrow> string list option \<Rightarrow> network_profile" where
  "resolveNetworkProfile net profiles =
     (if net = JUndefined \<or> net = JNull \<or> net = JStr []
      then koinos_network_profiles (inferNetworkFromProfiles profiles)
      else koinos_network_profiles (profile_normalizeKoinosNetworkId net))"

definition defaultProfilesForNetwork :: "network \<Rightarrow> string list" where
  "defaultProfilesForNetwork n = np_defaultProfiles (koinos_network_profiles n)"

definition profile_publicRpcUrlsForNetwork :: "network \<Rightarrow> string list" where
  "profile_publicRpcUrlsForNetwork n = np_publicRpcUrls (koinos_network_profiles n)"

definition primaryPublicRpcUrlForNetwork :: "network \<Rightarrow> string" where
  "primaryPublicRpcUrlForNetwork n =
     (case np_publicRpcUrls (koinos_network_profiles n) of
        u # _ \<Rightarrow> u
      | [] \<Rightarrow> hd profile_mainnet_rpc_urls)"

definition contractsForNetwork :: "network \<Rightarrow> network_contracts" where
  "contractsForNetwork n = np_contracts (koinos_network_profiles n)"

section \<open>Lemmas\<close>

lemma network_str_inj [simp]: "network_str a = network_str b \<longleftrightarrow> a = b"
  by (cases a; cases b) auto

lemma network_str_round_trip [simp]: "normalizeKoinosNetworkId (JStr (network_str n)) = n"
  by (cases n) (auto simp: normalizeKoinosNetworkId_def)

lemma rpc_urls_agree: "profile_publicRpcUrlsForNetwork n = publicRpcUrlsForNetwork n"
  by (cases n) (simp_all add: profile_publicRpcUrlsForNetwork_def publicRpcUrlsForNetwork_def
    koinos_network_profiles_def profile_mainnet_rpc_urls_def profile_testnet_rpc_urls_def
    mainnet_public_rpc_urls_def testnet_public_rpc_urls_def)

lemma normalize_agree: "profile_normalizeKoinosNetworkId v = normalizeKoinosNetworkId v"
  by (simp add: profile_normalizeKoinosNetworkId_def normalizeKoinosNetworkId_def)

lemma profile_id [simp]: "np_id (koinos_network_profiles n) = n"
  by (cases n) (simp_all add: koinos_network_profiles_def)

end
