(* ===== verification/FleetTypes.thy ===== *)
theory FleetTypes
  imports Networks
begin

text \<open>
  The data of the remote fleet planner, src/app/remote-nodes.ts lines 4-250: roles, runtime
  kinds, health states, the fleet node and inventory, actions, notices, plans and the provider
  metadata records. A union of string literals is a datatype with one constructor per literal
  and a \<open>*_str\<close> function giving the literal back where the code prints it.
\<close>

section \<open>Enumerations\<close>

datatype role = Observer | Producer | Standby | PublicBootstrapSource | PrivateBackupSource

fun role_str :: "role \<Rightarrow> string" where
  "role_str Observer = ''observer''"
| "role_str Producer = ''producer''"
| "role_str Standby = ''standby''"
| "role_str PublicBootstrapSource = ''public-bootstrap-source''"
| "role_str PrivateBackupSource = ''private-backup-source''"

datatype runtime_kind = Docker | Systemd

datatype health_state =
    HUnknown | HNeedsServer | HNeedsSpace | HInstalling | HRestoring | HStarting | HSyncing
  | HHealthy | HDegraded | HUnsafe | HStopped | HFailed

fun health_str :: "health_state \<Rightarrow> string" where
  "health_str HUnknown = ''unknown''"
| "health_str HNeedsServer = ''needs-server''"
| "health_str HNeedsSpace = ''needs-space''"
| "health_str HInstalling = ''installing''"
| "health_str HRestoring = ''restoring''"
| "health_str HStarting = ''starting''"
| "health_str HSyncing = ''syncing''"
| "health_str HHealthy = ''healthy''"
| "health_str HDegraded = ''degraded''"
| "health_str HUnsafe = ''unsafe''"
| "health_str HStopped = ''stopped''"
| "health_str HFailed = ''failed''"

datatype install_status = Planned | Installed | NeedsUpgrade | InstallUnknown

fun install_status_str :: "install_status \<Rightarrow> string" where
  "install_status_str Planned = ''planned''"
| "install_status_str Installed = ''installed''"
| "install_status_str NeedsUpgrade = ''needs-upgrade''"
| "install_status_str InstallUnknown = ''unknown''"

datatype restore_status = NotRestored | Restored | NeedsRestore | RestoreUnknown

fun restore_status_str :: "restore_status \<Rightarrow> string" where
  "restore_status_str NotRestored = ''not-restored''"
| "restore_status_str Restored = ''restored''"
| "restore_status_str NeedsRestore = ''needs-restore''"
| "restore_status_str RestoreUnknown = ''unknown''"

datatype action =
    ProdnetObserverProof | InstallObserver | RestorePublicBootstrap | StartObserver | Status
  | Logs | Stop | Restart | Upgrade | Rollback | Cleanup

fun action_str :: "action \<Rightarrow> string" where
  "action_str ProdnetObserverProof = ''prodnet-observer-proof''"
| "action_str InstallObserver = ''install-observer''"
| "action_str RestorePublicBootstrap = ''restore-public-bootstrap''"
| "action_str StartObserver = ''start-observer''"
| "action_str Status = ''status''"
| "action_str Logs = ''logs''"
| "action_str Stop = ''stop''"
| "action_str Restart = ''restart''"
| "action_str Upgrade = ''upgrade''"
| "action_str Rollback = ''rollback''"
| "action_str Cleanup = ''cleanup''"

datatype notice_code =
    ObserverFirstRequired | ProducerUnavailable | MainnetMutationBlocked | PublicAdminBlocked
  | JsonrpcPublicBlocked | RawHostRefBlocked | SecretReferenceBlocked | DuplicateNodeId
  | DuplicateBaseDir | DuplicatePort | DuplicateProducerProfile | PublicBootstrapMissing
  | DestructiveConfirmationRequired | ProdnetConfirmationRequired | ProdnetArtifactTrustRequired
  | ProdnetBootstrapPolicyRequired | ProdnetDryRunProofRequired | ProdnetBatchMutationBlocked
  | DryRunOnly

datatype plan_phase =
    PhPreflight | PhArtifact | PhTrust | PhProof | PhPrepare | PhConfig | PhBootstrap | PhRuntime
  | PhVerify | PhDiagnostics | PhPreserve | PhReceipt | PhRollback | PhCleanup

fun phase_str :: "plan_phase \<Rightarrow> string" where
  "phase_str PhPreflight = ''preflight''"
| "phase_str PhArtifact = ''artifact''"
| "phase_str PhTrust = ''trust''"
| "phase_str PhProof = ''proof''"
| "phase_str PhPrepare = ''prepare''"
| "phase_str PhConfig = ''config''"
| "phase_str PhBootstrap = ''bootstrap''"
| "phase_str PhRuntime = ''runtime''"
| "phase_str PhVerify = ''verify''"
| "phase_str PhDiagnostics = ''diagnostics''"
| "phase_str PhPreserve = ''preserve''"
| "phase_str PhReceipt = ''receipt''"
| "phase_str PhRollback = ''rollback''"
| "phase_str PhCleanup = ''cleanup''"

datatype rollout_node_status =
    RsPending | RsReviewing | RsConfirmed | RsRunning | RsSkipped | RsFailed | RsComplete

section \<open>Fleet nodes and inventories\<close>

record node_runtime =
  rt_kind :: runtime_kind
  rt_image :: string
  rt_expectedVersion :: string
  rt_serviceName :: string

record node_paths =
  pt_baseDir :: string
  pt_config :: string

record node_ports =
  po_jsonrpcHostBind :: string
  po_p2pPublic :: string
  po_backupAdminListen :: string

record node_backup =
  bk_publicBootstrapUrl :: string
  bk_privateBackupPolicyRef :: string

record node_trust =
  tr_artifactDigest :: string
  tr_artifactSignatureRef :: string
  tr_bootstrapPolicyId :: string
  tr_bootstrapPolicyDigest :: string
  tr_prodnetObserverProofRef :: string

record node_producer =
  pr_enabled :: bool
  pr_profileRef :: string

record node_safety =
  sf_observerFirstRequired :: bool
  sf_mainnetMutationAllowed :: bool
  sf_remoteAdminPublicExposureAllowed :: bool

text \<open>
  The three status words are declared as unions, but the code copies them from its input
  without a check, so they are values of any kind here.
\<close>

record node_status =
  st_installStatus :: jsval
  st_restoreStatus :: jsval
  st_version :: string
  st_health :: jsval
  st_lastCheck :: string

record fleet_node =
  n_id :: string
  n_label :: string
  n_network :: network
  n_role :: role
  n_environment :: string
  n_hostRef :: string
  n_connectionRef :: string
  n_runtime :: node_runtime
  n_paths :: node_paths
  n_ports :: node_ports
  n_backup :: node_backup
  n_trust :: node_trust
  n_producer :: node_producer
  n_safety :: node_safety
  n_status :: node_status

record inventory =
  inv_version :: nat
  inv_nodes :: "fleet_node list"

section \<open>Notices, steps and plans\<close>

record notice =
  nt_code :: notice_code
  nt_field :: "string option"
  nt_value :: "string option"

record command_step =
  cs_phase :: plan_phase
  cs_command :: string
  cs_hostMutation :: bool
  cs_chainMutation :: bool
  cs_destructive :: bool

record command_plan =
  cp_action :: action
  cp_nodeId :: string
  cp_blocked :: bool
  cp_notices :: "notice list"
  cp_steps :: "command_step list"

record rollout_entry =
  re_nodeId :: string
  re_label :: string
  re_network :: network
  re_status :: rollout_node_status
  re_plan :: command_plan
  re_blocked :: bool
  re_stepCount :: nat
  re_notices :: "notice list"
  re_confirmationPhrase :: string

record rollout_plan =
  rp_action :: action
  rp_nodeIds :: "string list"
  rp_entries :: "rollout_entry list"
  rp_blocked :: bool
  rp_stepCount :: nat
  rp_networks :: "network list"

section \<open>Provider metadata\<close>

datatype address_presence = AddrUnknown | AddrAbsent | AddrPresentRedacted

record provider_instance =
  pv_providerName :: string
  pv_instanceRef :: string
  pv_label :: string
  pv_region :: string
  pv_os :: string
  pv_cpuSummary :: string
  pv_ramSummary :: string
  pv_diskSummary :: string
  pv_lifecycleState :: string
  pv_publicAddress :: address_presence
  pv_privateAddress :: address_presence
  pv_suggestedSshAlias :: string

datatype import_issue_code =
    EmptyInput | UnsupportedFormat | SecretBlocked | RawAddressBlocked | RawHostBlocked
  | UserReferenceBlocked | PrivatePathBlocked | DuplicateInstance

record import_issue =
  ii_code :: import_issue_code
  ii_field :: "string option"
  ii_value :: "string option"

record import_result =
  ir_ok :: bool
  ir_redactedPreview :: string
  ir_instances :: "provider_instance list"
  ir_nodes :: "fleet_node list"
  ir_issues :: "import_issue list"

record import_options =
  io_network :: "network option"
  io_existingInventory :: "inventory option"

section \<open>Constants\<close>

definition default_image :: string where
  "default_image = ''ghcr.io/koinos/teleno-node:beta''"

definition default_version :: string where
  "default_version = ''<teleno_node-version-or-commit>''"

definition prodnet_bootstrap_policy_id :: string where
  "prodnet_bootstrap_policy_id = ''prodnet-public-bootstrap-v1''"

definition prodnet_bootstrap_policy_digest :: string where
  "prodnet_bootstrap_policy_digest =
     ''sha256:70726f646e65742d7075626c69632d626f6f7473747261702d76310000000000''"

definition default_testnet_jsonrpc_bind :: string where
  "default_testnet_jsonrpc_bind = ''127.0.0.1:18122''"

definition default_mainnet_jsonrpc_bind :: string where
  "default_mainnet_jsonrpc_bind = ''127.0.0.1:18080''"

definition default_testnet_p2p_public :: string where
  "default_testnet_p2p_public = ''28890''"

definition default_mainnet_p2p_public :: string where
  "default_mainnet_p2p_public = ''18889''"

definition default_testnet_backup_admin :: string where
  "default_testnet_backup_admin = ''127.0.0.1:18188''"

definition default_mainnet_backup_admin :: string where
  "default_mainnet_backup_admin = ''127.0.0.1:18088''"

definition testnet_p2p_peers :: "string list" where
  "testnet_p2p_peers =
    [''/dns4/testnet.koinosfoundation.org/tcp/8888/p2p/QmYV414G6xRzkSUytntEsBsCSjXrVGubfYJn4vpeER2s2W'']"

definition mainnet_p2p_peers :: "string list" where
  "mainnet_p2p_peers =
    [''/ip4/46.62.204.73/tcp/8888/p2p/QmPcF1YrxamfKGpyvP6uAZcPxnmK2WUBC4K4N5ZaWky8Sh'',
     ''/ip4/37.27.7.221/tcp/8888/p2p/QmY8NBHwoVrxBvrjS3wQoeTmWG4UUKMxmYHss7QYRXktrs'',
     ''/ip4/95.216.68.185/tcp/8888/p2p/QmeTy5SE79ksZruNZ1DJJqR6UCe1oZvWcYaUnn6MuYE8Ea'',
     ''/ip4/46.62.245.240/tcp/8888/p2p/QmWmxqE6WhcMWZEKwqUAbu87Qgm6JroZLdM4Xmxouu1Mmi'',
     ''/ip4/94.130.148.114/tcp/8888/p2p/QmQ841mUuYeCtbZXdEMeKcYCx4CZydgz84zSDqWVCeJ4H8'']"

section \<open>Lemmas\<close>

lemma action_str_inj [simp]: "action_str a = action_str b \<longleftrightarrow> a = b"
  by (cases a; cases b) simp_all

lemma role_str_inj [simp]: "role_str a = role_str b \<longleftrightarrow> a = b"
  by (cases a; cases b) simp_all

lemma health_str_inj [simp]: "health_str a = health_str b \<longleftrightarrow> a = b"
  by (cases a; cases b) simp_all

end
