(* ===== verification/FleetNormalize.thy ===== *)
theory FleetNormalize
  imports FleetTypes
begin

text \<open>
  src/app/remote-nodes.ts lines 260-282 and 350-505: the \<open>safe*\<close> readers, the default node
  of a network, and the normalisation of a node and of an inventory read from storage. The
  input is a value of any shape (\<open>jsval\<close>). The object spreads \<open>...base, ...input\<close> of
  the code only matter for keys that are no field of a node: every declared field is written
  after them, so the resulting record does not depend on them.

  Main results: a normalised node satisfies \<open>normal_node\<close> whatever it was read from
  (\<open>normalize_normal\<close>), and storing and reading back a normalised node gives the same node
  (\<open>normalize_stored\<close>).
\<close>

section \<open>Readers of untrusted values\<close>

fun safeText :: "jsval \<Rightarrow> string \<Rightarrow> string" where
  "safeText (JStr s) fallback = (if js_trim s \<noteq> [] then js_trim s else fallback)"
| "safeText _ fallback = fallback"

definition safeNetwork :: "jsval \<Rightarrow> network" where
  "safeNetwork value =
     (if value = JStr ''testnet'' then Testnet
      else if value = JStr ''custom'' then Custom
      else Mainnet)"

definition safeRole :: "jsval \<Rightarrow> role" where
  "safeRole value =
     (if value = JStr ''producer'' then Producer
      else if value = JStr ''standby'' then Standby
      else if value = JStr ''public-bootstrap-source'' then PublicBootstrapSource
      else if value = JStr ''private-backup-source'' then PrivateBackupSource
      else Observer)"

definition safeRuntimeKind :: "jsval \<Rightarrow> runtime_kind" where
  "safeRuntimeKind value = (if value = JStr ''systemd'' then Systemd else Docker)"

text \<open>The operator \<open>??\<close>.\<close>

fun nullish_or :: "jsval \<Rightarrow> jsval \<Rightarrow> jsval" where
  "nullish_or JUndefined d = d"
| "nullish_or JNull d = d"
| "nullish_or v d = v"

section \<open>Defaults\<close>

definition recommendedRemoteBaseDir :: "network \<Rightarrow> string \<Rightarrow> string" where
  "recommendedRemoteBaseDir net i =
     ''~/koinos-one/nodes/'' @ network_str net @ ''/'' @ i @ ''/basedir''"

definition defaultJsonRpcBind :: "network \<Rightarrow> string" where
  "defaultJsonRpcBind net =
     (if net = Testnet then default_testnet_jsonrpc_bind else default_mainnet_jsonrpc_bind)"

definition defaultP2pPublic :: "network \<Rightarrow> string" where
  "defaultP2pPublic net =
     (if net = Testnet then default_testnet_p2p_public else default_mainnet_p2p_public)"

definition defaultBackupAdminListen :: "network \<Rightarrow> string" where
  "defaultBackupAdminListen net =
     (if net = Testnet then default_testnet_backup_admin else default_mainnet_backup_admin)"

definition default_environment :: "network \<Rightarrow> string" where
  "default_environment net = (if net = Mainnet then ''prodnet'' else network_str net)"

definition defaultNode :: "string \<Rightarrow> network \<Rightarrow> fleet_node" where
  "defaultNode i net =
     (let baseDir = recommendedRemoteBaseDir net i
      in \<lparr>n_id = i, n_label = i, n_network = net, n_role = Observer,
          n_environment = default_environment net,
          n_hostRef = ''host-'' @ i, n_connectionRef = ''ssh-'' @ i,
          n_runtime = \<lparr>rt_kind = Docker, rt_image = default_image,
            rt_expectedVersion = default_version, rt_serviceName = []\<rparr>,
          n_paths = \<lparr>pt_baseDir = baseDir, pt_config = baseDir @ ''/config.yml''\<rparr>,
          n_ports = \<lparr>po_jsonrpcHostBind = defaultJsonRpcBind net, po_p2pPublic = defaultP2pPublic net,
            po_backupAdminListen = defaultBackupAdminListen net\<rparr>,
          n_backup = \<lparr>bk_publicBootstrapUrl =
              js_or (publicBootstrapUrlForNetwork net) ''<public-bootstrap-url>'',
            bk_privateBackupPolicyRef = []\<rparr>,
          n_trust = \<lparr>tr_artifactDigest = [], tr_artifactSignatureRef = [],
            tr_bootstrapPolicyId = (if net = Mainnet then prodnet_bootstrap_policy_id else []),
            tr_bootstrapPolicyDigest = (if net = Mainnet then prodnet_bootstrap_policy_digest else []),
            tr_prodnetObserverProofRef = []\<rparr>,
          n_producer = \<lparr>pr_enabled = False, pr_profileRef = []\<rparr>,
          n_safety = \<lparr>sf_observerFirstRequired = True, sf_mainnetMutationAllowed = False,
            sf_remoteAdminPublicExposureAllowed = False\<rparr>,
          n_status = \<lparr>st_installStatus = JStr (install_status_str Planned),
            st_restoreStatus = JStr (restore_status_str NotRestored), st_version = default_version,
            st_health = JStr (health_str HUnknown), st_lastCheck = []\<rparr>\<rparr>)"

definition defaultRemoteFleetInventory :: inventory where
  "defaultRemoteFleetInventory =
     \<lparr>inv_version = 1,
      inv_nodes =
        [(defaultNode ''prodnet-observer-a'' Mainnet)\<lparr>n_label := ''Prodnet Observer A''\<rparr>,
         (defaultNode ''testnet-observer-a'' Testnet)\<lparr>n_label := ''Testnet Observer A'',
            n_environment := ''testnet''\<rparr>]\<rparr>"

section \<open>Normalisation\<close>

text \<open>\<open>input.group?.field\<close>.\<close>

definition field2 :: "jsval \<Rightarrow> string \<Rightarrow> string \<Rightarrow> jsval" where
  "field2 input g f = js_prop f (js_prop g input)"

definition normalizeRemoteFleetNode :: "jsval \<Rightarrow> fleet_node" where
  "normalizeRemoteFleetNode input =
     (let i = safeText (js_prop ''id'' input) ''remote-node'';
          net = safeNetwork (js_prop ''network'' input);
          base = defaultNode i net;
          baseDir = safeText (field2 input ''paths'' ''baseDir'') (pt_baseDir (n_paths base))
      in \<lparr>n_id = i,
          n_label = safeText (js_prop ''label'' input) (n_label base),
          n_network = net,
          n_role = safeRole (js_prop ''role'' input),
          n_environment = safeText (js_prop ''environment'' input) (n_environment base),
          n_hostRef = safeText (js_prop ''hostRef'' input) (n_hostRef base),
          n_connectionRef = safeText (js_prop ''connectionRef'' input) (n_connectionRef base),
          n_runtime = \<lparr>
            rt_kind = safeRuntimeKind (field2 input ''runtime'' ''kind''),
            rt_image = safeText (field2 input ''runtime'' ''image'') (rt_image (n_runtime base)),
            rt_expectedVersion = safeText (field2 input ''runtime'' ''expectedVersion'')
              (rt_expectedVersion (n_runtime base)),
            rt_serviceName = safeText (field2 input ''runtime'' ''serviceName'')
              (rt_serviceName (n_runtime base))\<rparr>,
          n_paths = \<lparr>
            pt_baseDir = baseDir,
            pt_config = safeText (field2 input ''paths'' ''config'') (baseDir @ ''/config.yml'')\<rparr>,
          n_ports = \<lparr>
            po_jsonrpcHostBind = safeText (field2 input ''ports'' ''jsonrpcHostBind'')
              (po_jsonrpcHostBind (n_ports base)),
            po_p2pPublic = safeText (field2 input ''ports'' ''p2pPublic'') (po_p2pPublic (n_ports base)),
            po_backupAdminListen = safeText (field2 input ''ports'' ''backupAdminListen'')
              (po_backupAdminListen (n_ports base))\<rparr>,
          n_backup = \<lparr>
            bk_publicBootstrapUrl = safeText (field2 input ''backup'' ''publicBootstrapUrl'')
              (bk_publicBootstrapUrl (n_backup base)),
            bk_privateBackupPolicyRef = safeText (field2 input ''backup'' ''privateBackupPolicyRef'') []\<rparr>,
          n_trust = \<lparr>
            tr_artifactDigest = safeText (field2 input ''trust'' ''artifactDigest'')
              (tr_artifactDigest (n_trust base)),
            tr_artifactSignatureRef = safeText (field2 input ''trust'' ''artifactSignatureRef'')
              (tr_artifactSignatureRef (n_trust base)),
            tr_bootstrapPolicyId = safeText (field2 input ''trust'' ''bootstrapPolicyId'')
              (tr_bootstrapPolicyId (n_trust base)),
            tr_bootstrapPolicyDigest = safeText (field2 input ''trust'' ''bootstrapPolicyDigest'')
              (tr_bootstrapPolicyDigest (n_trust base)),
            tr_prodnetObserverProofRef = safeText (field2 input ''trust'' ''prodnetObserverProofRef'')
              (tr_prodnetObserverProofRef (n_trust base))\<rparr>,
          n_producer = \<lparr>
            pr_enabled = (field2 input ''producer'' ''enabled'' = JBool True),
            pr_profileRef = safeText (field2 input ''producer'' ''profileRef'') []\<rparr>,
          n_safety = \<lparr>
            sf_observerFirstRequired =
              (field2 input ''safety'' ''observerFirstRequired'' \<noteq> JBool False),
            sf_mainnetMutationAllowed =
              (field2 input ''safety'' ''mainnetMutationAllowed'' = JBool True),
            sf_remoteAdminPublicExposureAllowed =
              (field2 input ''safety'' ''remoteAdminPublicExposureAllowed'' = JBool True)\<rparr>,
          n_status = \<lparr>
            st_installStatus = nullish_or (field2 input ''status'' ''installStatus'')
              (st_installStatus (n_status base)),
            st_restoreStatus = nullish_or (field2 input ''status'' ''restoreStatus'')
              (st_restoreStatus (n_status base)),
            st_version = safeText (field2 input ''status'' ''version'') (st_version (n_status base)),
            st_health = nullish_or (field2 input ''status'' ''health'') (st_health (n_status base)),
            st_lastCheck = safeText (field2 input ''status'' ''lastCheck'') []\<rparr>\<rparr>)"

text \<open>An absent inventory, and one with no nodes, is replaced by the default one.\<close>

definition normalizeRemoteFleetInventory :: "jsval \<Rightarrow> inventory" where
  "normalizeRemoteFleetInventory input =
     (case js_prop ''nodes'' input of
        JArr (v # vs) \<Rightarrow> \<lparr>inv_version = 1, inv_nodes = map normalizeRemoteFleetNode (v # vs)\<rparr>
      | _ \<Rightarrow> defaultRemoteFleetInventory)"

section \<open>What a normalised node satisfies\<close>

definition trimmed :: "string \<Rightarrow> bool" where
  "trimmed s \<longleftrightarrow> js_trim s = s"

definition normal_text :: "string \<Rightarrow> bool" where
  "normal_text s \<longleftrightarrow> trimmed s \<and> s \<noteq> []"

definition normal_node :: "fleet_node \<Rightarrow> bool" where
  "normal_node n \<longleftrightarrow>
     normal_text (n_id n) \<and> normal_text (n_label n) \<and> normal_text (n_environment n) \<and>
     normal_text (n_hostRef n) \<and> normal_text (n_connectionRef n) \<and>
     normal_text (rt_image (n_runtime n)) \<and> normal_text (rt_expectedVersion (n_runtime n)) \<and>
     trimmed (rt_serviceName (n_runtime n)) \<and>
     normal_text (pt_baseDir (n_paths n)) \<and> normal_text (pt_config (n_paths n)) \<and>
     normal_text (po_jsonrpcHostBind (n_ports n)) \<and> normal_text (po_p2pPublic (n_ports n)) \<and>
     normal_text (po_backupAdminListen (n_ports n)) \<and>
     normal_text (bk_publicBootstrapUrl (n_backup n)) \<and>
     trimmed (bk_privateBackupPolicyRef (n_backup n)) \<and>
     trimmed (tr_artifactDigest (n_trust n)) \<and> trimmed (tr_artifactSignatureRef (n_trust n)) \<and>
     trimmed (tr_bootstrapPolicyId (n_trust n)) \<and> trimmed (tr_bootstrapPolicyDigest (n_trust n)) \<and>
     trimmed (tr_prodnetObserverProofRef (n_trust n)) \<and> trimmed (pr_profileRef (n_producer n)) \<and>
     (n_network n = Mainnet \<longrightarrow>
        tr_bootstrapPolicyId (n_trust n) \<noteq> [] \<and> tr_bootstrapPolicyDigest (n_trust n) \<noteq> []) \<and>
     st_installStatus (n_status n) \<notin> {JUndefined, JNull} \<and>
     st_restoreStatus (n_status n) \<notin> {JUndefined, JNull} \<and>
     normal_text (st_version (n_status n)) \<and> st_health (n_status n) \<notin> {JUndefined, JNull} \<and>
     trimmed (st_lastCheck (n_status n))"

lemma trimmed_Nil [simp]: "trimmed []"
  by (simp add: trimmed_def js_trim_def)

lemma js_trim_id:
  assumes "s \<noteq> []" "\<not> is_space (hd s)" "\<not> is_space (last s)"
  shows "js_trim s = s"
proof -
  have "dropWhile is_space s = s" "dropWhile is_space (rev s) = rev s"
    using assms by (auto intro!: dropWhile_id simp: hd_rev)
  then show ?thesis by (simp add: js_trim_def)
qed

lemma normal_textI: "s \<noteq> [] \<Longrightarrow> \<not> is_space (hd s) \<Longrightarrow> \<not> is_space (last s) \<Longrightarrow> normal_text s"
  by (simp add: normal_text_def trimmed_def js_trim_id)

lemma normal_textD:
  assumes "normal_text s" shows "s \<noteq> []" "\<not> is_space (hd s)" "\<not> is_space (last s)"
  using assms js_trim_no_space_ends [of s] by (auto simp: normal_text_def trimmed_def)

lemma normal_text_append: "normal_text a \<Longrightarrow> normal_text b \<Longrightarrow> normal_text (a @ b)"
  using normal_textD [of a] normal_textD [of b] by (intro normal_textI) simp_all

lemma normal_text_append3: "normal_text a \<Longrightarrow> normal_text c \<Longrightarrow> normal_text (a @ b @ c)"
  using normal_textD [of a] normal_textD [of c] by (intro normal_textI) simp_all

lemma trimmed_normal: "js_trim s \<noteq> [] \<Longrightarrow> normal_text (js_trim s)"
  by (simp add: normal_text_def trimmed_def)

lemma safeText_trimmed: "trimmed d \<Longrightarrow> trimmed (safeText v d)"
  by (cases v) (auto simp: trimmed_def)

lemma safeText_normal: "normal_text d \<Longrightarrow> normal_text (safeText v d)"
  by (cases v) (auto simp: trimmed_def normal_text_def)

lemma nullish_or_not_nullish [simp]:
  "nullish_or v (JStr d) \<noteq> JUndefined" "nullish_or v (JStr d) \<noteq> JNull"
  by (cases v; simp)+

lemma is_space_literals [simp]:
  "\<not> is_space (CHR ''~'')" "\<not> is_space (CHR ''h'')" "\<not> is_space (CHR ''s'')" "\<not> is_space (CHR ''r'')"
  "\<not> is_space (CHR ''-'')" "\<not> is_space (CHR ''/'')" "\<not> is_space (CHR ''l'')"
  by (simp_all add: is_space_def cu_def)

lemma normal_constants [simp]:
  "normal_text ''remote-node''" "normal_text default_image" "normal_text default_version"
  "normal_text prodnet_bootstrap_policy_id" "normal_text prodnet_bootstrap_policy_digest"
  "normal_text ''host-''" "normal_text ''ssh-''" "normal_text ''/config.yml''"
  "normal_text ''~/koinos-one/nodes/''" "normal_text ''/basedir''"
  by code_simp+

lemma normal_defaults [simp]:
  "normal_text (default_environment net)" "normal_text (defaultJsonRpcBind net)"
  "normal_text (defaultP2pPublic net)" "normal_text (defaultBackupAdminListen net)"
  "normal_text (js_or (publicBootstrapUrlForNetwork net) ''<public-bootstrap-url>'')"
proof -
  have "\<forall>net \<in> {Mainnet, Testnet, Custom}.
      normal_text (default_environment net) \<and> normal_text (defaultJsonRpcBind net) \<and>
      normal_text (defaultP2pPublic net) \<and> normal_text (defaultBackupAdminListen net) \<and>
      normal_text (js_or (publicBootstrapUrlForNetwork net) ''<public-bootstrap-url>'')"
    by code_simp
  moreover have "net \<in> {Mainnet, Testnet, Custom}" by (cases net) simp_all
  ultimately show "normal_text (default_environment net)" "normal_text (defaultJsonRpcBind net)"
    "normal_text (defaultP2pPublic net)" "normal_text (defaultBackupAdminListen net)"
    "normal_text (js_or (publicBootstrapUrlForNetwork net) ''<public-bootstrap-url>'')"
    by blast+
qed

lemma normal_baseDir [simp]: "normal_text (recommendedRemoteBaseDir net i)"
  unfolding recommendedRemoteBaseDir_def
  using normal_text_append3 [of "''~/koinos-one/nodes/''" "''/basedir''" "network_str net @ ''/'' @ i"]
    by simp

lemma normal_trimmed: "normal_text s \<Longrightarrow> trimmed s"
  by (simp add: normal_text_def)

lemma normal_not_Nil: "normal_text s \<Longrightarrow> s \<noteq> []"
  by (simp add: normal_text_def)

lemma safeText_not_Nil: "normal_text d \<Longrightarrow> safeText v d \<noteq> []"
  using safeText_normal [of d v] by (simp add: normal_text_def)

text \<open>The facts about defaults that the results below rest on.\<close>

lemmas normal_facts = safeText_normal safeText_trimmed safeText_not_Nil normal_text_append
  normal_trimmed

lemma normalize_normal: "normal_node (normalizeRemoteFleetNode v)"
  unfolding normal_node_def normalizeRemoteFleetNode_def Let_def defaultNode_def
  by (simp add: normal_facts del: append.simps safeText.simps)

section \<open>Storing and reading back\<close>

text \<open>The JSON object \<open>JSON.stringify\<close> writes for a node and \<open>JSON.parse\<close> reads.\<close>

fun kind_str :: "runtime_kind \<Rightarrow> string" where
  "kind_str Docker = ''docker''"
| "kind_str Systemd = ''systemd''"

definition node_json :: "fleet_node \<Rightarrow> jsval" where
  "node_json n = JObj
     [(''id'', JStr (n_id n)), (''label'', JStr (n_label n)),
      (''network'', JStr (network_str (n_network n))), (''role'', JStr (role_str (n_role n))),
      (''environment'', JStr (n_environment n)), (''hostRef'', JStr (n_hostRef n)),
      (''connectionRef'', JStr (n_connectionRef n)),
      (''runtime'', JObj
        [(''kind'', JStr (kind_str (rt_kind (n_runtime n)))), (''image'', JStr (rt_image (n_runtime n))),
         (''expectedVersion'', JStr (rt_expectedVersion (n_runtime n))),
         (''serviceName'', JStr (rt_serviceName (n_runtime n)))]),
      (''paths'', JObj
        [(''baseDir'', JStr (pt_baseDir (n_paths n))), (''config'', JStr (pt_config (n_paths n)))]),
      (''ports'', JObj
        [(''jsonrpcHostBind'', JStr (po_jsonrpcHostBind (n_ports n))),
         (''p2pPublic'', JStr (po_p2pPublic (n_ports n))),
         (''backupAdminListen'', JStr (po_backupAdminListen (n_ports n)))]),
      (''backup'', JObj
        [(''publicBootstrapUrl'', JStr (bk_publicBootstrapUrl (n_backup n))),
         (''privateBackupPolicyRef'', JStr (bk_privateBackupPolicyRef (n_backup n)))]),
      (''trust'', JObj
        [(''artifactDigest'', JStr (tr_artifactDigest (n_trust n))),
         (''artifactSignatureRef'', JStr (tr_artifactSignatureRef (n_trust n))),
         (''bootstrapPolicyId'', JStr (tr_bootstrapPolicyId (n_trust n))),
         (''bootstrapPolicyDigest'', JStr (tr_bootstrapPolicyDigest (n_trust n))),
         (''prodnetObserverProofRef'', JStr (tr_prodnetObserverProofRef (n_trust n)))]),
      (''producer'', JObj
        [(''enabled'', JBool (pr_enabled (n_producer n))),
         (''profileRef'', JStr (pr_profileRef (n_producer n)))]),
      (''safety'', JObj
        [(''observerFirstRequired'', JBool (sf_observerFirstRequired (n_safety n))),
         (''mainnetMutationAllowed'', JBool (sf_mainnetMutationAllowed (n_safety n))),
         (''remoteAdminPublicExposureAllowed'',
           JBool (sf_remoteAdminPublicExposureAllowed (n_safety n)))]),
      (''status'', JObj
        [(''installStatus'', st_installStatus (n_status n)),
         (''restoreStatus'', st_restoreStatus (n_status n)),
         (''version'', JStr (st_version (n_status n))), (''health'', st_health (n_status n)),
         (''lastCheck'', JStr (st_lastCheck (n_status n)))])]"

definition inventory_json :: "inventory \<Rightarrow> jsval" where
  "inventory_json fleet =
     JObj [(''version'', JNum (Fin 1)), (''nodes'', JArr (map node_json (inv_nodes fleet)))]"

lemma safeText_id: "normal_text s \<Longrightarrow> safeText (JStr s) d = s"
  by (simp add: normal_text_def trimmed_def)

lemma safeText_id_Nil: "trimmed s \<Longrightarrow> safeText (JStr s) [] = s"
  by (simp add: trimmed_def)

lemma safeText_id_trimmed: "trimmed s \<Longrightarrow> s \<noteq> [] \<Longrightarrow> safeText (JStr s) d = s"
  by (simp add: trimmed_def)

lemma safeNetwork_str [simp]: "safeNetwork (JStr (network_str net)) = net"
  by (cases net) (simp_all add: safeNetwork_def)

lemma safeRole_str [simp]: "safeRole (JStr (role_str r)) = r"
  by (cases r) (simp_all add: safeRole_def)

lemma safeRuntimeKind_str [simp]: "safeRuntimeKind (JStr (kind_str k)) = k"
  by (cases k) (simp_all add: safeRuntimeKind_def)

lemma nullish_or_id [simp]: "v \<noteq> JUndefined \<Longrightarrow> v \<noteq> JNull \<Longrightarrow> nullish_or v d = v"
  by (cases v) auto

lemma node_json_top:
  "js_prop ''id'' (node_json n) = JStr (n_id n)"
  "js_prop ''label'' (node_json n) = JStr (n_label n)"
  "js_prop ''network'' (node_json n) = JStr (network_str (n_network n))"
  "js_prop ''role'' (node_json n) = JStr (role_str (n_role n))"
  "js_prop ''environment'' (node_json n) = JStr (n_environment n)"
  "js_prop ''hostRef'' (node_json n) = JStr (n_hostRef n)"
  "js_prop ''connectionRef'' (node_json n) = JStr (n_connectionRef n)"
  by (simp_all add: node_json_def)

lemma node_json_nested:
  "field2 (node_json n) ''runtime'' ''kind'' = JStr (kind_str (rt_kind (n_runtime n)))"
  "field2 (node_json n) ''runtime'' ''image'' = JStr (rt_image (n_runtime n))"
  "field2 (node_json n) ''runtime'' ''expectedVersion'' = JStr (rt_expectedVersion (n_runtime n))"
  "field2 (node_json n) ''runtime'' ''serviceName'' = JStr (rt_serviceName (n_runtime n))"
  "field2 (node_json n) ''paths'' ''baseDir'' = JStr (pt_baseDir (n_paths n))"
  "field2 (node_json n) ''paths'' ''config'' = JStr (pt_config (n_paths n))"
  "field2 (node_json n) ''ports'' ''jsonrpcHostBind'' = JStr (po_jsonrpcHostBind (n_ports n))"
  "field2 (node_json n) ''ports'' ''p2pPublic'' = JStr (po_p2pPublic (n_ports n))"
  "field2 (node_json n) ''ports'' ''backupAdminListen'' = JStr (po_backupAdminListen (n_ports n))"
  "field2 (node_json n) ''backup'' ''publicBootstrapUrl'' = JStr (bk_publicBootstrapUrl (n_backup n))"
  "field2 (node_json n) ''backup'' ''privateBackupPolicyRef'' = JStr (bk_privateBackupPolicyRef (n_backup n))"
  "field2 (node_json n) ''trust'' ''artifactDigest'' = JStr (tr_artifactDigest (n_trust n))"
  "field2 (node_json n) ''trust'' ''artifactSignatureRef'' = JStr (tr_artifactSignatureRef (n_trust n))"
  "field2 (node_json n) ''trust'' ''bootstrapPolicyId'' = JStr (tr_bootstrapPolicyId (n_trust n))"
  "field2 (node_json n) ''trust'' ''bootstrapPolicyDigest'' = JStr (tr_bootstrapPolicyDigest (n_trust n))"
  "field2 (node_json n) ''trust'' ''prodnetObserverProofRef'' = JStr (tr_prodnetObserverProofRef (n_trust n))"
  "field2 (node_json n) ''producer'' ''enabled'' = JBool (pr_enabled (n_producer n))"
  "field2 (node_json n) ''producer'' ''profileRef'' = JStr (pr_profileRef (n_producer n))"
  "field2 (node_json n) ''safety'' ''observerFirstRequired'' = JBool (sf_observerFirstRequired (n_safety n))"
  "field2 (node_json n) ''safety'' ''mainnetMutationAllowed'' = JBool (sf_mainnetMutationAllowed (n_safety n))"
  "field2 (node_json n) ''safety'' ''remoteAdminPublicExposureAllowed'' =
     JBool (sf_remoteAdminPublicExposureAllowed (n_safety n))"
  "field2 (node_json n) ''status'' ''installStatus'' = st_installStatus (n_status n)"
  "field2 (node_json n) ''status'' ''restoreStatus'' = st_restoreStatus (n_status n)"
  "field2 (node_json n) ''status'' ''version'' = JStr (st_version (n_status n))"
  "field2 (node_json n) ''status'' ''health'' = st_health (n_status n)"
  "field2 (node_json n) ''status'' ''lastCheck'' = JStr (st_lastCheck (n_status n))"
  by (simp_all add: node_json_def field2_def)

text \<open>
  A field whose default is empty off mainnet needs the value itself to be empty or not: both
  cases give the value back.
\<close>

lemma safeText_id_or_empty:
  "trimmed s \<Longrightarrow> (d \<noteq> [] \<Longrightarrow> s \<noteq> []) \<Longrightarrow> safeText (JStr s) d = s"
  by (auto simp: trimmed_def)

lemma normalize_stored_node:
  assumes "normal_node n" shows "normalizeRemoteFleetNode (node_json n) = n"
  using assms unfolding normal_node_def
  by (intro fleet_node.equality)
    (simp_all add: normalizeRemoteFleetNode_def Let_def node_json_top node_json_nested
      defaultNode_def safeText_id safeText_id_Nil safeText_id_or_empty del: safeText.simps)


definition normal_inventory :: "inventory \<Rightarrow> bool" where
  "normal_inventory fleet \<longleftrightarrow>
     inv_version fleet = 1 \<and> inv_nodes fleet \<noteq> [] \<and> list_all normal_node (inv_nodes fleet)"

lemma normal_inventoryD: "normal_inventory fleet \<Longrightarrow> n \<in> set (inv_nodes fleet) \<Longrightarrow> normal_node n"
  by (simp add: normal_inventory_def list_all_iff)

lemma defaultNode_normal: "normal_text i \<Longrightarrow> normal_node (defaultNode i net)"
  unfolding normal_node_def defaultNode_def Let_def
  by (simp add: normal_facts normal_not_Nil del: append.simps)

lemma normalize_inventory_normal: "normal_inventory (normalizeRemoteFleetInventory v)"
proof -
  have labels: "normal_text ''prodnet-observer-a''" "normal_text ''testnet-observer-a''"
    "normal_text ''Prodnet Observer A''" "normal_text ''Testnet Observer A''" "normal_text ''testnet''"
    by code_simp+
  have "normal_inventory defaultRemoteFleetInventory"
    using defaultNode_normal [OF labels(1), of Mainnet] defaultNode_normal [OF labels(2), of Testnet] labels
    by (simp add: normal_inventory_def defaultRemoteFleetInventory_def normal_node_def)
  moreover have "normal_inventory \<lparr>inv_version = 1, inv_nodes = map normalizeRemoteFleetNode (x # xs)\<rparr>" for x xs
    by (simp add: normal_inventory_def list_all_iff normalize_normal)
  ultimately show ?thesis
    by (auto simp: normalizeRemoteFleetInventory_def split: jsval.splits list.splits)
qed

lemma normalize_stored:
  assumes "normal_inventory fleet"
  shows "normalizeRemoteFleetInventory (inventory_json fleet) = fleet"
proof -
  have "map (\<lambda>n. normalizeRemoteFleetNode (node_json n)) (inv_nodes fleet) = inv_nodes fleet"
    using normalize_stored_node normal_inventoryD [OF assms] by (intro map_idI) blast
  moreover obtain n ns where ns: "inv_nodes fleet = n # ns"
    using assms by (cases "inv_nodes fleet") (auto simp: normal_inventory_def)
  ultimately show ?thesis using assms
    by (intro inventory.equality)
      (simp_all add: normalizeRemoteFleetInventory_def inventory_json_def normal_inventory_def
        comp_def)
qed

section \<open>Properties\<close>


text \<open>writing a normalised inventory to storage and normalising what is read back gives the same
  inventory, so a save and a reload lose and change nothing; in particular normalisation is
  idempotent.\<close>

theorem stored_inventory_round_trip:
  "normalizeRemoteFleetInventory (inventory_json (normalizeRemoteFleetInventory v)) =
   normalizeRemoteFleetInventory v"
  by (rule normalize_stored [OF normalize_inventory_normal])

end
