(* ===== verification/ShellQuote.thy ===== *)
theory ShellQuote
  imports JsPrelude
begin

text \<open>
  The two quoting functions of src/app/remote-nodes.ts (lines 837-847), and what the remote
  shell makes of their output.

  The contract is stated against a reader of one simple command, \<open>sh_words\<close>, written
  after the quoting rules of POSIX sh: single quotes, double quotes with the four characters a
  backslash escapes there, a backslash outside quotes, and \<open>$HOME\<close> inside double quotes.
  It gives the words of the command, or \<open>None\<close> as soon as anything else would happen: an
  operator, a redirection, a glob, another expansion, an unfinished quote. The locale
  \<open>shell_quoting\<close> says that a quoting function is read back as the value it was given,
  wherever it stands in a command; both functions of the code interpret it.
\<close>

section \<open>The quoting functions\<close>

definition sq_escape :: "string \<Rightarrow> string" where
  "sq_escape v = concat (map (\<lambda>c. if c = CHR 0x27 then [CHR 0x27, CHR 0x5C, CHR 0x27, CHR 0x27] else [c]) v)"

definition q :: "string \<Rightarrow> string" where
  "q v = sq @ sq_escape v @ sq"

definition dq_special :: "char \<Rightarrow> bool" where
  "dq_special c \<longleftrightarrow> c = CHR 0x22 \<or> c = CHR 0x5C \<or> c = CHR 0x60 \<or> c = CHR ''$''"

definition dq_escape :: "string \<Rightarrow> string" where
  "dq_escape v = concat (map (\<lambda>c. if dq_special c then [CHR 0x5C, c] else [c]) v)"

definition remotePath :: "string \<Rightarrow> string" where
  "remotePath v =
     (if js_starts_with v ''~/''
      then dq @ ''$HOME/'' @ dq_escape (drop 2 v) @ dq
      else q v)"

section \<open>Reading a simple command\<close>

datatype sh_mode = Bare | Single | Double

text \<open>Characters that stand for themselves outside quotes, anywhere in a word.\<close>

definition sh_plain :: "char \<Rightarrow> bool" where
  "sh_plain c \<longleftrightarrow> is_word c \<or> c \<in> set ''-_./:@+=,%''"

definition flush :: "string option \<Rightarrow> string list" where
  "flush cur = (case cur of None \<Rightarrow> [] | Some w \<Rightarrow> [w])"

definition text_of :: "string option \<Rightarrow> string" where
  "text_of cur = (case cur of None \<Rightarrow> [] | Some w \<Rightarrow> w)"

fun sh_scan :: "string \<Rightarrow> sh_mode \<Rightarrow> string option \<Rightarrow> string \<Rightarrow> string list option" where
  "sh_scan h Bare cur [] = Some (flush cur)"
| "sh_scan h Bare cur (c # cs) =
     (if c = CHR '' '' then map_option ((@) (flush cur)) (sh_scan h Bare None cs)
      else if c = CHR 0x27 then sh_scan h Single (Some (text_of cur)) cs
      else if c = CHR 0x22 then sh_scan h Double (Some (text_of cur)) cs
      else if c = CHR 0x5C then
        (case cs of [] \<Rightarrow> None | d # ds \<Rightarrow>
           if d = CHR 0x0A then None else sh_scan h Bare (Some (text_of cur @ [d])) ds)
      else if sh_plain c then sh_scan h Bare (Some (text_of cur @ [c])) cs
      else None)"
| "sh_scan h Single cur [] = None"
| "sh_scan h Single cur (c # cs) =
     (if c = CHR 0x27 then sh_scan h Bare cur cs
      else sh_scan h Single (Some (text_of cur @ [c])) cs)"
| "sh_scan h Double cur [] = None"
| "sh_scan h Double cur (c # cs) =
     (if c = CHR 0x22 then sh_scan h Bare cur cs
      else if c = CHR 0x5C then
        (case cs of [] \<Rightarrow> None | d # ds \<Rightarrow>
           if dq_special d then sh_scan h Double (Some (text_of cur @ [d])) ds
           else if d = CHR 0x0A then sh_scan h Double cur ds
           else sh_scan h Double (Some (text_of cur @ [c])) cs)
      else if c = CHR ''$'' then
        (if prefix ''HOME/'' cs then sh_scan h Double (Some (text_of cur @ h)) (drop 4 cs) else None)
      else if c = CHR 0x60 then None
      else sh_scan h Double (Some (text_of cur @ [c])) cs)"

definition sh_words :: "string \<Rightarrow> string \<Rightarrow> string list option" where
  "sh_words h s = sh_scan h Bare None s"

text \<open>What a path means on the remote host whose home directory is \<open>h\<close>.\<close>

definition path_meaning :: "string \<Rightarrow> string \<Rightarrow> string" where
  "path_meaning h v = (if js_starts_with v ''~/'' then h @ ''/'' @ drop 2 v else v)"

section \<open>The contract of a quoting function\<close>

lemma text_of_simps [simp]: "text_of None = []" "text_of (Some w) = w"
  by (simp_all add: text_of_def)

lemma flush_simps [simp]: "flush None = []" "flush (Some w) = [w]"
  by (simp_all add: flush_def)

lemma append_single: "(@) [x] = (#) x"
  by (simp add: fun_eq_iff)

lemma scan_plain:
  "list_all sh_plain w \<Longrightarrow>
   sh_scan h Bare (Some t) (w @ rest) = sh_scan h Bare (Some (t @ w)) rest"
proof (induction w arbitrary: t)
  case (Cons c w)
  have "c \<noteq> CHR '' '' \<and> c \<noteq> CHR 0x27 \<and> c \<noteq> CHR 0x22 \<and> c \<noteq> CHR 0x5C"
    using Cons.prems by (auto simp: sh_plain_def is_word_def is_alpha_def is_upper_def
        is_lower_def is_digit_def cu_def)
  with Cons show ?case by simp
qed simp

locale shell_quoting =
  fixes quote :: "string \<Rightarrow> string"
    and meaning :: "string \<Rightarrow> string \<Rightarrow> string"
  assumes reads_back:
    "sh_scan h Bare cur (quote v @ rest) = sh_scan h Bare (Some (text_of cur @ meaning h v)) rest"
begin

lemma one_word: "sh_words h (quote v) = Some [meaning h v]"
  using reads_back [of h None v "[]"] by (simp add: sh_words_def)

lemma quote_then_space:
  "sh_scan h Bare cur (quote v @ CHR '' '' # rest) =
   map_option ((#) (text_of cur @ meaning h v)) (sh_scan h Bare None rest)"
  by (simp add: reads_back append_single)

lemma argument_list:
  "sh_words h (js_join '' '' (map quote vs)) = Some (map (meaning h) vs)"
proof -
  have "sh_scan h Bare None (js_join '' '' (map quote vs)) = Some (map (meaning h) vs)"
  proof (induction vs rule: induct_list012)
    case 1
    show ?case by simp
  next
    case (2 v)
    show ?case using one_word [of h v] by (simp add: sh_words_def)
  next
    case (3 v w vs)
    then show ?case by (simp add: quote_then_space del: sh_scan.simps(2))
  qed
  then show ?thesis by (simp add: sh_words_def)
qed

end

lemma scan_single:
  "sh_scan h Single (Some t) (sq_escape v @ CHR 0x27 # rest) = sh_scan h Bare (Some (t @ v)) rest"
  by (induction v arbitrary: t) (auto simp: sq_escape_def)

interpretation single: shell_quoting q "\<lambda>h v. v"
  by unfold_locales (simp add: q_def sq_def scan_single)

lemma scan_double:
  "sh_scan h Double (Some t) (dq_escape v @ CHR 0x22 # rest) = sh_scan h Bare (Some (t @ v)) rest"
  by (induction v arbitrary: t) (auto simp: dq_escape_def dq_special_def)

lemma scan_home:
  "sh_scan h Bare cur (dq @ ''$HOME/'' @ dq_escape v @ dq @ rest) =
   sh_scan h Bare (Some (text_of cur @ h @ ''/'' @ v)) rest"
  by (simp add: dq_def scan_double)

interpretation path: shell_quoting remotePath path_meaning
proof
  fix h cur v rest
  show "sh_scan h Bare cur (remotePath v @ rest) =
        sh_scan h Bare (Some (text_of cur @ path_meaning h v)) rest"
    using scan_home [of h cur "drop 2 v" rest] single.reads_back [of h cur v rest]
    by (simp add: remotePath_def path_meaning_def del: sh_scan.simps)
qed

section \<open>Commands made of plain words and quoted values\<close>

definition spaced_words :: "string list \<Rightarrow> string" where
  "spaced_words ws = concat (map (\<lambda>w. w @ '' '') ws)"

definition plain_words :: "string list \<Rightarrow> bool" where
  "plain_words ws \<longleftrightarrow> list_all (\<lambda>w. w \<noteq> [] \<and> list_all sh_plain w) ws"

lemma sh_plain_ordinary: "sh_plain c \<Longrightarrow> c \<noteq> CHR '' '' \<and> c \<noteq> CHR 0x27 \<and> c \<noteq> CHR 0x22 \<and> c \<noteq> CHR 0x5C"
  by (auto simp: sh_plain_def is_word_def is_alpha_def is_upper_def is_lower_def is_digit_def cu_def)

lemma scan_plain_word:
  assumes "w \<noteq> []" "list_all sh_plain w"
  shows "sh_scan h Bare None (w @ rest) = sh_scan h Bare (Some w) rest"
proof -
  obtain c cs where w: "w = c # cs" using assms(1) by (cases w) auto
  have "sh_scan h Bare None (c # cs @ rest) = sh_scan h Bare (Some [c]) (cs @ rest)"
    using sh_plain_ordinary [of c] assms w by simp
  with w assms scan_plain [of cs h "[c]" rest] show ?thesis by simp
qed

lemma append_Nil_fun: "(@) [] = (\<lambda>x. x)"
  by (simp add: fun_eq_iff)

lemma append_Cons_fun: "(@) (w # ws) = (\<lambda>x. w # ws @ x)"
  by (simp add: fun_eq_iff)

lemma scan_spaced_words:
  "plain_words ws \<Longrightarrow> sh_scan h Bare None (spaced_words ws @ rest) = map_option ((@) ws) (sh_scan h Bare None rest)"
proof (induction ws)
  case Nil
  then show ?case by (simp add: spaced_words_def append_Nil_fun option.map_ident)
next
  case (Cons w ws)
  have "sh_scan h Bare None (spaced_words (w # ws) @ rest) =
        sh_scan h Bare None (w @ CHR '' '' # spaced_words ws @ rest)"
    by (simp add: spaced_words_def)
  also have "\<dots> = map_option ((#) w) (sh_scan h Bare None (spaced_words ws @ rest))"
    using Cons.prems by (simp add: plain_words_def scan_plain_word append_single)
  also have "\<dots> = map_option ((@) (w # ws)) (sh_scan h Bare None rest)"
    using Cons by (simp add: plain_words_def option.map_comp comp_def append_Cons_fun)
  finally show ?case .
qed

lemma scan_last_word:
  "w \<noteq> [] \<Longrightarrow> list_all sh_plain w \<Longrightarrow> sh_scan h Bare None w = Some [w]"
  using scan_plain_word [of w h "[]"] by simp

section \<open>Properties\<close>

text \<open>C8: a shell command made of a quoted value, or of a list of quoted paths, is split by the shell
  into exactly these values, whatever characters they hold: no value can end its word, expand, or
  start another command, and \<open>~/\<close> means the remote home directory.\<close>

theorem quoting_is_faithful:
  "sh_words h (q v) = Some [v] \<and>
   sh_words h (remotePath v) = Some [path_meaning h v] \<and>
   sh_words h (js_join '' '' (map q vs)) = Some vs \<and>
   sh_words h (js_join '' '' (map remotePath vs)) = Some (map (path_meaning h) vs)"
  using single.one_word [of h v] path.one_word [of h v] single.argument_list [of h vs]
    path.argument_list [of h vs]
  by simp

end
