(* ===== verification/FleetCommands.thy ===== *)
theory FleetCommands
  imports FleetNormalize JsRegex ShellQuote
begin

text \<open>
  The shell text the fleet planner builds, src/app/remote-nodes.ts lines 849-1242: the ssh
  here-document every step is wrapped in and one function per remote command, in the order of
  the source where an earlier function is not needed first. A template literal is a
  concatenation, an array joined with a line feed is \<open>js_join nl\<close>.

  The lemmas say what the shells at both ends make of this text: the words of the commands that
  run the node (by the quoting contract of ShellQuote), the text the local shell feeds to ssh,
  and the lines each command is certain to hold.
\<close>

section \<open>The ssh here-document\<close>

definition ssh :: "fleet_node \<Rightarrow> string \<Rightarrow> string" where
  "ssh n remoteCommand =
     ''ssh '' @ n_connectionRef n @ '' <<'TELENO_REMOTE'' @ sq @ nl @ remoteCommand @ nl @ ''TELENO_REMOTE''"

section \<open>Ports, listen addresses and the runtime commands\<close>

definition bind_port_re :: re where
  "bind_port_re = seqs [chr (CHR '':''), Grp 1 (plus digit), Eol]"

definition serviceName :: "fleet_node \<Rightarrow> string" where
  \<open>serviceName n =
     js_or (rt_serviceName (n_runtime n)) (''teleno-'' @ n_id n)\<close>

definition runtimeStatusCommand :: "fleet_node \<Rightarrow> string" where
  \<open>runtimeStatusCommand n =
     (if rt_kind (n_runtime n) = Docker
      then ''docker ps --filter name='' @ serviceName n @ '' --format '{{.Names}} {{.Status}}'' @ sq
      else ''systemctl status '' @ serviceName n @ '' --no-pager'')\<close>

definition bindPort :: "string \<Rightarrow> string" where
  \<open>bindPort bind =
     (case js_exec bind_port_re bind of
        None \<Rightarrow> []
      | Some m \<Rightarrow> cap 1 (match_caps m))\<close>

definition p2pInternalPort :: "fleet_node \<Rightarrow> string" where
  \<open>p2pInternalPort n =
     (if n_network n = Testnet then ''18888'' else ''8888'')\<close>

definition runtimeStartCommand :: "fleet_node \<Rightarrow> string" where
  \<open>runtimeStartCommand n =
     (if rt_kind (n_runtime n) = Docker
      then let jsonrpcPort = js_or (bindPort (po_jsonrpcHostBind (n_ports n))) ''8080''
           in js_join '' ''
             [''docker start '' @ serviceName n @ '' 2>/dev/null || docker run -d --name '' @
        serviceName n,
              ''-v '' @ remotePath (pt_baseDir (n_paths n)) @ '':/data'',
              ''-p '' @ po_jsonrpcHostBind (n_ports n) @ '':'' @ jsonrpcPort,
              ''-p '' @ po_p2pPublic (n_ports n) @ '':'' @ p2pInternalPort n,
              q (rt_image (n_runtime n)),
              ''--basedir /data --config /data/config.yml'']
      else ''systemctl start '' @ serviceName n)\<close>

definition runtimeStopCommand :: "fleet_node \<Rightarrow> string" where
  \<open>runtimeStopCommand n =
     (if rt_kind (n_runtime n) = Docker
      then ''docker stop '' @ serviceName n
      else ''systemctl stop '' @ serviceName n)\<close>

definition dockerContainerListen :: "string \<Rightarrow> string" where
  \<open>dockerContainerListen bind =
     (let port = bindPort bind in if port \<noteq> [] then ''0.0.0.0:'' @ port else bind)\<close>

definition jsonRpcListen :: "fleet_node \<Rightarrow> string" where
  \<open>jsonRpcListen n =
     (if rt_kind (n_runtime n) = Docker then dockerContainerListen (po_jsonrpcHostBind (n_ports n))
      else po_jsonrpcHostBind (n_ports n))\<close>

definition p2pListen :: "fleet_node \<Rightarrow> string" where
  \<open>p2pListen n =
     ''/ip4/0.0.0.0/tcp/'' @
       (if rt_kind (n_runtime n) = Docker then p2pInternalPort n else po_p2pPublic (n_ports n))\<close>

definition p2pPeers :: "fleet_node \<Rightarrow> string list" where
  \<open>p2pPeers n =
     (if n_network n = Testnet then testnet_p2p_peers else mainnet_p2p_peers)\<close>

section \<open>Guards, evidence and trust commands\<close>

definition portInUseGuard :: "string \<Rightarrow> string" where
  \<open>portInUseGuard port =
     js_join nl
       [''if ss -ltn 2>/dev/null | awk '{print $4}' | grep -E "(:|'' @ bsl @ bsl @ ''])'' @ port @
        ''$" >/dev/null; then'',
        ''  echo "TELENO_STOP_CRITERIA: planned port '' @ port @ '' is already in use";'',
        ''  exit 65;'',
        ''fi'']\<close>

definition telenoNodeCliCommand :: "fleet_node \<Rightarrow> string \<Rightarrow> string" where
  \<open>telenoNodeCliCommand n args =
     (if rt_kind (n_runtime n) = Docker
      then js_join '' ''
             [''docker run --rm'',
              ''-v '' @ remotePath (pt_baseDir (n_paths n)) @ '':/data'',
              q (rt_image (n_runtime n)),
              ''--basedir /data'',
              ''--config /data/config.yml'',
              args]
      else ''teleno_node --basedir '' @ remotePath (pt_baseDir (n_paths n)) @ '' --config '' @
        remotePath (pt_config (n_paths n)) @ '' '' @ args)\<close>

definition reviewedArtifactVersion :: "fleet_node \<Rightarrow> string" where
  \<open>reviewedArtifactVersion n =
     (if js_includes (rt_expectedVersion (n_runtime n)) ''<'' then ''unspecified''
      else rt_expectedVersion (n_runtime n))\<close>

definition artifactEvidenceCommand :: "fleet_node \<Rightarrow> string" where
  \<open>artifactEvidenceCommand n =
     (let expectedVersion = reviewedArtifactVersion n in
      if rt_kind (n_runtime n) = Docker
      then let digest = tr_artifactDigest (n_trust n)
           in js_join nl
             [''docker pull '' @ q (rt_image (n_runtime n)),
              ''artifact_id=$(docker image inspect '' @ q (rt_image (n_runtime n)) @
        '' --format '{{.Id}}')'',
              ''artifact_digests=$(docker image inspect '' @ q (rt_image (n_runtime n)) @
        '' --format '{{range .RepoDigests}}{{.}} {{end}}')'',
              (if digest \<noteq> []
               then ''case " $artifact_digests " in *'' @ digest @ ''*) echo "TELENO_ARTIFACT_DIGEST_PINNED '' @
        digest @ ''" ;; *) echo "TELENO_STOP_CRITERIA: digest mismatch"; exit 65;; esac''
               else ''true''),
              ''printf 'TELENO_ARTIFACT_IMAGE id=%s digests=%s expected=%s'' @ bsl @
        ''n' "$artifact_id" "$artifact_digests" '' @ q expectedVersion]
      else ''teleno_node --version || true; echo "TELENO_ARTIFACT_BINARY expected='' @
        expectedVersion @ ''"'')\<close>

definition prodnetArtifactTrustCommand :: "fleet_node \<Rightarrow> string" where
  \<open>prodnetArtifactTrustCommand n =
     js_join nl
       [''set -eu'',
        ''case '' @ q (rt_image (n_runtime n)) @ '' in *@'' @ tr_artifactDigest (n_trust n) @
        '') echo "TELENO_ARTIFACT_DIGEST_PINNED '' @ tr_artifactDigest (n_trust n) @
        ''" ;; *) echo "TELENO_STOP_CRITERIA: digest mismatch"; exit 65;; esac'',
        (if tr_artifactSignatureRef (n_trust n) \<noteq> []
         then ''echo "TELENO_ARTIFACT_SIGNATURE_REF reviewed '' @
        q (tr_artifactSignatureRef (n_trust n)) @ ''"''
         else ''echo "TELENO_ARTIFACT_SIGNATURE_REF none digest-pin-required"''),
        ''echo "TELENO_ARTIFACT_TRUST_READY expected='' @ q (reviewedArtifactVersion n) @ ''"'']\<close>

definition prodnetBootstrapTrustCommand :: "fleet_node \<Rightarrow> string" where
  \<open>prodnetBootstrapTrustCommand n =
     js_join nl
       [''set -eu'',
        ''test '' @ q (bk_publicBootstrapUrl (n_backup n)) @ '' = '' @
        q (js_or (publicBootstrapUrlForNetwork Mainnet) []),
        ''echo "TELENO_BOOTSTRAP_POLICY '' @ tr_bootstrapPolicyId (n_trust n) @ ''"'',
        ''echo "TELENO_BOOTSTRAP_POLICY_DIGEST '' @ tr_bootstrapPolicyDigest (n_trust n) @ ''"'',
        ''echo "TELENO_BOOTSTRAP_TRUST https-origin object-sha256 network-mainnet signature-when-published"'',
        ''curl --fail --silent --max-time 8 '' @
        q (bk_publicBootstrapUrl (n_backup n) @ ''/latest.json'') @ '' | grep -E '"network"'' @
        bsl @ ''s*:'' @ bsl @ ''s*"mainnet"|"network":"mainnet"' >/dev/null'',
        ''echo "TELENO_BOOTSTRAP_TRUST_READY prodnet-public-bootstrap-v1"'']\<close>

definition prodnetObserverProofCommand :: "fleet_node \<Rightarrow> string" where
  \<open>prodnetObserverProofCommand n =
     js_join nl
       [''set -eu'',
        ''test '' @ q (network_str (n_network n)) @ '' = mainnet'',
        ''test '' @ q (role_str (n_role n)) @ '' = observer'',
        ''echo "TELENO_PRODNET_PROOF observer-only"'',
        ''echo "TELENO_PRODNET_PROOF loopback-rpc-admin"'',
        ''echo "TELENO_PRODNET_PROOF artifact='' @ tr_artifactDigest (n_trust n) @ ''"'',
        ''echo "TELENO_PRODNET_PROOF bootstrap_policy='' @ tr_bootstrapPolicyId (n_trust n) @ ''"'',
        ''echo "TELENO_PRODNET_PROOF_READY dry-run reviewed commands only"'']\<close>

section \<open>The observer configuration file\<close>

definition observerConfigCommand :: "fleet_node \<Rightarrow> string" where
  \<open>observerConfigCommand n =
     js_join nl
       ([''mkdir -p '' @ remotePath (pt_baseDir (n_paths n)),
         ''cat > '' @ remotePath (pt_config (n_paths n)) @ '' <<'TELENO_CONFIG'' @ sq,
         ''network: '' @ network_str (n_network n),
         ''chain:'',
         ''  verify-blocks: true'',
         ''p2p:'',
         ''  listen: '' @ p2pListen n,
         ''  seed-reconnect-interval-seconds: 10'',
         ''  peer-log-interval-seconds: 60'',
         ''  peer:''] @
        map (\<lambda>peer. ''    - '' @ peer) (p2pPeers n) @
        [''features:'',
         ''  chain: true'',
         ''  mempool: true'',
         ''  block_store: true'',
         ''  p2p: true'',
         ''  jsonrpc: true'',
         ''  grpc: false'',
         ''  block_producer: false'',
         ''jsonrpc:'',
         ''  listen: '' @ jsonRpcListen n,
         ''backup:'',
         ''  public-restore:'',
         ''    enabled: true'',
         ''    base-url: '' @ bk_publicBootstrapUrl (n_backup n),
         ''TELENO_CONFIG''])\<close>

section \<open>Rollback, cleanup and their receipts\<close>

definition stopCriteriaGuardCommand :: "fleet_node \<Rightarrow> string" where
  \<open>stopCriteriaGuardCommand n =
     (let logPath = remotePath (pt_baseDir (n_paths n) @ ''/logs'')
      in js_join nl
        [''if grep -R -E -i "state merkle mismatch|previous state merkle mismatch|digest mismatch|restore failed|chain[_ -]?id mismatch|block_producer: true" '' @
        logPath @ '' '' @ remotePath (pt_baseDir (n_paths n) @ ''/.teleno/receipts'') @
        '' 2>/dev/null; then'',
         ''  echo "TELENO_STOP_CRITERIA: preserve state DB and stop remote rollout";'',
         ''  exit 65;'',
         ''fi''])\<close>

definition telenoControlDir :: "fleet_node \<Rightarrow> string" where
  \<open>telenoControlDir n =
     pt_baseDir (n_paths n) @ ''/.teleno''\<close>

definition rollbackHistoryDir :: "fleet_node \<Rightarrow> string" where
  \<open>rollbackHistoryDir n =
     telenoControlDir n @ ''/rollback''\<close>

definition receiptDir :: "fleet_node \<Rightarrow> string" where
  \<open>receiptDir n =
     telenoControlDir n @ ''/receipts''\<close>

definition preserveReceiptCommand :: "fleet_node \<Rightarrow> string \<Rightarrow> string" where
  \<open>preserveReceiptCommand n act =
     js_join nl
       [''set -eu'',
        ''mkdir -p '' @ remotePath (telenoControlDir n @ ''/preserved'') @ '' '' @
        remotePath (receiptDir n),
        ''test -f '' @ remotePath (pt_config (n_paths n)) @ '' && cp '' @
        remotePath (pt_config (n_paths n)) @ '' '' @
        remotePath (telenoControlDir n @ ''/preserved/config.before-'' @ act @ ''.yml''),
        ''if test -d '' @ remotePath (pt_baseDir (n_paths n) @ ''/chain'') @ '' || test -d '' @
        remotePath (pt_baseDir (n_paths n) @ ''/blockchain'') @ '' || test -d '' @
        remotePath (pt_baseDir (n_paths n) @ ''/state'') @ ''; then'',
        ''  echo "TELENO_DB_PRESERVED existing chain/state DB paths were detected and left untouched";'',
        ''else'',
        ''  echo "TELENO_STOP_CRITERIA: cleanup state unknown";'',
        ''  exit 65;'',
        ''fi'',
        ''printf 'action=%s'' @ bsl @ ''ndb_preserved=true'' @ bsl @ ''n' '' @ q act @ '' > '' @
        remotePath (receiptDir n @ ''/'' @ act @ ''-preserve.receipt''),
        stopCriteriaGuardCommand n]\<close>

definition rollbackEvidencePreflightCommand :: "fleet_node \<Rightarrow> string" where
  \<open>rollbackEvidencePreflightCommand n =
     js_join nl
       [''set -eu'',
        ''test -f '' @ remotePath (pt_config (n_paths n)),
        ''grep -R "network: '' @ network_str (n_network n) @ ''" '' @
        remotePath (pt_config (n_paths n)),
        ''grep -R "block_producer: false" '' @ remotePath (pt_config (n_paths n)),
        ''test -f '' @ remotePath (rollbackHistoryDir n @ ''/previous_image'') @
        '' || { echo "TELENO_STOP_CRITERIA: rollback evidence missing"; exit 65; }'',
        ''test -f '' @ remotePath (rollbackHistoryDir n @ ''/previous_config.yml'') @
        '' || { echo "TELENO_STOP_CRITERIA: rollback evidence missing"; exit 65; }'',
        ''previous_image=$(cat '' @ remotePath (rollbackHistoryDir n @ ''/previous_image'') @ '')'',
        ''case "$previous_image" in *[!A-Za-z0-9_./:@+-]*|"") echo "TELENO_STOP_CRITERIA: rollback evidence invalid"; exit 65;; esac'',
        ''echo "TELENO_ROLLBACK_EVIDENCE previous artifact and config present"'',
        stopCriteriaGuardCommand n]\<close>

definition cleanupEvidencePreflightCommand :: "fleet_node \<Rightarrow> string" where
  \<open>cleanupEvidencePreflightCommand n =
     js_join nl
       [''set -eu'',
        ''test -f '' @ remotePath (pt_config (n_paths n)),
        ''grep -R "network: '' @ network_str (n_network n) @ ''" '' @
        remotePath (pt_config (n_paths n)),
        ''grep -R "block_producer: false" '' @ remotePath (pt_config (n_paths n)),
        ''if ! ls '' @ remotePath (receiptDir n) @
        ''/*.receipt >/dev/null 2>&1; then echo "TELENO_STOP_CRITERIA: cleanup receipt evidence missing"; exit 65; fi'',
        stopCriteriaGuardCommand n]\<close>

definition rollbackConfigCommand :: "fleet_node \<Rightarrow> string" where
  \<open>rollbackConfigCommand n =
     js_join nl
       [''set -eu'',
        ''cp '' @ remotePath (rollbackHistoryDir n @ ''/previous_config.yml'') @ '' '' @
        remotePath (pt_config (n_paths n)),
        ''grep -R "network: '' @ network_str (n_network n) @ ''" '' @
        remotePath (pt_config (n_paths n)),
        ''grep -R "block_producer: false" '' @ remotePath (pt_config (n_paths n)),
        ''echo "TELENO_ROLLBACK_CONFIG applied previous observer config with producer disabled"'']\<close>

definition rollbackRuntimeCommand :: "fleet_node \<Rightarrow> string" where
  \<open>rollbackRuntimeCommand n =
     (if rt_kind (n_runtime n) \<noteq> Docker
      then ''echo "TELENO_STOP_CRITERIA: rollback runtime unsupported for this node"; exit 65''
      else let jsonrpcPort = js_or (bindPort (po_jsonrpcHostBind (n_ports n))) ''8080''
           in js_join nl
         [''set -eu'',
          ''previous_image=$(cat '' @ remotePath (rollbackHistoryDir n @ ''/previous_image'') @ '')'',
          ''docker pull "$previous_image"'',
          runtimeStopCommand n @ '' || true'',
          ''docker rm '' @ serviceName n @ '' 2>/dev/null || true'',
          js_join '' ''
          [''docker run -d --name '' @ serviceName n,
           ''-v '' @ remotePath (pt_baseDir (n_paths n)) @ '':/data'',
           ''-p '' @ po_jsonrpcHostBind (n_ports n) @ '':'' @ jsonrpcPort,
           ''-p '' @ po_p2pPublic (n_ports n) @ '':'' @ p2pInternalPort n,
           ''"$previous_image"'',
           ''--basedir /data --config /data/config.yml''],
          ''echo "TELENO_ROLLBACK_ARTIFACT started previous reviewed artifact with existing DB preserved"''])\<close>

text \<open>The array \<open>candidates\<close> both cleanup commands build.\<close>

definition cleanupCandidates :: "fleet_node \<Rightarrow> string list" where
  \<open>cleanupCandidates n =
     [pt_baseDir (n_paths n) @ ''/tmp'',
      pt_baseDir (n_paths n) @ ''/restore-work'',
      pt_baseDir (n_paths n) @ ''/backup-work'',
      telenoControlDir n @ ''/tmp'']\<close>

definition cleanupCandidateListCommand :: "fleet_node \<Rightarrow> string" where
  \<open>cleanupCandidateListCommand n =
     js_join nl
       [''set -eu'',
        ''for item in '' @ js_join '' '' (map remotePath (cleanupCandidates n)) @ ''; do'',
        ''  if test -e "$item"; then echo "TELENO_CLEANUP_CANDIDATE non-state temporary item present"; fi'',
        ''done'',
        ''echo "TELENO_DB_PRESERVED cleanup candidates exclude chain, blockchain, state, config, wallet, and producer data"'']\<close>

definition cleanupTemporaryCommand :: "fleet_node \<Rightarrow> string" where
  \<open>cleanupTemporaryCommand n =
     js_join nl
       [''set -eu'',
        ''for item in '' @ js_join '' '' (map remotePath (cleanupCandidates n)) @ ''; do'',
        ''  case "$item" in'',
        ''    *chain*|*blockchain*|*state*|*wallet*|*producer*|*config.yml) echo "TELENO_STOP_CRITERIA: cleanup attempted protected path"; exit 65;;'',
        ''  esac'',
        ''  test -e "$item" && rm -rf -- "$item"'',
        ''done'',
        ''printf 'action=cleanup'' @ bsl @ ''ndb_preserved=true'' @ bsl @ ''n' > '' @
        remotePath (receiptDir n @ ''/cleanup.receipt''),
        ''echo "TELENO_DB_PRESERVED cleanup removed only non-state temporary items"'']\<close>

definition destructiveReceiptCommand :: "fleet_node \<Rightarrow> string \<Rightarrow> string" where
  \<open>destructiveReceiptCommand n act =
     js_join nl
       [''set -eu'',
        ''mkdir -p '' @ remotePath (receiptDir n),
        ''printf 'action=%s'' @ bsl @ ''ndb_preserved=true'' @ bsl @ ''nstatus=complete'' @ bsl @
        ''n' '' @ q act @ '' > '' @ remotePath (receiptDir n @ ''/'' @ act @ ''.receipt''),
        ''test -f '' @ remotePath (pt_config (n_paths n)) @
        '' && grep -R "block_producer: false" '' @ remotePath (pt_config (n_paths n)),
        ''echo "TELENO_DB_PRESERVED receipt recorded with state DB untouched"'']\<close>

section \<open>Health check and preflight\<close>

definition healthCheckCommand :: "fleet_node \<Rightarrow> string" where
  \<open>healthCheckCommand n =
     (let rpcPort = bindPort (po_jsonrpcHostBind (n_ports n));
          adminPort = bindPort (po_backupAdminListen (n_ports n));
          rpcUrl = (if rpcPort \<noteq> [] then ''http://127.0.0.1:'' @ rpcPort
                    else ''http://'' @ po_jsonrpcHostBind (n_ports n));
          adminUrl = (if adminPort \<noteq> [] then ''http://127.0.0.1:'' @ adminPort @ ''/health'' else []);
          logReadCommand = ''journalctl -u '' @ serviceName n @
        '' -n 120 --no-pager 2>/dev/null || docker logs --tail 120 '' @ serviceName n @
        '' 2>&1 || true''
      in js_join nl
        [''set -eu'',
         ''echo "TELENO_HEALTH_SECTION host"'',
         ''uname -s; uname -m; df -Pk / || true'',
         ''df -Pk '' @ remotePath (pt_baseDir (n_paths n)) @ '' || true'',
         ''docker --version || true'',
         ''systemctl --version | head -n 1 || true'',
         ''echo "TELENO_HEALTH_SECTION runtime"'',
         runtimeStatusCommand n @ '' || true'',
         ''docker image inspect '' @ q (rt_image (n_runtime n)) @
        '' --format '{{.Id}} {{.RepoDigests}}' 2>/dev/null || true'',
         ''echo "TELENO_HEALTH_SECTION config"'',
         ''test -f '' @ remotePath (pt_config (n_paths n)) @ '' && sed -n '1,220p' '' @
        remotePath (pt_config (n_paths n)) @
        '' | grep -E "network:|block_producer:|listen:|peer:|public-restore|base-url|admin" || true'',
         ''if test -f '' @ remotePath (pt_config (n_paths n)) @
        '' && ! sed -n '/^p2p:/,/^[^[:space:]]/p' '' @ remotePath (pt_config (n_paths n)) @
        '' | grep -E '^    - ' >/dev/null; then echo "TELENO_HEALTH_SIGNAL no-seed-peers"; fi'',
         ''if grep -R -E "block_producer:'' @ bsl @ ''s*true" '' @
        remotePath (pt_config (n_paths n)) @
        '' 2>/dev/null; then echo "TELENO_STOP_CRITERIA: producer unexpectedly enabled"; exit 65; fi'',
         ''if ss -ltn 2>/dev/null | grep -E "0'' @ bsl @ ''.0'' @ bsl @ ''.0'' @ bsl @ ''.0:('' @
        js_or rpcPort ''8080'' @ ''|'' @ js_or adminPort ''18088'' @
        '')"; then echo "TELENO_STOP_CRITERIA: public JSON-RPC/admin exposure"; exit 65; fi'',
         ''echo "TELENO_HEALTH_SECTION rpc"'',
         ''curl --fail --silent --max-time 3 '' @ q (rpcUrl @ ''/health'') @ '' || true'',
         ''curl --fail --silent --max-time 3 -H 'content-type: application/json' -d '{"jsonrpc":"2.0","id":1,"method":"chain.get_head_info","params":{}}' '' @
        q rpcUrl @ '' || true'',
         ''head_height() {'',
         ''  curl --fail --silent --max-time 3 -H 'content-type: application/json' -d '{"jsonrpc":"2.0","id":1,"method":"chain.get_head_info","params":{}}' '' @
        q rpcUrl @ '' | tr -d '' @ sq @ bsl @ ''n' | sed -n 's/.*"height"[": ]*'' @ bsl @
        ''([0-9][0-9]*'' @ bsl @ '').*/'' @ bsl @ ''1/p; s/.*"height":"'' @ bsl @ ''([0-9][0-9]*'' @
        bsl @ '')".*/'' @ bsl @ ''1/p'' @ sq,
         ''}'',
         ''head_one=$(head_height || true)'',
         ''sleep 10'',
         ''head_two=$(head_height || true)'',
         ''if [ -n "$head_one" ] && [ -n "$head_two" ] && [ "$head_one" = "$head_two" ]; then echo "TELENO_HEALTH_SIGNAL no-head-progress"; fi'',
         ''if [ -n "$head_one" ] && [ -n "$head_two" ] && [ "$head_one" != "$head_two" ]; then echo "TELENO_HEALTH_SIGNAL head-progress"; fi'',
         (if adminUrl \<noteq> []
          then ''curl --fail --silent --max-time 3 '' @ q adminUrl @ '' || true''
          else ''true''),
         ''echo "TELENO_HEALTH_SECTION logs"'',
         ''remote_logs=$('' @ logReadCommand @ '')'',
         ''printf "%s'' @ bsl @ ''n" "$remote_logs"'',
         ''if printf "%s'' @ bsl @
        ''n" "$remote_logs" | grep -E "peer_count=0|Started with 0 seed peers" >/dev/null; then echo "TELENO_HEALTH_SIGNAL no-peers"; fi'',
         stopCriteriaGuardCommand n])\<close>

definition diskFloorKb :: "fleet_node \<Rightarrow> nat" where
  \<open>diskFloorKb n =
     (if n_network n = Testnet then 20 * 1024 * 1024 else 120 * 1024 * 1024)\<close>

definition installPreflightCommand :: "fleet_node \<Rightarrow> string" where
  \<open>installPreflightCommand n =
     (let ports = filter (\<lambda>p. p \<noteq> [])
             [bindPort (po_jsonrpcHostBind (n_ports n)), po_p2pPublic (n_ports n),
              bindPort (po_backupAdminListen (n_ports n))]
      in js_join nl
        ([''set -eu'',
          ''uname -a'',
          ''df -Pk '' @ remotePath (pt_baseDir (n_paths n)) @
        '' 2>/dev/null || df -Pk "$HOME" / || true'',
          ''docker --version || { echo "TELENO_STOP_CRITERIA: docker/systemd prerequisite missing"; exit 65; }'',
          ''available_kb=$(df -Pk "$HOME" | awk 'NR==2 {print $4}')'',
          ''if [ "$available_kb" -lt '' @ js_nat (diskFloorKb n) @
        '' ]; then echo "TELENO_STOP_CRITERIA: disk floor violation"; exit 65; fi'',
          ''if [ -e '' @ remotePath (pt_baseDir (n_paths n)) @
        '' ]; then echo "TELENO_STOP_CRITERIA: disposable BASEDIR already exists"; exit 65; fi'',
          ''if docker ps -a --format '{{.Names}}' 2>/dev/null | grep -Fx '' @ q (serviceName n) @
        '' >/dev/null; then echo "TELENO_STOP_CRITERIA: container already exists"; exit 65; fi''] @
         map portInUseGuard ports))\<close>

definition prodnetProofReferenceCommand :: "fleet_node \<Rightarrow> string" where
  \<open>prodnetProofReferenceCommand n =
     js_join nl
       [''set -eu'',
        ''echo "TELENO_PRODNET_PROOF_RECEIPT '' @ tr_prodnetObserverProofRef (n_trust n) @ ''"'',
        ''echo "TELENO_ARTIFACT_DIGEST_PINNED '' @ tr_artifactDigest (n_trust n) @ ''"'',
        ''echo "TELENO_BOOTSTRAP_POLICY '' @ tr_bootstrapPolicyId (n_trust n) @ ''"'',
        ''echo "TELENO_PRODNET_OBSERVER_ONLY block_production_disabled"'']\<close>

section \<open>Plan steps\<close>

definition commandStep :: "plan_phase \<Rightarrow> string \<Rightarrow> bool \<Rightarrow> bool \<Rightarrow> bool \<Rightarrow> command_step" where
  "commandStep ph cmd hostMutation chainMutation destructive =
     \<lparr>cs_phase = ph, cs_command = cmd, cs_hostMutation = hostMutation,
      cs_chainMutation = chainMutation, cs_destructive = destructive\<rparr>"

section \<open>The port of a bind address\<close>

lemma bindPort_sound:
  assumes "bindPort b \<noteq> []"
  shows "\<exists>pre. b = pre @ '':'' @ bindPort b \<and> (\<forall>c \<in> set (bindPort b). is_digit c)"
proof -
  obtain s0 t where ex: "js_exec bind_port_re b = Some (s0, t)"
    using assms by (cases "js_exec bind_port_re b") (auto simp: bindPort_def)
  from js_exec_sound [OF ex] obtain w u where b: "b = w @ u" and s0: "s0 = (rev w, u, [])"
    and r: "reach bind_port_re s0 t" by blast
  from r obtain v d x where v: "eats s0 [CHR '':''] v" and d: "\<forall>c \<in> set d. is_digit c"
    and x: "eats v d x" and t: "t = capture 1 v x" and e: "rest t = []"
    unfolding bind_port_re_def chr_def digit_def re_reach reach.simps(8,10) by blast
  have rx: "rest x = []" using t e by (simp add: capture_def)
  have "rest t = [] \<and> match_caps (s0, t) = [(1, d)]"
    using capture_eats [OF x] t e v s0 x by (simp add: match_caps_def eats_def)
  then have "bindPort b = d" by (simp add: bindPort_def ex)
  moreover have "b = w @ '':'' @ d" using b s0 v x rx by (simp add: eats_def)
  ultimately show ?thesis using d by blast
qed

section \<open>What the local shell is given\<close>

text \<open>
  A command whose first line redirects a here-document with the quoted delimiter: the lines up to
  the delimiter are the standard input of the first line, what follows them is run locally.
\<close>

definition here_tag :: string where
  "here_tag = ''TELENO_REMOTE''"

definition remote_stdin :: "string \<Rightarrow> string list" where
  "remote_stdin cmd = takeWhile (\<lambda>l. l \<noteq> here_tag) (tl (js_lines cmd))"

definition local_rest :: "string \<Rightarrow> string list" where
  "local_rest cmd = tl (dropWhile (\<lambda>l. l \<noteq> here_tag) (tl (js_lines cmd)))"

definition single_line :: "string \<Rightarrow> bool" where
  "single_line s \<longleftrightarrow> CHR 0x0A \<notin> set s"

lemma lines_append: "js_lines (a @ nl @ b) = js_lines a @ js_lines b"
  by (induction a) (auto simp: nl_def split: list.splits)

lemma lines_single: "single_line a \<Longrightarrow> js_lines a = [a]"
  by (induction a) (auto simp: single_line_def)

lemma single_line_append [simp]: "single_line (a @ b) \<longleftrightarrow> single_line a \<and> single_line b"
  by (auto simp: single_line_def)

lemma single_line_Cons [simp]: "single_line (c # b) \<longleftrightarrow> c \<noteq> CHR 0x0A \<and> single_line b"
  by (auto simp: single_line_def)

lemma single_line_Nil [simp]: "single_line []"
  by (simp add: single_line_def)

lemma ssh_lines:
  "single_line (n_connectionRef n) \<Longrightarrow>
   js_lines (ssh n body) = (''ssh '' @ n_connectionRef n @ '' <<'TELENO_REMOTE'' @ sq) # js_lines body @ [here_tag]"
proof -
  assume r: "single_line (n_connectionRef n)"
  define first where "first = ''ssh '' @ n_connectionRef n @ '' <<'TELENO_REMOTE'' @ sq"
  have "ssh n body = first @ nl @ body @ nl @ here_tag" by (simp add: first_def ssh_def here_tag_def)
  moreover have "js_lines first = [first]" using r by (intro lines_single) (simp add: first_def sq_def)
  moreover have "js_lines here_tag = [here_tag]" by (intro lines_single) (simp add: here_tag_def)
  ultimately show ?thesis by (simp only: first_def [symmetric] lines_append) simp
qed

lemma ssh_leaves_nothing_iff:
  assumes r: "single_line (n_connectionRef n)"
  shows "local_rest (ssh n body) = [] \<longleftrightarrow> here_tag \<notin> set (js_lines body)"
proof -
  have "local_rest (ssh n body) = tl (dropWhile (\<lambda>l. l \<noteq> here_tag) (js_lines body @ [here_tag]))"
    by (simp add: local_rest_def ssh_lines [OF r])
  moreover have "tl (dropWhile (\<lambda>l. l \<noteq> here_tag) (xs @ [here_tag])) = [] \<longleftrightarrow> here_tag \<notin> set xs" for xs
    by (induction xs) auto
  ultimately show ?thesis by simp
qed

lemma ssh_stdin:
  assumes r: "single_line (n_connectionRef n)" and t: "here_tag \<notin> set (js_lines body)"
  shows "remote_stdin (ssh n body) = js_lines body"
proof -
  have "takeWhile (\<lambda>l. l \<noteq> here_tag) (xs @ [here_tag]) = xs" if "here_tag \<notin> set xs" for xs
    using that by (induction xs) auto
  with t show ?thesis by (simp add: remote_stdin_def ssh_lines [OF r])
qed

section \<open>No command ends the here-document early\<close>

text \<open>
  If the text fields of a node hold no line feed, no line of any remote command is the delimiter.
  \<open>tagless\<close> is that fact about one text; a text of one line is tagless when its first
  character is not the delimiter's.
\<close>

definition tagless :: "string \<Rightarrow> bool" where
  "tagless s \<longleftrightarrow> here_tag \<notin> set (js_lines s)"

lemma lines_join: "xs \<noteq> [] \<Longrightarrow> js_lines (js_join nl xs) = concat (map js_lines xs)"
  by (induction nl xs rule: js_join.induct) (simp_all add: lines_append)

lemma tagless_join: "xs \<noteq> [] \<Longrightarrow> list_all tagless xs \<Longrightarrow> tagless (js_join nl xs)"
  by (auto simp: tagless_def lines_join list_all_iff)

lemma tagless_append_nl: "tagless a \<Longrightarrow> tagless b \<Longrightarrow> tagless (a @ nl @ b)"
  by (simp add: tagless_def lines_append)

lemma tagless_Cons: "c \<noteq> CHR ''T'' \<Longrightarrow> single_line (c # s) \<Longrightarrow> tagless (c # s)"
  by (simp only: tagless_def lines_single) (simp add: here_tag_def)

lemma single_line_sq_escape [simp]: "single_line (sq_escape v) \<longleftrightarrow> single_line v"
  by (auto simp: sq_escape_def single_line_def)

lemma single_line_q [simp]: "single_line (q v) \<longleftrightarrow> single_line v"
  by (simp add: q_def sq_def)

lemma single_line_dq_escape [simp]: "single_line (dq_escape v) \<longleftrightarrow> single_line v"
  by (auto simp: dq_escape_def single_line_def)

lemma single_line_drop: "single_line v \<Longrightarrow> single_line (drop k v)"
  by (auto simp: single_line_def dest: in_set_dropD)

lemma single_line_remotePath [simp]: "single_line v \<Longrightarrow> single_line (remotePath v)"
  by (simp add: remotePath_def dq_def single_line_drop)

lemma single_line_bindPort [simp]: "single_line b \<Longrightarrow> single_line (bindPort b)"
proof (cases "bindPort b = []")
  case False
  assume "single_line b"
  with bindPort_sound [OF False] show ?thesis by (auto simp: single_line_def is_digit_def cu_def)
qed simp

lemma single_line_enums [simp]: "single_line (network_str w)" "single_line (role_str r)"
  by (cases w; simp) (cases r; simp)

lemma single_line_js_or [simp]: "single_line a \<Longrightarrow> single_line b \<Longrightarrow> single_line (js_or a b)"
  by (simp add: js_or_def)

lemma single_line_js_nat [simp]: "single_line (js_nat k)"
proof (induction k rule: js_nat.induct)
  case (1 k)
  have digit: "d < 10 \<Longrightarrow> char_of (48 + d) \<noteq> (CHR 0x0A)" for d :: nat
  proof
    assume "d < 10" "char_of (48 + d) = (CHR 0x0A)"
    then have "(of_char (char_of (48 + d) :: char) :: nat) = of_char (CHR 0x0A)" by simp
    with \<open>d < 10\<close> show False by simp
  qed
  show ?case
    using 1 digit [of k] digit [of "k mod 10"] by (subst js_nat.simps) simp
qed

definition single_line_node :: "fleet_node \<Rightarrow> bool" where
  "single_line_node n \<longleftrightarrow>
     single_line (n_id n) \<and> single_line (n_connectionRef n) \<and>
     single_line (rt_image (n_runtime n)) \<and> single_line (rt_expectedVersion (n_runtime n)) \<and>
     single_line (rt_serviceName (n_runtime n)) \<and>
     single_line (pt_baseDir (n_paths n)) \<and> single_line (pt_config (n_paths n)) \<and>
     single_line (po_jsonrpcHostBind (n_ports n)) \<and> single_line (po_p2pPublic (n_ports n)) \<and>
     single_line (po_backupAdminListen (n_ports n)) \<and>
     single_line (bk_publicBootstrapUrl (n_backup n)) \<and>
     single_line (tr_artifactDigest (n_trust n)) \<and> single_line (tr_artifactSignatureRef (n_trust n)) \<and>
     single_line (tr_bootstrapPolicyId (n_trust n)) \<and> single_line (tr_bootstrapPolicyDigest (n_trust n)) \<and>
     single_line (tr_prodnetObserverProofRef (n_trust n))"

lemma single_line_dirs [simp]:
  assumes "single_line_node n"
  shows "single_line (serviceName n)" "single_line (telenoControlDir n)"
    "single_line (rollbackHistoryDir n)" "single_line (receiptDir n)"
    "single_line (reviewedArtifactVersion n)" "single_line (p2pInternalPort n)"
    "single_line (jsonRpcListen n)" "single_line (p2pListen n)"
  using assms
  by (simp_all add: single_line_node_def serviceName_def telenoControlDir_def rollbackHistoryDir_def
      receiptDir_def reviewedArtifactVersion_def p2pInternalPort_def jsonRpcListen_def
      dockerContainerListen_def p2pListen_def Let_def)

lemma single_line_fields [simp]:
  assumes "single_line_node n"
  shows "single_line (n_id n)" "single_line (n_connectionRef n)"
    "single_line (rt_image (n_runtime n))" "single_line (rt_serviceName (n_runtime n))"
    "single_line (pt_baseDir (n_paths n))" "single_line (pt_config (n_paths n))"
    "single_line (po_jsonrpcHostBind (n_ports n))" "single_line (po_p2pPublic (n_ports n))"
    "single_line (po_backupAdminListen (n_ports n))"
    "single_line (bk_publicBootstrapUrl (n_backup n))"
    "single_line (tr_artifactDigest (n_trust n))" "single_line (tr_artifactSignatureRef (n_trust n))"
    "single_line (tr_bootstrapPolicyId (n_trust n))" "single_line (tr_bootstrapPolicyDigest (n_trust n))"
    "single_line (tr_prodnetObserverProofRef (n_trust n))"
  using assms by (simp_all add: single_line_node_def)

lemma single_line_runtime [simp]:
  assumes "single_line_node n"
  shows "single_line (runtimeStatusCommand n)" "single_line (runtimeStopCommand n)"
    "single_line (runtimeStartCommand n)"
  using assms
  by (simp_all add: runtimeStatusCommand_def runtimeStopCommand_def runtimeStartCommand_def Let_def sq_def)

lemma tagless_runtime [simp]:
  assumes "single_line_node n" "single_line x"
  shows "tagless (runtimeStatusCommand n @ x)" "tagless (runtimeStopCommand n @ x)"
    "tagless (runtimeStartCommand n @ x)"
  using assms
  by (simp_all add: runtimeStatusCommand_def runtimeStopCommand_def runtimeStartCommand_def Let_def sq_def
      tagless_Cons)

lemmas tagless_runtime_Nil [simp] = tagless_runtime [where x = "[]", simplified]

lemma single_line_cli [simp]:
  "single_line_node n \<Longrightarrow> single_line args \<Longrightarrow> single_line (telenoNodeCliCommand n args)"
  by (simp add: telenoNodeCliCommand_def)

lemma tagless_cli [simp]:
  "single_line_node n \<Longrightarrow> single_line args \<Longrightarrow> tagless (telenoNodeCliCommand n args)"
  by (simp add: telenoNodeCliCommand_def tagless_Cons)

lemma tagless_stop_guard [simp]: "single_line_node n \<Longrightarrow> tagless (stopCriteriaGuardCommand n)"
  unfolding stopCriteriaGuardCommand_def Let_def by (rule tagless_join) (simp_all add: tagless_Cons)

lemma tagless_port_guard [simp]: "single_line port \<Longrightarrow> tagless (portInUseGuard port)"
  unfolding portInUseGuard_def by (rule tagless_join) (simp_all add: tagless_Cons bsl_def)

lemma tagless_preflight [simp]:
  "single_line_node n \<Longrightarrow> tagless (installPreflightCommand n)"
  unfolding installPreflightCommand_def Let_def
  by (rule tagless_join) (simp_all add: tagless_Cons list_all_iff)

lemma tagless_evidence [simp]:
  assumes "single_line_node n"
  shows "tagless (artifactEvidenceCommand n)"
proof (cases "rt_kind (n_runtime n) = Docker")
  case True
  then show ?thesis unfolding artifactEvidenceCommand_def Let_def if_P [OF True]
    by (intro tagless_join) (use assms in \<open>simp_all add: tagless_Cons bsl_def\<close>)
next
  case False
  then show ?thesis using assms by (simp add: artifactEvidenceCommand_def Let_def tagless_Cons)
qed

lemma tagless_trust [simp]:
  assumes "single_line_node n"
  shows "tagless (prodnetArtifactTrustCommand n)" "tagless (prodnetBootstrapTrustCommand n)"
    "tagless (prodnetObserverProofCommand n)" "tagless (prodnetProofReferenceCommand n)"
proof -
  have [simp]: "single_line (publicBootstrapUrlForNetwork Mainnet)" by code_simp
  show "tagless (prodnetArtifactTrustCommand n)" using assms unfolding prodnetArtifactTrustCommand_def
    by (intro tagless_join) (simp_all add: tagless_Cons)
  show "tagless (prodnetBootstrapTrustCommand n)" using assms unfolding prodnetBootstrapTrustCommand_def
    by (intro tagless_join) (simp_all add: tagless_Cons bsl_def)
  show "tagless (prodnetObserverProofCommand n)" using assms unfolding prodnetObserverProofCommand_def
    by (intro tagless_join) (simp_all add: tagless_Cons)
  show "tagless (prodnetProofReferenceCommand n)" using assms unfolding prodnetProofReferenceCommand_def
    by (intro tagless_join) (simp_all add: tagless_Cons)
qed

lemma single_line_peers: "list_all single_line (p2pPeers n)"
proof -
  have "list_all single_line testnet_p2p_peers" "list_all single_line mainnet_p2p_peers" by code_simp+
  then show ?thesis by (simp add: p2pPeers_def)
qed

lemma tagless_config [simp]:
  assumes "single_line_node n"
  shows "tagless (observerConfigCommand n)"
proof -
  have "tagless ''TELENO_CONFIG''" by code_simp
  then show ?thesis using assms single_line_peers [of n] unfolding observerConfigCommand_def
    by (intro tagless_join) (simp_all add: tagless_Cons sq_def list_all_iff)
qed

lemma tagless_rollback [simp]:
  assumes "single_line_node n"
  shows "tagless (rollbackEvidencePreflightCommand n)" "tagless (rollbackConfigCommand n)"
    "tagless (rollbackRuntimeCommand n)" "single_line act \<Longrightarrow> tagless (preserveReceiptCommand n act)"
    "single_line act \<Longrightarrow> tagless (destructiveReceiptCommand n act)"
proof -
  show "tagless (rollbackEvidencePreflightCommand n)" using assms unfolding rollbackEvidencePreflightCommand_def
    by (intro tagless_join) (simp_all add: tagless_Cons)
  show "tagless (rollbackConfigCommand n)" using assms unfolding rollbackConfigCommand_def
    by (intro tagless_join) (simp_all add: tagless_Cons)
  show "single_line act \<Longrightarrow> tagless (preserveReceiptCommand n act)" using assms unfolding preserveReceiptCommand_def
    by (intro tagless_join) (simp_all add: tagless_Cons bsl_def)
  show "single_line act \<Longrightarrow> tagless (destructiveReceiptCommand n act)" using assms unfolding destructiveReceiptCommand_def
    by (intro tagless_join) (simp_all add: tagless_Cons bsl_def)
  show "tagless (rollbackRuntimeCommand n)"
  proof (cases "rt_kind (n_runtime n) = Docker")
    case True
    then have k: "\<not> rt_kind (n_runtime n) \<noteq> Docker" by simp
    show ?thesis unfolding rollbackRuntimeCommand_def Let_def if_not_P [OF k]
      by (intro tagless_join) (use assms in \<open>simp_all add: tagless_Cons\<close>)
  next
    case False
    then show ?thesis by (simp add: rollbackRuntimeCommand_def tagless_Cons)
  qed
qed

lemma tagless_cleanup [simp]:
  assumes "single_line_node n"
  shows "tagless (cleanupEvidencePreflightCommand n)" "tagless (cleanupCandidateListCommand n)"
    "tagless (cleanupTemporaryCommand n)"
proof -
  show "tagless (cleanupEvidencePreflightCommand n)" using assms unfolding cleanupEvidencePreflightCommand_def
    by (intro tagless_join) (simp_all add: tagless_Cons)
  show "tagless (cleanupCandidateListCommand n)" using assms unfolding cleanupCandidateListCommand_def
    by (intro tagless_join) (simp_all add: tagless_Cons cleanupCandidates_def)
  show "tagless (cleanupTemporaryCommand n)" using assms unfolding cleanupTemporaryCommand_def
    by (intro tagless_join) (simp_all add: tagless_Cons cleanupCandidates_def bsl_def)
qed

lemma tagless_health [simp]:
  assumes "single_line_node n"
  shows "tagless (healthCheckCommand n)"
  using assms unfolding healthCheckCommand_def Let_def
  by (intro tagless_join) (simp_all add: tagless_Cons bsl_def sq_def)

section \<open>Commands of several lines\<close>

text \<open>No line of a text but perhaps its first is the delimiter.\<close>

definition tail_tagless :: "string \<Rightarrow> bool" where
  "tail_tagless s \<longleftrightarrow> here_tag \<notin> set (tl (js_lines s))"

lemma tail_single: "single_line s \<Longrightarrow> tail_tagless s"
  by (simp add: tail_tagless_def lines_single)

lemma tail_nl: "tail_tagless (nl @ s) \<longleftrightarrow> tagless s"
  by (simp add: tail_tagless_def tagless_def nl_def)

lemma lines_single_append:
  "single_line a \<Longrightarrow> js_lines (a @ s) = (a @ hd (js_lines s)) # tl (js_lines s)"
proof (induction a)
  case Nil
  then show ?case using js_split_not_Nil [of "CHR 0x0A" s] by simp
qed (auto simp: single_line_def)

lemma tail_append: "single_line a \<Longrightarrow> tail_tagless (a @ s) \<longleftrightarrow> tail_tagless s"
  by (simp add: tail_tagless_def lines_single_append)

lemma tail_Cons: "c \<noteq> CHR 0x0A \<Longrightarrow> tail_tagless (c # s) \<longleftrightarrow> tail_tagless s"
  using tail_append [of "[c]" s] by simp

lemma tagless_tail: "c \<noteq> CHR ''T'' \<Longrightarrow> c \<noteq> CHR 0x0A \<Longrightarrow> tail_tagless s \<Longrightarrow> tagless (c # s)"
  using lines_single_append [of "[c]" s]
  by (auto simp: tagless_def tail_tagless_def here_tag_def)

lemma tagless_runtime_tail:
  assumes "single_line_node n" "tail_tagless x"
  shows "tagless (runtimeStatusCommand n @ x)" "tagless (runtimeStopCommand n @ x)"
  using assms
  by (simp_all add: runtimeStatusCommand_def runtimeStopCommand_def sq_def tagless_tail tail_Cons tail_append)

lemmas tail_rules = tagless_tail tail_Cons tail_append tail_nl tail_single tagless_runtime_tail

section \<open>The words of the node commands\<close>

text \<open>
  The argument vector of a backup command as the remote shell splits it, for any path, image and
  bootstrap URL: nothing in these values can end a word or start a command.
\<close>

definition backup_args :: "fleet_node \<Rightarrow> string \<Rightarrow> string" where
  "backup_args n verb =
     verb @ '' --backup-public-url '' @ q (bk_publicBootstrapUrl (n_backup n)) @ '' --backup-json''"

lemma scan_backup_args:
  assumes "verb \<noteq> []" "list_all sh_plain verb"
  shows "sh_scan h Bare None (backup_args n verb) =
    Some [verb, ''--backup-public-url'', bk_publicBootstrapUrl (n_backup n), ''--backup-json'']"
proof -
  have split: "backup_args n verb =
    spaced_words [verb, ''--backup-public-url''] @ q (bk_publicBootstrapUrl (n_backup n)) @ CHR '' '' # ''--backup-json''"
    by (simp add: backup_args_def spaced_words_def)
  have pw: "plain_words [verb, ''--backup-public-url'']"
  proof -
    have "list_all sh_plain ''--backup-public-url''" by code_simp
    with assms show ?thesis by (simp add: plain_words_def)
  qed
  have "list_all sh_plain ''--backup-json''" by code_simp
  then have "sh_scan h Bare None ''--backup-json'' = Some [''--backup-json'']" by (intro scan_last_word) simp_all
  then show ?thesis
    unfolding split scan_spaced_words [OF pw] single.quote_then_space by simp
qed

lemma systemd_words:
  assumes "rt_kind (n_runtime n) = Systemd" "verb \<noteq> []" "list_all sh_plain verb"
  shows "sh_words h (telenoNodeCliCommand n (backup_args n verb)) =
    Some [''teleno_node'', ''--basedir'', path_meaning h (pt_baseDir (n_paths n)),
          ''--config'', path_meaning h (pt_config (n_paths n)),
          verb, ''--backup-public-url'', bk_publicBootstrapUrl (n_backup n), ''--backup-json'']"
proof -
  have split: "telenoNodeCliCommand n (backup_args n verb) =
    spaced_words [''teleno_node'', ''--basedir''] @ remotePath (pt_baseDir (n_paths n)) @ CHR '' '' #
      spaced_words [''--config''] @ remotePath (pt_config (n_paths n)) @ CHR '' '' # backup_args n verb"
    using assms(1) by (simp add: telenoNodeCliCommand_def spaced_words_def)
  have pw: "plain_words [''teleno_node'', ''--basedir'']" "plain_words [''--config'']" by code_simp+
  show ?thesis
    unfolding sh_words_def split scan_spaced_words [OF pw(1)] path.quote_then_space
      scan_spaced_words [OF pw(2)] scan_backup_args [OF assms(2,3)] by simp
qed

lemma docker_words:
  assumes "rt_kind (n_runtime n) = Docker" "verb \<noteq> []" "list_all sh_plain verb"
  shows "sh_words h (telenoNodeCliCommand n (backup_args n verb)) =
    Some [''docker'', ''run'', ''--rm'', ''-v'', path_meaning h (pt_baseDir (n_paths n)) @ '':/data'',
          rt_image (n_runtime n), ''--basedir'', ''/data'', ''--config'', ''/data/config.yml'',
          verb, ''--backup-public-url'', bk_publicBootstrapUrl (n_backup n), ''--backup-json'']"
proof -
  have split: "telenoNodeCliCommand n (backup_args n verb) =
    spaced_words [''docker'', ''run'', ''--rm'', ''-v''] @ remotePath (pt_baseDir (n_paths n)) @ '':/data'' @ CHR '' '' #
      q (rt_image (n_runtime n)) @ CHR '' '' #
      spaced_words [''--basedir'', ''/data'', ''--config'', ''/data/config.yml''] @ backup_args n verb"
    using assms(1) by (simp add: telenoNodeCliCommand_def spaced_words_def)
  have pw: "plain_words [''docker'', ''run'', ''--rm'', ''-v'']"
    "plain_words [''--basedir'', ''/data'', ''--config'', ''/data/config.yml'']" by code_simp+
  have data: "list_all sh_plain '':/data''" by code_simp
  show ?thesis
    unfolding sh_words_def split scan_spaced_words [OF pw(1)] path.reads_back scan_plain [OF data]
    by (simp add: single.quote_then_space scan_spaced_words [OF pw(2)] scan_backup_args [OF assms(2,3)])
qed

section \<open>Properties\<close>

text \<open>C7: the backup commands of a plan run \<open>teleno_node\<close> with exactly the argument vector the code
  means, in a container or directly: for every base directory, config path, image and bootstrap URL
  the remote shell sees one word per value and nothing else.\<close>

theorem backup_command_words:
  assumes "verb \<in> {''--backup-public-list'', ''--backup-public-restore''}"
  shows "sh_words h (telenoNodeCliCommand n (backup_args n verb)) = Some
    ((if rt_kind (n_runtime n) = Docker
      then [''docker'', ''run'', ''--rm'', ''-v'', path_meaning h (pt_baseDir (n_paths n)) @ '':/data'',
            rt_image (n_runtime n), ''--basedir'', ''/data'', ''--config'', ''/data/config.yml'']
      else [''teleno_node'', ''--basedir'', path_meaning h (pt_baseDir (n_paths n)),
            ''--config'', path_meaning h (pt_config (n_paths n))]) @
     [verb, ''--backup-public-url'', bk_publicBootstrapUrl (n_backup n), ''--backup-json''])"
proof -
  have v: "verb \<noteq> []" using assms by auto
  have "list_all sh_plain ''--backup-public-list''" "list_all sh_plain ''--backup-public-restore''" by code_simp+
  with assms have p: "list_all sh_plain verb" by blast
  show ?thesis
    using docker_words [OF _ v p, of n h] systemd_words [OF _ v p, of n h]
    by (cases "rt_kind (n_runtime n)") simp_all
qed

theorem backup_command_words_witness:
  "sh_words ''/root'' (telenoNodeCliCommand (defaultNode ''a'' Testnet)
      (backup_args (defaultNode ''a'' Testnet) ''--backup-public-list'')) = Some
    [''docker'', ''run'', ''--rm'', ''-v'', ''/root/koinos-one/nodes/testnet/a/basedir:/data'',
     ''ghcr.io/koinos/teleno-node:beta'', ''--basedir'', ''/data'', ''--config'', ''/data/config.yml'',
     ''--backup-public-list'', ''--backup-public-url'', publicBootstrapUrlForNetwork Testnet, ''--backup-json'']"
proof -
  let ?n = "defaultNode ''a'' Testnet"
  have f: "rt_kind (n_runtime ?n) = Docker" "rt_image (n_runtime ?n) = ''ghcr.io/koinos/teleno-node:beta''"
    "path_meaning ''/root'' (pt_baseDir (n_paths ?n)) @ '':/data'' = ''/root/koinos-one/nodes/testnet/a/basedir:/data''"
    "bk_publicBootstrapUrl (n_backup ?n) = publicBootstrapUrlForNetwork Testnet"
    by code_simp+
  show ?thesis
    using backup_command_words [of "''--backup-public-list''" "''/root''" ?n] by (simp add: f)
qed

text \<open>the port the planner reads off a bind address is empty or the decimal digits after the last
  colon of the address.\<close>

theorem bind_port_is_the_tail:
  assumes "bindPort b \<noteq> []"
  shows "\<exists>pre. b = pre @ '':'' @ bindPort b \<and> list_all is_digit (bindPort b)"
  using bindPort_sound [OF assms] by (auto simp: list_all_iff)

theorem bind_port_is_the_tail_witness:
  "bindPort ''127.0.0.1:18122'' = ''18122'' \<and>
   (\<exists>pre. ''127.0.0.1:18122'' = pre @ '':'' @ bindPort ''127.0.0.1:18122'')"
proof -
  have p: "bindPort ''127.0.0.1:18122'' = ''18122''" by code_simp
  then have "bindPort ''127.0.0.1:18122'' \<noteq> []" by simp
  from bind_port_is_the_tail [OF this] p show ?thesis by blast
qed

end
