(* ===== verification/FleetValidate.thy ===== *)
theory FleetValidate
  imports FleetCommands
begin

text \<open>
  The safety rules of a fleet inventory, src/app/remote-nodes.ts lines 729-835: what looks like
  a raw host or a secret, what counts as loopback, the production-network trust checks, the scan
  for duplicates per host, and validateRemoteFleetInventory.

  The duplicate scan is stated against what it is for: it raises a notice exactly when two
  different positions of the inventory hold the same value in the same scope.
\<close>

section \<open>Patterns\<close>

definition raw_at_re :: re where
  "raw_at_re = chr (CHR ''@'')"

definition raw_ipv4_re :: re where
  "raw_ipv4_re = seqs ([WordB] @ [between 1 3 digit] @ replicate 3 (Seq (chr (CHR ''.'')) (between 1 3 digit)) @ [WordB])"

definition raw_domain_re :: re where
  "raw_domain_re = seqs [chr (CHR ''.''), Cls is_alpha, plus (Cls is_alpha), WordB]"

definition looksLikeRawHostReference :: "string \<Rightarrow> bool" where
  "looksLikeRawHostReference v \<longleftrightarrow>
     js_test raw_at_re v \<or> js_test raw_ipv4_re v \<or> js_test raw_domain_re v"

definition secret_re :: re where
  "secret_re = Grp 1 (alts [lit_i ''password'', lit_i ''passwd'',
     seqs [lit_i ''private'', opt dot, lit_i ''key''],
     lit_i ''token'', lit_i ''secret'', lit_i ''seed'', lit_i ''wif''])"

definition looksLikeSecretReference :: "string \<Rightarrow> bool" where
  "looksLikeSecretReference v = js_test secret_re v"

definition isLoopbackBind :: "string \<Rightarrow> bool" where
  "isLoopbackBind v \<longleftrightarrow> js_starts_with v ''127.0.0.1:'' \<or> js_starts_with v ''localhost:''"

section \<open>Production-network trust\<close>

definition isProdnetObserverMutation :: "action \<Rightarrow> fleet_node \<Rightarrow> bool" where
  "isProdnetObserverMutation a n \<longleftrightarrow>
     n_network n = Mainnet \<and>
     (a = InstallObserver \<or> a = RestorePublicBootstrap \<or> a = StartObserver)"

definition digest_re :: re where
  "digest_re = seqs ([Bol, lit_i ''sha256:''] @
     [copies 64 (Cls (\<lambda>c. is_digit c \<or> lower_char c \<in> set ''abcdef''))] @ [Eol])"

definition hasPinnedArtifactDigest :: "fleet_node \<Rightarrow> bool" where
  "hasPinnedArtifactDigest n \<longleftrightarrow>
     (let digest = tr_artifactDigest (n_trust n)
      in js_test digest_re digest \<and> js_includes (rt_image (n_runtime n)) (''@'' @ digest))"

definition hasProdnetBootstrapPolicy :: "fleet_node \<Rightarrow> bool" where
  "hasProdnetBootstrapPolicy n \<longleftrightarrow>
     tr_bootstrapPolicyId (n_trust n) = prodnet_bootstrap_policy_id \<and>
     tr_bootstrapPolicyDigest (n_trust n) = prodnet_bootstrap_policy_digest \<and>
     bk_publicBootstrapUrl (n_backup n) = publicBootstrapUrlForNetwork Mainnet"

definition proof_ref_re :: re where
  "proof_ref_re = seqs [Bol, Grp 1 (alts [lit ''remote'', lit ''proof'']), chr (CHR ''-''),
     plus (Cls (\<lambda>c. is_word c \<or> c = CHR ''-'')), Eol]"

definition hasProdnetDryRunProof :: "fleet_node \<Rightarrow> bool" where
  "hasProdnetDryRunProof n = js_test proof_ref_re (tr_prodnetObserverProofRef (n_trust n))"

section \<open>The duplicate scan\<close>

text \<open>
  The map \<open>seen\<close> is an association from the scoped value to the first node's id. A node
  whose id is empty is stored, but its empty id is falsy, so the next match overwrites it
  instead of raising a notice.
\<close>

definition scoped_value :: "string \<Rightarrow> string \<Rightarrow> string" where
  "scoped_value scope v = scope @ [CHR 0x00] @ v"

definition duplicate_notice :: "notice_code \<Rightarrow> string \<Rightarrow> string \<Rightarrow> string \<Rightarrow> fleet_node \<Rightarrow> string \<Rightarrow> notice" where
  "duplicate_notice code field existing scope n v =
     \<lparr>nt_code = code, nt_field = Some field,
      nt_value = Some (if scope \<noteq> [] then existing @ '', '' @ n_id n @ '' on '' @ scope @ '': '' @ v
                       else existing @ '', '' @ n_id n @ '': '' @ v)\<rparr>"

fun duplicate_scan ::
  "(fleet_node \<Rightarrow> string) \<Rightarrow> notice_code \<Rightarrow> string \<Rightarrow> (fleet_node \<Rightarrow> string)
   \<Rightarrow> (string \<Rightarrow> string option) \<Rightarrow> fleet_node list \<Rightarrow> notice list" where
  "duplicate_scan sel code field scope_of seen [] = []"
| "duplicate_scan sel code field scope_of seen (n # ns) =
     (let v = sel n
      in if v = [] \<or> js_includes v ''<'' then duplicate_scan sel code field scope_of seen ns
         else
           let scope = scope_of n; key = scoped_value scope v;
               existing = (case seen key of None \<Rightarrow> [] | Some x \<Rightarrow> x)
           in if existing \<noteq> []
              then duplicate_notice code field existing scope n v # duplicate_scan sel code field scope_of seen ns
              else duplicate_scan sel code field scope_of (seen(key \<mapsto> n_id n)) ns)"

definition addDuplicateNotices ::
  "fleet_node list \<Rightarrow> (fleet_node \<Rightarrow> string) \<Rightarrow> notice_code \<Rightarrow> string \<Rightarrow> (fleet_node \<Rightarrow> string) \<Rightarrow> notice list" where
  "addDuplicateNotices nodes sel code field scope_of =
     duplicate_scan sel code field scope_of (\<lambda>_. None) nodes"

text \<open>The scope of a call that passes no scope selector.\<close>

definition no_scope :: "fleet_node \<Rightarrow> string" where
  "no_scope n = []"

definition hostConflictScope :: "fleet_node \<Rightarrow> string" where
  "hostConflictScope n = js_or (n_connectionRef n) (js_or (n_hostRef n) (n_id n))"

section \<open>validateRemoteFleetInventory\<close>

definition notice_of :: "notice_code \<Rightarrow> string \<Rightarrow> notice" where
  "notice_of code field = \<lparr>nt_code = code, nt_field = Some field, nt_value = None\<rparr>"

definition notice_with :: "notice_code \<Rightarrow> string \<Rightarrow> string \<Rightarrow> notice" where
  "notice_with code field v = \<lparr>nt_code = code, nt_field = Some field, nt_value = Some v\<rparr>"

definition values_to_scan :: "fleet_node \<Rightarrow> string list" where
  "values_to_scan n =
     [n_hostRef n, n_connectionRef n, rt_serviceName (n_runtime n), pt_baseDir (n_paths n),
      pt_config (n_paths n), bk_privateBackupPolicyRef (n_backup n),
      tr_artifactSignatureRef (n_trust n), tr_prodnetObserverProofRef (n_trust n),
      pr_profileRef (n_producer n)]"

definition node_notices :: "fleet_node \<Rightarrow> notice list" where
  "node_notices n =
     push_if (\<not> sf_observerFirstRequired (n_safety n)) (notice_of ObserverFirstRequired (n_id n)) @
     push_if (sf_mainnetMutationAllowed (n_safety n)) (notice_of MainnetMutationBlocked (n_id n)) @
     push_if (sf_remoteAdminPublicExposureAllowed (n_safety n)) (notice_of PublicAdminBlocked (n_id n)) @
     push_if (pr_enabled (n_producer n) \<or> n_role n = Producer) (notice_of ProducerUnavailable (n_id n)) @
     push_if (\<not> isLoopbackBind (po_jsonrpcHostBind (n_ports n)))
       (notice_with JsonrpcPublicBlocked (n_id n @ ''.ports.jsonrpcHostBind'') (po_jsonrpcHostBind (n_ports n))) @
     push_if (po_backupAdminListen (n_ports n) \<noteq> [] \<and> \<not> isLoopbackBind (po_backupAdminListen (n_ports n)))
       (notice_with PublicAdminBlocked (n_id n @ ''.ports.backupAdminListen'') (po_backupAdminListen (n_ports n))) @
     push_if (looksLikeRawHostReference (n_hostRef n) \<or> looksLikeRawHostReference (n_connectionRef n))
       (notice_with RawHostRefBlocked (n_id n) (n_hostRef n)) @
     map (notice_with SecretReferenceBlocked (n_id n)) (filter looksLikeSecretReference (values_to_scan n)) @
     push_if (bk_publicBootstrapUrl (n_backup n) = []) (notice_of PublicBootstrapMissing (n_id n))"

definition duplicate_notices :: "fleet_node list \<Rightarrow> notice list" where
  "duplicate_notices nodes =
     addDuplicateNotices nodes n_id DuplicateNodeId ''id'' no_scope @
     addDuplicateNotices nodes (\<lambda>n. pt_baseDir (n_paths n)) DuplicateBaseDir ''paths.baseDir'' hostConflictScope @
     addDuplicateNotices nodes (\<lambda>n. po_jsonrpcHostBind (n_ports n)) DuplicatePort ''ports.jsonrpcHostBind'' hostConflictScope @
     addDuplicateNotices nodes (\<lambda>n. po_p2pPublic (n_ports n)) DuplicatePort ''ports.p2pPublic'' hostConflictScope @
     addDuplicateNotices nodes (\<lambda>n. pr_profileRef (n_producer n)) DuplicateProducerProfile ''producer.profileRef'' no_scope"

definition validateRemoteFleetInventory :: "inventory \<Rightarrow> notice list" where
  "validateRemoteFleetInventory fleet =
     concat (map node_notices (inv_nodes fleet)) @ duplicate_notices (inv_nodes fleet)"

section \<open>What the duplicate scan finds\<close>

text \<open>A value that is compared at all.\<close>

definition compared :: "string \<Rightarrow> bool" where
  "compared v \<longleftrightarrow> v \<noteq> [] \<and> \<not> js_includes v ''<''"

definition scoped_keys :: "(fleet_node \<Rightarrow> string) \<Rightarrow> (fleet_node \<Rightarrow> string) \<Rightarrow> fleet_node list \<Rightarrow> string list" where
  "scoped_keys sel scope_of ns =
     map (\<lambda>n. scoped_value (scope_of n) (sel n)) (filter (\<lambda>n. compared (sel n)) ns)"

lemma duplicate_scan_Nil_iff:
  assumes "\<forall>n \<in> set ns. n_id n \<noteq> []" and "\<forall>k i. seen k = Some i \<longrightarrow> i \<noteq> []"
  shows "duplicate_scan sel code field scope_of seen ns = [] \<longleftrightarrow>
    distinct (scoped_keys sel scope_of ns) \<and> set (scoped_keys sel scope_of ns) \<inter> dom seen = {}"
  using assms
proof (induction ns arbitrary: seen)
  case Nil
  then show ?case by (simp add: scoped_keys_def)
next
  case (Cons n ns)
  let ?key = "scoped_value (scope_of n) (sel n)"
  show ?case
  proof (cases "compared (sel n)")
    case False
    then have "duplicate_scan sel code field scope_of seen (n # ns) = duplicate_scan sel code field scope_of seen ns"
      by (auto simp: compared_def Let_def)
    with False Cons show ?thesis by (simp add: scoped_keys_def)
  next
    case True
    show ?thesis
    proof (cases "seen ?key")
      case None
      let ?seen = "seen(?key \<mapsto> n_id n)"
      have "duplicate_scan sel code field scope_of seen (n # ns) = duplicate_scan sel code field scope_of ?seen ns"
        using True None by (simp add: compared_def Let_def)
      moreover have "duplicate_scan sel code field scope_of ?seen ns = [] \<longleftrightarrow>
        distinct (scoped_keys sel scope_of ns) \<and> set (scoped_keys sel scope_of ns) \<inter> dom ?seen = {}"
        using Cons.prems by (intro Cons.IH) auto
      ultimately show ?thesis using True None by (auto simp: scoped_keys_def)
    next
      case (Some i)
      then have "i \<noteq> []" using Cons.prems by blast
      then show ?thesis using True Some by (auto simp: compared_def Let_def scoped_keys_def)
    qed
  qed
qed

lemma addDuplicateNotices_Nil_iff:
  "\<forall>n \<in> set ns. n_id n \<noteq> [] \<Longrightarrow>
   addDuplicateNotices ns sel code field scope_of = [] \<longleftrightarrow> distinct (scoped_keys sel scope_of ns)"
  by (simp add: addDuplicateNotices_def duplicate_scan_Nil_iff)

lemma duplicate_scan_codes:
  "nt \<in> set (duplicate_scan sel code field scope_of seen ns) \<Longrightarrow> nt_code nt = code \<and> nt_field nt = Some field"
  by (induction ns arbitrary: seen) (auto simp: Let_def duplicate_notice_def split: if_splits)

text \<open>
  Whoever takes part in a clash is named in a notice: the scan names the first holder of the
  value and the node that repeats it.
\<close>

lemma includes_middle: "js_includes (a @ b @ c) b"
  by (auto intro: js_intro)

lemma duplicate_notice_names:
  "js_includes (the (nt_value (duplicate_notice code field existing scope n v))) existing"
  "js_includes (the (nt_value (duplicate_notice code field existing scope n v))) (n_id n)"
  by (auto simp: duplicate_notice_def intro: js_intro simp del: append.simps)

definition names :: "notice \<Rightarrow> string \<Rightarrow> bool" where
  "names nt i \<longleftrightarrow> (\<exists>v. nt_value nt = Some v \<and> js_includes v i)"

lemma duplicate_notice_names' [simp]:
  "names (duplicate_notice code field existing scope n v) existing"
  "names (duplicate_notice code field existing scope n v) (n_id n)"
  using duplicate_notice_names [of code field existing scope n v]
  by (simp_all add: names_def duplicate_notice_def)

lemma duplicate_scan_seen:
  assumes "m \<in> set ns" "compared (sel m)"
    and "seen (scoped_value (scope_of m) (sel m)) = Some i" "i \<noteq> []"
  shows "\<exists>nt \<in> set (duplicate_scan sel code field scope_of seen ns). names nt i \<and> names nt (n_id m)"
  using assms
proof (induction ns arbitrary: seen)
  case (Cons n ns)
  let ?key = "scoped_value (scope_of n) (sel n)"
  show ?case
  proof (cases "m = n")
    case True
    with Cons.prems show ?thesis by (auto simp: compared_def Let_def)
  next
    case False
    then have m: "m \<in> set ns" using Cons.prems by simp
    show ?thesis
    proof (cases "compared (sel n) \<and> ?key \<noteq> scoped_value (scope_of m) (sel m) \<and> (seen ?key = None \<or> seen ?key = Some [])")
      case True
      then have eq: "duplicate_scan sel code field scope_of seen (n # ns) =
        duplicate_scan sel code field scope_of (seen(?key \<mapsto> n_id n)) ns"
        by (auto simp: compared_def Let_def)
      have sm: "(seen(?key \<mapsto> n_id n)) (scoped_value (scope_of m) (sel m)) = Some i"
        using True Cons.prems by auto
      show ?thesis unfolding eq by (rule Cons.IH [where seen = "seen(?key \<mapsto> n_id n)", OF m Cons.prems(2) sm Cons.prems(4)])
    next
      case False
      then have "set (duplicate_scan sel code field scope_of seen ns) \<subseteq>
        set (duplicate_scan sel code field scope_of seen (n # ns))"
        using Cons.prems by (auto simp: compared_def Let_def split: option.splits)
      with Cons.IH [OF m, of seen] Cons.prems show ?thesis by blast
    qed
  qed
qed simp

lemma duplicate_scan_names_clashing:
  assumes "\<forall>n \<in> set ns. n_id n \<noteq> []" "\<forall>k i. seen k = Some i \<longrightarrow> i \<noteq> []"
    and "p < length ns" "r < length ns" "p \<noteq> r"
    and "compared (sel (ns ! p))" "compared (sel (ns ! r))"
    and "scoped_value (scope_of (ns ! p)) (sel (ns ! p)) = scoped_value (scope_of (ns ! r)) (sel (ns ! r))"
  shows "\<exists>nt \<in> set (duplicate_scan sel code field scope_of seen ns). names nt (n_id (ns ! p))"
  using assms
proof (induction ns arbitrary: seen p r)
  case (Cons n ns)
  let ?key = "scoped_value (scope_of n) (sel n)"
  let ?scan = "duplicate_scan sel code field scope_of"
  consider (seen) i where "compared (sel n)" "seen ?key = Some i" "i \<noteq> []"
    | (fresh) "compared (sel n)" "seen ?key = None"
    | (skip) "\<not> compared (sel n)"
    using Cons.prems(2) by (cases "seen ?key") auto
  then show ?case
  proof cases
    case (seen i)
    then have sub: "set (?scan seen ns) \<subseteq> set (?scan seen (n # ns))"
      by (auto simp: compared_def Let_def)
    show ?thesis
    proof (cases p)
      case 0
      with seen show ?thesis using duplicate_scan_seen [of n "n # ns" sel seen scope_of i code field] by auto
    next
      case (Suc p')
      note p = Suc
      show ?thesis
      proof (cases r)
        case 0
        with p seen Cons.prems have "\<exists>nt \<in> set (?scan seen ns). names nt i \<and> names nt (n_id (ns ! p'))"
          by (intro duplicate_scan_seen) auto
        with sub p show ?thesis by (metis nth_Cons_Suc subsetD)
      next
        case (Suc r')
        with p Cons.prems have "\<exists>nt \<in> set (?scan seen ns). names nt (n_id (ns ! p'))"
          by (intro Cons.IH [where r = r']) auto
        with sub p show ?thesis by (metis nth_Cons_Suc subsetD)
      qed
    qed
  next
    case fresh
    let ?seen = "seen(?key \<mapsto> n_id n)"
    from fresh have eq: "?scan seen (n # ns) = ?scan ?seen ns"
      by (auto simp: compared_def Let_def)
    have idn: "n_id n \<noteq> []" using Cons.prems(1) by simp
    show ?thesis
    proof (cases p)
      case 0
      then obtain r' where r': "r = Suc r'" using Cons.prems(5) by (cases r) auto
      with 0 Cons.prems idn have "\<exists>nt \<in> set (?scan ?seen ns). names nt (n_id n) \<and> names nt (n_id (ns ! r'))"
        by (intro duplicate_scan_seen) auto
      with eq 0 show ?thesis by auto
    next
      case (Suc p')
      note p = Suc
      show ?thesis
      proof (cases r)
        case 0
        with p Cons.prems idn have "\<exists>nt \<in> set (?scan ?seen ns). names nt (n_id n) \<and> names nt (n_id (ns ! p'))"
          by (intro duplicate_scan_seen) auto
        with eq p show ?thesis by auto
      next
        case (Suc r')
        with p Cons.prems idn have "\<exists>nt \<in> set (?scan ?seen ns). names nt (n_id (ns ! p'))"
          by (intro Cons.IH [where r = r']) auto
        with eq p show ?thesis by auto
      qed
    qed
  next
    case skip
    then have eq: "?scan seen (n # ns) = ?scan seen ns"
      by (auto simp: compared_def Let_def)
    from skip Cons.prems(6,7) obtain p' r' where pr: "p = Suc p'" "r = Suc r'"
      by (metis nth_Cons_0 not0_implies_Suc)
    with Cons.prems have "\<exists>nt \<in> set (?scan seen ns). names nt (n_id (ns ! p'))"
      by (intro Cons.IH [where r = r']) auto
    with eq pr show ?thesis by simp
  qed
qed simp

section \<open>What a clean inventory means\<close>

definition compliant :: "fleet_node \<Rightarrow> bool" where
  "compliant n \<longleftrightarrow>
     sf_observerFirstRequired (n_safety n) \<and>
     \<not> sf_mainnetMutationAllowed (n_safety n) \<and>
     \<not> sf_remoteAdminPublicExposureAllowed (n_safety n) \<and>
     \<not> pr_enabled (n_producer n) \<and> n_role n \<noteq> Producer \<and>
     isLoopbackBind (po_jsonrpcHostBind (n_ports n)) \<and>
     (po_backupAdminListen (n_ports n) = [] \<or> isLoopbackBind (po_backupAdminListen (n_ports n))) \<and>
     \<not> looksLikeRawHostReference (n_hostRef n) \<and> \<not> looksLikeRawHostReference (n_connectionRef n) \<and>
     list_all (\<lambda>v. \<not> looksLikeSecretReference v) (values_to_scan n) \<and>
     bk_publicBootstrapUrl (n_backup n) \<noteq> []"

text \<open>The five ways two nodes can clash.\<close>

definition no_clash :: "fleet_node list \<Rightarrow> bool" where
  "no_clash ns \<longleftrightarrow>
     distinct (scoped_keys n_id no_scope ns) \<and>
     distinct (scoped_keys (\<lambda>n. pt_baseDir (n_paths n)) hostConflictScope ns) \<and>
     distinct (scoped_keys (\<lambda>n. po_jsonrpcHostBind (n_ports n)) hostConflictScope ns) \<and>
     distinct (scoped_keys (\<lambda>n. po_p2pPublic (n_ports n)) hostConflictScope ns) \<and>
     distinct (scoped_keys (\<lambda>n. pr_profileRef (n_producer n)) no_scope ns)"

lemma node_notices_Nil_iff: "node_notices n = [] \<longleftrightarrow> compliant n"
  by (auto simp: node_notices_def compliant_def list_all_iff filter_empty_conv)

lemma duplicate_notices_Nil_iff:
  "\<forall>n \<in> set ns. n_id n \<noteq> [] \<Longrightarrow> duplicate_notices ns = [] \<longleftrightarrow> no_clash ns"
  by (simp add: duplicate_notices_def no_clash_def addDuplicateNotices_Nil_iff)

lemma validate_Nil_iff:
  "\<forall>n \<in> set (inv_nodes fleet). n_id n \<noteq> [] \<Longrightarrow>
   validateRemoteFleetInventory fleet = [] \<longleftrightarrow>
     (\<forall>n \<in> set (inv_nodes fleet). compliant n) \<and> no_clash (inv_nodes fleet)"
  by (simp add: validateRemoteFleetInventory_def node_notices_Nil_iff duplicate_notices_Nil_iff)

text \<open>The rules the planner blocks on, and the node notices that carry a blocking code.\<close>

definition plan_safe_node :: "fleet_node \<Rightarrow> bool" where
  "plan_safe_node n \<longleftrightarrow>
     \<not> sf_mainnetMutationAllowed (n_safety n) \<and>
     \<not> sf_remoteAdminPublicExposureAllowed (n_safety n) \<and>
     \<not> pr_enabled (n_producer n) \<and> n_role n \<noteq> Producer \<and>
     isLoopbackBind (po_jsonrpcHostBind (n_ports n)) \<and>
     (po_backupAdminListen (n_ports n) = [] \<or> isLoopbackBind (po_backupAdminListen (n_ports n))) \<and>
     \<not> looksLikeRawHostReference (n_hostRef n) \<and> \<not> looksLikeRawHostReference (n_connectionRef n) \<and>
     list_all (\<lambda>v. \<not> looksLikeSecretReference v) (values_to_scan n) \<and>
     bk_publicBootstrapUrl (n_backup n) \<noteq> []"

lemma compliant_iff: "compliant n \<longleftrightarrow> sf_observerFirstRequired (n_safety n) \<and> plan_safe_node n"
  by (auto simp: compliant_def plan_safe_node_def)

lemma node_notice_fields:
  assumes "nt \<in> set (node_notices n)"
  shows "\<exists>x. nt_field nt = Some (n_id n @ x)"
  using assms unfolding node_notices_def set_append Un_iff mem_push_if
  by (elim disjE conjE) (auto simp: notice_of_def notice_with_def)

lemma node_notice_concerns:
  "nt \<in> set (node_notices n) \<Longrightarrow> \<exists>f. nt_field nt = Some f \<and> js_includes f (n_id n)"
  using node_notice_fields by (metis includes_append1 includes_refl)

lemma unsafe_node_notice:
  "filter (\<lambda>nt. nt_code nt \<noteq> ObserverFirstRequired) (node_notices n) = [] \<longleftrightarrow> plan_safe_node n"
  by (simp add: node_notices_def plan_safe_node_def filter_push_if notice_of_def notice_with_def
      filter_map comp_def list_all_iff filter_empty_conv)

lemma node_notice_codes:
  "nt \<in> set (node_notices n) \<Longrightarrow>
   nt_code nt \<in> {ObserverFirstRequired, MainnetMutationBlocked, PublicAdminBlocked, ProducerUnavailable,
                 JsonrpcPublicBlocked, RawHostRefBlocked, SecretReferenceBlocked, PublicBootstrapMissing}"
  unfolding node_notices_def set_append Un_iff mem_push_if
  by (elim disjE conjE) (auto simp: notice_of_def notice_with_def)

section \<open>Properties\<close>

text \<open>The nodes the examples below evaluate: a mainnet observer pinned to a digest, a testnet one.\<close>

definition sample_digest :: string where
  "sample_digest = ''sha256:'' @ replicate 64 (CHR ''a'')"

definition sample_prodnet :: fleet_node where
  "sample_prodnet =
     (let n = defaultNode ''pa'' Mainnet
      in n\<lparr>n_runtime := (n_runtime n)\<lparr>rt_image := ''teleno-node@'' @ sample_digest, rt_expectedVersion := ''v1''\<rparr>,
           n_trust := (n_trust n)\<lparr>tr_artifactDigest := sample_digest, tr_prodnetObserverProofRef := ''proof-1''\<rparr>\<rparr>)"

definition sample_testnet :: fleet_node where
  "sample_testnet = defaultNode ''ta'' Testnet"

definition sample_fleet :: inventory where
  "sample_fleet = \<lparr>inv_version = 1, inv_nodes = [sample_prodnet, sample_testnet]\<rparr>"

text \<open>C24: for nodes with non-empty ids, the inventory check is silent exactly when every node is an
  observer-first node without producer, mainnet mutation, public admin, non-loopback JSON-RPC or
  admin address, raw host, secret or missing bootstrap URL, and no two nodes share an id or producer
  profile, nor, on one host, a base directory or a port.\<close>

theorem inventory_clean_iff:
  assumes "\<forall>n \<in> set (inv_nodes fleet). n_id n \<noteq> []"
  shows "validateRemoteFleetInventory fleet = [] \<longleftrightarrow>
    (\<forall>n \<in> set (inv_nodes fleet). compliant n) \<and> no_clash (inv_nodes fleet)"
  by (rule validate_Nil_iff [OF assms])

theorem inventory_clean_iff_witness:
  "compliant sample_prodnet \<and> compliant sample_testnet \<and> no_clash [sample_prodnet, sample_testnet]"
proof -
  have ids: "\<forall>n \<in> set (inv_nodes sample_fleet). n_id n \<noteq> []" by code_simp
  have "validateRemoteFleetInventory sample_fleet = []" by code_simp
  then show ?thesis using inventory_clean_iff [OF ids] by (simp add: sample_fleet_def)
qed

end
