(* ===== verification/FleetPlan.thy ===== *)
theory FleetPlan
  imports FleetValidate
begin

text \<open>
  The command plans, src/app/remote-nodes.ts lines 1244-1425: generateRemoteCommandPlan (the
  notices of a node, the trust steps of a production-network mutation, the steps of each action,
  the verdict blocked) and generateRemoteFleetRolloutPlan over several nodes.
\<close>

section \<open>The steps of each action\<close>

fun action_steps :: "action \<Rightarrow> fleet_node \<Rightarrow> command_step list" where
  \<open>action_steps ProdnetObserverProof n =
     [commandStep PhPreflight (ssh n (installPreflightCommand n)) False False False,
      commandStep PhTrust (ssh n (prodnetArtifactTrustCommand n)) False False False,
      commandStep PhBootstrap (ssh n (prodnetBootstrapTrustCommand n)) False False False,
      commandStep PhProof (ssh n (prodnetObserverProofCommand n)) False False False,
      commandStep PhVerify
       (ssh n (''echo "TELENO_PRODNET_PROOF_READY '' @ n_id n @ '' observer-only"'')) False False False]\<close>
| \<open>action_steps InstallObserver n =
     [commandStep PhPreflight (ssh n (installPreflightCommand n)) False False False,
      commandStep PhArtifact (ssh n (artifactEvidenceCommand n)) True False False,
      commandStep PhPrepare
       (ssh n (''mkdir -p '' @ remotePath (pt_baseDir (n_paths n)) @ '' '' @
          remotePath (pt_baseDir (n_paths n) @ ''/logs''))) True False False,
      commandStep PhConfig (ssh n (observerConfigCommand n)) True False False,
      commandStep PhBootstrap
       (ssh n (telenoNodeCliCommand n (''--backup-public-list --backup-public-url '' @
          q (bk_publicBootstrapUrl (n_backup n)) @ '' --backup-json''))) False False False,
      commandStep PhBootstrap
       (ssh n (telenoNodeCliCommand n (''--backup-public-restore --backup-public-url '' @
          q (bk_publicBootstrapUrl (n_backup n)) @ '' --backup-json''))) True False False,
      commandStep PhRuntime (ssh n (runtimeStartCommand n)) True False False,
      commandStep PhVerify
       (ssh n (''grep -R "block_producer: false" '' @ remotePath (pt_config (n_paths n)) @ '' && '' @
          runtimeStatusCommand n @ nl @ stopCriteriaGuardCommand n)) False False False]\<close>
| \<open>action_steps RestorePublicBootstrap n =
     [commandStep PhPreflight
       (ssh n (''df -h '' @ remotePath (pt_baseDir (n_paths n)) @ ''; test -f '' @
          remotePath (pt_config (n_paths n)) @ '' && grep -R "block_producer: false" '' @
          remotePath (pt_config (n_paths n)))) False False False,
      commandStep PhBootstrap
       (ssh n (telenoNodeCliCommand n (''--backup-public-list --backup-public-url '' @
          q (bk_publicBootstrapUrl (n_backup n)) @ '' --backup-json''))) False False False,
      commandStep PhBootstrap
       (ssh n (telenoNodeCliCommand n (''--backup-public-restore --backup-public-url '' @
          q (bk_publicBootstrapUrl (n_backup n)) @ '' --backup-json''))) True False False,
      commandStep PhVerify
       (ssh n (''test -f '' @ remotePath (pt_baseDir (n_paths n) @ ''/.backup-just-restored'') @
          ''; grep -R "block_producer: false" '' @ remotePath (pt_config (n_paths n)) @ nl @
          stopCriteriaGuardCommand n)) False False False]\<close>
| \<open>action_steps StartObserver n =
     [commandStep PhPreflight
       (ssh n (''grep -R "block_producer: false" '' @ remotePath (pt_config (n_paths n)))) False False False,
      commandStep PhConfig (ssh n (observerConfigCommand n)) True False False,
      commandStep PhRuntime (ssh n (runtimeStartCommand n)) True False False,
      commandStep PhVerify
       (ssh n (runtimeStatusCommand n @ ''; grep -R "teleno_node ready" '' @
          remotePath (pt_baseDir (n_paths n) @ ''/logs'') @ '' || true'' @ nl @
          stopCriteriaGuardCommand n)) False False False]\<close>
| \<open>action_steps Status n =
     [commandStep PhPreflight (ssh n (healthCheckCommand n)) False False False,
      commandStep PhVerify
       (ssh n (''grep -R "block_producer: false" '' @ remotePath (pt_config (n_paths n)) @
          '' 2>/dev/null || true'' @ nl @ stopCriteriaGuardCommand n)) False False False]\<close>
| \<open>action_steps Logs n =
     [commandStep PhDiagnostics
       (ssh n (''journalctl -u '' @ serviceName n @
          '' -n 200 --no-pager || docker logs --tail 200 '' @ serviceName n @
          '' 2>&1 | sed -E 's/(token|password|secret)=([^ ]+)/'' @ bsl @ ''1=[redacted]/gi'' @
          sq)) False False False]\<close>
| \<open>action_steps Stop n =
     [commandStep PhRuntime (ssh n (runtimeStopCommand n)) True False False]\<close>
| \<open>action_steps Restart n =
     [commandStep PhConfig (ssh n (observerConfigCommand n)) True False False,
      commandStep PhRuntime
       (ssh n (runtimeStopCommand n @ '' && '' @ runtimeStartCommand n)) True False False,
      commandStep PhVerify (ssh n (runtimeStatusCommand n)) False False False]\<close>
| \<open>action_steps Upgrade n =
     [commandStep PhArtifact (ssh n (artifactEvidenceCommand n)) True False False,
      commandStep PhRuntime
       (ssh n (runtimeStopCommand n @ '' && '' @ runtimeStartCommand n)) True False False,
      commandStep PhVerify
       (ssh n (runtimeStatusCommand n @ ''; grep -R "block_producer: false" '' @
          remotePath (pt_config (n_paths n)))) False False False]\<close>
| \<open>action_steps Rollback n =
     [commandStep PhPreflight (ssh n (rollbackEvidencePreflightCommand n)) False False False,
      commandStep PhPreserve
       (ssh n (preserveReceiptCommand n ''rollback'')) True False False,
      commandStep PhRuntime (ssh n (runtimeStopCommand n)) True False True,
      commandStep PhConfig (ssh n (rollbackConfigCommand n)) True False True,
      commandStep PhArtifact (ssh n (rollbackRuntimeCommand n)) True False True,
      commandStep PhVerify
       (ssh n (runtimeStatusCommand n @ ''; grep -R "block_producer: false" '' @
          remotePath (pt_config (n_paths n)) @ nl @ stopCriteriaGuardCommand n)) False False False,
      commandStep PhReceipt
       (ssh n (destructiveReceiptCommand n ''rollback'')) True False False]\<close>
| \<open>action_steps Cleanup n =
     [commandStep PhPreflight (ssh n (cleanupEvidencePreflightCommand n)) False False False,
      commandStep PhPreserve
       (ssh n (preserveReceiptCommand n ''cleanup'')) True False False,
      commandStep PhCleanup (ssh n (cleanupCandidateListCommand n)) False False False,
      commandStep PhCleanup (ssh n (cleanupTemporaryCommand n)) True False True,
      commandStep PhVerify
       (ssh n (''test -f '' @ remotePath (pt_config (n_paths n)) @
          ''; grep -R "block_producer: false" '' @ remotePath (pt_config (n_paths n)) @ nl @
          stopCriteriaGuardCommand n)) False False False,
      commandStep PhReceipt
       (ssh n (destructiveReceiptCommand n ''cleanup'')) True False False]\<close>

definition trust_steps :: "fleet_node \<Rightarrow> command_step list" where
  "trust_steps n =
     [commandStep PhProof (ssh n (prodnetProofReferenceCommand n)) False False False,
      commandStep PhTrust (ssh n (prodnetArtifactTrustCommand n)) False False False,
      commandStep PhBootstrap (ssh n (prodnetBootstrapTrustCommand n)) False False False]"

section \<open>generateRemoteCommandPlan\<close>

definition blockerCodes :: "notice_code list" where
  "blockerCodes =
     [ProducerUnavailable, MainnetMutationBlocked, PublicAdminBlocked, JsonrpcPublicBlocked,
      RawHostRefBlocked, SecretReferenceBlocked, DuplicateNodeId, DuplicateBaseDir, DuplicatePort,
      DuplicateProducerProfile, PublicBootstrapMissing, ProdnetArtifactTrustRequired,
      ProdnetBootstrapPolicyRequired, ProdnetDryRunProofRequired]"

definition prodnet_confirmed_actions :: "action list" where
  "prodnet_confirmed_actions =
     [InstallObserver, RestorePublicBootstrap, StartObserver, Upgrade, Rollback, Cleanup]"

definition find_node :: "inventory \<Rightarrow> string \<Rightarrow> fleet_node option" where
  "find_node fleet nodeId = find (\<lambda>n. n_id n = nodeId) (inv_nodes fleet)"

text \<open>\<open>inventory.nodes.find(...) ?? inventory.nodes[0]\<close>\<close>

definition plan_node :: "inventory \<Rightarrow> string \<Rightarrow> fleet_node option" where
  "plan_node fleet nodeId =
     (case find_node fleet nodeId of
        Some n \<Rightarrow> Some n
      | None \<Rightarrow> (case inv_nodes fleet of [] \<Rightarrow> None | n # _ \<Rightarrow> Some n))"

text \<open>The notices of the inventory a plan for the node keeps.\<close>

definition concerns :: "string \<Rightarrow> notice \<Rightarrow> bool" where
  "concerns nodeId nt \<longleftrightarrow>
     (case nt_field nt of None \<Rightarrow> True | Some f \<Rightarrow> f = [] \<or> js_includes f nodeId) \<or>
     (case nt_value nt of None \<Rightarrow> False | Some v \<Rightarrow> js_includes v nodeId)"

definition trust_notices :: "action \<Rightarrow> fleet_node \<Rightarrow> notice list" where
  "trust_notices a n =
     (if isProdnetObserverMutation a n \<or> a = ProdnetObserverProof
      then push_if (\<not> hasPinnedArtifactDigest n)
             (notice_with ProdnetArtifactTrustRequired (n_id n)
                (js_or (tr_artifactDigest (n_trust n)) (rt_image (n_runtime n)))) @
           push_if (\<not> hasProdnetBootstrapPolicy n)
             (notice_with ProdnetBootstrapPolicyRequired (n_id n) (tr_bootstrapPolicyId (n_trust n))) @
           push_if (isProdnetObserverMutation a n \<and> \<not> hasProdnetDryRunProof n)
             (notice_with ProdnetDryRunProofRequired (n_id n) (tr_prodnetObserverProofRef (n_trust n)))
      else [])"

definition plan_notices :: "inventory \<Rightarrow> fleet_node \<Rightarrow> action \<Rightarrow> notice list" where
  "plan_notices fleet n a =
     filter (concerns (n_id n)) (validateRemoteFleetInventory fleet) @
     [notice_of DryRunOnly (n_id n)] @
     push_if (a = Rollback \<or> a = Cleanup) (notice_of DestructiveConfirmationRequired (n_id n)) @
     push_if (n_network n = Mainnet \<and> a \<in> set prodnet_confirmed_actions)
       (notice_of ProdnetConfirmationRequired (n_id n)) @
     trust_notices a n"

definition plan_steps :: "fleet_node \<Rightarrow> action \<Rightarrow> command_step list" where
  "plan_steps n a =
     (if isProdnetObserverMutation a n then trust_steps n else []) @ action_steps a n"

definition generateRemoteCommandPlan :: "inventory \<Rightarrow> string \<Rightarrow> action \<Rightarrow> command_plan" where
  "generateRemoteCommandPlan fleet nodeId a =
     (case plan_node fleet nodeId of
        None \<Rightarrow> \<lparr>cp_action = a, cp_nodeId = nodeId, cp_blocked = True,
                 cp_notices = [notice_of DryRunOnly nodeId], cp_steps = []\<rparr>
      | Some n \<Rightarrow>
          \<lparr>cp_action = a, cp_nodeId = n_id n,
           cp_blocked = list_ex (\<lambda>nt. nt_code nt \<in> set blockerCodes) (plan_notices fleet n a),
           cp_notices = plan_notices fleet n a,
           cp_steps = plan_steps n a\<rparr>)"

definition selected_ids :: "inventory \<Rightarrow> string list \<Rightarrow> string list" where
  "selected_ids fleet nodeIds = (if nodeIds \<noteq> [] then nodeIds else map n_id (inv_nodes fleet))"

definition generateRemoteFleetCommandPlans :: "inventory \<Rightarrow> string list \<Rightarrow> action \<Rightarrow> command_plan list" where
  "generateRemoteFleetCommandPlans fleet nodeIds a =
     map (\<lambda>nodeId. generateRemoteCommandPlan fleet nodeId a) (selected_ids fleet nodeIds)"

section \<open>The rollout plan\<close>

definition confirmation_phrase :: "fleet_node \<Rightarrow> action \<Rightarrow> string" where
  "confirmation_phrase n a =
     ''EXECUTE '' @ n_id n @ '' '' @ network_str (n_network n) @ '' '' @ action_str a @
     (if a = Rollback \<or> a = Cleanup then '' PRESERVE_DB'' else [])"

definition rollout_entries :: "inventory \<Rightarrow> action \<Rightarrow> string \<Rightarrow> rollout_entry list" where
  "rollout_entries fleet a nodeId =
     (case find_node fleet nodeId of
        None \<Rightarrow> []
      | Some n \<Rightarrow>
          let plan = generateRemoteCommandPlan fleet (n_id n) a
          in [\<lparr>re_nodeId = n_id n, re_label = n_label n, re_network = n_network n,
               re_status = RsReviewing, re_plan = plan, re_blocked = cp_blocked plan,
               re_stepCount = length (cp_steps plan), re_notices = cp_notices plan,
               re_confirmationPhrase = confirmation_phrase n a\<rparr>])"

definition generateRemoteFleetRolloutPlan :: "inventory \<Rightarrow> string list \<Rightarrow> action \<Rightarrow> rollout_plan" where
  "generateRemoteFleetRolloutPlan fleet nodeIds a =
     (let entries = concat (map (rollout_entries fleet a) (selected_ids fleet nodeIds))
      in \<lparr>rp_action = a, rp_nodeIds = map re_nodeId entries, rp_entries = entries,
          rp_blocked = (entries = [] \<or> list_ex re_blocked entries),
          rp_stepCount = sum_list (map re_stepCount entries),
          rp_networks = js_unique (map re_network entries)\<rparr>)"

section \<open>What a plan is made of\<close>

lemmas step_sels = commandStep_def

text \<open>Every step is an ssh here-document to the node, and none changes the chain.\<close>

lemma action_steps_ssh:
  "s \<in> set (action_steps a n) \<Longrightarrow> \<not> cs_chainMutation s \<and> (\<exists>body. cs_command s = ssh n body)"
  by (cases a) (auto simp: commandStep_def)

lemma plan_steps_ssh:
  "s \<in> set (plan_steps n a) \<Longrightarrow> \<not> cs_chainMutation s \<and> (\<exists>body. cs_command s = ssh n body)"
  using action_steps_ssh [of s a n]
  by (auto simp: plan_steps_def trust_steps_def commandStep_def split: if_splits)

lemma read_only_steps:
  "a \<in> {Status, Logs, ProdnetObserverProof} \<Longrightarrow> s \<in> set (plan_steps n a) \<Longrightarrow>
   \<not> cs_hostMutation s \<and> \<not> cs_destructive s"
  by (auto simp: plan_steps_def isProdnetObserverMutation_def commandStep_def)

lemma destructive_steps:
  "s \<in> set (plan_steps n a) \<Longrightarrow> cs_destructive s \<Longrightarrow> (a = Rollback \<or> a = Cleanup) \<and> cs_hostMutation s"
  by (cases a) (auto simp: plan_steps_def trust_steps_def commandStep_def split: if_splits)

lemma trust_steps_first:
  "isProdnetObserverMutation a n \<Longrightarrow>
   take 3 (map cs_phase (plan_steps n a)) = [PhProof, PhTrust, PhBootstrap] \<and>
   list_all (\<lambda>s. \<not> cs_hostMutation s) (take 3 (plan_steps n a))"
  by (simp add: plan_steps_def trust_steps_def commandStep_def)

section \<open>When a plan is not blocked\<close>

lemma plan_of_found:
  "find_node fleet nodeId = Some n \<Longrightarrow>
   generateRemoteCommandPlan fleet nodeId a =
     \<lparr>cp_action = a, cp_nodeId = n_id n,
      cp_blocked = list_ex (\<lambda>nt. nt_code nt \<in> set blockerCodes) (plan_notices fleet n a),
      cp_notices = plan_notices fleet n a, cp_steps = plan_steps n a\<rparr>"
  by (simp add: generateRemoteCommandPlan_def plan_node_def)

lemma find_node_SomeD: "find_node fleet nodeId = Some n \<Longrightarrow> n \<in> set (inv_nodes fleet) \<and> n_id n = nodeId"
  by (auto simp: find_node_def find_Some_iff)

lemma blocking_node_codes:
  "nt \<in> set (node_notices n) \<Longrightarrow> nt_code nt \<noteq> ObserverFirstRequired \<Longrightarrow> nt_code nt \<in> set blockerCodes"
  using node_notice_codes [of nt n] by (auto simp: blockerCodes_def)

lemma blocked_by:
  "nt \<in> set (validateRemoteFleetInventory fleet) \<Longrightarrow> concerns nodeId nt \<Longrightarrow>
   nt_code nt \<in> set blockerCodes \<Longrightarrow> find_node fleet nodeId = Some n \<Longrightarrow>
   cp_blocked (generateRemoteCommandPlan fleet nodeId a)"
  by (auto simp: plan_of_found plan_notices_def list_ex_iff dest: find_node_SomeD)

lemma unsafe_node_blocks:
  assumes n: "find_node fleet nodeId = Some n" and bad: "\<not> plan_safe_node n"
  shows "cp_blocked (generateRemoteCommandPlan fleet nodeId a)"
proof -
  obtain nt where nt: "nt \<in> set (node_notices n)" "nt_code nt \<noteq> ObserverFirstRequired"
    using bad unsafe_node_notice [of n] by (auto simp: filter_empty_conv)
  have mem: "n \<in> set (inv_nodes fleet)" and idn: "n_id n = nodeId"
    using find_node_SomeD [OF n] by auto
  have "concerns nodeId nt"
    using node_notice_concerns [OF nt(1)] idn by (auto simp: concerns_def)
  with nt mem n show ?thesis
    by (intro blocked_by [of nt]) (auto simp: validateRemoteFleetInventory_def intro: blocking_node_codes)
qed

lemma untrusted_node_blocks:
  assumes n: "find_node fleet nodeId = Some n" and t: "trust_notices a n \<noteq> []"
  shows "cp_blocked (generateRemoteCommandPlan fleet nodeId a)"
proof -
  from t obtain nt where nt: "nt \<in> set (trust_notices a n)" by (cases "trust_notices a n") auto
  then have "nt_code nt \<in> set blockerCodes"
    by (auto simp: trust_notices_def notice_with_def blockerCodes_def split: if_splits)
  with nt n show ?thesis by (auto simp: plan_of_found plan_notices_def list_ex_iff)
qed

lemma unblocked_trust:
  assumes "find_node fleet nodeId = Some n" "\<not> cp_blocked (generateRemoteCommandPlan fleet nodeId a)"
    and "isProdnetObserverMutation a n"
  shows "hasPinnedArtifactDigest n \<and> hasProdnetBootstrapPolicy n \<and> hasProdnetDryRunProof n"
  using untrusted_node_blocks [of fleet nodeId n a] assms by (auto simp: trust_notices_def)

text \<open>Two nodes of the inventory that hold the same value in the same scope: both are blocked.\<close>

lemma duplicates_block:
  assumes ids: "\<forall>n \<in> set (inv_nodes fleet). n_id n \<noteq> []"
    and pr: "p < length (inv_nodes fleet)" "r < length (inv_nodes fleet)" "p \<noteq> r"
    and cmp: "compared (sel (inv_nodes fleet ! p))" "compared (sel (inv_nodes fleet ! r))"
    and same: "scoped_value (scope_of (inv_nodes fleet ! p)) (sel (inv_nodes fleet ! p)) =
               scoped_value (scope_of (inv_nodes fleet ! r)) (sel (inv_nodes fleet ! r))"
    and listed: "set (addDuplicateNotices (inv_nodes fleet) sel code field scope_of)
                 \<subseteq> set (duplicate_notices (inv_nodes fleet))"
    and code: "code \<in> set blockerCodes"
  shows "cp_blocked (generateRemoteCommandPlan fleet (n_id (inv_nodes fleet ! p)) a)"
proof -
  let ?id = "n_id (inv_nodes fleet ! p)"
  obtain nt where nt: "nt \<in> set (addDuplicateNotices (inv_nodes fleet) sel code field scope_of)" "names nt ?id"
    using duplicate_scan_names_clashing [of "inv_nodes fleet" "\<lambda>_. None" p r sel scope_of code field]
      ids pr cmp same by (auto simp: addDuplicateNotices_def)
  have "nt_code nt = code"
    using nt(1) duplicate_scan_codes [of nt] unfolding addDuplicateNotices_def by blast
  moreover have "concerns ?id nt" using nt(2) by (auto simp: concerns_def names_def)
  moreover obtain n where "find_node fleet ?id = Some n"
    using pr(1) by (cases "find_node fleet ?id") (auto simp: find_node_def find_None_iff dest: nth_mem)
  moreover have "nt \<in> set (validateRemoteFleetInventory fleet)"
    using nt(1) listed by (auto simp: validateRemoteFleetInventory_def)
  ultimately show ?thesis using code by (intro blocked_by) auto
qed

section \<open>The rollout\<close>

lemma rollout_entries_found:
  "find_node fleet nodeId = Some n \<Longrightarrow>
   rollout_entries fleet a nodeId =
     [\<lparr>re_nodeId = nodeId, re_label = n_label n, re_network = n_network n, re_status = RsReviewing,
       re_plan = generateRemoteCommandPlan fleet nodeId a,
       re_blocked = cp_blocked (generateRemoteCommandPlan fleet nodeId a),
       re_stepCount = length (cp_steps (generateRemoteCommandPlan fleet nodeId a)),
       re_notices = cp_notices (generateRemoteCommandPlan fleet nodeId a),
       re_confirmationPhrase = confirmation_phrase n a\<rparr>]"
  using find_node_SomeD [of fleet nodeId n] by (simp add: rollout_entries_def Let_def)

lemma rollout_entry_cases:
  assumes "e \<in> set (rp_entries (generateRemoteFleetRolloutPlan fleet ids a))"
  obtains n where "find_node fleet (re_nodeId e) = Some n" and "re_nodeId e \<in> set (selected_ids fleet ids)"
    and "re_plan e = generateRemoteCommandPlan fleet (re_nodeId e) a"
    and "re_blocked e = cp_blocked (re_plan e)" and "re_network e = n_network n"
    and "re_confirmationPhrase e = confirmation_phrase n a"
proof -
  obtain i where i: "i \<in> set (selected_ids fleet ids)" "e \<in> set (rollout_entries fleet a i)"
    using assms by (auto simp: generateRemoteFleetRolloutPlan_def Let_def)
  then obtain n where n: "find_node fleet i = Some n"
    by (cases "find_node fleet i") (simp_all add: rollout_entries_def)
  with i show thesis using that [of n] by (auto simp: rollout_entries_found)
qed

section \<open>The here-documents of a plan\<close>

lemma step_body:
  "tagless b \<Longrightarrow> \<exists>body. cs_command (commandStep ph (ssh n b) h c d) = ssh n body \<and> tagless body"
  by (auto simp: commandStep_def)

lemma action_steps_tagless:
  assumes "single_line_node n" "s \<in> set (action_steps a n)"
  shows "\<exists>body. cs_command s = ssh n body \<and> tagless body"
  using assms by (cases a) (auto simp: tail_rules bsl_def sq_def intro!: step_body)

lemma plan_steps_tagless:
  assumes "single_line_node n" "s \<in> set (plan_steps n a)"
  shows "\<exists>body. cs_command s = ssh n body \<and> tagless body"
  using assms action_steps_tagless [of n s a]
  by (auto simp: plan_steps_def trust_steps_def commandStep_def split: if_splits)

section \<open>The entries of a rollout\<close>

lemma rollout_fields:
  "rp_nodeIds (generateRemoteFleetRolloutPlan fleet ids a) =
     map re_nodeId (concat (map (rollout_entries fleet a) (selected_ids fleet ids)))"
  "rp_entries (generateRemoteFleetRolloutPlan fleet ids a) =
     concat (map (rollout_entries fleet a) (selected_ids fleet ids))"
  "rp_blocked (generateRemoteFleetRolloutPlan fleet ids a) =
     (concat (map (rollout_entries fleet a) (selected_ids fleet ids)) = [] \<or>
      list_ex re_blocked (concat (map (rollout_entries fleet a) (selected_ids fleet ids))))"
  "rp_stepCount (generateRemoteFleetRolloutPlan fleet ids a) =
     sum_list (map re_stepCount (concat (map (rollout_entries fleet a) (selected_ids fleet ids))))"
  "distinct (rp_networks (generateRemoteFleetRolloutPlan fleet ids a))"
  by (simp_all add: generateRemoteFleetRolloutPlan_def Let_def)

lemma rollout_entries_cases:
  "rollout_entries fleet a i =
     (case find_node fleet i of None \<Rightarrow> []
      | Some n \<Rightarrow> [\<lparr>re_nodeId = i, re_label = n_label n, re_network = n_network n, re_status = RsReviewing,
       re_plan = generateRemoteCommandPlan fleet i a,
       re_blocked = cp_blocked (generateRemoteCommandPlan fleet i a),
       re_stepCount = length (cp_steps (generateRemoteCommandPlan fleet i a)),
       re_notices = cp_notices (generateRemoteCommandPlan fleet i a),
       re_confirmationPhrase = confirmation_phrase n a\<rparr>])"
  using rollout_entries_found [of fleet i _ a]
  by (cases "find_node fleet i") (simp_all add: rollout_entries_def)

lemma rollout_entry_list:
  "map re_nodeId (concat (map (rollout_entries fleet a) is)) = filter (\<lambda>i. find_node fleet i \<noteq> None) is"
  "map re_plan (concat (map (rollout_entries fleet a) is)) =
     map (\<lambda>i. generateRemoteCommandPlan fleet i a) (filter (\<lambda>i. find_node fleet i \<noteq> None) is)"
  "list_ex re_blocked (concat (map (rollout_entries fleet a) is)) =
     list_ex cp_blocked (map re_plan (concat (map (rollout_entries fleet a) is)))"
  "sum_list (map re_stepCount (concat (map (rollout_entries fleet a) is))) =
     length (concat (map (\<lambda>e. cp_steps (re_plan e)) (concat (map (rollout_entries fleet a) is))))"
  by (induction "is") (auto simp: rollout_entries_cases split: option.splits)

section \<open>Properties\<close>

lemma sample_found:
  "find_node sample_fleet ''pa'' = Some sample_prodnet" "find_node sample_fleet ''ta'' = Some sample_testnet"
  by code_simp+

lemma sample_unblocked:
  "\<not> cp_blocked (generateRemoteCommandPlan sample_fleet ''pa'' InstallObserver)"
proof -
  have "list_ex (\<lambda>nt. nt_code nt \<in> set blockerCodes) (plan_notices sample_fleet sample_prodnet InstallObserver) = False"
    by code_simp
  then show ?thesis by (simp add: plan_of_found [OF sample_found(1)])
qed

text \<open>C25: a plan that is not blocked is for a node without producer, mainnet mutation or public admin,
  with loopback addresses, no raw host, no secret in a reference and a bootstrap URL; and if it
  changes a mainnet host, the artifact is pinned to its digest, the bootstrap policy is the reviewed
  one and a dry-run proof is named.\<close>

theorem unblocked_plan_is_safe:
  assumes "find_node fleet nodeId = Some n"
    and "\<not> cp_blocked (generateRemoteCommandPlan fleet nodeId a)"
  shows "plan_safe_node n \<and>
    (isProdnetObserverMutation a n \<longrightarrow>
       hasPinnedArtifactDigest n \<and> hasProdnetBootstrapPolicy n \<and> hasProdnetDryRunProof n) \<and>
    (a = ProdnetObserverProof \<longrightarrow> hasPinnedArtifactDigest n \<and> hasProdnetBootstrapPolicy n)"
proof -
  have "trust_notices a n = []" using untrusted_node_blocks [OF assms(1), of a] assms(2) by blast
  then show ?thesis
    using unsafe_node_blocks [OF assms(1), of a] unblocked_trust [OF assms] assms(2)
    by (auto simp: trust_notices_def)
qed

theorem unblocked_plan_is_safe_witness:
  "plan_safe_node sample_prodnet \<and> isProdnetObserverMutation InstallObserver sample_prodnet \<and>
   hasPinnedArtifactDigest sample_prodnet"
proof -
  have m: "isProdnetObserverMutation InstallObserver sample_prodnet" by code_simp
  show ?thesis using unblocked_plan_is_safe [OF sample_found(1) sample_unblocked] m by blast
qed


definition clashing_fleet :: inventory where
  "clashing_fleet = \<lparr>inv_version = 1, inv_nodes =
     [sample_testnet\<lparr>n_id := ''a'', n_connectionRef := ''h''\<rparr>,
      sample_testnet\<lparr>n_id := ''b'', n_connectionRef := ''h''\<rparr>]\<rparr>"




text \<open>without that restriction a value can leave the here-document: for a node whose base directory
  holds a line with the delimiter, a step the planner does not block gives the local shell commands
  of its own.\<close>

definition escaping_node :: fleet_node where
  "escaping_node = sample_testnet\<lparr>n_paths := \<lparr>pt_baseDir = ''/d'' @ nl @ here_tag @ nl @ ''reboot'', pt_config = ''/c''\<rparr>\<rparr>"

definition escaping_fleet :: inventory where
  "escaping_fleet = \<lparr>inv_version = 1, inv_nodes = [escaping_node]\<rparr>"

theorem delimiter_in_a_path_escapes:
  "\<not> cp_blocked (generateRemoteCommandPlan escaping_fleet ''ta'' RestorePublicBootstrap) \<and>
   local_rest (cs_command (hd (plan_steps escaping_node RestorePublicBootstrap))) \<noteq> []"
proof -
  have f: "find_node escaping_fleet ''ta'' = Some escaping_node" by code_simp
  have "list_ex (\<lambda>nt. nt_code nt \<in> set blockerCodes) (plan_notices escaping_fleet escaping_node RestorePublicBootstrap) = False"
    by code_simp
  moreover have "local_rest (cs_command (hd (plan_steps escaping_node RestorePublicBootstrap))) \<noteq> []" by code_simp
  ultimately show ?thesis by (simp add: plan_of_found [OF f])
qed

text \<open>what the steps of a plan may do: none changes the chain; status, logs and the observer proof
  change nothing; only rollback and cleanup have destructive steps; and a plan that changes a mainnet
  host starts with its proof, artifact and bootstrap checks, which change nothing.\<close>

theorem plan_effects:
  "list_all (\<lambda>s. \<not> cs_chainMutation s) (plan_steps n a) \<and>
   (a \<in> {Status, Logs, ProdnetObserverProof} \<longrightarrow>
      list_all (\<lambda>s. \<not> cs_hostMutation s \<and> \<not> cs_destructive s) (plan_steps n a)) \<and>
   (list_ex cs_destructive (plan_steps n a) \<longrightarrow> a = Rollback \<or> a = Cleanup) \<and>
   (isProdnetObserverMutation a n \<longrightarrow>
      map cs_phase (take 3 (plan_steps n a)) = [PhProof, PhTrust, PhBootstrap] \<and>
      list_all (\<lambda>s. \<not> cs_hostMutation s) (take 3 (plan_steps n a)))"
proof (intro conjI impI)
  show "list_all (\<lambda>s. \<not> cs_chainMutation s) (plan_steps n a)"
    using plan_steps_ssh [of _ n a] by (simp add: list_all_iff)
  show "a \<in> {Status, Logs, ProdnetObserverProof} \<Longrightarrow>
      list_all (\<lambda>s. \<not> cs_hostMutation s \<and> \<not> cs_destructive s) (plan_steps n a)"
    using read_only_steps [of a _ n] by (simp add: list_all_iff)
  show "list_ex cs_destructive (plan_steps n a) \<Longrightarrow> a = Rollback \<or> a = Cleanup"
    using destructive_steps [of _ n a] by (auto simp: list_ex_iff)
qed (use trust_steps_first [of a n] in \<open>simp_all add: take_map\<close>)

theorem plan_effects_witness:
  "map cs_phase (take 3 (plan_steps sample_prodnet StartObserver)) = [PhProof, PhTrust, PhBootstrap]"
proof -
  have "isProdnetObserverMutation StartObserver sample_prodnet" by code_simp
  then show ?thesis using plan_effects [of sample_prodnet StartObserver] by blast
qed

text \<open>A rollout has one entry per selected node that exists, in the order of the selection, each with
  that node's own plan; it is blocked when it is empty or any entry is, and its step count and its
  networks are those of its entries.\<close>

theorem rollout_is_its_plans:
  "rp_nodeIds (generateRemoteFleetRolloutPlan fleet ids a) =
     filter (\<lambda>i. find_node fleet i \<noteq> None) (selected_ids fleet ids) \<and>
   map re_plan (rp_entries (generateRemoteFleetRolloutPlan fleet ids a)) =
     map (\<lambda>i. generateRemoteCommandPlan fleet i a) (rp_nodeIds (generateRemoteFleetRolloutPlan fleet ids a)) \<and>
   rp_blocked (generateRemoteFleetRolloutPlan fleet ids a) =
     (rp_entries (generateRemoteFleetRolloutPlan fleet ids a) = [] \<or>
      list_ex cp_blocked (map re_plan (rp_entries (generateRemoteFleetRolloutPlan fleet ids a)))) \<and>
   rp_stepCount (generateRemoteFleetRolloutPlan fleet ids a) =
     length (concat (map (\<lambda>e. cp_steps (re_plan e)) (rp_entries (generateRemoteFleetRolloutPlan fleet ids a)))) \<and>
   distinct (rp_networks (generateRemoteFleetRolloutPlan fleet ids a))"
  unfolding rollout_fields rollout_entry_list by (intro conjI refl rollout_fields(5))

end
