(* ===== verification/FleetGate.thy ===== *)
theory FleetGate
  imports FleetPlan
begin

text \<open>
  The gate in front of execution, src/app/remote-node-execution.ts lines 1-318: the confirmation
  phrases, the scan of command text, validateRemoteExecutionGate for one plan and
  validateRemoteFleetRolloutGate for a rollout.

  The locale \<open>safety_gate\<close> is the contract of a gate, over whatever its requests are; the
  main process has a gate of its own (FleetService) that meets the same contract.
\<close>

section \<open>Codes and results\<close>

datatype gate_code =
    ConfirmationRequired | PlanBlocked | NodeNotFound | ProdnetExecutionBlocked
  | GateArtifactTrustRequired | GateBootstrapPolicyRequired | GateDryRunProofRequired
  | GateProducerUnavailable | UnsafeCommand | UnresolvedPlaceholder
  | FleetConfirmationRequired | FleetEmpty | FleetSingleNode | BatchMutationBlocked

record gate_result =
  gr_ok :: bool
  gr_expectedConfirmation :: string
  gr_codes :: "gate_code list"

record rollout_gate_result =
  rg_ok :: bool
  rg_expectedConfirmation :: string
  rg_requiredPhrases :: "string list"
  rg_codes :: "gate_code list"

section \<open>Kinds of action and trust\<close>

definition isReadOnlyRemoteAction :: "action \<Rightarrow> bool" where
  "isReadOnlyRemoteAction a \<longleftrightarrow> a = Status \<or> a = Logs \<or> a = ProdnetObserverProof"

definition isDbPreservingDestructiveAction :: "action \<Rightarrow> bool" where
  "isDbPreservingDestructiveAction a \<longleftrightarrow> a = Rollback \<or> a = Cleanup"

definition gate_isProdnetObserverMutation :: "fleet_node \<Rightarrow> action \<Rightarrow> bool" where
  "gate_isProdnetObserverMutation n a \<longleftrightarrow>
     n_network n = Mainnet \<and>
     (a = InstallObserver \<or> a = RestorePublicBootstrap \<or> a = StartObserver)"

definition gate_hasPinnedArtifactDigest :: "fleet_node \<Rightarrow> bool" where
  "gate_hasPinnedArtifactDigest n \<longleftrightarrow>
     js_test digest_re (tr_artifactDigest (n_trust n)) \<and>
     js_includes (rt_image (n_runtime n)) (''@'' @ tr_artifactDigest (n_trust n))"

definition gate_hasProdnetBootstrapPolicy :: "fleet_node \<Rightarrow> bool" where
  "gate_hasProdnetBootstrapPolicy n \<longleftrightarrow>
     tr_bootstrapPolicyId (n_trust n) = ''prodnet-public-bootstrap-v1'' \<and>
     js_includes (bk_publicBootstrapUrl (n_backup n)) ''/backups/prodnet/teleno-bootstrap''"

definition gate_hasProdnetDryRunProof :: "fleet_node \<Rightarrow> bool" where
  "gate_hasProdnetDryRunProof n = js_test proof_ref_re (tr_prodnetObserverProofRef (n_trust n))"

definition planStepsAreReadOnly :: "command_plan \<Rightarrow> bool" where
  "planStepsAreReadOnly plan =
     list_all (\<lambda>s. \<not> cs_hostMutation s \<and> \<not> cs_chainMutation s \<and> \<not> cs_destructive s) (cp_steps plan)"

section \<open>Confirmation phrases\<close>

definition remoteExecutionConfirmationPhrase :: "fleet_node \<Rightarrow> action \<Rightarrow> string" where
  "remoteExecutionConfirmationPhrase n a =
     (let base = ''EXECUTE '' @ n_id n @ '' '' @ network_str (n_network n) @ '' '' @ action_str a
      in if gate_isProdnetObserverMutation n a
         then base @ '' PROOF '' @ tr_prodnetObserverProofRef (n_trust n) @
              '' ARTIFACT '' @ tr_artifactDigest (n_trust n) @
              '' POLICY '' @ tr_bootstrapPolicyId (n_trust n) @ '' OBSERVER_ONLY''
         else if n_network n = Mainnet \<and> a = ProdnetObserverProof then base @ '' OBSERVER_ONLY''
         else if isDbPreservingDestructiveAction a then base @ '' PRESERVE_DB'' else base)"

definition remoteFleetRolloutConfirmationPhrase :: "rollout_plan \<Rightarrow> string" where
  "remoteFleetRolloutConfirmationPhrase r =
     (let base = ''EXECUTE FLEET '' @ action_str (rp_action r) @ '' '' @
                 js_nat (length (rp_entries r)) @ '' NODES SEQUENTIAL''
      in if isDbPreservingDestructiveAction (rp_action r) then base @ '' PRESERVE_DB'' else base)"

section \<open>Command text\<close>

definition plan_text :: "command_plan \<Rightarrow> string" where
  "plan_text plan = js_join nl (map cs_command (cp_steps plan))"

definition rm_rf_re :: re where
  "rm_rf_re = seqs [WordB, lit_i ''rm'', plus space, lit_i ''-rf'', WordB]"

definition protected_re :: re where
  "protected_re = Grp 1 (alts [lit_i ''chain'', lit_i ''blockchain'', lit_i ''state'', lit_i ''wallet'',
     lit_i ''producer'', lit_i ''config.yml''])"

definition destructivePlanHasDbPreservationEvidence :: "command_plan \<Rightarrow> bool" where
  "destructivePlanHasDbPreservationEvidence plan =
     (let commandText = plan_text plan
      in if \<not> js_includes commandText ''TELENO_DB_PRESERVED'' then False
         else if cp_action plan = Rollback \<and> \<not> js_includes commandText ''TELENO_ROLLBACK_EVIDENCE'' then False
         else if cp_action plan = Cleanup \<and> \<not> js_includes commandText ''TELENO_CLEANUP_CANDIDATE'' then False
         else if cp_action plan = Cleanup \<and>
                 list_ex (\<lambda>line. js_test rm_rf_re line \<and> js_test protected_re line) (js_lines commandText)
         then False
         else True)"

definition prodnetObserverPlanHasTrustEvidence :: "fleet_node \<Rightarrow> command_plan \<Rightarrow> bool" where
  "prodnetObserverPlanHasTrustEvidence n plan \<longleftrightarrow>
     (let commandText = plan_text plan
      in gate_hasPinnedArtifactDigest n \<and> gate_hasProdnetBootstrapPolicy n \<and> gate_hasProdnetDryRunProof n \<and>
         js_includes commandText (''TELENO_PRODNET_PROOF_RECEIPT '' @ tr_prodnetObserverProofRef (n_trust n)) \<and>
         js_includes commandText (''TELENO_ARTIFACT_DIGEST_PINNED '' @ tr_artifactDigest (n_trust n)) \<and>
         js_includes commandText (''TELENO_BOOTSTRAP_POLICY '' @ tr_bootstrapPolicyId (n_trust n)) \<and>
         js_includes commandText ''TELENO_PRODNET_OBSERVER_ONLY'')"

definition inspection_line_re :: re where
  "inspection_line_re =
     Alt (seqs [WordB, Grp 1 (alts [lit_i ''grep'', lit_i ''egrep'', lit_i ''sed'']), WordB])
         (lit_i ''TELENO_STOP_CRITERIA'')"

definition container_listen_re :: re where
  "container_listen_re = seqs [Bol, Star space, lit_i ''listen:'', plus space, lit ''0.0.0.0:'',
     plus digit, Star space, Eol]"

definition placeholder_re :: re where
  "placeholder_re = seqs [chr (CHR ''<''), plus (Cls (\<lambda>c. c \<noteq> CHR ''>'' \<and> c \<noteq> CHR 0x0A)), chr (CHR ''>'')]"

definition producer_on_re :: re where
  "producer_on_re = seqs [WordB, lit_i ''block_producer'', Star space, chr (CHR '':''), Star space,
     lit_i ''true'', WordB]"

definition public_publish_re :: re where
  "public_publish_re = seqs [Alt Bol space, lit ''-p'', plus space, lit ''0.0.0.0:'', plus digit,
     chr (CHR '':''), plus digit, WordB]"

definition public_port_re :: re where
  "public_port_re = seqs [WordB, lit ''0.0.0.0'', Star space, chr (CHR '':''), Star space,
     Grp 1 (alts [lit ''8080'', lit ''18080'', lit ''18088'']), WordB]"

definition public_backup_admin_re :: re where
  "public_backup_admin_re = seqs [WordB, lit_i ''backup.admin.'', Star dot, lit ''0.0.0.0'', WordB]"

definition key_material_re :: re where
  "key_material_re = seqs [WordB, Grp 1 (alts [
     seqs [lit_i ''private'', opt (one_of ''-_ ''), lit_i ''key''],
     lit_i ''seed phrase'', lit_i ''wallet.json'',
     seqs [lit_i ''producer'', opt (one_of ''-_ ''), lit_i ''key'']]), WordB]"

definition actionable_lines :: "string \<Rightarrow> string" where
  "actionable_lines command =
     js_join nl (filter (\<lambda>line. \<not> js_test container_listen_re line)
                  (filter (\<lambda>line. \<not> js_test inspection_line_re line) (js_lines command)))"

definition unsafe_text :: "string \<Rightarrow> bool" where
  "unsafe_text actionableLines \<longleftrightarrow>
     js_test placeholder_re actionableLines \<or>
     js_test producer_on_re actionableLines \<or>
     js_test public_publish_re actionableLines \<or>
     js_test public_port_re actionableLines \<or>
     js_test public_backup_admin_re actionableLines \<or>
     js_test key_material_re actionableLines"

definition commandLooksUnsafe :: "string \<Rightarrow> bool" where
  "commandLooksUnsafe command = unsafe_text (actionable_lines command)"

section \<open>The gate of one plan\<close>

definition gate_codes :: "fleet_node \<Rightarrow> command_plan \<Rightarrow> string \<Rightarrow> gate_code list" where
  "gate_codes n plan confirmation =
     push_if (cp_blocked plan) PlanBlocked @
     (if gate_isProdnetObserverMutation n (cp_action plan)
      then push_if (\<not> gate_hasPinnedArtifactDigest n) GateArtifactTrustRequired @
           push_if (\<not> gate_hasProdnetBootstrapPolicy n) GateBootstrapPolicyRequired @
           push_if (\<not> gate_hasProdnetDryRunProof n) GateDryRunProofRequired @
           push_if (\<not> prodnetObserverPlanHasTrustEvidence n plan) ProdnetExecutionBlocked
      else push_if (n_network n \<noteq> Testnet \<and>
                    (\<not> isReadOnlyRemoteAction (cp_action plan) \<or> \<not> planStepsAreReadOnly plan))
             ProdnetExecutionBlocked) @
     push_if (pr_enabled (n_producer n) \<or> n_role n = Producer) GateProducerUnavailable @
     push_if (js_trim confirmation \<noteq> remoteExecutionConfirmationPhrase n (cp_action plan)) ConfirmationRequired @
     push_if (list_ex (\<lambda>s. js_test placeholder_re (cs_command s)) (cp_steps plan)) UnresolvedPlaceholder @
     push_if (list_ex (\<lambda>s. cs_chainMutation s \<or> commandLooksUnsafe (cs_command s)) (cp_steps plan) \<or>
              isDbPreservingDestructiveAction (cp_action plan) \<and>
                \<not> destructivePlanHasDbPreservationEvidence plan) UnsafeCommand"

definition validateRemoteExecutionGate :: "inventory \<Rightarrow> command_plan option \<Rightarrow> string \<Rightarrow> gate_result" where
  "validateRemoteExecutionGate fleet plan confirmation =
     (case plan of
        None \<Rightarrow> \<lparr>gr_ok = False, gr_expectedConfirmation = [], gr_codes = [NodeNotFound]\<rparr>
      | Some p \<Rightarrow>
          (case find_node fleet (cp_nodeId p) of
             None \<Rightarrow> \<lparr>gr_ok = False, gr_expectedConfirmation = [], gr_codes = [NodeNotFound]\<rparr>
           | Some n \<Rightarrow>
               let codes = gate_codes n p confirmation
               in \<lparr>gr_ok = (codes = []),
                   gr_expectedConfirmation = remoteExecutionConfirmationPhrase n (cp_action p),
                   gr_codes = codes\<rparr>))"

section \<open>The gate of a rollout\<close>

definition entry_codes :: "inventory \<Rightarrow> rollout_entry \<Rightarrow> gate_code list" where
  "entry_codes fleet e =
     push_if (find_node fleet (re_nodeId e) = None) NodeNotFound @
     filter (\<lambda>c. c \<noteq> ConfirmationRequired)
       (gr_codes (validateRemoteExecutionGate fleet (Some (re_plan e)) (re_confirmationPhrase e)))"

definition rollout_phrases :: "rollout_plan \<Rightarrow> string list" where
  "rollout_phrases r = remoteFleetRolloutConfirmationPhrase r # map re_confirmationPhrase (rp_entries r)"

definition rollout_codes :: "inventory \<Rightarrow> rollout_plan \<Rightarrow> string \<Rightarrow> gate_code list" where
  "rollout_codes fleet r confirmation =
     push_if (length (rp_entries r) < 2) FleetSingleNode @
     push_if (list_ex (\<lambda>e. case find_node fleet (re_nodeId e) of
                             None \<Rightarrow> False
                           | Some n \<Rightarrow> gate_isProdnetObserverMutation n (rp_action r)) (rp_entries r))
       BatchMutationBlocked @
     push_if (rp_blocked r) PlanBlocked @
     push_if (list_ex (\<lambda>phrase. \<not> js_includes (js_trim confirmation) phrase) (rollout_phrases r))
       FleetConfirmationRequired @
     concat (map (entry_codes fleet) (rp_entries r))"

definition validateRemoteFleetRolloutGate ::
  "inventory \<Rightarrow> rollout_plan option \<Rightarrow> string \<Rightarrow> rollout_gate_result" where
  "validateRemoteFleetRolloutGate fleet rollout confirmation =
     (case rollout of
        None \<Rightarrow> \<lparr>rg_ok = False, rg_expectedConfirmation = [], rg_requiredPhrases = [], rg_codes = [FleetEmpty]\<rparr>
      | Some r \<Rightarrow>
          let codes = (if rp_entries r = [] then [FleetEmpty] else rollout_codes fleet r confirmation)
          in \<lparr>rg_ok = (codes = []),
              rg_expectedConfirmation = remoteFleetRolloutConfirmationPhrase r,
              rg_requiredPhrases = rollout_phrases r,
              rg_codes = js_unique codes\<rparr>)"

section \<open>The contract of a gate\<close>

type_synonym step_flags = "bool \<times> bool \<times> bool"

definition mutates_host :: "step_flags \<Rightarrow> bool" where
  "mutates_host f = fst f"

definition mutates_chain :: "step_flags \<Rightarrow> bool" where
  "mutates_chain f = fst (snd f)"

definition is_destructive :: "step_flags \<Rightarrow> bool" where
  "is_destructive f = snd (snd f)"

lemmas flag_defs = mutates_host_def mutates_chain_def is_destructive_def

definition read_only_words :: "string list" where
  "read_only_words = [''status'', ''logs'', ''prodnet-observer-proof'']"

definition observer_words :: "string list" where
  "observer_words = [''install-observer'', ''restore-public-bootstrap'', ''start-observer'']"

locale safety_gate =
  fixes accepts :: "'r \<Rightarrow> bool"
    and network_of :: "'r \<Rightarrow> string"
    and action_of :: "'r \<Rightarrow> string"
    and flags_of :: "'r \<Rightarrow> step_flags list"
    and typed_of :: "'r \<Rightarrow> string"
    and phrase_of :: "'r \<Rightarrow> string"
    and trusted :: "'r \<Rightarrow> bool"
    and producing :: "'r \<Rightarrow> bool"
  assumes confirmed: "accepts r \<Longrightarrow> js_trim (typed_of r) = phrase_of r"
    and no_chain: "accepts r \<Longrightarrow> list_all (\<lambda>f. \<not> mutates_chain f) (flags_of r)"
    and off_testnet: "accepts r \<Longrightarrow> network_of r \<noteq> ''testnet'' \<Longrightarrow>
      (action_of r \<in> set read_only_words \<and>
         list_all (\<lambda>f. \<not> mutates_host f \<and> \<not> is_destructive f) (flags_of r)) \<or>
      (network_of r = ''mainnet'' \<and> action_of r \<in> set observer_words \<and> trusted r)"
    and no_producer: "accepts r \<Longrightarrow> \<not> producing r"
begin

lemma off_testnet_actions:
  "accepts r \<Longrightarrow> network_of r \<noteq> ''testnet'' \<Longrightarrow>
   action_of r \<notin> {''stop'', ''restart'', ''upgrade'', ''rollback'', ''cleanup''}"
  using off_testnet [of r] by (auto simp: read_only_words_def observer_words_def)

lemma host_changes_are_trusted:
  "accepts r \<Longrightarrow> network_of r \<noteq> ''testnet'' \<Longrightarrow> f \<in> set (flags_of r) \<Longrightarrow>
   mutates_host f \<or> is_destructive f \<Longrightarrow>
   network_of r = ''mainnet'' \<and> action_of r \<in> set observer_words \<and> trusted r"
  using off_testnet [of r] by (auto simp: list_all_iff)

lemma other_networks_read_only:
  "accepts r \<Longrightarrow> network_of r \<notin> {''testnet'', ''mainnet''} \<Longrightarrow> f \<in> set (flags_of r) \<Longrightarrow>
   \<not> mutates_host f \<and> \<not> mutates_chain f \<and> \<not> is_destructive f"
  using off_testnet [of r] no_chain [of r] by (auto simp: list_all_iff)

end

section \<open>The renderer's gate meets it\<close>

text \<open>A request to the renderer's gate: the inventory, the reviewed plan, the text typed.\<close>

type_synonym gate_request = "inventory \<times> command_plan \<times> string"

fun rq_node :: "gate_request \<Rightarrow> fleet_node option" where
  "rq_node (fleet, plan, typed) = find_node fleet (cp_nodeId plan)"

fun rq_accepts :: "gate_request \<Rightarrow> bool" where
  "rq_accepts (fleet, plan, typed) = gr_ok (validateRemoteExecutionGate fleet (Some plan) typed)"

fun rq_network :: "gate_request \<Rightarrow> string" where
  "rq_network r = (case rq_node r of None \<Rightarrow> [] | Some n \<Rightarrow> network_str (n_network n))"

fun rq_action :: "gate_request \<Rightarrow> string" where
  "rq_action (fleet, plan, typed) = action_str (cp_action plan)"

definition flags_of_step :: "command_step \<Rightarrow> step_flags" where
  "flags_of_step s = (cs_hostMutation s, cs_chainMutation s, cs_destructive s)"

fun rq_flags :: "gate_request \<Rightarrow> step_flags list" where
  "rq_flags (fleet, plan, typed) = map flags_of_step (cp_steps plan)"

fun rq_typed :: "gate_request \<Rightarrow> string" where
  "rq_typed (fleet, plan, typed) = typed"

fun rq_phrase :: "gate_request \<Rightarrow> string" where
  "rq_phrase (fleet, plan, typed) =
     gr_expectedConfirmation (validateRemoteExecutionGate fleet (Some plan) typed)"

fun rq_trusted :: "gate_request \<Rightarrow> bool" where
  "rq_trusted (fleet, plan, typed) =
     (case find_node fleet (cp_nodeId plan) of None \<Rightarrow> False
      | Some n \<Rightarrow> prodnetObserverPlanHasTrustEvidence n plan)"

fun rq_producing :: "gate_request \<Rightarrow> bool" where
  "rq_producing r =
     (case rq_node r of None \<Rightarrow> True | Some n \<Rightarrow> pr_enabled (n_producer n) \<or> n_role n = Producer)"

lemma gate_ok_iff:
  "gr_ok (validateRemoteExecutionGate fleet (Some plan) typed) \<longleftrightarrow>
   (\<exists>n. find_node fleet (cp_nodeId plan) = Some n \<and> gate_codes n plan typed = [])"
  by (auto simp: validateRemoteExecutionGate_def Let_def split: option.splits)

text \<open>The conditions under which the gate opens.\<close>

definition gate_conditions :: "fleet_node \<Rightarrow> command_plan \<Rightarrow> string \<Rightarrow> bool" where
  "gate_conditions n plan typed \<longleftrightarrow>
     \<not> cp_blocked plan \<and>
     (if gate_isProdnetObserverMutation n (cp_action plan)
      then prodnetObserverPlanHasTrustEvidence n plan
      else n_network n = Testnet \<or> isReadOnlyRemoteAction (cp_action plan) \<and> planStepsAreReadOnly plan) \<and>
     \<not> pr_enabled (n_producer n) \<and> n_role n \<noteq> Producer \<and>
     js_trim typed = remoteExecutionConfirmationPhrase n (cp_action plan) \<and>
     list_all (\<lambda>s. \<not> cs_chainMutation s \<and> \<not> js_test placeholder_re (cs_command s) \<and>
                   \<not> commandLooksUnsafe (cs_command s)) (cp_steps plan) \<and>
     (isDbPreservingDestructiveAction (cp_action plan) \<longrightarrow> destructivePlanHasDbPreservationEvidence plan)"

lemma evidence_implies_trust:
  "prodnetObserverPlanHasTrustEvidence n plan \<Longrightarrow>
   gate_hasPinnedArtifactDigest n \<and> gate_hasProdnetBootstrapPolicy n \<and> gate_hasProdnetDryRunProof n"
  by (simp add: prodnetObserverPlanHasTrustEvidence_def Let_def)

lemma gate_codes_Nil_iff: "gate_codes n plan typed = [] \<longleftrightarrow> gate_conditions n plan typed"
  using evidence_implies_trust [of n plan]
  by (auto simp: gate_codes_def gate_conditions_def list_all_iff list_ex_iff)

lemma observer_mutation_words:
  "gate_isProdnetObserverMutation n a \<Longrightarrow> n_network n = Mainnet \<and> action_str a \<in> set observer_words"
  by (auto simp: gate_isProdnetObserverMutation_def observer_words_def)

lemma read_only_action_words: "isReadOnlyRemoteAction a \<Longrightarrow> action_str a \<in> set read_only_words"
  by (auto simp: isReadOnlyRemoteAction_def read_only_words_def)

interpretation renderer: safety_gate rq_accepts rq_network rq_action rq_flags rq_typed rq_phrase
  rq_trusted rq_producing
proof
  fix r :: gate_request
  obtain fleet plan typed where r: "r = (fleet, plan, typed)" by (cases r) auto
  assume acc: "rq_accepts r"
  then obtain n where n: "find_node fleet (cp_nodeId plan) = Some n"
    and ok: "gate_conditions n plan typed"
    using r by (auto simp: gate_ok_iff gate_codes_Nil_iff)
  show "js_trim (rq_typed r) = rq_phrase r"
    using ok n r by (simp add: gate_conditions_def validateRemoteExecutionGate_def Let_def)
  show "list_all (\<lambda>f. \<not> mutates_chain f) (rq_flags r)"
    using ok r by (auto simp: gate_conditions_def list_all_iff flag_defs flags_of_step_def)
  show "\<not> rq_producing r"
    using ok n r by (simp add: gate_conditions_def)
  assume net: "rq_network r \<noteq> ''testnet''"
  show "(rq_action r \<in> set read_only_words \<and>
         list_all (\<lambda>f. \<not> mutates_host f \<and> \<not> is_destructive f) (rq_flags r)) \<or>
      (rq_network r = ''mainnet'' \<and> rq_action r \<in> set observer_words \<and> rq_trusted r)"
  proof (cases "gate_isProdnetObserverMutation n (cp_action plan)")
    case True
    with ok n r observer_mutation_words [OF True] show ?thesis by (simp add: gate_conditions_def)
  next
    case False
    with ok net n r have "isReadOnlyRemoteAction (cp_action plan)" "planStepsAreReadOnly plan"
      by (auto simp: gate_conditions_def)
    then show ?thesis
      using r by (auto simp: planStepsAreReadOnly_def list_all_iff flag_defs flags_of_step_def
          dest: read_only_action_words)
  qed
qed

section \<open>Generated plans at the gate\<close>

lemma ssh_includes: "js_includes b p \<Longrightarrow> js_includes (ssh n b) p"
  unfolding ssh_def
  by (rule includes_append2, rule includes_append2, rule includes_append2, rule includes_append2,
      rule includes_append2, rule includes_append1)

lemma plan_text_includes:
  "s \<in> set (cp_steps plan) \<Longrightarrow> js_includes (cs_command s) p \<Longrightarrow> js_includes (plan_text plan) p"
  unfolding plan_text_def by (rule includes_join_trans [of "cs_command s"]) auto

lemma element_included:
  "x \<in> set xs \<Longrightarrow> js_includes x p \<Longrightarrow> js_includes (ssh n (js_join nl xs)) p"
  by (blast intro: ssh_includes includes_join_trans)

text \<open>The markers the gate looks for, at the step that prints them.\<close>

lemma proof_receipt_marker:
  "js_includes (ssh n (prodnetProofReferenceCommand n))
     (''TELENO_PRODNET_PROOF_RECEIPT '' @ tr_prodnetObserverProofRef (n_trust n))"
  unfolding prodnetProofReferenceCommand_def
  by (rule element_included [where x = \<open>''echo "TELENO_PRODNET_PROOF_RECEIPT '' @
        tr_prodnetObserverProofRef (n_trust n) @ ''"''\<close>])
    (simp, simp add: js_includes_def sublist_def, metis append.assoc append.simps)

lemma digest_marker:
  "js_includes (ssh n (prodnetProofReferenceCommand n))
     (''TELENO_ARTIFACT_DIGEST_PINNED '' @ tr_artifactDigest (n_trust n))"
  unfolding prodnetProofReferenceCommand_def
  by (rule element_included [where x = \<open>''echo "TELENO_ARTIFACT_DIGEST_PINNED '' @
        tr_artifactDigest (n_trust n) @ ''"''\<close>])
    (simp, simp add: js_includes_def sublist_def, metis append.assoc append.simps)

lemma policy_marker:
  "js_includes (ssh n (prodnetProofReferenceCommand n))
     (''TELENO_BOOTSTRAP_POLICY '' @ tr_bootstrapPolicyId (n_trust n))"
  unfolding prodnetProofReferenceCommand_def
  by (rule element_included [where x = \<open>''echo "TELENO_BOOTSTRAP_POLICY '' @
        tr_bootstrapPolicyId (n_trust n) @ ''"''\<close>])
    (simp, simp add: js_includes_def sublist_def, metis append.assoc append.simps)

lemma observer_only_marker:
  "js_includes (ssh n (prodnetProofReferenceCommand n)) ''TELENO_PRODNET_OBSERVER_ONLY''"
  unfolding prodnetProofReferenceCommand_def
  by (rule element_included [where x = \<open>''echo "TELENO_PRODNET_OBSERVER_ONLY block_production_disabled"''\<close>])
    (simp, code_simp)

lemma db_preserved_marker:
  "js_includes (ssh n (destructiveReceiptCommand n act)) ''TELENO_DB_PRESERVED''"
  unfolding destructiveReceiptCommand_def
  by (rule element_included [where x = \<open>''echo "TELENO_DB_PRESERVED receipt recorded with state DB untouched"''\<close>])
    (simp, code_simp)

lemma rollback_evidence_marker:
  "js_includes (ssh n (rollbackEvidencePreflightCommand n)) ''TELENO_ROLLBACK_EVIDENCE''"
  unfolding rollbackEvidencePreflightCommand_def
  by (rule element_included [where x = \<open>''echo "TELENO_ROLLBACK_EVIDENCE previous artifact and config present"''\<close>])
    (simp, code_simp)

lemma cleanup_candidate_marker:
  "js_includes (ssh n (cleanupCandidateListCommand n)) ''TELENO_CLEANUP_CANDIDATE''"
  unfolding cleanupCandidateListCommand_def
  by (rule element_included [where x = \<open>''  if test -e "$item"; then echo "TELENO_CLEANUP_CANDIDATE non-state temporary item present"; fi''\<close>])
    (simp, code_simp)

text \<open>The trust steps of a production-network plan carry every marker the gate asks for.\<close>

lemma trust_steps_evidence:
  assumes steps: "set (trust_steps n) \<subseteq> set (cp_steps plan)"
    and trust: "gate_hasPinnedArtifactDigest n \<and> gate_hasProdnetBootstrapPolicy n \<and> gate_hasProdnetDryRunProof n"
  shows "prodnetObserverPlanHasTrustEvidence n plan"
proof -
  let ?s = "commandStep PhProof (ssh n (prodnetProofReferenceCommand n)) False False False"
  have s: "?s \<in> set (cp_steps plan)" using steps by (auto simp: trust_steps_def)
  have c: "cs_command ?s = ssh n (prodnetProofReferenceCommand n)" by (simp add: commandStep_def)
  note marker = plan_text_includes [OF s, unfolded c]
  show ?thesis
    using trust marker [OF proof_receipt_marker] marker [OF digest_marker] marker [OF policy_marker]
      marker [OF observer_only_marker]
    by (simp only: prodnetObserverPlanHasTrustEvidence_def Let_def simp_thms)
qed

text \<open>The planner's trust rules imply the gate's.\<close>

lemma planner_trust_is_gate_trust:
  "hasPinnedArtifactDigest n \<Longrightarrow> hasProdnetBootstrapPolicy n \<Longrightarrow> hasProdnetDryRunProof n \<Longrightarrow>
   gate_hasPinnedArtifactDigest n \<and> gate_hasProdnetBootstrapPolicy n \<and> gate_hasProdnetDryRunProof n"
  unfolding hasPinnedArtifactDigest_def gate_hasPinnedArtifactDigest_def hasProdnetBootstrapPolicy_def
    gate_hasProdnetBootstrapPolicy_def hasProdnetDryRunProof_def gate_hasProdnetDryRunProof_def
    prodnet_bootstrap_policy_id_def Let_def
proof (elim conjE, intro conjI)
  assume "bk_publicBootstrapUrl (n_backup n) = publicBootstrapUrlForNetwork Mainnet"
  moreover have "js_includes (publicBootstrapUrlForNetwork Mainnet) ''/backups/prodnet/teleno-bootstrap''"
    by code_simp
  ultimately show "js_includes (bk_publicBootstrapUrl (n_backup n)) ''/backups/prodnet/teleno-bootstrap''"
    by (simp only:)
qed assumption+

lemma same_observer_mutation: "gate_isProdnetObserverMutation n a = isProdnetObserverMutation a n"
  by (simp add: gate_isProdnetObserverMutation_def isProdnetObserverMutation_def)

lemma unblocked_plan_evidence:
  assumes n: "find_node fleet nodeId = Some n" and m: "isProdnetObserverMutation a n"
    and ok: "\<not> cp_blocked (generateRemoteCommandPlan fleet nodeId a)"
  shows "prodnetObserverPlanHasTrustEvidence n (generateRemoteCommandPlan fleet nodeId a)"
  using unblocked_trust [OF n ok m] m
  by (intro trust_steps_evidence planner_trust_is_gate_trust)
    (auto simp: plan_of_found [OF n] plan_steps_def)

lemma rollback_plan_evidence:
  assumes n: "find_node fleet nodeId = Some n"
  shows "destructivePlanHasDbPreservationEvidence (generateRemoteCommandPlan fleet nodeId Rollback)"
proof -
  let ?plan = "generateRemoteCommandPlan fleet nodeId Rollback"
  have steps: "cp_steps ?plan = action_steps Rollback n" and act: "cp_action ?plan = Rollback"
    by (simp_all add: plan_of_found [OF n] plan_steps_def isProdnetObserverMutation_def del: action_steps.simps)
  have "js_includes (plan_text ?plan) ''TELENO_DB_PRESERVED''"
    by (rule plan_text_includes [where s = "commandStep PhReceipt (ssh n (destructiveReceiptCommand n ''rollback'')) True False False"])
      (simp_all add: steps, simp only: commandStep_def command_step.simps db_preserved_marker)
  moreover have "js_includes (plan_text ?plan) ''TELENO_ROLLBACK_EVIDENCE''"
    by (rule plan_text_includes [where s = "commandStep PhPreflight (ssh n (rollbackEvidencePreflightCommand n)) False False False"])
      (simp_all add: steps, simp only: commandStep_def command_step.simps rollback_evidence_marker)
  ultimately show ?thesis
    by (simp only: destructivePlanHasDbPreservationEvidence_def act Let_def simp_thms if_True if_False action.distinct)
qed

section \<open>Properties\<close>

text \<open>C2: the renderer's gate opens for a plan of a known node exactly when the plan is not blocked, the
  node is no producer, the exact phrase was typed, no step changes the chain, has a placeholder or
  looks unsafe, rollback and cleanup show that the database is preserved, and off testnet the plan is
  either a read-only action with read-only steps or a mainnet observer action whose proof, digest and
  policy are shown in the commands.\<close>

theorem gate_opens_iff:
  assumes "find_node fleet (cp_nodeId plan) = Some n"
  shows "gr_ok (validateRemoteExecutionGate fleet (Some plan) typed) \<longleftrightarrow> gate_conditions n plan typed"
  using assms by (simp add: gate_ok_iff gate_codes_Nil_iff)

definition sample_stop :: command_plan where
  "sample_stop = generateRemoteCommandPlan sample_fleet ''ta'' Stop"

lemma sample_stop_found: "find_node sample_fleet (cp_nodeId sample_stop) = Some sample_testnet"
  using sample_found(2) by (simp add: sample_stop_def plan_of_found [OF sample_found(2)] find_node_SomeD [OF sample_found(2)])

theorem gate_opens_iff_witness:
  "gr_ok (validateRemoteExecutionGate sample_fleet (Some sample_stop) ''  EXECUTE ta testnet stop '') \<and>
   \<not> gr_ok (validateRemoteExecutionGate sample_fleet (Some sample_stop) ''EXECUTE ta testnet restart'')"
proof -
  have "gate_conditions sample_testnet sample_stop ''  EXECUTE ta testnet stop ''" by code_simp
  moreover have "\<not> gate_conditions sample_testnet sample_stop ''EXECUTE ta testnet restart''" by code_simp
  ultimately show ?thesis using gate_opens_iff [OF sample_stop_found] by blast
qed

text \<open>C5: when the renderer's gate opens for a node off testnet, no destructive action, upgrade, stop or
  restart is behind it, and if a step changes the host or is destructive then the node is on mainnet,
  the action installs, restores or starts an observer, and the plan carries the trust evidence.\<close>

theorem gate_protects_mainnet:
  assumes ok: "gr_ok (validateRemoteExecutionGate fleet (Some plan) typed)"
    and n: "find_node fleet (cp_nodeId plan) = Some n" and net: "n_network n \<noteq> Testnet"
  shows "cp_action plan \<notin> {Stop, Restart, Upgrade, Rollback, Cleanup} \<and>
    (\<forall>s \<in> set (cp_steps plan). cs_hostMutation s \<or> cs_destructive s \<longrightarrow>
       n_network n = Mainnet \<and> cp_action plan \<in> {InstallObserver, RestorePublicBootstrap, StartObserver} \<and>
       prodnetObserverPlanHasTrustEvidence n plan)"
proof -
  let ?r = "(fleet, plan, typed)"
  have acc: "rq_accepts ?r" using ok by simp
  have off: "rq_network ?r \<noteq> ''testnet''" using n net by (cases "n_network n") simp_all
  have act: "cp_action plan \<notin> {Stop, Restart, Upgrade, Rollback, Cleanup}"
    using renderer.off_testnet_actions [OF acc off] by auto
  have "n_network n = Mainnet \<and> cp_action plan \<in> {InstallObserver, RestorePublicBootstrap, StartObserver} \<and>
       prodnetObserverPlanHasTrustEvidence n plan"
    if s: "s \<in> set (cp_steps plan)" and m: "cs_hostMutation s \<or> cs_destructive s" for s
  proof -
    have "flags_of_step s \<in> set (rq_flags ?r)" using s by simp
    moreover have "mutates_host (flags_of_step s) \<or> is_destructive (flags_of_step s)"
      using m by (simp add: flag_defs flags_of_step_def)
    ultimately have "rq_network ?r = ''mainnet'' \<and> rq_action ?r \<in> set observer_words \<and> rq_trusted ?r"
      by (rule renderer.host_changes_are_trusted [OF acc off])
    with n act show ?thesis
      by (cases "n_network n"; cases "cp_action plan") (simp_all add: observer_words_def)
  qed
  with act show ?thesis by blast
qed

text \<open>A small reviewed plan that restores the bootstrap of a mainnet observer: one line with the
  evidence, and the restore itself.\<close>

definition sample_restore :: command_plan where
  "sample_restore =
     \<lparr>cp_action = RestorePublicBootstrap, cp_nodeId = ''pa'', cp_blocked = False, cp_notices = [],
      cp_steps = [commandStep PhProof
                    (''echo TELENO_PRODNET_PROOF_RECEIPT proof-1 TELENO_ARTIFACT_DIGEST_PINNED '' @ sample_digest @
                     '' TELENO_BOOTSTRAP_POLICY prodnet-public-bootstrap-v1 TELENO_PRODNET_OBSERVER_ONLY | grep .'')
                    False False False,
                  commandStep PhBootstrap ''restore'' True False False]\<rparr>"

theorem gate_protects_mainnet_witness:
  "prodnetObserverPlanHasTrustEvidence sample_prodnet sample_restore"
proof -
  have f: "find_node sample_fleet (cp_nodeId sample_restore) = Some sample_prodnet" by code_simp
  have "gate_conditions sample_prodnet sample_restore (remoteExecutionConfirmationPhrase sample_prodnet RestorePublicBootstrap)"
    by code_simp
  then have "gate_codes sample_prodnet sample_restore (remoteExecutionConfirmationPhrase sample_prodnet RestorePublicBootstrap) = []"
    by (simp add: gate_codes_Nil_iff)
  then have ok: "gr_ok (validateRemoteExecutionGate sample_fleet (Some sample_restore)
      (remoteExecutionConfirmationPhrase sample_prodnet RestorePublicBootstrap))"
    using f by (simp add: gate_ok_iff)
  have net: "n_network sample_prodnet \<noteq> Testnet" by code_simp
  have "\<exists>s \<in> set (cp_steps sample_restore). cs_hostMutation s"
    by (simp add: sample_restore_def commandStep_def)
  then show ?thesis using gate_protects_mainnet [OF ok f net] by blast
qed

text \<open>C30: the plans the planner makes carry the evidence the gate asks for: a plan it did not block for a
  mainnet host has the trust evidence, and every rollback plan shows that the database is preserved.\<close>

theorem planned_evidence_reaches_the_gate:
  assumes "find_node fleet nodeId = Some n"
  shows "(isProdnetObserverMutation a n \<and> \<not> cp_blocked (generateRemoteCommandPlan fleet nodeId a) \<longrightarrow>
      prodnetObserverPlanHasTrustEvidence n (generateRemoteCommandPlan fleet nodeId a)) \<and>
    destructivePlanHasDbPreservationEvidence (generateRemoteCommandPlan fleet nodeId Rollback)"
  using unblocked_plan_evidence [OF assms] rollback_plan_evidence [OF assms] by blast

theorem planned_evidence_reaches_the_gate_witness:
  "prodnetObserverPlanHasTrustEvidence sample_prodnet
     (generateRemoteCommandPlan sample_fleet ''pa'' InstallObserver)"
proof -
  have "isProdnetObserverMutation InstallObserver sample_prodnet" by code_simp
  then show ?thesis
    using planned_evidence_reaches_the_gate [OF sample_found(1), of InstallObserver] sample_unblocked by blast
qed

text \<open>when the rollout gate opens there are at least two nodes, none of them a mainnet observer
  mutation, the rollout phrase and every node's phrase are in the text typed, and each node's plan
  satisfies the one-plan gate but for its own phrase.\<close>

theorem rollout_gate_covers_every_node:
  assumes ok: "rg_ok (validateRemoteFleetRolloutGate fleet (Some r) typed)"
  shows "2 \<le> length (rp_entries r) \<and> \<not> rp_blocked r \<and>
    js_includes (js_trim typed) (remoteFleetRolloutConfirmationPhrase r) \<and>
    (\<forall>e \<in> set (rp_entries r).
       js_includes (js_trim typed) (re_confirmationPhrase e) \<and>
       (\<exists>n. find_node fleet (re_nodeId e) = Some n \<and> \<not> gate_isProdnetObserverMutation n (rp_action r)) \<and>
       set (gr_codes (validateRemoteExecutionGate fleet (Some (re_plan e)) (re_confirmationPhrase e)))
         \<subseteq> {ConfirmationRequired})"
proof -
  have ne: "rp_entries r \<noteq> []" and codes: "rollout_codes fleet r typed = []"
    using ok by (auto simp: validateRemoteFleetRolloutGate_def Let_def split: if_splits)
  have entry: "entry_codes fleet e = []" if "e \<in> set (rp_entries r)" for e
    using codes that by (auto simp: rollout_codes_def)
  have "\<exists>n. find_node fleet (re_nodeId e) = Some n \<and> \<not> gate_isProdnetObserverMutation n (rp_action r)"
    if e: "e \<in> set (rp_entries r)" for e
  proof -
    obtain n where n: "find_node fleet (re_nodeId e) = Some n"
      using entry [OF e] by (auto simp: entry_codes_def)
    have "\<not> list_ex (\<lambda>e. case find_node fleet (re_nodeId e) of None \<Rightarrow> False
                           | Some n \<Rightarrow> gate_isProdnetObserverMutation n (rp_action r)) (rp_entries r)"
      using codes by (simp add: rollout_codes_def)
    with e n show ?thesis by (auto simp: list_ex_iff)
  qed
  moreover have "set (gr_codes (validateRemoteExecutionGate fleet (Some (re_plan e)) (re_confirmationPhrase e)))
         \<subseteq> {ConfirmationRequired}" if e: "e \<in> set (rp_entries r)" for e
    using entry [OF e] by (auto simp: entry_codes_def filter_empty_conv)
  ultimately show ?thesis
    using codes by (auto simp: rollout_codes_def rollout_phrases_def list_ex_iff)
qed

definition sample_pair :: inventory where
  "sample_pair = \<lparr>inv_version = 1, inv_nodes =
     [sample_testnet\<lparr>n_id := ''a'', n_connectionRef := ''s''\<rparr>, sample_testnet\<lparr>n_id := ''b'', n_connectionRef := ''t''\<rparr>]\<rparr>"

definition sample_entry :: "string \<Rightarrow> rollout_entry" where
  "sample_entry i =
     \<lparr>re_nodeId = i, re_label = i, re_network = Testnet, re_status = RsReviewing,
      re_plan = \<lparr>cp_action = Stop, cp_nodeId = i, cp_blocked = False, cp_notices = [],
                 cp_steps = [commandStep PhRuntime ''docker stop'' True False False]\<rparr>,
      re_blocked = False, re_stepCount = 1, re_notices = [],
      re_confirmationPhrase = ''EXECUTE '' @ i @ '' testnet stop''\<rparr>"

definition sample_rollout :: rollout_plan where
  "sample_rollout =
     \<lparr>rp_action = Stop, rp_nodeIds = [''a'', ''b''], rp_entries = [sample_entry ''a'', sample_entry ''b''],
      rp_blocked = False, rp_stepCount = 2, rp_networks = [Testnet]\<rparr>"

theorem rollout_gate_covers_every_node_witness:
  "js_includes ''EXECUTE FLEET stop 2 NODES SEQUENTIAL EXECUTE a testnet stop EXECUTE b testnet stop''
     (remoteFleetRolloutConfirmationPhrase sample_rollout)"
proof -
  let ?t = "''EXECUTE FLEET stop 2 NODES SEQUENTIAL EXECUTE a testnet stop EXECUTE b testnet stop''"
  have ok: "rg_ok (validateRemoteFleetRolloutGate sample_pair (Some sample_rollout) ?t)"
    by code_simp
  have "js_trim ?t = ?t" by code_simp
  then show ?thesis using rollout_gate_covers_every_node [OF ok] by simp
qed

end
