(* ===== verification/FleetHealth.thy ===== *)
theory FleetHealth
  imports FleetGate
begin

text \<open>
  What the renderer makes of remote output, src/app/remote-node-execution.ts lines 320-578:
  redactRemoteOutput (seventeen replacements in their order), the stop criteria, the health
  snapshot, the receipt of one plan and the receipt of a rollout. Times and random ids are
  arguments.
\<close>

section \<open>Redaction\<close>

text \<open>The pieces the patterns share: a separator, a value, what may stand before a path.\<close>

definition separator :: re where
  "separator = seqs [Star space, one_of '':='', Star space]"

definition value_char :: re where
  "value_char = Cls (\<lambda>c. \<not> is_space c \<and> c \<notin> set (dq @ sq @ '',;''))"

definition path_lead :: re where
  "path_lead = Cls (\<lambda>c. is_space c \<or> c \<in> set (dq @ sq @ ''=(''))"

definition path_char :: re where
  "path_char = Cls (\<lambda>c. \<not> is_space c \<and> c \<notin> set (dq @ sq @ '',;)''))"

definition hex :: re where
  "hex = Cls (\<lambda>c. is_digit c \<or> lower_char c \<in> set ''abcdef'')"

definition hex_colon :: re where
  "hex_colon = Cls (\<lambda>c. is_digit c \<or> lower_char c \<in> set ''abcdef'' \<or> c = CHR '':'')"

type_synonym replacement = "re \<times> (string \<Rightarrow> caps \<Rightarrow> string)"

definition apply_replacement :: "string \<Rightarrow> replacement \<Rightarrow> string" where
  "apply_replacement s r = js_replace_all (fst r) (snd r) s"

definition redaction_rules :: "replacement list" where
  "redaction_rules =
     [(seqs [lit_i ''-----BEGIN '', plus (none_of ''-''), lit_i ''PRIVATE KEY-----'', LazyStar any_char,
             lit_i ''-----END '', plus (none_of ''-''), lit_i ''PRIVATE KEY-----''],
       \<lambda>m c. ''<redacted-private-key>''),
      (seqs [WordB, Grp 1 (alts [
               seqs [lit_i ''token'', opt (one_of ''-_ ''), lit_i ''file''],
               seqs [lit_i ''password'', opt (one_of ''-_ ''), lit_i ''file''],
               seqs [lit_i ''secret'', opt (one_of ''-_ ''), lit_i ''file''],
               seqs [lit_i ''private'', opt (one_of ''-_ ''), lit_i ''key'', opt (one_of ''-_ ''), lit_i ''file'']]),
             Grp 2 separator, Grp 3 (plus value_char)],
       \<lambda>m c. cap 1 c @ cap 2 c @ ''<redacted>''),
      (seqs [WordB, Grp 1 (alts [lit_i ''password'', lit_i ''passwd'', lit_i ''passphrase'', lit_i ''token'',
               lit_i ''secret'', lit_i ''seed'', lit_i ''wif'']),
             Grp 2 separator, Grp 3 (plus value_char)],
       \<lambda>m c. cap 1 c @ cap 2 c @ ''<redacted>''),
      (seqs [WordB, Grp 1 (seqs [lit_i ''private'', opt (one_of ''-_ ''), lit_i ''key'']),
             Grp 2 separator, Grp 3 (plus value_char)],
       \<lambda>m c. cap 1 c @ cap 2 c @ ''<redacted>''),
      (seqs [WordB, Grp 1 (alts [lit_i ''hostname'', lit_i ''host'', lit_i ''server'']),
             Grp 2 separator, Grp 3 (plus value_char)],
       \<lambda>m c. cap 1 c @ cap 2 c @ ''<redacted>''),
      (seqs [WordB, Grp 1 (lit_i ''could not resolve hostname''), plus space,
             plus (Cls (\<lambda>c. \<not> is_space c \<and> c \<noteq> CHR '':''))],
       \<lambda>m c. cap 1 c @ '' <host-redacted>''),
      (seqs [WordB, Grp 1 (Alt (lit ''Linux'') (lit ''Darwin'')), plus space,
             plus (Cls (\<lambda>c. is_word c \<or> c \<in> set ''.-'')), plus space],
       \<lambda>m c. cap 1 c @ '' <host-redacted> ''),
      (seqs [WordB, Grp 1 (plus (Cls (\<lambda>c. is_word c \<or> c \<in> set ''.%+-''))), chr (CHR ''@''),
             Grp 2 (Alt (Seq (copies 3 (Seq (between 1 3 digit) (chr (CHR ''.'')))) (between 1 3 digit))
                        (seqs [plus (Cls (\<lambda>c. is_alpha c \<or> is_digit c \<or> c \<in> set ''.-'')), chr (CHR ''.''),
                               copies 2 (Cls is_alpha), Star (Cls is_alpha)])),
             WordB],
       \<lambda>m c. ''<ssh-target-redacted>''),
      (seqs [Grp 1 (Alt Bol path_lead), Alt (lit ''~'') (lit ''$HOME''), lit ''/'', plus path_char],
       \<lambda>m c. cap 1 c @ ''<remote-path-redacted>''),
      (seqs [Grp 1 (Alt Bol path_lead), lit ''/home/'', plus (Cls (\<lambda>c. is_word c \<or> c \<in> set ''.-'')),
             lit ''/'', plus path_char],
       \<lambda>m c. cap 1 c @ ''<remote-path-redacted>''),
      (seqs [Grp 1 (Alt Bol path_lead), lit ''/Users/'', plus (Cls (\<lambda>c. is_word c \<or> c \<in> set ''.-'')),
             lit ''/'', plus path_char],
       \<lambda>m c. cap 1 c @ ''<local-path-redacted>''),
      (seqs [WordB, between 1 3 digit, copies 3 (Seq (chr (CHR ''.'')) (between 1 3 digit)), WordB],
       \<lambda>m c. ''<ip-redacted>''),
      (seqs [WordB,
             Look (Alt (seqs [copies 3 (Seq (Star hex) (lit '':'')), Star (Seq (Star hex) (lit '':'')),
                              Star hex_colon, WordB])
                       (seqs [Star hex_colon, lit ''::'', Star hex_colon, WordB])),
             between 1 7 (Seq (between 1 4 hex) (lit '':'')), opt (lit '':''), opt (between 1 4 hex), WordB],
       \<lambda>m c. ''<ip-redacted>''),
      (seqs [Grp 1 (alts [lit ''<ip-redacted>'', lit ''localhost'', lit ''[::1]'', lit ''::1'']), lit '':'',
             between 2 5 digit, WordB],
       \<lambda>m c. cap 1 c @ '':<port-redacted>''),
      (seqs [WordB, Grp 1 (alts [lit_i ''port'', lit_i ''p2p'',
               seqs [lit_i ''json'', opt (one_of ''-_ ''), lit_i ''rpc''],
               seqs [lit_i ''admin'', opt (one_of ''-_ ''), lit_i ''listen''], lit_i ''listen'']),
             Grp 2 separator, between 2 5 digit, WordB],
       \<lambda>m c. cap 1 c @ cap 2 c @ ''<port-redacted>''),
      (seqs [WordB, lit_i ''port'', plus space, between 2 5 digit, WordB],
       \<lambda>m c. ''port <port-redacted>''),
      (seqs [lit ''/tcp/'', between 2 5 digit, WordB],
       \<lambda>m c. ''/tcp/<port-redacted>'')]"

definition redactRemoteOutput :: "string \<Rightarrow> string" where
  "redactRemoteOutput v = foldl apply_replacement v redaction_rules"

section \<open>Stop criteria\<close>

datatype stop_criterion =
    ChainIdMismatch | ProducerEnabled | PublicJsonrpcExposure | PublicAdminExposure
  | DiskFloorViolation | RestoreFailure | DigestMismatch | StateMerkleMismatch
  | RollbackEvidenceMissing | CleanupEvidenceMissing | CleanupStateUnknown | CleanupProtectedPath

fun stop_str :: "stop_criterion \<Rightarrow> string" where
  "stop_str ChainIdMismatch = ''chain-id-mismatch''"
| "stop_str ProducerEnabled = ''producer-enabled''"
| "stop_str PublicJsonrpcExposure = ''public-jsonrpc-exposure''"
| "stop_str PublicAdminExposure = ''public-admin-exposure''"
| "stop_str DiskFloorViolation = ''disk-floor-violation''"
| "stop_str RestoreFailure = ''restore-failure''"
| "stop_str DigestMismatch = ''digest-mismatch''"
| "stop_str StateMerkleMismatch = ''state-merkle-mismatch''"
| "stop_str RollbackEvidenceMissing = ''rollback-evidence-missing''"
| "stop_str CleanupEvidenceMissing = ''cleanup-evidence-missing''"
| "stop_str CleanupStateUnknown = ''cleanup-state-unknown''"
| "stop_str CleanupProtectedPath = ''cleanup-protected-path''"

definition stopCriteriaFromOutput :: "string \<Rightarrow> stop_criterion list" where
  "stopCriteriaFromOutput output =
     (let lower = js_lower output
      in js_unique
          (push_if (js_test (seqs [lit ''chain'', opt (one_of ''_ -''), lit ''id mismatch'']) lower) ChainIdMismatch @
           push_if (js_test (alts [seqs [lit ''block_producer'', Star space, lit '':'', Star space, lit ''true''],
                                   lit ''producer enabled'', lit ''producer unexpectedly enabled'']) lower)
             ProducerEnabled @
           push_if (js_test (alts [
               seqs [lit_i ''public json'', opt (one_of ''-_ ''), lit_i ''rpc'', Star dot, lit_i ''exposure''],
               seqs [lit_i ''json'', opt (one_of ''-_ ''), lit_i ''rpc'', Star dot, lit_i ''public exposure''],
               lit_i ''teleno_stop_criteria: public json-rpc'']) lower) PublicJsonrpcExposure @
           push_if (js_test (alts [
               seqs [lit_i ''public admin'', Star dot, lit_i ''exposure''],
               seqs [lit_i ''backup admin'', Star dot, lit_i ''public exposure''],
               lit_i ''teleno_stop_criteria: public json-rpc/admin'']) lower) PublicAdminExposure @
           push_if (js_test (alts [lit ''disk floor violation'', lit ''not enough disk'', lit ''no space left'']) lower)
             DiskFloorViolation @
           push_if (js_test (alts [lit ''restore failed'', lit ''public bootstrap restore failed'']) lower) RestoreFailure @
           push_if (js_test (alts [lit ''digest mismatch'', lit ''sha256 mismatch'', lit ''hash mismatch'']) lower)
             DigestMismatch @
           push_if (js_test (alts [lit ''state merkle mismatch'', lit ''previous state merkle mismatch'']) lower)
             StateMerkleMismatch @
           push_if (js_test (alts [lit ''rollback evidence missing'', lit ''rollback evidence invalid'']) lower)
             RollbackEvidenceMissing @
           push_if (js_test (lit ''cleanup receipt evidence missing'') lower) CleanupEvidenceMissing @
           push_if (js_test (lit ''cleanup state unknown'') lower) CleanupStateUnknown @
           push_if (js_test (lit ''cleanup attempted protected path'') lower) CleanupProtectedPath))"

section \<open>The health snapshot\<close>

record health_snapshot =
  hs_state :: health_state
  hs_checkedAt :: string
  hs_summary :: string
  hs_stopCriteria :: "stop_criterion list"

definition noSeedPeers :: "string \<Rightarrow> bool" where
  "noSeedPeers redacted =
     js_test (alts [lit_i ''teleno_health_signal no-seed-peers'', lit_i ''started with 0 seed peers'',
       seqs [lit_i ''p2p'', Star dot, lit_i ''0 seed peer'']]) redacted"

definition noPeers :: "string \<Rightarrow> bool" where
  "noPeers redacted =
     js_test (Alt (lit_i ''teleno_health_signal no-peers'') (lit_i ''peer_count=0'')) redacted"

definition noHeadProgress :: "string \<Rightarrow> bool" where
  "noHeadProgress redacted = js_test (lit_i ''teleno_health_signal no-head-progress'') redacted"

definition headProgress :: "string \<Rightarrow> bool" where
  "headProgress redacted =
     js_test (alts [lit_i ''teleno_health_signal head-progress'', lit_i ''head advances'', lit_i ''head progress'']) redacted"

definition health_state_of :: "string \<Rightarrow> stop_criterion list \<Rightarrow> health_state" where
  "health_state_of redacted stopCriteria =
     (let lower = js_lower redacted;
          failureProbe =
            js_replace_all (lit ''connection reset by peer'') (\<lambda>m c. [])
              (js_replace_all (lit ''error=bad address'') (\<lambda>m c. [])
                (js_replace_all (Seq (lit ''failed to connect to peer'') (Star (none_of nl))) (\<lambda>m c. []) lower))
      in if DiskFloorViolation \<in> set stopCriteria then HNeedsSpace
         else if stopCriteria \<noteq> [] then
           (if list_ex (\<lambda>c. c = ProducerEnabled \<or> c = PublicJsonrpcExposure \<or> c = PublicAdminExposure) stopCriteria
            then HUnsafe else HFailed)
         else if js_test (alts [lit_i ''could not resolve hostname'', lit_i ''permission denied'',
                 lit_i ''connection refused'', lit_i ''no route to host'', lit_i ''ssh:'']) lower then HNeedsServer
         else if js_test (alts [lit_i ''not enough disk'', lit_i ''no space left'', lit_i ''disk floor'']) lower
              then HNeedsSpace
         else if js_test (alts [lit_i ''installing'', lit_i ''docker pull'', lit_i ''artifact'']) lower then HInstalling
         else if js_test (alts [lit_i ''restoring'', lit_i ''backup-public-restore'',
                 lit_i ''public bootstrap restore'']) lower then HRestoring
         else if js_test (alts [lit_i ''starting'', lit_i ''docker start'', lit_i ''systemctl start'']) lower then HStarting
         else if headProgress redacted \<or>
                 js_test (alts [lit_i ''syncing'', lit_i ''head progress'', lit_i ''head advances'']) lower then HSyncing
         else if js_test (alts [lit ''no such container'', lit ''inactive'', lit ''stopped'', lit ''not running'']) lower
              then HStopped
         else if noSeedPeers redacted \<or> noPeers redacted \<or> noHeadProgress redacted then HDegraded
         else if js_test (alts [lit ''failed'', lit ''error'', lit ''panic'', lit ''segmentation fault'']) failureProbe
              then HFailed
         else if js_test (alts [lit ''teleno_prodnet_proof_ready'', lit ''teleno_node ready'', lit ''healthy'',
                 lit ''running'', lit ''up '']) lower
              then (if js_test (Alt (seqs [lit ''block_producer'', Star space, lit '':'', Star space, lit ''false''])
                                    (lit ''observer'')) lower then HHealthy else HDegraded)
         else if js_trim redacted \<noteq> [] then HDegraded
         else HUnknown)"

definition health_summary :: "string \<Rightarrow> stop_criterion list \<Rightarrow> health_state \<Rightarrow> string" where
  "health_summary redacted stopCriteria state =
     (if stopCriteria \<noteq> []
      then ''Stop criteria detected: '' @ js_join '', '' (map stop_str stopCriteria)
      else if noSeedPeers redacted
      then ''The observer is running without configured seed peers. Reconcile observer config and restart.''
      else if noPeers redacted
      then ''The observer is running but has no connected peers yet. Check P2P reachability and seed peers.''
      else if noHeadProgress redacted
      then ''The observer answered JSON-RPC but head did not advance in the sampled window.''
      else if state = HHealthy then ''Observer health checks passed.''
      else if state = HNeedsServer then ''Server connection is not ready. Check the SSH alias and try again.''
      else if state = HNeedsSpace
      then ''The server does not have enough safe free disk space for this restore.''
      else if state = HUnknown then ''No remote health signal has been collected.''
      else ''Remote health state is '' @ health_str state @ ''.'')"

definition parseRemoteHealthOutput :: "string \<Rightarrow> string \<Rightarrow> health_snapshot" where
  "parseRemoteHealthOutput output checkedAt =
     (let redacted = redactRemoteOutput output;
          stopCriteria = stopCriteriaFromOutput redacted;
          state = health_state_of redacted stopCriteria
      in \<lparr>hs_state = state, hs_checkedAt = checkedAt,
          hs_summary = health_summary redacted stopCriteria state, hs_stopCriteria = stopCriteria\<rparr>)"

section \<open>The receipt of one plan\<close>

datatype step_status = StQueued | StRunning | StSucceeded | StFailed | StBlocked | StSkipped

record step_summary =
  ss_stepIndex :: nat
  ss_stepCount :: nat
  ss_phase :: string
  ss_status :: step_status
  ss_startedAt :: "string option"
  ss_completedAt :: "string option"
  ss_exitCode :: "int option"
  ss_health :: "health_snapshot option"
  ss_outputExcerpt :: string

datatype receipt_status = RcPlanned | RcConfirmed | RcRunning | RcSucceeded | RcFailed | RcBlocked

record execution_receipt =
  rc_id :: string
  rc_nodeId :: string
  rc_network :: network
  rc_action :: action
  rc_status :: receipt_status
  rc_startedAt :: string
  rc_completedAt :: string
  rc_planStepCount :: nat
  rc_health :: health_snapshot
  rc_steps :: "step_summary list option"
  rc_output :: string

record receipt_input =
  ri_node :: fleet_node
  ri_action :: action
  ri_status :: receipt_status
  ri_startedAt :: string
  ri_completedAt :: string
  ri_planStepCount :: nat
  ri_steps :: "step_summary list option"
  ri_output :: string

text \<open>
  An absent start or completion time is the empty string. \<open>freshId\<close> is the id the code draws
  from the clock and \<open>Math.random\<close>, \<open>now\<close> the time at which it asks for one.
\<close>

definition createRemoteExecutionReceipt :: "string \<Rightarrow> string \<Rightarrow> receipt_input \<Rightarrow> execution_receipt" where
  "createRemoteExecutionReceipt freshId now i =
     (let completedAt = js_or (ri_completedAt i) now;
          startedAt = js_or (ri_startedAt i) completedAt;
          safeOutput = redactRemoteOutput (ri_output i)
      in \<lparr>rc_id = freshId, rc_nodeId = n_id (ri_node i), rc_network = n_network (ri_node i),
          rc_action = ri_action i, rc_status = ri_status i, rc_startedAt = startedAt,
          rc_completedAt = completedAt, rc_planStepCount = ri_planStepCount i,
          rc_health = parseRemoteHealthOutput safeOutput completedAt,
          rc_steps = map_option (map (\<lambda>s. s\<lparr>ss_outputExcerpt := redactRemoteOutput (ss_outputExcerpt s)\<rparr>))
                       (ri_steps i),
          rc_output = safeOutput\<rparr>)"

section \<open>The receipt of a rollout\<close>

datatype rollout_status = RoSucceeded | RoFailed | RoBlocked | RoPaused

fun rollout_status_str :: "rollout_status \<Rightarrow> string" where
  "rollout_status_str RoSucceeded = ''succeeded''"
| "rollout_status_str RoFailed = ''failed''"
| "rollout_status_str RoBlocked = ''blocked''"
| "rollout_status_str RoPaused = ''paused''"

record node_result =
  nr_nodeId :: string
  nr_label :: string
  nr_network :: network
  nr_status :: rollout_node_status
  nr_receiptId :: "string option"
  nr_healthState :: health_state
  nr_summary :: string

record rollout_receipt =
  ro_rolloutId :: string
  ro_action :: action
  ro_status :: rollout_status
  ro_startedAt :: string
  ro_completedAt :: string
  ro_selectedNodeIds :: "string list"
  ro_nodeAliases :: "string list"
  ro_nodeResults :: "node_result list"
  ro_stopReason :: string
  ro_output :: string

record rollout_receipt_input =
  rx_rollout :: rollout_plan
  rx_status :: "rollout_status option"
  rx_startedAt :: string
  rx_completedAt :: string
  rx_nodeReceipts :: "execution_receipt list"
  rx_skippedNodeIds :: "string list"
  rx_stopReason :: string
  rx_output :: string

definition rolloutNodeStatusFromReceipt :: "execution_receipt option \<Rightarrow> rollout_node_status" where
  "rolloutNodeStatusFromReceipt r =
     (case r of None \<Rightarrow> RsSkipped
      | Some x \<Rightarrow> if rc_status x = RcSucceeded then RsComplete else RsFailed)"

text \<open>\<open>new Map(...)\<close> keeps the last receipt of a node.\<close>

definition receipt_of_node :: "execution_receipt list \<Rightarrow> string \<Rightarrow> execution_receipt option" where
  "receipt_of_node rs = map_of (rev (map (\<lambda>r. (rc_nodeId r, r)) rs))"

definition rollout_node_result :: "rollout_receipt_input \<Rightarrow> rollout_entry \<Rightarrow> node_result" where
  "rollout_node_result i e =
     (let receipt = receipt_of_node (rx_nodeReceipts i) (re_nodeId e);
          status = (if re_nodeId e \<in> set (rx_skippedNodeIds i) then RsSkipped
                    else rolloutNodeStatusFromReceipt receipt)
      in \<lparr>nr_nodeId = re_nodeId e, nr_label = re_label e, nr_network = re_network e, nr_status = status,
          nr_receiptId = (case receipt of None \<Rightarrow> None
                          | Some r \<Rightarrow> if rc_id r = [] then None else Some (rc_id r)),
          nr_healthState = (case receipt of None \<Rightarrow> HUnknown | Some r \<Rightarrow> hs_state (rc_health r)),
          nr_summary = redactRemoteOutput
            (js_or (case receipt of None \<Rightarrow> [] | Some r \<Rightarrow> hs_summary (rc_health r))
              (if status = RsSkipped then ''Skipped because rollout stopped before this node.''
               else ''No node receipt was produced.''))\<rparr>)"

definition rollout_status_of :: "rollout_receipt_input \<Rightarrow> string \<Rightarrow> node_result list \<Rightarrow> rollout_status" where
  "rollout_status_of i stopReason results =
     (case rx_status i of Some s \<Rightarrow> s
      | None \<Rightarrow> if stopReason \<noteq> [] \<or> list_ex (\<lambda>r. nr_status r = RsFailed) results
               then RoFailed else RoSucceeded)"

definition rollout_id :: "string \<Rightarrow> action \<Rightarrow> string" where
  "rollout_id startedAt a = ''rollout-'' @ take 14 (filter is_digit startedAt) @ ''-'' @ action_str a"

definition createRemoteFleetRolloutReceipt :: "string \<Rightarrow> rollout_receipt_input \<Rightarrow> rollout_receipt" where
  "createRemoteFleetRolloutReceipt now i =
     (let completedAt = js_or (rx_completedAt i) now;
          startedAt = js_or (rx_startedAt i) completedAt;
          r = rx_rollout i;
          nodeResults = map (rollout_node_result i) (rp_entries r);
          stopReason = redactRemoteOutput (rx_stopReason i);
          status = rollout_status_of i stopReason nodeResults;
          output = redactRemoteOutput (js_or (rx_output i)
            (js_join nl (filter (\<lambda>l. l \<noteq> [])
              [''Fleet rollout '' @ rollout_status_str status @ ''.'',
               ''Action: '' @ action_str (rp_action r) @ ''.'',
               ''Nodes: '' @ js_nat (length (rp_entries r)) @ ''.'',
               (if stopReason \<noteq> [] then ''Stop reason: '' @ stopReason @ ''.'' else [])])))
      in \<lparr>ro_rolloutId = rollout_id startedAt (rp_action r), ro_action = rp_action r, ro_status = status,
          ro_startedAt = startedAt, ro_completedAt = completedAt,
          ro_selectedNodeIds = map re_nodeId (rp_entries r),
          ro_nodeAliases = map re_label (rp_entries r),
          ro_nodeResults = nodeResults, ro_stopReason = stopReason, ro_output = output\<rparr>)"

section \<open>Reading a snapshot\<close>

lemma stop_criteria_decide:
  "c \<in> set stops \<Longrightarrow> health_state_of out stops \<in> {HNeedsSpace, HUnsafe, HFailed}"
  by (auto simp: health_state_of_def Let_def)

lemma exposure_is_unsafe:
  "c \<in> set stops \<Longrightarrow> c \<in> {ProducerEnabled, PublicJsonrpcExposure, PublicAdminExposure} \<Longrightarrow>
   DiskFloorViolation \<notin> set stops \<Longrightarrow> health_state_of out stops = HUnsafe"
  by (auto simp: health_state_of_def Let_def list_ex_iff)

lemma healthy_needs_evidence:
  assumes "health_state_of out stops = HHealthy"
  shows "stops = [] \<and> \<not> noSeedPeers out \<and> \<not> noPeers out \<and> \<not> noHeadProgress out \<and>
    js_test (Alt (seqs [lit ''block_producer'', Star space, lit '':'', Star space, lit ''false''])
                 (lit ''observer'')) (js_lower out)"
  using assms unfolding health_state_of_def Let_def
  by (auto split: if_splits)

lemma js_test_Alt: "js_test (Alt a b) s \<longleftrightarrow> js_test a s \<or> js_test b s"
  by (simp add: js_test_iff) blast

lemma artifact_text_never_healthy:
  "js_test (lit_i ''artifact'') (js_lower out) \<Longrightarrow> health_state_of out stops \<noteq> HHealthy"
proof
  assume a: "js_test (lit_i ''artifact'') (js_lower out)" and h: "health_state_of out stops = HHealthy"
  from a have "js_test (alts [lit_i ''installing'', lit_i ''docker pull'', lit_i ''artifact'']) (js_lower out)"
    by (simp add: js_test_Alt)
  with h show False unfolding health_state_of_def Let_def by (auto split: if_splits)
qed

lemma stop_criteria_state:
  "health_state_of out stops =
     (if DiskFloorViolation \<in> set stops then HNeedsSpace
      else if set stops \<inter> {ProducerEnabled, PublicJsonrpcExposure, PublicAdminExposure} \<noteq> {} then HUnsafe
      else if stops \<noteq> [] then HFailed else health_state_of out [])"
proof (cases "stops = []")
  case False
  then show ?thesis by (auto simp: health_state_of_def Let_def list_ex_iff)
qed simp

lemma no_criteria_not_unsafe: "health_state_of out [] \<noteq> HUnsafe"
  by (simp add: health_state_of_def Let_def)

lemma lower_char_idem: "lower_char (lower_char c) = lower_char c"
  by (cases c) (simp add: lower_char_code)

lemma js_lower_idem: "js_lower (js_lower s) = js_lower s"
  by (simp add: js_lower_def lower_char_idem)

section \<open>Properties\<close>

text \<open>a stop criterion in the output decides the health state before anything else: a disk floor
  violation means the server needs space, otherwise an enabled producer or a public address means
  unsafe, and any other criterion means failed; a snapshot without one is never unsafe.\<close>

theorem stop_criteria_decide_health:
  "hs_state (parseRemoteHealthOutput out t) =
     (if DiskFloorViolation \<in> set (hs_stopCriteria (parseRemoteHealthOutput out t)) then HNeedsSpace
      else if set (hs_stopCriteria (parseRemoteHealthOutput out t)) \<inter>
              {ProducerEnabled, PublicJsonrpcExposure, PublicAdminExposure} \<noteq> {} then HUnsafe
      else if hs_stopCriteria (parseRemoteHealthOutput out t) \<noteq> [] then HFailed
      else health_state_of (redactRemoteOutput out) []) \<and>
   health_state_of (redactRemoteOutput out) [] \<noteq> HUnsafe"
  using stop_criteria_state [of "redactRemoteOutput out" "stopCriteriaFromOutput (redactRemoteOutput out)"]
    no_criteria_not_unsafe [of "redactRemoteOutput out"]
  by (simp add: parseRemoteHealthOutput_def Let_def)

text \<open>output is reported healthy only when it shows no stop criterion, no missing peers and no stalled
  head, names an observer or a producer that is switched off, and does not mention an artifact; so
  the output of the production-network proof step, which prints its artifact digest, is never
  reported healthy although the code lists its ready marker among the healthy signs.\<close>

theorem healthy_output_shows_an_observer:
  assumes "hs_state (parseRemoteHealthOutput out t) = HHealthy"
  shows "hs_stopCriteria (parseRemoteHealthOutput out t) = [] \<and>
    \<not> noSeedPeers (redactRemoteOutput out) \<and> \<not> noPeers (redactRemoteOutput out) \<and>
    \<not> noHeadProgress (redactRemoteOutput out) \<and>
    js_test (Alt (seqs [lit ''block_producer'', Star space, lit '':'', Star space, lit ''false''])
                 (lit ''observer'')) (js_lower (redactRemoteOutput out)) \<and>
    \<not> js_includes (js_lower (redactRemoteOutput out)) ''artifact''"
proof -
  let ?red = "redactRemoteOutput out"
  have st: "health_state_of ?red (stopCriteriaFromOutput ?red) = HHealthy"
    using assms by (simp add: parseRemoteHealthOutput_def Let_def)
  have "\<not> js_test (lit_i ''artifact'') (js_lower ?red)"
    using artifact_text_never_healthy st by blast
  moreover have "js_lower (js_lower ?red) = js_lower ?red" by (rule js_lower_idem)
  moreover have "js_lower ''artifact'' = ''artifact''" by code_simp
  ultimately have "\<not> js_includes (js_lower ?red) ''artifact''" by (simp add: js_test_lit_i)
  with healthy_needs_evidence [OF st] st show ?thesis
    by (simp add: parseRemoteHealthOutput_def Let_def)
qed

theorem healthy_output_shows_an_observer_witness:
  "hs_state (parseRemoteHealthOutput ''observer up '' ''t'') = HHealthy \<and>
   hs_stopCriteria (parseRemoteHealthOutput ''observer up '' ''t'') = []"
proof -
  have h: "hs_state (parseRemoteHealthOutput ''observer up '' ''t'') = HHealthy" by code_simp
  from healthy_output_shows_an_observer [OF h] h show ?thesis by blast
qed

text \<open>a rollout receipt whose status is not given reports success exactly when no stop reason is left
  after redaction and every node was skipped, has no receipt, or ended its last receipt successfully;
  it has one result per node of the rollout, in the rollout's order.\<close>

theorem rollout_receipt_reports:
  assumes "rx_status i = None"
  shows "(ro_status (createRemoteFleetRolloutReceipt now i) = RoSucceeded \<longleftrightarrow>
      redactRemoteOutput (rx_stopReason i) = [] \<and>
      (\<forall>e \<in> set (rp_entries (rx_rollout i)).
         re_nodeId e \<in> set (rx_skippedNodeIds i) \<or>
         (\<forall>r. receipt_of_node (rx_nodeReceipts i) (re_nodeId e) = Some r \<longrightarrow> rc_status r = RcSucceeded))) \<and>
    map nr_nodeId (ro_nodeResults (createRemoteFleetRolloutReceipt now i)) =
      map re_nodeId (rp_entries (rx_rollout i))"
proof -
  have failed: "nr_status (rollout_node_result i e) = RsFailed \<longleftrightarrow>
      \<not> (re_nodeId e \<in> set (rx_skippedNodeIds i) \<or>
         (\<forall>r. receipt_of_node (rx_nodeReceipts i) (re_nodeId e) = Some r \<longrightarrow> rc_status r = RcSucceeded))" for e
    by (auto simp: rollout_node_result_def Let_def rolloutNodeStatusFromReceipt_def split: option.splits)
  have ids: "map nr_nodeId (map (rollout_node_result i) es) = map re_nodeId es" for es
    by (simp add: rollout_node_result_def Let_def)
  have status: "ro_status (createRemoteFleetRolloutReceipt now i) =
      rollout_status_of i (redactRemoteOutput (rx_stopReason i)) (map (rollout_node_result i) (rp_entries (rx_rollout i)))"
    and results: "ro_nodeResults (createRemoteFleetRolloutReceipt now i) =
      map (rollout_node_result i) (rp_entries (rx_rollout i))"
    by (simp_all add: createRemoteFleetRolloutReceipt_def Let_def)
  have "ro_status (createRemoteFleetRolloutReceipt now i) = RoSucceeded \<longleftrightarrow>
      redactRemoteOutput (rx_stopReason i) = [] \<and>
      (\<forall>e \<in> set (rp_entries (rx_rollout i)). nr_status (rollout_node_result i e) \<noteq> RsFailed)"
    using assms by (auto simp: status rollout_status_of_def list_ex_iff)
  then show ?thesis unfolding results ids failed by blast
qed

theorem rollout_receipt_reports_witness:
  "ro_status (createRemoteFleetRolloutReceipt ''t''
     \<lparr>rx_rollout = sample_rollout, rx_status = None, rx_startedAt = [], rx_completedAt = [],
      rx_nodeReceipts = [], rx_skippedNodeIds = [''b''], rx_stopReason = [], rx_output = []\<rparr>) = RoSucceeded"
proof -
  let ?i = "\<lparr>rx_rollout = sample_rollout, rx_status = None, rx_startedAt = [], rx_completedAt = [],
      rx_nodeReceipts = [], rx_skippedNodeIds = [''b''], rx_stopReason = [], rx_output = []\<rparr>"
  have n: "rx_status ?i = None" by simp
  have "redactRemoteOutput [] = []" by code_simp
  then show ?thesis
    using rollout_receipt_reports [OF n, of "''t''"] by (simp add: receipt_of_node_def)
qed

end
