(* ===== verification/FleetService.thy ===== *)
theory FleetService
  imports FleetHealth
begin

text \<open>
  The main process side, src/electron/lib/remote-node-service.ts: its own confirmation phrase,
  redaction, stop criteria and health parser, the validation of a request that arrives over IPC,
  and the execution of the reviewed steps one after the other.

  The request is what crosses the process boundary, so its fields may be missing: they are
  options, and a missing step flag is \<open>False\<close>. The command runner is an argument; it is told
  the commands run before, so any behaviour of the remote hosts that a run can show is one such
  function. The clock is an argument read through a counter, so every \<open>new Date()\<close> is a tick.
\<close>

section \<open>Requests\<close>

record exec_step =
  xs_phase :: "string option"
  xs_command :: "string option"
  xs_hostMutation :: bool
  xs_chainMutation :: bool
  xs_destructive :: bool

record exec_node =
  xn_id :: "string option"
  xn_network :: "string option"
  xn_role :: "string option"
  xn_connectionRef :: "string option"
  xn_producerEnabled :: bool
  xn_artifactDigest :: "string option"
  xn_bootstrapPolicyId :: "string option"
  xn_proofRef :: "string option"
  xn_publicBootstrapUrl :: "string option"
  xn_image :: "string option"

record exec_plan =
  xp_action :: "string option"
  xp_nodeId :: "string option"
  xp_blocked :: bool
  xp_steps :: "exec_step list"

record exec_request =
  xr_node :: "exec_node option"
  xr_plan :: "exec_plan option"
  xr_confirmation :: "string option"

text \<open>\<open>`${x || ''}`\<close> on an optional string, and an optional field of an optional node.\<close>

definition or_empty :: "string option \<Rightarrow> string" where
  "or_empty o1 = (case o1 of None \<Rightarrow> [] | Some s \<Rightarrow> s)"

definition of_node :: "exec_node option \<Rightarrow> (exec_node \<Rightarrow> string option) \<Rightarrow> string" where
  "of_node n f = (case n of None \<Rightarrow> [] | Some x \<Rightarrow> or_empty (f x))"

definition max_output_bytes :: nat where
  "max_output_bytes = 128 * 1024"

definition max_output_excerpt_chars :: nat where
  "max_output_excerpt_chars = 6000"

section \<open>Kinds of action, trust and phrases\<close>

definition service_isProdnetObserverMutation :: "exec_node option \<Rightarrow> string \<Rightarrow> bool" where
  "service_isProdnetObserverMutation n a \<longleftrightarrow>
     of_node n xn_network = ''mainnet'' \<and>
     (a = ''install-observer'' \<or> a = ''restore-public-bootstrap'' \<or> a = ''start-observer'')"

definition service_confirmationPhrase :: "exec_node \<Rightarrow> string \<Rightarrow> string" where
  "service_confirmationPhrase n a =
     (let base = ''EXECUTE '' @ or_empty (xn_id n) @ '' '' @ or_empty (xn_network n) @ '' '' @ a
      in if service_isProdnetObserverMutation (Some n) a
         then base @ '' PROOF '' @ or_empty (xn_proofRef n) @ '' ARTIFACT '' @ or_empty (xn_artifactDigest n) @
              '' POLICY '' @ or_empty (xn_bootstrapPolicyId n) @ '' OBSERVER_ONLY''
         else if xn_network n = Some ''mainnet'' \<and> a = ''prodnet-observer-proof'' then base @ '' OBSERVER_ONLY''
         else if a = ''rollback'' \<or> a = ''cleanup'' then base @ '' PRESERVE_DB'' else base)"

definition looksLikeRawSshTarget :: "string \<Rightarrow> bool" where
  "looksLikeRawSshTarget v \<longleftrightarrow>
     js_test (lit ''@'') v \<or>
     js_test (seqs [WordB, between 1 3 digit, copies 3 (Seq (lit ''.'') (between 1 3 digit)), WordB]) v"

definition service_isReadOnly :: "string \<Rightarrow> bool" where
  "service_isReadOnly a \<longleftrightarrow> a = ''status'' \<or> a = ''logs'' \<or> a = ''prodnet-observer-proof''"

definition service_isDbPreserving :: "string \<Rightarrow> bool" where
  "service_isDbPreserving a \<longleftrightarrow> a = ''rollback'' \<or> a = ''cleanup''"

definition service_hasPinnedArtifactDigest :: "exec_node option \<Rightarrow> bool" where
  "service_hasPinnedArtifactDigest n \<longleftrightarrow>
     (let digest = of_node n xn_artifactDigest; image = of_node n xn_image
      in js_test digest_re digest \<and> js_includes image (''@'' @ digest))"

definition service_hasProdnetBootstrapPolicy :: "exec_node option \<Rightarrow> bool" where
  "service_hasProdnetBootstrapPolicy n \<longleftrightarrow>
     of_node n xn_bootstrapPolicyId = ''prodnet-public-bootstrap-v1'' \<and>
     js_includes (of_node n xn_publicBootstrapUrl) ''/backups/prodnet/teleno-bootstrap''"

definition service_hasProdnetDryRunProof :: "exec_node option \<Rightarrow> bool" where
  "service_hasProdnetDryRunProof n = js_test proof_ref_re (of_node n xn_proofRef)"

definition stepsAreReadOnly :: "exec_step list \<Rightarrow> bool" where
  "stepsAreReadOnly steps =
     list_all (\<lambda>s. \<not> xs_hostMutation s \<and> \<not> xs_chainMutation s \<and> \<not> xs_destructive s) steps"

definition steps_text :: "exec_step list \<Rightarrow> string" where
  "steps_text steps = js_join nl (map (\<lambda>s. or_empty (xs_command s)) steps)"

definition service_destructiveEvidence :: "string \<Rightarrow> exec_step list \<Rightarrow> bool" where
  "service_destructiveEvidence a steps =
     (let commandText = steps_text steps
      in if \<not> js_includes commandText ''TELENO_DB_PRESERVED'' then False
         else if a = ''rollback'' \<and> \<not> js_includes commandText ''TELENO_ROLLBACK_EVIDENCE'' then False
         else if a = ''cleanup'' \<and> \<not> js_includes commandText ''TELENO_CLEANUP_CANDIDATE'' then False
         else if a = ''cleanup'' \<and>
                 list_ex (\<lambda>line. js_test rm_rf_re line \<and> js_test protected_re line) (js_lines commandText)
         then False
         else True)"

definition service_trustEvidence :: "exec_node option \<Rightarrow> exec_step list \<Rightarrow> bool" where
  "service_trustEvidence n steps \<longleftrightarrow>
     (let digest = of_node n xn_artifactDigest; proof = of_node n xn_proofRef;
          policy = of_node n xn_bootstrapPolicyId; commandText = steps_text steps
      in service_hasPinnedArtifactDigest n \<and> service_hasProdnetBootstrapPolicy n \<and>
         service_hasProdnetDryRunProof n \<and>
         js_includes commandText (''TELENO_PRODNET_PROOF_RECEIPT '' @ proof) \<and>
         js_includes commandText (''TELENO_ARTIFACT_DIGEST_PINNED '' @ digest) \<and>
         js_includes commandText (''TELENO_BOOTSTRAP_POLICY '' @ policy) \<and>
         js_includes commandText ''TELENO_PRODNET_OBSERVER_ONLY'')"

definition service_unsafe_text :: "string \<Rightarrow> bool" where
  "service_unsafe_text actionableLines \<longleftrightarrow>
     js_test placeholder_re actionableLines \<or>
     js_test (seqs [WordB, lit ''rm'', plus space, lit ''-rf'', plus space, lit ''/'', WordB]) actionableLines \<or>
     js_test (seqs [WordB, Grp 1 (alts [lit_i ''mkfs'', lit_i ''fdisk'',
                      seqs [lit_i ''dd'', plus space, lit_i ''if=''], lit_i ''shutdown'', lit_i ''reboot'']),
                    WordB]) actionableLines \<or>
     js_test producer_on_re actionableLines \<or>
     js_test public_publish_re actionableLines \<or>
     js_test public_port_re actionableLines \<or>
     js_test key_material_re actionableLines"

definition service_actionable_lines :: "string \<Rightarrow> string" where
  "service_actionable_lines command =
     js_join nl (filter (\<lambda>line. \<not> js_test container_listen_re line)
                  (filter (\<lambda>line. \<not> js_test inspection_line_re line) (js_lines command)))"

definition service_commandLooksUnsafe :: "string \<Rightarrow> bool" where
  "service_commandLooksUnsafe command = service_unsafe_text (service_actionable_lines command)"

section \<open>validateRemoteExecutionRequest\<close>

definition alias_re :: re where
  "alias_re = seqs [Bol, plus (Cls (\<lambda>c. is_word c \<or> c = CHR ''.'' \<or> c = CHR ''-'')), Eol]"

definition ssh_prefix :: "string \<Rightarrow> string" where
  "ssh_prefix connectionRef = ''ssh '' @ connectionRef @ '' <<'TELENO_REMOTE'' @ sq @ nl"

definition request_action :: "exec_request \<Rightarrow> string" where
  "request_action r = (case xr_plan r of None \<Rightarrow> [] | Some p \<Rightarrow> or_empty (xp_action p))"

definition request_steps :: "exec_request \<Rightarrow> exec_step list" where
  "request_steps r = (case xr_plan r of None \<Rightarrow> [] | Some p \<Rightarrow> xp_steps p)"

definition request_plan_nodeId :: "exec_request \<Rightarrow> string" where
  "request_plan_nodeId r = (case xr_plan r of None \<Rightarrow> [] | Some p \<Rightarrow> or_empty (xp_nodeId p))"

definition request_alias :: "exec_request \<Rightarrow> string" where
  "request_alias r = js_trim (of_node (xr_node r) xn_connectionRef)"

definition request_phrase :: "exec_request \<Rightarrow> string" where
  "request_phrase r =
     (case xr_node r of None \<Rightarrow> []
      | Some n \<Rightarrow> if request_action r = [] then [] else service_confirmationPhrase n (request_action r))"

definition step_errors :: "string \<Rightarrow> exec_step \<Rightarrow> string list" where
  "step_errors connectionRef s =
     (let command = or_empty (xs_command s)
      in push_if (xs_chainMutation s) ''Chain-mutating remote steps are not executable.'' @
         push_if (\<not> js_starts_with command (ssh_prefix connectionRef))
           ''Each executable step must be a generated SSH heredoc for the selected connection reference.'' @
         push_if (js_test placeholder_re command) ''The command plan contains unresolved placeholder values.'' @
         push_if (service_commandLooksUnsafe command)
           ''The command plan contains an unsafe command or exposure pattern.'')"

definition trust_errors :: "exec_request \<Rightarrow> string list" where
  "trust_errors r =
     (let n = xr_node r; a = request_action r; steps = request_steps r
      in if service_isProdnetObserverMutation n a
         then push_if (\<not> service_hasPinnedArtifactDigest n)
                ''Prodnet observer execution requires a reviewed artifact image pinned to the matching sha256 digest.'' @
              push_if (\<not> service_hasProdnetBootstrapPolicy n)
                ''Prodnet observer execution requires the reviewed prodnet public bootstrap trust policy.'' @
              push_if (\<not> service_hasProdnetDryRunProof n)
                ''Prodnet observer execution requires a successful dry-run proof receipt reference.'' @
              push_if (\<not> service_trustEvidence n steps)
                ''Prodnet observer execution requires matching proof, artifact digest, bootstrap policy, and observer-only evidence in the reviewed plan.''
         else push_if (of_node n xn_network \<noteq> ''testnet'' \<and> (\<not> service_isReadOnly a \<or> \<not> stepsAreReadOnly steps))
                ''Confirmed prodnet/mainnet execution is available only for read-only status and logs plans.'')"

definition request_errors :: "exec_request \<Rightarrow> string list" where
  "request_errors r =
     (let n = xr_node r; a = request_action r; steps = request_steps r; connectionRef = request_alias r;
          confirmation = js_trim (or_empty (xr_confirmation r)); expected = request_phrase r
      in push_if (of_node n xn_id = [] \<or> request_plan_nodeId r = [] \<or> of_node n xn_id \<noteq> request_plan_nodeId r)
           ''Selected node and plan node do not match.'' @
         push_if (a = []) ''Remote action is missing.'' @
         push_if (case xr_plan r of None \<Rightarrow> False | Some p \<Rightarrow> xp_blocked p)
           ''The reviewed command plan is blocked by safety gates.'' @
         trust_errors r @
         push_if (of_node n xn_role \<noteq> ''observer'' \<or>
                  (case n of None \<Rightarrow> False | Some x \<Rightarrow> xn_producerEnabled x))
           ''Remote execution requires an observer node with producer disabled.'' @
         push_if (service_isDbPreserving a \<and> \<not> service_destructiveEvidence a steps)
           ''Destructive rollback and cleanup plans must prove prior evidence and DB preservation before execution.'' @
         push_if (connectionRef = [] \<or> \<not> js_test alias_re connectionRef \<or> looksLikeRawSshTarget connectionRef)
           ''Connection reference must be a sanitized local SSH alias, not a raw target.'' @
         push_if (expected = [] \<or> confirmation \<noteq> expected)
           (''Type '' @ dq @ expected @ dq @ '' to execute this one-node reviewed plan.'') @
         push_if (steps = []) ''The command plan has no steps.'' @
         concat (map (step_errors connectionRef) steps))"

definition validateRemoteExecutionRequest :: "exec_request \<Rightarrow> string list" where
  "validateRemoteExecutionRequest r = js_unique (request_errors r)"

section \<open>Redaction, stop criteria and health in the main process\<close>

definition service_redaction_rules :: "replacement list" where
  "service_redaction_rules =
     [(seqs [lit_i ''-----BEGIN '', plus (none_of ''-''), lit_i ''PRIVATE KEY-----'', LazyStar any_char,
             lit_i ''-----END '', plus (none_of ''-''), lit_i ''PRIVATE KEY-----''],
       \<lambda>m c. ''<redacted-private-key>''),
      (seqs [WordB, Grp 1 (alts [
               seqs [lit_i ''token'', opt (one_of ''-_ ''), lit_i ''file''],
               seqs [lit_i ''password'', opt (one_of ''-_ ''), lit_i ''file''],
               seqs [lit_i ''secret'', opt (one_of ''-_ ''), lit_i ''file''],
               seqs [lit_i ''private'', opt (one_of ''-_ ''), lit_i ''key'', opt (one_of ''-_ ''), lit_i ''file'']]),
             Grp 2 separator, Grp 3 (plus value_char)],
       \<lambda>m c. cap 1 c @ cap 2 c @ ''<redacted>''),
      (seqs [WordB, Grp 1 (alts [lit_i ''password'', lit_i ''passwd'', lit_i ''passphrase'', lit_i ''token'',
               lit_i ''secret'', lit_i ''seed'', lit_i ''wif'']),
             Grp 2 separator, Grp 3 (plus value_char)],
       \<lambda>m c. cap 1 c @ cap 2 c @ ''<redacted>''),
      (seqs [WordB, Grp 1 (seqs [lit_i ''private'', opt (one_of ''-_ ''), lit_i ''key'']),
             Grp 2 separator, Grp 3 (plus value_char)],
       \<lambda>m c. cap 1 c @ cap 2 c @ ''<redacted>''),
      (seqs [WordB, Grp 1 (alts [lit_i ''hostname'', lit_i ''host'', lit_i ''server'']),
             Grp 2 separator, Grp 3 (plus value_char)],
       \<lambda>m c. cap 1 c @ cap 2 c @ ''<redacted>''),
      (seqs [WordB, Grp 1 (lit_i ''could not resolve hostname''), plus space,
             plus (Cls (\<lambda>c. \<not> is_space c \<and> c \<noteq> CHR '':''))],
       \<lambda>m c. cap 1 c @ '' <host-redacted>''),
      (seqs [WordB, Grp 1 (Alt (lit ''Linux'') (lit ''Darwin'')), plus space,
             plus (Cls (\<lambda>c. is_word c \<or> c \<in> set ''.-'')), plus space],
       \<lambda>m c. cap 1 c @ '' <host-redacted> ''),
      (seqs [WordB, Grp 1 (plus (Cls (\<lambda>c. is_word c \<or> c \<in> set ''.%+-''))), chr (CHR ''@''),
             Grp 2 (Alt (Seq (copies 3 (Seq (between 1 3 digit) (chr (CHR ''.'')))) (between 1 3 digit))
                        (seqs [plus (Cls (\<lambda>c. is_alpha c \<or> is_digit c \<or> c \<in> set ''.-'')), chr (CHR ''.''),
                               copies 2 (Cls is_alpha), Star (Cls is_alpha)])),
             WordB],
       \<lambda>m c. ''<ssh-target-redacted>''),
      (seqs [Grp 1 (Alt Bol path_lead), Alt (lit ''~'') (lit ''$HOME''), lit ''/'', plus path_char],
       \<lambda>m c. cap 1 c @ ''<remote-path-redacted>''),
      (seqs [Grp 1 (Alt Bol path_lead), lit ''/home/'', plus (Cls (\<lambda>c. is_word c \<or> c \<in> set ''.-'')),
             lit ''/'', plus path_char],
       \<lambda>m c. cap 1 c @ ''<remote-path-redacted>''),
      (seqs [Grp 1 (Alt Bol path_lead), lit ''/Users/'', plus (Cls (\<lambda>c. is_word c \<or> c \<in> set ''.-'')),
             lit ''/'', plus path_char],
       \<lambda>m c. cap 1 c @ ''<local-path-redacted>''),
      (seqs [WordB, between 1 3 digit, copies 3 (Seq (chr (CHR ''.'')) (between 1 3 digit)), WordB],
       \<lambda>m c. ''<ip-redacted>''),
      (seqs [WordB,
             Look (Alt (seqs [copies 3 (Seq (Star hex) (lit '':'')), Star (Seq (Star hex) (lit '':'')),
                              Star hex_colon, WordB])
                       (seqs [Star hex_colon, lit ''::'', Star hex_colon, WordB])),
             between 1 7 (Seq (between 1 4 hex) (lit '':'')), opt (lit '':''), opt (between 1 4 hex), WordB],
       \<lambda>m c. ''<ip-redacted>''),
      (seqs [Grp 1 (alts [lit ''<ip-redacted>'', lit ''localhost'', lit ''[::1]'', lit ''::1'']), lit '':'',
             between 2 5 digit, WordB],
       \<lambda>m c. cap 1 c @ '':<port-redacted>''),
      (seqs [WordB, Grp 1 (alts [lit_i ''port'', lit_i ''p2p'',
               seqs [lit_i ''json'', opt (one_of ''-_ ''), lit_i ''rpc''],
               seqs [lit_i ''admin'', opt (one_of ''-_ ''), lit_i ''listen''], lit_i ''listen'']),
             Grp 2 separator, between 2 5 digit, WordB],
       \<lambda>m c. cap 1 c @ cap 2 c @ ''<port-redacted>''),
      (seqs [WordB, lit_i ''port'', plus space, between 2 5 digit, WordB],
       \<lambda>m c. ''port <port-redacted>''),
      (seqs [lit ''/tcp/'', between 2 5 digit, WordB],
       \<lambda>m c. ''/tcp/<port-redacted>'')]"

definition redactRemoteExecutionOutput :: "string \<Rightarrow> string" where
  "redactRemoteExecutionOutput v = foldl apply_replacement v service_redaction_rules"

definition service_stopCriteria :: "string \<Rightarrow> stop_criterion list" where
  "service_stopCriteria output =
     (let lower = js_lower output
      in js_unique
          (push_if (js_test (seqs [lit ''chain'', opt (one_of ''_ -''), lit ''id mismatch'']) lower) ChainIdMismatch @
           push_if (js_test (alts [seqs [lit ''block_producer'', Star space, lit '':'', Star space, lit ''true''],
                                   lit ''producer enabled'', lit ''producer unexpectedly enabled'']) lower)
             ProducerEnabled @
           push_if (js_test (alts [
               seqs [lit_i ''public json'', opt (one_of ''-_ ''), lit_i ''rpc'', Star dot, lit_i ''exposure''],
               seqs [lit_i ''json'', opt (one_of ''-_ ''), lit_i ''rpc'', Star dot, lit_i ''public exposure''],
               lit_i ''teleno_stop_criteria: public json-rpc'']) lower) PublicJsonrpcExposure @
           push_if (js_test (alts [
               seqs [lit_i ''public admin'', Star dot, lit_i ''exposure''],
               seqs [lit_i ''backup admin'', Star dot, lit_i ''public exposure''],
               lit_i ''teleno_stop_criteria: public json-rpc/admin'']) lower) PublicAdminExposure @
           push_if (js_test (alts [lit ''disk floor violation'', lit ''not enough disk'', lit ''no space left'']) lower)
             DiskFloorViolation @
           push_if (js_test (alts [lit ''restore failed'', lit ''public bootstrap restore failed'']) lower) RestoreFailure @
           push_if (js_test (alts [lit ''digest mismatch'', lit ''sha256 mismatch'', lit ''hash mismatch'']) lower)
             DigestMismatch @
           push_if (js_test (alts [lit ''state merkle mismatch'', lit ''previous state merkle mismatch'']) lower)
             StateMerkleMismatch @
           push_if (js_test (alts [lit ''rollback evidence missing'', lit ''rollback evidence invalid'']) lower)
             RollbackEvidenceMissing @
           push_if (js_test (lit ''cleanup receipt evidence missing'') lower) CleanupEvidenceMissing @
           push_if (js_test (lit ''cleanup state unknown'') lower) CleanupStateUnknown @
           push_if (js_test (lit ''cleanup attempted protected path'') lower) CleanupProtectedPath))"

definition service_noSeedPeers :: "string \<Rightarrow> bool" where
  "service_noSeedPeers redacted =
     js_test (alts [lit_i ''teleno_health_signal no-seed-peers'', lit_i ''started with 0 seed peers'',
       seqs [lit_i ''p2p'', Star dot, lit_i ''0 seed peer'']]) redacted"

definition service_noPeers :: "string \<Rightarrow> bool" where
  "service_noPeers redacted =
     js_test (Alt (lit_i ''teleno_health_signal no-peers'') (lit_i ''peer_count=0'')) redacted"

definition service_noHeadProgress :: "string \<Rightarrow> bool" where
  "service_noHeadProgress redacted = js_test (lit_i ''teleno_health_signal no-head-progress'') redacted"

definition service_headProgress :: "string \<Rightarrow> bool" where
  "service_headProgress redacted =
     js_test (alts [lit_i ''teleno_health_signal head-progress'', lit_i ''head advances'', lit_i ''head progress'']) redacted"

definition service_health_state :: "string \<Rightarrow> stop_criterion list \<Rightarrow> health_state" where
  "service_health_state redacted stopCriteria =
     (let lower = js_lower redacted;
          failureProbe =
            js_replace_all (lit ''connection reset by peer'') (\<lambda>m c. [])
              (js_replace_all (lit ''error=bad address'') (\<lambda>m c. [])
                (js_replace_all (Seq (lit ''failed to connect to peer'') (Star (none_of nl))) (\<lambda>m c. []) lower))
      in if DiskFloorViolation \<in> set stopCriteria then HNeedsSpace
         else if stopCriteria \<noteq> [] then
           (if list_ex (\<lambda>c. c = ProducerEnabled \<or> c = PublicJsonrpcExposure \<or> c = PublicAdminExposure) stopCriteria
            then HUnsafe else HFailed)
         else if js_test (alts [lit_i ''could not resolve hostname'', lit_i ''permission denied'',
                 lit_i ''connection refused'', lit_i ''no route to host'', lit_i ''ssh:'']) lower then HNeedsServer
         else if js_test (alts [lit_i ''not enough disk'', lit_i ''no space left'', lit_i ''disk floor'']) lower
              then HNeedsSpace
         else if js_test (alts [lit_i ''installing'', lit_i ''docker pull'', lit_i ''artifact'']) lower then HInstalling
         else if js_test (alts [lit_i ''restoring'', lit_i ''backup-public-restore'',
                 lit_i ''public bootstrap restore'']) lower then HRestoring
         else if js_test (alts [lit_i ''starting'', lit_i ''docker start'', lit_i ''systemctl start'']) lower then HStarting
         else if service_headProgress redacted \<or>
                 js_test (alts [lit_i ''syncing'', lit_i ''head progress'', lit_i ''head advances'']) lower then HSyncing
         else if js_test (alts [lit ''no such container'', lit ''inactive'', lit ''stopped'', lit ''not running'']) lower
              then HStopped
         else if service_noSeedPeers redacted \<or> service_noPeers redacted \<or> service_noHeadProgress redacted then HDegraded
         else if js_test (alts [lit ''failed'', lit ''error'', lit ''panic'', lit ''segmentation fault'']) failureProbe
              then HFailed
         else if js_test (alts [lit ''teleno_prodnet_proof_ready'', lit ''teleno_node ready'', lit ''healthy'',
                 lit ''running'', lit ''up '']) lower
              then (if js_test (Alt (seqs [lit ''block_producer'', Star space, lit '':'', Star space, lit ''false''])
                                    (lit ''observer'')) lower then HHealthy else HDegraded)
         else if js_trim redacted \<noteq> [] then HDegraded
         else HUnknown)"

definition parseRemoteExecutionHealth :: "string \<Rightarrow> string \<Rightarrow> health_snapshot" where
  "parseRemoteExecutionHealth output checkedAt =
     (let sanitized = redactRemoteExecutionOutput output;
          stopCriteria = service_stopCriteria sanitized;
          state = service_health_state sanitized stopCriteria
      in \<lparr>hs_state = state, hs_checkedAt = checkedAt,
          hs_summary =
            (if stopCriteria \<noteq> [] then ''Stop criteria detected: '' @ js_join '', '' (map stop_str stopCriteria)
             else if service_noSeedPeers sanitized
             then ''The observer is running without configured seed peers. Reconcile observer config and restart.''
             else if service_noPeers sanitized
             then ''The observer is running but has no connected peers yet. Check P2P reachability and seed peers.''
             else if service_noHeadProgress sanitized
             then ''The observer answered JSON-RPC but head did not advance in the sampled window.''
             else ''Remote health state is '' @ health_str state @ ''.''),
          hs_stopCriteria = stopCriteria\<rparr>)"

definition outputExcerpt :: "string \<Rightarrow> string" where
  "outputExcerpt output =
     (let redacted = redactRemoteExecutionOutput output
      in if length redacted > max_output_excerpt_chars then js_slice_last max_output_excerpt_chars redacted
         else redacted)"

definition appendCappedOutput :: "string \<Rightarrow> string \<Rightarrow> string" where
  "appendCappedOutput current chunk =
     (let nxt = current @ chunk
      in if length nxt > max_output_excerpt_chars * 2 then js_slice_last (max_output_excerpt_chars * 2) nxt
         else nxt)"

text \<open>The collector of \<open>defaultRunner\<close> on the chunks a process prints: bytes kept, chunks kept.\<close>

fun collect_chunks :: "nat \<Rightarrow> string list \<Rightarrow> string list" where
  "collect_chunks outputBytes [] = []"
| "collect_chunks outputBytes (chunk # cs) =
     (if outputBytes \<ge> max_output_bytes then collect_chunks outputBytes cs
      else let remaining = max_output_bytes - outputBytes
           in take remaining chunk # collect_chunks (outputBytes + min (length chunk) remaining) cs)"

section \<open>Running the steps\<close>

record run_result =
  rr_chunks :: "string list"
  rr_code :: int
  rr_output :: string

type_synonym runner = "string list \<Rightarrow> string \<Rightarrow> run_result"

record progress_event =
  ev_planId :: string
  ev_nodeId :: string
  ev_network :: string
  ev_action :: string
  ev_summary :: step_summary

record service_receipt =
  sv_id :: string
  sv_planId :: string
  sv_nodeId :: string
  sv_network :: string
  sv_action :: string
  sv_status :: receipt_status
  sv_startedAt :: string
  sv_completedAt :: string
  sv_planStepCount :: nat
  sv_health :: health_snapshot
  sv_steps :: "step_summary list"
  sv_output :: string

record exec_result =
  er_ok :: bool
  er_output :: string
  er_receipt :: service_receipt

text \<open>
  The mutable state of one execution: the clock's counter, the step summaries, the events sent
  to the renderer, the collected output, the flag \<open>ok\<close> and the commands handed to the runner.
\<close>

record run_state =
  es_tick :: nat
  es_summaries :: "step_summary list"
  es_events :: "progress_event list"
  es_outputs :: "string list"
  es_ok :: bool
  es_ran :: "string list"

record run_context =
  cx_clock :: "nat \<Rightarrow> string"
  cx_planId :: string
  cx_receiptId :: string
  cx_request :: exec_request

definition tick :: "run_context \<Rightarrow> run_state \<Rightarrow> string \<times> run_state" where
  "tick cx st = (cx_clock cx (es_tick st), st\<lparr>es_tick := Suc (es_tick st)\<rparr>)"

definition emitStep :: "run_context \<Rightarrow> step_summary \<Rightarrow> run_state \<Rightarrow> run_state" where
  "emitStep cx s st =
     (let r = cx_request cx
      in st\<lparr>es_events := es_events st @
           [\<lparr>ev_planId = cx_planId cx,
             ev_nodeId = js_or (of_node (xr_node r) xn_id) (request_plan_nodeId r),
             ev_network = of_node (xr_node r) xn_network,
             ev_action = request_action r,
             ev_summary = s\<lparr>ss_outputExcerpt := outputExcerpt (ss_outputExcerpt s)\<rparr>\<rparr>]\<rparr>)"

text \<open>\<open>stepSummaries[i] = \<dots>; emitStep(stepSummaries[i])\<close>\<close>

definition set_step :: "run_context \<Rightarrow> nat \<Rightarrow> (step_summary \<Rightarrow> step_summary) \<Rightarrow> run_state \<Rightarrow> run_state" where
  "set_step cx i f st =
     (let s = f (es_summaries st ! i)
      in emitStep cx s (st\<lparr>es_summaries := (es_summaries st)[i := s]\<rparr>))"

definition step_phase :: "exec_step \<Rightarrow> string" where
  "step_phase s = js_or (or_empty (xs_phase s)) ''remote''"

definition createStepSummaries :: "exec_step list \<Rightarrow> step_summary list" where
  "createStepSummaries steps =
     map (\<lambda>(i, s). \<lparr>ss_stepIndex = i, ss_stepCount = length steps, ss_phase = step_phase s,
                    ss_status = StQueued, ss_startedAt = None, ss_completedAt = None,
                    ss_exitCode = None, ss_health = None, ss_outputExcerpt = []\<rparr>)
       (List.enumerate 0 steps)"

definition createReceipt ::
  "run_context \<Rightarrow> receipt_status \<Rightarrow> string \<Rightarrow> string \<Rightarrow> step_summary list \<Rightarrow> string \<Rightarrow> service_receipt" where
  "createReceipt cx status startedAt completedAt summaries out =
     (let r = cx_request cx; output = redactRemoteExecutionOutput out
      in \<lparr>sv_id = cx_receiptId cx, sv_planId = cx_planId cx, sv_nodeId = of_node (xr_node r) xn_id,
          sv_network = of_node (xr_node r) xn_network, sv_action = request_action r, sv_status = status,
          sv_startedAt = startedAt, sv_completedAt = completedAt,
          sv_planStepCount = length (request_steps r),
          sv_health = parseRemoteExecutionHealth output completedAt,
          sv_steps = map (\<lambda>s. s\<lparr>ss_outputExcerpt := outputExcerpt (ss_outputExcerpt s)\<rparr>) summaries,
          sv_output = output\<rparr>)"

text \<open>The callback on each chunk of live output.\<close>

fun feed_chunks :: "run_context \<Rightarrow> nat \<Rightarrow> string list \<Rightarrow> string \<Rightarrow> run_state \<Rightarrow> string \<times> run_state" where
  "feed_chunks cx i [] live st = (live, st)"
| "feed_chunks cx i (c # cs) live st =
     (let live' = appendCappedOutput live c;
          (now, st1) = tick cx st;
          st2 = set_step cx i (\<lambda>s. s\<lparr>ss_status := StRunning,
                  ss_health := Some (parseRemoteExecutionHealth live' now), ss_outputExcerpt := live'\<rparr>) st1
      in feed_chunks cx i cs live' st2)"

text \<open>The loop that marks the remaining steps: \<open>k\<close> of them from index \<open>i\<close>.\<close>

fun skip_steps :: "run_context \<Rightarrow> (step_summary \<Rightarrow> step_summary) \<Rightarrow> nat \<Rightarrow> nat \<Rightarrow> run_state \<Rightarrow> run_state" where
  "skip_steps cx f i 0 st = st"
| "skip_steps cx f i (Suc k) st = skip_steps cx f (Suc i) k (set_step cx i f st)"

definition step_output :: "run_result \<Rightarrow> string \<Rightarrow> string" where
  "step_output res live = js_or (rr_output res) live"

definition run_step ::
  "run_context \<Rightarrow> runner \<Rightarrow> nat \<Rightarrow> exec_step \<Rightarrow> run_state \<Rightarrow> bool \<times> string \<times> run_state" where
  "run_step cx run i s st0 =
     (let (stepStartedAt, st1) = tick cx st0;
          st2 = set_step cx i (\<lambda>x. x\<lparr>ss_status := StRunning, ss_startedAt := Some stepStartedAt,
                  ss_outputExcerpt := []\<rparr>) st1;
          command = or_empty (xs_command s);
          result = run (es_ran st2) command;
          st3 = st2\<lparr>es_ran := es_ran st2 @ [command]\<rparr>;
          (liveOutput, st4) = feed_chunks cx i (rr_chunks result) [] st3;
          (completedAt, st5) = tick cx st4;
          stepOutput = step_output result liveOutput;
          failed = (rr_code result \<noteq> 0 \<or> service_stopCriteria stepOutput \<noteq> []);
          st6 = set_step cx i (\<lambda>x. x\<lparr>ss_status := (if failed then StFailed else StSucceeded),
                  ss_completedAt := Some completedAt, ss_exitCode := Some (rr_code result),
                  ss_health := Some (parseRemoteExecutionHealth stepOutput completedAt),
                  ss_outputExcerpt := stepOutput\<rparr>) st5;
          st7 = st6\<lparr>es_outputs := es_outputs st6 @
                  [''STEP '' @ js_nat (i + 1) @ '' '' @ step_phase s @ '' EXIT '' @ js_int (rr_code result),
                   rr_output result]\<rparr>
      in (failed, completedAt, st7))"

fun run_steps :: "run_context \<Rightarrow> runner \<Rightarrow> nat \<Rightarrow> exec_step list \<Rightarrow> run_state \<Rightarrow> run_state" where
  "run_steps cx run i [] st = st"
| "run_steps cx run i (s # rest_steps) st =
     (let (failed, completedAt, st1) = run_step cx run i s st
      in if failed
         then skip_steps cx (\<lambda>x. x\<lparr>ss_status := StSkipped, ss_completedAt := Some completedAt,
                ss_outputExcerpt := ''Skipped because '' @ step_phase s @ '' did not complete safely.''\<rparr>)
                (Suc i) (length rest_steps) (st1\<lparr>es_ok := False\<rparr>)
         else run_steps cx run (Suc i) rest_steps st1)"

definition blocked_run :: "run_context \<Rightarrow> string list \<Rightarrow> string \<Rightarrow> run_state \<Rightarrow> exec_result \<times> run_state" where
  "blocked_run cx errors startedAt st0 =
     (let output = js_join nl errors;
          st1 = (if es_summaries st0 = [] then st0
                 else let (completedAt, st) = tick cx st0;
                          st' = set_step cx 0 (\<lambda>x. x\<lparr>ss_status := StBlocked, ss_startedAt := Some completedAt,
                                  ss_completedAt := Some completedAt, ss_exitCode := None,
                                  ss_health := Some (parseRemoteExecutionHealth output completedAt),
                                  ss_outputExcerpt := output\<rparr>) st
                      in skip_steps cx (\<lambda>x. x\<lparr>ss_status := StSkipped, ss_completedAt := Some completedAt,
                           ss_outputExcerpt :=
                             ''Skipped because the reviewed command plan was blocked before execution.''\<rparr>)
                           1 (length (es_summaries st0) - 1) st');
          (doneAt, st2) = tick cx st1
      in (\<lparr>er_ok = False, er_output = output,
           er_receipt = createReceipt cx RcBlocked startedAt doneAt (es_summaries st2) output\<rparr>, st2))"

definition executeRemoteCommandPlan :: "run_context \<Rightarrow> runner \<Rightarrow> exec_result \<times> run_state" where
  "executeRemoteCommandPlan cx run =
     (let r = cx_request cx;
          init = \<lparr>es_tick = 0, es_summaries = createStepSummaries (request_steps r), es_events = [],
                  es_outputs = [], es_ok = True, es_ran = []\<rparr>;
          (startedAt, st0) = tick cx init;
          errors = validateRemoteExecutionRequest r
      in if errors \<noteq> [] then blocked_run cx errors startedAt st0
         else
           let st1 = foldl (\<lambda>st s. emitStep cx s st) st0 (es_summaries st0);
               st2 = run_steps cx run 0 (request_steps r) st1;
               output = redactRemoteExecutionOutput (js_trim (js_join nl (es_outputs st2)));
               (doneAt, st3) = tick cx st2
           in (\<lparr>er_ok = es_ok st3, er_output = output,
                er_receipt = createReceipt cx (if es_ok st3 then RcSucceeded else RcFailed) startedAt doneAt
                               (es_summaries st3) output\<rparr>, st3))"

section \<open>The execution as a list of outcomes\<close>

text \<open>
  The specification of a run: a step fails when its exit code is not 0 or its output holds a stop
  criterion; the steps after the first failure are skipped.
\<close>

definition step_fails :: "run_result \<Rightarrow> bool" where
  "step_fails res \<longleftrightarrow>
     rr_code res \<noteq> 0 \<or>
     service_stopCriteria (step_output res (foldl appendCappedOutput [] (rr_chunks res))) \<noteq> []"

fun outcome :: "runner \<Rightarrow> string list \<Rightarrow> string list \<Rightarrow> step_status list" where
  "outcome run hist [] = []"
| "outcome run hist (c # cs) =
     (if step_fails (run hist c) then StFailed # replicate (length cs) StSkipped
      else StSucceeded # outcome run (hist @ [c]) cs)"

definition commands_of :: "exec_step list \<Rightarrow> string list" where
  "commands_of steps = map (\<lambda>s. or_empty (xs_command s)) steps"

definition commands_run :: "step_status list \<Rightarrow> string list \<Rightarrow> string list" where
  "commands_run sts cs = take (length (takeWhile (\<lambda>s. s \<noteq> StSkipped) sts)) cs"

lemma length_outcome [simp]: "length (outcome run hist cs) = length cs"
  by (induction run hist cs rule: outcome.induct) auto

lemma outcome_shape:
  "\<exists>j \<le> length cs. outcome run hist cs =
     replicate j StSucceeded @
     (if j < length cs then StFailed # replicate (length cs - Suc j) StSkipped else [])"
proof (induction cs arbitrary: hist)
  case (Cons c cs)
  show ?case
  proof (cases "step_fails (run hist c)")
    case True
    then show ?thesis by (intro exI [of _ 0]) simp
  next
    case False
    obtain j where "j \<le> length cs" "outcome run (hist @ [c]) cs = replicate j StSucceeded @
       (if j < length cs then StFailed # replicate (length cs - Suc j) StSkipped else [])"
      using Cons.IH by blast
    with False show ?thesis by (intro exI [of _ "Suc j"]) simp
  qed
qed simp

text \<open>What the small operations leave alone.\<close>

lemma tick_fields [simp]:
  "fst (tick cx st) = cx_clock cx (es_tick st)"
  "es_summaries (snd (tick cx st)) = es_summaries st"
  "es_events (snd (tick cx st)) = es_events st"
  "es_outputs (snd (tick cx st)) = es_outputs st"
  "es_ok (snd (tick cx st)) = es_ok st"
  "es_ran (snd (tick cx st)) = es_ran st"
  by (simp_all add: tick_def)

lemma emit_fields [simp]:
  "es_summaries (emitStep cx s st) = es_summaries st"
  "es_outputs (emitStep cx s st) = es_outputs st"
  "es_ok (emitStep cx s st) = es_ok st"
  "es_ran (emitStep cx s st) = es_ran st"
  by (simp_all add: emitStep_def Let_def)

lemma set_step_fields [simp]:
  "es_summaries (set_step cx i f st) = (es_summaries st)[i := f (es_summaries st ! i)]"
  "es_outputs (set_step cx i f st) = es_outputs st"
  "es_ok (set_step cx i f st) = es_ok st"
  "es_ran (set_step cx i f st) = es_ran st"
  by (simp_all add: set_step_def Let_def)

lemma tick_case: "(case tick cx st of (now, st') \<Rightarrow> g now st') = g (cx_clock cx (es_tick st)) (snd (tick cx st))"
  by (simp add: tick_def)

lemma feed_fst: "fst (feed_chunks cx i cs live st) = foldl appendCappedOutput live cs"
  by (induction cs arbitrary: live st) (simp_all add: Let_def tick_case)

lemma feed_fields [simp]:
  "es_outputs (snd (feed_chunks cx i cs live st)) = es_outputs st"
  "es_ok (snd (feed_chunks cx i cs live st)) = es_ok st"
  "es_ran (snd (feed_chunks cx i cs live st)) = es_ran st"
  by (induction cs arbitrary: live st) (simp_all add: Let_def tick_case)

text \<open>Two summary lists that agree except at position \<open>i\<close>.\<close>

definition agree_off :: "nat \<Rightarrow> step_summary list \<Rightarrow> step_summary list \<Rightarrow> bool" where
  "agree_off i xs ys \<longleftrightarrow> length xs = length ys \<and> (\<forall>k. k \<noteq> i \<longrightarrow> xs ! k = ys ! k)"

lemma agree_off_refl [simp]: "agree_off i xs xs"
  by (simp add: agree_off_def)

lemma agree_off_trans: "agree_off i xs ys \<Longrightarrow> agree_off i ys zs \<Longrightarrow> agree_off i xs zs"
  by (simp add: agree_off_def)

lemma agree_off_update [simp]: "agree_off i xs (xs[i := v])"
  by (simp add: agree_off_def)

lemma feed_summaries: "agree_off i (es_summaries st) (es_summaries (snd (feed_chunks cx i cs live st)))"
proof (induction cs arbitrary: live st)
  case (Cons c cs)
  show ?case
    unfolding feed_chunks.simps Let_def
    by (simp only: tick_case) (rule agree_off_trans [OF _ Cons.IH], simp)
qed simp

lemma agree_off_replace: "agree_off i xs ys \<Longrightarrow> i < length xs \<Longrightarrow> ys[i := v] = xs[i := v]"
  by (auto simp: agree_off_def nth_list_update intro!: nth_equalityI)

text \<open>The effect of one step, and of the skipping loop, on the statuses.\<close>

abbreviation statuses :: "run_state \<Rightarrow> step_status list" where
  "statuses st \<equiv> map ss_status (es_summaries st)"

lemma run_step_effect:
  assumes i: "i < length (es_summaries st)" and r: "run_step cx run i s st = (failed, completedAt, st')"
  shows "failed = step_fails (run (es_ran st) (or_empty (xs_command s)))"
    and "es_ran st' = es_ran st @ [or_empty (xs_command s)]"
    and "es_ok st' = es_ok st"
    and "statuses st' = (statuses st)[i := if failed then StFailed else StSucceeded]"
proof -
  let ?cmd = "or_empty (xs_command s)"
  let ?st2 = "set_step cx i (\<lambda>x. x\<lparr>ss_status := StRunning, ss_startedAt := Some (cx_clock cx (es_tick st)),
                  ss_outputExcerpt := []\<rparr>) (snd (tick cx st))"
  let ?st3 = "?st2\<lparr>es_ran := es_ran ?st2 @ [?cmd]\<rparr>"
  let ?res = "run (es_ran st) ?cmd"
  let ?fed = "feed_chunks cx i (rr_chunks ?res) [] ?st3"
  let ?failed = "rr_code ?res \<noteq> 0 \<or> service_stopCriteria (step_output ?res (fst ?fed)) \<noteq> []"
  have agree: "agree_off i (es_summaries st) (es_summaries (snd ?fed))"
    by (rule agree_off_trans [OF _ feed_summaries]) simp
  have failed: "failed = ?failed"
    using r by (auto simp: run_step_def Let_def tick_case split_def)
  then show "failed = step_fails ?res" by (simp add: step_fails_def feed_fst)
  show "es_ran st' = es_ran st @ [?cmd]" "es_ok st' = es_ok st"
    using r by (auto simp: run_step_def Let_def tick_case split_def)
  let ?upd = "\<lambda>x. x\<lparr>ss_status := (if ?failed then StFailed else StSucceeded),
       ss_completedAt := Some completedAt, ss_exitCode := Some (rr_code ?res),
       ss_health := Some (parseRemoteExecutionHealth (step_output ?res (fst ?fed)) completedAt),
       ss_outputExcerpt := step_output ?res (fst ?fed)\<rparr>"
  have v: "es_summaries st' = (es_summaries (snd ?fed))[i := ?upd (es_summaries (snd ?fed) ! i)]"
    using r by (auto simp: run_step_def Let_def tick_case split_def)
  show "statuses st' = (statuses st)[i := if failed then StFailed else StSucceeded]"
    using agree_off_replace [OF agree i, of "?upd (es_summaries (snd ?fed) ! i)"] v failed
    by (simp add: map_update)
qed

lemma skip_effect:
  assumes "i + k = length (es_summaries st)" and "\<And>x. ss_status (f x) = StSkipped"
  shows "statuses (skip_steps cx f i k st) = take i (statuses st) @ replicate k StSkipped"
    and "es_ran (skip_steps cx f i k st) = es_ran st"
    and "es_ok (skip_steps cx f i k st) = es_ok st"
    and "es_outputs (skip_steps cx f i k st) = es_outputs st"
  using assms
proof (induction k arbitrary: i st)
  case (Suc k)
  {
    case 1
    have "take (Suc i) ((statuses st)[i := StSkipped]) = take i (statuses st) @ [StSkipped]"
      using 1 by (simp add: take_Suc_conv_app_nth)
    with 1 Suc(1) [of "Suc i" "set_step cx i f st"] show ?case by (simp add: map_update)
  next
    case 2
    with Suc(2) [of "Suc i" "set_step cx i f st"] show ?case by simp
  next
    case 3
    with Suc(3) [of "Suc i" "set_step cx i f st"] show ?case by simp
  next
    case 4
    with Suc(4) [of "Suc i" "set_step cx i f st"] show ?case by simp
  }
qed simp_all

lemma commands_run_shape:
  "j \<le> length cs \<Longrightarrow>
   commands_run (replicate j StSucceeded @
     (if j < length cs then StFailed # replicate (length cs - Suc j) StSkipped else [])) cs = take (Suc j) cs"
proof -
  assume j: "j \<le> length cs"
  have tw: "takeWhile (\<lambda>s. s \<noteq> StSkipped) (replicate j StSucceeded @ StFailed # replicate m StSkipped) =
      replicate j StSucceeded @ [StFailed]" for m
    by (induction j) (cases m; simp)+
  have "takeWhile (\<lambda>s. s \<noteq> StSkipped) (replicate j StSucceeded) = replicate j StSucceeded"
    by (induction j) simp_all
  with j tw show ?thesis by (auto simp: commands_run_def)
qed

lemma commands_run_Cons_failed: "commands_run (StFailed # replicate k StSkipped) (c # cs) = [c]"
  by (cases k) (simp_all add: commands_run_def)

lemma commands_run_Cons_ok: "commands_run (StSucceeded # sts) (c # cs) = c # commands_run sts cs"
  by (simp add: commands_run_def)

lemma run_steps_effect:
  "i + length steps = length (es_summaries st) \<Longrightarrow>
   statuses (run_steps cx run i steps st) =
     take i (statuses st) @ outcome run (es_ran st) (commands_of steps) \<and>
   es_ran (run_steps cx run i steps st) =
     es_ran st @ commands_run (outcome run (es_ran st) (commands_of steps)) (commands_of steps) \<and>
   (es_ok (run_steps cx run i steps st) \<longleftrightarrow>
     es_ok st \<and> StFailed \<notin> set (outcome run (es_ran st) (commands_of steps)))"
proof (induction steps arbitrary: i st)
  case Nil
  then show ?case by (simp add: commands_of_def commands_run_def)
next
  case (Cons s ss)
  let ?cmd = "or_empty (xs_command s)"
  obtain failed doneAt st' where r: "run_step cx run i s st = (failed, doneAt, st')" by (cases "run_step cx run i s st")
  have i: "i < length (es_summaries st)" using Cons.prems by simp
  note eff = run_step_effect [OF i r]
  have len': "length (es_summaries st') = length (es_summaries st)"
    using eff(4) by (metis length_list_update length_map)
  have tk: "take (Suc i) (statuses st') = take i (statuses st) @ [if failed then StFailed else StSucceeded]"
    using i by (simp add: eff(4) take_Suc_conv_app_nth)
  show ?case
  proof (cases failed)
    case True
    have ln: "Suc i + length ss = length (es_summaries (st'\<lparr>es_ok := False\<rparr>))" using Cons.prems len' by simp
    from True show ?thesis
      using eff tk r
      by (simp add: Let_def skip_effect [OF ln] commands_of_def commands_run_Cons_failed)
  next
    case False
    have ln: "Suc i + length ss = length (es_summaries st')" using Cons.prems len' by simp
    from False show ?thesis
      using eff tk r Cons.IH [OF ln]
      by (simp add: Let_def commands_of_def commands_run_Cons_ok)
  qed
qed

section \<open>The whole execution\<close>

lemma emit_all_fields [simp]:
  "es_summaries (foldl (\<lambda>st s. emitStep cx s st) st ss) = es_summaries st"
  "es_ok (foldl (\<lambda>st s. emitStep cx s st) st ss) = es_ok st"
  "es_ran (foldl (\<lambda>st s. emitStep cx s st) st ss) = es_ran st"
  by (induction ss arbitrary: st) simp_all

lemma length_createStepSummaries [simp]: "length (createStepSummaries steps) = length steps"
  by (simp add: createStepSummaries_def)

lemma receipt_fields [simp]:
  "sv_status (createReceipt cx status at1 at2 ss out) = status"
  "map ss_status (sv_steps (createReceipt cx status at1 at2 ss out)) = map ss_status ss"
  "sv_output (createReceipt cx status at1 at2 ss out) = redactRemoteExecutionOutput out"
  by (simp_all add: createReceipt_def Let_def comp_def)

lemma execute_accepted:
  assumes ok: "validateRemoteExecutionRequest (cx_request cx) = []"
    and ex: "executeRemoteCommandPlan cx run = (res, st)"
  defines "cs \<equiv> commands_of (request_steps (cx_request cx))"
  shows "statuses st = outcome run [] cs \<and>
         es_ran st = commands_run (outcome run [] cs) cs \<and>
         (er_ok res \<longleftrightarrow> StFailed \<notin> set (outcome run [] cs)) \<and>
         sv_status (er_receipt res) = (if er_ok res then RcSucceeded else RcFailed) \<and>
         map ss_status (sv_steps (er_receipt res)) = outcome run [] cs"
proof -
  let ?init = "\<lparr>es_tick = 0, es_summaries = createStepSummaries (request_steps (cx_request cx)), es_events = [],
                  es_outputs = [], es_ok = True, es_ran = []\<rparr>"
  let ?st0 = "snd (tick cx ?init)"
  let ?st1 = "foldl (\<lambda>st s. emitStep cx s st) ?st0 (es_summaries ?st0)"
  let ?st2 = "run_steps cx run 0 (request_steps (cx_request cx)) ?st1"
  have "0 + length (request_steps (cx_request cx)) = length (es_summaries ?st1)" by simp
  note eff = run_steps_effect [OF this, of cx run]
  have st: "st = snd (tick cx ?st2)" and r: "er_ok res = es_ok ?st2"
    "sv_status (er_receipt res) = (if es_ok ?st2 then RcSucceeded else RcFailed)"
    "map ss_status (sv_steps (er_receipt res)) = statuses ?st2"
    using ex ok by (auto simp: executeRemoteCommandPlan_def Let_def tick_case simp del: emit_all_fields)
  show ?thesis using eff by (simp add: st r cs_def)
qed

lemma execute_blocked:
  assumes bad: "validateRemoteExecutionRequest (cx_request cx) \<noteq> []"
    and ex: "executeRemoteCommandPlan cx run = (res, st)"
  defines "n \<equiv> length (request_steps (cx_request cx))"
  shows "es_ran st = [] \<and> \<not> er_ok res \<and> sv_status (er_receipt res) = RcBlocked \<and>
         er_output res = js_join nl (validateRemoteExecutionRequest (cx_request cx)) \<and>
         statuses st = (if n = 0 then [] else StBlocked # replicate (n - 1) StSkipped)"
proof (cases "request_steps (cx_request cx) = []")
  case True
  with bad ex show ?thesis
    by (auto simp: executeRemoteCommandPlan_def blocked_run_def Let_def tick_case n_def createStepSummaries_def)
next
  case False
  let ?init = "\<lparr>es_tick = 0, es_summaries = createStepSummaries (request_steps (cx_request cx)), es_events = [],
                  es_outputs = [], es_ok = True, es_ran = []\<rparr>"
  have ne: "createStepSummaries (request_steps (cx_request cx)) \<noteq> []"
    using False by (metis length_0_conv length_createStepSummaries)
  obtain f g at0 where st: "es_ran st = es_ran (skip_steps cx f 1 (n - 1) (set_step cx 0 g (snd (tick cx at0))))"
      "statuses st = statuses (skip_steps cx f 1 (n - 1) (set_step cx 0 g (snd (tick cx at0))))"
    and f: "\<And>x. ss_status (f x) = StSkipped" and g: "\<And>x. ss_status (g x) = StBlocked"
    and at0: "at0 = snd (tick cx ?init)"
    and r: "\<not> er_ok res" "sv_status (er_receipt res) = RcBlocked"
      "er_output res = js_join nl (validateRemoteExecutionRequest (cx_request cx))"
  proof -
    let ?at0 = "snd (tick cx ?init)"
    let ?now = "cx_clock cx (es_tick ?at0)"
    let ?output = "js_join nl (validateRemoteExecutionRequest (cx_request cx))"
    show ?thesis
    proof (rule that [of "\<lambda>x. x\<lparr>ss_status := StSkipped, ss_completedAt := Some ?now,
            ss_outputExcerpt := ''Skipped because the reviewed command plan was blocked before execution.''\<rparr>"
          "\<lambda>x. x\<lparr>ss_status := StBlocked, ss_startedAt := Some ?now, ss_completedAt := Some ?now,
            ss_exitCode := None, ss_health := Some (parseRemoteExecutionHealth ?output ?now),
            ss_outputExcerpt := ?output\<rparr>" ?at0])
    qed (use bad ex ne in \<open>auto simp: executeRemoteCommandPlan_def blocked_run_def Let_def tick_case n_def\<close>)
  qed
  have len: "1 + (n - 1) = length (es_summaries (set_step cx 0 g (snd (tick cx at0))))"
    using False by (simp add: at0 n_def Suc_leI)
  have "take 1 (statuses (set_step cx 0 g (snd (tick cx at0)))) = [StBlocked]"
    using ne g by (cases "createStepSummaries (request_steps (cx_request cx))") (simp_all add: at0)
  then show ?thesis
    using skip_effect [OF len f] r st False by (simp add: at0 n_def)
qed

section \<open>Bounds on what is kept and sent\<close>

lemma length_slice_last: "length (js_slice_last n s) \<le> n"
  by (simp add: js_slice_last_def)

lemma length_outputExcerpt: "length (outputExcerpt s) \<le> max_output_excerpt_chars"
  by (simp add: outputExcerpt_def Let_def length_slice_last)

lemma length_appendCapped: "length (appendCappedOutput cur chunk) \<le> max_output_excerpt_chars * 2"
  by (auto simp: appendCappedOutput_def Let_def length_slice_last simp del: length_append)

lemma collected_prefix: "concat (collect_chunks n cs) = take (max_output_bytes - n) (concat cs)"
proof (induction n cs rule: collect_chunks.induct)
  case (2 n chunk cs)
  show ?case
  proof (cases "n \<ge> max_output_bytes")
    case True
    with 2(1) show ?thesis by simp
  next
    case False
    have "max_output_bytes - (n + min (length chunk) (max_output_bytes - n)) = max_output_bytes - n - length chunk"
      by simp
    with False 2(2) show ?thesis by (simp add: Let_def)
  qed
qed simp

text \<open>Every event shows the renderer a redacted excerpt.\<close>

definition excerpts_only :: "run_state \<Rightarrow> bool" where
  "excerpts_only st \<longleftrightarrow> (\<forall>e \<in> set (es_events st). \<exists>x. ss_outputExcerpt (ev_summary e) = outputExcerpt x)"

lemma excerpts_tick [simp]: "excerpts_only (snd (tick cx st)) = excerpts_only st"
  by (simp add: excerpts_only_def)

lemma excerpts_emit: "excerpts_only st \<Longrightarrow> excerpts_only (emitStep cx s st)"
  by (auto simp: excerpts_only_def emitStep_def Let_def)

lemma excerpts_emit_all: "excerpts_only st \<Longrightarrow> excerpts_only (foldl (\<lambda>st s. emitStep cx s st) st ss)"
  by (induction ss arbitrary: st) (simp_all add: excerpts_emit)

lemma excerpts_updates [simp]:
  "excerpts_only (st\<lparr>es_summaries := a\<rparr>) = excerpts_only st"
  "excerpts_only (st\<lparr>es_ran := b\<rparr>) = excerpts_only st"
  "excerpts_only (st\<lparr>es_ok := c\<rparr>) = excerpts_only st"
  "excerpts_only (st\<lparr>es_outputs := d\<rparr>) = excerpts_only st"
  by (simp_all add: excerpts_only_def)

lemma excerpts_set_step: "excerpts_only st \<Longrightarrow> excerpts_only (set_step cx i f st)"
  by (simp add: set_step_def Let_def excerpts_emit)

lemma excerpts_feed: "excerpts_only st \<Longrightarrow> excerpts_only (snd (feed_chunks cx i cs live st))"
  by (induction cs arbitrary: live st) (simp_all add: Let_def tick_case excerpts_set_step)

lemma excerpts_skip: "excerpts_only st \<Longrightarrow> excerpts_only (skip_steps cx f i k st)"
  by (induction k arbitrary: i st) (simp_all add: excerpts_set_step)

lemma excerpts_run_step:
  "run_step cx run i s st = (failed, doneAt, st') \<Longrightarrow> excerpts_only st \<Longrightarrow> excerpts_only st'"
  by (auto simp: run_step_def Let_def tick_case split_def intro!: excerpts_set_step excerpts_feed)

lemma excerpts_run_steps: "excerpts_only st \<Longrightarrow> excerpts_only (run_steps cx run i steps st)"
proof (induction steps arbitrary: i st)
  case (Cons s ss)
  obtain failed doneAt st' where r: "run_step cx run i s st = (failed, doneAt, st')" by (cases "run_step cx run i s st")
  from Cons.IH [OF excerpts_run_step [OF r Cons.prems]] excerpts_run_step [OF r Cons.prems] r
  show ?case by (simp add: Let_def excerpts_skip)
qed simp

lemma excerpts_execute: "excerpts_only (snd (executeRemoteCommandPlan cx run))"
  by (auto simp: executeRemoteCommandPlan_def blocked_run_def Let_def tick_case
      intro!: excerpts_run_steps excerpts_emit_all excerpts_skip excerpts_set_step
      simp: excerpts_only_def [of "\<lparr>es_tick = 0, es_summaries = ss, es_events = [],
                  es_outputs = [], es_ok = True, es_ran = []\<rparr>" for ss])

section \<open>What an accepted request is\<close>

definition request_conditions :: "exec_request \<Rightarrow> bool" where
  "request_conditions r \<longleftrightarrow>
     (let n = xr_node r; a = request_action r; steps = request_steps r; connectionRef = request_alias r
      in of_node n xn_id \<noteq> [] \<and> of_node n xn_id = request_plan_nodeId r \<and> a \<noteq> [] \<and>
         (\<forall>p. xr_plan r = Some p \<longrightarrow> \<not> xp_blocked p) \<and>
         (if service_isProdnetObserverMutation n a then service_trustEvidence n steps
          else of_node n xn_network = ''testnet'' \<or> service_isReadOnly a \<and> stepsAreReadOnly steps) \<and>
         of_node n xn_role = ''observer'' \<and> (\<forall>x. n = Some x \<longrightarrow> \<not> xn_producerEnabled x) \<and>
         (service_isDbPreserving a \<longrightarrow> service_destructiveEvidence a steps) \<and>
         connectionRef \<noteq> [] \<and> js_test alias_re connectionRef \<and> \<not> looksLikeRawSshTarget connectionRef \<and>
         request_phrase r \<noteq> [] \<and> js_trim (or_empty (xr_confirmation r)) = request_phrase r \<and>
         steps \<noteq> [] \<and>
         (\<forall>s \<in> set steps. \<not> xs_chainMutation s \<and>
            js_starts_with (or_empty (xs_command s)) (ssh_prefix connectionRef) \<and>
            \<not> js_test placeholder_re (or_empty (xs_command s)) \<and>
            \<not> service_commandLooksUnsafe (or_empty (xs_command s))))"

lemma service_evidence_implies_trust:
  "service_trustEvidence n steps \<Longrightarrow>
   service_hasPinnedArtifactDigest n \<and> service_hasProdnetBootstrapPolicy n \<and> service_hasProdnetDryRunProof n"
  by (simp add: service_trustEvidence_def Let_def)

lemma trust_errors_Nil_iff:
  "trust_errors r = [] \<longleftrightarrow>
   (if service_isProdnetObserverMutation (xr_node r) (request_action r)
    then service_trustEvidence (xr_node r) (request_steps r)
    else of_node (xr_node r) xn_network = ''testnet'' \<or>
         service_isReadOnly (request_action r) \<and> stepsAreReadOnly (request_steps r))"
  using service_evidence_implies_trust [of "xr_node r" "request_steps r"]
  by (auto simp: trust_errors_def Let_def)

lemma step_errors_Nil_iff:
  "step_errors connectionRef s = [] \<longleftrightarrow>
   \<not> xs_chainMutation s \<and> js_starts_with (or_empty (xs_command s)) (ssh_prefix connectionRef) \<and>
   \<not> js_test placeholder_re (or_empty (xs_command s)) \<and> \<not> service_commandLooksUnsafe (or_empty (xs_command s))"
  by (simp add: step_errors_def Let_def)

lemma accepted_iff: "validateRemoteExecutionRequest r = [] \<longleftrightarrow> request_conditions r"
  unfolding validateRemoteExecutionRequest_def js_unique_Nil_iff request_errors_def request_conditions_def Let_def
    append_is_Nil_conv push_if_Nil trust_errors_Nil_iff concat_eq_Nil_conv
  by (cases "xr_plan r"; cases "xr_node r") (auto simp: step_errors_Nil_iff)

section \<open>The main process gate meets the gate contract\<close>

definition service_accepts :: "exec_request \<Rightarrow> bool" where
  "service_accepts r \<longleftrightarrow> validateRemoteExecutionRequest r = []"

definition service_network :: "exec_request \<Rightarrow> string" where
  "service_network r = of_node (xr_node r) xn_network"

definition service_flags :: "exec_request \<Rightarrow> step_flags list" where
  "service_flags r =
     map (\<lambda>s. (xs_hostMutation s, xs_chainMutation s, xs_destructive s)) (request_steps r)"

definition service_typed :: "exec_request \<Rightarrow> string" where
  "service_typed r = or_empty (xr_confirmation r)"

definition service_trusted :: "exec_request \<Rightarrow> bool" where
  "service_trusted r = service_trustEvidence (xr_node r) (request_steps r)"

definition service_producing :: "exec_request \<Rightarrow> bool" where
  "service_producing r \<longleftrightarrow>
     of_node (xr_node r) xn_role \<noteq> ''observer'' \<or>
     (case xr_node r of None \<Rightarrow> False | Some n \<Rightarrow> xn_producerEnabled n)"

lemmas service_views = service_accepts_def service_network_def service_flags_def service_typed_def
  service_trusted_def service_producing_def

interpretation main_process: safety_gate service_accepts service_network request_action service_flags
  service_typed request_phrase service_trusted service_producing
proof
  fix r
  assume "service_accepts r"
  then have ok: "request_conditions r" by (simp add: service_accepts_def accepted_iff)
  show "js_trim (service_typed r) = request_phrase r"
    using ok by (simp add: service_views request_conditions_def Let_def)
  show "list_all (\<lambda>f. \<not> mutates_chain f) (service_flags r)"
    using ok by (auto simp: service_views request_conditions_def Let_def list_all_iff flag_defs)
  show "\<not> service_producing r"
    using ok by (auto simp: service_views request_conditions_def Let_def split: option.splits)
  assume net: "service_network r \<noteq> ''testnet''"
  show "(request_action r \<in> set read_only_words \<and>
         list_all (\<lambda>f. \<not> mutates_host f \<and> \<not> is_destructive f) (service_flags r)) \<or>
      (service_network r = ''mainnet'' \<and> request_action r \<in> set observer_words \<and> service_trusted r)"
  proof (cases "service_isProdnetObserverMutation (xr_node r) (request_action r)")
    case True
    with ok show ?thesis
      by (auto simp: service_views request_conditions_def Let_def service_isProdnetObserverMutation_def
          observer_words_def)
  next
    case False
    with ok net have "service_isReadOnly (request_action r)" "stepsAreReadOnly (request_steps r)"
      by (simp_all add: service_views request_conditions_def Let_def)
    then show ?thesis
      by (auto simp: service_views service_isReadOnly_def read_only_words_def stepsAreReadOnly_def
          list_all_iff flag_defs)
  qed
qed

text \<open>The ssh alias an accepted request names.\<close>

lemma alias_re_iff:
  "js_test alias_re s \<longleftrightarrow> s \<noteq> [] \<and> list_all (\<lambda>c. is_word c \<or> c = CHR ''.'' \<or> c = CHR ''-'') s"
  by (simp add: alias_re_def js_test_all_plus list_all_iff)

lemma accepted_alias:
  "service_accepts r \<Longrightarrow> request_alias r \<noteq> [] \<and>
   list_all (\<lambda>c. is_word c \<or> c = CHR ''.'' \<or> c = CHR ''-'') (request_alias r)"
  by (simp add: service_accepts_def accepted_iff request_conditions_def Let_def alias_re_iff)

section \<open>Properties\<close>

definition sample_step :: exec_step where
  "sample_step = \<lparr>xs_phase = Some ''runtime'', xs_command = Some (ssh_prefix ''h'' @ ''docker stop''),
     xs_hostMutation = True, xs_chainMutation = False, xs_destructive = False\<rparr>"

definition sample_request :: "exec_step list \<Rightarrow> exec_request" where
  "sample_request steps =
     \<lparr>xr_node = Some \<lparr>xn_id = Some ''a'', xn_network = Some ''testnet'', xn_role = Some ''observer'',
         xn_connectionRef = Some ''h'', xn_producerEnabled = False, xn_artifactDigest = None,
         xn_bootstrapPolicyId = None, xn_proofRef = None, xn_publicBootstrapUrl = None, xn_image = None\<rparr>,
      xr_plan = Some \<lparr>xp_action = Some ''stop'', xp_nodeId = Some ''a'', xp_blocked = False, xp_steps = steps\<rparr>,
      xr_confirmation = Some ''EXECUTE a testnet stop''\<rparr>"

definition sample_context :: "exec_request \<Rightarrow> run_context" where
  "sample_context r = \<lparr>cx_clock = (\<lambda>k. ''t''), cx_planId = ''p'', cx_receiptId = ''r'', cx_request = r\<rparr>"

lemma sample_accepted: "validateRemoteExecutionRequest (sample_request [sample_step, sample_step]) = []"
  by code_simp

text \<open>A host on which every command but the first fails.\<close>

definition sample_runner :: runner where
  "sample_runner hist c = \<lparr>rr_chunks = [], rr_code = (if hist = [] then 0 else 1), rr_output = ''ok''\<rparr>"

text \<open>C1: an accepted request runs its commands in order up to and including the first that exits
  non-zero or prints a stop criterion, and nothing after it; the step statuses, the receipt and the
  verdict \<open>ok\<close> are those of that outcome, whatever the hosts do.\<close>

theorem execution_follows_outcomes:
  assumes "validateRemoteExecutionRequest (cx_request cx) = []"
    and "executeRemoteCommandPlan cx run = (res, st)"
    and "cs = commands_of (request_steps (cx_request cx))"
  shows "\<exists>j \<le> length cs.
    outcome run [] cs = replicate j StSucceeded @
      (if j < length cs then StFailed # replicate (length cs - Suc j) StSkipped else []) \<and>
    es_ran st = take (Suc j) cs \<and>
    statuses st = outcome run [] cs \<and>
    map ss_status (sv_steps (er_receipt res)) = outcome run [] cs \<and>
    (er_ok res \<longleftrightarrow> j = length cs) \<and>
    sv_status (er_receipt res) = (if er_ok res then RcSucceeded else RcFailed)"
proof -
  note eff = execute_accepted [OF assms(1,2), folded assms(3)]
  obtain j where j: "j \<le> length cs"
    "outcome run [] cs = replicate j StSucceeded @
      (if j < length cs then StFailed # replicate (length cs - Suc j) StSkipped else [])"
    using outcome_shape by blast
  have ran: "commands_run (outcome run [] cs) cs = take (Suc j) cs"
    using commands_run_shape [OF j(1)] j(2) by simp
  have ok: "StFailed \<notin> set (outcome run [] cs) \<longleftrightarrow> j = length cs"
    using j by auto
  show ?thesis using eff j ran ok by (intro exI [of _ j]) simp
qed

theorem execution_follows_outcomes_witness:
  "es_ran (snd (executeRemoteCommandPlan (sample_context (sample_request [sample_step, sample_step])) sample_runner)) \<noteq> [] \<and>
   \<not> er_ok (fst (executeRemoteCommandPlan (sample_context (sample_request [sample_step, sample_step])) sample_runner))"
proof -
  let ?cx = "sample_context (sample_request [sample_step, sample_step])"
  obtain res st where ex: "executeRemoteCommandPlan ?cx sample_runner = (res, st)"
    by (cases "executeRemoteCommandPlan ?cx sample_runner")
  have ok: "validateRemoteExecutionRequest (cx_request ?cx) = []" using sample_accepted by (simp add: sample_context_def)
  let ?cs = "commands_of (request_steps (cx_request ?cx))"
  have cs: "?cs = [ssh_prefix ''h'' @ ''docker stop'', ssh_prefix ''h'' @ ''docker stop'']"
    by (simp add: sample_context_def sample_request_def request_steps_def commands_of_def sample_step_def or_empty_def)
  have quiet: "service_stopCriteria ''ok'' = []" by code_simp
  have "outcome sample_runner [] ?cs = [StSucceeded, StFailed]"
    unfolding cs by (simp add: step_fails_def sample_runner_def step_output_def js_or_def quiet)
  with execution_follows_outcomes [OF ok ex refl] show ?thesis by (auto simp: ex cs)
qed

text \<open>C29: a request that fails validation runs nothing: no command reaches the runner, the result is not
  ok, its receipt is blocked and lists the first step as blocked and the others as skipped, and the
  output is the list of reasons.\<close>

theorem rejected_request_runs_nothing:
  assumes "validateRemoteExecutionRequest (cx_request cx) \<noteq> []"
    and "executeRemoteCommandPlan cx run = (res, st)"
  shows "es_ran st = [] \<and> \<not> er_ok res \<and> sv_status (er_receipt res) = RcBlocked \<and>
    er_output res = js_join nl (validateRemoteExecutionRequest (cx_request cx)) \<and>
    statuses st = (if request_steps (cx_request cx) = [] then []
                   else StBlocked # replicate (length (request_steps (cx_request cx)) - 1) StSkipped)"
  using execute_blocked [OF assms] by simp

theorem rejected_request_runs_nothing_witness:
  "es_ran (snd (executeRemoteCommandPlan (sample_context (sample_request [])) sample_runner)) = []"
proof -
  let ?cx = "sample_context (sample_request [])"
  obtain res st where ex: "executeRemoteCommandPlan ?cx sample_runner = (res, st)"
    by (cases "executeRemoteCommandPlan ?cx sample_runner")
  have "validateRemoteExecutionRequest (sample_request []) \<noteq> []" by code_simp
  then have "validateRemoteExecutionRequest (cx_request ?cx) \<noteq> []" by (simp add: sample_context_def)
  from rejected_request_runs_nothing [OF this ex] show ?thesis by (simp add: ex)
qed

text \<open>what an execution shows and keeps is bounded and redacted: every progress event carries the
  redacted end of an output of at most 6000 characters, a live output is cut to its last 12000, and
  the runner's collector keeps exactly the first 128 KiB of what a command prints.\<close>

theorem output_is_bounded:
  "(\<forall>e \<in> set (es_events (snd (executeRemoteCommandPlan cx run))).
      \<exists>x. ss_outputExcerpt (ev_summary e) = js_slice_last 6000 (redactRemoteExecutionOutput x)) \<and>
   length (appendCappedOutput current chunk) \<le> 12000 \<and>
   concat (collect_chunks 0 chunks) = take 131072 (concat chunks)"
proof -
  have "outputExcerpt x = js_slice_last 6000 (redactRemoteExecutionOutput x)" for x
    by (simp add: outputExcerpt_def Let_def js_slice_last_def max_output_excerpt_chars_def)
  then show ?thesis
    using excerpts_execute [of cx run] length_appendCapped [of current chunk] collected_prefix [of 0 chunks]
    by (auto simp: excerpts_only_def max_output_excerpt_chars_def max_output_bytes_def)
qed

theorem output_is_bounded_witness:
  "concat (collect_chunks 0 [''ab'', ''c'']) = ''abc''"
  using output_is_bounded [of "sample_context (sample_request [])" sample_runner "[]" "[]" "[''ab'', ''c'']"]
  by simp

text \<open>the main process accepts a request only for an observer reached by a plain ssh alias of letters,
  digits, dots, dashes and underscores, with at least one step, every step being an ssh
  here-document to that alias without placeholder or chain mutation, and the exact phrase typed.\<close>

theorem accepted_request_shape:
  assumes "validateRemoteExecutionRequest r = []"
  shows "request_alias r \<noteq> [] \<and>
    list_all (\<lambda>c. is_word c \<or> c = CHR ''.'' \<or> c = CHR ''-'') (request_alias r) \<and>
    of_node (xr_node r) xn_role = ''observer'' \<and> request_steps r \<noteq> [] \<and>
    js_trim (or_empty (xr_confirmation r)) = request_phrase r \<and>
    (\<forall>s \<in> set (request_steps r). \<not> xs_chainMutation s \<and>
       js_starts_with (or_empty (xs_command s)) (ssh_prefix (request_alias r)) \<and>
       \<not> js_test placeholder_re (or_empty (xs_command s)))"
proof -
  have "request_conditions r" using assms by (simp only: accepted_iff)
  note c = this [unfolded request_conditions_def Let_def]
  have "service_accepts r" using assms by (simp only: service_accepts_def)
  note a = accepted_alias [OF this]
  show ?thesis by (intro conjI ballI; use c a in blast)
qed

theorem accepted_request_shape_witness:
  "request_alias (sample_request [sample_step, sample_step]) = ''h'' \<and>
   js_starts_with (or_empty (xs_command sample_step)) (ssh_prefix ''h'')"
proof -
  have a: "request_alias (sample_request [sample_step, sample_step]) = ''h''" by code_simp
  have "sample_step \<in> set (request_steps (sample_request [sample_step, sample_step]))"
    by (simp add: request_steps_def sample_request_def)
  with accepted_request_shape [OF sample_accepted] a show ?thesis by auto
qed

text \<open>C4: for a node off testnet the main process accepts no stop, restart, upgrade, rollback or cleanup,
  and a step that changes the host only in a mainnet observer action with the trust evidence in the
  commands; on a custom network it accepts only steps without effect.\<close>

theorem main_process_protects_mainnet:
  assumes ok: "validateRemoteExecutionRequest r = []" and net: "of_node (xr_node r) xn_network \<noteq> ''testnet''"
  shows "request_action r \<notin> {''stop'', ''restart'', ''upgrade'', ''rollback'', ''cleanup''} \<and>
    (\<forall>s \<in> set (request_steps r). xs_hostMutation s \<or> xs_destructive s \<longrightarrow>
       of_node (xr_node r) xn_network = ''mainnet'' \<and>
       request_action r \<in> {''install-observer'', ''restore-public-bootstrap'', ''start-observer''} \<and>
       service_trustEvidence (xr_node r) (request_steps r))"
proof -
  have acc: "service_accepts r" and off: "service_network r \<noteq> ''testnet''"
    using ok net by (simp_all add: service_views)
  have "of_node (xr_node r) xn_network = ''mainnet'' \<and> request_action r \<in> set observer_words \<and>
       service_trustEvidence (xr_node r) (request_steps r)"
    if s: "s \<in> set (request_steps r)" and m: "xs_hostMutation s \<or> xs_destructive s" for s
  proof -
    let ?f = "(xs_hostMutation s, xs_chainMutation s, xs_destructive s)"
    have "?f \<in> set (service_flags r)" using s by (auto simp: service_flags_def)
    moreover have "mutates_host ?f \<or> is_destructive ?f" using m by (simp add: flag_defs)
    ultimately show ?thesis
      using main_process.host_changes_are_trusted [OF acc off] by (simp add: service_views)
  qed
  then show ?thesis
    using main_process.off_testnet_actions [OF acc off] by (auto simp: observer_words_def)
qed

definition sample_status_request :: exec_request where
  "sample_status_request =
     \<lparr>xr_node = Some \<lparr>xn_id = Some ''a'', xn_network = Some ''custom'', xn_role = Some ''observer'',
         xn_connectionRef = Some ''h'', xn_producerEnabled = False, xn_artifactDigest = None,
         xn_bootstrapPolicyId = None, xn_proofRef = None, xn_publicBootstrapUrl = None, xn_image = None\<rparr>,
      xr_plan = Some \<lparr>xp_action = Some ''status'', xp_nodeId = Some ''a'', xp_blocked = False,
         xp_steps = [\<lparr>xs_phase = None, xs_command = Some (ssh_prefix ''h'' @ ''df''),
           xs_hostMutation = False, xs_chainMutation = False, xs_destructive = False\<rparr>]\<rparr>,
      xr_confirmation = Some ''EXECUTE a custom status''\<rparr>"

theorem main_process_protects_mainnet_witness:
  "request_action sample_status_request = ''status'' \<and>
   request_action sample_status_request \<notin> {''stop'', ''restart'', ''upgrade'', ''rollback'', ''cleanup''}"
proof -
  have ok: "validateRemoteExecutionRequest sample_status_request = []" by code_simp
  have net: "of_node (xr_node sample_status_request) xn_network \<noteq> ''testnet''" by code_simp
  show ?thesis using main_process_protects_mainnet [OF ok net] by (simp add: request_action_def sample_status_request_def or_empty_def)
qed

text \<open>but the main process does not ask that a command end with its here-document: it accepts a step
  that goes on with a command for the local shell.\<close>

definition escaping_request :: exec_request where
  "escaping_request = sample_request
     [sample_step\<lparr>xs_command := Some (ssh_prefix ''h'' @ ''df'' @ nl @ here_tag @ nl @ ''local'')\<rparr>]"

theorem accepted_request_can_run_locally:
  "validateRemoteExecutionRequest escaping_request = [] \<and>
   map (\<lambda>s. local_rest (or_empty (xs_command s))) (request_steps escaping_request) = [[''local'']]"
  by (intro conjI; code_simp)

text \<open>The request the renderer sends for a reviewed plan of a node.\<close>

definition step_over_ipc :: "command_step \<Rightarrow> exec_step" where
  "step_over_ipc s =
     \<lparr>xs_phase = Some (phase_str (cs_phase s)), xs_command = Some (cs_command s),
      xs_hostMutation = cs_hostMutation s, xs_chainMutation = cs_chainMutation s,
      xs_destructive = cs_destructive s\<rparr>"

definition node_over_ipc :: "fleet_node \<Rightarrow> exec_node" where
  "node_over_ipc n =
     \<lparr>xn_id = Some (n_id n), xn_network = Some (network_str (n_network n)),
      xn_role = Some (role_str (n_role n)), xn_connectionRef = Some (n_connectionRef n),
      xn_producerEnabled = pr_enabled (n_producer n),
      xn_artifactDigest = Some (tr_artifactDigest (n_trust n)),
      xn_bootstrapPolicyId = Some (tr_bootstrapPolicyId (n_trust n)),
      xn_proofRef = Some (tr_prodnetObserverProofRef (n_trust n)),
      xn_publicBootstrapUrl = Some (bk_publicBootstrapUrl (n_backup n)),
      xn_image = Some (rt_image (n_runtime n))\<rparr>"

definition request_over_ipc :: "fleet_node \<Rightarrow> command_plan \<Rightarrow> string \<Rightarrow> exec_request" where
  "request_over_ipc n plan typed =
     \<lparr>xr_node = Some (node_over_ipc n),
      xr_plan = Some \<lparr>xp_action = Some (action_str (cp_action plan)), xp_nodeId = Some (cp_nodeId plan),
        xp_blocked = cp_blocked plan, xp_steps = map step_over_ipc (cp_steps plan)\<rparr>,
      xr_confirmation = Some typed\<rparr>"

lemma or_empty_Some [simp]: "or_empty (Some s) = s"
  by (simp add: or_empty_def)

lemma over_ipc_fields [simp]:
  "of_node (Some (node_over_ipc n)) xn_id = n_id n"
  "of_node (Some (node_over_ipc n)) xn_network = network_str (n_network n)"
  "of_node (Some (node_over_ipc n)) xn_role = role_str (n_role n)"
  "of_node (Some (node_over_ipc n)) xn_artifactDigest = tr_artifactDigest (n_trust n)"
  "of_node (Some (node_over_ipc n)) xn_bootstrapPolicyId = tr_bootstrapPolicyId (n_trust n)"
  "of_node (Some (node_over_ipc n)) xn_proofRef = tr_prodnetObserverProofRef (n_trust n)"
  "of_node (Some (node_over_ipc n)) xn_publicBootstrapUrl = bk_publicBootstrapUrl (n_backup n)"
  "of_node (Some (node_over_ipc n)) xn_image = rt_image (n_runtime n)"
  by (simp_all add: of_node_def node_over_ipc_def)

lemma network_is [simp]:
  "network_str w = ''mainnet'' \<longleftrightarrow> w = Mainnet" "network_str w = ''testnet'' \<longleftrightarrow> w = Testnet"
  by (cases w; simp)+

lemma same_mutation_kind:
  "service_isProdnetObserverMutation (Some (node_over_ipc n)) (action_str a) = gate_isProdnetObserverMutation n a"
  by (cases a) (simp_all add: service_isProdnetObserverMutation_def gate_isProdnetObserverMutation_def)

lemma same_steps_text: "steps_text (map step_over_ipc ss) = js_join nl (map cs_command ss)"
  by (simp add: steps_text_def step_over_ipc_def comp_def)

lemma same_trust_evidence:
  "service_trustEvidence (Some (node_over_ipc n)) (map step_over_ipc (cp_steps plan)) =
   prodnetObserverPlanHasTrustEvidence n plan"
  by (simp add: service_trustEvidence_def prodnetObserverPlanHasTrustEvidence_def Let_def plan_text_def
      same_steps_text service_hasPinnedArtifactDigest_def gate_hasPinnedArtifactDigest_def
      service_hasProdnetBootstrapPolicy_def gate_hasProdnetBootstrapPolicy_def
      service_hasProdnetDryRunProof_def gate_hasProdnetDryRunProof_def del: append.simps)

lemma same_preservation_evidence:
  "service_destructiveEvidence (action_str (cp_action plan)) (map step_over_ipc (cp_steps plan)) =
   destructivePlanHasDbPreservationEvidence plan"
  by (cases "cp_action plan")
    (simp_all add: service_destructiveEvidence_def destructivePlanHasDbPreservationEvidence_def Let_def
      plan_text_def same_steps_text)

lemma same_action_kinds:
  "service_isReadOnly (action_str a) = isReadOnlyRemoteAction a"
  "service_isDbPreserving (action_str a) = isDbPreservingDestructiveAction a"
  by (cases a; simp add: service_isReadOnly_def isReadOnlyRemoteAction_def service_isDbPreserving_def
      isDbPreservingDestructiveAction_def)+

lemma same_read_only_steps:
  "stepsAreReadOnly (map step_over_ipc (cp_steps plan)) = planStepsAreReadOnly plan"
  by (simp add: stepsAreReadOnly_def planStepsAreReadOnly_def list_all_iff step_over_ipc_def)

lemma same_phrase:
  "service_confirmationPhrase (node_over_ipc n) (action_str a) = remoteExecutionConfirmationPhrase n a"
proof -
  have f: "or_empty (xn_id (node_over_ipc n)) = n_id n" "xn_network (node_over_ipc n) = Some (network_str (n_network n))"
    "or_empty (xn_proofRef (node_over_ipc n)) = tr_prodnetObserverProofRef (n_trust n)"
    "or_empty (xn_artifactDigest (node_over_ipc n)) = tr_artifactDigest (n_trust n)"
    "or_empty (xn_bootstrapPolicyId (node_over_ipc n)) = tr_bootstrapPolicyId (n_trust n)"
    by (simp_all add: node_over_ipc_def)
  have d: "action_str a = ''rollback'' \<or> action_str a = ''cleanup'' \<longleftrightarrow> isDbPreservingDestructiveAction a"
    and p: "action_str a = ''prodnet-observer-proof'' \<longleftrightarrow> a = ProdnetObserverProof"
    by (cases a; simp add: isDbPreservingDestructiveAction_def)+
  show ?thesis
    unfolding service_confirmationPhrase_def remoteExecutionConfirmationPhrase_def Let_def same_mutation_kind f d p
    by (simp del: append.simps)
qed

text \<open>The renderer refuses a text the main process lets through only for a public backup admin address.\<close>

lemma unsafe_text_compared:
  "unsafe_text t \<Longrightarrow> \<not> js_test public_backup_admin_re t \<Longrightarrow> service_unsafe_text t"
  unfolding unsafe_text_def service_unsafe_text_def by blast

lemma same_actionable_lines: "service_actionable_lines = actionable_lines"
  by (simp add: fun_eq_iff service_actionable_lines_def actionable_lines_def)

lemma request_over_ipc_views:
  "xr_node (request_over_ipc n plan typed) = Some (node_over_ipc n)"
  "request_action (request_over_ipc n plan typed) = action_str (cp_action plan)"
  "request_steps (request_over_ipc n plan typed) = map step_over_ipc (cp_steps plan)"
  "or_empty (xr_confirmation (request_over_ipc n plan typed)) = typed"
  "xr_plan (request_over_ipc n plan typed) = Some p \<Longrightarrow> xp_blocked p = cp_blocked plan"
  "request_phrase (request_over_ipc n plan typed) = remoteExecutionConfirmationPhrase n (cp_action plan)"
proof -
  show "request_phrase (request_over_ipc n plan typed) = remoteExecutionConfirmationPhrase n (cp_action plan)"
    by (cases "cp_action plan"; simp add: request_phrase_def request_over_ipc_def request_action_def
        flip: same_phrase)
qed (auto simp: request_over_ipc_def request_action_def request_steps_def)


definition sample_plan :: command_plan where
  "sample_plan =
     \<lparr>cp_action = Stop, cp_nodeId = ''ta'', cp_blocked = False, cp_notices = [],
      cp_steps = [commandStep PhRuntime (ssh sample_testnet ''docker stop'') True False False]\<rparr>"


text \<open>the main process and the renderer read remote output the same way: their redaction, stop
  criteria and health state, written twice in the sources, are equal on every output.\<close>

theorem both_processes_read_alike:
  "redactRemoteExecutionOutput out = redactRemoteOutput out \<and>
   hs_stopCriteria (parseRemoteExecutionHealth out t) = hs_stopCriteria (parseRemoteHealthOutput out t) \<and>
   hs_state (parseRemoteExecutionHealth out t) = hs_state (parseRemoteHealthOutput out t)"
proof -
  have red: "redactRemoteExecutionOutput = redactRemoteOutput"
    by (simp only: fun_eq_iff redactRemoteExecutionOutput_def redactRemoteOutput_def
        service_redaction_rules_def redaction_rules_def) simp
  have stop: "service_stopCriteria = stopCriteriaFromOutput"
    by (simp only: fun_eq_iff service_stopCriteria_def stopCriteriaFromOutput_def) simp
  have state: "service_health_state = health_state_of"
    by (simp only: fun_eq_iff service_health_state_def health_state_of_def service_headProgress_def
        headProgress_def service_noSeedPeers_def noSeedPeers_def service_noPeers_def noPeers_def
        service_noHeadProgress_def noHeadProgress_def) simp
  show ?thesis
    by (simp add: parseRemoteExecutionHealth_def parseRemoteHealthOutput_def Let_def red stop state)
qed

end
