(* ===== verification/JsText.thy ===== *)
theory JsText
  imports JsRegex JsValue "HOL-Library.Char_ord" "HOL-Library.List_Lexorder" "HOL-Library.Multiset"
begin

text \<open>
  The parts of the string library that cut a text at a pattern: \<open>split(re)\<close> and
  \<open>matchAll\<close>, and what \<open>replace\<close> with the \<open>g\<close> flag leaves of a text:
  which characters can be in the result, and how long it can be. Then the default sort of an
  array of strings (by code unit), assignment to a property of an object, \<open>findIndex\<close>
  and the conversion \<open>Number(s)\<close>.
\<close>

section \<open>Splitting and iterating matches\<close>

text \<open>
  \<open>s.split(re)\<close> for a pattern without captures: \<open>l\<close> is the text before the position,
  last character first, \<open>piece\<close> the current piece, last character first. An empty match at
  the start of a piece does not split.
\<close>

function split_from :: "re \<Rightarrow> string \<Rightarrow> string \<Rightarrow> string \<Rightarrow> string list" where
  "split_from r l piece [] = [rev piece]"
| "split_from r l piece (c # cs) =
     (case mt r Some (l, c # cs, []) of
        None \<Rightarrow> split_from r (c # l) (c # piece) cs
      | Some t \<Rightarrow>
          if length (rest t) < length (c # cs) then rev piece # split_from r (fst t) [] (rest t)
          else if piece = [] then split_from r (c # l) [c] cs
          else rev piece # split_from r (c # l) [c] cs)"
  by pat_completeness auto
termination
  by (relation "measure (\<lambda>(r, l, p, s). length s)") auto

definition js_split_re :: "re \<Rightarrow> string \<Rightarrow> string list" where
  "js_split_re r s =
     (if s = [] then (if mt r Some ([], [], []) \<noteq> None then [] else [[]])
      else split_from r [] [] s)"

text \<open>The captures of \<open>s.matchAll(re)\<close>, in order; an empty match moves on by one
  character.\<close>

function match_all_from :: "re \<Rightarrow> string \<Rightarrow> string \<Rightarrow> caps list" where
  "match_all_from r l s =
     (case mt r Some (l, s, []) of
        None \<Rightarrow> (case s of [] \<Rightarrow> [] | c # cs \<Rightarrow> match_all_from r (c # l) cs)
      | Some t \<Rightarrow>
          snd (snd t) #
            (if length (rest t) < length s then match_all_from r (fst t) (rest t)
             else case s of [] \<Rightarrow> [] | c # cs \<Rightarrow> match_all_from r (c # l) cs))"
  by pat_completeness auto
termination
  by (relation "measure (\<lambda>(r, l, s). length s)") auto

declare match_all_from.simps [simp del]

definition js_match_all :: "re \<Rightarrow> string \<Rightarrow> caps list" where
  "js_match_all r s = match_all_from r [] s"

section \<open>Arrays, objects and numbers\<close>

definition js_sort :: "string list \<Rightarrow> string list" where
  "js_sort xs = sort xs"

text \<open>\<open>o[k] = v\<close> on the list of own properties: an existing property keeps its place.\<close>

fun js_put :: "string \<Rightarrow> 'a \<Rightarrow> (string \<times> 'a) list \<Rightarrow> (string \<times> 'a) list" where
  "js_put k v [] = [(k, v)]"
| "js_put k v ((k', v') # ps) = (if k' = k then (k, v) # ps else (k', v') # js_put k v ps)"

definition js_put_all :: "(string \<times> 'a) list \<Rightarrow> (string \<times> 'a) list \<Rightarrow> (string \<times> 'a) list" where
  "js_put_all ps updates = foldl (\<lambda>acc (k, v). js_put k v acc) ps updates"

fun js_find_index :: "('a \<Rightarrow> bool) \<Rightarrow> 'a list \<Rightarrow> nat option" where
  "js_find_index P [] = None"
| "js_find_index P (x # xs) = (if P x then Some 0 else map_option Suc (js_find_index P xs))"

text \<open>\<open>xs[i]\<close>: \<open>None\<close> stands for \<open>undefined\<close>.\<close>

definition js_nth :: "'a list \<Rightarrow> nat \<Rightarrow> 'a option" where
  "js_nth xs i = (if i < length xs then Some (xs ! i) else None)"

text \<open>\<open>Number(s)\<close> on a string, as the exact rational it writes.\<close>

fun digit_in_base :: "nat \<Rightarrow> char \<Rightarrow> nat option" where
  "digit_in_base b c =
     (let d = (if is_digit c then cu c - 48
               else if is_alpha c then cu (lower_char c) - 87 else b)
      in if d < b then Some d else None)"

definition parse_base :: "nat \<Rightarrow> string \<Rightarrow> jsnum" where
  "parse_base b ds =
     (if ds \<noteq> [] \<and> list_all (\<lambda>c. digit_in_base b c \<noteq> None) ds
      then Fin (of_nat (foldl (\<lambda>n c. b * n + the (digit_in_base b c)) 0 ds)) else NaN)"

definition parse_exponent :: "string \<Rightarrow> int option" where
  "parse_exponent s =
     (case s of
        [] \<Rightarrow> Some 0
      | c # cs \<Rightarrow>
          if c = CHR ''e'' \<or> c = CHR ''E''
          then
            let negative = (cs \<noteq> [] \<and> hd cs = CHR ''-'');
                ds = (if cs \<noteq> [] \<and> hd cs \<in> set ''+-'' then tl cs else cs)
            in if ds \<noteq> [] \<and> list_all is_digit ds
               then Some (if negative then - int (parse_digits ds) else int (parse_digits ds))
               else None
          else None)"

definition parse_decimal :: "string \<Rightarrow> rat option" where
  "parse_decimal s =
     (let whole = takeWhile is_digit s;
          after = dropWhile is_digit s;
          pointed = (after \<noteq> [] \<and> hd after = CHR ''.'');
          frac = (if pointed then takeWhile is_digit (tl after) else []);
          tail = (if pointed then dropWhile is_digit (tl after) else after)
      in if whole = [] \<and> frac = [] then None
         else map_option
           (\<lambda>e. of_nat (parse_digits (whole @ frac)) / 10 ^ length frac *
                (if 0 \<le> e then 10 ^ nat e else 1 / 10 ^ nat (- e)))
           (parse_exponent tail))"

definition js_to_number :: "string \<Rightarrow> jsnum" where
  "js_to_number s =
     (let t = js_trim s;
          negative = (t \<noteq> [] \<and> hd t = CHR ''-'');
          u = (if t \<noteq> [] \<and> hd t \<in> set ''+-'' then tl t else t)
      in if t = [] then Fin 0
         else if js_starts_with t ''0x'' \<or> js_starts_with t ''0X'' then parse_base 16 (drop 2 t)
         else if js_starts_with t ''0o'' \<or> js_starts_with t ''0O'' then parse_base 8 (drop 2 t)
         else if js_starts_with t ''0b'' \<or> js_starts_with t ''0B'' then parse_base 2 (drop 2 t)
         else if u = ''Infinity'' then (if negative then NegInf else PosInf)
         else (case parse_decimal u of
                 None \<Rightarrow> NaN
               | Some r \<Rightarrow> Fin (if negative then - r else r)))"

text \<open>\<open>Number.parseInt(s, 10)\<close>; \<open>None\<close> is \<open>NaN\<close>.\<close>

definition js_parse_int :: "string \<Rightarrow> int option" where
  "js_parse_int s =
     (let t = js_trim_start s;
          u = (if t \<noteq> [] \<and> hd t \<in> set ''+-'' then tl t else t);
          n = int (parse_digits (takeWhile is_digit u))
      in if takeWhile is_digit u = [] then None
         else Some (if t \<noteq> [] \<and> hd t = CHR ''-'' then - n else n))"

text \<open>What \<open>JSON.parse(JSON.stringify(v))\<close> makes of a value: properties that are \<open>undefined\<close>
  are left out, in an array they become \<open>null\<close>, and so does a number that is not finite.\<close>

lemma size_prop: "(k, v) \<in> set ps \<Longrightarrow> size v < Suc (size_list (size_prod (\<lambda>_. 0) size) ps)"
  by (induction ps) auto

function json_stored :: "jsval \<Rightarrow> jsval" where
  "json_stored JUndefined = JUndefined"
| "json_stored JNull = JNull"
| "json_stored (JBool b) = JBool b"
| "json_stored (JNum x) = (case x of Fin r \<Rightarrow> JNum x | _ \<Rightarrow> JNull)"
| "json_stored (JStr s) = JStr s"
| "json_stored (JArr vs) = JArr (map (\<lambda>v. if v = JUndefined then JNull else json_stored v) vs)"
| "json_stored (JObj ps) =
     JObj (map (\<lambda>(k, v). (k, json_stored v)) (filter (\<lambda>(k, v). v \<noteq> JUndefined) ps))"
  by pat_completeness auto
termination
  by (relation "measure size") (auto simp: less_Suc_eq_le size_list_estimation' dest: size_prop)

definition plain_json :: "jsval \<Rightarrow> bool" where
  "plain_json v \<longleftrightarrow> json_stored v = v \<and> v \<noteq> JUndefined"

lemma json_stored_defined: "v \<noteq> JUndefined \<Longrightarrow> json_stored v \<noteq> JUndefined"
  by (cases v) (auto split: jsnum.split)

lemma json_stored_idem [simp]: "json_stored (json_stored v) = json_stored v"
proof (induction v rule: json_stored.induct)
  case (6 vs)
  have "(if w = JUndefined then JNull else json_stored w) = w"
    if "w = (if v = JUndefined then JNull else json_stored v)" "v \<in> set vs" for v w
    using that 6 json_stored_defined [of v] by (auto split: if_splits)
  then show ?case by simp
next
  case (7 ps)
  let ?f = "\<lambda>(k, v). (k, json_stored v)"
  have "filter (\<lambda>(k, v). v \<noteq> JUndefined) (map ?f (filter (\<lambda>(k, v). v \<noteq> JUndefined) ps))
      = map ?f (filter (\<lambda>(k, v). v \<noteq> JUndefined) ps)"
    by (rule filter_True) (auto dest: json_stored_defined)
  with 7 show ?case by (auto simp del: filter_map)
qed (auto split: jsnum.split)

lemma plain_json_stored: "v \<noteq> JUndefined \<Longrightarrow> plain_json (json_stored v)"
  by (simp add: plain_json_def json_stored_defined)

section \<open>A match is a part of the text\<close>

text \<open>A match state moves on along the text: what is left is a suffix of what was left.\<close>

lemma reach_suffix: "reach r s t \<Longrightarrow> \<exists>w. rest s = w @ rest t"
proof (induction r arbitrary: s t)
  case (Seq a b)
  then obtain u where "reach a s u" "reach b u t" by auto
  with Seq.IH obtain v w where "rest s = v @ rest u" "rest u = w @ rest t" by blast
  then show ?case by simp
next
  case (Star a)
  from Star.prems have "(\<lambda>s t. reach a s t \<and> length (rest t) < length (rest s))\<^sup>*\<^sup>* s t" by simp
  then show ?case
  proof (induction rule: rtranclp_induct)
    case (step u v)
    then obtain x y where "rest s = x @ rest u" "rest u = y @ rest v" using Star.IH by blast
    then show ?case by simp
  qed simp
next
  case (LazyStar a)
  from LazyStar.prems have "(\<lambda>s t. reach a s t \<and> length (rest t) < length (rest s))\<^sup>*\<^sup>* s t" by simp
  then show ?case
  proof (induction rule: rtranclp_induct)
    case (step u v)
    then obtain x y where "rest s = x @ rest u" "rest u = y @ rest v" using LazyStar.IH by blast
    then show ?case by simp
  qed simp
next
  case (Grp n a)
  then obtain u where "reach a s u" "t = capture n s u" by auto
  with Grp.IH [of s u] show ?case by (simp add: capture_def)
qed auto

lemma mt_suffix: "mt r Some s = Some t \<Longrightarrow> \<exists>w. rest s = w @ rest t"
  using mt_sound [of r Some s t] reach_suffix [of r s t] by auto

lemma set_suffix: "mt r Some (l, s, cs) = Some t \<Longrightarrow> set (rest t) \<subseteq> set s"
  using mt_suffix [of r "(l, s, cs)" t] by auto

text \<open>Every character of the result of a replacement is one of the text or of a replacement.\<close>

lemma set_replace_from:
  assumes "\<And>m cs. set (f m cs) \<subseteq> W"
  shows "set (replace_from r f l s) \<subseteq> set s \<union> W"
  using assms
proof (induction r f l s rule: replace_from.induct)
  case (1 r f l s)
  show ?case
  proof (cases "mt r Some (l, s, [])")
    case None
    show ?thesis
    proof (cases s)
      case Nil
      with None show ?thesis by (subst replace_from.simps) simp
    next
      case (Cons c cs)
      with 1(1) [OF None Cons 1(4)] None show ?thesis by (subst replace_from.simps) auto
    qed
  next
    case (Some t)
    obtain l' s' cs where t: "t = (l', s', cs)" by (cases t)
    have sub: "set s' \<subseteq> set s" using set_suffix [of r l s "[]" t] Some t by simp
    show ?thesis
    proof (cases "length s' < length s")
      case True
      have "set (replace_from r f l' s') \<subseteq> set s' \<union> W"
        using 1(2) [OF Some t [symmetric] refl True 1(4)] .
      with sub 1(4) Some t True show ?thesis by (subst replace_from.simps) auto
    next
      case False
      have "set (f m cs) \<subseteq> W" for m by (rule 1(4))
      moreover have "s = c # cs' \<Longrightarrow> set (replace_from r f (c # l) cs') \<subseteq> set cs' \<union> W" for c cs'
        using 1(3) [OF Some t [symmetric] refl False _ 1(4)] by blast
      ultimately show ?thesis
        using False Some t by (subst replace_from.simps) (auto split: list.splits)
    qed
  qed
qed

lemma set_replace_all_const: "set (js_replace_all r (\<lambda>_ _. w) s) \<subseteq> set s \<union> set w"
  unfolding js_replace_all_def by (rule set_replace_from) simp

text \<open>Replacing every run of a class leaves no character of the class but the replacement's.\<close>

lemma mt_plus_None:
  assumes "mt (plus (Cls p)) Some (l, c # cs, x) = None" shows "\<not> p c"
proof
  assume "p c"
  then have "reach (plus (Cls p)) (l, c # cs, x) (c # l, cs, x)"
    unfolding reach_plus_Cls by (intro exI [of _ "[c]"]) (simp add: eats_def)
  with assms mt_iff [of "plus (Cls p)"] show False by blast
qed

lemma mt_plus_shorter:
  assumes "mt (plus (Cls p)) Some (l, s, x) = Some t" shows "length (rest t) < length s"
proof -
  from mt_sound [OF assms] obtain w where "w \<noteq> []" "eats (l, s, x) w t"
    by (auto simp: reach_plus_Cls)
  then show ?thesis by (auto simp: eats_def)
qed

lemma set_replace_from_class:
  "set (replace_from (plus (Cls p)) (\<lambda>_ _. w) l s) \<subseteq> {c \<in> set s. \<not> p c} \<union> set w"
proof (induction "plus (Cls p)" "\<lambda>(_::string) (_::caps). w" l s rule: replace_from.induct)
  case (1 l s)
  show ?case
  proof (cases "mt (plus (Cls p)) Some (l, s, [])")
    case None
    show ?thesis
    proof (cases s)
      case Nil
      with None show ?thesis by (subst replace_from.simps) simp
    next
      case (Cons c cs)
      with None have "\<not> p c" using mt_plus_None by blast
      with 1(1) [OF None Cons] None Cons show ?thesis by (subst replace_from.simps) auto
    qed
  next
    case (Some t)
    obtain l' s' cs where t: "t = (l', s', cs)" by (cases t)
    have short: "length s' < length s" using mt_plus_shorter [OF Some] t by simp
    have "set s' \<subseteq> set s" using set_suffix [OF Some] t by simp
    with 1(2) [OF Some t [symmetric] refl short] short Some t show ?thesis
      by (subst replace_from.simps) auto
  qed
qed

lemma set_replace_class:
  "set (js_replace_all (plus (Cls p)) (\<lambda>_ _. w) s) \<subseteq> {c \<in> set s. \<not> p c} \<union> set w"
  unfolding js_replace_all_def by (rule set_replace_from_class)

text \<open>Collapsing runs to at most one character never makes a text longer.\<close>

lemma length_replace_from_class:
  "length w \<le> 1 \<Longrightarrow> length (replace_from (plus (Cls p)) (\<lambda>_ _. w) l s) \<le> length s"
proof (induction "plus (Cls p)" "\<lambda>(_::string) (_::caps). w" l s rule: replace_from.induct)
  case (1 l s)
  show ?case
  proof (cases "mt (plus (Cls p)) Some (l, s, [])")
    case None
    show ?thesis
    proof (cases s)
      case Nil
      with None show ?thesis by (subst replace_from.simps) simp
    next
      case (Cons c cs)
      with 1(1) [OF None Cons] 1(4) None show ?thesis by (subst replace_from.simps) auto
    qed
  next
    case (Some t)
    obtain l' s' cs where t: "t = (l', s', cs)" by (cases t)
    have short: "length s' < length s" using mt_plus_shorter [OF Some] t by simp
    with 1(2) [OF Some t [symmetric] refl short] 1(4) Some t show ?thesis
      by (subst replace_from.simps) auto
  qed
qed

lemma length_replace_class:
  "length w \<le> 1 \<Longrightarrow> length (js_replace_all (plus (Cls p)) (\<lambda>_ _. w) s) \<le> length s"
  unfolding js_replace_all_def by (rule length_replace_from_class)

section \<open>Trimming\<close>

lemma set_js_trim: "set (js_trim s) \<subseteq> set s"
proof -
  have "set (dropWhile is_space (rev (dropWhile is_space s))) \<subseteq> set s"
    by (auto dest!: set_dropWhileD)
  then show ?thesis by (simp add: js_trim_def)
qed

lemma length_js_trim: "length (js_trim s) \<le> length s"
  unfolding js_trim_def by (metis length_dropWhile_le length_rev le_trans)

lemma js_trim_no_space: "\<forall>c \<in> set s. \<not> is_space c \<Longrightarrow> js_trim s = s"
  using dropWhile_eq_self_iff [of is_space s] dropWhile_eq_self_iff [of is_space "rev s"]
  by (cases "s = []") (simp_all add: js_trim_def hd_rev)

text \<open>The text of a number holds only digits and, for a negative one, a sign.\<close>

lemma js_nat_digits: "\<forall>c \<in> set (js_nat k). is_digit c"
proof (induction k rule: js_nat.induct)
  case (1 k)
  have digit: "d < 10 \<Longrightarrow> is_digit (char_of (48 + d))" for d :: nat
    by (simp add: is_digit_def cu_def)
  show ?case
    using 1 digit [of k] digit [of "k mod 10"] by (subst js_nat.simps) auto
qed

lemma parse_js_nat: "parse_digits (js_nat k) = k"
proof (induction k rule: js_nat.induct)
  case (1 k)
  have digit: "d < 10 \<Longrightarrow> digit_val (char_of (48 + d)) = d" for d :: nat
    by (simp add: digit_val_def cu_def)
  show ?case
    using 1 digit [of k] digit [of "k mod 10"]
    by (subst js_nat.simps) (auto simp: parse_digits_def)
qed

lemma js_nat_inj [simp]: "js_nat m = js_nat n \<longleftrightarrow> m = n"
  by (metis parse_js_nat)

lemma js_to_number_nat: "js_to_number (js_nat k) = Fin (of_nat k)"
proof -
  let ?t = "js_nat k"
  have all: "\<forall>c \<in> set ?t. is_digit c" by (rule js_nat_digits)
  have ne: "?t \<noteq> []" by (subst js_nat.simps) simp
  have "\<not> is_space c" if "is_digit c" for c using that by (auto simp: is_digit_def is_space_def)
  with all have trim: "js_trim ?t = ?t" by (intro js_trim_no_space) blast
  have nondigit: "\<not> is_digit (CHR ''x'')" "\<not> is_digit (CHR ''X'')" "\<not> is_digit (CHR ''o'')"
    "\<not> is_digit (CHR ''O'')" "\<not> is_digit (CHR ''b'')" "\<not> is_digit (CHR ''B'')" "\<not> is_digit (CHR ''-'')"
    "\<not> is_digit (CHR ''+'')" "\<not> is_digit (CHR ''I'')"
    by (simp_all add: is_digit_def cu_def)
  have "\<not> js_starts_with ?t [c, d]" if "\<not> is_digit d" for c d
    using all that by (auto simp: js_starts_with_def prefix_def)
  with nondigit have pre: "\<not> js_starts_with ?t ''0x''" "\<not> js_starts_with ?t ''0X''" "\<not> js_starts_with ?t ''0o''"
    "\<not> js_starts_with ?t ''0O''" "\<not> js_starts_with ?t ''0b''" "\<not> js_starts_with ?t ''0B''" by blast+
  have hd: "is_digit (hd ?t)" using all ne by simp
  then have sign: "hd ?t \<noteq> CHR ''-''" "hd ?t \<noteq> CHR ''+''" and inf: "?t \<noteq> ''Infinity''"
    using nondigit by (metis, metis, metis list.sel(1))
  have whole: "takeWhile is_digit ?t = ?t" "dropWhile is_digit ?t = []"
    using all by (simp_all add: takeWhile_eq_all_conv dropWhile_eq_Nil_conv)
  have "parse_decimal ?t = Some (of_nat k)"
    unfolding parse_decimal_def Let_def whole using ne by (simp add: parse_exponent_def parse_js_nat)
  with trim ne pre sign inf show ?thesis by (simp add: js_to_number_def Let_def)
qed

lemma js_sort_facts: "mset (js_sort xs) = mset xs" "set (js_sort xs) = set xs" "sorted (js_sort xs)"
  by (simp_all add: js_sort_def)

text \<open>Sorting decides equality of the contents.\<close>

lemma js_sort_eq_iff: "js_sort xs = js_sort ys \<longleftrightarrow> mset xs = mset ys"
  by (metis js_sort_def js_sort_facts(1) mset_sort properties_for_sort sorted_sort)

lemma js_split_append: "d \<notin> set a \<Longrightarrow> js_split d (a @ d # b) = a # js_split d b"
  by (induction a) (auto split: list.splits)

lemma js_split_single: "d \<notin> set a \<Longrightarrow> js_split d a = [a]"
  by (induction a) auto

end
