(* ===== verification/FleetProvider.thy ===== *)
theory FleetProvider
  imports FleetPlan JsText
begin

text \<open>
  The import of cloud provider metadata, src/app/remote-nodes.ts lines 246-252, 284-348 and
  507-727: the text a user pastes is scanned for secrets, addresses, hosts, users and private
  paths, read as JSON or as blocks of \<open>key: value\<close> lines, normalised to instance records
  and turned into planned observer nodes.

  Two things come from the host language's runtime and are arguments: \<open>parse\<close> is
  \<open>JSON.parse\<close> (\<open>None\<close> when it throws; an object is its list of own properties in
  the order \<open>Object.entries\<close> gives them) and \<open>num_str\<close> is \<open>String\<close> on a number.
  The theorems hold for every such pair.

  Main results: imported nodes are disabled observers with fresh, pairwise different ids
  (\<open>imported_nodes_are_observers\<close>), every step planned for them stays on the remote host
  (\<open>imported_nodes_plan_safely\<close>), and an import is accepted exactly when no scan finds
  anything and no instance repeats (\<open>import_accepted_iff\<close>).
\<close>

section \<open>Patterns\<close>

definition token_char :: "char \<Rightarrow> bool" where
  "token_char c \<longleftrightarrow> is_alpha c \<or> is_digit c"

definition provider_ipv4_re :: re where
  "provider_ipv4_re = seqs ([WordB, between 1 3 digit] @
     replicate 3 (Seq (chr (CHR ''.'')) (between 1 3 digit)) @ [WordB])"

definition host_label :: re where
  "host_label = Seq (Cls token_char)
     (opt (Seq (between 0 61 (Cls (\<lambda>c. token_char c \<or> c = CHR ''-''))) (Cls token_char)))"

definition provider_hostname_re :: re where
  "provider_hostname_re = seqs [WordB,
     Look (Seq (Star (Cls (\<lambda>c. token_char c \<or> c = CHR ''.'' \<or> c = CHR ''-''))) (Cls is_alpha)),
     host_label, plus (Seq (chr (CHR ''.'')) host_label), WordB]"

definition provider_private_path_re :: re where
  "provider_private_path_re = seqs
     [Grp 1 (Alt Bol (Cls (\<lambda>c. is_space c \<or> c \<in> set (dq @ sq @ ''=:'')))),
      alts [lit ''~/'', lit ''/Users/'', lit ''/home/'', lit ''/root/'', seqs [Cls is_alpha, chr (CHR '':''), lit bsl]],
      Star (Cls (\<lambda>c. \<not> is_space c \<and> c \<notin> set (dq @ sq @ '',}'')))]"

definition dash :: re where
  "dash = opt (one_of ''_-'')"

definition token_words :: re where
  "token_words = alts
     [seqs [lit_i ''api'', dash, lit_i ''key''], seqs [lit_i ''api'', dash, lit_i ''token''],
      seqs [lit_i ''access'', dash, lit_i ''key''], seqs [lit_i ''access'', dash, lit_i ''token''],
      Seq (lit_i ''auth'') (opt (lit_i ''orization'')), lit_i ''bearer'', lit_i ''credential'',
      lit_i ''password'', lit_i ''passwd'', seqs [lit_i ''private'', dash, lit_i ''key''],
      lit_i ''secret'', lit_i ''token'']"

definition provider_token_key_re :: re where
  "provider_token_key_re = seqs [WordB, token_words, WordB]"

definition provider_user_field_re :: re where
  "provider_user_field_re = seqs [WordB,
     alts [seqs [lit_i ''ssh'', dash, lit_i ''user''], lit_i ''username'', lit_i ''user'', lit_i ''login''],
     WordB, Star space, one_of '':='']"

definition provider_ssh_target_re :: re where
  "provider_ssh_target_re = seqs [WordB,
     alts (map lit_i [''root'', ''ubuntu'', ''admin'', ''debian'', ''ec2-user'', ''opc'']), chr (CHR ''@''),
     plus (Cls (\<lambda>c. \<not> is_space c \<and> c \<notin> set (dq @ sq @ '',}'')))]"

definition provider_private_key_re :: re where
  "provider_private_key_re = seqs
     [lit_i ''-----BEGIN '', plus (none_of ''-''), lit_i ''PRIVATE KEY-----'', LazyStar any_char,
      lit_i ''-----END '', plus (none_of ''-''), lit_i ''PRIVATE KEY-----'']"

text \<open>The assignment pattern of redactRemoteProviderMetadataInput.\<close>

definition provider_secret_assignment_re :: re where
  "provider_secret_assignment_re = seqs
     [WordB, Grp 1 token_words, WordB, Star space, one_of '':='', Star space,
      Grp 2 (alts
        [seqs [lit dq, Star (none_of dq), lit dq],
         seqs [lit sq, Star (none_of sq), lit sq],
         plus (Cls (\<lambda>c. \<not> is_space c \<and> c \<notin> set '',}]''))])]"

section \<open>Readers of metadata values\<close>

definition safeProviderText :: "(jsnum \<Rightarrow> string) \<Rightarrow> jsval \<Rightarrow> string \<Rightarrow> string" where
  "safeProviderText num_str value fallback =
     (case value of
        JNum x \<Rightarrow> num_str x
      | JBool b \<Rightarrow> (if b then ''true'' else ''false'')
      | JStr s \<Rightarrow>
          (let normalized = js_trim (js_replace_all (plus space) (\<lambda>_ _. '' '') s)
           in if normalized \<noteq> [] then take 96 normalized else fallback)
      | _ \<Rightarrow> fallback)"

definition field_char :: "char \<Rightarrow> bool" where
  "field_char c \<longleftrightarrow> is_lower c \<or> is_digit c"

definition providerFieldKey :: "string \<Rightarrow> string" where
  "providerFieldKey value = js_replace_all (Cls (\<lambda>c. \<not> field_char c)) (\<lambda>_ _. []) (js_lower value)"

text \<open>The map from normalised field names to values; a later field of the same name wins.\<close>

definition normalized_fields :: "(string \<times> jsval) list \<Rightarrow> string \<Rightarrow> jsval option" where
  "normalized_fields ps = map_of (rev (map (\<lambda>(k, v). (providerFieldKey k, v)) ps))"

fun first_present :: "(string \<Rightarrow> jsval option) \<Rightarrow> string list \<Rightarrow> jsval" where
  "first_present m [] = JUndefined"
| "first_present m (alias # aliases) =
     (case m (providerFieldKey alias) of
        Some v \<Rightarrow> if v \<noteq> JUndefined \<and> v \<noteq> JNull \<and> v \<noteq> JStr [] then v else first_present m aliases
      | None \<Rightarrow> first_present m aliases)"

definition providerRecordValue :: "(string \<times> jsval) list \<Rightarrow> string list \<Rightarrow> jsval" where
  "providerRecordValue ps aliases = first_present (normalized_fields ps) aliases"

definition slug_edges_re :: re where
  "slug_edges_re = Alt (Seq Bol (plus (chr (CHR ''-'')))) (Seq (plus (chr (CHR ''-''))) Eol)"

definition slugifyProviderValue :: "string \<Rightarrow> string \<Rightarrow> string" where
  "slugifyProviderValue value fallback =
     (let slug = take 48 (js_replace_all slug_edges_re (\<lambda>_ _. [])
            (js_replace_all (plus (Cls (\<lambda>c. \<not> field_char c))) (\<lambda>_ _. ''-'') (js_lower value)))
      in js_or slug fallback)"

definition ssh_alias_re :: re where
  "ssh_alias_re = seqs [Bol, Cls is_alpha,
     between 1 63 (Cls (\<lambda>c. is_word c \<or> c = CHR ''.'' \<or> c = CHR ''-'')), Eol]"

definition safeSshAlias :: "(jsnum \<Rightarrow> string) \<Rightarrow> jsval \<Rightarrow> string \<Rightarrow> string" where
  "safeSshAlias num_str value fallback =
     (let alias = safeProviderText num_str value []
      in if js_test ssh_alias_re alias \<and> \<not> looksLikeRawHostReference alias \<and>
            \<not> looksLikeSecretReference alias \<and> \<not> js_test provider_user_field_re alias
         then alias else fallback)"

text \<open>A pattern \<open>^(w1|...|wn)$\<close> of words.\<close>

definition word_re :: "string list \<Rightarrow> re" where
  "word_re ws = seqs [Bol, Grp 1 (alts (map lit ws)), Eol]"

definition providerAddressPresence :: "(jsnum \<Rightarrow> string) \<Rightarrow> jsval \<Rightarrow> address_presence" where
  "providerAddressPresence num_str value =
     (if value = JBool True then AddrPresentRedacted
      else if value = JBool False then AddrAbsent
      else
        let text = js_lower (safeProviderText num_str value [])
        in if text = [] then AddrUnknown
           else if js_test (word_re [''false'', ''no'', ''none'', ''absent'', ''0'']) text then AddrAbsent
           else if js_test (word_re [''true'', ''yes'', ''present'', ''redacted'', ''hidden'', ''masked'', ''1'']) text
             then AddrPresentRedacted
           else AddrPresentRedacted)"

definition providerLifecycleState :: "(jsnum \<Rightarrow> string) \<Rightarrow> jsval \<Rightarrow> string" where
  "providerLifecycleState num_str value =
     (let state = js_lower (safeProviderText num_str value ''unknown'')
      in if js_test (word_re [''running'', ''active'', ''started'', ''on'']) state then ''running''
         else if js_test (word_re [''stopped'', ''off'', ''shutoff'', ''halted'']) state then ''stopped''
         else if js_test (word_re [''pending'', ''provisioning'', ''starting'']) state then ''pending''
         else if js_test (word_re [''terminated'', ''deleted'', ''destroyed'']) state then ''terminated''
         else js_or
           (js_replace_all (plus (Cls (\<lambda>c. \<not> (field_char c \<or> c \<in> set ''_.-'')))) (\<lambda>_ _. ''-'') state)
           ''unknown'')"

definition providerInstanceKey :: "provider_instance \<Rightarrow> string" where
  "providerInstanceKey i =
     slugifyProviderValue (pv_providerName i) ''provider'' @ '':'' @
     slugifyProviderValue (pv_instanceRef i) ''instance''"

section \<open>Scanning the pasted text\<close>

definition redactRemoteProviderMetadataInput :: "string \<Rightarrow> string" where
  "redactRemoteProviderMetadataInput input =
     take 4000 (js_trim
       (js_replace_all provider_hostname_re (\<lambda>_ _. ''[redacted-host]'')
       (js_replace_all provider_private_path_re (\<lambda>_ cs. cap 1 cs @ ''[redacted-path]'')
       (js_replace_all provider_ipv4_re (\<lambda>_ _. ''[redacted-address]'')
       (js_replace provider_ssh_target_re (\<lambda>_ _. ''[redacted-ssh-target]'')
       (js_replace_all provider_secret_assignment_re (\<lambda>_ cs. cap 1 cs @ ''=[redacted-secret]'')
       (js_replace provider_private_key_re (\<lambda>_ _. ''[redacted-secret]'') input)))))))"

definition issue :: "import_issue_code \<Rightarrow> string \<Rightarrow> import_issue" where
  "issue code value = \<lparr>ii_code = code, ii_field = None, ii_value = Some value\<rparr>"

definition bare_issue :: "import_issue_code \<Rightarrow> import_issue" where
  "bare_issue code = \<lparr>ii_code = code, ii_field = None, ii_value = None\<rparr>"

definition providerInputIssues :: "string \<Rightarrow> import_issue list" where
  "providerInputIssues input =
     (if js_trim input = [] then [bare_issue EmptyInput]
      else
        push_if (js_test provider_private_key_re input \<or> js_test provider_token_key_re input)
          (issue SecretBlocked ''[redacted-secret]'') @
        push_if (js_test provider_ipv4_re input) (issue RawAddressBlocked ''[redacted-address]'') @
        push_if (js_test provider_hostname_re input) (issue RawHostBlocked ''[redacted-host]'') @
        push_if (js_test provider_ssh_target_re input \<or> js_test provider_user_field_re input)
          (issue UserReferenceBlocked ''[redacted-user]'') @
        push_if (js_test provider_private_path_re input) (issue PrivatePathBlocked ''[redacted-path]''))"

section \<open>Reading the records\<close>

fun object_of :: "jsval \<Rightarrow> (string \<times> jsval) list option" where
  "object_of (JObj ps) = Some ps"
| "object_of _ = None"

definition record_list_keys :: "string list" where
  "record_list_keys = [''instances'', ''servers'', ''nodes'', ''vms'', ''droplets'']"

fun nested_records :: "(string \<times> jsval) list \<Rightarrow> string list \<Rightarrow> (string \<times> jsval) list list" where
  "nested_records ps [] = [ps]"
| "nested_records ps (key # keys) =
     (case js_prop key (JObj ps) of
        JArr vs \<Rightarrow> List.map_filter object_of vs
      | _ \<Rightarrow> nested_records ps keys)"

definition jsonProviderRecords :: "jsval \<Rightarrow> (string \<times> jsval) list list" where
  "jsonProviderRecords value =
     (case value of
        JArr vs \<Rightarrow> List.map_filter object_of vs
      | JObj ps \<Rightarrow> nested_records ps record_list_keys
      | _ \<Rightarrow> [])"

definition block_re :: re where
  "block_re = seqs [lit nl, Star space, alts [Seq (lit ''--'') (plus (chr (CHR ''-''))), lit nl], Star space, lit nl]"

definition key_value_re :: re where
  "key_value_re = seqs [Bol, Star space,
     Grp 1 (Seq (Cls is_alpha) (between 1 40 (Cls (\<lambda>c. is_word c \<or> c \<in> set ''. -'')))),
     Star space, one_of '':='', Star space, Grp 2 (LazyStar dot), Star space, Eol]"

fun block_record :: "(string \<times> jsval) list \<Rightarrow> string list \<Rightarrow> (string \<times> jsval) list" where
  "block_record ps [] = ps"
| "block_record ps (line # lines) =
     (case js_exec key_value_re line of
        None \<Rightarrow> block_record ps lines
      | Some m \<Rightarrow>
          block_record (js_put (cap 1 (match_caps m)) (JStr (cap 2 (match_caps m))) ps) lines)"

definition keyValueProviderRecords :: "string \<Rightarrow> (string \<times> jsval) list list" where
  "keyValueProviderRecords input =
     (let blocks = filter (\<lambda>b. b \<noteq> []) (map js_trim (js_split_re block_re input))
      in filter (\<lambda>ps. ps \<noteq> [])
           (map (\<lambda>b. block_record [] (js_lines b)) (if blocks \<noteq> [] then blocks else [input])))"

definition parseProviderRecords ::
  "(string \<Rightarrow> jsval option) \<Rightarrow> string \<Rightarrow> (string \<times> jsval) list list \<times> bool" where
  "parseProviderRecords parse input =
     (case parse input of
        Some v \<Rightarrow> (let records = jsonProviderRecords v in (records, records \<noteq> []))
      | None \<Rightarrow> (let records = keyValueProviderRecords input in (records, records \<noteq> [])))"

section \<open>Instances\<close>

definition normalizeProviderInstanceMetadata ::
  "(jsnum \<Rightarrow> string) \<Rightarrow> (string \<times> jsval) list \<Rightarrow> nat \<Rightarrow> provider_instance" where
  "normalizeProviderInstanceMetadata num_str record index =
     (let field = (\<lambda>aliases fallback. safeProviderText num_str (providerRecordValue record aliases) fallback);
          providerName = field [''providerName'', ''provider'', ''cloud'', ''vendor''] ''provider'';
          fallbackRef = slugifyProviderValue providerName ''provider'' @ ''-'' @ js_nat (index + 1);
          instanceRef = field [''instance'', ''instanceRef'', ''instanceId'', ''server'', ''serverRef'',
            ''serverId'', ''dropletId'', ''vmId'', ''id'', ''ref''] fallbackRef;
          label = field [''label'', ''name'', ''serverName'', ''instanceName''] instanceRef;
          aliasFallback = ''ssh-'' @ slugifyProviderValue (js_or label instanceRef) fallbackRef
      in \<lparr>pv_providerName = providerName,
          pv_instanceRef = instanceRef,
          pv_label = label,
          pv_region = field [''region'', ''location'', ''datacenter'', ''zone''] ''unknown'',
          pv_os = field [''os'', ''image'', ''distro'', ''distribution''] ''unknown'',
          pv_cpuSummary = field [''cpuSummary'', ''cpu'', ''cpus'', ''vcpu'', ''vcpus''] ''unknown'',
          pv_ramSummary = field [''ramSummary'', ''ram'', ''memory'', ''memoryMb'', ''memoryGb''] ''unknown'',
          pv_diskSummary = field [''diskSummary'', ''disk'', ''diskGb'', ''storage'', ''storageGb''] ''unknown'',
          pv_lifecycleState = providerLifecycleState num_str
            (providerRecordValue record [''lifecycleState'', ''state'', ''status'', ''powerState'']),
          pv_publicAddress = providerAddressPresence num_str
            (providerRecordValue record [''publicAddress'', ''publicIp'', ''publicIpPresent'',
               ''publicAddressPresent'', ''hasPublicAddress'']),
          pv_privateAddress = providerAddressPresence num_str
            (providerRecordValue record [''privateAddress'', ''privateIp'', ''privateIpPresent'',
               ''privateAddressPresent'', ''hasPrivateAddress'']),
          pv_suggestedSshAlias = safeSshAlias num_str
            (providerRecordValue record [''suggestedSshAlias'', ''sshAlias'', ''connectionRef'', ''sshRef''])
            aliasFallback\<rparr>)"

section \<open>Nodes\<close>

text \<open>
  The loop of uniqueProviderNodeId: \<open>candidate\<close> and the suffix \<open>m\<close> as at its head. It ends
  because the candidates from the second on are pairwise different and only finitely many ids
  are used.
\<close>

definition suffixed :: "string \<Rightarrow> nat \<Rightarrow> string" where
  "suffixed base k = base @ ''-'' @ js_nat k"

lemma suffixed_inj [simp]: "suffixed base j = suffixed base k \<longleftrightarrow> j = k"
  by (simp add: suffixed_def)

definition used_suffixes :: "string \<Rightarrow> nat \<Rightarrow> string list \<Rightarrow> string set" where
  "used_suffixes base m used = {x \<in> set used. \<exists>k \<ge> m. x = suffixed base k}"

lemma used_suffixes_next:
  "card (used_suffixes base (Suc m) used) + (if suffixed base m \<in> set used then 1 else 0)
     = card (used_suffixes base m used)"
proof -
  let ?A = "used_suffixes base (Suc m) used"
  have fin: "finite ?A" by (simp add: used_suffixes_def)
  have split: "used_suffixes base m used =
      ?A \<union> (if suffixed base m \<in> set used then {suffixed base m} else {})"
  proof -
    have "k \<ge> m \<longleftrightarrow> k = m \<or> k \<ge> Suc m" for k by auto
    then show ?thesis by (auto simp: used_suffixes_def)
  qed
  have "suffixed base m \<notin> ?A" by (auto simp: used_suffixes_def)
  with fin show ?thesis unfolding split by simp
qed

function free_candidate :: "string \<Rightarrow> string \<Rightarrow> nat \<Rightarrow> string list \<Rightarrow> string" where
  "free_candidate base candidate m used =
     (if candidate \<in> set used then free_candidate base (suffixed base m) (m + 1) used
      else candidate)"
  by pat_completeness auto
termination
  by (relation "measure (\<lambda>(base, candidate, m, used).
      card (used_suffixes base m used) + (if candidate \<in> set used then 1 else 0))")
    (use used_suffixes_next in \<open>force+\<close>)

declare free_candidate.simps [simp del]

text \<open>The used ids grow by the chosen one.\<close>

definition uniqueProviderNodeId :: "string \<Rightarrow> string list \<Rightarrow> string \<times> string list" where
  "uniqueProviderNodeId baseId usedIds =
     (let candidate = free_candidate baseId baseId 2 usedIds in (candidate, usedIds @ [candidate]))"

definition provider_host_ref :: "provider_instance \<Rightarrow> string" where
  "provider_host_ref i =
     ''provider-'' @ slugifyProviderValue (pv_providerName i) ''provider'' @ ''-'' @
     slugifyProviderValue (pv_instanceRef i) ''instance''"

definition existing_nodes :: "import_options \<Rightarrow> fleet_node list" where
  "existing_nodes options =
     (case io_existingInventory options of None \<Rightarrow> [] | Some fleet \<Rightarrow> inv_nodes fleet)"

definition import_network :: "import_options \<Rightarrow> network" where
  "import_network options =
     safeNetwork (JStr (case io_network options of None \<Rightarrow> ''testnet'' | Some net \<Rightarrow> network_str net))"

text \<open>The object handed to normalizeRemoteFleetNode.\<close>

definition provider_node_input :: "provider_instance \<Rightarrow> network \<Rightarrow> string \<Rightarrow> jsval" where
  "provider_node_input metadata net i =
     (let baseDir = recommendedRemoteBaseDir net i
      in JObj
        [(''id'', JStr i),
         (''label'', JStr (pv_label metadata)),
         (''network'', JStr (network_str net)),
         (''role'', JStr ''observer''),
         (''environment'', JStr (if net = Mainnet then ''prodnet'' else network_str net)),
         (''hostRef'', JStr (provider_host_ref metadata)),
         (''connectionRef'', JStr (pv_suggestedSshAlias metadata)),
         (''paths'', JObj [(''baseDir'', JStr baseDir), (''config'', JStr (baseDir @ ''/config.yml''))]),
         (''producer'', JObj [(''enabled'', JBool False), (''profileRef'', JStr [])]),
         (''safety'', JObj [(''observerFirstRequired'', JBool True),
            (''mainnetMutationAllowed'', JBool False),
            (''remoteAdminPublicExposureAllowed'', JBool False)]),
         (''status'', JObj [(''installStatus'', JStr ''planned''), (''restoreStatus'', JStr ''not-restored''),
            (''version'', JStr default_version),
            (''health'', JStr (if pv_lifecycleState metadata = ''running'' then ''unknown'' else ''needs-server'')),
            (''lastCheck'', JStr [])])])"

definition remoteProviderMetadataToFleetNode ::
  "provider_instance \<Rightarrow> import_options \<Rightarrow> string list \<Rightarrow> fleet_node \<times> string list" where
  "remoteProviderMetadataToFleetNode metadata options usedIds =
     (let net = import_network options;
          baseId = slugifyProviderValue (js_or (pv_label metadata) (pv_instanceRef metadata)) ''provider-node'';
          chosen = uniqueProviderNodeId baseId usedIds
      in (normalizeRemoteFleetNode (provider_node_input metadata net (fst chosen)), snd chosen))"

fun import_nodes :: "import_options \<Rightarrow> string list \<Rightarrow> provider_instance list \<Rightarrow> fleet_node list" where
  "import_nodes options usedIds [] = []"
| "import_nodes options usedIds (i # is) =
     (let made = remoteProviderMetadataToFleetNode i options usedIds
      in fst made # import_nodes options (snd made) is)"

text \<open>The scan for instances seen before, in the pasted text or in the inventory.\<close>

fun duplicate_instances :: "string list \<Rightarrow> string list \<Rightarrow> provider_instance list \<Rightarrow> import_issue list" where
  "duplicate_instances hosts seen [] = []"
| "duplicate_instances hosts seen (i # is) =
     push_if (providerInstanceKey i \<in> set seen \<or> provider_host_ref i \<in> set hosts)
       \<lparr>ii_code = DuplicateInstance, ii_field = Some (pv_label i), ii_value = Some (providerInstanceKey i)\<rparr> @
     duplicate_instances hosts (providerInstanceKey i # seen) is"

definition importRemoteProviderMetadata ::
  "(string \<Rightarrow> jsval option) \<Rightarrow> (jsnum \<Rightarrow> string) \<Rightarrow> string \<Rightarrow> import_options \<Rightarrow> import_result" where
  "importRemoteProviderMetadata parse num_str input options =
     (let parsed = parseProviderRecords parse input;
          records = fst parsed;
          instances = map (\<lambda>(record, index). normalizeProviderInstanceMetadata num_str record index)
            (zip records [0..<length records]);
          issues = providerInputIssues input @
            push_if (\<not> snd parsed \<and> js_trim input \<noteq> []) (bare_issue UnsupportedFormat) @
            duplicate_instances (map n_hostRef (existing_nodes options)) [] instances;
          nodes = import_nodes options (map n_id (existing_nodes options)) instances
      in \<lparr>ir_ok = (issues = [] \<and> nodes \<noteq> []),
          ir_redactedPreview = redactRemoteProviderMetadataInput input,
          ir_instances = instances,
          ir_nodes = nodes,
          ir_issues = issues\<rparr>)"

section \<open>Which characters imported names hold\<close>

definition slug_char :: "char \<Rightarrow> bool" where
  "slug_char c \<longleftrightarrow> field_char c \<or> c = CHR ''-''"

definition alias_char :: "char \<Rightarrow> bool" where
  "alias_char c \<longleftrightarrow> is_word c \<or> c = CHR ''.'' \<or> c = CHR ''-''"

definition slug :: "string \<Rightarrow> bool" where
  "slug s \<longleftrightarrow> s \<noteq> [] \<and> (\<forall>c \<in> set s. slug_char c)"

named_theorems slug_intro \<open>texts made of slug characters\<close>

lemma slug_char_alias: "slug_char c \<Longrightarrow> alias_char c"
  by (auto simp: slug_char_def alias_char_def field_char_def is_word_def is_alpha_def)

lemma alias_char_not_space: "alias_char c \<Longrightarrow> \<not> is_space c"
  by (auto simp: alias_char_def is_word_def is_space_def is_alpha_def is_lower_def is_upper_def is_digit_def cu_def)

lemma slug_append [slug_intro]: "slug a \<Longrightarrow> slug b \<Longrightarrow> slug (a @ b)"
  by (auto simp: slug_def)

lemma slug_js_nat [slug_intro]: "slug (js_nat k)"
proof -
  have "js_nat k \<noteq> []" by (subst js_nat.simps) simp
  with js_nat_digits [of k] show ?thesis by (auto simp: slug_def slug_char_def field_char_def)
qed

lemma slug_literals [slug_intro]:
  "slug ''-''" "slug ''provider''" "slug ''instance''" "slug ''provider-node''" "slug ''provider-''" "slug ''ssh-''"
  by code_simp+

lemma slug_suffixed [slug_intro]: "slug base \<Longrightarrow> slug (suffixed base k)"
  unfolding suffixed_def by (intro slug_intro)

lemma slug_slugify [slug_intro]:
  assumes "slug fallback" shows "slug (slugifyProviderValue v fallback)"
proof -
  let ?dashed = "js_replace_all (plus (Cls (\<lambda>c. \<not> field_char c))) (\<lambda>_ _. ''-'') (js_lower v)"
  have "set ?dashed \<subseteq> {c. slug_char c}"
    using set_replace_class [of "\<lambda>c. \<not> field_char c" "''-''" "js_lower v"] by (auto simp: slug_char_def)
  moreover have "set (js_replace_all slug_edges_re (\<lambda>_ _. []) ?dashed) \<subseteq> set ?dashed"
    using set_replace_all_const [of slug_edges_re "[]" ?dashed] by simp
  ultimately have "\<forall>c \<in> set (take 48 (js_replace_all slug_edges_re (\<lambda>_ _. []) ?dashed)). slug_char c"
    by (meson in_set_takeD mem_Collect_eq subsetD)
  with assms show ?thesis by (auto simp: slugifyProviderValue_def Let_def js_or_def slug_def)
qed

lemma slug_free_candidate [slug_intro]:
  "slug base \<Longrightarrow> slug candidate \<Longrightarrow> slug (free_candidate base candidate m used)"
proof (induction base candidate m used rule: free_candidate.induct)
  case (1 base candidate m used)
  then show ?case using slug_suffixed [of base m] by (subst free_candidate.simps) auto
qed

lemma free_candidate_fresh: "free_candidate base candidate m used \<notin> set used"
proof (induction base candidate m used rule: free_candidate.induct)
  case (1 base candidate m used)
  then show ?case by (subst free_candidate.simps) auto
qed

lemma slug_host_ref [slug_intro]: "slug (provider_host_ref i)"
  unfolding provider_host_ref_def by (intro slug_intro)

text \<open>An alias is taken over only when it is all alias characters; the fallback always is.\<close>

definition alias_text :: "string \<Rightarrow> bool" where
  "alias_text s \<longleftrightarrow> s \<noteq> [] \<and> (\<forall>c \<in> set s. alias_char c)"

lemma slug_alias: "slug s \<Longrightarrow> alias_text s"
  by (auto simp: slug_def alias_text_def slug_char_alias)

lemma reach_upto_copies_Cls:
  "reach (upto_copies n (Cls p)) s t \<Longrightarrow> \<exists>w. (\<forall>c \<in> set w. p c) \<and> eats s w t"
proof (induction n arbitrary: s)
  case 0
  then show ?case by (intro exI [of _ "[]"]) simp
next
  case (Suc n)
  show ?case
  proof (cases "t = s")
    case True
    then show ?thesis by (intro exI [of _ "[]"]) simp
  next
    case False
    with Suc.prems obtain u c where "p c" "eats s [c] u" "reach (upto_copies n (Cls p)) u t"
      by (auto simp: opt_def reach_Cls simp del: reach.simps(2))
    with Suc.IH obtain w where w: "p c" "\<forall>c \<in> set w. p c" "eats s [c] u" "eats u w t" by blast
    then have "eats s ([c] @ w) t" unfolding eats_append by blast
    with w show ?thesis by (intro exI [of _ "[c] @ w"]) simp
  qed
qed

lemma ssh_alias_re_chars:
  assumes "js_test ssh_alias_re s" shows "alias_text s"
proof -
  let ?p = "\<lambda>c. is_word c \<or> c = CHR ''.'' \<or> c = CHR ''-''"
  have p: "?p = alias_char" by (auto simp: alias_char_def)
  from assms obtain a u t where s: "s = a @ u"
      "\<exists>v. reach Bol (rev a, u, []) v \<and> (\<exists>x. reach (Cls is_alpha) v x \<and>
         (\<exists>y. reach (between 1 63 (Cls alias_char)) x y \<and> reach Eol y t))"
    unfolding js_test_iff ssh_alias_re_def p reach_seqs_Cons reach_seqs_Nil by blast
  then obtain x y where r: "a = []" "reach (Cls is_alpha) ([], s, []) x"
      "reach (between 1 63 (Cls alias_char)) x y" "rest y = []"
    by (auto simp del: reach.simps(2))
  from r(3) obtain z where "reach (copies 1 (Cls alias_char)) x z" "reach (upto_copies 62 (Cls alias_char)) z y"
    by (auto simp: between_def)
  then obtain v w where vw: "\<forall>c \<in> set v. alias_char c" "eats x v z" "\<forall>c \<in> set w. alias_char c" "eats z w y"
    using reach_upto_copies_Cls unfolding reach_copies_Cls by blast
  from r(2) obtain c where c: "is_alpha c" "eats ([], s, []) [c] x" unfolding reach_Cls by blast
  from c(2) vw r(4) have "s = [c] @ v @ w" by (simp add: eats_def)
  with c(1) vw show ?thesis by (auto simp: alias_text_def alias_char_def is_word_def)
qed

lemma alias_safeSshAlias: "alias_text fallback \<Longrightarrow> alias_text (safeSshAlias num_str v fallback)"
  using ssh_alias_re_chars by (auto simp: safeSshAlias_def Let_def)

lemma instance_alias:
  "alias_text (pv_suggestedSshAlias (normalizeProviderInstanceMetadata num_str record index))"
  unfolding normalizeProviderInstanceMetadata_def Let_def provider_instance.simps
  by (intro alias_safeSshAlias slug_alias slug_intro)

lemma alias_trimmed: "alias_text s \<Longrightarrow> normal_text s"
  using js_trim_no_space [of s] alias_char_not_space
  by (auto simp: alias_text_def normal_text_def trimmed_def)

lemma alias_single_line: "alias_text s \<Longrightarrow> single_line s"
  using alias_char_not_space [of "CHR 0x0A"]
  by (auto simp: alias_text_def single_line_def is_space_def cu_def)

section \<open>The imported nodes\<close>

definition base_id :: "provider_instance \<Rightarrow> string" where
  "base_id i = slugifyProviderValue (js_or (pv_label i) (pv_instanceRef i)) ''provider-node''"

lemma slug_base_id [slug_intro]: "slug (base_id i)"
  unfolding base_id_def by (intro slug_intro)

lemma slug_normal: "slug s \<Longrightarrow> normal_text s"
  by (intro alias_trimmed slug_alias)

lemma slug_single_line: "slug s \<Longrightarrow> single_line s"
  by (intro alias_single_line slug_alias)

lemma provider_input_top:
  "js_prop ''id'' (provider_node_input m net i) = JStr i"
  "js_prop ''network'' (provider_node_input m net i) = JStr (network_str net)"
  "js_prop ''role'' (provider_node_input m net i) = JStr ''observer''"
  "js_prop ''hostRef'' (provider_node_input m net i) = JStr (provider_host_ref m)"
  "js_prop ''connectionRef'' (provider_node_input m net i) = JStr (pv_suggestedSshAlias m)"
  "js_prop ''runtime'' (provider_node_input m net i) = JUndefined"
  "js_prop ''ports'' (provider_node_input m net i) = JUndefined"
  "js_prop ''backup'' (provider_node_input m net i) = JUndefined"
  "js_prop ''trust'' (provider_node_input m net i) = JUndefined"
  by (simp_all add: provider_node_input_def Let_def)

lemma provider_input_nested:
  "field2 (provider_node_input m net i) ''paths'' ''baseDir'' = JStr (recommendedRemoteBaseDir net i)"
  "field2 (provider_node_input m net i) ''paths'' ''config'' =
     JStr (recommendedRemoteBaseDir net i @ ''/config.yml'')"
  "field2 (provider_node_input m net i) ''producer'' ''enabled'' = JBool False"
  "field2 (provider_node_input m net i) ''producer'' ''profileRef'' = JStr []"
  "field2 (provider_node_input m net i) ''safety'' ''observerFirstRequired'' = JBool True"
  "field2 (provider_node_input m net i) ''safety'' ''mainnetMutationAllowed'' = JBool False"
  "field2 (provider_node_input m net i) ''safety'' ''remoteAdminPublicExposureAllowed'' = JBool False"
  by (simp_all add: provider_node_input_def Let_def field2_def)

lemma provider_input_absent:
  "field2 (provider_node_input m net i) ''runtime'' f = JUndefined"
  "field2 (provider_node_input m net i) ''ports'' f = JUndefined"
  "field2 (provider_node_input m net i) ''backup'' f = JUndefined"
  "field2 (provider_node_input m net i) ''trust'' f = JUndefined"
  by (simp_all add: field2_def provider_input_top)

lemmas provider_input_facts = provider_input_top provider_input_nested provider_input_absent

text \<open>The node made of an instance: its names come from the instance, everything else from the
  defaults of the network.\<close>

definition made_as :: "provider_instance \<Rightarrow> network \<Rightarrow> string \<Rightarrow> fleet_node \<Rightarrow> bool" where
  "made_as m net i n \<longleftrightarrow>
     n_id n = i \<and> n_network n = net \<and> n_role n = Observer \<and> n_hostRef n = provider_host_ref m \<and>
     n_connectionRef n = pv_suggestedSshAlias m \<and>
     n_producer n = \<lparr>pr_enabled = False, pr_profileRef = []\<rparr> \<and>
     n_safety n = \<lparr>sf_observerFirstRequired = True, sf_mainnetMutationAllowed = False,
       sf_remoteAdminPublicExposureAllowed = False\<rparr> \<and>
     n_trust n = n_trust (defaultNode i net) \<and> n_runtime n = n_runtime (defaultNode i net) \<and>
     n_paths n = n_paths (defaultNode i net) \<and> n_ports n = n_ports (defaultNode i net) \<and>
     n_backup n = n_backup (defaultNode i net)"

lemma normalized_provider_input:
  assumes "slug i" "alias_text (pv_suggestedSshAlias m)"
  shows "made_as m net i (normalizeRemoteFleetNode (provider_node_input m net i))"
proof -
  have i: "normal_text i" using assms(1) by (rule slug_normal)
  have h: "normal_text (provider_host_ref m)" by (intro slug_normal slug_intro)
  have c: "normal_text (pv_suggestedSshAlias m)" using assms(2) by (rule alias_trimmed)
  have b: "normal_text (recommendedRemoteBaseDir net i)" by simp
  have y: "normal_text (recommendedRemoteBaseDir net i @ ''/config.yml'')"
    by (intro normal_text_append) simp_all
  have kinds: "safeRuntimeKind JUndefined = Docker" "safeRole (JStr ''observer'') = Observer"
    "safeText (JStr []) [] = []"
    by (simp_all add: safeRuntimeKind_def safeRole_def js_trim_def)
  show ?thesis
    unfolding made_as_def normalizeRemoteFleetNode_def Let_def provider_input_facts kinds
      safeNetwork_str safeText_id [OF i] safeText_id [OF h] safeText_id [OF c] safeText_id [OF b]
      safeText_id [OF y] safeText.simps(2-)
    by (simp add: defaultNode_def Let_def del: safeText.simps append.simps)
qed

lemma made_node:
  assumes "alias_text (pv_suggestedSshAlias m)"
  shows "made_as m (import_network options) (free_candidate (base_id m) (base_id m) 2 used)
           (fst (remoteProviderMetadataToFleetNode m options used))"
    and "snd (remoteProviderMetadataToFleetNode m options used) =
           used @ [free_candidate (base_id m) (base_id m) 2 used]"
  using normalized_provider_input [OF _ assms] slug_free_candidate [OF slug_base_id slug_base_id]
  by (simp_all add: remoteProviderMetadataToFleetNode_def uniqueProviderNodeId_def Let_def base_id_def)

lemma made_node_id:
  "alias_text (pv_suggestedSshAlias m) \<Longrightarrow>
   n_id (fst (remoteProviderMetadataToFleetNode m options used)) = free_candidate (base_id m) (base_id m) 2 used"
  using made_node(1) by (simp add: made_as_def)

text \<open>Folding the conversion over the instances.\<close>

abbreviation aliased :: "provider_instance list \<Rightarrow> bool" where
  "aliased is \<equiv> \<forall>i \<in> set is. alias_text (pv_suggestedSshAlias i)"

lemma length_import_nodes [simp]: "length (import_nodes options used is) = length is"
  by (induction options used "is" rule: import_nodes.induct) (simp_all add: Let_def)

lemma import_nodes_made:
  "n \<in> set (import_nodes options used is) \<Longrightarrow>
   \<exists>i \<in> set is. \<exists>u. n = fst (remoteProviderMetadataToFleetNode i options u)"
  by (induction options used "is" rule: import_nodes.induct) (auto simp: Let_def)

lemma import_nodes_fresh:
  "aliased is \<Longrightarrow> distinct used \<Longrightarrow> distinct (used @ map n_id (import_nodes options used is))"
proof (induction options used "is" rule: import_nodes.induct)
  case (2 options used i "is")
  let ?made = "remoteProviderMetadataToFleetNode i options used"
  have i: "alias_text (pv_suggestedSshAlias i)" using 2 by simp
  have "n_id (fst ?made) \<notin> set used"
    using made_node_id [OF i, of options used] free_candidate_fresh by simp
  with 2 made_node(2) [OF i, of options used] made_node_id [OF i, of options used]
  show ?case by (simp add: Let_def)
qed simp

lemma made_host_ref:
  "alias_text (pv_suggestedSshAlias m) \<Longrightarrow>
   n_hostRef (fst (remoteProviderMetadataToFleetNode m options used)) = provider_host_ref m"
  using made_node(1) by (simp add: made_as_def)

lemma import_host_refs:
  "aliased is \<Longrightarrow> map n_hostRef (import_nodes options used is) = map provider_host_ref is"
  by (induction options used "is" rule: import_nodes.induct) (simp_all add: Let_def made_host_ref)

lemma import_fields:
  "ir_nodes (importRemoteProviderMetadata parse num_str input options) =
     import_nodes options (map n_id (existing_nodes options))
       (ir_instances (importRemoteProviderMetadata parse num_str input options))"
  by (simp add: importRemoteProviderMetadata_def Let_def)

lemma import_aliased: "aliased (ir_instances (importRemoteProviderMetadata parse num_str input options))"
  by (auto simp: importRemoteProviderMetadata_def Let_def instance_alias)

lemma imported_made:
  assumes "n \<in> set (ir_nodes (importRemoteProviderMetadata parse num_str input options))"
  obtains i u where "i \<in> set (ir_instances (importRemoteProviderMetadata parse num_str input options))"
    "alias_text (pv_suggestedSshAlias i)" "n = fst (remoteProviderMetadataToFleetNode i options u)"
  using assms import_nodes_made import_aliased unfolding import_fields by metis

lemma single_line_default_values:
  "single_line (defaultJsonRpcBind net) \<and> single_line (defaultP2pPublic net) \<and>
   single_line (defaultBackupAdminListen net) \<and>
   single_line (js_or (publicBootstrapUrlForNetwork net) ''<public-bootstrap-url>'')"
proof -
  have "\<forall>net \<in> {Mainnet, Testnet, Custom}.
      single_line (defaultJsonRpcBind net) \<and> single_line (defaultP2pPublic net) \<and>
      single_line (defaultBackupAdminListen net) \<and>
      single_line (js_or (publicBootstrapUrlForNetwork net) ''<public-bootstrap-url>'')"
    by code_simp
  moreover have "net \<in> {Mainnet, Testnet, Custom}" by (cases net) simp_all
  ultimately show ?thesis by blast
qed

lemma single_line_constants:
  "single_line default_image" "single_line default_version" "single_line prodnet_bootstrap_policy_id"
  "single_line prodnet_bootstrap_policy_digest"
  by code_simp+

lemma single_line_defaults [simp]:
  "single_line (rt_image (n_runtime (defaultNode i net)))"
  "single_line (rt_expectedVersion (n_runtime (defaultNode i net)))"
  "single_line (rt_serviceName (n_runtime (defaultNode i net)))"
  "single_line (po_jsonrpcHostBind (n_ports (defaultNode i net)))"
  "single_line (po_p2pPublic (n_ports (defaultNode i net)))"
  "single_line (po_backupAdminListen (n_ports (defaultNode i net)))"
  "single_line (bk_publicBootstrapUrl (n_backup (defaultNode i net)))"
  "single_line (tr_artifactDigest (n_trust (defaultNode i net)))"
  "single_line (tr_artifactSignatureRef (n_trust (defaultNode i net)))"
  "single_line (tr_bootstrapPolicyId (n_trust (defaultNode i net)))"
  "single_line (tr_bootstrapPolicyDigest (n_trust (defaultNode i net)))"
  "single_line (tr_prodnetObserverProofRef (n_trust (defaultNode i net)))"
  using single_line_default_values [of net]
  by (simp_all add: defaultNode_def Let_def single_line_constants)

lemma single_line_default_paths [simp]:
  "single_line i \<Longrightarrow> single_line (pt_baseDir (n_paths (defaultNode i net)))"
  "single_line i \<Longrightarrow> single_line (pt_config (n_paths (defaultNode i net)))"
  by (simp_all add: defaultNode_def Let_def recommendedRemoteBaseDir_def)

lemma made_single_line:
  assumes "made_as m net i n" "slug i" "alias_text (pv_suggestedSshAlias m)"
  shows "single_line_node n"
proof -
  have "single_line i" using assms(2) by (rule slug_single_line)
  moreover have "single_line (pv_suggestedSshAlias m)" using assms(3) by (rule alias_single_line)
  moreover have "n_id n = i" "n_connectionRef n = pv_suggestedSshAlias m"
    "n_trust n = n_trust (defaultNode i net)" "n_runtime n = n_runtime (defaultNode i net)"
    "n_paths n = n_paths (defaultNode i net)" "n_ports n = n_ports (defaultNode i net)"
    "n_backup n = n_backup (defaultNode i net)"
    using assms(1) by (simp_all only: made_as_def)
  ultimately show ?thesis
    by (simp only: single_line_node_def single_line_defaults single_line_default_paths simp_thms)
qed

section \<open>When an import is accepted\<close>

lemma duplicate_instances_Nil:
  "duplicate_instances hosts seen is = [] \<longleftrightarrow>
     distinct (map providerInstanceKey is) \<and> set (map providerInstanceKey is) \<inter> set seen = {} \<and>
     (\<forall>i \<in> set is. provider_host_ref i \<notin> set hosts)"
  by (induction hosts seen "is" rule: duplicate_instances.induct) (auto simp: image_iff)

lemma providerInputIssues_Nil:
  "providerInputIssues input = [] \<longleftrightarrow>
     js_trim input \<noteq> [] \<and>
     \<not> js_test provider_private_key_re input \<and> \<not> js_test provider_token_key_re input \<and>
     \<not> js_test provider_ipv4_re input \<and> \<not> js_test provider_hostname_re input \<and>
     \<not> js_test provider_ssh_target_re input \<and> \<not> js_test provider_user_field_re input \<and>
     \<not> js_test provider_private_path_re input"
  by (auto simp: providerInputIssues_def)

lemma parsed_iff: "snd (parseProviderRecords parse input) \<longleftrightarrow> fst (parseProviderRecords parse input) \<noteq> []"
  by (simp add: parseProviderRecords_def Let_def split: option.splits)

lemma instances_Nil_iff:
  "ir_instances (importRemoteProviderMetadata parse num_str input options) = [] \<longleftrightarrow>
     fst (parseProviderRecords parse input) = []"
  by (simp add: importRemoteProviderMetadata_def Let_def)

text \<open>Two instances with different keys can name the same host: the key keeps the provider and
  the instance apart with a colon, the host reference joins them with a dash.\<close>

lemma distinct_keys_same_host:
  "\<exists>a b. providerInstanceKey a \<noteq> providerInstanceKey b \<and> provider_host_ref a = provider_host_ref b"
proof -
  define inst :: "string \<Rightarrow> string \<Rightarrow> provider_instance" where
    "inst p i = \<lparr>pv_providerName = p, pv_instanceRef = i, pv_label = [], pv_region = [], pv_os = [],
       pv_cpuSummary = [], pv_ramSummary = [], pv_diskSummary = [], pv_lifecycleState = [],
       pv_publicAddress = AddrUnknown, pv_privateAddress = AddrUnknown, pv_suggestedSshAlias = []\<rparr>" for p i
  have slugs: "slugifyProviderValue ''x-y'' ''provider'' = ''x-y''" "slugifyProviderValue ''z'' ''instance'' = ''z''"
    "slugifyProviderValue ''x'' ''provider'' = ''x''" "slugifyProviderValue ''y-z'' ''instance'' = ''y-z''"
    by code_simp+
  have "providerInstanceKey (inst ''x-y'' ''z'') \<noteq> providerInstanceKey (inst ''x'' ''y-z'')"
    "provider_host_ref (inst ''x-y'' ''z'') = provider_host_ref (inst ''x'' ''y-z'')"
    by (simp_all add: providerInstanceKey_def provider_host_ref_def inst_def slugs)
  then show ?thesis by blast
qed

section \<open>Properties\<close>

text \<open>A text with one record whose name is the id of a node already in the inventory.\<close>

definition sample_provider_options :: import_options where
  "sample_provider_options = \<lparr>io_network = Some Mainnet,
     io_existingInventory = Some \<lparr>inv_version = 1, inv_nodes = [defaultNode ''a1'' Testnet]\<rparr>\<rparr>"

definition sample_import :: import_result where
  "sample_import = importRemoteProviderMetadata (\<lambda>_. None) (\<lambda>_. []) ''name: a1'' sample_provider_options"

lemma sample_instances:
  "map pv_label (ir_instances sample_import) = [''a1'']"
  by code_simp



text \<open>every step planned for an imported node runs on the remote host and leaves nothing to the
  local shell, and on mainnet the mutating actions stay blocked until the node carries trust evidence.\<close>

theorem imported_nodes_plan_safely:
  assumes "n \<in> set (ir_nodes (importRemoteProviderMetadata parse num_str input options))"
  shows "list_all (\<lambda>s. \<exists>body. cs_command s = ssh n body \<and> remote_stdin (cs_command s) = js_lines body \<and>
      local_rest (cs_command s) = []) (plan_steps n a) \<and>
    (import_network options = Mainnet \<and> isProdnetObserverMutation a n \<and> find_node fleet (n_id n) = Some n \<longrightarrow>
      cp_blocked (generateRemoteCommandPlan fleet (n_id n) a))"
proof (intro conjI impI)
  obtain m u where m: "alias_text (pv_suggestedSshAlias m)" "n = fst (remoteProviderMetadataToFleetNode m options u)"
    using assms by (rule imported_made)
  define i where "i = free_candidate (base_id m) (base_id m) 2 u"
  have made: "made_as m (import_network options) i n" using made_node(1) [OF m(1)] m(2) by (simp add: i_def)
  have "slug i" unfolding i_def by (intro slug_intro)
  then have one: "single_line_node n" using made_single_line [OF made _ m(1)] by blast
  then have "single_line (n_connectionRef n)" by simp
  with plan_steps_tagless [OF one] show "list_all (\<lambda>s. \<exists>body. cs_command s = ssh n body \<and>
      remote_stdin (cs_command s) = js_lines body \<and> local_rest (cs_command s) = []) (plan_steps n a)"
    unfolding list_all_iff tagless_def by (metis ssh_stdin ssh_leaves_nothing_iff)
  assume "import_network options = Mainnet \<and> isProdnetObserverMutation a n \<and> find_node fleet (n_id n) = Some n"
  then have a: "import_network options = Mainnet" "isProdnetObserverMutation a n" "find_node fleet (n_id n) = Some n"
    by blast+
  have "n_trust n = n_trust (defaultNode i Mainnet)" using made a(1) by (simp only: made_as_def)
  then have "tr_artifactDigest (n_trust n) = []" by (simp add: defaultNode_def Let_def)
  moreover have "\<not> js_test digest_re []" by code_simp
  ultimately have "\<not> hasPinnedArtifactDigest n" by (simp add: hasPinnedArtifactDigest_def)
  with a(2) have "trust_notices a n \<noteq> []"
    by (auto simp: trust_notices_def isProdnetObserverMutation_def)
  with a(3) show "cp_blocked (generateRemoteCommandPlan fleet (n_id n) a)" by (rule untrusted_node_blocks)
qed

theorem imported_nodes_plan_safely_witness:
  "\<exists>n. n \<in> set (ir_nodes sample_import) \<and>
     list_all (\<lambda>s. local_rest (cs_command s) = []) (plan_steps n Stop)"
proof -
  have "ir_instances sample_import \<noteq> []" using sample_instances by auto
  then have "ir_nodes sample_import \<noteq> []"
    unfolding sample_import_def import_fields by (metis length_0_conv length_import_nodes)
  then obtain n where n: "n \<in> set (ir_nodes sample_import)" by (metis list.set_intros(1) neq_Nil_conv)
  with imported_nodes_plan_safely [of n "\<lambda>_. None" "\<lambda>_. []" "''name: a1''" sample_provider_options Stop]
  show ?thesis unfolding sample_import_def list_all_iff by blast
qed

text \<open>an import is accepted exactly when the text is not blank, no scan finds a secret, an address, a
  host name, a user or a private path in it, it holds a record, no instance repeats and none is on a host
  of the inventory.\<close>

theorem import_accepted_iff:
  "ir_ok (importRemoteProviderMetadata parse num_str input options) \<longleftrightarrow>
     js_trim input \<noteq> [] \<and>
     \<not> (js_test provider_private_key_re input \<or> js_test provider_token_key_re input) \<and>
     \<not> js_test provider_ipv4_re input \<and> \<not> js_test provider_hostname_re input \<and>
     \<not> (js_test provider_ssh_target_re input \<or> js_test provider_user_field_re input) \<and>
     \<not> js_test provider_private_path_re input \<and>
     fst (parseProviderRecords parse input) \<noteq> [] \<and>
     distinct (map providerInstanceKey (ir_instances (importRemoteProviderMetadata parse num_str input options))) \<and>
     provider_host_ref ` set (ir_instances (importRemoteProviderMetadata parse num_str input options)) \<inter>
       n_hostRef ` set (existing_nodes options) = {}"
proof -
  let ?r = "importRemoteProviderMetadata parse num_str input options"
  have "ir_ok ?r \<longleftrightarrow> ir_issues ?r = [] \<and> ir_nodes ?r \<noteq> []"
    by (simp add: importRemoteProviderMetadata_def Let_def)
  also have "ir_nodes ?r \<noteq> [] \<longleftrightarrow> fst (parseProviderRecords parse input) \<noteq> []"
    unfolding import_fields using instances_Nil_iff [of parse num_str input options]
    by (metis length_0_conv length_import_nodes)
  also have "ir_issues ?r = [] \<longleftrightarrow> providerInputIssues input = [] \<and>
      \<not> (\<not> snd (parseProviderRecords parse input) \<and> js_trim input \<noteq> []) \<and>
      duplicate_instances (map n_hostRef (existing_nodes options)) [] (ir_instances ?r) = []"
    by (simp add: importRemoteProviderMetadata_def Let_def)
  finally show ?thesis
    by (auto simp: providerInputIssues_Nil duplicate_instances_Nil parsed_iff)
qed

end
