(* ===== verification/NodeProfiles.thy ===== *)
theory NodeProfiles
  imports Networks JsText
begin

text \<open>
  What a profile selection switches on in the monolithic node, and how its components and ports
  are read back: electron/lib/monolith-profile-plan.ts, electron/lib/component-health.ts,
  electron/lib/runtime-listen.ts and the component lists of electron/lib/constants.ts.

  Feature flags are the list of own properties of the JavaScript object, in insertion order. The
  configuration file behind runtime-listen.ts is an argument: \<open>doc\<close> is what the YAML parser
  makes of it, \<open>JUndefined\<close> when the file is missing or cannot be read.

  Main results: every plan sets each of the ten component flags once, keeps the four core
  components on and produces blocks only for a producer selection (\<open>feature_plan_flags\<close>);
  two profile lists match exactly when they hold the same trimmed profiles, in any order
  (\<open>profiles_match_iff\<close>); a multiaddress is read back as the host and port it was written
  from (\<open>listen_address_round_trip\<close>).
\<close>

section \<open>Components\<close>

definition monolith_components :: "string list" where
  "monolith_components =
     [''chain'', ''mempool'', ''block_store'', ''p2p'', ''block_producer'', ''jsonrpc'', ''grpc'',
      ''transaction_store'', ''contract_meta_store'', ''account_history'']"

definition monolith_core_components :: "string list" where
  "monolith_core_components = [''chain'', ''mempool'', ''block_store'', ''p2p'']"

definition monolith_optional_components :: "string list" where
  "monolith_optional_components =
     [''block_producer'', ''jsonrpc'', ''grpc'', ''transaction_store'', ''contract_meta_store'',
      ''account_history'']"

section \<open>Feature flags\<close>

type_synonym flags = "(string \<times> bool) list"

definition monolith_observer_features :: flags where
  "monolith_observer_features =
     [(''chain'', True), (''mempool'', True), (''block_store'', True), (''p2p'', True),
      (''jsonrpc'', True), (''grpc'', False), (''block_producer'', False),
      (''contract_meta_store'', False), (''transaction_store'', False), (''account_history'', False)]"

definition monolith_producer_features :: flags where
  "monolith_producer_features =
     js_put_all monolith_observer_features [(''block_producer'', True), (''contract_meta_store'', True)]"

definition monolith_full_node_features :: flags where
  "monolith_full_node_features =
     js_put_all monolith_observer_features
       [(''grpc'', True), (''contract_meta_store'', True), (''transaction_store'', True),
        (''account_history'', True)]"

definition monolith_custom_advanced_features :: flags where
  "monolith_custom_advanced_features =
     js_put_all monolith_observer_features
       [(''grpc'', True), (''contract_meta_store'', True), (''transaction_store'', True),
        (''account_history'', True)]"

definition normalizeProfileList :: "string list \<Rightarrow> string list" where
  "normalizeProfileList profiles = js_sort (filter (\<lambda>p. p \<noteq> []) (map js_trim profiles))"

definition monolithProfilesMatch :: "string list \<Rightarrow> string list \<Rightarrow> bool" where
  "monolithProfilesMatch left right =
     (let normalizedLeft = normalizeProfileList left;
          normalizedRight = normalizeProfileList right
      in if length normalizedLeft \<noteq> length normalizedRight then False
         else list_all (\<lambda>(profile, other). profile = other) (zip normalizedLeft normalizedRight))"

text \<open>The argument is a preset id or a list of profiles.\<close>

fun preset_id_of :: "string + string list \<Rightarrow> string" where
  "preset_id_of (Inl presetId) = presetId"
| "preset_id_of (Inr profiles) = js_join '','' profiles"

definition put_if :: "bool \<Rightarrow> string \<Rightarrow> flags \<Rightarrow> flags" where
  "put_if b k fs = (if b then js_put k True fs else fs)"

text \<open>The flags of a selection that names none of the presets.\<close>

definition piecewise_flags :: "string \<Rightarrow> flags" where
  "piecewise_flags presetId =
     (let cores = foldl (\<lambda>fs c. js_put c True fs) [] [''chain'', ''mempool'', ''block_store'', ''p2p''];
          base = foldl (\<lambda>fs c. js_put c False fs) cores
            [''block_producer'', ''jsonrpc'', ''grpc'', ''transaction_store'', ''contract_meta_store'', ''account_history''];
          producer = (if js_includes presetId ''block_producer''
            then js_put ''contract_meta_store'' True (js_put ''jsonrpc'' True (js_put ''block_producer'' True base))
            else base)
      in put_if (js_includes presetId ''account_history'') ''account_history''
         (put_if (js_includes presetId ''contract_meta_store'') ''contract_meta_store''
         (put_if (js_includes presetId ''transaction_store'') ''transaction_store''
         (put_if (js_includes presetId ''grpc'') ''grpc''
         (put_if (js_includes presetId ''jsonrpc'') ''jsonrpc'' producer)))))"

definition presetToFeatureFlags :: "string + string list \<Rightarrow> flags" where
  "presetToFeatureFlags presetIdOrProfiles =
     (let presetId = preset_id_of presetIdOrProfiles
      in if js_includes presetId ''mainnet_observer'' \<or> js_includes presetId ''testnet_observer''
         then monolith_observer_features
         else if js_includes presetId ''full_node'' then monolith_full_node_features
         else if js_includes presetId ''block_producer'' \<or> js_includes presetId ''testnet_producer'' \<or>
                 js_includes presetId ''producer'' then monolith_producer_features
         else if js_includes presetId ''custom_advanced'' then monolith_custom_advanced_features
         else piecewise_flags presetId)"

section \<open>Presets\<close>

record preset =
  ps_id :: string
  ps_label :: string
  ps_network :: network
  ps_source :: string
  ps_profiles :: "string list"
  ps_services :: "string list"
  ps_featureFlags :: flags
  ps_configPatch :: "(string list \<times> jsval) list option"
  ps_description :: string

text \<open>The two settings a plan depends on.\<close>

record profile_settings =
  se_network :: network
  se_profiles :: "string list"

definition str_list :: "string list \<Rightarrow> jsval" where
  "str_list xs = JArr (map JStr xs)"

definition num :: "nat \<Rightarrow> jsval" where
  "num k = JNum (Fin (of_nat k))"

text \<open>The configuration patch of the mainnet presets that acquire peers, and of the testnet ones.\<close>

definition mainnet_peer_patch :: "(string list \<times> jsval) list" where
  "mainnet_peer_patch =
     [([''p2p'', ''peer''], str_list mainnet_peer_addresses),
      ([''p2p'', ''listen''], JStr (np_p2pListen (resolveNetworkProfile (JStr ''mainnet'') None))),
      ([''p2p'', ''seed-reconnect-interval-seconds''], num 60),
      ([''p2p'', ''peer-discovery''], JBool True),
      ([''p2p'', ''target-peer-count''], num 20),
      ([''p2p'', ''max-peer-candidates''], num 200),
      ([''p2p'', ''max-candidate-dials-per-cycle''], num 3),
      ([''p2p'', ''peer-acquisition-interval-seconds''], num 5),
      ([''p2p'', ''candidate-redial-interval-seconds''], num 60),
      ([''p2p'', ''peer-log-interval-seconds''], num 60),
      ([''jsonrpc'', ''listen''], JStr (np_jsonrpcListen (resolveNetworkProfile (JStr ''mainnet'') None)))]"

definition mainnet_producer_patch :: "(string list \<times> jsval) list" where
  "mainnet_producer_patch =
     [([''p2p'', ''peer''], str_list mainnet_peer_addresses),
      ([''p2p'', ''listen''], JStr (np_p2pListen (resolveNetworkProfile (JStr ''mainnet'') None))),
      ([''p2p'', ''seed-reconnect-interval-seconds''], num 60),
      ([''p2p'', ''peer-log-interval-seconds''], num 60),
      ([''jsonrpc'', ''listen''], JStr (np_jsonrpcListen (resolveNetworkProfile (JStr ''mainnet'') None)))]"

definition testnet_patch :: "(string list \<times> jsval) list" where
  "testnet_patch =
     [([''p2p'', ''peer''], str_list testnet_peer_addresses),
      ([''p2p'', ''listen''], JStr (np_p2pListen (resolveNetworkProfile (JStr ''testnet'') None))),
      ([''p2p'', ''peer-log-interval-seconds''], num 60),
      ([''jsonrpc'', ''listen''], JStr (np_jsonrpcListen (resolveNetworkProfile (JStr ''testnet'') None)))]"

definition all_presets :: "preset list" where
  "all_presets =
     [\<lparr>ps_id = ''profile:mainnet_observer'', ps_label = ''Mainnet Seed'', ps_network = Mainnet,
       ps_source = ''features'', ps_profiles = [''mainnet_observer''], ps_services = [''teleno-node''],
       ps_featureFlags = monolith_observer_features, ps_configPatch = Some mainnet_peer_patch,
       ps_description = ''Mainnet seed with P2P and local JSON-RPC enabled; block production disabled.''\<rparr>,
      \<lparr>ps_id = ''profile:testnet_observer'', ps_label = ''Testnet Seed'', ps_network = Testnet,
       ps_source = ''features'', ps_profiles = [''testnet_observer''], ps_services = [''teleno-node''],
       ps_featureFlags = monolith_observer_features, ps_configPatch = Some testnet_patch,
       ps_description = ''Public testnet seed using the Koinos Foundation testnet peer and local testnet ports.''\<rparr>,
      \<lparr>ps_id = ''profile:mainnet_full_node'', ps_label = ''Mainnet Full Node'', ps_network = Mainnet,
       ps_source = ''features'', ps_profiles = [''mainnet_full_node''], ps_services = [''teleno-node''],
       ps_featureFlags = monolith_full_node_features, ps_configPatch = Some mainnet_peer_patch,
       ps_description = ''Mainnet full node with JSON-RPC, gRPC, contract metadata, transaction store, and account history enabled; block production disabled.''\<rparr>,
      \<lparr>ps_id = ''profile:testnet_full_node'', ps_label = ''Testnet Full Node'', ps_network = Testnet,
       ps_source = ''features'', ps_profiles = [''testnet_full_node''], ps_services = [''teleno-node''],
       ps_featureFlags = monolith_full_node_features, ps_configPatch = Some testnet_patch,
       ps_description = ''Testnet full node with JSON-RPC, gRPC, contract metadata, transaction store, and account history enabled; block production disabled.''\<rparr>,
      \<lparr>ps_id = ''profile:block_producer'', ps_label = ''Mainnet Producer'', ps_network = Mainnet,
       ps_source = ''features'', ps_profiles = [''block_producer''], ps_services = [''teleno-node''],
       ps_featureFlags = monolith_producer_features, ps_configPatch = Some mainnet_producer_patch,
       ps_description = ''Mainnet producer mode. Producer address and key material are managed from the Producer tab.''\<rparr>,
      \<lparr>ps_id = ''profile:testnet_producer'', ps_label = ''Testnet Producer'', ps_network = Testnet,
       ps_source = ''features'', ps_profiles = [''testnet_producer''], ps_services = [''teleno-node''],
       ps_featureFlags = monolith_producer_features, ps_configPatch = Some testnet_patch,
       ps_description = ''Testnet producer preset for local validation; block production must still be configured explicitly.''\<rparr>,
      \<lparr>ps_id = ''profile:custom_advanced'', ps_label = ''Custom Advanced'', ps_network = Custom,
       ps_source = ''features'', ps_profiles = [''custom_advanced''], ps_services = [''teleno-node''],
       ps_featureFlags = monolith_custom_advanced_features, ps_configPatch = None,
       ps_description = ''Advanced operator preset with optional query/index services enabled and block production disabled.''\<rparr>]"

definition buildProfilePresets :: "profile_settings \<Rightarrow> preset list" where
  "buildProfilePresets settings = filter (\<lambda>p. ps_network p = se_network settings) all_presets"

record feature_plan =
  fp_preset :: "preset option"
  fp_featureFlags :: flags
  fp_configPatch :: "(string list \<times> jsval) list option"

definition monolithFeaturePlanForSettings :: "profile_settings \<Rightarrow> feature_plan" where
  "monolithFeaturePlanForSettings settings =
     (let preset = find (\<lambda>p. monolithProfilesMatch (ps_profiles p) (se_profiles settings))
            (buildProfilePresets settings)
      in \<lparr>fp_preset = preset,
          fp_featureFlags = (case preset of Some p \<Rightarrow> ps_featureFlags p
                             | None \<Rightarrow> presetToFeatureFlags (Inr (se_profiles settings))),
          fp_configPatch = (case preset of Some p \<Rightarrow> ps_configPatch p | None \<Rightarrow> None)\<rparr>)"

section \<open>Component health\<close>

datatype component_state = CsRunning | CsPassive | CsWaiting | CsDisabled | CsStopped

record component_health =
  ch_name :: string
  ch_enabled :: bool
  ch_healthy :: bool
  ch_state :: component_state
  ch_details :: string

definition monolith_passive_components :: "string list" where
  "monolith_passive_components =
     [''mempool'', ''transaction_store'', ''contract_meta_store'', ''account_history'']"

record health_input =
  hi_output :: string
  hi_isRunning :: bool
  hi_featureFlags :: "flags option"
  hi_disabledFeatures :: "string list"

definition component_enabled :: "health_input \<Rightarrow> string \<Rightarrow> bool" where
  "component_enabled input name =
     (case Option.bind (hi_featureFlags input) (\<lambda>fs. map_of fs name) of
        Some b \<Rightarrow> b
      | None \<Rightarrow> name \<notin> set (hi_disabledFeatures input))"

definition component_health_of :: "health_input \<Rightarrow> string \<Rightarrow> component_health" where
  "component_health_of input name =
     (let enabled = component_enabled input name
      in if \<not> enabled then
           \<lparr>ch_name = name, ch_enabled = enabled, ch_healthy = False, ch_state = CsDisabled, ch_details = ''Disabled''\<rparr>
         else if \<not> hi_isRunning input then
           \<lparr>ch_name = name, ch_enabled = enabled, ch_healthy = False, ch_state = CsStopped, ch_details = ''Stopped''\<rparr>
         else if js_includes (hi_output input) (''['' @ name @ '']'') then
           \<lparr>ch_name = name, ch_enabled = enabled, ch_healthy = True, ch_state = CsRunning, ch_details = ''Running''\<rparr>
         else if name \<in> set monolith_passive_components then
           \<lparr>ch_name = name, ch_enabled = enabled, ch_healthy = True, ch_state = CsPassive, ch_details = ''Enabled''\<rparr>
         else
           \<lparr>ch_name = name, ch_enabled = enabled, ch_healthy = False, ch_state = CsWaiting, ch_details = ''Waiting...''\<rparr>)"

definition deriveMonolithComponentHealth :: "health_input \<Rightarrow> component_health list" where
  "deriveMonolithComponentHealth input =
     map (component_health_of input) (monolith_core_components @ monolith_optional_components)"

section \<open>Listen endpoints\<close>

record listen_endpoint =
  le_host :: "string option"
  le_port :: "nat option"
  le_protocol :: string
  le_raw :: string

text \<open>\<open>Number(undefined)\<close> is not a number.\<close>

definition parsePort :: "string option \<Rightarrow> nat option" where
  "parsePort value =
     (case value of
        None \<Rightarrow> None
      | Some s \<Rightarrow>
          (case js_to_number s of
             Fin r \<Rightarrow> if r = of_int \<lfloor>r\<rfloor> \<and> 0 < r \<and> r \<le> 65535 then Some (nat \<lfloor>r\<rfloor>) else None
           | _ \<Rightarrow> None))"

definition host_keys :: "string list" where
  "host_keys = [''ip4'', ''ip6'', ''dns4'', ''dns6'']"

definition host_port_re :: re where
  "host_port_re = seqs [Bol, opt (chr (CHR ''['')), Grp 1 (plus (none_of '']'')), opt (chr (CHR '']'')),
     chr (CHR '':''), Grp 2 (plus digit), Eol]"

definition parseListenEndpoint :: "jsval \<Rightarrow> string \<Rightarrow> string option \<Rightarrow> string \<Rightarrow> listen_endpoint" where
  "parseListenEndpoint value fallbackRaw fallbackHost protocol =
     (let raw = js_trim (case value of
                  JStr s \<Rightarrow> if js_trim s \<noteq> [] then js_trim s else fallbackRaw
                | _ \<Rightarrow> fallbackRaw);
          parts = filter (\<lambda>p. p \<noteq> []) (js_split (CHR ''/'') raw)
      in case js_find_index (\<lambda>p. p = ''tcp'') parts of
           Some tcpIndex \<Rightarrow>
             \<lparr>le_host = (case js_find_index (\<lambda>p. p \<in> set host_keys) parts of
                 Some k \<Rightarrow> (case js_nth parts (k + 1) of Some h \<Rightarrow> Some h | None \<Rightarrow> fallbackHost)
               | None \<Rightarrow> fallbackHost),
              le_port = parsePort (js_nth parts (tcpIndex + 1)),
              le_protocol = protocol, le_raw = raw\<rparr>
         | None \<Rightarrow>
             (case js_exec host_port_re raw of
                Some m \<Rightarrow>
                  \<lparr>le_host = (if cap 1 (match_caps m) \<noteq> [] then Some (cap 1 (match_caps m)) else fallbackHost),
                   le_port = parsePort (Some (cap 2 (match_caps m))),
                   le_protocol = protocol, le_raw = raw\<rparr>
              | None \<Rightarrow>
                  \<lparr>le_host = fallbackHost, le_port = parsePort (Some raw),
                   le_protocol = protocol, le_raw = raw\<rparr>))"

text \<open>Walking down the parsed configuration; a value that is no object ends the walk.\<close>

fun readConfigValue :: "jsval \<Rightarrow> string list \<Rightarrow> jsval" where
  "readConfigValue node [] = node"
| "readConfigValue node (part # parts) =
     (case node of
        JObj ps \<Rightarrow> readConfigValue (js_prop part node) parts
      | JArr vs \<Rightarrow> readConfigValue (js_prop part node) parts
      | _ \<Rightarrow> JUndefined)"

definition normalizeConnectHost :: "string option \<Rightarrow> string" where
  "normalizeConnectHost host =
     (case host of
        None \<Rightarrow> ''127.0.0.1''
      | Some h \<Rightarrow> if h = [] \<or> h = ''0.0.0.0'' \<or> h = ''::'' then ''127.0.0.1'' else h)"

record listen_ports =
  lp_jsonrpc :: listen_endpoint
  lp_p2p :: listen_endpoint

definition resolveRuntimeListenPorts :: "jsval \<Rightarrow> jsval \<Rightarrow> listen_ports" where
  "resolveRuntimeListenPorts net doc =
     (let profile = resolveNetworkProfile net None
      in \<lparr>lp_jsonrpc = parseListenEndpoint (readConfigValue doc [''jsonrpc'', ''listen''])
            (np_jsonrpcListen profile) (Some ''127.0.0.1'') ''tcp'',
          lp_p2p = parseListenEndpoint (readConfigValue doc [''p2p'', ''listen''])
            (np_p2pListen profile) (Some ''0.0.0.0'') ''tcp''\<rparr>)"

section \<open>Updating flags\<close>

lemma map_of_js_put [simp]: "map_of (js_put k v ps) k' = (if k' = k then Some v else map_of ps k')"
  by (induction k v ps rule: js_put.induct) auto

lemma keys_js_put [simp]: "k \<in> fst ` set ps \<Longrightarrow> map fst (js_put k v ps) = map fst ps"
  by (induction k v ps rule: js_put.induct) (auto simp: rev_image_eqI)

lemma map_of_put_if [simp]:
  "map_of (put_if b k fs) k' = (if b \<and> k' = k then Some True else map_of fs k')"
  by (simp add: put_if_def)

lemma keys_put_if [simp]: "k \<in> fst ` set fs \<Longrightarrow> map fst (put_if b k fs) = map fst fs"
  by (simp add: put_if_def)

text \<open>The shape every flag object has: the ten components once each, the core on.\<close>

definition component_flags :: "bool \<Rightarrow> flags \<Rightarrow> bool" where
  "component_flags producing fs \<longleftrightarrow>
     distinct (map fst fs) \<and> set (map fst fs) = set monolith_components \<and>
     list_all (\<lambda>c. map_of fs c = Some True) monolith_core_components \<and>
     map_of fs ''block_producer'' = Some producing"

lemma preset_flags:
  "component_flags False monolith_observer_features" "component_flags False monolith_full_node_features"
  "component_flags True monolith_producer_features" "component_flags False monolith_custom_advanced_features"
  by code_simp+

definition piecewise_base :: flags where
  "piecewise_base = foldl (\<lambda>fs c. js_put c False fs)
     (foldl (\<lambda>fs c. js_put c True fs) [] [''chain'', ''mempool'', ''block_store'', ''p2p''])
     [''block_producer'', ''jsonrpc'', ''grpc'', ''transaction_store'', ''contract_meta_store'', ''account_history'']"

lemma piecewise_base: "component_flags False piecewise_base"
  by code_simp

lemma component_flags_put_if:
  assumes "component_flags b fs" "k \<in> set monolith_components" "k \<noteq> ''block_producer''"
  shows "component_flags b (put_if c k fs)"
proof -
  have "k \<in> fst ` set fs" using assms by (auto simp: component_flags_def)
  with assms show ?thesis by (auto simp: component_flags_def list_all_iff)
qed

lemma piecewise_flags:
  assumes "\<not> js_includes presetId ''block_producer''"
  shows "component_flags False (piecewise_flags presetId)"
proof -
  have names: "''jsonrpc'' \<in> set monolith_components" "''grpc'' \<in> set monolith_components"
    "''transaction_store'' \<in> set monolith_components" "''contract_meta_store'' \<in> set monolith_components"
    "''account_history'' \<in> set monolith_components"
    by code_simp+
  show ?thesis
    unfolding piecewise_flags_def Let_def piecewise_base_def [symmetric] if_not_P [OF assms]
    by (intro component_flags_put_if piecewise_base names) simp_all
qed

definition producer_selection :: "string \<Rightarrow> bool" where
  "producer_selection presetId \<longleftrightarrow>
     js_includes presetId ''producer'' \<and> \<not> js_includes presetId ''mainnet_observer'' \<and>
     \<not> js_includes presetId ''testnet_observer'' \<and> \<not> js_includes presetId ''full_node''"

lemma producer_words:
  "js_includes s ''block_producer'' \<Longrightarrow> js_includes s ''producer''"
  "js_includes s ''testnet_producer'' \<Longrightarrow> js_includes s ''producer''"
  by (erule includes_trans, code_simp)+

lemma presetToFeatureFlags_shape:
  "component_flags (producer_selection (preset_id_of x)) (presetToFeatureFlags x)"
  using preset_flags piecewise_flags producer_words [of "preset_id_of x"]
  by (auto simp: presetToFeatureFlags_def Let_def producer_selection_def)

definition producer_presets :: "string list" where
  "producer_presets = [''profile:block_producer'', ''profile:testnet_producer'']"

lemma all_presets_shape:
  "p \<in> set all_presets \<Longrightarrow> component_flags (ps_id p \<in> set producer_presets) (ps_featureFlags p)"
  using preset_flags by (auto simp: all_presets_def producer_presets_def)

section \<open>Profile lists\<close>

lemma normalized_eq_iff:
  "normalizeProfileList l = normalizeProfileList r \<longleftrightarrow>
     mset (filter (\<lambda>p. p \<noteq> []) (map js_trim l)) = mset (filter (\<lambda>p. p \<noteq> []) (map js_trim r))"
  by (simp add: normalizeProfileList_def js_sort_eq_iff)

lemma zip_all_eq: "length xs = length ys \<Longrightarrow> list_all (\<lambda>(x, y). x = y) (zip xs ys) \<longleftrightarrow> xs = ys"
  by (induction xs ys rule: list_induct2) auto

lemma monolithProfilesMatch_iff_eq: "monolithProfilesMatch l r \<longleftrightarrow> normalizeProfileList l = normalizeProfileList r"
  using zip_all_eq by (auto simp: monolithProfilesMatch_def Let_def)

section \<open>Health and ports\<close>

text \<open>A component reported healthy is enabled and the node runs; the list covers the ten
  components in order.\<close>

lemma healthy_component:
  "c \<in> set (deriveMonolithComponentHealth input) \<Longrightarrow> ch_healthy c \<Longrightarrow> ch_enabled c \<and> hi_isRunning input"
  by (auto simp: deriveMonolithComponentHealth_def component_health_of_def Let_def split: if_splits)

lemma health_covers_components: "map ch_name (deriveMonolithComponentHealth input) = monolith_components"
proof -
  have "ch_name (component_health_of input c) = c" for c
    by (simp add: component_health_of_def Let_def)
  then have "map ch_name (deriveMonolithComponentHealth input) = monolith_core_components @ monolith_optional_components"
    by (simp add: deriveMonolithComponentHealth_def comp_def)
  also have "\<dots> = monolith_components" by code_simp
  finally show ?thesis .
qed

lemma parsePort_range: "parsePort v = Some p \<Longrightarrow> 1 \<le> p \<and> p \<le> 65535"
proof (cases v)
  case (Some s)
  assume "parsePort v = Some p"
  with Some obtain r :: rat where r: "r = of_int \<lfloor>r\<rfloor>" "0 < r" "r \<le> 65535" "p = nat \<lfloor>r\<rfloor>"
    by (auto simp: parsePort_def split: jsnum.splits if_splits)
  then have "0 < (of_int \<lfloor>r\<rfloor> :: rat)" "(of_int \<lfloor>r\<rfloor> :: rat) \<le> 65535" by simp_all
  then have z: "0 < \<lfloor>r\<rfloor>" "\<lfloor>r\<rfloor> \<le> 65535" by simp_all
  have "1 \<le> nat z \<and> nat z \<le> 65535" if "0 < z" "z \<le> 65535" for z :: int using that by auto
  from this [OF z] r(4) show ?thesis by simp
qed (simp add: parsePort_def)

lemma parsePort_nat: "1 \<le> p \<Longrightarrow> p \<le> 65535 \<Longrightarrow> parsePort (Some (js_nat p)) = Some p"
  by (simp add: parsePort_def js_to_number_nat)

section \<open>Properties\<close>

text \<open>the feature flags of a plan name each of the ten components exactly once, keep the four core
  components on, and switch block production on exactly for a producer preset or, without a matching
  preset, for a selection that mentions a producer and neither an observer nor a full node.\<close>

theorem feature_plan_flags:
  "component_flags
     (case fp_preset (monolithFeaturePlanForSettings settings) of
        Some p \<Rightarrow> ps_id p \<in> set producer_presets
      | None \<Rightarrow> producer_selection (js_join '','' (se_profiles settings)))
     (fp_featureFlags (monolithFeaturePlanForSettings settings))"
proof (cases "fp_preset (monolithFeaturePlanForSettings settings)")
  case None
  with presetToFeatureFlags_shape [of "Inr (se_profiles settings)"] show ?thesis
    by (simp add: monolithFeaturePlanForSettings_def Let_def)
next
  case (Some p)
  then have "p \<in> set all_presets"
    by (auto simp: monolithFeaturePlanForSettings_def Let_def buildProfilePresets_def find_Some_iff)
      (metis (no_types, lifting) filter_is_subset nth_mem subsetD)
  with all_presets_shape Some show ?thesis
    by (simp add: monolithFeaturePlanForSettings_def Let_def)
qed

text \<open>Two profile lists match exactly when they hold the same profiles the same number of times,
  whatever their order, the blanks around them and the blank entries.\<close>

theorem profiles_match_iff:
  "monolithProfilesMatch left right \<longleftrightarrow>
     mset (filter (\<lambda>p. p \<noteq> []) (map js_trim left)) = mset (filter (\<lambda>p. p \<noteq> []) (map js_trim right))"
  by (simp add: monolithProfilesMatch_iff_eq normalized_eq_iff)

text \<open>a configured multiaddress is read back as the host and the port it was written from.\<close>

theorem listen_address_round_trip:
  assumes "host \<noteq> []" "CHR ''/'' \<notin> set host" "host \<noteq> ''tcp''" "1 \<le> port" "port \<le> 65535"
  shows "parseListenEndpoint (JStr (''/ip4/'' @ host @ ''/tcp/'' @ js_nat port)) fallback fallbackHost protocol =
    \<lparr>le_host = Some host, le_port = Some port, le_protocol = protocol,
     le_raw = ''/ip4/'' @ host @ ''/tcp/'' @ js_nat port\<rparr>"
proof -
  let ?raw = "''/ip4/'' @ host @ ''/tcp/'' @ js_nat port"
  have ne: "js_nat port \<noteq> []" by (subst js_nat.simps) simp
  have digits: "\<forall>c \<in> set (js_nat port). is_digit c" by (rule js_nat_digits)
  then have slash: "CHR ''/'' \<notin> set (js_nat port)" by (auto simp: is_digit_def cu_def)
  have "is_digit (last (js_nat port))" using digits ne by simp
  then have "\<not> is_space (last ?raw)" using ne by (auto simp: is_digit_def is_space_def)
  moreover have "\<not> is_space (hd ?raw)" by (simp add: is_space_def cu_def)
  ultimately have trim: "js_trim ?raw = ?raw"
    using dropWhile_eq_self_iff [of is_space ?raw] dropWhile_eq_self_iff [of is_space "rev ?raw"]
    by (simp add: js_trim_def hd_rev del: rev_append)
  have "js_split (CHR ''/'') ?raw = [[], ''ip4'', host, ''tcp'', js_nat port]"
    using js_split_append [OF assms(2), of "''tcp/'' @ js_nat port"] js_split_single [OF slash] by simp
  with ne assms have parts: "filter (\<lambda>p. p \<noteq> []) (js_split (CHR ''/'') ?raw) = [''ip4'', host, ''tcp'', js_nat port]"
    by simp
  have "?raw \<noteq> []" by simp
  then have raw_value: "js_trim (if js_trim ?raw \<noteq> [] then js_trim ?raw else fallback) = ?raw"
    by (simp only: trim if_True not_False_eq_True)
  have tcp: "js_find_index (\<lambda>p. p = ''tcp'') [''ip4'', host, ''tcp'', js_nat port] = Some 2"
    using assms(3) by (simp add: numeral_2_eq_2)
  have key: "js_find_index (\<lambda>p. p \<in> set host_keys) [''ip4'', host, ''tcp'', js_nat port] = Some 0"
    by (simp add: host_keys_def)
  show ?thesis
    unfolding parseListenEndpoint_def jsval.case Let_def raw_value parts tcp key option.case
    using parsePort_nat [OF assms(4,5)] by (simp add: js_nth_def)
qed

theorem listen_address_round_trip_witness:
  "le_port (parseListenEndpoint (JStr ''/ip4/0.0.0.0/tcp/80'') [] None ''tcp'') = Some 80"
proof -
  have "js_nat 80 = ''80''" by code_simp
  with listen_address_round_trip [of "''0.0.0.0''" 80 "[]" None "''tcp''"] show ?thesis by simp
qed

end
