(* ===== verification/LogFilters.thy ===== *)
theory LogFilters
  imports JsText
begin

text \<open>
  Reading and filtering the node's log in the renderer, src/app/log-filters.ts: the level and the
  component of a line, the filter that keeps the continuation lines of a kept entry, and the list
  of components to choose from.

  Main result (\<open>log_filter_keeps_entries\<close>): a line is kept exactly when it, or the nearest
  earlier matching line with nothing but continuation lines after it, passes the filters.
\<close>

section \<open>Levels\<close>

datatype log_level = LAll | LTrace | LDebug | LInfo | LWarn | LError | LFatal

fun level_str :: "log_level \<Rightarrow> string" where
  "level_str LAll = ''all''"
| "level_str LTrace = ''trace''"
| "level_str LDebug = ''debug''"
| "level_str LInfo = ''info''"
| "level_str LWarn = ''warn''"
| "level_str LError = ''error''"
| "level_str LFatal = ''fatal''"

definition log_level_filters :: "log_level list" where
  "log_level_filters = [LAll, LTrace, LDebug, LInfo, LWarn, LError, LFatal]"

definition default_log_component_filters :: "string list" where
  "default_log_component_filters =
     [''chain'', ''mempool'', ''block_store'', ''p2p'', ''block_producer'', ''jsonrpc'', ''grpc'',
      ''transaction_store'', ''contract_meta_store'', ''account_history'', ''controller'', ''db'',
      ''metrics'', ''node'']"

fun logLevelRank :: "log_level \<Rightarrow> nat" where
  "logLevelRank LAll = 0"
| "logLevelRank LTrace = 1"
| "logLevelRank LDebug = 2"
| "logLevelRank LInfo = 3"
| "logLevelRank LWarn = 4"
| "logLevelRank LError = 5"
| "logLevelRank LFatal = 6"

section \<open>Patterns\<close>

definition logLevelPattern :: re where
  "logLevelPattern = seqs [chr (CHR ''<''), Star space,
     Grp 1 (alts (map lit_i [''trace'', ''debug'', ''info'', ''warn'', ''warning'', ''error'', ''fatal'', ''critical''])),
     Star space, chr (CHR ''>''), Star space, opt (chr (CHR '':'')), Star space]"

definition component_name :: re where
  "component_name = Seq (Cls is_alpha) (between 0 63 (Cls (\<lambda>c. is_word c \<or> c = CHR ''-'')))"

definition componentTagPattern :: re where
  "componentTagPattern = seqs [chr (CHR ''[''), Grp 1 component_name, chr (CHR '']'')]"

definition processComponentPattern :: re where
  "processComponentPattern = seqs [chr (CHR ''(''), Grp 1 component_name,
     opt (Seq (chr (CHR ''.'')) (plus (none_of '')''))), chr (CHR '')'')]"

definition code_between :: "nat \<Rightarrow> nat \<Rightarrow> re" where
  "code_between a b = Cls (\<lambda>c. a \<le> cu c \<and> cu c \<le> b)"

definition ansiEscapePattern :: re where
  "ansiEscapePattern = seqs [chr (CHR 0x1B), chr (CHR ''[''), Star (code_between 48 63),
     Star (code_between 32 47), code_between 64 126]"

definition line_date_re :: re where
  "line_date_re = seqs [Bol, copies 4 digit, chr (CHR ''-''), copies 2 digit, chr (CHR ''-''), copies 2 digit, WordB]"

definition line_break_re :: re where
  "line_break_re = Seq (opt (chr (CHR 0x0D))) (chr (CHR 0x0A))"

section \<open>One line\<close>

definition stripAnsi :: "string \<Rightarrow> string" where
  "stripAnsi s = js_replace_all ansiEscapePattern (\<lambda>_ _. []) s"

definition normalizeLevel :: "string \<Rightarrow> log_level" where
  "normalizeLevel value =
     (let normalized = js_lower (js_trim value)
      in if normalized = ''warning'' then LWarn
         else if normalized = ''critical'' then LFatal
         else case find (\<lambda>l. level_str l = normalized) log_level_filters of
                Some l \<Rightarrow> l
              | None \<Rightarrow> LInfo)"

definition normalizeComponent :: "string \<Rightarrow> string" where
  "normalizeComponent value = js_lower (js_trim value)"

definition parseLogLineLevel :: "string \<Rightarrow> log_level option" where
  "parseLogLineLevel line =
     (case js_exec logLevelPattern (stripAnsi line) of
        None \<Rightarrow> None
      | Some m \<Rightarrow> if cap 1 (match_caps m) \<noteq> [] then Some (normalizeLevel (cap 1 (match_caps m))) else None)"

fun first_tag :: "caps list \<Rightarrow> string option" where
  "first_tag [] = None"
| "first_tag (cs # css) =
     (if js_includes (cap 1 cs) ''.'' \<or> js_includes (cap 1 cs) '':'' then first_tag css
      else Some (normalizeComponent (cap 1 cs)))"

text \<open>The component tag is searched after the level, and the process name only without one.\<close>

definition parseLogLineComponent :: "string \<Rightarrow> string option" where
  "parseLogLineComponent line =
     (let plainLine = stripAnsi line;
          searchText = (case js_exec logLevelPattern plainLine of
                          None \<Rightarrow> plainLine
                        | Some m \<Rightarrow> rest (snd m))
      in case first_tag (js_match_all componentTagPattern searchText) of
           Some c \<Rightarrow> Some c
         | None \<Rightarrow>
             (let processComponent = (case js_exec processComponentPattern plainLine of
                     None \<Rightarrow> []
                   | Some m \<Rightarrow> if cap 1 (match_caps m) \<noteq> [] then normalizeComponent (cap 1 (match_caps m)) else [])
              in if processComponent \<noteq> [] \<and> processComponent \<noteq> ''teleno_node''
                 then Some processComponent else None))"

record line_match =
  lm_matches :: bool
  lm_hasMetadata :: bool

definition lineMatchesFilters :: "log_level \<Rightarrow> string \<Rightarrow> string \<Rightarrow> line_match" where
  "lineMatchesFilters levelFilter componentFilter line =
     (let level = parseLogLineLevel line;
          component = parseLogLineComponent line;
          plainLine = stripAnsi line;
          levelMatches = (levelFilter = LAll \<or>
            (case level of None \<Rightarrow> False | Some l \<Rightarrow> logLevelRank levelFilter \<le> logLevelRank l));
          componentMatches = (componentFilter = ''all'' \<or> component = Some componentFilter)
      in \<lparr>lm_matches = (levelMatches \<and> componentMatches),
          lm_hasMetadata = (level \<noteq> None \<or> component \<noteq> None \<or> js_test line_date_re plainLine)\<rparr>)"

section \<open>The filter\<close>

text \<open>The flag is \<open>previousLineMatched\<close> before the line.\<close>

fun filter_lines :: "(string \<Rightarrow> line_match) \<Rightarrow> bool \<Rightarrow> string list \<Rightarrow> string list" where
  "filter_lines m previous [] = []"
| "filter_lines m previous (line # lines) =
     (if lm_matches (m line) then line # filter_lines m True lines
      else if \<not> lm_hasMetadata (m line) \<and> previous then line # filter_lines m previous lines
      else filter_lines m False lines)"

definition filterLogOutput :: "string \<Rightarrow> log_level \<Rightarrow> string \<Rightarrow> string" where
  "filterLogOutput output levelFilter component =
     (let componentFilter = normalizeComponent (js_or component ''all'')
      in if output = [] \<or> (levelFilter = LAll \<and> componentFilter = ''all'') then output
         else js_join nl (filter_lines (lineMatchesFilters levelFilter componentFilter) False
                (js_split_re line_break_re output)))"

definition listLogComponents :: "string \<Rightarrow> string list \<Rightarrow> string list" where
  "listLogComponents output knownComponents =
     (let known = filter (\<lambda>c. c \<noteq> [] \<and> c \<noteq> ''all'') (map normalizeComponent knownComponents);
          discovered = js_unique (filter (\<lambda>c. c \<noteq> [] \<and> c \<notin> set known)
            (List.map_filter parseLogLineComponent (js_split_re line_break_re output)))
      in ''all'' # js_unique known @ js_sort discovered)"

section \<open>Which lines are kept\<close>

text \<open>The lines kept from a list: those that match, and those with only continuation lines between
  them and a matching line (or, when the previous text matched, the start).\<close>

definition kept_indices :: "(string \<Rightarrow> line_match) \<Rightarrow> bool \<Rightarrow> string list \<Rightarrow> nat set" where
  "kept_indices m previous lines =
     {i. i < length lines \<and>
        ((\<exists>j \<le> i. lm_matches (m (lines ! j)) \<and> (\<forall>k. j < k \<and> k \<le> i \<longrightarrow> \<not> lm_hasMetadata (m (lines ! k)))) \<or>
         (previous \<and> (\<forall>k \<le> i. \<not> lm_hasMetadata (m (lines ! k)))))}"

lemma all_Suc_le: "(\<forall>k \<le> Suc i. P k) \<longleftrightarrow> P 0 \<and> (\<forall>k \<le> i. P (Suc k))"
  by (metis Suc_le_mono le0 not0_implies_Suc)

lemma ex_Suc_le: "(\<exists>j \<le> Suc i. P j) \<longleftrightarrow> P 0 \<or> (\<exists>j \<le> i. P (Suc j))"
  by (metis Suc_le_mono le0 not0_implies_Suc)

lemma all_Suc_between: "(\<forall>k. j < k \<and> k \<le> Suc i \<longrightarrow> P k) \<longleftrightarrow> (\<forall>k. j \<le> k \<and> k \<le> i \<longrightarrow> P (Suc k))"
  by (metis Suc_le_mono Suc_lessD less_Suc_eq_le not0_implies_Suc not_less_zero le_imp_less_Suc)

lemma kept_Suc:
  "{i. Suc i \<in> kept_indices m previous (line # lines)} =
     kept_indices m (lm_matches (m line) \<or> (previous \<and> \<not> lm_hasMetadata (m line))) lines"
proof -
  have "Suc i \<in> kept_indices m previous (line # lines) \<longleftrightarrow>
      i \<in> kept_indices m (lm_matches (m line) \<or> (previous \<and> \<not> lm_hasMetadata (m line))) lines" for i
    unfolding kept_indices_def mem_Collect_eq ex_Suc_le all_Suc_le all_Suc_between
    by (auto simp: Suc_le_eq less_Suc_eq_le)
  then show ?thesis by blast
qed

lemma kept_0:
  "0 \<in> kept_indices m previous (line # lines) \<longleftrightarrow>
     lm_matches (m line) \<or> (previous \<and> \<not> lm_hasMetadata (m line))"
  by (simp add: kept_indices_def)

lemma filter_lines_kept: "filter_lines m previous lines = nths lines (kept_indices m previous lines)"
proof (induction m previous lines rule: filter_lines.induct)
  case (2 m previous line lines)
  then show ?case by (auto simp: nths_Cons kept_Suc kept_0)
qed simp

section \<open>Components to choose from\<close>

text \<open>Every component once, the known ones in their order and the discovered ones sorted.\<close>

lemma set_map_filter_iff: "y \<in> set (List.map_filter f xs) \<longleftrightarrow> (\<exists>x \<in> set xs. f x = Some y)"
  by (force simp: List.map_filter_def)

lemma listed_components:
  "set (listLogComponents output known) =
     insert ''all'' ({c \<in> normalizeComponent ` set known. c \<noteq> []} \<union>
       {c. c \<noteq> [] \<and> (\<exists>line \<in> set (js_split_re line_break_re output). parseLogLineComponent line = Some c)})"
  by (auto simp: listLogComponents_def Let_def js_sort_facts set_map_filter_iff)

section \<open>Properties\<close>

text \<open>with a level or a component chosen, the filtered log is the lines that pass the filter together
  with the continuation lines after them: a line is kept exactly when some line at or before it passes
  and every line in between carries no level, component or date of its own.\<close>

theorem log_filter_keeps_entries:
  assumes "output \<noteq> []" "levelFilter \<noteq> LAll \<or> normalizeComponent (js_or component ''all'') \<noteq> ''all''"
  defines "lines \<equiv> js_split_re line_break_re output"
  defines "m \<equiv> lineMatchesFilters levelFilter (normalizeComponent (js_or component ''all''))"
  shows "filterLogOutput output levelFilter component =
    js_join nl (nths lines {i. i < length lines \<and> (\<exists>j \<le> i. lm_matches (m (lines ! j)) \<and>
      (\<forall>k. j < k \<and> k \<le> i \<longrightarrow> \<not> lm_hasMetadata (m (lines ! k))))})"
proof -
  have "filterLogOutput output levelFilter component = js_join nl (filter_lines m False lines)"
    using assms(1,2) by (auto simp: filterLogOutput_def Let_def lines_def m_def)
  then show ?thesis by (simp add: filter_lines_kept kept_indices_def)
qed

definition sample_log :: string where
  "sample_log = ''<error>a'' @ nl @ ''b'' @ nl @ ''<info>c''"

theorem log_filter_keeps_entries_witness:
  "\<exists>kept. filterLogOutput sample_log LError ''all'' = js_join nl (nths (js_split_re line_break_re sample_log) kept) \<and>
     filterLogOutput sample_log LError ''all'' = ''<error>a'' @ nl @ ''b''"
proof -
  have ne: "sample_log \<noteq> []" by (simp add: sample_log_def)
  have lv: "LError \<noteq> LAll \<or> normalizeComponent (js_or ''all'' ''all'') \<noteq> ''all''" by simp
  have "filterLogOutput sample_log LError ''all'' = ''<error>a'' @ nl @ ''b''" by code_simp
  with log_filter_keeps_entries [OF ne lv] show ?thesis by blast
qed

end
