(* ===== verification/ProducerRules.thy ===== *)
theory ProducerRules
  imports JsText
begin

text \<open>
  The renderer's decisions about block production and wallet transfers: src/app/producer.ts and
  src/app/wallet-actions.ts. A field typed \<open>string | null\<close> or left out is an option; the
  template \<open>`${x || ''}`.trim()\<close> is \<open>text_of\<close>.

  The lemmas give, for every decision, when it answers what: which address is shown, when the
  local key counts as registered (\<open>registration_cases\<close>), when a notice about an outside
  producer appears (\<open>notice_iff\<close>), and when the setup may proceed
  (\<open>setup_allowed_iff\<close>).
\<close>

definition text_of :: "string option \<Rightarrow> string" where
  "text_of x = (case x of None \<Rightarrow> [] | Some s \<Rightarrow> js_trim s)"

section \<open>Addresses\<close>

record target_address_input =
  ta_walletAddress :: "string option"
  ta_draftedProducerAddress :: "string option"
  ta_configProducerAddress :: "string option"
  ta_useWalletAddress :: bool

definition resolveProducerTargetAddress :: "target_address_input \<Rightarrow> string" where
  "resolveProducerTargetAddress input =
     (let walletAddress = text_of (ta_walletAddress input);
          draftedProducerAddress = text_of (ta_draftedProducerAddress input);
          configProducerAddress = text_of (ta_configProducerAddress input)
      in if ta_useWalletAddress input then js_or walletAddress configProducerAddress
         else js_or draftedProducerAddress configProducerAddress)"

record display_address_input =
  da_configuredAddress :: "string option"
  da_signingWalletAddress :: "string option"

definition resolveProducerDisplayAddress :: "display_address_input \<Rightarrow> string" where
  "resolveProducerDisplayAddress input =
     js_or (text_of (da_configuredAddress input)) (text_of (da_signingWalletAddress input))"

record configured_address_input =
  ca_runtimeConfigAddress :: "string option"
  ca_overviewAddress :: "string option"
  ca_overviewAddressSource :: "string option"
  ca_profileAddress :: "string option"
  ca_fallbackAddress :: "string option"

definition resolveConfiguredProducerAddress :: "configured_address_input \<Rightarrow> string" where
  "resolveConfiguredProducerAddress input =
     (let runtimeConfigAddress = text_of (ca_runtimeConfigAddress input);
          overviewAddress = text_of (ca_overviewAddress input);
          profileAddress = text_of (ca_profileAddress input);
          fallbackAddress = text_of (ca_fallbackAddress input)
      in if runtimeConfigAddress \<noteq> [] then runtimeConfigAddress
         else if ca_overviewAddressSource input = Some ''config'' \<and> overviewAddress \<noteq> [] then overviewAddress
         else js_or profileAddress (js_or overviewAddress fallbackAddress))"

section \<open>Identity and registration\<close>

record producer_identity =
  pi_configuredAddress :: "string option"
  pi_localPublicKey :: "string option"
  pi_registeredPublicKey :: "string option"

definition hasRuntimeProducerIdentity :: "producer_identity \<Rightarrow> bool" where
  "hasRuntimeProducerIdentity input \<longleftrightarrow>
     text_of (pi_configuredAddress input) \<noteq> [] \<or> text_of (pi_localPublicKey input) \<noteq> [] \<or>
     text_of (pi_registeredPublicKey input) \<noteq> []"

datatype registration_state = RegUnknown | RegUnregistered | RegMatch | RegMismatch

definition getProducerPublicKeyRegistrationState :: "string option \<Rightarrow> string option \<Rightarrow> registration_state" where
  "getProducerPublicKeyRegistrationState local registered =
     (let localPublicKey = text_of local; registeredPublicKey = text_of registered
      in if localPublicKey = [] then RegUnknown
         else if registeredPublicKey = [] then RegUnregistered
         else if registeredPublicKey = localPublicKey then RegMatch else RegMismatch)"

datatype operational_notice = ExternalActiveMissingLocalKey | ExternalActiveKeyMismatch

definition getProducerOperationalNotice :: "producer_identity \<Rightarrow> int option \<Rightarrow> operational_notice option" where
  "getProducerOperationalNotice input blocks =
     (let configuredAddress = text_of (pi_configuredAddress input);
          localPublicKey = text_of (pi_localPublicKey input);
          registeredPublicKey = text_of (pi_registeredPublicKey input);
          recentBlocksCount = (case blocks of None \<Rightarrow> 0 | Some b \<Rightarrow> b)
      in if configuredAddress = [] \<or> registeredPublicKey = [] \<or> recentBlocksCount \<le> 0 then None
         else if localPublicKey = [] then Some ExternalActiveMissingLocalKey
         else if registeredPublicKey \<noteq> localPublicKey then Some ExternalActiveKeyMismatch
         else None)"

section \<open>Setup\<close>

record setup_profile =
  sp_producerAddress :: string
  sp_registrationSignerAccountId :: string

record profile_result =
  pf_ok :: bool
  pf_profile :: "setup_profile option"

definition isProducerSetupComplete :: "profile_result option \<Rightarrow> bool" where
  "isProducerSetupComplete profile =
     (case profile of
        None \<Rightarrow> False
      | Some r \<Rightarrow> pf_ok r \<and>
          (case pf_profile r of
             None \<Rightarrow> False
           | Some p \<Rightarrow> sp_producerAddress p \<noteq> [] \<and> sp_registrationSignerAccountId p \<noteq> []))"

record setup_input =
  si_walletExists :: bool
  si_walletUnlocked :: bool
  si_hasLocalPublicKey :: bool
  si_hasTargetAddress :: bool
  si_isWalletBalanceLoading :: bool
  si_hasEnoughMana :: "bool option"
  si_useWalletAddress :: bool
  si_producerAdvancedMode :: bool

definition getProducerSetupBlockReason :: "setup_input \<Rightarrow> string option" where
  "getProducerSetupBlockReason input =
     (if \<not> si_walletExists input then Some ''wallet-missing''
      else if \<not> si_walletUnlocked input then Some ''wallet-locked''
      else if \<not> si_hasTargetAddress input then Some ''address-missing''
      else if \<not> si_useWalletAddress input \<and> \<not> si_producerAdvancedMode input then Some ''advanced-required''
      else if \<not> si_hasLocalPublicKey input then Some ''local-key-missing''
      else if si_hasEnoughMana input = Some False then Some ''insufficient-mana''
      else if si_hasEnoughMana input = None then Some ''wallet-balance-loading''
      else None)"

section \<open>Producing, as the log tells\<close>

definition vhp_amount :: re where
  "vhp_amount = Grp 1 (Seq (plus digit) (opt (Seq (chr (CHR ''.'')) (plus digit))))"

definition total_vhp_re :: re where
  "total_vhp_re = seqs [lit_i ''Estimated total VHP producing:'', Star space, vhp_amount, plus space, lit_i ''VHP'']"

definition producing_with_re :: re where
  "producing_with_re = seqs [lit_i ''Producing with'', Star space, vhp_amount, plus space, lit_i ''VHP'']"

definition parsePositiveProducerVhp :: "string \<Rightarrow> re \<Rightarrow> bool" where
  "parsePositiveProducerVhp logLine pattern =
     (case js_exec pattern logLine of
        None \<Rightarrow> False
      | Some m \<Rightarrow> (case js_parse_float (cap 1 (match_caps m)) of None \<Rightarrow> False | Some v \<Rightarrow> 0 < v))"

definition isProducerActivelyProducingFromLogs :: "string option \<Rightarrow> bool" where
  "isProducerActivelyProducingFromLogs output =
     (case output of
        None \<Rightarrow> False
      | Some s \<Rightarrow> s \<noteq> [] \<and>
          list_ex (\<lambda>line. let trimmed = js_trim line in
            trimmed \<noteq> [] \<and>
            (parsePositiveProducerVhp trimmed total_vhp_re \<or> parsePositiveProducerVhp trimmed producing_with_re))
            (js_lines s))"

section \<open>Transfer targets, src/app/wallet-actions.ts\<close>

definition walletDefaultReceiverAddress :: "string \<Rightarrow> string" where
  "walletDefaultReceiverAddress activeWalletAddress = js_trim activeWalletAddress"

definition resolveWalletSendTargetAddress :: "string \<Rightarrow> string \<Rightarrow> string" where
  "resolveWalletSendTargetAddress addressDraft activeWalletAddress =
     js_or (js_trim addressDraft) (walletDefaultReceiverAddress activeWalletAddress)"

definition resolveWalletBurnTargetAddress :: "string \<Rightarrow> string \<Rightarrow> string option" where
  "resolveWalletBurnTargetAddress addressDraft activeWalletAddress =
     (let target = js_or (js_trim addressDraft) (walletDefaultReceiverAddress activeWalletAddress)
      in if target \<noteq> [] then Some target else None)"

section \<open>When each decision says what\<close>

lemma target_address_follows_choice:
  "ta_useWalletAddress input \<Longrightarrow> text_of (ta_walletAddress input) \<noteq> [] \<Longrightarrow>
     resolveProducerTargetAddress input = text_of (ta_walletAddress input)"
  "\<not> ta_useWalletAddress input \<Longrightarrow> text_of (ta_draftedProducerAddress input) \<noteq> [] \<Longrightarrow>
     resolveProducerTargetAddress input = text_of (ta_draftedProducerAddress input)"
  by (simp_all add: resolveProducerTargetAddress_def js_or_def Let_def)

text \<open>An address is shown whenever one of the sources has one.\<close>

lemma configured_address_Nil_iff:
  "resolveConfiguredProducerAddress input = [] \<longleftrightarrow>
     text_of (ca_runtimeConfigAddress input) = [] \<and> text_of (ca_overviewAddress input) = [] \<and>
     text_of (ca_profileAddress input) = [] \<and> text_of (ca_fallbackAddress input) = []"
  by (auto simp: resolveConfiguredProducerAddress_def Let_def)

lemma registration_cases:
  "getProducerPublicKeyRegistrationState local registered = RegMatch \<longleftrightarrow>
     text_of local \<noteq> [] \<and> text_of registered = text_of local"
  "getProducerPublicKeyRegistrationState local registered = RegMismatch \<longleftrightarrow>
     text_of local \<noteq> [] \<and> text_of registered \<notin> {[], text_of local}"
  by (auto simp: getProducerPublicKeyRegistrationState_def Let_def)

text \<open>A notice means that blocks are produced for the configured address with a registered key the
  local node does not hold.\<close>

lemma notice_iff:
  "getProducerOperationalNotice input (Some blocks) \<noteq> None \<longleftrightarrow>
     0 < blocks \<and> text_of (pi_configuredAddress input) \<noteq> [] \<and> text_of (pi_registeredPublicKey input) \<noteq> [] \<and>
     getProducerPublicKeyRegistrationState (pi_localPublicKey input) (pi_registeredPublicKey input) \<noteq> RegMatch"
  by (auto simp: getProducerOperationalNotice_def getProducerPublicKeyRegistrationState_def Let_def)

lemma setup_allowed_iff:
  "getProducerSetupBlockReason input = None \<longleftrightarrow>
     si_walletExists input \<and> si_walletUnlocked input \<and> si_hasTargetAddress input \<and>
     (si_useWalletAddress input \<or> si_producerAdvancedMode input) \<and> si_hasLocalPublicKey input \<and>
     si_hasEnoughMana input = Some True"
  by (cases "si_hasEnoughMana input") (auto simp: getProducerSetupBlockReason_def)

lemma burn_and_send_agree:
  "resolveWalletBurnTargetAddress d a = Some t \<Longrightarrow> resolveWalletSendTargetAddress d a = t"
  by (simp add: resolveWalletBurnTargetAddress_def resolveWalletSendTargetAddress_def Let_def split: if_splits)

end
