(* ===== verification/NodePath.thy ===== *)
theory NodePath
  imports JsText "HOL-Library.Sublist"
begin

text \<open>
  Paths and the file system as the main process uses them. \<open>path_join\<close>, \<open>path_normalize\<close>,
  \<open>path_basename\<close> and \<open>path_dirname\<close> are node:path on POSIX. A file system maps locations
  (the segments of an absolute path) to entries; a file written with \<open>JSON.stringify\<close> is kept as
  its value. The operations are node:fs with the options the sources pass; failures other than the
  ones below (permissions, a full disk) are not modelled.
\<close>

section \<open>Paths\<close>

text \<open>One segment of the walk that resolves \<open>.\<close> and \<open>..\<close>; a relative path keeps leading
  \<open>..\<close>, an absolute one drops them.\<close>

definition push_segment :: "bool \<Rightarrow> string list \<Rightarrow> string \<Rightarrow> string list" where
  "push_segment absolute acc s =
     (if s = [] \<or> s = ''.'' then acc
      else if s = ''..''
      then if acc \<noteq> [] \<and> last acc \<noteq> ''..'' then butlast acc
           else if absolute then acc else acc @ [s]
      else acc @ [s])"

definition walk :: "bool \<Rightarrow> string list \<Rightarrow> string list \<Rightarrow> string list" where
  "walk absolute acc ss = foldl (push_segment absolute) acc ss"

definition is_absolute :: "string \<Rightarrow> bool" where
  "is_absolute p \<longleftrightarrow> js_starts_with p ''/''"

definition path_normalize :: "string \<Rightarrow> string" where
  "path_normalize p =
     (let body = js_join ''/'' (walk (is_absolute p) [] (js_split (CHR ''/'') p))
      in if p = [] then ''.''
         else if body = [] then (if is_absolute p then ''/'' else if last p = CHR ''/'' then ''./'' else ''.'')
         else (if is_absolute p then ''/'' else []) @ body @ (if last p = CHR ''/'' then ''/'' else []))"

definition path_join :: "string list \<Rightarrow> string" where
  "path_join ps =
     (let joined = js_join ''/'' (filter (\<lambda>p. p \<noteq> []) ps)
      in if joined = [] then ''.'' else path_normalize joined)"

text \<open>\<open>path.basename\<close>: trailing separators do not count.\<close>

definition path_basename :: "string \<Rightarrow> string" where
  "path_basename p =
     rev (takeWhile (\<lambda>c. c \<noteq> CHR ''/'') (dropWhile (\<lambda>c. c = CHR ''/'') (rev p)))"

section \<open>The file system\<close>

datatype content = Bytes string | Json jsval

datatype entry = Dir | File content

type_synonym location = "string list"
type_synonym fs = "location \<Rightarrow> entry option"

text \<open>The location an absolute path names.\<close>

definition loc :: "string \<Rightarrow> location" where
  "loc p = walk True [] (js_split (CHR ''/'') p)"

definition fs_exists :: "fs \<Rightarrow> string \<Rightarrow> bool" where
  "fs_exists fs p \<longleftrightarrow> fs (loc p) \<noteq> None"

definition fs_is_dir :: "fs \<Rightarrow> string \<Rightarrow> bool" where
  "fs_is_dir fs p \<longleftrightarrow> fs (loc p) = Some Dir"

text \<open>\<open>rmSync(p, { recursive: true, force: true })\<close>.\<close>

definition rm_tree :: "location \<Rightarrow> fs \<Rightarrow> fs" where
  "rm_tree l fs = (\<lambda>q. if prefix l q then None else fs q)"

text \<open>\<open>mkdirSync(p, { recursive: true })\<close>: \<open>None\<close> when a file is in the way.\<close>

definition mkdir_all :: "location \<Rightarrow> fs \<Rightarrow> fs option" where
  "mkdir_all l fs =
     (if list_ex (\<lambda>q. case fs q of Some (File _) \<Rightarrow> True | _ \<Rightarrow> False) (prefixes l) then None
      else Some (\<lambda>q. if prefix q l then Some Dir else fs q))"

text \<open>\<open>cpSync(src, dst, { recursive: true })\<close> onto a target that is absent or an empty directory;
  it makes the parents of the target. \<open>None\<close> when it throws: the source is missing, or the target
  is the source or inside it.\<close>

definition cp_tree :: "location \<Rightarrow> location \<Rightarrow> fs \<Rightarrow> fs option" where
  "cp_tree src dst fs =
     (if fs src = None \<or> prefix src dst then None
      else map_option (\<lambda>fs1 q. if prefix dst q then fs (src @ drop (length dst) q) else fs1 q)
        (mkdir_all (butlast dst) fs))"

text \<open>\<open>writeFileSync\<close>.\<close>

definition write_file :: "location \<Rightarrow> content \<Rightarrow> fs \<Rightarrow> fs option" where
  "write_file l data fs =
     (if l \<noteq> [] \<and> fs (butlast l) = Some Dir \<and> fs l \<noteq> Some Dir then Some (fs(l \<mapsto> File data)) else None)"

section \<open>Lemmas on paths\<close>

text \<open>A name that is a segment of its own.\<close>

definition plain_name :: "string \<Rightarrow> bool" where
  "plain_name s \<longleftrightarrow> s \<noteq> [] \<and> s \<noteq> ''.'' \<and> s \<noteq> ''..'' \<and> CHR ''/'' \<notin> set s"

lemma walk_Nil [simp]: "walk a acc [] = acc"
  by (simp add: walk_def)

lemma walk_append [simp]: "walk a acc (ss @ ts) = walk a (walk a acc ss) ts"
  by (simp add: walk_def)

lemma walk_Cons [simp]: "walk a acc (s # ss) = walk a (push_segment a acc s) ss"
  by (simp add: walk_def)

lemma push_plain [simp]: "plain_name s \<Longrightarrow> push_segment a acc s = acc @ [s]"
  by (simp add: push_segment_def plain_name_def)

lemma push_empty [simp]: "push_segment a acc [] = acc"
  by (simp add: push_segment_def)

lemma walk_plain: "list_all plain_name ss \<Longrightarrow> walk a acc ss = acc @ ss"
  by (induction ss arbitrary: acc) simp_all

lemma split_segments: "d \<in> set (js_split (CHR ''/'') p) \<Longrightarrow> CHR ''/'' \<notin> set d"
proof (induction p arbitrary: d)
  case (Cons c p)
  obtain x xs where "js_split (CHR ''/'') p = x # xs"
    using js_split_not_Nil by (metis list.exhaust)
  with Cons show ?case by (auto split: if_splits)
qed simp

text \<open>Absolute walks give plain names.\<close>

lemma push_absolute:
  assumes "list_all plain_name acc"
  shows "push_segment True acc s =
    (if s = [] \<or> s = ''.'' then acc else if s = ''..'' then butlast acc else acc @ [s])"
proof -
  have "plain_name (last acc)" if "acc \<noteq> []" using assms that by (simp add: list_all_iff)
  then show ?thesis by (cases "acc = []") (auto simp: push_segment_def plain_name_def)
qed

lemma walk_absolute_plain:
  "list_all plain_name acc \<Longrightarrow> (\<And>s. s \<in> set ss \<Longrightarrow> CHR ''/'' \<notin> set s) \<Longrightarrow> list_all plain_name (walk True acc ss)"
proof (induction ss arbitrary: acc)
  case (Cons s ss)
  have "list_all plain_name (butlast acc)"
    using Cons.prems(1) by (auto simp: list_all_iff dest: in_set_butlastD)
  moreover have "plain_name s" if "s \<noteq> []" "s \<noteq> ''.''" "s \<noteq> ''..''"
    using that Cons.prems(2) by (simp add: plain_name_def)
  ultimately have "list_all plain_name (push_segment True acc s)"
    using Cons.prems(1) by (simp add: push_absolute)
  with Cons show ?case by simp
qed simp

lemma loc_plain: "list_all plain_name (loc p)"
  unfolding loc_def by (rule walk_absolute_plain) (auto dest: split_segments)

lemma js_split_join:
  assumes "list_all plain_name ss" "ss \<noteq> []"
  shows "js_split (CHR ''/'') (js_join ''/'' ss) = ss"
  using assms
proof (induction "''/'' :: string" ss rule: js_join.induct)
  case (2 x)
  then show ?case by (simp add: js_split_single plain_name_def)
next
  case (3 x y xs)
  then show ?case using js_split_append [of "CHR ''/''" x "js_join ''/'' (y # xs)"] by (simp add: plain_name_def)
qed simp

lemma js_split_slash: "js_split (CHR ''/'') (a @ ''/'' @ b) = js_split (CHR ''/'') a @ js_split (CHR ''/'') b"
proof (induction a)
  case (Cons c a)
  then show ?case by (cases "js_split (CHR ''/'') a") (auto simp: js_split_not_Nil)
qed simp

text \<open>Joining an absolute base with further parts.\<close>

lemma loc_slash: "loc (a @ CHR ''/'' # b) = walk True (loc a) (js_split (CHR ''/'') b)"
  using js_split_slash [of a b] by (simp add: loc_def)

lemma loc_normalize: "is_absolute p \<Longrightarrow> loc (path_normalize p) = loc p"
proof -
  assume a: "is_absolute p"
  then have p: "p \<noteq> []" by (auto simp: is_absolute_def js_starts_with_def)
  let ?w = "walk True [] (js_split (CHR ''/'') p)"
  have plain: "list_all plain_name ?w" using loc_plain [of p] by (simp add: loc_def)
  show ?thesis
  proof (cases "?w = []")
    case True
    with a p show ?thesis by (simp add: path_normalize_def loc_def push_segment_def)
  next
    case False
    then have j: "js_join ''/'' ?w \<noteq> []"
      using plain by (cases ?w rule: list.exhaust) (auto simp: plain_name_def js_split_join dest: arg_cong [of _ _ "js_split (CHR ''/'')"] )
    have "loc (''/'' @ js_join ''/'' ?w) = ?w"
      using js_split_join [OF plain False] walk_plain [OF plain, of True "[]"] by (simp add: loc_def)
    moreover have "loc (''/'' @ js_join ''/'' ?w @ ''/'') = ?w"
      using js_split_join [OF plain False] walk_plain [OF plain, of True "[]"]
        js_split_slash [of "''/'' @ js_join ''/'' ?w" "[]"] by (simp add: loc_def)
    ultimately show ?thesis using a p j by (simp add: path_normalize_def Let_def loc_def)
  qed
qed

lemma loc_join_nonempty:
  "list_all (\<lambda>p. p \<noteq> []) ps \<Longrightarrow>
   loc (js_join ''/'' (b # ps)) = walk True (loc b) (concat (map (js_split (CHR ''/'')) ps))"
proof (induction ps arbitrary: b)
  case (Cons p ps)
  have "js_join ''/'' (b # p # ps) = b @ ''/'' @ js_join ''/'' (p # ps)" by simp
  moreover have "loc (js_join ''/'' ((b @ ''/'' @ p) # ps)) = loc (b @ ''/'' @ js_join ''/'' (p # ps))"
    by (cases ps) simp_all
  ultimately have "loc (js_join ''/'' (b # p # ps)) = loc (js_join ''/'' ((b @ ''/'' @ p) # ps))" by simp
  also have "\<dots> = walk True (walk True (loc b) (js_split (CHR ''/'') p)) (concat (map (js_split (CHR ''/'')) ps))"
    using Cons by (simp add: loc_slash)
  finally show ?case by simp
qed simp

lemma is_absolute_join: "is_absolute b \<Longrightarrow> is_absolute (js_join ''/'' (b # ps))"
  by (cases ps; cases b) (auto simp: is_absolute_def js_starts_with_def)

lemma loc_join:
  assumes "is_absolute b"
  shows "loc (path_join (b # ps)) = walk True (loc b) (concat (map (js_split (CHR ''/'')) ps))"
proof -
  let ?qs = "filter (\<lambda>p. p \<noteq> []) ps"
  have b: "b \<noteq> []" using assms by (auto simp: is_absolute_def js_starts_with_def)
  then have "js_join ''/'' (b # ?qs) \<noteq> []" by (cases ?qs) simp_all
  with b have "loc (path_join (b # ps)) = loc (path_normalize (js_join ''/'' (b # ?qs)))"
    by (simp add: path_join_def)
  also have "\<dots> = walk True (loc b) (concat (map (js_split (CHR ''/'')) ?qs))"
    using loc_normalize [OF is_absolute_join [OF assms]] loc_join_nonempty [of ?qs b] by (simp add: list_all_iff)
  also have "walk True acc (concat (map (js_split (CHR ''/'')) ?qs)) = walk True acc (concat (map (js_split (CHR ''/'')) ps))" for acc
    by (induction ps arbitrary: acc) simp_all
  finally show ?thesis .
qed

lemma split_plain: "plain_name d \<Longrightarrow> js_split (CHR ''/'') d = [d]"
  by (simp add: js_split_single plain_name_def)

lemma loc_join_plain: "is_absolute b \<Longrightarrow> plain_name d \<Longrightarrow> loc (path_join [b, d]) = loc b @ [d]"
  by (simp add: loc_join split_plain)

lemma is_absolute_path_join: "is_absolute b \<Longrightarrow> is_absolute (path_join (b # ps))"
proof -
  assume b: "is_absolute b"
  then have ne: "b \<noteq> []" by (auto simp: is_absolute_def js_starts_with_def)
  let ?j = "js_join ''/'' (b # filter (\<lambda>p. p \<noteq> []) ps)"
  have "is_absolute ?j" by (rule is_absolute_join [OF b])
  then have "is_absolute (path_normalize ?j)" "?j \<noteq> []"
    by (auto simp: path_normalize_def Let_def is_absolute_def js_starts_with_def)
  with ne show ?thesis by (simp add: path_join_def)
qed

section \<open>Lemmas on the file system\<close>

definition same_tree :: "fs \<Rightarrow> location \<Rightarrow> fs \<Rightarrow> location \<Rightarrow> bool" where
  "same_tree fs l fs' l' \<longleftrightarrow> (\<forall>q. fs (l @ q) = fs' (l' @ q))"

text \<open>Nothing changes outside the trees at the given locations, apart from directories made on the
  way to them.\<close>

lemma rm_tree_outside: "\<not> prefix l q \<Longrightarrow> rm_tree l fs q = fs q"
  by (simp add: rm_tree_def)

lemma rm_tree_inside: "prefix l q \<Longrightarrow> rm_tree l fs q = None"
  by (simp add: rm_tree_def)

lemma mkdir_all_SomeD:
  assumes "mkdir_all l fs = Some fs'"
  shows "fs' q = (if prefix q l then Some Dir else fs q)" "prefix q l \<Longrightarrow> fs q = None \<or> fs q = Some Dir"
proof -
  let ?blocked = "list_ex (\<lambda>q. case fs q of Some (File _) \<Rightarrow> True | _ \<Rightarrow> False) (prefixes l)"
  have free: "\<not> ?blocked" using assms by (cases ?blocked) (simp_all add: mkdir_all_def)
  with assms have "fs' = (\<lambda>q. if prefix q l then Some Dir else fs q)"
    unfolding mkdir_all_def by (simp only: if_False simp_thms option.inject)
  then show "fs' q = (if prefix q l then Some Dir else fs q)" by simp
  show "fs q = None \<or> fs q = Some Dir" if "prefix q l"
  proof (cases "fs q")
    case (Some e)
    have "q \<in> set (prefixes l)" using that by simp
    with free have "\<not> (case fs q of Some (File _) \<Rightarrow> True | _ \<Rightarrow> False)" unfolding list_ex_iff by blast
    with Some show ?thesis by (cases e) simp_all
  qed simp
qed

lemma mkdir_all_outside: "mkdir_all l fs = Some fs' \<Longrightarrow> \<not> prefix q l \<Longrightarrow> fs' q = fs q"
  by (simp add: mkdir_all_SomeD(1))

lemma cp_tree_SomeD:
  assumes "cp_tree src dst fs = Some fs'"
  shows "same_tree fs' dst fs src"
    and "\<not> prefix dst q \<Longrightarrow> \<not> prefix q dst \<Longrightarrow> fs' q = fs q"
    and "\<not> prefix dst q \<Longrightarrow> prefix q dst \<Longrightarrow> fs' q = Some Dir"
    and "fs src \<noteq> None"
proof -
  from assms obtain fs1 where ok: "fs src \<noteq> None" "mkdir_all (butlast dst) fs = Some fs1"
    and fs': "fs' = (\<lambda>q. if prefix dst q then fs (src @ drop (length dst) q) else fs1 q)"
    by (auto simp: cp_tree_def split: if_splits)
  show "fs src \<noteq> None" by (rule ok(1))
  show "same_tree fs' dst fs src" by (simp add: same_tree_def fs')
  note parents = mkdir_all_SomeD(1) [OF ok(2), of q]
  show "fs' q = fs q" if "\<not> prefix dst q" "\<not> prefix q dst"
    using that parents prefix_order.trans [OF _ prefixeq_butlast, of q dst] by (auto simp: fs')
  show "fs' q = Some Dir" if "\<not> prefix dst q" "prefix q dst"
  proof -
    have "q \<noteq> dst" using that by auto
    with that(2) have "prefix q (butlast dst)"
      by (cases dst rule: rev_cases) simp_all
    with that parents show ?thesis by (simp add: fs')
  qed
qed

lemma fs_write_SomeD:
  assumes "write_file l data fs = Some fs'"
  shows "fs' = fs(l \<mapsto> File data)" "fs (butlast l) = Some Dir" "l \<noteq> []"
  using assms by (auto simp: write_file_def split: if_splits)

end
