(* ===== verification/BackupSettings.thy ===== *)
theory BackupSettings
  imports FleetNormalize JsText
begin

text \<open>
  The settings of the native backups and their normalisation, which the main process
  (electron/lib/node-paths.ts) and the renderer (src/app/utils.tsx) each do with their own copy.
  The input is any value: it comes from IPC and from localStorage. Numbers are rationals; a
  fraction is kept.
\<close>

section \<open>Types and defaults\<close>

datatype auth_method = PrivateKey | PasswordFile | EnvPassword

fun auth_str :: "auth_method \<Rightarrow> string" where
  "auth_str PrivateKey = ''private-key''"
| "auth_str PasswordFile = ''password-file''"
| "auth_str EnvPassword = ''env-password''"

record backup_settings =
  bs_localEnabled :: bool
  bs_localDirectory :: string
  bs_workspace :: string
  bs_localRetentionCount :: rat
  bs_remoteEnabled :: bool
  bs_remoteDirectory :: string
  bs_remoteRetentionCount :: rat
  bs_remoteRetentionDays :: rat
  bs_uploadTempSuffix :: string
  bs_sshHost :: string
  bs_sshPort :: rat
  bs_sshUser :: string
  bs_sshAuth :: auth_method
  bs_sshPrivateKeyFile :: string
  bs_sshPasswordFile :: string
  bs_sshPassphraseFile :: string
  bs_sshKnownHostsFile :: string
  bs_sshStrictHostKeyChecking :: bool
  bs_sshConnectTimeoutSeconds :: rat
  bs_scheduleEnabled :: bool
  bs_scheduleInterval :: string
  bs_scheduleRunOnStartupIfMissed :: bool
  bs_scheduleJitterSeconds :: rat
  bs_scheduleMinimumHeadProgress :: rat
  bs_scheduleSkipIfSyncingFromGenesis :: bool
  bs_scheduleMaxConcurrentBackups :: rat
  bs_adminEnabled :: bool
  bs_adminListen :: string
  bs_adminTokenFile :: string
  bs_adminJobs :: rat

definition default_backup_settings :: backup_settings where
  "default_backup_settings =
     \<lparr>bs_localEnabled = True, bs_localDirectory = [], bs_workspace = [],
      bs_localRetentionCount = 7, bs_remoteEnabled = False, bs_remoteDirectory = [],
      bs_remoteRetentionCount = 14, bs_remoteRetentionDays = 30,
      bs_uploadTempSuffix = ''.partial'', bs_sshHost = [], bs_sshPort = 22, bs_sshUser = [],
      bs_sshAuth = PrivateKey, bs_sshPrivateKeyFile = [], bs_sshPasswordFile = [],
      bs_sshPassphraseFile = [], bs_sshKnownHostsFile = [], bs_sshStrictHostKeyChecking = True,
      bs_sshConnectTimeoutSeconds = 15, bs_scheduleEnabled = False, bs_scheduleInterval = ''6h'',
      bs_scheduleRunOnStartupIfMissed = True, bs_scheduleJitterSeconds = 300,
      bs_scheduleMinimumHeadProgress = 1, bs_scheduleSkipIfSyncingFromGenesis = True,
      bs_scheduleMaxConcurrentBackups = 1, bs_adminEnabled = True,
      bs_adminListen = ''127.0.0.1:18088'', bs_adminTokenFile = [], bs_adminJobs = 1\<rparr>"

section \<open>electron/lib/node-paths.ts\<close>

definition normalizeBackupAuthMethod :: "jsval \<Rightarrow> auth_method" where
  "normalizeBackupAuthMethod v =
     (if v = JStr ''password-file'' then PasswordFile
      else if v = JStr ''env-password'' then EnvPassword
      else if v = JStr ''private-key'' then PrivateKey
      else bs_sshAuth default_backup_settings)"

definition stringValue :: "jsval \<Rightarrow> string \<Rightarrow> string" where
  "stringValue v fallback = (case v of JStr s \<Rightarrow> js_trim s | _ \<Rightarrow> fallback)"

text \<open>The number a value stands for: itself, or what a text begins with; \<open>None\<close> unless finite.\<close>

definition number_of :: "jsval \<Rightarrow> rat option" where
  "number_of v =
     (case v of
        JNum (Fin r) \<Rightarrow> Some r
      | JStr s \<Rightarrow> map_option of_int (js_parse_int s)
      | _ \<Rightarrow> None)"

definition numberValue :: "jsval \<Rightarrow> rat \<Rightarrow> rat \<Rightarrow> rat \<Rightarrow> rat" where
  "numberValue v fallback lo hi =
     min hi (max lo (case number_of v of Some r \<Rightarrow> r | None \<Rightarrow> fallback))"

definition normalizeBackupRemoteDirectory :: "jsval \<Rightarrow> string" where
  "normalizeBackupRemoteDirectory v =
     (let directory = stringValue v (bs_remoteDirectory default_backup_settings)
      in if directory = ''/srv/teleno-backups/testnet/teleno-ux-testnet''
         then ''/srv/teleno-backups/testnet/teleno-dev/teleno-ux-testnet'' else directory)"

definition normalizeBackupSettings :: "jsval \<Rightarrow> backup_settings" where
  "normalizeBackupSettings input =
     (let field = (\<lambda>k. js_prop k input);
          text = (\<lambda>k d. stringValue (field k) d)
      in \<lparr>bs_localEnabled = (field ''remoteEnabled'' = JBool True \<or> field ''localEnabled'' \<noteq> JBool False),
          bs_localDirectory = text ''localDirectory'' (bs_localDirectory default_backup_settings),
          bs_workspace = text ''workspace'' (bs_workspace default_backup_settings),
          bs_localRetentionCount = numberValue (field ''localRetentionCount'') (bs_localRetentionCount default_backup_settings) 1 365,
          bs_remoteEnabled = (field ''remoteEnabled'' = JBool True),
          bs_remoteDirectory = normalizeBackupRemoteDirectory (field ''remoteDirectory''),
          bs_remoteRetentionCount = numberValue (field ''remoteRetentionCount'') (bs_remoteRetentionCount default_backup_settings) 1 365,
          bs_remoteRetentionDays = numberValue (field ''remoteRetentionDays'') (bs_remoteRetentionDays default_backup_settings) 1 3650,
          bs_uploadTempSuffix = js_or (text ''uploadTempSuffix'' (bs_uploadTempSuffix default_backup_settings)) ''.partial'',
          bs_sshHost = text ''sshHost'' (bs_sshHost default_backup_settings),
          bs_sshPort = numberValue (field ''sshPort'') (bs_sshPort default_backup_settings) 1 65535,
          bs_sshUser = text ''sshUser'' (bs_sshUser default_backup_settings),
          bs_sshAuth = normalizeBackupAuthMethod (field ''sshAuth''),
          bs_sshPrivateKeyFile = text ''sshPrivateKeyFile'' (bs_sshPrivateKeyFile default_backup_settings),
          bs_sshPasswordFile = text ''sshPasswordFile'' (bs_sshPasswordFile default_backup_settings),
          bs_sshPassphraseFile = text ''sshPassphraseFile'' (bs_sshPassphraseFile default_backup_settings),
          bs_sshKnownHostsFile = text ''sshKnownHostsFile'' (bs_sshKnownHostsFile default_backup_settings),
          bs_sshStrictHostKeyChecking = (field ''sshStrictHostKeyChecking'' \<noteq> JBool False),
          bs_sshConnectTimeoutSeconds = numberValue (field ''sshConnectTimeoutSeconds'') (bs_sshConnectTimeoutSeconds default_backup_settings) 1 300,
          bs_scheduleEnabled = (field ''scheduleEnabled'' = JBool True),
          bs_scheduleInterval = js_or (text ''scheduleInterval'' (bs_scheduleInterval default_backup_settings)) ''6h'',
          bs_scheduleRunOnStartupIfMissed = (field ''scheduleRunOnStartupIfMissed'' \<noteq> JBool False),
          bs_scheduleJitterSeconds = numberValue (field ''scheduleJitterSeconds'') (bs_scheduleJitterSeconds default_backup_settings) 0 86400,
          bs_scheduleMinimumHeadProgress = numberValue (field ''scheduleMinimumHeadProgress'') (bs_scheduleMinimumHeadProgress default_backup_settings) 0 1000000,
          bs_scheduleSkipIfSyncingFromGenesis = (field ''scheduleSkipIfSyncingFromGenesis'' \<noteq> JBool False),
          bs_scheduleMaxConcurrentBackups = 1,
          bs_adminEnabled = (field ''remoteEnabled'' = JBool True \<or> field ''adminEnabled'' \<noteq> JBool False),
          bs_adminListen = js_or (text ''adminListen'' (bs_adminListen default_backup_settings)) ''127.0.0.1:18088'',
          bs_adminTokenFile = text ''adminTokenFile'' (bs_adminTokenFile default_backup_settings),
          bs_adminJobs = numberValue (field ''adminJobs'') (bs_adminJobs default_backup_settings) 1 16\<rparr>)"

section \<open>src/app/utils.tsx\<close>

definition default_node_backup_settings :: backup_settings where
  "default_node_backup_settings =
     \<lparr>bs_localEnabled = True, bs_localDirectory = [], bs_workspace = [],
      bs_localRetentionCount = 7, bs_remoteEnabled = False, bs_remoteDirectory = [],
      bs_remoteRetentionCount = 14, bs_remoteRetentionDays = 30,
      bs_uploadTempSuffix = ''.partial'', bs_sshHost = [], bs_sshPort = 22, bs_sshUser = [],
      bs_sshAuth = PrivateKey, bs_sshPrivateKeyFile = [], bs_sshPasswordFile = [],
      bs_sshPassphraseFile = [], bs_sshKnownHostsFile = [], bs_sshStrictHostKeyChecking = True,
      bs_sshConnectTimeoutSeconds = 15, bs_scheduleEnabled = False, bs_scheduleInterval = ''6h'',
      bs_scheduleRunOnStartupIfMissed = True, bs_scheduleJitterSeconds = 300,
      bs_scheduleMinimumHeadProgress = 1, bs_scheduleSkipIfSyncingFromGenesis = True,
      bs_scheduleMaxConcurrentBackups = 1, bs_adminEnabled = True,
      bs_adminListen = ''127.0.0.1:18088'', bs_adminTokenFile = [], bs_adminJobs = 1\<rparr>"

definition clamp :: "rat \<Rightarrow> rat \<Rightarrow> rat \<Rightarrow> rat" where
  "clamp v lo hi = min hi (max lo v)"

definition ui_normalizeBackupAuthMethod :: "jsval \<Rightarrow> auth_method" where
  "ui_normalizeBackupAuthMethod v =
     (if v = JStr ''password-file'' then PasswordFile
      else if v = JStr ''env-password'' then EnvPassword
      else if v = JStr ''private-key'' then PrivateKey
      else bs_sshAuth default_node_backup_settings)"

definition ui_stringValue :: "jsval \<Rightarrow> string \<Rightarrow> string" where
  "ui_stringValue v fallback = (case v of JStr s \<Rightarrow> js_trim s | _ \<Rightarrow> fallback)"

definition ui_numberValue :: "jsval \<Rightarrow> rat \<Rightarrow> rat \<Rightarrow> rat \<Rightarrow> rat" where
  "ui_numberValue v fallback lo hi =
     clamp (case number_of v of Some r \<Rightarrow> r | None \<Rightarrow> fallback) lo hi"

definition ui_normalizeBackupRemoteDirectory :: "jsval \<Rightarrow> string" where
  "ui_normalizeBackupRemoteDirectory v =
     (let directory = ui_stringValue v (bs_remoteDirectory default_node_backup_settings)
      in if directory = ''/srv/teleno-backups/testnet/teleno-ux-testnet''
         then ''/srv/teleno-backups/testnet/teleno-dev/teleno-ux-testnet'' else directory)"

definition normalizeNodeBackupSettings :: "jsval \<Rightarrow> backup_settings" where
  "normalizeNodeBackupSettings input =
     (let field = (\<lambda>k. js_prop k input);
          text = (\<lambda>k d. ui_stringValue (field k) d)
      in \<lparr>bs_localEnabled = (field ''remoteEnabled'' = JBool True \<or> field ''localEnabled'' \<noteq> JBool False),
          bs_localDirectory = text ''localDirectory'' (bs_localDirectory default_node_backup_settings),
          bs_workspace = text ''workspace'' (bs_workspace default_node_backup_settings),
          bs_localRetentionCount = ui_numberValue (field ''localRetentionCount'') (bs_localRetentionCount default_node_backup_settings) 1 365,
          bs_remoteEnabled = (field ''remoteEnabled'' = JBool True),
          bs_remoteDirectory = ui_normalizeBackupRemoteDirectory (field ''remoteDirectory''),
          bs_remoteRetentionCount = ui_numberValue (field ''remoteRetentionCount'') (bs_remoteRetentionCount default_node_backup_settings) 1 365,
          bs_remoteRetentionDays = ui_numberValue (field ''remoteRetentionDays'') (bs_remoteRetentionDays default_node_backup_settings) 1 3650,
          bs_uploadTempSuffix = js_or (text ''uploadTempSuffix'' (bs_uploadTempSuffix default_node_backup_settings)) ''.partial'',
          bs_sshHost = text ''sshHost'' (bs_sshHost default_node_backup_settings),
          bs_sshPort = ui_numberValue (field ''sshPort'') (bs_sshPort default_node_backup_settings) 1 65535,
          bs_sshUser = text ''sshUser'' (bs_sshUser default_node_backup_settings),
          bs_sshAuth = ui_normalizeBackupAuthMethod (field ''sshAuth''),
          bs_sshPrivateKeyFile = text ''sshPrivateKeyFile'' (bs_sshPrivateKeyFile default_node_backup_settings),
          bs_sshPasswordFile = text ''sshPasswordFile'' (bs_sshPasswordFile default_node_backup_settings),
          bs_sshPassphraseFile = text ''sshPassphraseFile'' (bs_sshPassphraseFile default_node_backup_settings),
          bs_sshKnownHostsFile = text ''sshKnownHostsFile'' (bs_sshKnownHostsFile default_node_backup_settings),
          bs_sshStrictHostKeyChecking = (field ''sshStrictHostKeyChecking'' \<noteq> JBool False),
          bs_sshConnectTimeoutSeconds = ui_numberValue (field ''sshConnectTimeoutSeconds'') (bs_sshConnectTimeoutSeconds default_node_backup_settings) 1 300,
          bs_scheduleEnabled = (field ''scheduleEnabled'' = JBool True),
          bs_scheduleInterval = js_or (text ''scheduleInterval'' (bs_scheduleInterval default_node_backup_settings)) ''6h'',
          bs_scheduleRunOnStartupIfMissed = (field ''scheduleRunOnStartupIfMissed'' \<noteq> JBool False),
          bs_scheduleJitterSeconds = ui_numberValue (field ''scheduleJitterSeconds'') (bs_scheduleJitterSeconds default_node_backup_settings) 0 86400,
          bs_scheduleMinimumHeadProgress = ui_numberValue (field ''scheduleMinimumHeadProgress'') (bs_scheduleMinimumHeadProgress default_node_backup_settings) 0 1000000,
          bs_scheduleSkipIfSyncingFromGenesis = (field ''scheduleSkipIfSyncingFromGenesis'' \<noteq> JBool False),
          bs_scheduleMaxConcurrentBackups = 1,
          bs_adminEnabled = (field ''remoteEnabled'' = JBool True \<or> field ''adminEnabled'' \<noteq> JBool False),
          bs_adminListen = js_or (text ''adminListen'' (bs_adminListen default_node_backup_settings)) ''127.0.0.1:18088'',
          bs_adminTokenFile = text ''adminTokenFile'' (bs_adminTokenFile default_node_backup_settings),
          bs_adminJobs = ui_numberValue (field ''adminJobs'') (bs_adminJobs default_node_backup_settings) 1 16\<rparr>)"

text \<open>The settings as the JSON object they travel as.\<close>

definition settings_json :: "backup_settings \<Rightarrow> jsval" where
  "settings_json s = JObj
     [(''localEnabled'', JBool (bs_localEnabled s)),
      (''localDirectory'', JStr (bs_localDirectory s)),
      (''workspace'', JStr (bs_workspace s)),
      (''localRetentionCount'', JNum (Fin (bs_localRetentionCount s))),
      (''remoteEnabled'', JBool (bs_remoteEnabled s)),
      (''remoteDirectory'', JStr (bs_remoteDirectory s)),
      (''remoteRetentionCount'', JNum (Fin (bs_remoteRetentionCount s))),
      (''remoteRetentionDays'', JNum (Fin (bs_remoteRetentionDays s))),
      (''uploadTempSuffix'', JStr (bs_uploadTempSuffix s)),
      (''sshHost'', JStr (bs_sshHost s)),
      (''sshPort'', JNum (Fin (bs_sshPort s))),
      (''sshUser'', JStr (bs_sshUser s)),
      (''sshAuth'', JStr (auth_str (bs_sshAuth s))),
      (''sshPrivateKeyFile'', JStr (bs_sshPrivateKeyFile s)),
      (''sshPasswordFile'', JStr (bs_sshPasswordFile s)),
      (''sshPassphraseFile'', JStr (bs_sshPassphraseFile s)),
      (''sshKnownHostsFile'', JStr (bs_sshKnownHostsFile s)),
      (''sshStrictHostKeyChecking'', JBool (bs_sshStrictHostKeyChecking s)),
      (''sshConnectTimeoutSeconds'', JNum (Fin (bs_sshConnectTimeoutSeconds s))),
      (''scheduleEnabled'', JBool (bs_scheduleEnabled s)),
      (''scheduleInterval'', JStr (bs_scheduleInterval s)),
      (''scheduleRunOnStartupIfMissed'', JBool (bs_scheduleRunOnStartupIfMissed s)),
      (''scheduleJitterSeconds'', JNum (Fin (bs_scheduleJitterSeconds s))),
      (''scheduleMinimumHeadProgress'', JNum (Fin (bs_scheduleMinimumHeadProgress s))),
      (''scheduleSkipIfSyncingFromGenesis'', JBool (bs_scheduleSkipIfSyncingFromGenesis s)),
      (''scheduleMaxConcurrentBackups'', JNum (Fin (bs_scheduleMaxConcurrentBackups s))),
      (''adminEnabled'', JBool (bs_adminEnabled s)),
      (''adminListen'', JStr (bs_adminListen s)),
      (''adminTokenFile'', JStr (bs_adminTokenFile s)),
      (''adminJobs'', JNum (Fin (bs_adminJobs s)))]"

text \<open>Two settings are the same when their normal forms are: the code compares their JSON texts.\<close>

definition sameNodeBackupSettings :: "backup_settings \<Rightarrow> backup_settings \<Rightarrow> bool" where
  "sameNodeBackupSettings a b \<longleftrightarrow>
     settings_json (normalizeNodeBackupSettings (settings_json a)) =
     settings_json (normalizeNodeBackupSettings (settings_json b))"

section \<open>Lemmas\<close>

lemma both_defaults: "default_node_backup_settings = default_backup_settings"
  by (simp only: default_node_backup_settings_def default_backup_settings_def)

lemma both_helpers:
  "ui_numberValue = numberValue" "ui_stringValue = stringValue"
  "ui_normalizeBackupAuthMethod = normalizeBackupAuthMethod"
  "ui_normalizeBackupRemoteDirectory = normalizeBackupRemoteDirectory"
proof -
  show s: "ui_stringValue = stringValue" by (intro ext) (simp add: ui_stringValue_def stringValue_def)
  show "ui_numberValue = numberValue" by (intro ext) (simp add: ui_numberValue_def numberValue_def clamp_def)
  show "ui_normalizeBackupAuthMethod = normalizeBackupAuthMethod"
    by (intro ext) (simp only: ui_normalizeBackupAuthMethod_def normalizeBackupAuthMethod_def both_defaults)
  show "ui_normalizeBackupRemoteDirectory = normalizeBackupRemoteDirectory"
    by (intro ext) (simp only: ui_normalizeBackupRemoteDirectory_def normalizeBackupRemoteDirectory_def both_defaults s)
qed

lemma both_normalise: "normalizeNodeBackupSettings = normalizeBackupSettings"
  by (intro ext) (simp only: normalizeNodeBackupSettings_def normalizeBackupSettings_def both_helpers both_defaults)

lemma numberValue_range: "lo \<le> hi \<Longrightarrow> lo \<le> numberValue v d lo hi \<and> numberValue v d lo hi \<le> hi"
  by (auto simp: numberValue_def)

lemma numberValue_id: "lo \<le> r \<Longrightarrow> r \<le> hi \<Longrightarrow> numberValue (JNum (Fin r)) d lo hi = r"
  by (simp add: numberValue_def number_of_def)

lemma settings_json_fields:
  "js_prop ''localEnabled'' (settings_json s) = JBool (bs_localEnabled s)"
  "js_prop ''localDirectory'' (settings_json s) = JStr (bs_localDirectory s)"
  "js_prop ''workspace'' (settings_json s) = JStr (bs_workspace s)"
  "js_prop ''localRetentionCount'' (settings_json s) = JNum (Fin (bs_localRetentionCount s))"
  "js_prop ''remoteEnabled'' (settings_json s) = JBool (bs_remoteEnabled s)"
  "js_prop ''remoteDirectory'' (settings_json s) = JStr (bs_remoteDirectory s)"
  "js_prop ''remoteRetentionCount'' (settings_json s) = JNum (Fin (bs_remoteRetentionCount s))"
  "js_prop ''remoteRetentionDays'' (settings_json s) = JNum (Fin (bs_remoteRetentionDays s))"
  "js_prop ''uploadTempSuffix'' (settings_json s) = JStr (bs_uploadTempSuffix s)"
  "js_prop ''sshHost'' (settings_json s) = JStr (bs_sshHost s)"
  "js_prop ''sshPort'' (settings_json s) = JNum (Fin (bs_sshPort s))"
  "js_prop ''sshUser'' (settings_json s) = JStr (bs_sshUser s)"
  "js_prop ''sshAuth'' (settings_json s) = JStr (auth_str (bs_sshAuth s))"
  "js_prop ''sshPrivateKeyFile'' (settings_json s) = JStr (bs_sshPrivateKeyFile s)"
  "js_prop ''sshPasswordFile'' (settings_json s) = JStr (bs_sshPasswordFile s)"
  "js_prop ''sshPassphraseFile'' (settings_json s) = JStr (bs_sshPassphraseFile s)"
  "js_prop ''sshKnownHostsFile'' (settings_json s) = JStr (bs_sshKnownHostsFile s)"
  "js_prop ''sshStrictHostKeyChecking'' (settings_json s) = JBool (bs_sshStrictHostKeyChecking s)"
  "js_prop ''sshConnectTimeoutSeconds'' (settings_json s) = JNum (Fin (bs_sshConnectTimeoutSeconds s))"
  "js_prop ''scheduleEnabled'' (settings_json s) = JBool (bs_scheduleEnabled s)"
  "js_prop ''scheduleInterval'' (settings_json s) = JStr (bs_scheduleInterval s)"
  "js_prop ''scheduleRunOnStartupIfMissed'' (settings_json s) = JBool (bs_scheduleRunOnStartupIfMissed s)"
  "js_prop ''scheduleJitterSeconds'' (settings_json s) = JNum (Fin (bs_scheduleJitterSeconds s))"
  "js_prop ''scheduleMinimumHeadProgress'' (settings_json s) = JNum (Fin (bs_scheduleMinimumHeadProgress s))"
  "js_prop ''scheduleSkipIfSyncingFromGenesis'' (settings_json s) = JBool (bs_scheduleSkipIfSyncingFromGenesis s)"
  "js_prop ''scheduleMaxConcurrentBackups'' (settings_json s) = JNum (Fin (bs_scheduleMaxConcurrentBackups s))"
  "js_prop ''adminEnabled'' (settings_json s) = JBool (bs_adminEnabled s)"
  "js_prop ''adminListen'' (settings_json s) = JStr (bs_adminListen s)"
  "js_prop ''adminTokenFile'' (settings_json s) = JStr (bs_adminTokenFile s)"
  "js_prop ''adminJobs'' (settings_json s) = JNum (Fin (bs_adminJobs s))"
  by (simp_all add: settings_json_def)

text \<open>What normalised settings look like.\<close>

definition settings_ok :: "backup_settings \<Rightarrow> bool" where
  "settings_ok s \<longleftrightarrow>
     trimmed (bs_localDirectory s) \<and>
     trimmed (bs_workspace s) \<and>
     1 \<le> bs_localRetentionCount s \<and> bs_localRetentionCount s \<le> 365 \<and>
     trimmed (bs_remoteDirectory s) \<and>
     1 \<le> bs_remoteRetentionCount s \<and> bs_remoteRetentionCount s \<le> 365 \<and>
     1 \<le> bs_remoteRetentionDays s \<and> bs_remoteRetentionDays s \<le> 3650 \<and>
     trimmed (bs_uploadTempSuffix s) \<and> bs_uploadTempSuffix s \<noteq> [] \<and>
     trimmed (bs_sshHost s) \<and>
     1 \<le> bs_sshPort s \<and> bs_sshPort s \<le> 65535 \<and>
     trimmed (bs_sshUser s) \<and>
     trimmed (bs_sshPrivateKeyFile s) \<and>
     trimmed (bs_sshPasswordFile s) \<and>
     trimmed (bs_sshPassphraseFile s) \<and>
     trimmed (bs_sshKnownHostsFile s) \<and>
     1 \<le> bs_sshConnectTimeoutSeconds s \<and> bs_sshConnectTimeoutSeconds s \<le> 300 \<and>
     trimmed (bs_scheduleInterval s) \<and> bs_scheduleInterval s \<noteq> [] \<and>
     0 \<le> bs_scheduleJitterSeconds s \<and> bs_scheduleJitterSeconds s \<le> 86400 \<and>
     0 \<le> bs_scheduleMinimumHeadProgress s \<and> bs_scheduleMinimumHeadProgress s \<le> 1000000 \<and>
     bs_scheduleMaxConcurrentBackups s = 1 \<and>
     trimmed (bs_adminListen s) \<and> bs_adminListen s \<noteq> [] \<and>
     trimmed (bs_adminTokenFile s) \<and>
     1 \<le> bs_adminJobs s \<and> bs_adminJobs s \<le> 16 \<and>
     bs_remoteDirectory s \<noteq> ''/srv/teleno-backups/testnet/teleno-ux-testnet'' \<and>
     (bs_remoteEnabled s \<longrightarrow> bs_localEnabled s \<and> bs_adminEnabled s)"

lemma auth_round_trip: "normalizeBackupAuthMethod (JStr (auth_str a)) = a"
  by (cases a) (simp_all add: normalizeBackupAuthMethod_def)

lemma stringValue_trimmed: "trimmed d \<Longrightarrow> trimmed (stringValue v d)"
  by (cases v) (simp_all add: stringValue_def trimmed_def)

lemma stringValue_id: "trimmed s \<Longrightarrow> stringValue (JStr s) d = s"
  by (simp add: stringValue_def trimmed_def)

lemma remoteDirectory_facts:
  "trimmed (normalizeBackupRemoteDirectory v)"
  "normalizeBackupRemoteDirectory v \<noteq> ''/srv/teleno-backups/testnet/teleno-ux-testnet''"
  "trimmed s \<Longrightarrow> s \<noteq> ''/srv/teleno-backups/testnet/teleno-ux-testnet'' \<Longrightarrow> normalizeBackupRemoteDirectory (JStr s) = s"
proof -
  have "trimmed ''/srv/teleno-backups/testnet/teleno-dev/teleno-ux-testnet''" by code_simp
  moreover have "trimmed (bs_remoteDirectory default_backup_settings)" by code_simp
  ultimately show "trimmed (normalizeBackupRemoteDirectory v)"
    using stringValue_trimmed by (simp add: normalizeBackupRemoteDirectory_def Let_def)
qed (simp_all add: normalizeBackupRemoteDirectory_def Let_def stringValue_id)

lemma trimmed_or: "trimmed d \<Longrightarrow> trimmed s \<Longrightarrow> trimmed (js_or s d)"
  by (simp add: js_or_def)

lemma js_or_id: "s \<noteq> [] \<Longrightarrow> js_or s d = s"
  by (simp add: js_or_def)

lemma default_texts: "trimmed []" "trimmed ''.partial''" "trimmed ''6h''" "trimmed ''127.0.0.1:18088''"
  by code_simp+

lemma normalized_settings_ok: "settings_ok (normalizeBackupSettings v)"
proof -
  note texts = stringValue_trimmed [OF default_texts(1)] trimmed_or [OF default_texts(2) stringValue_trimmed [OF default_texts(2)]]
    trimmed_or [OF default_texts(3) stringValue_trimmed [OF default_texts(3)]]
    trimmed_or [OF default_texts(4) stringValue_trimmed [OF default_texts(4)]]
  show ?thesis
    unfolding settings_ok_def normalizeBackupSettings_def Let_def backup_settings.simps default_backup_settings_def
    by (intro conjI) (simp_all add: texts numberValue_range remoteDirectory_facts)
qed

lemma settings_ok_stable:
  assumes "settings_ok s" shows "normalizeBackupSettings (settings_json s) = s"
  using assms unfolding normalizeBackupSettings_def Let_def settings_json_fields settings_ok_def
  by (intro backup_settings.equality)
    (auto simp: numberValue_id stringValue_id auth_round_trip remoteDirectory_facts(3) js_or_id)

lemma settings_json_inj: "settings_json a = settings_json b \<Longrightarrow> settings_ok a \<Longrightarrow> settings_ok b \<Longrightarrow> a = b"
  using settings_ok_stable by metis

lemma same_settings_iff: "sameNodeBackupSettings a b \<longleftrightarrow>
    normalizeBackupSettings (settings_json a) = normalizeBackupSettings (settings_json b)"
  using settings_json_inj normalized_settings_ok by (auto simp: sameNodeBackupSettings_def both_normalise)

section \<open>Property\<close>

text \<open>C33: Whatever value the backup settings are read from, the normal form has every number in its range,
  the retention counts, ports, delays and jobs included, its texts without surrounding blanks,
  and local backups and the admin listener on wherever remote backups are; normalising it again
  changes nothing; and the renderer's copy of the code computes the same settings as the main
  process.\<close>

theorem backup_settings_normal:
  "settings_ok (normalizeBackupSettings v) \<and>
   normalizeBackupSettings (settings_json (normalizeBackupSettings v)) = normalizeBackupSettings v \<and>
   normalizeNodeBackupSettings v = normalizeBackupSettings v"
  using normalized_settings_ok settings_ok_stable [OF normalized_settings_ok] both_normalise by simp

end
