(* ===== verification/NativeOutput.thy ===== *)
theory NativeOutput
  imports JsText
begin

text \<open>
  What the native node prints about backups, and how electron/lib/backup-service.ts reads it:
  progress lines, the JSON result at the end of an output that also holds log lines, snapshots,
  restore checks and the messages built from them.

  \<open>parse\<close> is \<open>JSON.parse\<close> (\<open>None\<close> when it throws) and \<open>num_str\<close> is \<open>String\<close> on a number.
  \<open>json_text\<close> is \<open>JSON.stringify\<close> without indentation: what the node prints.
\<close>

section \<open>JSON.stringify\<close>

definition hex_char :: "nat \<Rightarrow> char" where
  "hex_char n = ''0123456789abcdef'' ! n"

definition json_escape :: "char \<Rightarrow> string" where
  "json_escape c =
     (if c = CHR 0x22 then bsl @ dq
      else if c = CHR 0x5C then bsl @ bsl
      else if c = CHR 0x08 then bsl @ ''b''
      else if c = CHR 0x09 then bsl @ ''t''
      else if c = CHR 0x0A then bsl @ ''n''
      else if c = CHR 0x0C then bsl @ ''f''
      else if c = CHR 0x0D then bsl @ ''r''
      else if cu c < 32 then bsl @ ''u00'' @ [hex_char (cu c div 16), hex_char (cu c mod 16)]
      else [c])"

definition json_quoted :: "string \<Rightarrow> string" where
  "json_quoted s = dq @ concat (map json_escape s) @ dq"

function json_text :: "(jsnum \<Rightarrow> string) \<Rightarrow> jsval \<Rightarrow> string" where
  "json_text num_str JUndefined = ''null''"
| "json_text num_str JNull = ''null''"
| "json_text num_str (JBool b) = (if b then ''true'' else ''false'')"
| "json_text num_str (JNum x) = (case x of Fin r \<Rightarrow> num_str x | _ \<Rightarrow> ''null'')"
| "json_text num_str (JStr s) = json_quoted s"
| "json_text num_str (JArr vs) = ''['' @ js_join '','' (map (json_text num_str) vs) @ '']''"
| "json_text num_str (JObj ps) =
     CHR 0x7B # js_join '','' (map (\<lambda>(k, v). json_quoted k @ '':'' @ json_text num_str v)
       (filter (\<lambda>(k, v). v \<noteq> JUndefined) ps)) @ [CHR 0x7D]"
  by pat_completeness auto
termination
  by (relation "measure (size \<circ> snd)") (auto simp: less_Suc_eq_le size_list_estimation' dest: size_prop)

section \<open>Field readers\<close>

definition stringField :: "jsval \<Rightarrow> string" where
  "stringField v = (case v of JStr s \<Rightarrow> s | _ \<Rightarrow> [])"

definition numberField :: "jsval \<Rightarrow> rat" where
  "numberField v = (case v of JNum (Fin r) \<Rightarrow> r | _ \<Rightarrow> 0)"

text \<open>\<open>v && typeof v === 'object' ? v : {}\<close>; an array has none of the properties read.\<close>

definition record_of :: "jsval \<Rightarrow> jsval" where
  "record_of v = (case v of JObj ps \<Rightarrow> v | JArr vs \<Rightarrow> v | _ \<Rightarrow> JObj [])"

definition nestedRecord :: "jsval \<Rightarrow> string \<Rightarrow> jsval" where
  "nestedRecord v key = (case js_prop key v of JObj ps \<Rightarrow> JObj ps | _ \<Rightarrow> JObj [])"

section \<open>Sizes\<close>

text \<open>\<open>x.toFixed(d)\<close> for \<open>0 \<le> x < 10^21\<close>: the nearest multiple of \<open>10^-d\<close>, the larger one of two.\<close>

definition pad_digits :: "nat \<Rightarrow> string \<Rightarrow> string" where
  "pad_digits n s = replicate (n - length s) (CHR ''0'') @ s"

definition js_to_fixed :: "nat \<Rightarrow> rat \<Rightarrow> string" where
  "js_to_fixed d x =
     (let s = pad_digits (Suc d) (js_nat (nat \<lfloor>x * 10 ^ d + 1 / 2\<rfloor>))
      in if d = 0 then s else take (length s - d) s @ ''.'' @ drop (length s - d) s)"

fun scale_bytes :: "rat \<Rightarrow> string \<Rightarrow> string list \<Rightarrow> rat \<times> string" where
  "scale_bytes v u [] = (v, u)"
| "scale_bytes v u (w # us) = (if v \<ge> 1024 then scale_bytes (v / 1024) w us else (v, u))"

definition formatByteCount :: "jsnum \<Rightarrow> string" where
  "formatByteCount bytes =
     (case bytes of
        Fin b \<Rightarrow>
          if b \<le> 0 then ''0 B''
          else (case scale_bytes b ''B'' [''KB'', ''MB'', ''GB'', ''TB''] of (v, u) \<Rightarrow>
            js_to_fixed (if v \<ge> 10 \<or> u = ''B'' then 0 else 1) v @ '' '' @ u)
      | _ \<Rightarrow> ''0 B'')"

definition normalizeBackupProgressValue :: "jsnum \<Rightarrow> rat" where
  "normalizeBackupProgressValue progress =
     (case progress of
        Fin p \<Rightarrow> of_int \<lfloor>max 0 (min 100 p) * 10 + 1 / 2\<rfloor> / 10
      | _ \<Rightarrow> 0)"

section \<open>Progress lines\<close>

record progress_payload =
  pl_phase :: string
  pl_backupId :: string
  pl_completedBatches :: rat
  pl_totalBatches :: rat
  pl_attempt :: rat
  pl_fileCount :: rat
  pl_completedBytes :: rat
  pl_totalBytes :: rat

definition progress_of :: "string \<Rightarrow> string \<Rightarrow> jsval \<Rightarrow> progress_payload" where
  "progress_of phase backupId v =
     \<lparr>pl_phase = phase, pl_backupId = backupId,
      pl_completedBatches = numberField (js_prop ''completed_batches'' v),
      pl_totalBatches = numberField (js_prop ''total_batches'' v),
      pl_attempt = numberField (js_prop ''attempt'' v),
      pl_fileCount = numberField (js_prop ''file_count'' v),
      pl_completedBytes = numberField (js_prop ''completed_bytes'' v),
      pl_totalBytes = numberField (js_prop ''total_bytes'' v)\<rparr>"

definition parseNativeBackupProgressLine :: "(string \<Rightarrow> jsval option) \<Rightarrow> string \<Rightarrow> progress_payload option" where
  "parseNativeBackupProgressLine parse line =
     (let trimmed = js_trim line
      in if \<not> js_starts_with trimmed [CHR 0x7B] then None
         else (case parse trimmed of
             None \<Rightarrow> None
           | Some payload \<Rightarrow>
               if js_prop ''event'' payload \<noteq> JStr ''backup-progress'' then None
               else Some (progress_of (stringField (js_prop ''phase'' payload))
                 (stringField (js_prop ''backup_id'' payload)) payload)))"

definition nativeProgressFraction :: "progress_payload \<Rightarrow> rat" where
  "nativeProgressFraction p =
     (if pl_totalBatches p = 0
      then if pl_totalBytes p > 0 then max 0 (min 1 (pl_completedBytes p / pl_totalBytes p)) else 0
      else max 0 (min 1 (pl_completedBatches p / pl_totalBatches p)))"

record telemetry =
  te_completedBytes :: "rat option"
  te_totalBytes :: "rat option"
  te_completedBatches :: "rat option"
  te_totalBatches :: "rat option"
  te_phaseProgress :: "rat option"
  te_rangeStart :: rat
  te_rangeEnd :: rat

definition nativeProgressTelemetry :: "progress_payload \<Rightarrow> rat \<Rightarrow> rat \<Rightarrow> telemetry" where
  "nativeProgressTelemetry p lo hi =
     \<lparr>te_completedBytes = (if pl_completedBytes p > 0 then Some (pl_completedBytes p) else None),
      te_totalBytes = (if pl_totalBytes p > 0 then Some (pl_totalBytes p) else None),
      te_completedBatches = (if pl_completedBatches p = 0 then None else Some (pl_completedBatches p)),
      te_totalBatches = (if pl_totalBatches p = 0 then None else Some (pl_totalBatches p)),
      te_phaseProgress = Some (nativeProgressFraction p), te_rangeStart = lo, te_rangeEnd = hi\<rparr>"

definition nativeProgressSuffix :: "(jsnum \<Rightarrow> string) \<Rightarrow> progress_payload \<Rightarrow> string" where
  "nativeProgressSuffix num_str p =
     (let unit_name = (if js_includes (pl_phase p) ''stage'' then ''files''
            else if js_includes (pl_phase p) ''objects'' then ''objects'' else ''operations'');
          operations = (if pl_totalBatches p \<noteq> 0
            then num_str (Fin (pl_completedBatches p)) @ ''/'' @ num_str (Fin (pl_totalBatches p)) @ '' '' @ unit_name
            else []);
          size_text = (if pl_totalBytes p \<noteq> 0 then formatByteCount (Fin (pl_totalBytes p)) else [])
      in js_join ('' '' @ [CHR 0xB7] @ '' '') (filter (\<lambda>t. t \<noteq> []) [operations, size_text]))"

section \<open>The JSON result of an output\<close>

datatype output_error = EmptyOutput | NoFinalResult

definition output_error_text :: "output_error \<Rightarrow> string" where
  "output_error_text e =
     (case e of
        EmptyOutput \<Rightarrow> ''Native backup command returned empty output''
      | NoFinalResult \<Rightarrow> ''Native backup command did not return a final JSON result'')"

text \<open>\<open>parseJsonRecord(JSON.parse(s))\<close>, with \<open>None\<close> where one of the two throws: every caller
  in the scan catches.\<close>

definition parseJsonRecord :: "(string \<Rightarrow> jsval option) \<Rightarrow> string \<Rightarrow> jsval option" where
  "parseJsonRecord parse s = (case parse s of Some (JObj ps) \<Rightarrow> Some (JObj ps) | _ \<Rightarrow> None)"

definition opens :: "char \<Rightarrow> bool" where
  "opens c \<longleftrightarrow> c = CHR 0x7B \<or> c = CHR 0x5B"

definition closes :: "char \<Rightarrow> bool" where
  "closes c \<longleftrightarrow> c = CHR 0x7D \<or> c = CHR 0x5D"

definition closing :: "char \<Rightarrow> char" where
  "closing c = (if c = CHR 0x7B then CHR 0x7D else CHR 0x5D)"

text \<open>The inner loop: how many characters after the opening one belong to the fragment, with the
  stack of expected closing characters (last pushed first), or \<open>None\<close> when it breaks off at a
  wrong one or runs to the end.\<close>

fun fragment_length :: "char list \<Rightarrow> bool \<Rightarrow> bool \<Rightarrow> string \<Rightarrow> nat option" where
  "fragment_length stack inString escaped [] = None"
| "fragment_length stack inString escaped (c # cs) =
     map_option Suc
       (if inString then
          (if escaped then fragment_length stack True False cs
           else if c = CHR 0x5C then fragment_length stack True True cs
           else if c = CHR 0x22 then fragment_length stack False False cs
           else fragment_length stack True False cs)
        else if c = CHR 0x22 then fragment_length stack True escaped cs
        else if opens c then fragment_length (closing c # stack) False escaped cs
        else if \<not> closes c then fragment_length stack False escaped cs
        else
          (case stack of
             [] \<Rightarrow> None
           | expected # below \<Rightarrow>
               if c \<noteq> expected then None
               else if below \<noteq> [] then fragment_length below False escaped cs
               else Some 0))"

text \<open>The outer loop.\<close>

function json_results :: "(string \<Rightarrow> jsval option) \<Rightarrow> string \<Rightarrow> jsval list" where
  "json_results parse [] = []"
| "json_results parse (c # cs) =
     (if \<not> opens c then json_results parse cs
      else (case fragment_length [closing c] False False cs of
          None \<Rightarrow> json_results parse cs
        | Some n \<Rightarrow>
            (case parseJsonRecord parse (c # take n cs) of
               Some payload \<Rightarrow> push_if (js_prop ''event'' payload \<noteq> JStr ''backup-progress'') payload
             | None \<Rightarrow> []) @ json_results parse (drop n cs)))"
  by pat_completeness auto
termination
  by (relation "measure (length \<circ> snd)") auto

definition parseNativeBackupJsonOutput :: "(string \<Rightarrow> jsval option) \<Rightarrow> string \<Rightarrow> output_error + jsval" where
  "parseNativeBackupJsonOutput parse output =
     (let trimmed = js_trim output
      in if trimmed = [] then Inl EmptyOutput
         else (case parseJsonRecord parse trimmed of
             Some payload \<Rightarrow> Inr payload
           | None \<Rightarrow>
               (case json_results parse output of
                  [] \<Rightarrow> Inl NoFinalResult
                | results \<Rightarrow> Inr (last results))))"

section \<open>Snapshots and restore checks\<close>

record restore_space =
  rs_restoredDatabaseBytes :: rat
  rs_runtimeFilesBytes :: rat
  rs_objectDownloadBytes :: rat
  rs_minimumTargetFreeBytes :: rat
  rs_recommendedTargetFreeBytes :: rat

definition restore_space_of :: "jsval \<Rightarrow> restore_space" where
  "restore_space_of v =
     \<lparr>rs_restoredDatabaseBytes = numberField (js_prop ''restored_database_bytes'' v),
      rs_runtimeFilesBytes = numberField (js_prop ''runtime_files_bytes'' v),
      rs_objectDownloadBytes = numberField (js_prop ''object_download_bytes'' v),
      rs_minimumTargetFreeBytes = numberField (js_prop ''minimum_target_free_bytes'' v),
      rs_recommendedTargetFreeBytes = numberField (js_prop ''recommended_target_free_bytes'' v)\<rparr>"

record native_snapshot =
  sn_backupId :: string
  sn_createdAt :: string
  sn_latest :: bool
  sn_complete :: bool
  sn_nodeId :: string
  sn_nodeVersion :: string
  sn_storageLayout :: string
  sn_publicBootstrap :: bool
  sn_network :: string
  sn_chainId :: string
  sn_publicBaseUrl :: string
  sn_promotedAt :: string
  sn_sourceBackupId :: string
  sn_sourceCreatedAt :: string
  sn_sourceNodeVersion :: string
  sn_sourceHeadHeight :: rat
  sn_sourceLibHeight :: rat
  sn_repositoryDir :: string
  sn_snapshotDir :: string
  sn_manifest :: string
  sn_files :: string
  sn_fileCount :: rat
  sn_objectCount :: rat
  sn_totalBytes :: rat
  sn_restoreSpace :: restore_space

definition nativeBackupSnapshotFromPayload :: "jsval \<Rightarrow> native_snapshot" where
  "nativeBackupSnapshotFromPayload v =
     (let text = (\<lambda>k. stringField (js_prop k v));
          num = (\<lambda>k. numberField (js_prop k v));
          flag = (\<lambda>k. js_prop k v = JBool True)
      in \<lparr>sn_backupId = text ''backup_id'', sn_createdAt = text ''created_at'',
          sn_latest = flag ''latest'', sn_complete = flag ''complete'',
          sn_nodeId = text ''node_id'', sn_nodeVersion = text ''node_version'',
          sn_storageLayout = text ''storage_layout'', sn_publicBootstrap = flag ''public_bootstrap'',
          sn_network = text ''network'', sn_chainId = text ''chain_id'',
          sn_publicBaseUrl = text ''public_base_url'', sn_promotedAt = text ''promoted_at'',
          sn_sourceBackupId = text ''source_backup_id'', sn_sourceCreatedAt = text ''source_created_at'',
          sn_sourceNodeVersion = text ''source_node_version'',
          sn_sourceHeadHeight = num ''source_head_height'', sn_sourceLibHeight = num ''source_lib_height'',
          sn_repositoryDir = text ''repository_dir'', sn_snapshotDir = text ''snapshot_dir'',
          sn_manifest = text ''manifest'', sn_files = text ''files'',
          sn_fileCount = num ''file_count'', sn_objectCount = num ''object_count'',
          sn_totalBytes = num ''total_bytes'',
          sn_restoreSpace = restore_space_of (js_prop ''restore_space'' v)\<rparr>)"

record space_check =
  sc_passesMinimum :: bool
  sc_belowRecommended :: bool
  sc_availableBytes :: rat
  sc_targetPath :: string
  sc_message :: string

record preflight =
  pf_backupId :: string
  pf_readyToRestore :: bool
  pf_snapshotComplete :: bool
  pf_fileCount :: rat
  pf_missingObjectCount :: rat
  pf_missingObjectBytes :: rat
  pf_restoreSpace :: restore_space
  pf_spaceCheck :: space_check

definition empty_preflight :: preflight where
  "empty_preflight =
     \<lparr>pf_backupId = [], pf_readyToRestore = False, pf_snapshotComplete = False, pf_fileCount = 0,
      pf_missingObjectCount = 0, pf_missingObjectBytes = 0,
      pf_restoreSpace = \<lparr>rs_restoredDatabaseBytes = 0, rs_runtimeFilesBytes = 0, rs_objectDownloadBytes = 0,
        rs_minimumTargetFreeBytes = 0, rs_recommendedTargetFreeBytes = 0\<rparr>,
      pf_spaceCheck = \<lparr>sc_passesMinimum = False, sc_belowRecommended = False, sc_availableBytes = 0,
        sc_targetPath = [], sc_message = []\<rparr>\<rparr>"

definition publicRestorePreflightFromFetchPayload :: "jsval \<Rightarrow> preflight" where
  "publicRestorePreflightFromFetchPayload payload =
     (let check = record_of (js_prop ''preflight'' payload)
      in \<lparr>pf_backupId = stringField (js_prop ''backup_id'' payload),
          pf_readyToRestore = (js_prop ''ready_to_stage'' payload = JBool True),
          pf_snapshotComplete = (js_prop ''snapshot_complete'' check = JBool True),
          pf_fileCount = numberField (js_prop ''object_file_count'' payload),
          pf_missingObjectCount = numberField (js_prop ''missing_object_count'' check),
          pf_missingObjectBytes = numberField (js_prop ''missing_object_bytes'' check),
          pf_restoreSpace = \<lparr>rs_restoredDatabaseBytes = 0, rs_runtimeFilesBytes = 0,
            rs_objectDownloadBytes = numberField (js_prop ''repository_required_bytes'' payload),
            rs_minimumTargetFreeBytes = numberField (js_prop ''target_minimum_free_bytes'' check),
            rs_recommendedTargetFreeBytes = numberField (js_prop ''target_recommended_free_bytes'' check)\<rparr>,
          pf_spaceCheck = \<lparr>sc_passesMinimum = (js_prop ''target_space_passes_minimum'' check = JBool True),
            sc_belowRecommended = False,
            sc_availableBytes = numberField (js_prop ''target_available_bytes'' check),
            sc_targetPath = stringField (js_prop ''target_basedir'' payload),
            sc_message = stringField (js_prop ''message'' check)\<rparr>\<rparr>)"

definition parseNativeBackupPreflightPayload :: "jsval \<Rightarrow> preflight" where
  "parseNativeBackupPreflightPayload payload =
     (let inner = (case js_prop ''preflight'' payload of JObj ps \<Rightarrow> JObj ps | JArr vs \<Rightarrow> JArr vs | _ \<Rightarrow> payload);
          space = js_prop ''space_check'' inner
      in \<lparr>pf_backupId = stringField (js_prop ''backup_id'' inner),
          pf_readyToRestore = (js_prop ''ready_to_restore'' inner = JBool True),
          pf_snapshotComplete = (js_prop ''snapshot_complete'' inner = JBool True),
          pf_fileCount = numberField (js_prop ''file_count'' inner),
          pf_missingObjectCount = numberField (js_prop ''missing_object_count'' inner),
          pf_missingObjectBytes = numberField (js_prop ''missing_object_bytes'' inner),
          pf_restoreSpace = restore_space_of (js_prop ''restore_space'' inner),
          pf_spaceCheck = \<lparr>sc_passesMinimum = (js_prop ''passes_minimum'' space = JBool True),
            sc_belowRecommended = (js_prop ''below_recommended'' space = JBool True),
            sc_availableBytes = numberField (js_prop ''available_bytes'' space),
            sc_targetPath = stringField (js_prop ''target_path'' space),
            sc_message = stringField (js_prop ''message'' space)\<rparr>\<rparr>)"

definition parseNativeBackupPreflightOutput :: "(string \<Rightarrow> jsval option) \<Rightarrow> string \<Rightarrow> output_error + preflight" where
  "parseNativeBackupPreflightOutput parse output =
     map_sum id parseNativeBackupPreflightPayload (parseNativeBackupJsonOutput parse output)"

record remote_space =
  sp_ok :: bool
  sp_availableBytes :: rat
  sp_targetPath :: string
  sp_message :: string

definition nativeBackupRemoteSpaceFromPayload :: "jsval \<Rightarrow> remote_space option" where
  "nativeBackupRemoteSpaceFromPayload v =
     (if (case v of JObj _ \<Rightarrow> True | JArr _ \<Rightarrow> True | _ \<Rightarrow> False)
      then Some \<lparr>sp_ok = (js_prop ''ok'' v = JBool True), sp_availableBytes = numberField (js_prop ''available_bytes'' v),
        sp_targetPath = stringField (js_prop ''target_path'' v), sp_message = stringField (js_prop ''message'' v)\<rparr>
      else None)"

record native_list =
  nl_latestBackupId :: string
  nl_remoteSpace :: "remote_space option"
  nl_snapshots :: "native_snapshot list"

definition snapshots_of :: "jsval list \<Rightarrow> native_snapshot list" where
  "snapshots_of vs = filter (\<lambda>s. sn_backupId s \<noteq> []) (map nativeBackupSnapshotFromPayload vs)"

definition parseNativeBackupListPayload :: "jsval \<Rightarrow> native_list" where
  "parseNativeBackupListPayload payload =
     (let snapshotPayload = (case js_prop ''snapshots'' payload of JObj ps \<Rightarrow> JObj ps | _ \<Rightarrow> payload)
      in \<lparr>nl_latestBackupId = stringField (js_prop ''latest_backup_id'' snapshotPayload),
          nl_remoteSpace = nativeBackupRemoteSpaceFromPayload (js_prop ''remote_space'' snapshotPayload),
          nl_snapshots =
            (case js_prop ''snapshots'' payload of
               JArr vs \<Rightarrow> snapshots_of vs
             | _ \<Rightarrow> (case js_prop ''snapshots'' snapshotPayload of JArr vs \<Rightarrow> snapshots_of vs | _ \<Rightarrow> []))\<rparr>)"

definition parseNativeBackupListOutput :: "(string \<Rightarrow> jsval option) \<Rightarrow> string \<Rightarrow> output_error + native_list" where
  "parseNativeBackupListOutput parse output =
     map_sum id parseNativeBackupListPayload (parseNativeBackupJsonOutput parse output)"

section \<open>Messages\<close>

definition restoreBlockedMessage :: "jsval \<Rightarrow> string \<Rightarrow> string" where
  "restoreBlockedMessage payload fallback =
     (let check = nestedRecord payload ''preflight'';
          publicFetch = nestedRecord payload ''public_fetch'';
          remoteFetch = nestedRecord payload ''remote_fetch'';
          text = (\<lambda>k v. stringField (js_prop k v))
      in js_or (text ''download_skipped_reason'' payload)
         (js_or (text ''message'' check)
         (js_or (text ''download_skipped_reason'' publicFetch)
         (js_or (text ''message'' (nestedRecord publicFetch ''preflight''))
         (js_or (text ''download_skipped_reason'' remoteFetch)
         (js_or (text ''message'' (nestedRecord check ''space_check'')) fallback))))))"

definition partial_staging_re :: re where
  "partial_staging_re =
     seqs [lit_i ''restore partial staging directory already exists:'', Star space,
       Grp 1 (plus (none_of [CHR 0x0D, CHR 0x0A]))]"

definition restorePartialStagingDirectoryFromOutput :: "string \<Rightarrow> string" where
  "restorePartialStagingDirectoryFromOutput output =
     (case js_exec partial_staging_re output of None \<Rightarrow> [] | Some m \<Rightarrow> js_trim (cap 1 (match_caps m)))"

definition restorePartialStagingSolutionMessage :: "string \<Rightarrow> string" where
  "restorePartialStagingSolutionMessage partialDir =
     (let location = (if partialDir \<noteq> [] then '' ('' @ partialDir @ '')'' else [])
      in js_join '' ''
        [''A previous restore left partial staging data'' @ location @ ''.'',
         ''The existing node database was not replaced.'',
         ''If no restore is currently running, click Restore Backup again; Koinos One will clear only the stale partial restore staging directory and restart the restore safely.'',
         ''If another restore is still running, use Stop restore first or wait for it to finish.''])"

definition restoreBlockedMessageFromOutput :: "(string \<Rightarrow> jsval option) \<Rightarrow> string \<Rightarrow> string \<Rightarrow> string" where
  "restoreBlockedMessageFromOutput parse output fallback =
     (let partialStagingDir = restorePartialStagingDirectoryFromOutput output
      in if partialStagingDir \<noteq> [] then restorePartialStagingSolutionMessage partialStagingDir
         else (case parseNativeBackupJsonOutput parse output of
             Inl _ \<Rightarrow> fallback
           | Inr payload \<Rightarrow> restoreBlockedMessage payload fallback))"

section \<open>Printed records are fragments\<close>

text \<open>A text the scan passes over, inside a fragment, without touching the stack.\<close>

definition longer :: "nat \<Rightarrow> nat option \<Rightarrow> nat option" where
  "longer n x = map_option ((+) n) x"

lemma longer_simps [simp]:
  "longer 0 x = x" "longer m (longer n x) = longer (m + n) x" "map_option Suc x = longer 1 x"
  "longer n None = None" "longer n (Some k) = Some (n + k)"
  by (cases x; simp add: longer_def)+

definition passes :: "string \<Rightarrow> bool" where
  "passes w \<longleftrightarrow>
     (\<forall>stack tail. stack \<noteq> [] \<longrightarrow>
        fragment_length stack False False (w @ tail) =
        longer (length w) (fragment_length stack False False tail))"

definition calm :: "char \<Rightarrow> bool" where
  "calm c \<longleftrightarrow> c \<noteq> CHR 0x22 \<and> \<not> opens c \<and> \<not> closes c"

named_theorems passing \<open>texts the scan passes over\<close>

lemma passes_Nil [passing]: "passes []"
  by (simp add: passes_def)

lemma passes_append [passing]: "passes v \<Longrightarrow> passes w \<Longrightarrow> passes (v @ w)"
  by (simp add: passes_def)

lemma passes_calm: "calm c \<Longrightarrow> passes [c]"
  by (simp add: passes_def calm_def)

lemma passes_calm_text [passing]: "\<forall>c \<in> set w. calm c \<Longrightarrow> passes w"
proof (induction w)
  case (Cons c w)
  then show ?case using passes_append [OF passes_calm [of c], of w] by simp
qed (rule passes_Nil)

lemma passes_join [passing]:
  "(\<And>w. w \<in> set ws \<Longrightarrow> passes w) \<Longrightarrow> passes sep \<Longrightarrow> passes (js_join sep ws)"
  by (induction sep ws rule: js_join.induct) (simp_all add: passing)

lemma fragment_string_escape:
  "fragment_length stack True False (json_escape c @ tail) =
   longer (length (json_escape c)) (fragment_length stack True False tail)"
proof -
  have hex: "hex_char n \<noteq> CHR 0x22" "hex_char n \<noteq> CHR 0x5C" if "n < 16" for n
  proof -
    have "\<forall>n \<in> set [0..<16]. hex_char n \<noteq> CHR 0x22 \<and> hex_char n \<noteq> CHR 0x5C" by code_simp
    with that show "hex_char n \<noteq> CHR 0x22" "hex_char n \<noteq> CHR 0x5C" by auto
  qed
  have "cu c div 16 < 16" "cu c mod 16 < 16" if "cu c < 32" using that by auto
  with hex show ?thesis
    by (simp add: json_escape_def bsl_def dq_def)
qed

lemma passes_quoted [passing]: "passes (json_quoted s)"
proof -
  have "fragment_length stack True False (concat (map json_escape s) @ dq @ tail) =
      longer (length (concat (map json_escape s)) + 1) (fragment_length stack False False tail)"
    for stack tail
    by (induction s) (simp_all add: fragment_string_escape dq_def)
  then show ?thesis
    by (simp add: passes_def json_quoted_def dq_def)
qed

lemma passes_enclosed:
  assumes "passes w" "opens c" shows "passes (c # w @ [closing c])"
proof -
  have "c \<noteq> CHR 0x22" "closes (closing c)" "\<not> opens (closing c)" "closing c \<noteq> CHR 0x22"
    using assms(2) by (auto simp: opens_def closes_def closing_def)
  with assms show ?thesis
    by (simp add: passes_def)
qed

lemma fragment_of_enclosed:
  assumes "passes w" "opens c"
  shows "fragment_length [closing c] False False (w @ closing c # tail) = Some (Suc (length w))"
proof -
  have "closes (closing c)" "\<not> opens (closing c)" "closing c \<noteq> CHR 0x22"
    using assms(2) by (auto simp: opens_def closes_def closing_def)
  with assms(1) show ?thesis by (simp add: passes_def)
qed

text \<open>Number texts hold digits, signs, a point or an exponent, and no quote or bracket.\<close>

definition calm_numbers :: "(jsnum \<Rightarrow> string) \<Rightarrow> bool" where
  "calm_numbers num_str \<longleftrightarrow> (\<forall>x. \<forall>c \<in> set (num_str x). calm c)"

lemma passes_members:
  assumes "\<And>k v. (k, v) \<in> set ps \<Longrightarrow> v \<noteq> JUndefined \<Longrightarrow> passes (f v)"
  shows "passes (js_join '','' (map (\<lambda>(k, v). json_quoted k @ '':'' @ f v)
    (filter (\<lambda>(k, v). v \<noteq> JUndefined) ps)))"
proof -
  have colon: "passes '':''" and comma: "passes '',''"
    by (rule passes_calm_text; simp add: calm_def opens_def closes_def)+
  have "passes (json_quoted k @ '':'' @ f v)" if "(k, v) \<in> set ps" "v \<noteq> JUndefined" for k v
    using assms that by (intro passes_append passes_quoted colon) auto
  then show ?thesis by (intro passes_join comma) auto
qed

lemma passes_json_text: "calm_numbers num_str \<Longrightarrow> passes (json_text num_str v)"
proof (induction num_str v rule: json_text.induct)
  case (4 num_str x)
  have "passes (num_str x)" using 4 by (intro passes_calm_text) (simp add: calm_numbers_def)
  moreover have "passes ''null''" by (rule passes_calm_text) (simp add: calm_def opens_def closes_def)
  ultimately show ?case by (cases x) auto
next
  case (5 num_str s)
  show ?case by (simp add: passes_quoted)
next
  case (6 num_str vs)
  have comma: "passes '',''" by (rule passes_calm_text) (simp add: calm_def opens_def closes_def)
  have "passes (js_join '','' (map (json_text num_str) vs))"
    using 6 by (intro passes_join comma) auto
  from passes_enclosed [OF this, of "CHR ''[''"] show ?case by (simp add: opens_def closing_def)
next
  case (7 num_str ps)
  have "passes (js_join '','' (map (\<lambda>(k, v). json_quoted k @ '':'' @ json_text num_str v)
      (filter (\<lambda>(k, v). v \<noteq> JUndefined) ps)))"
    using 7 by (intro passes_members) auto
  from passes_enclosed [OF this, of "CHR 0x7B"] show ?case by (simp add: opens_def closing_def)
qed (simp_all add: passes_calm_text calm_def opens_def closes_def)

section \<open>Property\<close>

definition printed_record :: "(jsnum \<Rightarrow> string) \<Rightarrow> (string \<times> jsval) list \<Rightarrow> string" where
  "printed_record num_str ps = json_text num_str (JObj ps)"

text \<open>An output: log text without brackets before each printed record and after the last.\<close>

definition printed_output ::
  "(jsnum \<Rightarrow> string) \<Rightarrow> (string \<times> (string \<times> jsval) list) list \<Rightarrow> string \<Rightarrow> string" where
  "printed_output num_str chunks trailer =
     concat (map (\<lambda>(noise, ps). noise @ printed_record num_str ps) chunks) @ trailer"

definition quiet :: "string \<Rightarrow> bool" where
  "quiet w \<longleftrightarrow> list_all (\<lambda>c. \<not> opens c) w"

definition final_results :: "(string \<times> (string \<times> jsval) list) list \<Rightarrow> jsval list" where
  "final_results chunks =
     filter (\<lambda>r. js_prop ''event'' r \<noteq> JStr ''backup-progress'') (map (\<lambda>(noise, ps). JObj ps) chunks)"

lemma printed_record_shape: "\<exists>w. printed_record num_str ps = CHR 0x7B # w @ [CHR 0x7D]"
  by (simp add: printed_record_def)

lemma fragment_of_record:
  assumes "calm_numbers num_str"
  obtains w where "printed_record num_str ps = CHR 0x7B # w"
    and "fragment_length [CHR 0x7D] False False (w @ tail) = Some (length w)"
proof -
  let ?body = "js_join '','' (map (\<lambda>(k, v). json_quoted k @ '':'' @ json_text num_str v)
      (filter (\<lambda>(k, v). v \<noteq> JUndefined) ps))"
  have "passes ?body" by (intro passes_members passes_json_text assms)
  from fragment_of_enclosed [OF this, of "CHR 0x7B" tail]
  have "fragment_length [CHR 0x7D] False False ((?body @ [CHR 0x7D]) @ tail) = Some (length (?body @ [CHR 0x7D]))"
    by (simp add: opens_def closing_def)
  then show thesis using that [of "?body @ [CHR 0x7D]"] by (simp add: printed_record_def)
qed

lemma json_results_quiet: "quiet w \<Longrightarrow> json_results parse (w @ tail) = json_results parse tail"
  by (induction w) (simp_all add: quiet_def)

lemma json_results_printed:
  assumes "calm_numbers num_str" "quiet trailer"
    and "list_all (\<lambda>(noise, ps). quiet noise \<and> parse (printed_record num_str ps) = Some (JObj ps)) chunks"
  shows "json_results parse (printed_output num_str chunks trailer) = final_results chunks"
  using assms(3)
proof (induction chunks)
  case Nil
  then show ?case using json_results_quiet [OF assms(2), of parse "[]"]
    by (simp add: printed_output_def final_results_def)
next
  case (Cons chunk chunks)
  obtain noise ps where c: "chunk = (noise, ps)" by (cases chunk)
  let ?tail = "printed_output num_str chunks trailer"
  obtain w where w: "printed_record num_str ps = CHR 0x7B # w"
    and n: "fragment_length [CHR 0x7D] False False (w @ ?tail) = Some (length w)"
    using fragment_of_record [OF assms(1)] by blast
  have "printed_output num_str (chunk # chunks) trailer = noise @ CHR 0x7B # w @ ?tail"
    by (simp add: printed_output_def c w)
  moreover have "quiet noise" "parse (CHR 0x7B # w) = Some (JObj ps)"
    using Cons.prems by (simp_all add: c w)
  moreover have "json_results parse ?tail = final_results chunks" using Cons by simp
  ultimately show ?case
    by (simp add: json_results_quiet n opens_def closing_def parseJsonRecord_def push_if_def final_results_def c)
qed

lemma js_trim_Nil: "js_trim s = [] \<Longrightarrow> c \<in> set s \<Longrightarrow> is_space c"
  using dropWhile_eq_Nil_conv [of is_space "rev (dropWhile is_space s)"]
  by (auto simp: js_trim_def js_trim_start_def) (metis UnE set_append set_takeWhileD takeWhile_dropWhile_id)

text \<open>The JSON result is found in an output that also holds log lines and progress records: as long
  as the text between the printed records has no opening bracket, the last printed record that is no
  progress event is returned, whatever strings, braces in strings and nested values the records hold;
  with progress events only there is no result. JSON.parse is relied on to read each printed record
  back and to refuse the output as a whole.\<close>

theorem last_result_is_read:
  assumes "calm_numbers num_str" "quiet trailer" "chunks \<noteq> []"
    and "list_all (\<lambda>(noise, ps). quiet noise \<and> parse (printed_record num_str ps) = Some (JObj ps)) chunks"
    and "parseJsonRecord parse (js_trim (printed_output num_str chunks trailer)) = None"
  shows "parseNativeBackupJsonOutput parse (printed_output num_str chunks trailer) =
    (case final_results chunks of [] \<Rightarrow> Inl NoFinalResult | rs \<Rightarrow> Inr (last rs))"
proof -
  have "CHR 0x7B \<in> set (printed_output num_str chunks trailer)"
    using assms(3) by (cases chunks) (auto simp: printed_output_def printed_record_def)
  moreover have "\<not> is_space (CHR 0x7B)" by code_simp
  ultimately have "js_trim (printed_output num_str chunks trailer) \<noteq> []" using js_trim_Nil by blast
  with assms(5) show ?thesis
    unfolding parseNativeBackupJsonOutput_def Let_def json_results_printed [OF assms(1,2,4)] by simp
qed

definition sample_chunks :: "(string \<times> (string \<times> jsval) list) list" where
  "sample_chunks =
     [(''copying'' @ nl, [(''event'', JStr ''backup-progress'')]),
      (nl @ ''done: '', [(''backup_id'', JStr ([CHR 0x7B] @ dq @ ''1]''))])]"

definition sample_parse :: "string \<Rightarrow> jsval option" where
  "sample_parse s =
     (if s = printed_record (\<lambda>_. ''1'') (snd (sample_chunks ! 0)) then Some (JObj (snd (sample_chunks ! 0)))
      else if s = printed_record (\<lambda>_. ''1'') (snd (sample_chunks ! 1)) then Some (JObj (snd (sample_chunks ! 1)))
      else None)"

theorem last_result_is_read_witness:
  "parseNativeBackupJsonOutput sample_parse (printed_output (\<lambda>_. ''1'') sample_chunks nl) =
   Inr (JObj (snd (sample_chunks ! 1)))"
proof -
  have "calm_numbers (\<lambda>_. ''1'')" by (simp add: calm_numbers_def calm_def opens_def closes_def)
  moreover have "quiet nl" "sample_chunks \<noteq> []"
    "list_all (\<lambda>(noise, ps). quiet noise \<and> sample_parse (printed_record (\<lambda>_. ''1'') ps) = Some (JObj ps)) sample_chunks"
    "parseJsonRecord sample_parse (js_trim (printed_output (\<lambda>_. ''1'') sample_chunks nl)) = None"
    by code_simp+
  ultimately have "parseNativeBackupJsonOutput sample_parse (printed_output (\<lambda>_. ''1'') sample_chunks nl) =
      (case final_results sample_chunks of [] \<Rightarrow> Inl NoFinalResult | rs \<Rightarrow> Inr (last rs))"
    by (rule last_result_is_read)
  moreover have "final_results sample_chunks = [JObj (snd (sample_chunks ! 1))]" by code_simp
  ultimately show ?thesis by simp
qed

lemma fraction_range: "0 \<le> nativeProgressFraction p" "nativeProgressFraction p \<le> 1"
  by (simp_all add: nativeProgressFraction_def)

lemma progress_value_range:
  "0 \<le> normalizeBackupProgressValue x" "normalizeBackupProgressValue x \<le> 100"
proof -
  have "\<lfloor>max 0 (min 100 p) * 10 + 1 / 2\<rfloor> \<le> 1000 \<and> 0 \<le> \<lfloor>max 0 (min 100 p) * 10 + 1 / 2 :: rat\<rfloor>" for p
    by (auto simp: floor_le_iff le_floor_iff max_def min_def)
  then have "0 \<le> normalizeBackupProgressValue x \<and> normalizeBackupProgressValue x \<le> 100"
    by (cases x) (auto simp: normalizeBackupProgressValue_def)
  then show "0 \<le> normalizeBackupProgressValue x" "normalizeBackupProgressValue x \<le> 100" by blast+
qed

end
