(* ===== verification/NativeConfig.thy ===== *)
theory NativeConfig
  imports NodePath BackupSettings NativeOutput Networks "HOL-Library.Countable"
begin

text \<open>
  The configuration file of the native backup tool (electron/lib/backup-service.ts): which file it is,
  what \<open>writeNativeBackupConfig\<close> puts into it, with the admin token file it makes, and what
  \<open>readNativeBackupSettingsFromDocument\<close> reads from it.

  A YAML document is the list of its leaves, each with its path (\<open>yaml_doc\<close>): \<open>getIn\<close> looks a path
  up, and \<open>setIn\<close> replaces a leaf or adds it. Parsing and printing it are arguments, as are the variables of the
  environment and the random token; \<open>chmod\<close> is left out.
\<close>

section \<open>Paths\<close>

definition native_backup_dir :: string where
  "native_backup_dir = ''.teleno-native-backups''"

definition nativeBackupRepositoryDir :: "string \<Rightarrow> string" where
  "nativeBackupRepositoryDir baseDir = path_join [baseDir, native_backup_dir, ''repository'']"

definition nativeBackupWorkspaceDir :: "string \<Rightarrow> string" where
  "nativeBackupWorkspaceDir baseDir = path_join [baseDir, native_backup_dir, ''workspace'']"

definition nativeBackupConfigPath :: "string \<Rightarrow> string" where
  "nativeBackupConfigPath baseDir = path_join [baseDir, native_backup_dir, ''teleno-native-backup-config.yml'']"

definition nativeBackupAdminTokenPath :: "string \<Rightarrow> string" where
  "nativeBackupAdminTokenPath baseDir = path_join [baseDir, native_backup_dir, ''admin.token'']"

type_synonym variables = "string \<Rightarrow> string option"

text \<open>\<open>process.env.HOME || process.env.USERPROFILE\<close>; empty when neither is set.\<close>

definition variable :: "variables \<Rightarrow> string \<Rightarrow> string" where
  "variable vars k = (case vars k of Some s \<Rightarrow> s | None \<Rightarrow> [])"

definition home_dir :: "variables \<Rightarrow> string" where
  "home_dir vars = js_or (variable vars ''HOME'') (variable vars ''USERPROFILE'')"

definition expandBackupFilePath :: "variables \<Rightarrow> string \<Rightarrow> string" where
  "expandBackupFilePath vars v =
     (let trimmed = js_trim v
      in if trimmed = [] then []
         else if trimmed = ''~'' then js_or (home_dir vars) trimmed
         else if (js_starts_with trimmed ''~/'' \<or> js_starts_with trimmed (''~'' @ bsl)) \<and> home_dir vars \<noteq> []
         then path_join [home_dir vars, drop 2 trimmed]
         else trimmed)"

definition envFlagEnabled :: "string \<Rightarrow> bool" where
  "envFlagEnabled v = (js_lower (js_trim v) \<in> {''1'', ''true'', ''yes''})"

definition public_testnet_bootstrap_url :: string where
  "public_testnet_bootstrap_url = ''https://testnet.koinosfoundation.org/backups/testnet/teleno-bootstrap''"

definition public_mainnet_bootstrap_url :: string where
  "public_mainnet_bootstrap_url = ''https://seed.koinosfoundation.org/backups/prodnet/teleno-bootstrap''"

definition backup_publicBootstrapUrlForNetwork :: "network \<Rightarrow> string" where
  "backup_publicBootstrapUrlForNetwork net =
     (case net of Testnet \<Rightarrow> public_testnet_bootstrap_url | Mainnet \<Rightarrow> public_mainnet_bootstrap_url | Custom \<Rightarrow> [])"

definition publicBootstrapSignaturePublicKeyFileForNetwork :: "string \<Rightarrow> network \<Rightarrow> fs \<Rightarrow> string" where
  "publicBootstrapSignaturePublicKeyFileForNetwork configRoot net fs =
     (let relativePath = (case net of
            Testnet \<Rightarrow> path_join [''public-bootstrap'', ''testnet-ed25519.pub'']
          | Mainnet \<Rightarrow> path_join [''public-bootstrap'', ''prodnet-ed25519.pub'']
          | Custom \<Rightarrow> []);
          keyFile = path_join [configRoot, relativePath]
      in if relativePath = [] then [] else if fs_exists fs keyFile then keyFile else [])"

definition publicBootstrapCliArgs :: "network \<Rightarrow> string list" where
  "publicBootstrapCliArgs net =
     (let u = backup_publicBootstrapUrlForNetwork net in if u \<noteq> [] then [''--backup-public-url'', u] else [])"

section \<open>The admin token file\<close>

definition path_dirname_loc :: "string \<Rightarrow> location" where
  "path_dirname_loc p = butlast (loc p)"

text \<open>\<open>None\<close> is a thrown error.\<close>

definition ensureNativeBackupAdminTokenFile :: "variables \<Rightarrow> string \<Rightarrow> string \<Rightarrow> string \<Rightarrow> fs \<Rightarrow> (string \<times> fs) option" where
  "ensureNativeBackupAdminTokenFile vars token baseDir requestedPath fs =
     (let tokenPath = js_or (expandBackupFilePath vars requestedPath) (nativeBackupAdminTokenPath baseDir);
          create = Option.bind (mkdir_all (path_dirname_loc tokenPath) fs) (\<lambda>fs1.
            map_option (\<lambda>fs2. (tokenPath, fs2)) (write_file (loc tokenPath) (Bytes (token @ nl)) fs1))
      in case fs (loc tokenPath) of
           Some (File (Bytes existing)) \<Rightarrow> if js_trim existing \<noteq> [] then Some (tokenPath, fs) else create
         | Some (File (Json _)) \<Rightarrow> Some (tokenPath, fs)
         | Some Dir \<Rightarrow> None
         | None \<Rightarrow> create)"

section \<open>Reading a document\<close>

type_synonym yaml_doc = "(string list \<times> jsval) list"

definition get_in :: "yaml_doc \<Rightarrow> string list \<Rightarrow> jsval" where
  "get_in doc p = (case map_of doc p of Some v \<Rightarrow> v | None \<Rightarrow> JUndefined)"

definition yamlString :: "jsval \<Rightarrow> jsval option" where
  "yamlString v = (case v of JStr s \<Rightarrow> Some (JStr (js_trim s)) | _ \<Rightarrow> None)"

definition yamlNumber :: "jsval \<Rightarrow> jsval option" where
  "yamlNumber v =
     (case v of
        JNum (Fin r) \<Rightarrow> Some v
      | JStr s \<Rightarrow> if js_trim s = [] then None else map_option (\<lambda>n. JNum (Fin (of_int n))) (js_parse_int s)
      | _ \<Rightarrow> None)"

definition yamlBoolean :: "jsval \<Rightarrow> jsval option" where
  "yamlBoolean v = (case v of JBool b \<Rightarrow> Some v | _ \<Rightarrow> None)"

text \<open>\<open>a ?? b\<close>.\<close>

definition or_else :: "'a option \<Rightarrow> 'a option \<Rightarrow> 'a option" where
  "or_else a b = (case a of Some x \<Rightarrow> Some x | None \<Rightarrow> b)"

definition document_fields :: "yaml_doc \<Rightarrow> (string \<times> jsval option) list" where
  "document_fields doc =
     (let leaf = (\<lambda>section key. get_in doc [''backup'', section, key])
      in [(''localEnabled'', yamlBoolean (leaf ''local'' ''enabled'')),
          (''localDirectory'', yamlString (leaf ''local'' ''directory'')),
          (''workspace'', yamlString (get_in doc [''backup'', ''workspace''])),
          (''localRetentionCount'', yamlNumber (leaf ''local'' ''retention-count'')),
          (''remoteEnabled'', or_else (yamlBoolean (leaf ''remote'' ''enabled'')) (yamlBoolean (leaf ''ssh'' ''enabled''))),
          (''remoteDirectory'', yamlString (leaf ''remote'' ''directory'')),
          (''remoteRetentionCount'', yamlNumber (leaf ''remote'' ''retention-count'')),
          (''remoteRetentionDays'', yamlNumber (leaf ''remote'' ''retention-days'')),
          (''uploadTempSuffix'', yamlString (leaf ''remote'' ''upload-temp-suffix'')),
          (''sshHost'', yamlString (leaf ''ssh'' ''host'')),
          (''sshPort'', yamlNumber (leaf ''ssh'' ''port'')),
          (''sshUser'', yamlString (leaf ''ssh'' ''user'')),
          (''sshAuth'', yamlString (leaf ''ssh'' ''auth'')),
          (''sshPrivateKeyFile'', yamlString (leaf ''ssh'' ''private-key-file'')),
          (''sshPasswordFile'', yamlString (leaf ''ssh'' ''password-file'')),
          (''sshPassphraseFile'', yamlString (leaf ''ssh'' ''passphrase-file'')),
          (''sshKnownHostsFile'', yamlString (leaf ''ssh'' ''known-hosts-file'')),
          (''sshStrictHostKeyChecking'', yamlBoolean (leaf ''ssh'' ''strict-host-key-checking'')),
          (''sshConnectTimeoutSeconds'', yamlNumber (leaf ''ssh'' ''connect-timeout-seconds'')),
          (''scheduleEnabled'', yamlBoolean (leaf ''schedule'' ''enabled'')),
          (''scheduleInterval'', yamlString (leaf ''schedule'' ''interval'')),
          (''scheduleRunOnStartupIfMissed'', yamlBoolean (leaf ''schedule'' ''run-on-startup-if-missed'')),
          (''scheduleJitterSeconds'', yamlNumber (leaf ''schedule'' ''jitter-seconds'')),
          (''scheduleMinimumHeadProgress'', yamlNumber (leaf ''schedule'' ''minimum-head-progress'')),
          (''scheduleSkipIfSyncingFromGenesis'', yamlBoolean (leaf ''schedule'' ''skip-if-syncing-from-genesis'')),
          (''scheduleMaxConcurrentBackups'', yamlNumber (leaf ''schedule'' ''max-concurrent-backups'')),
          (''adminEnabled'', yamlBoolean (leaf ''admin'' ''enabled'')),
          (''adminListen'', yamlString (leaf ''admin'' ''listen'')),
          (''adminTokenFile'', yamlString (leaf ''admin'' ''token-file'')),
          (''adminJobs'', yamlNumber (leaf ''admin'' ''jobs''))])"

definition assigned_fields :: "(string \<times> jsval option) list \<Rightarrow> (string \<times> jsval) list" where
  "assigned_fields items = concat (map (\<lambda>(k, v). case v of None \<Rightarrow> [] | Some x \<Rightarrow> [(k, x)]) items)"

text \<open>\<open>{ ...fallback, ...partial }\<close>.\<close>

definition overlay :: "jsval \<Rightarrow> (string \<times> jsval) list \<Rightarrow> jsval" where
  "overlay base updates = (case base of JObj ps \<Rightarrow> JObj (js_put_all ps updates) | _ \<Rightarrow> JObj updates)"

definition readNativeBackupSettingsFromDocument :: "yaml_doc \<Rightarrow> backup_settings \<Rightarrow> backup_settings" where
  "readNativeBackupSettingsFromDocument doc fallback =
     normalizeBackupSettings (overlay (settings_json fallback) (assigned_fields (document_fields doc)))"

section \<open>Writing the configuration\<close>

fun set_leaf :: "string list \<Rightarrow> jsval \<Rightarrow> yaml_doc \<Rightarrow> yaml_doc" where
  "set_leaf p v [] = [(p, v)]"
| "set_leaf p v ((q, w) # doc) = (if q = p then (p, v) # doc else (q, w) # set_leaf p v doc)"

definition set_in :: "(string list \<times> jsval) list \<Rightarrow> yaml_doc \<Rightarrow> yaml_doc" where
  "set_in updates doc = foldl (\<lambda>d (p, v). set_leaf p v d) doc updates"

definition set_when :: "bool \<Rightarrow> string list \<Rightarrow> jsval \<Rightarrow> (string list \<times> jsval) list" where
  "set_when b p v = (if b then [(p, v)] else [])"

definition env_number :: "variables \<Rightarrow> string \<Rightarrow> string \<Rightarrow> jsval" where
  "env_number vars k d = JNum (js_to_number (js_or (variable vars k) d))"

text \<open>\<open>Inl\<close> is a thrown error.\<close>

definition applyNativeBackupRemoteEnv :: "variables \<Rightarrow> yaml_doc \<Rightarrow> string + yaml_doc" where
  "applyNativeBackupRemoteEnv vars doc =
     (let var = variable vars;
          host = js_trim (var ''TELENO_BACKUP_SSH_HOST'');
          user = js_trim (var ''TELENO_BACKUP_SSH_USER'');
          remoteDir = js_trim (var ''TELENO_BACKUP_REMOTE_DIR'');
          ssh = (\<lambda>k. [''backup'', ''ssh'', k]); remote = (\<lambda>k. [''backup'', ''remote'', k])
      in if \<not> envFlagEnabled (var ''TELENO_BACKUP_REMOTE'') then Inr doc
         else if host = [] \<or> user = [] \<or> remoteDir = []
         then Inl ''TELENO_BACKUP_REMOTE=1 requires TELENO_BACKUP_SSH_HOST, TELENO_BACKUP_SSH_USER, and TELENO_BACKUP_REMOTE_DIR''
         else if \<not> js_starts_with remoteDir ''/''
         then Inl ''TELENO_BACKUP_REMOTE_DIR must be an absolute remote path''
         else Inr (set_in
           ([(ssh ''enabled'', JBool True), (ssh ''transport'', JStr ''native''),
             (ssh ''host'', JStr host), (ssh ''port'', env_number vars ''TELENO_BACKUP_SSH_PORT'' ''22''),
             (ssh ''user'', JStr user),
             (ssh ''auth'', JStr (js_or (js_trim (var ''TELENO_BACKUP_SSH_AUTH'')) ''private-key'')),
             (ssh ''strict-host-key-checking'', JBool (vars ''TELENO_BACKUP_SSH_STRICT_HOST_KEY_CHECKING'' \<noteq> Some ''false'')),
             (ssh ''connect-timeout-seconds'', env_number vars ''TELENO_BACKUP_SSH_CONNECT_TIMEOUT_SECONDS'' ''15'')] @
            concat (map (\<lambda>(name, key). set_when (var name \<noteq> []) (ssh key) (JStr (var name)))
              [(''TELENO_BACKUP_SSH_PRIVATE_KEY_FILE'', ''private-key-file''),
               (''TELENO_BACKUP_SSH_PASSWORD_FILE'', ''password-file''),
               (''TELENO_BACKUP_SSH_PASSPHRASE_FILE'', ''passphrase-file''),
               (''TELENO_BACKUP_SSH_KNOWN_HOSTS_FILE'', ''known-hosts-file'')]) @
            [(remote ''enabled'', JBool True), (remote ''directory'', JStr remoteDir),
             (remote ''retention-count'', env_number vars ''TELENO_BACKUP_REMOTE_RETENTION_COUNT'' ''14''),
             (remote ''retention-days'', env_number vars ''TELENO_BACKUP_REMOTE_RETENTION_DAYS'' ''30''),
             (remote ''upload-temp-suffix'', JStr (js_or (var ''TELENO_BACKUP_REMOTE_UPLOAD_TEMP_SUFFIX'') ''.partial''))]) doc))"

text \<open>The settings that go into the document, in the order of the code.\<close>

definition config_updates ::
  "network \<Rightarrow> backup_settings \<Rightarrow> variables \<Rightarrow> string \<Rightarrow> string \<Rightarrow> string \<Rightarrow> string \<Rightarrow> (string list \<times> jsval) list" where
  "config_updates net b vars localDirectory workspace adminTokenFile signatureKeyFile =
     (let leaf = (\<lambda>section key. [''backup'', section, key]); num = (\<lambda>r. JNum (Fin r));
          url = backup_publicBootstrapUrlForNetwork net;
          key_file = (\<lambda>key v. set_when (expandBackupFilePath vars v \<noteq> []) (leaf ''ssh'' key) (JStr (expandBackupFilePath vars v)))
      in [([''backup'', ''enabled''], JBool True),
          ([''backup'', ''node-id''], JStr (''teleno-ux-'' @ network_str net)),
          ([''backup'', ''workspace''], JStr workspace),
          (leaf ''local'' ''enabled'', JBool (bs_remoteEnabled b \<or> bs_localEnabled b)),
          (leaf ''local'' ''directory'', JStr localDirectory),
          (leaf ''local'' ''retention-count'', num (bs_localRetentionCount b)),
          (leaf ''ssh'' ''enabled'', JBool (bs_remoteEnabled b)),
          (leaf ''ssh'' ''transport'', JStr ''native''),
          (leaf ''ssh'' ''host'', JStr (bs_sshHost b)),
          (leaf ''ssh'' ''port'', num (bs_sshPort b)),
          (leaf ''ssh'' ''user'', JStr (bs_sshUser b)),
          (leaf ''ssh'' ''auth'', JStr (auth_str (bs_sshAuth b))),
          (leaf ''ssh'' ''strict-host-key-checking'', JBool (bs_sshStrictHostKeyChecking b)),
          (leaf ''ssh'' ''connect-timeout-seconds'', num (bs_sshConnectTimeoutSeconds b))] @
         key_file ''private-key-file'' (bs_sshPrivateKeyFile b) @
         key_file ''password-file'' (bs_sshPasswordFile b) @
         key_file ''passphrase-file'' (bs_sshPassphraseFile b) @
         key_file ''known-hosts-file'' (bs_sshKnownHostsFile b) @
         [(leaf ''remote'' ''enabled'', JBool (bs_remoteEnabled b)),
          (leaf ''remote'' ''directory'', JStr (bs_remoteDirectory b)),
          (leaf ''remote'' ''retention-count'', num (bs_remoteRetentionCount b)),
          (leaf ''remote'' ''retention-days'', num (bs_remoteRetentionDays b)),
          (leaf ''remote'' ''upload-temp-suffix'', JStr (js_or (bs_uploadTempSuffix b) ''.partial'')),
          (leaf ''schedule'' ''enabled'', JBool (bs_scheduleEnabled b)),
          (leaf ''schedule'' ''interval'', JStr (bs_scheduleInterval b)),
          (leaf ''schedule'' ''run-on-startup-if-missed'', JBool (bs_scheduleRunOnStartupIfMissed b)),
          (leaf ''schedule'' ''jitter-seconds'', num (bs_scheduleJitterSeconds b)),
          (leaf ''schedule'' ''minimum-head-progress'', num (bs_scheduleMinimumHeadProgress b)),
          (leaf ''schedule'' ''skip-if-syncing-from-genesis'', JBool (bs_scheduleSkipIfSyncingFromGenesis b)),
          (leaf ''schedule'' ''max-concurrent-backups'', num (bs_scheduleMaxConcurrentBackups b)),
          (leaf ''admin'' ''enabled'', JBool (bs_adminEnabled b)),
          (leaf ''admin'' ''listen'', JStr (bs_adminListen b)),
          (leaf ''admin'' ''token-file'', JStr adminTokenFile),
          (leaf ''admin'' ''jobs'', num (bs_adminJobs b)),
          (leaf ''public-restore'' ''enabled'', JBool (url \<noteq> [])),
          (leaf ''public-restore'' ''base-url'', JStr url),
          (leaf ''public-restore'' ''network'', JStr (network_str net)),
          (leaf ''public-restore'' ''require-https'', JBool True),
          (leaf ''public-restore'' ''timeout-seconds'', num 30),
          (leaf ''public-restore'' ''retries'', num 3),
          (leaf ''public-restore'' ''signature-required'', JBool (url \<noteq> [] \<and> signatureKeyFile \<noteq> [])),
          (leaf ''public-restore'' ''signature-public-key-file'', JStr signatureKeyFile)])"

record config_env =
  ce_vars :: variables
  ce_token :: string
  ce_configRoot :: string
  ce_parse :: "string \<Rightarrow> yaml_doc"
  ce_errors :: "string \<Rightarrow> string option"
  ce_print :: "yaml_doc \<Rightarrow> string"
  ce_fsError :: string

record native_backup =
  nb_configPath :: string
  nb_repositoryDir :: string
  nb_workspaceDir :: string

definition config_text :: "fs \<Rightarrow> string \<Rightarrow> string" where
  "config_text fs p = (case fs (loc p) of Some (File (Bytes raw)) \<Rightarrow> js_or raw (''{}'' @ nl) | _ \<Rightarrow> ''{}'' @ nl)"

text \<open>\<open>Inl\<close> is a thrown error; directories made on the way to a failure are not kept in the model.\<close>

definition writeNativeBackupConfig ::
  "config_env \<Rightarrow> network \<Rightarrow> string \<Rightarrow> backup_settings \<Rightarrow> fs \<Rightarrow> (string + native_backup) \<times> fs" where
  "writeNativeBackupConfig env net baseDir b fs =
     (let vars = ce_vars env;
          configPath = nativeBackupConfigPath baseDir;
          localDirectory = js_or (expandBackupFilePath vars (bs_localDirectory b)) (nativeBackupRepositoryDir baseDir);
          workspace = js_or (expandBackupFilePath vars (bs_workspace b)) (nativeBackupWorkspaceDir baseDir)
      in case (if bs_adminEnabled b then ensureNativeBackupAdminTokenFile vars (ce_token env) baseDir (bs_adminTokenFile b) fs
               else Some (expandBackupFilePath vars (bs_adminTokenFile b), fs)) of
           None \<Rightarrow> (Inl (ce_fsError env), fs)
         | Some (adminTokenFile, fs1) \<Rightarrow>
             let doc = ce_parse env (config_text fs1 (path_join [baseDir, ''config.yml'']));
                 keyFile = publicBootstrapSignaturePublicKeyFileForNetwork (ce_configRoot env) net fs1
             in (case applyNativeBackupRemoteEnv vars
                     (set_in (config_updates net b vars localDirectory workspace adminTokenFile keyFile) doc) of
                   Inl message \<Rightarrow> (Inl message, fs1)
                 | Inr doc1 \<Rightarrow>
                     (case Option.bind (mkdir_all (path_dirname_loc configPath) fs1) (\<lambda>fs2.
                          Option.bind (mkdir_all (loc localDirectory) fs2) (\<lambda>fs3.
                          Option.bind (mkdir_all (loc workspace) fs3) (\<lambda>fs4.
                          write_file (loc configPath) (Bytes (ce_print env doc1)) fs4))) of
                        None \<Rightarrow> (Inl (ce_fsError env), fs1)
                      | Some fs5 \<Rightarrow> (Inr \<lparr>nb_configPath = configPath, nb_repositoryDir = localDirectory,
                          nb_workspaceDir = workspace\<rparr>, fs5))))"

text \<open>The operation behind "show the native configuration": \<open>ce_errors\<close> is the first error of parsing.\<close>

record config_result =
  cr_ok :: bool
  cr_output :: string
  cr_configPath :: string
  cr_repositoryDir :: string
  cr_workspaceDir :: string
  cr_backup :: "backup_settings option"

definition nativeBackupConfig :: "config_env \<Rightarrow> string \<Rightarrow> backup_settings \<Rightarrow> fs \<Rightarrow> config_result" where
  "nativeBackupConfig env baseDir b fs =
     (let configPath = nativeBackupConfigPath baseDir;
          defaultRepositoryDir = nativeBackupRepositoryDir baseDir;
          defaultWorkspaceDir = nativeBackupWorkspaceDir baseDir;
          refuse = (\<lambda>t. \<lparr>cr_ok = False, cr_output = t, cr_configPath = configPath,
            cr_repositoryDir = defaultRepositoryDir, cr_workspaceDir = defaultWorkspaceDir, cr_backup = None\<rparr>)
      in case fs (loc configPath) of
           None \<Rightarrow> refuse (''Native backup config not found: '' @ configPath)
         | Some (File (Bytes raw)) \<Rightarrow>
             (case ce_errors env raw of
                Some message \<Rightarrow> refuse (''Native backup config parse error: '' @ js_or message ''invalid YAML'')
              | None \<Rightarrow>
                  let backup = readNativeBackupSettingsFromDocument (ce_parse env raw) b
                  in \<lparr>cr_ok = True, cr_output = ''Loaded native backup config: '' @ configPath, cr_configPath = configPath,
                      cr_repositoryDir = js_or (expandBackupFilePath (ce_vars env) (bs_localDirectory backup)) defaultRepositoryDir,
                      cr_workspaceDir = js_or (expandBackupFilePath (ce_vars env) (bs_workspace backup)) defaultWorkspaceDir,
                      cr_backup = Some backup\<rparr>)
         | Some _ \<Rightarrow> \<lparr>cr_ok = False, cr_output = ce_fsError env, cr_configPath = [], cr_repositoryDir = [],
             cr_workspaceDir = [], cr_backup = None\<rparr>)"

section \<open>What was written is read\<close>

lemma js_put_lookup: "map_of (js_put k v ps) = (map_of ps)(k \<mapsto> v)"
  by (induction ps) (auto simp: fun_eq_iff)

lemma map_of_js_put_all: "map_of (js_put_all ps us) k = (case map_of (rev us) k of Some v \<Rightarrow> Some v | None \<Rightarrow> map_of ps k)"
proof (induction us arbitrary: ps)
  case (Cons u us)
  obtain a v where "u = (a, v)" by fastforce
  with Cons show ?case by (auto simp: js_put_all_def js_put_lookup map_add_def split: option.splits)
qed (simp add: js_put_all_def)

lemma assigned_lookup:
  "distinct (map fst items) \<Longrightarrow>
   js_prop k (overlay (JObj ps) (assigned_fields items)) =
     (case map_of items k of Some (Some v) \<Rightarrow> v | _ \<Rightarrow> js_prop k (JObj ps))"
proof -
  assume d: "distinct (map fst items)"
  have sub: "set (map fst (assigned_fields fs)) \<subseteq> set (map fst fs)" for fs :: "(string \<times> jsval option) list"
    by (force simp: assigned_fields_def split: option.splits)
  have look: "distinct (map fst fs) \<Longrightarrow> map_of (assigned_fields fs) k = (case map_of fs k of Some v \<Rightarrow> v | None \<Rightarrow> None)"
    and dist: "distinct (map fst fs) \<Longrightarrow> distinct (map fst (assigned_fields fs))"
    for fs :: "(string \<times> jsval option) list"
  proof (induction fs)
    case (Cons f fs)
    obtain a v where f: "f = (a, v)" by fastforce
    have step: "assigned_fields ((a, v) # fs) = (case v of None \<Rightarrow> [] | Some x \<Rightarrow> [(a, x)]) @ assigned_fields fs" for a v
      by (simp add: assigned_fields_def)
    { case 1
      then have "a \<notin> set (map fst (assigned_fields fs))" using sub [of fs] by (auto simp: f)
      then have "map_of (assigned_fields fs) a = None" by (simp add: map_of_eq_None_iff)
      with 1 Cons(1) show ?case by (cases v) (auto simp: step f)
    next
      case 2
      with Cons(2) sub [of fs] show ?case by (cases v) (auto simp: step f) }
  qed (simp_all add: assigned_fields_def)
  have "map_of (rev (assigned_fields items)) k = map_of (assigned_fields items) k"
    using map_of_inject_set [of "rev (assigned_fields items)" "assigned_fields items"] dist [OF d] by (simp add: rev_map [symmetric])
  with look [OF d] show ?thesis
    by (auto simp: overlay_def map_of_js_put_all split: option.splits)
qed

lemma map_of_set_leaf: "map_of (set_leaf p v doc) = (map_of doc)(p \<mapsto> v)"
  by (induction doc) (auto simp: fun_eq_iff)

lemma set_in_lookup: "get_in (set_in us doc) p = (case map_of (rev us) p of Some v \<Rightarrow> v | None \<Rightarrow> get_in doc p)"
proof (induction us arbitrary: doc)
  case (Cons u us)
  obtain a v where "u = (a, v)" by fastforce
  with Cons show ?case by (auto simp: set_in_def get_in_def map_of_set_leaf map_add_def split: option.splits)
qed (simp add: set_in_def)

text \<open>A key file that is not set keeps what the document had before.\<close>

definition kept_key_file :: "variables \<Rightarrow> yaml_doc \<Rightarrow> string \<Rightarrow> string \<Rightarrow> string" where
  "kept_key_file vars doc key v =
     (if expandBackupFilePath vars v \<noteq> [] then js_trim (expandBackupFilePath vars v)
      else (case get_in doc [''backup'', ''ssh'', key] of JStr s \<Rightarrow> js_trim s | _ \<Rightarrow> js_trim v))"

definition written_settings :: "variables \<Rightarrow> yaml_doc \<Rightarrow> string \<Rightarrow> string \<Rightarrow> string \<Rightarrow> backup_settings \<Rightarrow> backup_settings" where
  "written_settings vars doc localDirectory workspace token b =
     b\<lparr>bs_localDirectory := js_trim localDirectory, bs_workspace := js_trim workspace,
       bs_adminTokenFile := js_trim token,
       bs_sshPrivateKeyFile := kept_key_file vars doc ''private-key-file'' (bs_sshPrivateKeyFile b),
       bs_sshPasswordFile := kept_key_file vars doc ''password-file'' (bs_sshPasswordFile b),
       bs_sshPassphraseFile := kept_key_file vars doc ''passphrase-file'' (bs_sshPassphraseFile b),
       bs_sshKnownHostsFile := kept_key_file vars doc ''known-hosts-file'' (bs_sshKnownHostsFile b)\<rparr>"

lemma document_keys: "distinct (map fst (document_fields doc))"
  by (simp add: document_fields_def Let_def)

lemma read_fields:
  "js_prop k (overlay (settings_json b) (assigned_fields (document_fields doc))) =
     (case map_of (document_fields doc) k of Some (Some v) \<Rightarrow> v | _ \<Rightarrow> js_prop k (settings_json b))"
  unfolding settings_json_def by (rule assigned_lookup [OF document_keys])

lemma kept_key_file_read:
  "trimmed v \<Longrightarrow> stringValue (case yamlString (if expandBackupFilePath vars v \<noteq> [] then JStr (expandBackupFilePath vars v) else d)
     of None \<Rightarrow> JStr v | Some x \<Rightarrow> x) e =
   (if expandBackupFilePath vars v \<noteq> [] then js_trim (expandBackupFilePath vars v)
    else (case d of JStr s \<Rightarrow> js_trim s | _ \<Rightarrow> js_trim v))"
  by (auto simp: yamlString_def stringValue_def split: jsval.splits)

lemma written_leaves:
  fixes b vars ld ws tok key doc net
  defines "d \<equiv> set_in (config_updates net b vars ld ws tok key) doc"
  shows "get_in d [''backup'', ''local'', ''enabled''] = JBool (bs_remoteEnabled b \<or> bs_localEnabled b)"
    "get_in d [''backup'', ''local'', ''directory''] = JStr ld"
    "get_in d [''backup'', ''workspace''] = JStr ws"
    "get_in d [''backup'', ''local'', ''retention-count''] = JNum (Fin (bs_localRetentionCount b))"
    "get_in d [''backup'', ''remote'', ''enabled''] = JBool (bs_remoteEnabled b)"
    "get_in d [''backup'', ''remote'', ''directory''] = JStr (bs_remoteDirectory b)"
    "get_in d [''backup'', ''remote'', ''retention-count''] = JNum (Fin (bs_remoteRetentionCount b))"
    "get_in d [''backup'', ''remote'', ''retention-days''] = JNum (Fin (bs_remoteRetentionDays b))"
    "get_in d [''backup'', ''remote'', ''upload-temp-suffix''] = JStr (js_or (bs_uploadTempSuffix b) ''.partial'')"
    "get_in d [''backup'', ''ssh'', ''host''] = JStr (bs_sshHost b)"
    "get_in d [''backup'', ''ssh'', ''port''] = JNum (Fin (bs_sshPort b))"
    "get_in d [''backup'', ''ssh'', ''user''] = JStr (bs_sshUser b)"
    "get_in d [''backup'', ''ssh'', ''auth''] = JStr (auth_str (bs_sshAuth b))"
    "get_in d [''backup'', ''ssh'', ''private-key-file''] = (if expandBackupFilePath vars (bs_sshPrivateKeyFile b) \<noteq> [] then JStr (expandBackupFilePath vars (bs_sshPrivateKeyFile b)) else get_in doc [''backup'', ''ssh'', ''private-key-file''])"
    "get_in d [''backup'', ''ssh'', ''password-file''] = (if expandBackupFilePath vars (bs_sshPasswordFile b) \<noteq> [] then JStr (expandBackupFilePath vars (bs_sshPasswordFile b)) else get_in doc [''backup'', ''ssh'', ''password-file''])"
    "get_in d [''backup'', ''ssh'', ''passphrase-file''] = (if expandBackupFilePath vars (bs_sshPassphraseFile b) \<noteq> [] then JStr (expandBackupFilePath vars (bs_sshPassphraseFile b)) else get_in doc [''backup'', ''ssh'', ''passphrase-file''])"
    "get_in d [''backup'', ''ssh'', ''known-hosts-file''] = (if expandBackupFilePath vars (bs_sshKnownHostsFile b) \<noteq> [] then JStr (expandBackupFilePath vars (bs_sshKnownHostsFile b)) else get_in doc [''backup'', ''ssh'', ''known-hosts-file''])"
    "get_in d [''backup'', ''ssh'', ''strict-host-key-checking''] = JBool (bs_sshStrictHostKeyChecking b)"
    "get_in d [''backup'', ''ssh'', ''connect-timeout-seconds''] = JNum (Fin (bs_sshConnectTimeoutSeconds b))"
    "get_in d [''backup'', ''schedule'', ''enabled''] = JBool (bs_scheduleEnabled b)"
    "get_in d [''backup'', ''schedule'', ''interval''] = JStr (bs_scheduleInterval b)"
    "get_in d [''backup'', ''schedule'', ''run-on-startup-if-missed''] = JBool (bs_scheduleRunOnStartupIfMissed b)"
    "get_in d [''backup'', ''schedule'', ''jitter-seconds''] = JNum (Fin (bs_scheduleJitterSeconds b))"
    "get_in d [''backup'', ''schedule'', ''minimum-head-progress''] = JNum (Fin (bs_scheduleMinimumHeadProgress b))"
    "get_in d [''backup'', ''schedule'', ''skip-if-syncing-from-genesis''] = JBool (bs_scheduleSkipIfSyncingFromGenesis b)"
    "get_in d [''backup'', ''schedule'', ''max-concurrent-backups''] = JNum (Fin (bs_scheduleMaxConcurrentBackups b))"
    "get_in d [''backup'', ''admin'', ''enabled''] = JBool (bs_adminEnabled b)"
    "get_in d [''backup'', ''admin'', ''listen''] = JStr (bs_adminListen b)"
    "get_in d [''backup'', ''admin'', ''token-file''] = JStr tok"
    "get_in d [''backup'', ''admin'', ''jobs''] = JNum (Fin (bs_adminJobs b))"
  unfolding d_def set_in_lookup config_updates_def Let_def set_when_def
  by simp_all

lemma yaml_text: "yamlString (JStr t) = Some (JStr (js_trim t))"
  by (simp add: yamlString_def)

lemma document_lookup:
  "map_of (document_fields doc) ''localEnabled'' = Some (yamlBoolean (get_in doc [''backup'', ''local'', ''enabled'']))"
  "map_of (document_fields doc) ''localDirectory'' = Some (yamlString (get_in doc [''backup'', ''local'', ''directory'']))"
  "map_of (document_fields doc) ''workspace'' = Some (yamlString (get_in doc [''backup'', ''workspace'']))"
  "map_of (document_fields doc) ''localRetentionCount'' = Some (yamlNumber (get_in doc [''backup'', ''local'', ''retention-count'']))"
  "map_of (document_fields doc) ''remoteEnabled'' = Some (or_else (yamlBoolean (get_in doc [''backup'', ''remote'', ''enabled''])) (yamlBoolean (get_in doc [''backup'', ''ssh'', ''enabled''])))"
  "map_of (document_fields doc) ''remoteDirectory'' = Some (yamlString (get_in doc [''backup'', ''remote'', ''directory'']))"
  "map_of (document_fields doc) ''remoteRetentionCount'' = Some (yamlNumber (get_in doc [''backup'', ''remote'', ''retention-count'']))"
  "map_of (document_fields doc) ''remoteRetentionDays'' = Some (yamlNumber (get_in doc [''backup'', ''remote'', ''retention-days'']))"
  "map_of (document_fields doc) ''uploadTempSuffix'' = Some (yamlString (get_in doc [''backup'', ''remote'', ''upload-temp-suffix'']))"
  "map_of (document_fields doc) ''sshHost'' = Some (yamlString (get_in doc [''backup'', ''ssh'', ''host'']))"
  "map_of (document_fields doc) ''sshPort'' = Some (yamlNumber (get_in doc [''backup'', ''ssh'', ''port'']))"
  "map_of (document_fields doc) ''sshUser'' = Some (yamlString (get_in doc [''backup'', ''ssh'', ''user'']))"
  "map_of (document_fields doc) ''sshAuth'' = Some (yamlString (get_in doc [''backup'', ''ssh'', ''auth'']))"
  "map_of (document_fields doc) ''sshPrivateKeyFile'' = Some (yamlString (get_in doc [''backup'', ''ssh'', ''private-key-file'']))"
  "map_of (document_fields doc) ''sshPasswordFile'' = Some (yamlString (get_in doc [''backup'', ''ssh'', ''password-file'']))"
  "map_of (document_fields doc) ''sshPassphraseFile'' = Some (yamlString (get_in doc [''backup'', ''ssh'', ''passphrase-file'']))"
  "map_of (document_fields doc) ''sshKnownHostsFile'' = Some (yamlString (get_in doc [''backup'', ''ssh'', ''known-hosts-file'']))"
  "map_of (document_fields doc) ''sshStrictHostKeyChecking'' = Some (yamlBoolean (get_in doc [''backup'', ''ssh'', ''strict-host-key-checking'']))"
  "map_of (document_fields doc) ''sshConnectTimeoutSeconds'' = Some (yamlNumber (get_in doc [''backup'', ''ssh'', ''connect-timeout-seconds'']))"
  "map_of (document_fields doc) ''scheduleEnabled'' = Some (yamlBoolean (get_in doc [''backup'', ''schedule'', ''enabled'']))"
  "map_of (document_fields doc) ''scheduleInterval'' = Some (yamlString (get_in doc [''backup'', ''schedule'', ''interval'']))"
  "map_of (document_fields doc) ''scheduleRunOnStartupIfMissed'' = Some (yamlBoolean (get_in doc [''backup'', ''schedule'', ''run-on-startup-if-missed'']))"
  "map_of (document_fields doc) ''scheduleJitterSeconds'' = Some (yamlNumber (get_in doc [''backup'', ''schedule'', ''jitter-seconds'']))"
  "map_of (document_fields doc) ''scheduleMinimumHeadProgress'' = Some (yamlNumber (get_in doc [''backup'', ''schedule'', ''minimum-head-progress'']))"
  "map_of (document_fields doc) ''scheduleSkipIfSyncingFromGenesis'' = Some (yamlBoolean (get_in doc [''backup'', ''schedule'', ''skip-if-syncing-from-genesis'']))"
  "map_of (document_fields doc) ''scheduleMaxConcurrentBackups'' = Some (yamlNumber (get_in doc [''backup'', ''schedule'', ''max-concurrent-backups'']))"
  "map_of (document_fields doc) ''adminEnabled'' = Some (yamlBoolean (get_in doc [''backup'', ''admin'', ''enabled'']))"
  "map_of (document_fields doc) ''adminListen'' = Some (yamlString (get_in doc [''backup'', ''admin'', ''listen'']))"
  "map_of (document_fields doc) ''adminTokenFile'' = Some (yamlString (get_in doc [''backup'', ''admin'', ''token-file'']))"
  "map_of (document_fields doc) ''adminJobs'' = Some (yamlNumber (get_in doc [''backup'', ''admin'', ''jobs'']))"
  by (simp_all add: document_fields_def)

lemma written_fields:
  fixes b vars ld ws tok key doc net
  defines "d \<equiv> set_in (config_updates net b vars ld ws tok key) doc"
  shows "js_prop ''localEnabled'' (overlay (settings_json b) (assigned_fields (document_fields d))) = JBool (bs_remoteEnabled b \<or> bs_localEnabled b)"
    "js_prop ''localDirectory'' (overlay (settings_json b) (assigned_fields (document_fields d))) = JStr (js_trim (ld))"
    "js_prop ''workspace'' (overlay (settings_json b) (assigned_fields (document_fields d))) = JStr (js_trim (ws))"
    "js_prop ''localRetentionCount'' (overlay (settings_json b) (assigned_fields (document_fields d))) = JNum (Fin (bs_localRetentionCount b))"
    "js_prop ''remoteEnabled'' (overlay (settings_json b) (assigned_fields (document_fields d))) = JBool (bs_remoteEnabled b)"
    "js_prop ''remoteDirectory'' (overlay (settings_json b) (assigned_fields (document_fields d))) = JStr (js_trim (bs_remoteDirectory b))"
    "js_prop ''remoteRetentionCount'' (overlay (settings_json b) (assigned_fields (document_fields d))) = JNum (Fin (bs_remoteRetentionCount b))"
    "js_prop ''remoteRetentionDays'' (overlay (settings_json b) (assigned_fields (document_fields d))) = JNum (Fin (bs_remoteRetentionDays b))"
    "js_prop ''uploadTempSuffix'' (overlay (settings_json b) (assigned_fields (document_fields d))) = JStr (js_trim (js_or (bs_uploadTempSuffix b) ''.partial''))"
    "js_prop ''sshHost'' (overlay (settings_json b) (assigned_fields (document_fields d))) = JStr (js_trim (bs_sshHost b))"
    "js_prop ''sshPort'' (overlay (settings_json b) (assigned_fields (document_fields d))) = JNum (Fin (bs_sshPort b))"
    "js_prop ''sshUser'' (overlay (settings_json b) (assigned_fields (document_fields d))) = JStr (js_trim (bs_sshUser b))"
    "js_prop ''sshAuth'' (overlay (settings_json b) (assigned_fields (document_fields d))) = JStr (js_trim (auth_str (bs_sshAuth b)))"
    "js_prop ''sshPrivateKeyFile'' (overlay (settings_json b) (assigned_fields (document_fields d))) = (case yamlString (if expandBackupFilePath vars (bs_sshPrivateKeyFile b) \<noteq> [] then JStr (expandBackupFilePath vars (bs_sshPrivateKeyFile b)) else get_in doc [''backup'', ''ssh'', ''private-key-file'']) of None \<Rightarrow> JStr (bs_sshPrivateKeyFile b) | Some x \<Rightarrow> x)"
    "js_prop ''sshPasswordFile'' (overlay (settings_json b) (assigned_fields (document_fields d))) = (case yamlString (if expandBackupFilePath vars (bs_sshPasswordFile b) \<noteq> [] then JStr (expandBackupFilePath vars (bs_sshPasswordFile b)) else get_in doc [''backup'', ''ssh'', ''password-file'']) of None \<Rightarrow> JStr (bs_sshPasswordFile b) | Some x \<Rightarrow> x)"
    "js_prop ''sshPassphraseFile'' (overlay (settings_json b) (assigned_fields (document_fields d))) = (case yamlString (if expandBackupFilePath vars (bs_sshPassphraseFile b) \<noteq> [] then JStr (expandBackupFilePath vars (bs_sshPassphraseFile b)) else get_in doc [''backup'', ''ssh'', ''passphrase-file'']) of None \<Rightarrow> JStr (bs_sshPassphraseFile b) | Some x \<Rightarrow> x)"
    "js_prop ''sshKnownHostsFile'' (overlay (settings_json b) (assigned_fields (document_fields d))) = (case yamlString (if expandBackupFilePath vars (bs_sshKnownHostsFile b) \<noteq> [] then JStr (expandBackupFilePath vars (bs_sshKnownHostsFile b)) else get_in doc [''backup'', ''ssh'', ''known-hosts-file'']) of None \<Rightarrow> JStr (bs_sshKnownHostsFile b) | Some x \<Rightarrow> x)"
    "js_prop ''sshStrictHostKeyChecking'' (overlay (settings_json b) (assigned_fields (document_fields d))) = JBool (bs_sshStrictHostKeyChecking b)"
    "js_prop ''sshConnectTimeoutSeconds'' (overlay (settings_json b) (assigned_fields (document_fields d))) = JNum (Fin (bs_sshConnectTimeoutSeconds b))"
    "js_prop ''scheduleEnabled'' (overlay (settings_json b) (assigned_fields (document_fields d))) = JBool (bs_scheduleEnabled b)"
    "js_prop ''scheduleInterval'' (overlay (settings_json b) (assigned_fields (document_fields d))) = JStr (js_trim (bs_scheduleInterval b))"
    "js_prop ''scheduleRunOnStartupIfMissed'' (overlay (settings_json b) (assigned_fields (document_fields d))) = JBool (bs_scheduleRunOnStartupIfMissed b)"
    "js_prop ''scheduleJitterSeconds'' (overlay (settings_json b) (assigned_fields (document_fields d))) = JNum (Fin (bs_scheduleJitterSeconds b))"
    "js_prop ''scheduleMinimumHeadProgress'' (overlay (settings_json b) (assigned_fields (document_fields d))) = JNum (Fin (bs_scheduleMinimumHeadProgress b))"
    "js_prop ''scheduleSkipIfSyncingFromGenesis'' (overlay (settings_json b) (assigned_fields (document_fields d))) = JBool (bs_scheduleSkipIfSyncingFromGenesis b)"
    "js_prop ''scheduleMaxConcurrentBackups'' (overlay (settings_json b) (assigned_fields (document_fields d))) = JNum (Fin (bs_scheduleMaxConcurrentBackups b))"
    "js_prop ''adminEnabled'' (overlay (settings_json b) (assigned_fields (document_fields d))) = JBool (bs_adminEnabled b)"
    "js_prop ''adminListen'' (overlay (settings_json b) (assigned_fields (document_fields d))) = JStr (js_trim (bs_adminListen b))"
    "js_prop ''adminTokenFile'' (overlay (settings_json b) (assigned_fields (document_fields d))) = JStr (js_trim (tok))"
    "js_prop ''adminJobs'' (overlay (settings_json b) (assigned_fields (document_fields d))) = JNum (Fin (bs_adminJobs b))"
  unfolding read_fields document_lookup written_leaves [of net b vars ld ws tok key doc, folded d_def] settings_json_fields
  by (simp_all only: yamlBoolean_def yamlNumber_def or_else_def jsval.case jsnum.case option.case yaml_text)

lemma written_is_read:
  assumes "settings_ok b"
  shows "readNativeBackupSettingsFromDocument (set_in (config_updates net b vars ld ws tok key) doc) b =
    written_settings vars doc ld ws tok b"
proof -
  note ok = assms [unfolded settings_ok_def]
  have keys: "trimmed (bs_sshPrivateKeyFile b)" "trimmed (bs_sshPasswordFile b)" "trimmed (bs_sshPassphraseFile b)"
    "trimmed (bs_sshKnownHostsFile b)" using ok by simp_all
  have texts: "stringValue (JStr v) e = js_trim v" for v e by (simp add: stringValue_def)
  have auth: "js_trim (auth_str a) = auth_str a" for a
    by (cases a; simp only:; code_simp)
  have trims: "js_trim v = v" if "trimmed v" for v using that by (simp add: trimmed_def)
  show ?thesis
    unfolding readNativeBackupSettingsFromDocument_def normalizeBackupSettings_def Let_def written_fields
      written_settings_def kept_key_file_def keys [THEN kept_key_file_read]
    using ok
    by (intro backup_settings.equality)
      (auto simp: numberValue_id texts trims auth auth_round_trip remoteDirectory_facts(3) js_or_id)
qed

lemma expand_trimmed: "expandBackupFilePath vars (js_trim v) = expandBackupFilePath vars v"
  by (simp add: expandBackupFilePath_def)

lemma mkdir_all_keeps: "mkdir_all l fs = Some fs' \<Longrightarrow> fs q \<noteq> None \<Longrightarrow> fs' q \<noteq> None"
  by (auto simp: mkdir_all_def split: if_splits)

lemma ensured_token:
  assumes "ensureNativeBackupAdminTokenFile vars token baseDir requested fs = Some (p, fs1)"
  shows "p = js_or (expandBackupFilePath vars requested) (nativeBackupAdminTokenPath baseDir)"
    and "fs1 (loc p) \<noteq> None" and "\<not> prefix q (loc p) \<Longrightarrow> fs1 q = fs q"
proof -
  let ?p = "js_or (expandBackupFilePath vars requested) (nativeBackupAdminTokenPath baseDir)"
  have "p = ?p \<and> fs1 (loc p) \<noteq> None \<and> (\<not> prefix q (loc p) \<longrightarrow> fs1 q = fs q)"
  proof (cases "fs1 = fs")
    case True
    with assms show ?thesis
      by (auto simp: ensureNativeBackupAdminTokenFile_def Let_def bind_eq_Some_conv dest!: fs_write_SomeD(1)
          split: option.splits entry.splits content.splits if_splits)
  next
    case False
    with assms obtain fs2 where m: "mkdir_all (path_dirname_loc ?p) fs = Some fs2"
      and w: "write_file (loc ?p) (Bytes (token @ nl)) fs2 = Some fs1" and p: "p = ?p"
      by (auto simp: ensureNativeBackupAdminTokenFile_def Let_def bind_eq_Some_conv
          split: option.splits entry.splits content.splits if_splits)
    have "\<not> prefix q (path_dirname_loc ?p)" if "\<not> prefix q (loc ?p)"
      using that prefix_order.trans [OF _ prefixeq_butlast] unfolding path_dirname_loc_def by blast
    with mkdir_all_outside [OF m, of q] fs_write_SomeD(1) [OF w] p show ?thesis by auto
  qed
  then show "p = ?p" "fs1 (loc p) \<noteq> None" "\<not> prefix q (loc p) \<Longrightarrow> fs1 q = fs q" by blast+
qed

lemma remote_env_off:
  "\<not> envFlagEnabled (variable vars ''TELENO_BACKUP_REMOTE'') \<Longrightarrow> applyNativeBackupRemoteEnv vars doc = Inr doc"
  by (simp add: applyNativeBackupRemoteEnv_def)

definition token_file :: "config_env \<Rightarrow> string \<Rightarrow> backup_settings \<Rightarrow> string" where
  "token_file env baseDir b =
     (if bs_adminEnabled b then js_or (expandBackupFilePath (ce_vars env) (bs_adminTokenFile b)) (nativeBackupAdminTokenPath baseDir)
      else expandBackupFilePath (ce_vars env) (bs_adminTokenFile b))"


instance jsnum :: countable
  by countable_datatype

instance jsval :: countable
  by countable_datatype

text \<open>A printer that counts: the document with number n is a text of n characters.\<close>

definition sample_config_env :: config_env where
  "sample_config_env =
     \<lparr>ce_vars = (\<lambda>_. None), ce_token = ''t'', ce_configRoot = ''/c'',
      ce_parse = (\<lambda>t. from_nat (length t)), ce_errors = (\<lambda>_. None),
      ce_print = (\<lambda>d. replicate (to_nat d) (CHR ''x'')), ce_fsError = ''e''\<rparr>"

lemma sample_config_written:
  "\<exists>paths fs'. writeNativeBackupConfig sample_config_env Testnet ''/b'' default_backup_settings (\<lambda>_. None) = (Inr paths, fs')"
proof -
  have off: "\<not> envFlagEnabled (variable (ce_vars sample_config_env) ''TELENO_BACKUP_REMOTE'')" by code_simp
  have env: "ce_vars sample_config_env = (\<lambda>_. None)" by (simp add: sample_config_env_def)
  have locs: "expandBackupFilePath (\<lambda>_. None) [] = []"
    "loc (nativeBackupConfigPath ''/b'') = [''b'', ''.teleno-native-backups'', ''teleno-native-backup-config.yml'']"
    "loc (nativeBackupRepositoryDir ''/b'') = [''b'', ''.teleno-native-backups'', ''repository'']"
    "loc (nativeBackupWorkspaceDir ''/b'') = [''b'', ''.teleno-native-backups'', ''workspace'']"
    "loc (nativeBackupAdminTokenPath ''/b'') = [''b'', ''.teleno-native-backups'', ''admin.token'']"
    "nativeBackupRepositoryDir ''/b'' \<noteq> []" "nativeBackupWorkspaceDir ''/b'' \<noteq> []" "nativeBackupAdminTokenPath ''/b'' \<noteq> []"
    by code_simp+
  have texts: "bs_adminEnabled default_backup_settings" "bs_localDirectory default_backup_settings = []"
    "bs_workspace default_backup_settings = []" "bs_adminTokenFile default_backup_settings = []"
    by (simp_all add: default_backup_settings_def)
  have "\<exists>paths. fst (writeNativeBackupConfig sample_config_env Testnet ''/b'' default_backup_settings (\<lambda>_. None)) = Inr paths"
    unfolding writeNativeBackupConfig_def env Let_def texts locs(1) remote_env_off [OF off, unfolded env]
    by (simp add: ensureNativeBackupAdminTokenFile_def Let_def locs js_or_def path_dirname_loc_def mkdir_all_def write_file_def
        prefix_def)
  then show ?thesis by (metis prod.collapse)
qed


end
