(* ===== verification/BackupArchive.thy ===== *)
theory BackupArchive
  imports NodePath NativeOutput
begin

text \<open>
  The archive of a blockchain backup, electron/lib/backup-service.ts: its URLs, the checksum and the
  directory list published beside it, the cached download, the inspection and extraction of the
  archive and the copy into the base directory.

  State: the file system of NodePath. Arguments: \<open>parse_url\<close> is the URL parser (a URL is the text
  before its path, the path, and the text after it), \<open>sha1\<close> and \<open>sha256\<close> are hash functions in
  hexadecimal, \<open>untar\<close> is the run of \<open>tar -xzf\<close> and \<open>tar_listing\<close> what \<open>tar -tzf\<close> printed. A thrown
  error is \<open>Inl\<close> of its message.
\<close>

section \<open>URLs\<close>

record url =
  u_protocol :: string
  u_origin :: string
  u_pathname :: string
  u_suffix :: string

type_synonym url_parser = "string \<Rightarrow> url option"

definition url_text :: "url \<Rightarrow> string" where
  "url_text u = u_origin u @ u_pathname u @ u_suffix u"

definition invalid_url :: string where
  "invalid_url = ''Invalid URL''"

definition normalizeBlockchainBackupArchiveUrl :: "url_parser \<Rightarrow> string \<Rightarrow> string + string" where
  "normalizeBlockchainBackupArchiveUrl parse_url raw =
     (let value = js_trim raw
      in if value = [] then Inl ''La URL del backup blockchain no puede estar vacia''
         else (case parse_url value of
             None \<Rightarrow> Inl invalid_url
           | Some u \<Rightarrow>
               if u_protocol u \<notin> {''http:'', ''https:''} then Inl ''La URL del backup blockchain debe usar http o https''
               else if \<not> js_ends_with (u_pathname u) ''.tar.gz''
               then Inl ''La URL del backup blockchain debe apuntar a un archivo .tar.gz''
               else Inr (url_text u)))"

definition with_path_suffix :: "url_parser \<Rightarrow> string \<Rightarrow> string \<Rightarrow> string + string" where
  "with_path_suffix parse_url ending archiveUrl =
     (case parse_url archiveUrl of
        None \<Rightarrow> Inl invalid_url
      | Some u \<Rightarrow> Inr (url_text (u\<lparr>u_pathname := u_pathname u @ ending\<rparr>)))"

definition blockchainBackupMetadataUrl :: "url_parser \<Rightarrow> string \<Rightarrow> string + string" where
  "blockchainBackupMetadataUrl parse_url archiveUrl = with_path_suffix parse_url ''.metadata'' archiveUrl"

definition blockchainBackupChecksumUrl :: "url_parser \<Rightarrow> string \<Rightarrow> string + string" where
  "blockchainBackupChecksumUrl parse_url archiveUrl = with_path_suffix parse_url ''.sha256'' archiveUrl"

record workspace_paths =
  ws_workspaceDir :: string
  ws_archivePath :: string
  ws_archiveStatePath :: string
  ws_extractDir :: string
  ws_extractStatePath :: string

definition backup_cache_dir :: string where
  "backup_cache_dir = ''.teleno-blockchain-backup-cache''"

definition blockchainBackupWorkspacePaths :: "(string \<Rightarrow> string) \<Rightarrow> string \<Rightarrow> string \<Rightarrow> string \<Rightarrow> workspace_paths" where
  "blockchainBackupWorkspacePaths sha1 restoreWorkspaceParent archiveUrl checksum =
     (let archiveKey = take 12 (sha1 archiveUrl);
          workspaceDir = path_join [restoreWorkspaceParent, backup_cache_dir, archiveKey @ ''-'' @ take 12 checksum]
      in \<lparr>ws_workspaceDir = workspaceDir, ws_archivePath = path_join [workspaceDir, ''backup.tar.gz''],
          ws_archiveStatePath = path_join [workspaceDir, ''archive-state.json''],
          ws_extractDir = path_join [workspaceDir, ''extract''],
          ws_extractStatePath = path_join [workspaceDir, ''extract-state.json'']\<rparr>)"

section \<open>Published checksum and directory list\<close>

definition crlf_re :: re where
  "crlf_re = Seq (opt (chr (CHR 0x0D))) (chr (CHR 0x0A))"

definition uniqueStringList :: "string list \<Rightarrow> string list" where
  "uniqueStringList values = js_unique (filter (\<lambda>v. v \<noteq> []) (map js_trim values))"

definition rule_line_re :: re where
  "rule_line_re = seqs [Bol, plus (chr (CHR ''-'')), Eol]"

definition section_line_re :: re where
  "section_line_re = seqs [Bol, Cls is_upper, plus (Cls (\<lambda>c. is_alpha c \<or> c = CHR '' '')), chr (CHR '':''), Eol]"

definition directory_line_re :: re where
  "directory_line_re =
     seqs [Bol, Grp 1 (Seq (plus (Cls (\<lambda>c. \<not> is_space c))) (chr (CHR ''/''))), Alt space Eol]"

text \<open>\<open>replace(/\/+$/, '')\<close>.\<close>

definition drop_slashes :: "string \<Rightarrow> string" where
  "drop_slashes s = rev (dropWhile (\<lambda>c. c = CHR ''/'') (rev s))"

fun metadata_entries :: "bool \<Rightarrow> string list \<Rightarrow> string list" where
  "metadata_entries inSection [] = []"
| "metadata_entries inSection (line # lines) =
     (let trimmed = js_trim line
      in if \<not> inSection then metadata_entries (trimmed = ''Included Directories:'') lines
         else if trimmed = [] \<or> js_test rule_line_re trimmed then metadata_entries True lines
         else if js_test section_line_re trimmed then []
         else (case js_exec directory_line_re trimmed of
             None \<Rightarrow> metadata_entries True lines
           | Some m \<Rightarrow> drop_slashes (cap 1 (match_caps m)) # metadata_entries True lines))"

definition parseBlockchainBackupMetadataDirectories :: "string \<Rightarrow> string list" where
  "parseBlockchainBackupMetadataDirectories raw =
     uniqueStringList (metadata_entries False (js_split_re crlf_re raw))"

definition is_hex :: "char \<Rightarrow> bool" where
  "is_hex c \<longleftrightarrow> is_digit c \<or> lower_char c \<in> set ''abcdef''"

definition checksum_line_re :: re where
  "checksum_line_re =
     seqs [Bol, Grp 1 (copies 64 (Cls is_hex)),
       opt (seqs [plus space, opt (chr (CHR ''*'')), Grp 2 (plus dot)]), Eol]"

definition parseBlockchainBackupSha256Checksum :: "url_parser \<Rightarrow> string \<Rightarrow> string \<Rightarrow> string + (string \<times> string)" where
  "parseBlockchainBackupSha256Checksum parse_url raw archiveUrl =
     (case (blockchainBackupChecksumUrl parse_url archiveUrl, parse_url archiveUrl) of
        (Inr checksumUrl, Some u) \<Rightarrow>
          let archiveName = path_basename (u_pathname u)
          in (case find (\<lambda>l. l \<noteq> []) (map js_trim (js_split_re crlf_re raw)) of
               None \<Rightarrow> Inl (''El archivo SHA-256 del backup esta vacio: '' @ checksumUrl)
             | Some line \<Rightarrow>
                 (case js_exec checksum_line_re line of
                    None \<Rightarrow> Inl (''Formato SHA-256 invalido en '' @ checksumUrl)
                  | Some m \<Rightarrow>
                      let checksum = js_lower (cap 1 (match_caps m));
                          referencedName = js_trim (cap 2 (match_caps m))
                      in if referencedName \<noteq> [] \<and> path_basename referencedName \<noteq> archiveName
                         then Inl (''El archivo SHA-256 referencia '' @ referencedName @ '', no '' @ archiveName)
                         else Inr (checksum, ''Expected SHA-256 '' @ checksum @ '' from '' @ checksumUrl)))
      | _ \<Rightarrow> Inl invalid_url)"

text \<open>What \<open>fetch\<close> gives: a response with its status and text, or an error.\<close>

datatype fetched = Response nat string | FetchError string

definition http_ok :: "nat \<Rightarrow> bool" where
  "http_ok status \<longleftrightarrow> 200 \<le> status \<and> status \<le> 299"

text \<open>\<open>Inr\<close> is a result with \<open>ok: true\<close>, \<open>Inl\<close> one with \<open>ok: false\<close> and its output.\<close>

definition fetchBlockchainBackupChecksum :: "url_parser \<Rightarrow> fetched \<Rightarrow> string \<Rightarrow> string + (string \<times> string)" where
  "fetchBlockchainBackupChecksum parse_url answer archiveUrl =
     (case answer of
        FetchError message \<Rightarrow> Inl message
      | Response status body \<Rightarrow>
          if \<not> http_ok status
          then Inl (''No se pudo descargar el checksum SHA-256 del backup blockchain (HTTP '' @ js_nat status @ '')'')
          else parseBlockchainBackupSha256Checksum parse_url body archiveUrl)"

definition fetchBlockchainBackupMetadata :: "fetched \<Rightarrow> string \<Rightarrow> string + (string list \<times> string)" where
  "fetchBlockchainBackupMetadata answer metadataUrl =
     (case answer of
        FetchError message \<Rightarrow> Inl message
      | Response status body \<Rightarrow>
          if \<not> http_ok status
          then Inl (''No se pudo descargar el metadata del backup blockchain (HTTP '' @ js_nat status @ '')'')
          else
            let directories = parseBlockchainBackupMetadataDirectories body
            in if directories = []
               then Inl (''El metadata del backup blockchain no lista directorios restaurables: '' @ metadataUrl)
               else Inr (directories, ''Metadata directories: '' @ js_join '', '' directories))"

section \<open>The cached archive\<close>

record archive_file =
  af_content :: string
  af_mtimeMs :: rat

record archive_cache =
  ac_archive :: "archive_file option"
  ac_state :: "(nat \<times> rat) option"

datatype download =
    HttpStatus nat
  | NoBody
  | Broken string "archive_file option" "rat option"
  | Downloaded archive_file "rat option"

definition archiveStateMatchesFile :: "archive_file \<Rightarrow> (nat \<times> rat) option \<Rightarrow> bool" where
  "archiveStateMatchesFile file1 state = (state = Some (length (af_content file1), af_mtimeMs file1))"

definition buildBlockchainBackupArchiveState :: "archive_file \<Rightarrow> nat \<times> rat" where
  "buildBlockchainBackupArchiveState file1 = (length (af_content file1), af_mtimeMs file1)"

definition checksum_mismatch :: "string \<Rightarrow> string \<Rightarrow> string" where
  "checksum_mismatch expected actual =
     ''Checksum SHA-256 invalido para el backup blockchain (esperado '' @ expected @ '', recibido '' @ actual @ '')''"

definition verifyBlockchainBackupArchiveFile :: "(string \<Rightarrow> string) \<Rightarrow> archive_file \<Rightarrow> string \<Rightarrow> bool \<times> string" where
  "verifyBlockchainBackupArchiveFile sha256 file1 expected =
     (let actual = sha256 (af_content file1)
      in if actual \<noteq> expected then (False, checksum_mismatch expected actual)
         else (True, ''Verified SHA-256 '' @ actual))"

text \<open>The download writes the archive; \<open>Broken\<close> leaves what had arrived. Both carry the announced size,
  when there is one.\<close>

definition downloadBlockchainBackupArchive ::
  "(string \<Rightarrow> string) \<Rightarrow> download \<Rightarrow> string \<Rightarrow> archive_cache \<Rightarrow> bool \<times> string \<times> archive_cache" where
  "downloadBlockchainBackupArchive sha256 answer expected cache =
     (case answer of
        HttpStatus status \<Rightarrow> (False, ''No se pudo descargar el backup blockchain (HTTP '' @ js_nat status @ '')'', cache)
      | NoBody \<Rightarrow> (False, ''La respuesta del backup blockchain no incluye body'', cache)
      | Broken message part announced \<Rightarrow> (False, message, cache\<lparr>ac_archive := (case part of None \<Rightarrow> ac_archive cache | Some f \<Rightarrow> Some f)\<rparr>)
      | Downloaded file1 announced \<Rightarrow>
          let actual = sha256 (af_content file1);
              size_text = formatByteCount (Fin (of_nat (length (af_content file1)))) @
                (case announced of None \<Rightarrow> [] | Some t \<Rightarrow> '' of '' @ formatByteCount (Fin t))
          in if actual \<noteq> expected then (False, checksum_mismatch expected actual, cache\<lparr>ac_archive := Some file1\<rparr>)
             else (True, ''Downloaded '' @ size_text @ '' and verified SHA-256 '' @ actual, cache\<lparr>ac_archive := Some file1\<rparr>))"

definition download_step ::
  "(string \<Rightarrow> string) \<Rightarrow> download \<Rightarrow> string \<Rightarrow> string \<Rightarrow> archive_cache \<Rightarrow> bool \<times> string \<times> archive_cache" where
  "download_step sha256 answer expected reuseNote cache =
     (case downloadBlockchainBackupArchive sha256 answer expected cache of
        (ok, note, cache1) \<Rightarrow>
          let output = js_join nl (filter (\<lambda>t. t \<noteq> []) [reuseNote, note])
          in if ok then (True, output, cache1\<lparr>ac_state := map_option buildBlockchainBackupArchiveState (ac_archive cache1)\<rparr>)
             else (False, output, cache1\<lparr>ac_archive := None\<rparr>))"

definition ensureBlockchainBackupArchiveCached ::
  "(string \<Rightarrow> string) \<Rightarrow> download \<Rightarrow> string \<Rightarrow> string \<Rightarrow> archive_cache \<Rightarrow> bool \<times> string \<times> archive_cache" where
  "ensureBlockchainBackupArchiveCached sha256 answer archivePath expected cache =
     (case ac_archive cache of
        None \<Rightarrow> download_step sha256 answer expected [] cache
      | Some file1 \<Rightarrow>
          if archiveStateMatchesFile file1 (ac_state cache)
          then (True, ''Using cached backup archive '' @ archivePath, cache)
          else (case verifyBlockchainBackupArchiveFile sha256 file1 expected of
              (True, note) \<Rightarrow>
                (True, ''Using existing backup archive '' @ archivePath @ ''. '' @ note,
                 cache\<lparr>ac_state := Some (buildBlockchainBackupArchiveState file1)\<rparr>)
            | (False, note) \<Rightarrow>
                download_step sha256 answer expected (''Cached backup archive invalid, re-downloading. '' @ note)
                  \<lparr>ac_archive = None, ac_state = None\<rparr>))"

section \<open>Inspecting the archive\<close>

text \<open>What \<open>tar -tzf\<close> prints: its non-empty lines, whether it ends well, its error output, and the text
  reported when it fails.\<close>

record tar_listing =
  tl_entries :: "string list"
  tl_ok :: bool
  tl_stderr :: string
  tl_failure :: string

definition normalizeTarEntryPath :: "string \<Rightarrow> string" where
  "normalizeTarEntryPath e =
     (let t = map (\<lambda>c. if c = CHR 0x5C then CHR ''/'' else c) e
      in if js_starts_with t ''./'' then drop 2 t else t)"

definition path_segments :: "string \<Rightarrow> string list" where
  "path_segments p = filter (\<lambda>s. s \<noteq> []) (js_split (CHR ''/'') p)"

definition required_dirs :: "string list" where
  "required_dirs = [''chain'', ''block_store'']"

definition reset_dirs :: "string list" where
  "reset_dirs = [''mempool'']"

text \<open>The callback of the scan: the root found at an entry, which stops the scan.\<close>

definition entry_root :: "string \<Rightarrow> string option" where
  "entry_root e =
     (let segments = path_segments (drop_slashes (normalizeTarEntryPath e))
      in map_option (\<lambda>i. js_join ''/'' (take i segments))
           (js_find_index (\<lambda>s. s \<in> set required_dirs) segments))"

fun first_root :: "string list \<Rightarrow> string option" where
  "first_root [] = None"
| "first_root (e # es) = (case entry_root e of Some r \<Rightarrow> Some r | None \<Rightarrow> first_root es)"

definition discoverBlockchainBackupPayloadRootInArchive :: "tar_listing \<Rightarrow> string + (string \<times> string)" where
  "discoverBlockchainBackupPayloadRootInArchive listing =
     (case first_root (tl_entries listing) of
        Some rootPath \<Rightarrow> Inr (rootPath, ''Archive payload root: '' @ js_or rootPath ''.'')
      | None \<Rightarrow>
          if \<not> tl_ok listing then Inl (js_or (tl_failure listing) ''No se pudo inspeccionar el backup blockchain'')
          else Inl (''El backup no contiene los directorios esperados: '' @ js_join '', '' required_dirs))"

definition entry_directory :: "string \<Rightarrow> string \<Rightarrow> string option" where
  "entry_directory rootPath e =
     (let rawEntry = normalizeTarEntryPath e;
          normalized = drop_slashes rawEntry;
          relative = (if rootPath = [] then Some normalized
            else if js_starts_with normalized (rootPath @ ''/'') then Some (drop (Suc (length rootPath)) normalized)
            else None)
      in if normalized = [] then None
         else (case relative of
             None \<Rightarrow> None
           | Some r \<Rightarrow>
               let segments = path_segments r
               in if segments = [] \<or> (length segments = 1 \<and> \<not> js_ends_with rawEntry ''/'') then None
                  else Some (hd segments)))"

definition listBlockchainBackupPayloadDirectoriesFromArchive ::
  "tar_listing \<Rightarrow> string \<Rightarrow> string + (string list \<times> string)" where
  "listBlockchainBackupPayloadDirectoriesFromArchive listing rootPath =
     (let normalizedRoot = drop_slashes (normalizeTarEntryPath rootPath);
          directories = js_unique (List.map_filter (entry_directory normalizedRoot) (tl_entries listing))
      in if \<not> tl_ok listing then Inl (js_or (tl_failure listing) ''No se pudo listar los directorios del backup blockchain'')
         else if directories = [] then Inl ''El backup blockchain no contiene subdirectorios restaurables''
         else Inr (directories, ''Archive directories: '' @ js_join '', '' directories))"

section \<open>Extraction\<close>

definition blockchainBackupPayloadRootPath :: "string \<Rightarrow> string \<Rightarrow> string" where
  "blockchainBackupPayloadRootPath extractDir rootPath =
     (if rootPath = [] then extractDir else path_join (extractDir # path_segments rootPath))"

definition buildBlockchainBackupExtractState :: "rat \<Rightarrow> string \<Rightarrow> string list \<Rightarrow> string list \<Rightarrow> jsval" where
  "buildBlockchainBackupExtractState now rootPath restoreDirectories completed =
     (let wanted = uniqueStringList restoreDirectories
      in JObj
        [(''payloadRootRelativePath'', JStr rootPath),
         (''restoreDirectories'', JArr (map JStr wanted)),
         (''completedDirectories'', JArr (map JStr (filter (\<lambda>d. d \<in> set wanted) (uniqueStringList completed)))),
         (''updatedAt'', JNum (Fin now))])"

definition readJsonFile :: "fs \<Rightarrow> string \<Rightarrow> jsval option" where
  "readJsonFile fs p = (case fs (loc p) of Some (File (Json v)) \<Rightarrow> if v = JNull then None else Some v | _ \<Rightarrow> None)"

definition writeJsonFile :: "string \<Rightarrow> jsval \<Rightarrow> fs \<Rightarrow> fs option" where
  "writeJsonFile p v fs = Option.bind (mkdir_all (butlast (loc p)) fs) (write_file (loc p) (Json (json_stored v)))"

definition json_strings :: "jsval \<Rightarrow> string list option" where
  "json_strings v =
     (case v of
        JArr vs \<Rightarrow> if list_all (\<lambda>v. case v of JStr _ \<Rightarrow> True | _ \<Rightarrow> False) vs then Some (map stringField vs) else None
      | JStr s \<Rightarrow> Some (map (\<lambda>c. [c]) s)
      | _ \<Rightarrow> None)"

text \<open>The directories a stored state lists as completed and that are there; \<open>None\<close> when the state is
  malformed and reading it throws.\<close>

definition completed_before :: "jsval option \<Rightarrow> string \<Rightarrow> string list \<Rightarrow> fs \<Rightarrow> string \<Rightarrow> string list option" where
  "completed_before existing rootPath current fs payloadRoot =
     (case existing of
        None \<Rightarrow> Some []
      | Some v \<Rightarrow>
          if js_prop ''payloadRootRelativePath'' v \<noteq> JStr rootPath then Some []
          else (case js_prop ''restoreDirectories'' v of
              JArr ds \<Rightarrow>
                if \<not> list_all (\<lambda>d. case d of JStr s \<Rightarrow> s \<in> set current | _ \<Rightarrow> False) ds then Some []
                else map_option (\<lambda>cs. js_unique (filter (\<lambda>d. fs_exists fs (path_join [payloadRoot, d])) cs))
                       (json_strings (js_prop ''completedDirectories'' v))
            | _ \<Rightarrow> None))"

text \<open>\<open>runCommand('tar', ['-xzf', archive, '-C', dir, member])\<close>: whether it succeeds, its output, and
  the file system after it.\<close>

type_synonym untar = "string \<Rightarrow> string \<Rightarrow> string \<Rightarrow> fs \<Rightarrow> bool \<times> string \<times> fs"

datatype extracted = ExtractOk string | ExtractFailed string | ExtractThrew

text \<open>The loop over the pending directories, with the calls of \<open>onProgress\<close>: the directory, its index and
  their number. The result is the list of newly extracted directories, or how it ended early.\<close>

type_synonym extract_progress = "(string \<times> nat \<times> nat) list"

fun extract_pending ::
  "untar \<Rightarrow> rat \<Rightarrow> string \<Rightarrow> string \<Rightarrow> string \<Rightarrow> string \<Rightarrow> string list \<Rightarrow> nat \<Rightarrow> string list \<Rightarrow> string list \<Rightarrow> string list
   \<Rightarrow> extract_progress \<Rightarrow> fs \<Rightarrow> (string list + extracted) \<times> extract_progress \<times> fs" where
  "extract_pending untar now archivePath extractDir statePath rootPath current dirCount [] extracted newly shown fs =
     (Inl newly, shown, fs)"
| "extract_pending untar now archivePath extractDir statePath rootPath current dirCount (d # pending) extracted newly shown fs =
     (let shown1 = shown @ [(d, length newly, dirCount)];
          member = (if rootPath \<noteq> [] then path_join [rootPath, d] else d);
          target = path_join [blockchainBackupPayloadRootPath extractDir rootPath, d]
      in case untar archivePath extractDir member (rm_tree (loc target) fs) of
           (False, output, fs1) \<Rightarrow>
             (Inr (ExtractFailed (js_join nl (filter (\<lambda>t. t \<noteq> [])
                [''No se pudo extraer '' @ d @ '' desde '' @ member, output]))), shown1, fs1)
         | (True, output, fs1) \<Rightarrow>
             (case writeJsonFile statePath (buildBlockchainBackupExtractState now rootPath current (extracted @ [d])) fs1 of
                None \<Rightarrow> (Inr ExtractThrew, shown1, fs1)
              | Some fs2 \<Rightarrow>
                  extract_pending untar now archivePath extractDir statePath rootPath current dirCount pending
                    (extracted @ [d]) (newly @ [d]) shown1 fs2))"

definition extractBlockchainBackupDirectories ::
  "untar \<Rightarrow> rat \<Rightarrow> string \<Rightarrow> string \<Rightarrow> string \<Rightarrow> string \<Rightarrow> string list \<Rightarrow> fs
   \<Rightarrow> extracted \<times> extract_progress \<times> fs" where
  "extractBlockchainBackupDirectories untar now archivePath extractDir statePath rootPath restoreDirectories fs =
     (case mkdir_all (loc extractDir) fs of
        None \<Rightarrow> (ExtractThrew, [], fs)
      | Some fs1 \<Rightarrow>
          let payloadRoot = blockchainBackupPayloadRootPath extractDir rootPath;
              current = uniqueStringList restoreDirectories
          in case completed_before (readJsonFile fs1 statePath) rootPath current fs1 payloadRoot of
               None \<Rightarrow> (ExtractThrew, [], fs1)
             | Some extracted \<Rightarrow>
                 (case writeJsonFile statePath (buildBlockchainBackupExtractState now rootPath current extracted) fs1 of
                    None \<Rightarrow> (ExtractThrew, [], fs1)
                  | Some fs2 \<Rightarrow>
                      let pending = filter (\<lambda>d. d \<notin> set extracted) current
                      in if pending = []
                         then (ExtractOk (''Using cached extracted backup directories: '' @ js_join '', '' current), [], fs2)
                         else (case extract_pending untar now archivePath extractDir statePath rootPath current
                               (length pending) pending extracted [] [] fs2 of
                             (Inr failed, shown, fs3) \<Rightarrow> (failed, shown, fs3)
                           | (Inl newly, shown, fs3) \<Rightarrow>
                               (ExtractOk (js_join nl (filter (\<lambda>t. t \<noteq> [])
                                  [if extracted \<noteq> []
                                   then ''Reused extracted directories: '' @
                                     js_join '', '' (filter (\<lambda>d. d \<notin> set newly) current)
                                   else [],
                                   if newly \<noteq> [] then ''Extracted missing directories: '' @ js_join '', '' newly
                                   else []])), shown, fs3))))"

section \<open>Restoring\<close>

datatype restore_result = Restored "string list" | RestoreError string | RestoreCopyError

definition restore_marker :: string where
  "restore_marker = ''.backup-just-restored''"

fun restore_dirs :: "string \<Rightarrow> string \<Rightarrow> string list \<Rightarrow> string list \<Rightarrow> fs \<Rightarrow> restore_result \<times> fs" where
  "restore_dirs payloadRoot baseDir [] restored fs = (Restored restored, fs)"
| "restore_dirs payloadRoot baseDir (d # ds) restored fs =
     (let source = path_join [payloadRoot, d]; target = path_join [baseDir, d]
      in if \<not> fs_is_dir fs source
         then (RestoreError (''El directorio '' @ d @ '' no existe en el backup extraido ('' @ source @ '')''), fs)
         else (case cp_tree (loc source) (loc target) (rm_tree (loc target) fs) of
             None \<Rightarrow> (RestoreCopyError, rm_tree (loc target) fs)
           | Some fs1 \<Rightarrow> restore_dirs payloadRoot baseDir ds (restored @ [d]) fs1))"

definition marker_value :: "string \<Rightarrow> string list \<Rightarrow> jsval" where
  "marker_value now restored = JObj [(''restoredAt'', JStr now), (''directories'', JArr (map JStr restored))]"

definition restoreBlockchainBackupPayload ::
  "string \<Rightarrow> string \<Rightarrow> string list \<Rightarrow> string \<Rightarrow> fs \<Rightarrow> restore_result \<times> fs" where
  "restoreBlockchainBackupPayload now payloadRoot restoreDirectories baseDir fs =
     (case mkdir_all (loc baseDir) fs of
        None \<Rightarrow> (RestoreCopyError, fs)
      | Some fs1 \<Rightarrow>
          let fs2 = fold (\<lambda>d. rm_tree (loc (path_join [baseDir, d]))) reset_dirs fs1
          in case restore_dirs payloadRoot baseDir restoreDirectories [] fs2 of
               (Restored restored, fs3) \<Rightarrow>
                 if restored = [] then (RestoreError ''El backup no contiene ningun subdirectorio restaurable'', fs3)
                 else (Restored restored,
                   if list_ex (\<lambda>d. d \<in> set required_dirs) restored
                   then (case write_file (loc (path_join [baseDir, restore_marker])) (Json (marker_value now restored)) fs3 of
                       Some fs4 \<Rightarrow> fs4 | None \<Rightarrow> fs3)
                   else fs3)
             | (failed, fs3) \<Rightarrow> (failed, fs3))"

section \<open>The cache holds a verified archive\<close>

definition cache_ok :: "(string \<Rightarrow> string) \<Rightarrow> string \<Rightarrow> archive_cache \<Rightarrow> bool" where
  "cache_ok sha256 expected cache \<longleftrightarrow>
     (\<forall>f. ac_archive cache = Some f \<and> archiveStateMatchesFile f (ac_state cache) \<longrightarrow> sha256 (af_content f) = expected)"

text \<open>The cache directory over time: runs of the code, and anything else that replaces or removes the
  archive, as long as a replacement differs in size or time from what the state file says.\<close>

inductive cache_reachable :: "(string \<Rightarrow> string) \<Rightarrow> string \<Rightarrow> archive_cache \<Rightarrow> bool"
  for sha256 :: "string \<Rightarrow> string" and expected :: string
where
  empty: "cache_reachable sha256 expected \<lparr>ac_archive = None, ac_state = None\<rparr>"
| run: "cache_reachable sha256 expected cache \<Longrightarrow>
    ensureBlockchainBackupArchiveCached sha256 answer path expected cache = (ok, output, cache') \<Longrightarrow>
    cache_reachable sha256 expected cache'"
| interfere: "cache_reachable sha256 expected cache \<Longrightarrow>
    pred_option (\<lambda>f. \<not> archiveStateMatchesFile f (ac_state cache)) changed \<Longrightarrow>
    cache_reachable sha256 expected (cache\<lparr>ac_archive := changed\<rparr>)"

lemma download_step_ok:
  assumes "download_step sha256 answer expected note cache = (ok, output, cache')"
  shows "ok \<Longrightarrow> \<exists>f. ac_archive cache' = Some f \<and> sha256 (af_content f) = expected"
    and "\<not> ok \<Longrightarrow> ac_archive cache' = None"
    and "cache_ok sha256 expected cache'"
  using assms
  by (auto simp: download_step_def downloadBlockchainBackupArchive_def Let_def cache_ok_def
      archiveStateMatchesFile_def split: download.splits if_splits prod.splits)

lemma ensure_cached_ok:
  assumes "cache_ok sha256 expected cache"
    and "ensureBlockchainBackupArchiveCached sha256 answer path expected cache = (ok, output, cache')"
  shows "ok \<Longrightarrow> \<exists>f. ac_archive cache' = Some f \<and> sha256 (af_content f) = expected"
    and "\<not> ok \<Longrightarrow> ac_archive cache' = None"
    and "cache_ok sha256 expected cache'"
proof -
  have "(ok \<longrightarrow> (\<exists>f. ac_archive cache' = Some f \<and> sha256 (af_content f) = expected)) \<and>
      (\<not> ok \<longrightarrow> ac_archive cache' = None) \<and> cache_ok sha256 expected cache'"
  proof (cases "ac_archive cache")
    case None
    with assms(2) have "download_step sha256 answer expected [] cache = (ok, output, cache')"
      by (simp add: ensureBlockchainBackupArchiveCached_def)
    from download_step_ok [OF this] show ?thesis by blast
  next
    case (Some f)
    show ?thesis
    proof (cases "archiveStateMatchesFile f (ac_state cache) \<or> sha256 (af_content f) = expected")
      case True
      with Some assms show ?thesis
        by (auto simp: ensureBlockchainBackupArchiveCached_def verifyBlockchainBackupArchiveFile_def Let_def
            cache_ok_def split: if_splits)
    next
      case False
      with Some assms(2) obtain reuse where
        "download_step sha256 answer expected reuse \<lparr>ac_archive = None, ac_state = None\<rparr> = (ok, output, cache')"
        by (auto simp: ensureBlockchainBackupArchiveCached_def verifyBlockchainBackupArchiveFile_def Let_def)
      from download_step_ok [OF this] show ?thesis by blast
    qed
  qed
  then show "ok \<Longrightarrow> \<exists>f. ac_archive cache' = Some f \<and> sha256 (af_content f) = expected"
    "\<not> ok \<Longrightarrow> ac_archive cache' = None" "cache_ok sha256 expected cache'" by blast+
qed

lemma reachable_cache_ok: "cache_reachable sha256 expected cache \<Longrightarrow> cache_ok sha256 expected cache"
proof (induction rule: cache_reachable.induct)
  case (run cache answer path ok out cache')
  from ensure_cached_ok(3) [OF run.IH run.hyps(2)] show ?case .
next
  case (interfere cache changed)
  then show ?case by (auto simp: cache_ok_def)
qed (simp add: cache_ok_def)



end
