(* ===== verification/BackupSelection.thy ===== *)
theory BackupSelection
  imports JsText JsValue
begin

text \<open>
  Choosing a native backup and showing its progress, src/app/native-backups.ts. Numbers are
  \<open>jsnum\<close>: a progress can be \<open>NaN\<close>.

  Main results: without a prefix, the backup is taken from the first list that has it, in the order
  local, remote, public (\<open>selection_order\<close>, \<open>latest_order\<close>), and every progress shown
  lies between 0 and 100 (\<open>progress_in_range\<close>).
\<close>

section \<open>Selection\<close>

datatype backup_source = SrcLocal | SrcRemote | SrcPublic | SrcAuto

fun source_str :: "backup_source \<Rightarrow> string" where
  "source_str SrcLocal = ''local''"
| "source_str SrcRemote = ''remote''"
| "source_str SrcPublic = ''public''"
| "source_str SrcAuto = ''auto''"

record backup_selection =
  bs_backupId :: string
  bs_source :: backup_source

record backup_list =
  bl_latestBackupId :: string
  bl_snapshots :: "string list"

definition selection_prefix_re :: re where
  "selection_prefix_re = seqs [Bol, Grp 1 (alts [lit ''local'', lit ''remote'', lit ''public'']),
     chr (CHR '':''), Grp 2 (plus dot), Eol]"

definition source_of_prefix :: "string \<Rightarrow> backup_source" where
  "source_of_prefix s =
     (if s = ''local'' then SrcLocal else if s = ''remote'' then SrcRemote else SrcPublic)"

definition has_latest :: "backup_list option \<Rightarrow> bool" where
  "has_latest l = (case l of None \<Rightarrow> False | Some b \<Rightarrow> bl_latestBackupId b \<noteq> [])"

definition has_backup :: "backup_list option \<Rightarrow> string \<Rightarrow> bool" where
  "has_backup l v = (case l of None \<Rightarrow> False | Some b \<Rightarrow> v \<in> set (bl_snapshots b))"

definition parseNativeBackupSelection ::
  "string \<Rightarrow> backup_list option \<Rightarrow> backup_list option \<Rightarrow> backup_list option \<Rightarrow> backup_selection" where
  "parseNativeBackupSelection selection localList remoteList publicList =
     (let v = js_or (js_trim selection) ''latest''
      in case js_exec selection_prefix_re v of
           Some m \<Rightarrow>
             \<lparr>bs_backupId = js_or (js_trim (cap 2 (match_caps m))) ''latest'',
              bs_source = source_of_prefix (cap 1 (match_caps m))\<rparr>
         | None \<Rightarrow>
             if v = ''latest'' then
               if has_latest localList then \<lparr>bs_backupId = ''latest'', bs_source = SrcLocal\<rparr>
               else if has_latest remoteList then \<lparr>bs_backupId = ''latest'', bs_source = SrcRemote\<rparr>
               else if has_latest publicList then \<lparr>bs_backupId = ''latest'', bs_source = SrcPublic\<rparr>
               else \<lparr>bs_backupId = ''latest'', bs_source = SrcAuto\<rparr>
             else if has_backup localList v then \<lparr>bs_backupId = v, bs_source = SrcLocal\<rparr>
             else if has_backup remoteList v then \<lparr>bs_backupId = v, bs_source = SrcRemote\<rparr>
             else if has_backup publicList v then \<lparr>bs_backupId = v, bs_source = SrcPublic\<rparr>
             else \<lparr>bs_backupId = v, bs_source = SrcAuto\<rparr>)"

section \<open>Progress\<close>

datatype backup_action = BaRestore | BaRestoreVerify | BaCreate

datatype backup_phase =
    BpPrepare | BpStop | BpDownload | BpChecksum | BpExtract | BpRestore | BpCompress | BpSave
  | BpUpload | BpStart | BpVerify | BpComplete | BpCancelled | BpError

definition terminal_backup_phases :: "backup_phase list" where
  "terminal_backup_phases = [BpComplete, BpCancelled, BpError]"

definition numericOrNull :: "jsval \<Rightarrow> jsnum option" where
  "numericOrNull v = (case v of JNum (Fin r) \<Rightarrow> Some (Fin r) | _ \<Rightarrow> None)"

definition clampBackupProgress :: "jsnum \<Rightarrow> jsnum" where
  "clampBackupProgress progress =
     (case progress of Fin r \<Rightarrow> Fin (max 0 (min 100 r)) | _ \<Rightarrow> Fin 0)"

record progress_sample =
  bp_action :: backup_action
  bp_phase :: backup_phase
  bp_completedBytes :: "jsnum option"
  bp_bytesPerSecond :: "jsnum option"
  bp_sampledAt :: int

record progress_patch =
  pp_displayProgress :: "jsnum option"
  pp_completedBytes :: "jsnum option"
  pp_totalBytes :: "jsnum option"
  pp_bytesPerSecond :: "jsnum option"
  pp_etaSeconds :: "jsnum option"
  pp_completedBatches :: "jsnum option"
  pp_totalBatches :: "jsnum option"
  pp_phaseProgress :: "jsnum option"
  pp_progressRangeStart :: "jsnum option"
  pp_progressRangeEnd :: "jsnum option"
  pp_sampleIntervalMs :: "jsnum option"

record progress_state =
  pg_action :: backup_action
  pg_phase :: backup_phase
  pg_progress :: jsnum
  pg_displayProgress :: jsnum
  pg_message :: string
  pg_updatedAt :: int
  pg_completedBytes :: "jsnum option"
  pg_totalBytes :: "jsnum option"
  pg_bytesPerSecond :: "jsnum option"
  pg_etaSeconds :: "jsnum option"
  pg_completedBatches :: "jsnum option"
  pg_totalBatches :: "jsnum option"
  pg_phaseProgress :: "jsnum option"
  pg_progressRangeStart :: "jsnum option"
  pg_progressRangeEnd :: "jsnum option"
  pg_sampleIntervalMs :: "jsnum option"

definition createBackupProgressState ::
  "backup_action \<Rightarrow> backup_phase \<Rightarrow> jsnum \<Rightarrow> string \<Rightarrow> int \<Rightarrow> progress_patch \<Rightarrow> progress_state" where
  "createBackupProgressState action phase progress message updatedAt patch =
     (let normalizedProgress = clampBackupProgress progress
      in \<lparr>pg_action = action, pg_phase = phase, pg_progress = normalizedProgress,
          pg_displayProgress = clampBackupProgress
            (case pp_displayProgress patch of Some d \<Rightarrow> d | None \<Rightarrow> normalizedProgress),
          pg_message = message, pg_updatedAt = updatedAt,
          pg_completedBytes = pp_completedBytes patch, pg_totalBytes = pp_totalBytes patch,
          pg_bytesPerSecond = pp_bytesPerSecond patch, pg_etaSeconds = pp_etaSeconds patch,
          pg_completedBatches = pp_completedBatches patch, pg_totalBatches = pp_totalBatches patch,
          pg_phaseProgress = pp_phaseProgress patch, pg_progressRangeStart = pp_progressRangeStart patch,
          pg_progressRangeEnd = pp_progressRangeEnd patch, pg_sampleIntervalMs = pp_sampleIntervalMs patch\<rparr>)"

section \<open>Lemmas\<close>

lemma clamp_range: "\<exists>r. clampBackupProgress p = Fin r \<and> 0 \<le> r \<and> r \<le> 100"
  by (cases p) (auto simp: clampBackupProgress_def)

lemma clamp_id: "0 \<le> r \<Longrightarrow> r \<le> 100 \<Longrightarrow> clampBackupProgress (Fin r) = Fin r"
  by (simp add: clampBackupProgress_def)

lemma progress_in_range:
  "\<exists>p d. pg_progress (createBackupProgressState a ph x msg t patch) = Fin p \<and> 0 \<le> p \<and> p \<le> 100 \<and>
     pg_displayProgress (createBackupProgressState a ph x msg t patch) = Fin d \<and> 0 \<le> d \<and> d \<le> 100"
  using clamp_range [of x] clamp_range [of "case pp_displayProgress patch of Some d \<Rightarrow> d | None \<Rightarrow> clampBackupProgress x"]
  by (auto simp: createBackupProgressState_def Let_def)

text \<open>Without a prefix the first list that has the backup wins.\<close>

lemma selection_order:
  assumes "js_exec selection_prefix_re (js_or (js_trim sel) ''latest'') = None"
    and "js_or (js_trim sel) ''latest'' = v" "v \<noteq> ''latest''"
  shows "parseNativeBackupSelection sel l r p =
    \<lparr>bs_backupId = v,
     bs_source = (if has_backup l v then SrcLocal else if has_backup r v then SrcRemote
       else if has_backup p v then SrcPublic else SrcAuto)\<rparr>"
  using assms by (simp add: parseNativeBackupSelection_def)

lemma latest_order:
  "js_trim sel \<in> {[], ''latest''} \<Longrightarrow>
   parseNativeBackupSelection sel l r p =
     \<lparr>bs_backupId = ''latest'',
      bs_source = (if has_latest l then SrcLocal else if has_latest r then SrcRemote
        else if has_latest p then SrcPublic else SrcAuto)\<rparr>"
proof -
  assume "js_trim sel \<in> {[], ''latest''}"
  then have "js_or (js_trim sel) ''latest'' = ''latest''" by (auto simp: js_or_def)
  moreover have "js_exec selection_prefix_re ''latest'' = None" by code_simp
  ultimately show ?thesis by (simp add: parseNativeBackupSelection_def)
qed

end
