(* ===== verification/BackupRestore.thy ===== *)
theory BackupRestore
  imports BackupArchive BackupSelection
begin

text \<open>
  Restoring a blockchain backup into the base directory, electron/lib/backup-service.ts: what the copy
  does to the file system, how far an extraction reaches, and the whole operation with its progress
  events, notes and early returns.
\<close>

section \<open>The copy into the base directory\<close>

lemma append_not_prefix_parallel: "a \<parallel> b \<Longrightarrow> \<not> prefix (a @ x) (b @ y)"
  by (metis append_prefixD parallelD1 parallelD2 prefixI prefix_same_cases)

lemma not_below: "prefix q l \<Longrightarrow> \<not> prefix (l @ [d]) q"
  using prefix_length_le [of q l] prefix_length_le [of "l @ [d]" q] by auto

lemma restore_dirs_ok:
  assumes "is_absolute payloadRoot" "is_absolute baseDir" "loc baseDir \<parallel> loc payloadRoot"
    and "list_all plain_name ds" "distinct ds"
    and "\<And>d. d \<in> set ds \<Longrightarrow> fs (loc payloadRoot @ [d]) = Some Dir"
    and "\<And>q. prefix q (loc baseDir) \<Longrightarrow> fs q = Some Dir"
  shows "\<exists>fs'. restore_dirs payloadRoot baseDir ds restored fs = (Restored (restored @ ds), fs') \<and>
    (\<forall>d \<in> set ds. same_tree fs' (loc baseDir @ [d]) fs (loc payloadRoot @ [d])) \<and>
    (\<forall>q. (\<forall>d \<in> set ds. \<not> prefix (loc baseDir @ [d]) q) \<longrightarrow> fs' q = fs q)"
  using assms(4-7)
proof (induction ds arbitrary: restored fs)
  case (Cons d ds)
  let ?src = "loc payloadRoot @ [d]" and ?dst = "loc baseDir @ [d]"
  have plain: "plain_name d" using Cons.prems by simp
  note locs = loc_join_plain [OF assms(1) plain] loc_join_plain [OF assms(2) plain]
  have apart: "\<not> prefix (loc baseDir @ x) (loc payloadRoot @ y)" "\<not> prefix (loc payloadRoot @ y) (loc baseDir @ x)" for x y
    using append_not_prefix_parallel assms(3) parallel_commute by blast+
  define fs1 where "fs1 = rm_tree ?dst fs"
  have other: "fs1 (loc payloadRoot @ y) = fs (loc payloadRoot @ y)" for y
    using apart by (simp add: fs1_def rm_tree_def)
  have dirs: "fs1 q = Some Dir" if "prefix q (loc baseDir)" for q
  proof -
    have "\<not> prefix ?dst q" using that by (rule not_below)
    with Cons.prems(4) that show ?thesis by (simp add: fs1_def rm_tree_def)
  qed
  have "mkdir_all (loc baseDir) fs1 = Some (\<lambda>q. if prefix q (loc baseDir) then Some Dir else fs1 q)"
    using dirs by (simp add: mkdir_all_def list_ex_iff)
  then have cp: "cp_tree ?src ?dst fs1 = Some (\<lambda>q. if prefix ?dst q then fs1 (?src @ drop (length ?dst) q) else
      if prefix q (loc baseDir) then Some Dir else fs1 q)"
    using other [of "[d]"] Cons.prems(3) [of d] apart(2) [of "[d]" "[d]"] by (simp add: cp_tree_def)
  define fs2 where "fs2 = (\<lambda>q. if prefix ?dst q then fs1 (?src @ drop (length ?dst) q) else
      if prefix q (loc baseDir) then Some Dir else fs1 q)"
  have here: "same_tree fs2 ?dst fs ?src"
    using other [of "d # _"] by (simp add: same_tree_def fs2_def)
  have elsewhere: "fs2 q = fs q" if "\<not> prefix ?dst q" for q
    using that dirs Cons.prems(4) by (simp add: fs2_def fs1_def rm_tree_def)
  have step: "restore_dirs payloadRoot baseDir (d # ds) restored fs = restore_dirs payloadRoot baseDir ds (restored @ [d]) fs2"
    using Cons.prems(3) [of d] cp by (simp add: locs fs_is_dir_def fs1_def [symmetric] fs2_def [symmetric])
  have "fs2 (loc payloadRoot @ [e]) = Some Dir" if "e \<in> set ds" for e
    using that elsewhere [OF apart(1)] Cons.prems(3) by simp
  moreover have "fs2 q = Some Dir" if "prefix q (loc baseDir)" for q
    using that elsewhere [OF not_below] Cons.prems(4) by simp
  ultimately obtain fs' where fs': "restore_dirs payloadRoot baseDir ds (restored @ [d]) fs2 = (Restored ((restored @ [d]) @ ds), fs')"
    and trees: "\<And>e. e \<in> set ds \<Longrightarrow> same_tree fs' (loc baseDir @ [e]) fs2 (loc payloadRoot @ [e])"
    and rest: "\<And>q. (\<And>e. e \<in> set ds \<Longrightarrow> \<not> prefix (loc baseDir @ [e]) q) \<Longrightarrow> fs' q = fs2 q"
    using Cons.IH [of fs2 "restored @ [d]"] Cons.prems by auto
  have new: "same_tree fs' ?dst fs ?src"
  proof -
    have "fs' (?dst @ y) = fs2 (?dst @ y)" for y
      using rest [of "?dst @ y"] Cons.prems(2) by (auto simp: prefix_def)
    with here show ?thesis by (simp add: same_tree_def)
  qed
  have "same_tree fs' (loc baseDir @ [e]) fs (loc payloadRoot @ [e])" if "e \<in> set ds" for e
    using trees [OF that] elsewhere apart by (simp add: same_tree_def)
  with new fs' step rest elsewhere show ?case by auto
qed simp

text \<open>The base directory made and its runtime state cleared.\<close>

definition cleared_base :: "location \<Rightarrow> fs \<Rightarrow> fs" where
  "cleared_base base fs = rm_tree (base @ [''mempool'']) (\<lambda>q. if prefix q base then Some Dir else fs q)"

lemma cleared_base_cases:
  "prefix q base \<Longrightarrow> cleared_base base fs q = Some Dir"
  "prefix (base @ [''mempool'']) q \<Longrightarrow> cleared_base base fs q = None"
  "\<not> prefix q base \<Longrightarrow> \<not> prefix (base @ [''mempool'']) q \<Longrightarrow> cleared_base base fs q = fs q"
  using not_below by (simp_all add: cleared_base_def rm_tree_def)

lemma restore_starts:
  assumes "is_absolute baseDir" "\<And>q. prefix q (loc baseDir) \<Longrightarrow> fs q = None \<or> fs q = Some Dir"
  shows "restoreBlockchainBackupPayload now payloadRoot ds baseDir fs =
    (case restore_dirs payloadRoot baseDir ds [] (cleared_base (loc baseDir) fs) of
       (Restored restored, fs3) \<Rightarrow>
         if restored = [] then (RestoreError ''El backup no contiene ningun subdirectorio restaurable'', fs3)
         else (Restored restored,
           if list_ex (\<lambda>d. d \<in> set required_dirs) restored
           then (case write_file (loc baseDir @ [restore_marker]) (Json (marker_value now restored)) fs3 of
               Some fs4 \<Rightarrow> fs4 | None \<Rightarrow> fs3)
           else fs3)
     | (failed, fs3) \<Rightarrow> (failed, fs3))"
proof -
  have names: "plain_name ''mempool''" "plain_name restore_marker" by code_simp+
  note locs = loc_join_plain [OF assms(1) names(1)] loc_join_plain [OF assms(1) names(2)]
  have "mkdir_all (loc baseDir) fs = Some (\<lambda>q. if prefix q (loc baseDir) then Some Dir else fs q)"
    using assms(2) by (fastforce simp: mkdir_all_def list_ex_iff)
  then show ?thesis
    unfolding restoreBlockchainBackupPayload_def Let_def reset_dirs_def cleared_base_def locs
    by (simp add: locs(1))
qed

lemma restored_dirs:
  assumes "is_absolute payloadRoot" "is_absolute baseDir" "loc baseDir \<parallel> loc payloadRoot"
    and "list_all plain_name ds" "distinct ds"
    and "\<And>d. d \<in> set ds \<Longrightarrow> fs (loc payloadRoot @ [d]) = Some Dir"
  shows "\<exists>fs3. restore_dirs payloadRoot baseDir ds [] (cleared_base (loc baseDir) fs) = (Restored ds, fs3) \<and>
    (\<forall>d \<in> set ds. same_tree fs3 (loc baseDir @ [d]) fs (loc payloadRoot @ [d])) \<and>
    (\<forall>q. (\<forall>d \<in> set ds. \<not> prefix (loc baseDir @ [d]) q) \<longrightarrow> fs3 q = cleared_base (loc baseDir) fs q) \<and>
    (\<forall>y. cleared_base (loc baseDir) fs (loc payloadRoot @ y) = fs (loc payloadRoot @ y))"
proof -
  let ?cleared = "cleared_base (loc baseDir) fs"
  have apart: "\<not> prefix (loc baseDir @ x) (loc payloadRoot @ y)" "\<not> prefix (loc payloadRoot @ y) (loc baseDir @ x)" for x y
    using append_not_prefix_parallel assms(3) parallel_commute by blast+
  have src: "?cleared (loc payloadRoot @ y) = fs (loc payloadRoot @ y)" for y
    using apart(1) [of "[''mempool'']" y] apart(2) [of y "[]"] by (simp add: cleared_base_cases(3))
  have "\<And>d. d \<in> set ds \<Longrightarrow> ?cleared (loc payloadRoot @ [d]) = Some Dir" using src assms(6) by simp
  moreover have "\<And>q. prefix q (loc baseDir) \<Longrightarrow> ?cleared q = Some Dir" by (rule cleared_base_cases(1))
  ultimately obtain fs3 where run: "restore_dirs payloadRoot baseDir ds [] ?cleared = (Restored ds, fs3)"
    and trees: "\<And>d. d \<in> set ds \<Longrightarrow> same_tree fs3 (loc baseDir @ [d]) ?cleared (loc payloadRoot @ [d])"
    and keep: "\<And>q. (\<And>d. d \<in> set ds \<Longrightarrow> \<not> prefix (loc baseDir @ [d]) q) \<Longrightarrow> fs3 q = ?cleared q"
    using restore_dirs_ok [OF assms(1-5), of ?cleared "[]"] by auto
  have "same_tree fs3 (loc baseDir @ [d]) fs (loc payloadRoot @ [d])" if "d \<in> set ds" for d
    using trees [OF that] src [of "d # _"] by (simp add: same_tree_def)
  with run keep src show ?thesis by blast
qed

text \<open>A location the restore of \<open>ds\<close> into \<open>base\<close> has nothing to do with.\<close>

definition unconcerned :: "location \<Rightarrow> string list \<Rightarrow> location \<Rightarrow> bool" where
  "unconcerned base ds q \<longleftrightarrow>
     \<not> prefix q base \<and> q \<noteq> base @ [restore_marker] \<and> (\<forall>d \<in> set ds \<union> set reset_dirs. \<not> prefix (base @ [d]) q)"


definition sample_fs :: fs where
  "sample_fs = map_of
     [([], Dir), ([''b''], Dir), ([''b'', ''chain''], Dir), ([''b'', ''chain'', ''old''], File (Bytes ''1'')),
      ([''b'', ''config.yml''], File (Bytes ''c'')), ([''w''], Dir), ([''w'', ''chain''], Dir),
      ([''w'', ''chain'', ''new''], File (Bytes ''2''))]"


text \<open>A copy that stops midway.\<close>

lemma restore_dirs_append:
  "restore_dirs payloadRoot baseDir (xs @ ys) restored fs =
    (case restore_dirs payloadRoot baseDir xs restored fs of
       (Restored done, fs1) \<Rightarrow> restore_dirs payloadRoot baseDir ys done fs1
     | failed \<Rightarrow> failed)"
  by (induction xs arbitrary: restored fs) (simp_all add: Let_def split: option.split)

text \<open>A restore is not atomic: when a listed directory is missing from the payload, the ones before it
  are already replaced, the mempool is gone, the rest of the base directory is the old one, and the
  marker that asks for block verification is not written; the operation reports the missing
  directory.\<close>

theorem missing_directory_leaves_a_partial_restore:
  assumes "is_absolute payloadRoot" "is_absolute baseDir" "loc baseDir \<parallel> loc payloadRoot"
    and "list_all plain_name (before @ d # after)" "distinct (before @ d # after)"
    and "\<And>e. e \<in> set before \<Longrightarrow> fs (loc payloadRoot @ [e]) = Some Dir"
    and "fs (loc payloadRoot @ [d]) = None"
    and "\<And>q. prefix q (loc baseDir) \<Longrightarrow> fs q = None \<or> fs q = Some Dir"
  shows "\<exists>fs'. restoreBlockchainBackupPayload now payloadRoot (before @ d # after) baseDir fs =
      (RestoreError (''El directorio '' @ d @ '' no existe en el backup extraido ('' @ path_join [payloadRoot, d] @ '')''), fs') \<and>
    (\<forall>e \<in> set before. same_tree fs' (loc baseDir @ [e]) fs (loc payloadRoot @ [e])) \<and>
    (\<forall>q. \<not> prefix q (loc baseDir) \<and> (\<forall>e \<in> set before \<union> set reset_dirs. \<not> prefix (loc baseDir @ [e]) q) \<longrightarrow> fs' q = fs q)"
proof -
  let ?base = "loc baseDir"
  have plain: "list_all plain_name before" "distinct before" "plain_name d" using assms(4,5) by simp_all
  obtain fs3 where run: "restore_dirs payloadRoot baseDir before [] (cleared_base ?base fs) = (Restored before, fs3)"
    and trees: "\<And>e. e \<in> set before \<Longrightarrow> same_tree fs3 (?base @ [e]) fs (loc payloadRoot @ [e])"
    and keep: "\<And>q. (\<And>e. e \<in> set before \<Longrightarrow> \<not> prefix (?base @ [e]) q) \<Longrightarrow> fs3 q = cleared_base ?base fs q"
    and src: "\<And>y. cleared_base ?base fs (loc payloadRoot @ y) = fs (loc payloadRoot @ y)"
    using restored_dirs [where fs = fs, OF assms(1-3) plain(1,2) assms(6)] by auto
  have "fs3 (loc payloadRoot @ [d]) = None"
    using keep [OF append_not_prefix_parallel [OF assms(3)]] src assms(7) by simp
  then have "\<not> fs_is_dir fs3 (path_join [payloadRoot, d])"
    by (simp add: fs_is_dir_def loc_join_plain [OF assms(1) plain(3)])
  then have "restoreBlockchainBackupPayload now payloadRoot (before @ d # after) baseDir fs =
      (RestoreError (''El directorio '' @ d @ '' no existe en el backup extraido ('' @ path_join [payloadRoot, d] @ '')''), fs3)"
    using run by (simp add: restore_starts [OF assms(2,8)] restore_dirs_append)
  moreover have "fs3 q = fs q" if "\<not> prefix q ?base" "\<forall>e \<in> set before \<union> set reset_dirs. \<not> prefix (?base @ [e]) q" for q
    using that keep [of q] by (simp add: cleared_base_cases(3) reset_dirs_def)
  ultimately show ?thesis using trees by blast
qed

theorem missing_directory_leaves_a_partial_restore_witness:
  "\<exists>message fs'. restoreBlockchainBackupPayload ''t'' ''/w'' [''chain'', ''block_store''] ''/b'' sample_fs = (RestoreError message, fs') \<and>
    fs' [''b'', ''chain'', ''new''] = Some (File (Bytes ''2'')) \<and> fs' [''b'', ''.backup-just-restored''] = None"
proof -
  have locs: "loc ''/b'' = [''b'']" "loc ''/w'' = [''w'']" "is_absolute ''/w''" "is_absolute ''/b''"
    "list_all plain_name ([''chain''] @ ''block_store'' # [])" by code_simp+
  have "\<exists>fs'. restoreBlockchainBackupPayload ''t'' ''/w'' ([''chain''] @ ''block_store'' # []) ''/b'' sample_fs =
      (RestoreError (''El directorio '' @ ''block_store'' @ '' no existe en el backup extraido ('' @ path_join [''/w'', ''block_store''] @ '')''), fs') \<and>
    (\<forall>e \<in> set [''chain'']. same_tree fs' (loc ''/b'' @ [e]) sample_fs (loc ''/w'' @ [e])) \<and>
    (\<forall>q. \<not> prefix q (loc ''/b'') \<and> (\<forall>e \<in> set [''chain''] \<union> set reset_dirs. \<not> prefix (loc ''/b'' @ [e]) q) \<longrightarrow> fs' q = sample_fs q)"
    by (rule missing_directory_leaves_a_partial_restore)
      (use locs in \<open>auto simp: sample_fs_def parallel_def prefix_Cons\<close>)
  then obtain message fs' where run: "restoreBlockchainBackupPayload ''t'' ''/w'' [''chain'', ''block_store''] ''/b'' sample_fs = (RestoreError message, fs')"
    and tree: "same_tree fs' [''b'', ''chain''] sample_fs [''w'', ''chain'']"
    and kept: "\<And>q. \<not> prefix q [''b''] \<Longrightarrow> \<forall>e \<in> {''chain''} \<union> set reset_dirs. \<not> prefix [''b'', e] q \<Longrightarrow> fs' q = sample_fs q"
    by (auto simp: locs)
  have "fs' [''b'', ''chain'', ''new''] = Some (File (Bytes ''2''))"
    using tree [unfolded same_tree_def, rule_format, of "[''new'']"] by (simp add: sample_fs_def)
  moreover have "fs' [''b'', ''.backup-just-restored''] = None"
    using kept [of "[''b'', ''.backup-just-restored'']"] by (simp add: reset_dirs_def sample_fs_def)
  ultimately show ?thesis using run by blast
qed

section \<open>How far an extraction reaches\<close>

text \<open>tar writes below the directory it is given, and fails without effect on an archive that is gone.\<close>

definition tar_stays_below :: "untar \<Rightarrow> bool" where
  "tar_stays_below untar \<longleftrightarrow>
     (\<forall>archive dir member fs q. \<not> prefix (loc dir) q \<longrightarrow> snd (snd (untar archive dir member fs)) q = fs q)"

lemma split_plain_names: "list_all plain_name ss \<Longrightarrow> concat (map (js_split (CHR ''/'')) ss) = ss"
  by (induction ss) (simp_all add: split_plain)

lemma loc_payload_root:
  assumes "is_absolute extractDir" "list_all plain_name (path_segments rootPath)"
  shows "loc (blockchainBackupPayloadRootPath extractDir rootPath) = loc extractDir @ path_segments rootPath"
    and "is_absolute (blockchainBackupPayloadRootPath extractDir rootPath)"
proof -
  have "concat (map (js_split (CHR ''/'')) (path_segments rootPath)) = path_segments rootPath"
    by (rule split_plain_names [OF assms(2)])
  then show "loc (blockchainBackupPayloadRootPath extractDir rootPath) = loc extractDir @ path_segments rootPath"
    using assms by (simp add: blockchainBackupPayloadRootPath_def loc_join walk_plain path_segments_def)
  show "is_absolute (blockchainBackupPayloadRootPath extractDir rootPath)"
    using assms(1) by (simp add: blockchainBackupPayloadRootPath_def is_absolute_path_join)
qed

lemma writeJsonFile_SomeD:
  assumes "writeJsonFile p v fs = Some fs'" "\<not> prefix q (loc p)" shows "fs' q = fs q"
proof -
  obtain fs1 where m: "mkdir_all (butlast (loc p)) fs = Some fs1"
    and w: "write_file (loc p) (Json (json_stored v)) fs1 = Some fs'"
    using assms(1) by (auto simp: writeJsonFile_def bind_eq_Some_conv)
  note fs_write_SomeD(1) [OF w] mkdir_all_SomeD(1) [OF m, of q]
  moreover have "\<not> prefix q (butlast (loc p))"
    using assms(2) prefix_order.trans [OF _ prefixeq_butlast, of q "loc p"] by blast
  ultimately show ?thesis using assms(2) by auto
qed

lemma extract_pending_stays:
  assumes "is_absolute extractDir" "list_all plain_name (path_segments rootPath)" "tar_stays_below untar"
    and "\<not> prefix (loc extractDir) q" "\<not> prefix q (loc statePath)" "list_all plain_name pending"
  shows "snd (snd (extract_pending untar now archivePath extractDir statePath rootPath current dirCount pending
    extracted newly shown fs)) q = fs q"
  using assms(6)
proof (induction pending arbitrary: extracted newly shown fs)
  case (Cons d pending)
  let ?target = "path_join [blockchainBackupPayloadRootPath extractDir rootPath, d]"
  let ?member = "if rootPath \<noteq> [] then path_join [rootPath, d] else d"
  have "plain_name d" using Cons.prems by simp
  then have "loc ?target = loc extractDir @ path_segments rootPath @ [d]"
    using loc_payload_root [OF assms(1,2)] by (simp add: loc_join_plain)
  then have "\<not> prefix (loc ?target) q" using assms(4) append_prefixD by metis
  then have rm: "rm_tree (loc ?target) fs q = fs q" by (rule rm_tree_outside)
  obtain ok out fs1 where tar: "untar archivePath extractDir ?member (rm_tree (loc ?target) fs) = (ok, out, fs1)"
    by (metis prod_cases3)
  then have fs1: "fs1 q = fs q" using assms(3,4) rm unfolding tar_stays_below_def by (metis snd_conv)
  show ?case
  proof (cases ok)
    case True
    show ?thesis
    proof (cases "writeJsonFile statePath (buildBlockchainBackupExtractState now rootPath current (extracted @ [d])) fs1")
      case (Some fs2)
      then have "fs2 q = fs q" using writeJsonFile_SomeD assms(5) fs1 by metis
      then show ?thesis using True tar Some Cons by (simp add: Let_def)
    qed (use True tar fs1 in \<open>simp add: Let_def\<close>)
  qed (use tar fs1 in \<open>simp add: Let_def\<close>)
qed simp

text \<open>Extracting plainly named directories changes nothing outside the extraction directory but the
  state file, whether it succeeds, fails or throws.\<close>

lemma extraction_stays_in_the_workspace:
  assumes "is_absolute extractDir" "list_all plain_name (path_segments rootPath)" "tar_stays_below untar"
    and "list_all plain_name (uniqueStringList restoreDirectories)"
    and "\<not> prefix (loc extractDir) q" "\<not> prefix q (loc statePath)" "\<not> prefix q (loc extractDir)"
  shows "snd (snd (extractBlockchainBackupDirectories untar now archivePath extractDir statePath rootPath
    restoreDirectories fs)) q = fs q"
proof (cases "mkdir_all (loc extractDir) fs")
  case (Some fs1)
  let ?current = "uniqueStringList restoreDirectories"
  let ?done = "completed_before (readJsonFile fs1 statePath) rootPath ?current fs1 (blockchainBackupPayloadRootPath extractDir rootPath)"
  have fs1: "fs1 q = fs q" by (rule mkdir_all_outside [OF Some assms(7)])
  show ?thesis
  proof (cases ?done)
    case None
    with Some fs1 show ?thesis by (simp add: extractBlockchainBackupDirectories_def Let_def)
  next
    case before: (Some extracted)
    show ?thesis
    proof (cases "writeJsonFile statePath (buildBlockchainBackupExtractState now rootPath ?current extracted) fs1")
      case None
      with Some before fs1 show ?thesis by (simp add: extractBlockchainBackupDirectories_def Let_def)
    next
      case written: (Some fs2)
      then have fs2: "fs2 q = fs q" using writeJsonFile_SomeD assms(6) fs1 by metis
      let ?pending = "filter (\<lambda>d. d \<notin> set extracted) ?current"
      have "list_all plain_name ?pending" using assms(4) by (auto simp: list_all_iff)
      from extract_pending_stays [OF assms(1-3,5,6) this]
      have "snd (snd (extract_pending untar now archivePath extractDir statePath rootPath ?current
          (length ?pending) ?pending extracted [] [] fs2)) q = fs q"
        by (simp add: fs2)
      with Some before written fs2 show ?thesis
        by (auto simp: extractBlockchainBackupDirectories_def Let_def split: prod.split sum.split)
    qed
  qed
qed (simp add: extractBlockchainBackupDirectories_def)

text \<open>Published directory names are not checked: three parent segments lead from the extraction directory to
  the directory above the base directory.\<close>

definition climbing_metadata :: string where
  "climbing_metadata = ''Included Directories:'' @ nl @ ''../../../'' @ nl"

lemma climbing_directories: "parseBlockchainBackupMetadataDirectories climbing_metadata = [''../../..'']"
  by code_simp

lemma loc_climbed:
  assumes "is_absolute parent" "plain_name k"
  shows "loc (path_join [path_join [path_join [parent, backup_cache_dir, k], ''extract''], ''../../..'']) = loc parent"
proof -
  have names: "js_split (CHR ''/'') backup_cache_dir = [backup_cache_dir]" "js_split (CHR ''/'') ''extract'' = [''extract'']"
    "js_split (CHR ''/'') ''../../..'' = [''..'', ''..'', ''..'']" "plain_name backup_cache_dir" "plain_name ''extract''"
    by code_simp+
  have "loc (path_join [path_join [parent, backup_cache_dir, k], ''extract'']) = loc parent @ [backup_cache_dir, k, ''extract'']"
    using assms names by (simp add: loc_join is_absolute_path_join split_plain)
  moreover have up: "push_segment True (l @ [d]) ''..'' = l" if "plain_name d" for l d
    using that by (simp add: push_segment_def plain_name_def)
  have "walk True (loc parent @ [backup_cache_dir, k, ''extract'']) [''..'', ''..'', ''..''] = loc parent"
    using up [OF names(5), of "loc parent @ [backup_cache_dir, k]"] up [OF assms(2), of "loc parent @ [backup_cache_dir]"]
      up [OF names(4), of "loc parent"] by simp
  ultimately show ?thesis using assms names by (simp add: loc_join is_absolute_path_join)
qed

text \<open>A directory list that names a parent is obeyed: the published metadata
  "Included Directories:" with the line "../../../" is read as one directory to restore, and an
  extraction for it that gets as far as tar has removed everything below the directory above the base
  directory, the base directory included, before tar reports that its archive is gone.\<close>

theorem metadata_can_climb_out:
  assumes "is_absolute parent" "plain_name (take 12 (sha1 archiveUrl) @ ''-'' @ take 12 checksum)"
    and "\<And>archive dir member fs. untar archive dir member fs = (False, message, fs)"
    and "extractBlockchainBackupDirectories untar now
      (ws_archivePath (blockchainBackupWorkspacePaths sha1 parent archiveUrl checksum))
      (ws_extractDir (blockchainBackupWorkspacePaths sha1 parent archiveUrl checksum))
      (ws_extractStatePath (blockchainBackupWorkspacePaths sha1 parent archiveUrl checksum)) []
      (parseBlockchainBackupMetadataDirectories climbing_metadata) fs = (ExtractFailed output, shown, fs')"
  shows "fs' (loc parent @ q) = None"
proof -
  let ?w = "blockchainBackupWorkspacePaths sha1 parent archiveUrl checksum"
  have unique: "uniqueStringList [''../../..''] = [''../../..'']" by code_simp
  have target: "loc (path_join [blockchainBackupPayloadRootPath (ws_extractDir ?w) [], ''../../..'']) = loc parent"
    using loc_climbed [OF assms(1,2)] by (simp add: blockchainBackupWorkspacePaths_def Let_def blockchainBackupPayloadRootPath_def)
  from assms(4) obtain fs2 where "fs' = rm_tree (loc parent) fs2"
    by (auto simp: climbing_directories extractBlockchainBackupDirectories_def Let_def unique target assms(3)
        split: option.splits if_splits)
  then show ?thesis by (simp add: rm_tree_def)
qed

theorem metadata_can_climb_out_witness:
  "\<exists>output shown fs'. extractBlockchainBackupDirectories (\<lambda>archive dir member fs. (False, ''gone'', fs)) 0
      (ws_archivePath (blockchainBackupWorkspacePaths (\<lambda>_. ''1'') ''/b'' ''u'' ''2''))
      (ws_extractDir (blockchainBackupWorkspacePaths (\<lambda>_. ''1'') ''/b'' ''u'' ''2''))
      (ws_extractStatePath (blockchainBackupWorkspacePaths (\<lambda>_. ''1'') ''/b'' ''u'' ''2'')) []
      (parseBlockchainBackupMetadataDirectories climbing_metadata) sample_fs = (ExtractFailed output, shown, fs') \<and>
    fs' [''b'', ''config.yml''] = None"
proof -
  let ?untar = "\<lambda>archive dir member (fs :: fs). (False, ''gone'', fs)"
  let ?w = "blockchainBackupWorkspacePaths (\<lambda>_. ''1'') ''/b'' ''u'' ''2''"
  let ?run = "extractBlockchainBackupDirectories ?untar 0 (ws_archivePath ?w) (ws_extractDir ?w) (ws_extractStatePath ?w) []
      (parseBlockchainBackupMetadataDirectories climbing_metadata) sample_fs"
  have ok: "is_absolute ''/b''" "plain_name (take 12 ''1'' @ ''-'' @ take 12 ''2'')" "loc ''/b'' = [''b'']" by code_simp+
  have "case fst ?run of ExtractFailed _ \<Rightarrow> True | _ \<Rightarrow> False" by code_simp
  then obtain msg shown fs' where run: "?run = (ExtractFailed msg, shown, fs')"
    by (cases ?run) (auto split: extracted.splits)
  have "fs' (loc ''/b'' @ [''config.yml'']) = None"
    by (rule metadata_can_climb_out [OF ok(1,2) _ run]) simp
  with run ok(3) show ?thesis by simp
qed

end
