(* ===== verification/BackupFlow.thy ===== *)
theory BackupFlow
  imports BackupRestore
begin

text \<open>
  The operation "restore a backup" of electron/lib/backup-service.ts, \<open>telenoNodeRestoreBackup\<close>, with
  its progress events, its notes and every early return.

  State (\<open>restore_state\<close>): the file system, the download caches by workspace, the events sent so far
  and the notes. A stage takes its continuation as an argument, as an awaited call does: \<open>report\<close>
  sends an event, \<open>remark\<close> pushes a note, \<open>give_up\<close> is an early return with an error event, \<open>throws\<close> is
  a thrown error as the surrounding catch handles it. What other services and the network answer is in
  the environment (\<open>restore_env\<close>): stopping the node, preparing configuration and runtime files and the directory check are
  functions on the file system; the node status put into the result is left out.
\<close>

section \<open>State, environment, stages\<close>

record backup_event =
  ev_phase :: backup_phase
  ev_progress :: rat
  ev_message :: string
  ev_telemetry :: "telemetry option"

record restore_state =
  st_fs :: fs
  st_cache :: "string \<Rightarrow> archive_cache"
  st_events :: "backup_event list"
  st_notes :: "string list"

record restore_outcome =
  ro_ok :: bool
  ro_output :: string
  ro_state :: restore_state

type_synonym stage = "restore_state \<Rightarrow> restore_outcome"

record base_dir_validation =
  vd_ok :: bool
  vd_output :: string
  vd_parent :: string

record restore_env =
  re_baseDir :: string
  re_url :: string
  re_notReady :: "string option"
  re_validation :: base_dir_validation
  re_stop :: "fs \<Rightarrow> bool \<times> string \<times> fs"
  re_config :: "fs \<Rightarrow> string \<times> fs"
  re_checksum :: fetched
  re_metadata :: fetched
  re_download :: download
  re_received :: "rat list"
  re_listing :: "archive_file \<Rightarrow> tar_listing"
  re_untar :: untar
  re_children :: "fs \<Rightarrow> string \<Rightarrow> string list"
  re_runtime :: "fs \<Rightarrow> string \<times> fs"
  re_yaml_set :: "string \<Rightarrow> bool \<Rightarrow> string + string"
  re_parse_url :: url_parser
  re_sha1 :: "string \<Rightarrow> string"
  re_sha256 :: "string \<Rightarrow> string"
  re_now :: rat
  re_nowIso :: string
  re_fsError :: string

definition backup_event_of :: "backup_phase \<Rightarrow> rat \<Rightarrow> string \<Rightarrow> telemetry option \<Rightarrow> backup_event" where
  "backup_event_of phase progress message data =
     \<lparr>ev_phase = phase, ev_progress = normalizeBackupProgressValue (Fin progress), ev_message = message,
      ev_telemetry = data\<rparr>"

definition report :: "backup_phase \<Rightarrow> rat \<Rightarrow> string \<Rightarrow> stage \<Rightarrow> stage" where
  "report phase progress message k s =
     k (s\<lparr>st_events := st_events s @ [backup_event_of phase progress message None]\<rparr>)"

definition remark :: "string \<Rightarrow> stage \<Rightarrow> stage" where
  "remark t k s = k (s\<lparr>st_notes := st_notes s @ [t]\<rparr>)"

definition noted :: "string list \<Rightarrow> string" where
  "noted notes = js_join nl (filter (\<lambda>t. t \<noteq> []) notes)"

text \<open>\<open>reportProgress('error', p, message); return { ok: false, output: [...notes, text] }\<close>.\<close>

definition give_up :: "rat \<Rightarrow> string \<Rightarrow> string \<Rightarrow> stage" where
  "give_up progress message t s =
     \<lparr>ro_ok = False, ro_output = noted (st_notes s @ [t]),
      ro_state = s\<lparr>st_events := st_events s @ [backup_event_of BpError progress message None]\<rparr>\<rparr>"

definition throws :: "string \<Rightarrow> stage" where
  "throws message = give_up 0 message message"

definition try_fs :: "restore_env \<Rightarrow> (fs \<Rightarrow> fs option) \<Rightarrow> stage \<Rightarrow> stage" where
  "try_fs env f k s = (case f (st_fs s) of None \<Rightarrow> throws (re_fsError env) s | Some fs1 \<Rightarrow> k (s\<lparr>st_fs := fs1\<rparr>))"

section \<open>Parts\<close>

definition hasBlockchainBackupPayload :: "fs \<Rightarrow> string \<Rightarrow> bool" where
  "hasBlockchainBackupPayload fs dir = list_ex (\<lambda>e. fs_exists fs (path_join [dir, e])) required_dirs"

fun first_some :: "'a option list \<Rightarrow> 'a option" where
  "first_some [] = None"
| "first_some (None # xs) = first_some xs"
| "first_some (Some x # xs) = Some x"

text \<open>The search goes four levels down; \<open>children\<close> is \<open>readdirSync\<close>. The first argument is the number
  of levels left.\<close>

fun findBlockchainBackupPayloadRoot :: "(fs \<Rightarrow> string \<Rightarrow> string list) \<Rightarrow> fs \<Rightarrow> nat \<Rightarrow> string \<Rightarrow> string option" where
  "findBlockchainBackupPayloadRoot children fs 0 dir = (if hasBlockchainBackupPayload fs dir then Some dir else None)"
| "findBlockchainBackupPayloadRoot children fs (Suc n) dir =
     (if hasBlockchainBackupPayload fs dir then Some dir
      else first_some (map (\<lambda>name.
          if fs_is_dir fs (path_join [dir, name])
          then findBlockchainBackupPayloadRoot children fs n (path_join [dir, name]) else None) (children fs dir)))"

definition setConfigVerifyBlocks :: "(string \<Rightarrow> bool \<Rightarrow> string + string) \<Rightarrow> string \<Rightarrow> bool \<Rightarrow> fs \<Rightarrow> (bool \<times> string) \<times> fs" where
  "setConfigVerifyBlocks yaml_set baseDir enabled fs =
     (let configPath = path_join [baseDir, ''config.yml''];
          value_text = (if enabled then ''true'' else ''false'')
      in case fs (loc configPath) of
           None \<Rightarrow> ((False, ''config.yml not found at '' @ configPath), fs)
         | Some (File (Bytes raw)) \<Rightarrow>
             (case yaml_set raw enabled of
                Inl msg \<Rightarrow> ((False, ''Failed to set verify-blocks: '' @ msg), fs)
              | Inr edited \<Rightarrow>
                  ((True, ''Set chain.verify-blocks='' @ value_text @ '' in '' @ configPath),
                   fs(loc configPath \<mapsto> File (Bytes edited))))
         | Some _ \<Rightarrow> ((False, ''Failed to set verify-blocks: ''), fs))"

definition download_message :: "rat \<Rightarrow> rat option \<Rightarrow> string" where
  "download_message received announced =
     ''Downloading backup archive ('' @ formatByteCount (Fin received) @
     (case announced of Some t \<Rightarrow> '' of '' @ formatByteCount (Fin t) | None \<Rightarrow> []) @ '')''"

definition download_event :: "rat option \<Rightarrow> rat \<Rightarrow> backup_event" where
  "download_event announced received =
     (let phaseProgress = map_option (\<lambda>t. max 0 (min 1 (received / t))) announced
      in backup_event_of BpDownload (case phaseProgress of Some p \<Rightarrow> 20 + p * 40 | None \<Rightarrow> 35)
           (download_message received announced)
           (Some \<lparr>te_completedBytes = Some received, te_totalBytes = announced, te_completedBatches = None,
             te_totalBatches = None, te_phaseProgress = phaseProgress, te_rangeStart = 20, te_rangeEnd = 60\<rparr>))"

text \<open>The callbacks of the download: one per received amount, and none when the archive is cached or no
  body arrives. An announced size counts when it is positive.\<close>

definition download_events :: "restore_env \<Rightarrow> string \<Rightarrow> archive_cache \<Rightarrow> backup_event list" where
  "download_events env expected cache =
     (let cached = (case ac_archive cache of
            None \<Rightarrow> False
          | Some f \<Rightarrow> archiveStateMatchesFile f (ac_state cache) \<or> fst (verifyBlockchainBackupArchiveFile (re_sha256 env) f expected));
          shown = (\<lambda>announced. map (download_event announced) (re_received env))
      in if cached then []
         else (case re_download env of
             Broken _ _ announced \<Rightarrow> shown announced
           | Downloaded _ announced \<Rightarrow> shown announced
           | _ \<Rightarrow> []))"

definition extract_event :: "string \<times> nat \<times> nat \<Rightarrow> backup_event" where
  "extract_event p =
     (case p of (d, i, n) \<Rightarrow>
        backup_event_of BpExtract (min (65 + of_int \<lfloor>of_nat (i + 1) / of_nat (max n 1) * 14 + 1 / 2 :: rat\<rfloor>) 79)
          (''Extracting '' @ d @ '' ('' @ js_nat (i + 1) @ '' of '' @ js_nat n @ '')'') None)"

section \<open>Stages\<close>

definition prepare_stage :: "restore_env \<Rightarrow> (string \<Rightarrow> string \<Rightarrow> stage) \<Rightarrow> stage" where
  "prepare_stage env k s =
     (case re_notReady env of
        Some message \<Rightarrow> throws message s
      | None \<Rightarrow>
          (case normalizeBlockchainBackupArchiveUrl (re_parse_url env) (re_url env) of
             Inl message \<Rightarrow> throws message s
           | Inr backupUrl \<Rightarrow>
               (case blockchainBackupChecksumUrl (re_parse_url env) backupUrl of
                  Inl message \<Rightarrow> throws message s
                | Inr checksumUrl \<Rightarrow>
                    if \<not> vd_ok (re_validation env)
                    then give_up 0 (vd_output (re_validation env)) (vd_output (re_validation env)) s
                    else report BpPrepare 2 (''Preparing backup restore into '' @ re_baseDir env)
                      (report BpPrepare 6 (''Writable BASEDIR confirmed. Temporary restore workspace: '' @
                         vd_parent (re_validation env)) (k backupUrl checksumUrl)) s)))"

definition stop_stage :: "restore_env \<Rightarrow> stage \<Rightarrow> stage" where
  "stop_stage env k =
     report BpStop 8 ''Stopping node before restoring backup'' (\<lambda>s.
       case re_stop env (st_fs s) of
         (ok, output, fs1) \<Rightarrow>
           remark output (\<lambda>s.
             if \<not> ok
             then give_up 8 (js_or output ''No se pudo detener el nodo antes de restaurar el backup'')
                    ''No se pudo detener el nodo antes de restaurar el backup'' s
             else report BpPrepare 15 ''Preparing runtime configuration files'' (\<lambda>s.
               case re_config env (st_fs s) of (output2, fs2) \<Rightarrow> remark output2 k (s\<lparr>st_fs := fs2\<rparr>)) s)
           (s\<lparr>st_fs := fs1\<rparr>))"

definition checksum_stage ::
  "restore_env \<Rightarrow> string \<Rightarrow> string \<Rightarrow> (string \<Rightarrow> workspace_paths \<Rightarrow> string + (string list \<times> string) \<Rightarrow> stage) \<Rightarrow> stage" where
  "checksum_stage env backupUrl checksumUrl k =
     try_fs env (mkdir_all (loc (vd_parent (re_validation env))))
     (remark (''Restoring blockchain backup from '' @ backupUrl)
     (remark (''Backup workspace parent: '' @ vd_parent (re_validation env))
     (report BpChecksum 18 (''Fetching SHA-256 checksum from '' @ checksumUrl) (\<lambda>s.
       case blockchainBackupMetadataUrl (re_parse_url env) backupUrl of
         Inl message \<Rightarrow> throws message s
       | Inr metadataUrl \<Rightarrow>
           (case fetchBlockchainBackupChecksum (re_parse_url env) (re_checksum env) backupUrl of
              Inl message \<Rightarrow>
                give_up 18 (js_or message ''No se pudo obtener el checksum SHA-256 del backup blockchain'')
                  (js_or message ''No se pudo obtener el checksum SHA-256 del backup blockchain'') s
            | Inr (checksum, output) \<Rightarrow>
                let workspace = blockchainBackupWorkspacePaths (re_sha1 env) (vd_parent (re_validation env)) backupUrl checksum
                in remark output (try_fs env (mkdir_all (loc (ws_workspaceDir workspace)))
                     (remark (''Backup workspace: '' @ ws_workspaceDir workspace)
                       (k checksum workspace (fetchBlockchainBackupMetadata (re_metadata env) metadataUrl)))) s)))))"

definition archive_stage :: "restore_env \<Rightarrow> string \<Rightarrow> workspace_paths \<Rightarrow> (archive_file \<Rightarrow> stage) \<Rightarrow> stage" where
  "archive_stage env checksum workspace k =
     report BpDownload 20 (''Checking backup archive cache in '' @ ws_workspaceDir workspace) (\<lambda>s.
       let cache = st_cache s (ws_workspaceDir workspace);
           s1 = s\<lparr>st_events := st_events s @ download_events env checksum cache\<rparr>
       in case ensureBlockchainBackupArchiveCached (re_sha256 env) (re_download env) (ws_archivePath workspace) checksum cache of
            (ok, output, cache1) \<Rightarrow>
              let s2 = s1\<lparr>st_cache := (st_cache s1)(ws_workspaceDir workspace := cache1)\<rparr>
              in (case (ok, ac_archive cache1) of
                    (True, Some archive) \<Rightarrow>
                      report BpChecksum 64 ''SHA-256 checksum verified for backup archive'' (remark output (k archive)) s2
                  | _ \<Rightarrow> give_up 60 (js_or output ''No se pudo descargar el backup blockchain'')
                          (js_or output ''No se pudo descargar el backup blockchain'') s2))"

text \<open>A stored extraction state: its root, and its directories when it lists any.\<close>

definition stored_root :: "jsval option \<Rightarrow> string" where
  "stored_root v = (case v of None \<Rightarrow> [] | Some v \<Rightarrow> stringField (js_prop ''payloadRootRelativePath'' v))"

definition stored_directories :: "jsval option \<Rightarrow> string list option" where
  "stored_directories v = Option.bind v (\<lambda>v. json_strings (js_prop ''restoreDirectories'' v))"

definition root_stage :: "tar_listing \<Rightarrow> string \<Rightarrow> (string \<Rightarrow> stage) \<Rightarrow> stage" where
  "root_stage listing known k =
     (if known \<noteq> [] then k known
      else (case discoverBlockchainBackupPayloadRootInArchive listing of
          Inl message \<Rightarrow>
            give_up 64 (js_or message ''No se pudo localizar el payload del backup blockchain'')
              (js_or message ''No se pudo localizar el payload del backup blockchain'')
        | Inr (rootPath, output) \<Rightarrow> remark output (k rootPath)))"

definition directories_stage ::
  "tar_listing \<Rightarrow> string \<Rightarrow> string list option \<Rightarrow> string + (string list \<times> string) \<Rightarrow> (string list \<Rightarrow> stage) \<Rightarrow> stage" where
  "directories_stage listing rootPath stored metadata k =
     (let known = (case stored of Some ds \<Rightarrow> ds | None \<Rightarrow> (case metadata of Inr (ds, _) \<Rightarrow> ds | Inl _ \<Rightarrow> []))
      in if known \<noteq> []
         then (case metadata of Inr (_, output) \<Rightarrow> remark output (k known) | Inl _ \<Rightarrow> k known)
         else (case listBlockchainBackupPayloadDirectoriesFromArchive listing rootPath of
             Inl message \<Rightarrow>
               give_up 64 (js_or message ''No se pudieron listar los directorios del backup'')
                 (js_or message ''No se pudieron listar los directorios del backup'')
           | Inr (ds, output) \<Rightarrow>
               remark output
                 (case metadata of
                    Inl reason \<Rightarrow> remark (''Metadata unavailable, inspected archive directly. '' @ reason) (k ds)
                  | Inr _ \<Rightarrow> k ds)))"

definition extract_stage ::
  "restore_env \<Rightarrow> workspace_paths \<Rightarrow> string \<Rightarrow> string list \<Rightarrow> stage \<Rightarrow> stage" where
  "extract_stage env workspace rootPath ds k =
     report BpExtract 65 (''Preparing extracted backup directories in '' @ ws_extractDir workspace) (\<lambda>s.
       case extractBlockchainBackupDirectories (re_untar env) (re_now env) (ws_archivePath workspace)
           (ws_extractDir workspace) (ws_extractStatePath workspace) rootPath ds (st_fs s) of
         (result, shown, fs1) \<Rightarrow>
           let s1 = s\<lparr>st_fs := fs1, st_events := st_events s @ map extract_event shown\<rparr>
           in (case result of
                 ExtractOk output \<Rightarrow> remark output k s1
               | ExtractFailed output \<Rightarrow>
                   give_up 79 (js_or output ''No se pudo extraer el backup blockchain'')
                     (js_or output ''No se pudo descargar o extraer el backup'') s1
               | ExtractThrew \<Rightarrow> throws (re_fsError env) s1))"

definition install_stage :: "restore_env \<Rightarrow> workspace_paths \<Rightarrow> string \<Rightarrow> string list \<Rightarrow> stage \<Rightarrow> stage" where
  "install_stage env workspace rootPath ds k =
     report BpRestore 80 (''Restoring blockchain state into '' @ re_baseDir env) (\<lambda>s.
       let state = readJsonFile (st_fs s) (ws_extractStatePath workspace);
           candidate = blockchainBackupPayloadRootPath (ws_extractDir workspace)
             (if state = None then rootPath else stored_root state);
           found = (if fs_exists (st_fs s) candidate then Some candidate
             else findBlockchainBackupPayloadRoot (re_children env) (st_fs s) 4 (ws_extractDir workspace));
           missing = ''El backup no contiene los directorios esperados ('' @ js_join '', '' required_dirs @ '')''
       in case found of
            None \<Rightarrow> give_up 80 missing missing s
          | Some payloadRoot \<Rightarrow>
              (case restoreBlockchainBackupPayload (re_nowIso env) payloadRoot ds (re_baseDir env) (st_fs s) of
                 (RestoreError message, fs1) \<Rightarrow> throws message (s\<lparr>st_fs := fs1\<rparr>)
               | (RestoreCopyError, fs1) \<Rightarrow> throws (re_fsError env) (s\<lparr>st_fs := fs1\<rparr>)
               | (Restored restored, fs1) \<Rightarrow>
                   remark (''Restored blockchain state: '' @ js_join '', '' restored)
                     (remark (''Cleared runtime state: '' @ js_join '', '' reset_dirs) k) (s\<lparr>st_fs := fs1\<rparr>)))"

definition finish_stage :: "restore_env \<Rightarrow> bool \<Rightarrow> stage" where
  "finish_stage env completeOnSuccess =
     report BpRestore 90 ''Preparing BASEDIR runtime files'' (\<lambda>s.
       case re_runtime env (st_fs s) of
         (output, fs1) \<Rightarrow>
           remark output (report BpRestore 92 ''Enabling verify-blocks for safe re-sync...'' (\<lambda>s.
             case setConfigVerifyBlocks (re_yaml_set env) (re_baseDir env) True (st_fs s) of
               ((_, output2), fs2) \<Rightarrow>
                 remark output2 (\<lambda>s.
                   \<lparr>ro_ok = True, ro_output = noted (st_notes s),
                    ro_state = (if completeOnSuccess
                      then s\<lparr>st_events := st_events s @ [backup_event_of BpComplete 100
                        (''Backup restored into '' @ re_baseDir env @ ''. verify-blocks enabled for safe re-sync.'') None]\<rparr>
                      else s)\<rparr>) (s\<lparr>st_fs := fs2\<rparr>))) (s\<lparr>st_fs := fs1\<rparr>))"

definition telenoNodeRestoreBackup :: "restore_env \<Rightarrow> bool \<Rightarrow> stage" where
  "telenoNodeRestoreBackup env completeOnSuccess =
     prepare_stage env (\<lambda>backupUrl checksumUrl.
     stop_stage env
     (checksum_stage env backupUrl checksumUrl (\<lambda>checksum workspace metadata.
     archive_stage env checksum workspace (\<lambda>archive s.
       let state = readJsonFile (st_fs s) (ws_extractStatePath workspace); listing = re_listing env archive
       in root_stage listing (stored_root state) (\<lambda>rootPath.
          directories_stage listing rootPath (stored_directories state) metadata (\<lambda>ds.
          extract_stage env workspace rootPath ds
          (install_stage env workspace rootPath ds
          (finish_stage env completeOnSuccess)))) s))))"

section \<open>Runs in terms of assertions\<close>

text \<open>\<open>leads I Q k\<close>: started in a state with \<open>I\<close>, the stage \<open>k\<close> ends in an outcome with \<open>Q\<close>.\<close>

definition leads :: "(restore_state \<Rightarrow> bool) \<Rightarrow> (restore_outcome \<Rightarrow> bool) \<Rightarrow> stage \<Rightarrow> bool" where
  "leads I Q k \<longleftrightarrow> (\<forall>s. I s \<longrightarrow> Q (k s))"

definition early_phases :: "backup_phase list" where
  "early_phases = [BpPrepare, BpStop, BpDownload, BpChecksum, BpExtract]"

lemma leadsI: "(\<And>s. I s \<Longrightarrow> Q (k s)) \<Longrightarrow> leads I Q k"
  by (simp add: leads_def)

lemma leadsD: "leads I Q k \<Longrightarrow> I s \<Longrightarrow> Q (k s)"
  by (simp add: leads_def)

text \<open>An assertion that holds up to the installation: events of the phases before it and notes keep it, and
  giving up from it is acceptable.\<close>

locale restore_run =
  fixes I :: "restore_state \<Rightarrow> bool" and Q :: "restore_outcome \<Rightarrow> bool"
  assumes early: "I s \<Longrightarrow> ph \<in> set early_phases \<Longrightarrow>
      I (s\<lparr>st_events := st_events s @ [backup_event_of ph p m t]\<rparr>)"
    and noting: "I s \<Longrightarrow> I (s\<lparr>st_notes := ns\<rparr>)"
    and failed: "I s \<Longrightarrow> Q \<lparr>ro_ok = False, ro_output = out,
      ro_state = s\<lparr>st_events := st_events s @ [backup_event_of BpError p m None]\<rparr>\<rparr>"

text \<open>An assertion that holds during the installation too, whatever it does to the file system.\<close>

locale restore_install = restore_run +
  fixes completeOnSuccess :: bool
  assumes installing: "I s \<Longrightarrow> I (s\<lparr>st_events := st_events s @ [backup_event_of BpRestore p m None]\<rparr>)"
    and any_fs: "I s \<Longrightarrow> I (s\<lparr>st_fs := fs\<rparr>)"
    and finished: "I s \<Longrightarrow> Q \<lparr>ro_ok = True, ro_output = out,
      ro_state = (if completeOnSuccess
        then s\<lparr>st_events := st_events s @ [backup_event_of BpComplete 100 m None]\<rparr> else s)\<rparr>"

context restore_run begin

lemma give_up_leads: "leads I Q (give_up p m t)"
  by (simp add: leads_def give_up_def failed)

lemma throws_leads: "leads I Q (throws m)"
  by (simp add: throws_def give_up_leads)

lemma remark_leads: "leads I Q k \<Longrightarrow> leads I Q (remark t k)"
  by (simp add: leads_def remark_def noting)

lemma report_leads: "leads I Q k \<Longrightarrow> ph \<in> set early_phases \<Longrightarrow> leads I Q (report ph p m k)"
  by (simp add: leads_def report_def early)

lemma try_fs_leads:
  assumes "leads I Q k" "\<And>s fs. I s \<Longrightarrow> f (st_fs s) = Some fs \<Longrightarrow> I (s\<lparr>st_fs := fs\<rparr>)"
  shows "leads I Q (try_fs env f k)"
  using assms leadsD [OF throws_leads] by (auto simp: leads_def try_fs_def split: option.splits)

lemma early_events:
  "I s \<Longrightarrow> \<forall>e \<in> set es. \<exists>ph p m t. ph \<in> set early_phases \<and> e = backup_event_of ph p m t \<Longrightarrow>
   I (s\<lparr>st_events := st_events s @ es\<rparr>)"
proof (induction es arbitrary: s)
  case (Cons e es)
  then have "I (s\<lparr>st_events := st_events s @ [e]\<rparr>)" using early by auto
  from Cons.IH [OF this] Cons.prems show ?case by simp
qed simp

lemma prepare_leads:
  assumes "\<And>u v. normalizeBlockchainBackupArchiveUrl (re_parse_url env) (re_url env) = Inr u \<Longrightarrow> leads I Q (k u v)"
  shows "leads I Q (prepare_stage env k)"
proof -
  have k: "leads I Q (report BpPrepare 2 a (report BpPrepare 6 b (k u v)))"
    if "normalizeBlockchainBackupArchiveUrl (re_parse_url env) (re_url env) = Inr u" for a b u v
    using assms [OF that] by (simp add: report_leads early_phases_def)
  show ?thesis
    by (rule leadsI) (simp add: prepare_stage_def leadsD [OF throws_leads] leadsD [OF give_up_leads]
        leadsD [OF k] split: option.split sum.split)
qed

lemma stop_leads:
  assumes "leads I Q k"
    and "\<And>s. I s \<Longrightarrow> I (s\<lparr>st_fs := snd (snd (re_stop env (st_fs s)))\<rparr>)"
    and "\<And>s. I s \<Longrightarrow> I (s\<lparr>st_fs := snd (re_config env (st_fs s))\<rparr>)"
  shows "leads I Q (stop_stage env k)"
proof -
  have config: "leads I Q (\<lambda>s. case re_config env (st_fs s) of (output2, fs2) \<Rightarrow> remark output2 k (s\<lparr>st_fs := fs2\<rparr>))"
    using leadsD [OF remark_leads [OF assms(1)]] assms(3) by (auto simp: leads_def split: prod.split) (metis snd_conv)
  show ?thesis
    unfolding stop_stage_def
  proof (intro report_leads leadsI)
    fix s assume "I s"
    obtain ok out fs1 where stop: "re_stop env (st_fs s) = (ok, out, fs1)" by (metis prod_cases3)
    then have "I (s\<lparr>st_fs := fs1\<rparr>)" using assms(2) [OF \<open>I s\<close>] by simp
    moreover have "leads I Q (remark out (\<lambda>s.
        if \<not> ok then give_up 8 a b s else report BpPrepare 15 m (\<lambda>s.
          case re_config env (st_fs s) of (output2, fs2) \<Rightarrow> remark output2 k (s\<lparr>st_fs := fs2\<rparr>)) s))" for a b m
      using remark_leads [OF give_up_leads] remark_leads [OF report_leads [OF config]]
      by (cases ok) (simp_all add: early_phases_def)
    ultimately show "Q (case re_stop env (st_fs s) of (ok, output, fs1) \<Rightarrow> remark output (\<lambda>s.
        if \<not> ok then give_up 8 (js_or output ''No se pudo detener el nodo antes de restaurar el backup'')
          ''No se pudo detener el nodo antes de restaurar el backup'' s
        else report BpPrepare 15 ''Preparing runtime configuration files'' (\<lambda>s.
          case re_config env (st_fs s) of (output2, fs2) \<Rightarrow> remark output2 k (s\<lparr>st_fs := fs2\<rparr>)) s)
        (s\<lparr>st_fs := fs1\<rparr>))"
      by (simp only: stop prod.case) (rule leadsD)
  qed (simp add: early_phases_def)
qed

lemma checksum_leads:
  assumes k: "\<And>checksum out metadata. fetchBlockchainBackupChecksum (re_parse_url env) (re_checksum env) u = Inr (checksum, out) \<Longrightarrow>
      leads I Q (k checksum (blockchainBackupWorkspacePaths (re_sha1 env) (vd_parent (re_validation env)) u checksum)
        (fetchBlockchainBackupMetadata (re_metadata env) metadata))"
    and fs1: "\<And>s fs. I s \<Longrightarrow> mkdir_all (loc (vd_parent (re_validation env))) (st_fs s) = Some fs \<Longrightarrow> I (s\<lparr>st_fs := fs\<rparr>)"
    and fs2: "\<And>s fs checksum out. fetchBlockchainBackupChecksum (re_parse_url env) (re_checksum env) u = Inr (checksum, out) \<Longrightarrow>
      I s \<Longrightarrow> mkdir_all (loc (ws_workspaceDir (blockchainBackupWorkspacePaths (re_sha1 env) (vd_parent (re_validation env)) u checksum)))
        (st_fs s) = Some fs \<Longrightarrow> I (s\<lparr>st_fs := fs\<rparr>)"
  shows "leads I Q (checksum_stage env u v k)"
proof -
  let ?w = "blockchainBackupWorkspacePaths (re_sha1 env) (vd_parent (re_validation env)) u"
  have step: "leads I Q (remark out (try_fs env (mkdir_all (loc (ws_workspaceDir (?w checksum))))
      (remark nt (k checksum (?w checksum) (fetchBlockchainBackupMetadata (re_metadata env) metadata)))))"
    if "fetchBlockchainBackupChecksum (re_parse_url env) (re_checksum env) u = Inr (checksum, out)"
    for checksum out nt metadata
    using k [OF that] fs2 [OF that] by (intro remark_leads try_fs_leads) simp_all
  show ?thesis
    unfolding checksum_stage_def
    by (intro try_fs_leads remark_leads report_leads leadsI)
      (auto simp: early_phases_def Let_def leadsD [OF throws_leads] leadsD [OF give_up_leads] leadsD [OF step] fs1
        split: sum.split)
qed

lemma archive_leads:
  assumes next_run: "restore_run I' Q"
    and k: "\<And>archive. leads I' Q (k archive)"
    and cached: "\<And>s archive out cache. I s \<Longrightarrow> ensureBlockchainBackupArchiveCached (re_sha256 env) (re_download env)
        (ws_archivePath w) checksum (st_cache s (ws_workspaceDir w)) = (True, out, cache) \<Longrightarrow>
      ac_archive cache = Some archive \<Longrightarrow> I' (s\<lparr>st_cache := (st_cache s)(ws_workspaceDir w := cache)\<rparr>)"
    and not_cached: "\<And>s ok out cache. I s \<Longrightarrow> ensureBlockchainBackupArchiveCached (re_sha256 env) (re_download env)
        (ws_archivePath w) checksum (st_cache s (ws_workspaceDir w)) = (ok, out, cache) \<Longrightarrow>
      I (s\<lparr>st_cache := (st_cache s)(ws_workspaceDir w := cache)\<rparr>)"
  shows "leads I Q (archive_stage env checksum w k)"
  unfolding archive_stage_def
proof (intro report_leads leadsI)
  fix s assume "I s"
  let ?cache = "st_cache s (ws_workspaceDir w)"
  let ?s1 = "s\<lparr>st_events := st_events s @ download_events env checksum ?cache\<rparr>"
  obtain ok out cache where e: "ensureBlockchainBackupArchiveCached (re_sha256 env) (re_download env)
      (ws_archivePath w) checksum ?cache = (ok, out, cache)" by (metis prod_cases3)
  have "\<forall>e \<in> set (download_events env checksum ?cache).
      \<exists>ph p m t. ph \<in> set early_phases \<and> e = backup_event_of ph p m t"
    by (auto simp: download_events_def download_event_def early_phases_def Let_def split: download.splits if_splits)
  then have I: "I ?s1" using \<open>I s\<close> by (rule early_events [rotated])
  let ?s2 = "?s1\<lparr>st_cache := (st_cache ?s1)(ws_workspaceDir w := cache)\<rparr>"
  have lost: "Q (give_up 60 a b ?s2)" for a b
    using not_cached [OF I] e leadsD [OF give_up_leads] by simp
  have kept: "Q (report BpChecksum 64 m (remark out (k archive)) ?s2)" if "ok" "ac_archive cache = Some archive" for archive m
    using cached [OF I] e that restore_run.report_leads [OF next_run] restore_run.remark_leads [OF next_run k]
    by (simp add: leads_def early_phases_def)
  show "Q (let cache = st_cache s (ws_workspaceDir w);
           s1 = s\<lparr>st_events := st_events s @ download_events env checksum cache\<rparr>
       in case ensureBlockchainBackupArchiveCached (re_sha256 env) (re_download env) (ws_archivePath w) checksum cache of
            (ok, output, cache1) \<Rightarrow>
              let s2 = s1\<lparr>st_cache := (st_cache s1)(ws_workspaceDir w := cache1)\<rparr>
              in (case (ok, ac_archive cache1) of
                    (True, Some archive) \<Rightarrow>
                      report BpChecksum 64 ''SHA-256 checksum verified for backup archive'' (remark output (k archive)) s2
                  | _ \<Rightarrow> give_up 60 (js_or output ''No se pudo descargar el backup blockchain'')
                          (js_or output ''No se pudo descargar el backup blockchain'') s2))"
    unfolding Let_def e prod.case
    using lost kept by (cases ok; cases "ac_archive cache") simp_all
qed (simp add: early_phases_def)

lemma root_leads:
  assumes "\<And>r. r = known \<and> r \<noteq> [] \<or> (\<exists>out. discoverBlockchainBackupPayloadRootInArchive listing = Inr (r, out)) \<Longrightarrow> leads I Q (k r)"
  shows "leads I Q (root_stage listing known k)"
  using assms
  by (auto simp: root_stage_def give_up_leads intro!: remark_leads split: sum.split)

lemma directories_leads:
  assumes "\<And>ds. ds \<noteq> [] \<Longrightarrow> stored = Some ds \<or> (\<exists>out. metadata = Inr (ds, out)) \<Longrightarrow> leads I Q (k ds)"
    and "\<And>ds out. listBlockchainBackupPayloadDirectoriesFromArchive listing rootPath = Inr (ds, out) \<Longrightarrow> leads I Q (k ds)"
  shows "leads I Q (directories_stage listing rootPath stored metadata k)"
  using assms
  by (cases stored; cases metadata)
    (auto simp: directories_stage_def Let_def give_up_leads intro!: remark_leads split: sum.split)

lemma extract_leads:
  assumes next_run: "restore_run I' Q" and k: "leads I' Q k"
    and fs: "\<And>s. I s \<Longrightarrow> I' (s\<lparr>st_fs := snd (snd (extractBlockchainBackupDirectories (re_untar env) (re_now env)
        (ws_archivePath w) (ws_extractDir w) (ws_extractStatePath w) rootPath ds (st_fs s)))\<rparr>)"
  shows "leads I Q (extract_stage env w rootPath ds k)"
  unfolding extract_stage_def
proof (intro report_leads leadsI)
  fix s assume "I s"
  obtain result shown fs1 where run: "extractBlockchainBackupDirectories (re_untar env) (re_now env)
        (ws_archivePath w) (ws_extractDir w) (ws_extractStatePath w) rootPath ds (st_fs s) = (result, shown, fs1)"
    by (metis prod_cases3)
  let ?s1 = "s\<lparr>st_fs := fs1, st_events := st_events s @ map extract_event shown\<rparr>"
  have "I' (s\<lparr>st_fs := fs1\<rparr>)" using fs [OF \<open>I s\<close>] run by simp
  moreover have "\<forall>e \<in> set (map extract_event shown). \<exists>ph p m t. ph \<in> set early_phases \<and> e = backup_event_of ph p m t"
    by (auto simp: extract_event_def early_phases_def)
  ultimately have I': "I' ?s1" using restore_run.early_events [OF next_run] by fastforce
  show "Q (case extractBlockchainBackupDirectories (re_untar env) (re_now env) (ws_archivePath w)
           (ws_extractDir w) (ws_extractStatePath w) rootPath ds (st_fs s) of
         (result, shown, fs1) \<Rightarrow>
           let s1 = s\<lparr>st_fs := fs1, st_events := st_events s @ map extract_event shown\<rparr>
           in (case result of
                 ExtractOk output \<Rightarrow> remark output k s1
               | ExtractFailed output \<Rightarrow>
                   give_up 79 (js_or output ''No se pudo extraer el backup blockchain'')
                     (js_or output ''No se pudo descargar o extraer el backup'') s1
               | ExtractThrew \<Rightarrow> throws (re_fsError env) s1))"
    unfolding Let_def run prod.case
    using leadsD [OF restore_run.remark_leads [OF next_run k] I'] leadsD [OF restore_run.give_up_leads [OF next_run] I']
      leadsD [OF restore_run.throws_leads [OF next_run] I']
    by (cases result) simp_all
qed (simp add: early_phases_def)

end

context restore_install begin

lemma restoring_leads: "leads I Q k \<Longrightarrow> leads I Q (report BpRestore p m k)"
  by (simp add: leads_def report_def installing)

lemma finish_leads: "leads I Q (finish_stage env completeOnSuccess)"
  unfolding finish_stage_def
proof (intro restoring_leads leadsI)
  fix s assume "I s"
  let ?set = "\<lambda>s. setConfigVerifyBlocks (re_yaml_set env) (re_baseDir env) True (st_fs s)"
  let ?final = "\<lambda>s. \<lparr>ro_ok = True, ro_output = noted (st_notes s),
      ro_state = (if completeOnSuccess
        then s\<lparr>st_events := st_events s @ [backup_event_of BpComplete 100
          (''Backup restored into '' @ re_baseDir env @ ''. verify-blocks enabled for safe re-sync.'') None]\<rparr>
        else s)\<rparr>"
  have "leads I Q ?final" by (rule leadsI) (rule finished)
  then have "leads I Q (\<lambda>s. case ?set s of ((ok, output2), fs2) \<Rightarrow> remark output2 ?final (s\<lparr>st_fs := fs2\<rparr>))"
    using leadsD [OF remark_leads] by (auto simp: leads_def any_fs split: prod.split)
  then have "leads I Q (remark out (report BpRestore 92 m (\<lambda>s. case ?set s of
      ((ok, output2), fs2) \<Rightarrow> remark output2 ?final (s\<lparr>st_fs := fs2\<rparr>))))" for out m
    by (intro remark_leads restoring_leads)
  from leadsD [OF this any_fs [OF \<open>I s\<close>]]
  show "Q (case re_runtime env (st_fs s) of (output, fs1) \<Rightarrow>
      remark output (report BpRestore 92 ''Enabling verify-blocks for safe re-sync...'' (\<lambda>s. case ?set s of
        ((ok, output2), fs2) \<Rightarrow> remark output2 ?final (s\<lparr>st_fs := fs2\<rparr>))) (s\<lparr>st_fs := fs1\<rparr>))"
    by (simp only: split_beta)
qed

lemma install_leads:
  assumes "I (s\<lparr>st_events := st_events s @ [backup_event_of BpRestore 80 (''Restoring blockchain state into '' @ re_baseDir env) None]\<rparr>)"
  shows "Q (install_stage env w rootPath ds (finish_stage env completeOnSuccess) s)"
proof -
  have last_part: "leads I Q (remark a (remark b (finish_stage env completeOnSuccess)))" for a b
    by (intro remark_leads finish_leads)
  show ?thesis
    using assms
    by (auto simp: install_stage_def report_def Let_def leadsD [OF give_up_leads] leadsD [OF throws_leads]
        leadsD [OF last_part] any_fs split: option.split prod.split restore_result.split)
qed

end

text \<open>The whole operation, from assertions on its start (\<open>I\<close>), on the time after the archive was verified
  (\<open>I'\<close>), on the time after the extraction (\<open>I''\<close>) and on the installation (\<open>J\<close>).\<close>

lemma restore_leads:
  fixes env :: restore_env
  defines "w \<equiv> blockchainBackupWorkspacePaths (re_sha1 env) (vd_parent (re_validation env))"
  assumes I: "restore_run I Q" and I': "restore_run I' Q" and I'': "restore_run I'' Q"
    and J: "restore_install J Q completeOnSuccess"
    and stop: "\<And>s. I s \<Longrightarrow> I (s\<lparr>st_fs := snd (snd (re_stop env (st_fs s)))\<rparr>)"
    and config: "\<And>s. I s \<Longrightarrow> I (s\<lparr>st_fs := snd (re_config env (st_fs s))\<rparr>)"
    and fs1: "\<And>s fs. I s \<Longrightarrow> mkdir_all (loc (vd_parent (re_validation env))) (st_fs s) = Some fs \<Longrightarrow> I (s\<lparr>st_fs := fs\<rparr>)"
    and fs2: "\<And>u out checksum s fs. normalizeBlockchainBackupArchiveUrl (re_parse_url env) (re_url env) = Inr u \<Longrightarrow>
      fetchBlockchainBackupChecksum (re_parse_url env) (re_checksum env) u = Inr (checksum, out) \<Longrightarrow>
      I s \<Longrightarrow> mkdir_all (loc (ws_workspaceDir (w u checksum))) (st_fs s) = Some fs \<Longrightarrow> I (s\<lparr>st_fs := fs\<rparr>)"
    and cached: "\<And>u out checksum s note cache. normalizeBlockchainBackupArchiveUrl (re_parse_url env) (re_url env) = Inr u \<Longrightarrow>
      fetchBlockchainBackupChecksum (re_parse_url env) (re_checksum env) u = Inr (checksum, out) \<Longrightarrow> I s \<Longrightarrow>
      ensureBlockchainBackupArchiveCached (re_sha256 env) (re_download env) (ws_archivePath (w u checksum)) checksum
        (st_cache s (ws_workspaceDir (w u checksum))) = (True, note, cache) \<Longrightarrow>
      I' (s\<lparr>st_cache := (st_cache s)(ws_workspaceDir (w u checksum) := cache)\<rparr>)"
    and not_cached: "\<And>u out checksum s ok note cache. normalizeBlockchainBackupArchiveUrl (re_parse_url env) (re_url env) = Inr u \<Longrightarrow>
      fetchBlockchainBackupChecksum (re_parse_url env) (re_checksum env) u = Inr (checksum, out) \<Longrightarrow> I s \<Longrightarrow>
      ensureBlockchainBackupArchiveCached (re_sha256 env) (re_download env) (ws_archivePath (w u checksum)) checksum
        (st_cache s (ws_workspaceDir (w u checksum))) = (ok, note, cache) \<Longrightarrow>
      I (s\<lparr>st_cache := (st_cache s)(ws_workspaceDir (w u checksum) := cache)\<rparr>)"
    and extraction: "\<And>u out checksum s s' archive r ds. normalizeBlockchainBackupArchiveUrl (re_parse_url env) (re_url env) = Inr u \<Longrightarrow>
      fetchBlockchainBackupChecksum (re_parse_url env) (re_checksum env) u = Inr (checksum, out) \<Longrightarrow> I' s \<Longrightarrow> I' s' \<Longrightarrow>
      r = stored_root (readJsonFile (st_fs s) (ws_extractStatePath (w u checksum))) \<or>
        (\<exists>m. discoverBlockchainBackupPayloadRootInArchive (re_listing env archive) = Inr (r, m)) \<Longrightarrow>
      stored_directories (readJsonFile (st_fs s) (ws_extractStatePath (w u checksum))) = Some ds \<or>
        (\<exists>metadataUrl m. fetchBlockchainBackupMetadata (re_metadata env) metadataUrl = Inr (ds, m)) \<or>
        (\<exists>m. listBlockchainBackupPayloadDirectoriesFromArchive (re_listing env archive) r = Inr (ds, m)) \<Longrightarrow>
      I'' (s'\<lparr>st_fs := snd (snd (extractBlockchainBackupDirectories (re_untar env) (re_now env)
        (ws_archivePath (w u checksum)) (ws_extractDir (w u checksum)) (ws_extractStatePath (w u checksum)) r ds (st_fs s')))\<rparr>)"
    and install: "\<And>s. I'' s \<Longrightarrow> J (s\<lparr>st_events := st_events s @
      [backup_event_of BpRestore 80 (''Restoring blockchain state into '' @ re_baseDir env) None]\<rparr>)"
  shows "leads I Q (telenoNodeRestoreBackup env completeOnSuccess)"
  unfolding telenoNodeRestoreBackup_def
proof (intro restore_run.prepare_leads [OF I] restore_run.stop_leads [OF I] restore_run.checksum_leads [OF I], goal_cases)
  case (1 u v checksum out metadataUrl)
  let ?w = "w u checksum"
  let ?state = "\<lambda>s. readJsonFile (st_fs s) (ws_extractStatePath ?w)"
  let ?metadata = "fetchBlockchainBackupMetadata (re_metadata env) metadataUrl"
  have last_part: "leads I'' Q (install_stage env ?w r ds (finish_stage env completeOnSuccess))" for r ds
    using restore_install.install_leads [OF J] install by (auto intro!: leadsI)
  have "leads I' Q (\<lambda>s. root_stage (re_listing env archive) (stored_root (?state s)) (\<lambda>r.
      directories_stage (re_listing env archive) r (stored_directories (?state s)) ?metadata (\<lambda>ds.
      extract_stage env ?w r ds (install_stage env ?w r ds (finish_stage env completeOnSuccess)))) s)" for archive
  proof (rule leadsI)
    fix s assume s: "I' s"
    have "leads I' Q (root_stage (re_listing env archive) (stored_root (?state s)) (\<lambda>r.
      directories_stage (re_listing env archive) r (stored_directories (?state s)) ?metadata (\<lambda>ds.
      extract_stage env ?w r ds (install_stage env ?w r ds (finish_stage env completeOnSuccess)))))"
      by (intro restore_run.root_leads [OF I'] restore_run.directories_leads [OF I']
          restore_run.extract_leads [OF I' I''] last_part) (rule extraction [OF 1 s], assumption, blast, blast)+
    then show "Q (root_stage (re_listing env archive) (stored_root (?state s)) (\<lambda>r.
      directories_stage (re_listing env archive) r (stored_directories (?state s)) ?metadata (\<lambda>ds.
      extract_stage env ?w r ds (install_stage env ?w r ds (finish_stage env completeOnSuccess)))) s)"
      using s by (rule leadsD)
  qed
  then show ?case
    unfolding w_def [symmetric] Let_def
    using cached [OF 1] not_cached [OF 1]
    by (intro restore_run.archive_leads [OF I I']) blast+
qed (use stop config fs1 fs2 in \<open>simp_all add: w_def\<close>)

section \<open>Properties\<close>

definition fair_event :: "backup_event \<Rightarrow> bool" where
  "fair_event e \<longleftrightarrow> 0 \<le> ev_progress e \<and> ev_progress e \<le> 100"

definition running :: "backup_event list \<Rightarrow> restore_state \<Rightarrow> bool" where
  "running before s \<longleftrightarrow> (\<exists>es. st_events s = before @ es \<and>
     list_all (\<lambda>e. fair_event e \<and> ev_phase e \<notin> set terminal_backup_phases) es)"

definition reported :: "backup_event list \<Rightarrow> bool \<Rightarrow> restore_outcome \<Rightarrow> bool" where
  "reported before c r \<longleftrightarrow> (\<exists>es ends. st_events (ro_state r) = before @ es @ ends \<and>
     list_all fair_event (es @ ends) \<and> list_all (\<lambda>e. ev_phase e \<notin> set terminal_backup_phases) es \<and>
     map ev_phase ends = (if \<not> ro_ok r then [BpError] else if c then [BpComplete] else []))"

lemma fair_event_of [simp]: "fair_event (backup_event_of ph p m t)"
  using progress_value_range by (simp add: fair_event_def backup_event_of_def)

lemma phase_event_of [simp]: "ev_phase (backup_event_of ph p m t) = ph"
  by (simp add: backup_event_of_def)

lemma running_event: "running before s \<Longrightarrow> ph \<notin> set terminal_backup_phases \<Longrightarrow>
    running before (s\<lparr>st_events := st_events s @ [backup_event_of ph p m t]\<rparr>)"
  unfolding running_def by (fastforce simp: list_all_iff)

lemma running_ends:
  assumes "running before s" "map ev_phase ends = (if \<not> ok then [BpError] else if c then [BpComplete] else [])" "list_all fair_event ends"
  shows "reported before c \<lparr>ro_ok = ok, ro_output = out, ro_state = s\<lparr>st_events := st_events s @ ends\<rparr>\<rparr>"
  using assms unfolding running_def reported_def by (fastforce simp: list_all_iff)

interpretation events_run: restore_install "running before" "reported before c" c for before c
proof (unfold_locales, goal_cases)
  case (2 s ns)
  then show ?case by (simp add: running_def)
next
  case (3 s out p m)
  then show ?case by (rule running_ends) simp_all
next
  case (5 s fs)
  then show ?case by (simp add: running_def)
next
  case (6 s out m)
  then show ?case
    using running_ends [of before s "[backup_event_of BpComplete 100 m None]" True c]
      running_ends [of before s "[]" True c] by (cases c) simp_all
qed (auto intro!: running_event simp: early_phases_def terminal_backup_phases_def)


text \<open>Every restore ends with exactly one final event, and it is the last one: an error event when it
  failed, and when it succeeded the completion event, unless the caller goes on itself. Every progress
  value sent lies between 0 and 100.\<close>

theorem restore_reports_once:
  "\<exists>es ends. st_events (ro_state (telenoNodeRestoreBackup env completeOnSuccess s)) = st_events s @ es @ ends \<and>
     list_all (\<lambda>e. 0 \<le> ev_progress e \<and> ev_progress e \<le> 100) (es @ ends) \<and>
     list_all (\<lambda>e. ev_phase e \<notin> set terminal_backup_phases) es \<and>
     map ev_phase ends = (if \<not> ro_ok (telenoNodeRestoreBackup env completeOnSuccess s) then [BpError]
       else if completeOnSuccess then [BpComplete] else [])"
proof -
  let ?I = "running (st_events s)"
  have keep: "?I t \<Longrightarrow> ?I (t\<lparr>st_fs := fs\<rparr>)" "?I t \<Longrightarrow> ?I (t\<lparr>st_cache := ch\<rparr>)" for t fs ch
    by (simp_all add: running_def)
  have "leads ?I (reported (st_events s) completeOnSuccess) (telenoNodeRestoreBackup env completeOnSuccess)"
    by (rule restore_leads [OF events_run.restore_run_axioms events_run.restore_run_axioms events_run.restore_run_axioms
          events_run.restore_install_axioms])
      (auto intro: keep events_run.installing)
  moreover have "?I s" by (simp add: running_def)
  ultimately have "reported (st_events s) completeOnSuccess (telenoNodeRestoreBackup env completeOnSuccess s)"
    by (rule leadsD)
  then show ?thesis by (simp only: reported_def fair_event_def [abs_def])
qed

section \<open>Names that stay below a directory\<close>

definition harmless :: "string \<Rightarrow> bool" where
  "harmless d \<longleftrightarrow> CHR ''/'' \<notin> set d \<and> d \<notin> {''.'', ''..''} \<and> js_trim d \<notin> {''.'', ''..''}"

lemma harmless_unique: "list_all harmless ds \<Longrightarrow> list_all plain_name (uniqueStringList ds)"
  using set_js_trim by (auto simp: harmless_def plain_name_def uniqueStringList_def list_all_iff)

lemma harmless_plain: "list_all harmless ds \<Longrightarrow> \<forall>d \<in> set ds. d \<noteq> [] \<Longrightarrow> list_all plain_name ds"
  by (auto simp: harmless_def plain_name_def list_all_iff)

lemma segments_slash: "path_segments (a @ CHR ''/'' # b) = path_segments a @ path_segments b"
  using js_split_slash [of a b] by (simp add: path_segments_def)

lemma segments_nonempty: "d \<in> set (path_segments p) \<Longrightarrow> d \<noteq> []"
  by (simp add: path_segments_def)

lemma segments_drop_slashes: "path_segments (drop_slashes p) = path_segments p"
proof -
  have slashes: "path_segments (replicate n (CHR ''/'')) = []" for n
    using segments_slash [of "[]"] by (induction n) (simp_all add: path_segments_def)
  have append: "path_segments (p @ replicate n (CHR ''/'')) = path_segments p" for n p
    by (cases n) (simp_all add: segments_slash slashes)
  have "takeWhile (\<lambda>c. c = CHR ''/'') (rev p) = replicate (length (takeWhile (\<lambda>c. c = CHR ''/'') (rev p))) (CHR ''/'')"
    by (rule replicate_length_same [symmetric]) (auto dest: set_takeWhileD)
  then obtain n where "takeWhile (\<lambda>c. c = CHR ''/'') (rev p) = replicate n (CHR ''/'')" ..
  moreover have "rev (rev p) = rev (takeWhile (\<lambda>c. c = CHR ''/'') (rev p) @ dropWhile (\<lambda>c. c = CHR ''/'') (rev p))"
    by (simp only: takeWhile_dropWhile_id)
  ultimately have "p = drop_slashes p @ replicate n (CHR ''/'')"
    by (simp only: rev_append rev_rev_ident rev_replicate drop_slashes_def)
  then show ?thesis using append by metis
qed

definition harmless_listing :: "tar_listing \<Rightarrow> bool" where
  "harmless_listing listing \<longleftrightarrow>
     list_all (\<lambda>e. list_all harmless (path_segments (normalizeTarEntryPath e))) (tl_entries listing)"

lemma first_root_SomeD: "first_root es = Some r \<Longrightarrow> \<exists>e \<in> set es. entry_root e = Some r"
  by (induction es) (auto split: option.splits)

lemma discovered_root:
  assumes "harmless_listing listing" "discoverBlockchainBackupPayloadRootInArchive listing = Inr (r, out)"
  shows "list_all plain_name (path_segments r)"
proof -
  from assms(2) have "first_root (tl_entries listing) = Some r"
    by (auto simp: discoverBlockchainBackupPayloadRootInArchive_def split: option.splits if_splits)
  from first_root_SomeD [OF this] obtain e i where e: "e \<in> set (tl_entries listing)"
    and r: "r = js_join ''/'' (take i (path_segments (normalizeTarEntryPath e)))"
    by (auto simp: entry_root_def segments_drop_slashes Let_def)
  have "list_all plain_name (path_segments (normalizeTarEntryPath e))"
    using assms(1) e segments_nonempty by (intro harmless_plain) (auto simp: harmless_listing_def list_all_iff)
  then have plain: "list_all plain_name (take i (path_segments (normalizeTarEntryPath e)))"
    by (auto simp: list_all_iff dest: in_set_takeD)
  show ?thesis
  proof (cases "take i (path_segments (normalizeTarEntryPath e)) = []")
    case False
    have "path_segments r = filter (\<lambda>s. s \<noteq> []) (take i (path_segments (normalizeTarEntryPath e)))"
      using js_split_join [OF plain False] by (simp add: r path_segments_def [of "js_join _ _"])
    with plain show ?thesis by (auto simp: list_all_iff)
  next
    case True
    then have "r = []" by (simp only: r) simp
    then show ?thesis by (simp add: path_segments_def)
  qed
qed

lemma listed_directories:
  assumes "harmless_listing listing" "listBlockchainBackupPayloadDirectoriesFromArchive listing rootPath = Inr (ds, out)"
  shows "list_all harmless ds"
proof -
  have entry: "harmless d" if d: "entry_directory n e = Some d" and e: "list_all harmless (path_segments (normalizeTarEntryPath e))" for n e d
  proof -
    let ?e = "drop_slashes (normalizeTarEntryPath e)"
    have e': "list_all harmless (path_segments ?e)" using e by (simp add: segments_drop_slashes)
    from d obtain rel where rel: "rel = ?e \<or> (\<exists>a. ?e = a @ CHR ''/'' # rel)" and hd: "d = hd (path_segments rel)" "path_segments rel \<noteq> []"
      by (auto simp: entry_directory_def Let_def js_starts_with_def prefix_def split: if_splits)
    then have "set (path_segments rel) \<subseteq> set (path_segments ?e)" by (auto simp: segments_slash)
    with e' hd show ?thesis by (metis hd_in_set list_all_iff subsetD)
  qed
  from assms(2) have "set ds = set (List.map_filter (entry_directory (drop_slashes (normalizeTarEntryPath rootPath))) (tl_entries listing))"
    by (auto simp: listBlockchainBackupPayloadDirectoriesFromArchive_def Let_def split: if_splits)
  with assms(1) entry show ?thesis
    by (fastforce simp: list_all_iff harmless_listing_def map_filter_def)
qed

section \<open>The data until the archive is verified\<close>

definition installing_begun :: "restore_state \<Rightarrow> bool" where
  "installing_begun s \<longleftrightarrow> BpRestore \<in> set (map ev_phase (st_events s))"

definition verified_archive :: "restore_env \<Rightarrow> workspace_paths \<Rightarrow> string \<Rightarrow> restore_state \<Rightarrow> bool" where
  "verified_archive env w checksum s \<longleftrightarrow>
     (\<exists>f. ac_archive (st_cache s (ws_workspaceDir w)) = Some f \<and> re_sha256 env (af_content f) = checksum)"

text \<open>The names a restore may meet: in the stored extraction state, in any published directory list, and in
  any listing of the archive.\<close>

definition harmless_sources :: "restore_env \<Rightarrow> workspace_paths \<Rightarrow> fs \<Rightarrow> bool" where
  "harmless_sources env w fs \<longleftrightarrow>
     list_all plain_name (path_segments (stored_root (readJsonFile fs (ws_extractStatePath w)))) \<and>
     pred_option (list_all harmless) (stored_directories (readJsonFile fs (ws_extractStatePath w))) \<and>
     (\<forall>u ds out. fetchBlockchainBackupMetadata (re_metadata env) u = Inr (ds, out) \<longrightarrow> list_all harmless ds) \<and>
     (\<forall>archive. harmless_listing (re_listing env archive))"

lemma workspace_locations:
  assumes "is_absolute parent" "plain_name (take 12 (sha1 u) @ ''-'' @ take 12 checksum)"
  defines "w \<equiv> blockchainBackupWorkspacePaths sha1 parent u checksum"
  shows "loc (ws_workspaceDir w) = loc parent @ [backup_cache_dir, take 12 (sha1 u) @ ''-'' @ take 12 checksum]"
    and "loc (ws_extractDir w) = loc (ws_workspaceDir w) @ [''extract'']" "is_absolute (ws_extractDir w)"
    and "loc (ws_extractStatePath w) = loc (ws_workspaceDir w) @ [''extract-state.json'']"
proof -
  let ?key = "take 12 (sha1 u) @ ''-'' @ take 12 checksum"
  have names: "js_split (CHR ''/'') backup_cache_dir = [backup_cache_dir]" "plain_name backup_cache_dir"
    "plain_name ''extract''" "plain_name ''extract-state.json''" by code_simp+
  show dir: "loc (ws_workspaceDir w) = loc parent @ [backup_cache_dir, ?key]"
    using split_plain [OF assms(2)] assms(1,2) names
    by (simp add: w_def blockchainBackupWorkspacePaths_def Let_def loc_join)
  have "is_absolute (ws_workspaceDir w)"
    using assms(1) by (simp add: w_def blockchainBackupWorkspacePaths_def Let_def is_absolute_path_join)
  with names show "loc (ws_extractDir w) = loc (ws_workspaceDir w) @ [''extract'']" "is_absolute (ws_extractDir w)"
    "loc (ws_extractStatePath w) = loc (ws_workspaceDir w) @ [''extract-state.json'']"
    by (simp_all add: w_def blockchainBackupWorkspacePaths_def Let_def loc_join_plain is_absolute_path_join)
qed


text \<open>A server with one archive, \<open>http://h/b.tar.gz\<close>; the digest of a text is the text itself.\<close>

definition sample_digest :: string where
  "sample_digest = replicate 64 (CHR ''a'')"

definition sample_env :: "download \<Rightarrow> restore_env" where
  "sample_env answer =
     \<lparr>re_baseDir = ''/b'', re_url = ''http://h/b.tar.gz'', re_notReady = None,
      re_validation = \<lparr>vd_ok = True, vd_output = [], vd_parent = ''/w''\<rparr>,
      re_stop = (\<lambda>fs. (True, [], fs)), re_config = (\<lambda>fs. ([], fs)),
      re_checksum = Response 200 sample_digest, re_metadata = Response 404 [],
      re_download = answer, re_received = [],
      re_listing = (\<lambda>_. \<lparr>tl_entries = [''chain/'', ''chain/data''], tl_ok = True, tl_stderr = [], tl_failure = []\<rparr>),
      re_untar = (\<lambda>archive dir member fs. (True, [],
        if plain_name member then fs(loc dir @ [member] \<mapsto> Dir) else fs)),
      re_children = (\<lambda>_ _. []), re_runtime = (\<lambda>fs. ([], fs)), re_yaml_set = (\<lambda>raw b. Inr raw),
      re_parse_url = (\<lambda>t. Some \<lparr>u_protocol = ''http:'', u_origin = ''http://h'', u_pathname = ''/b.tar.gz'', u_suffix = []\<rparr>),
      re_sha1 = (\<lambda>_. ''5''), re_sha256 = (\<lambda>t. t), re_now = 0, re_nowIso = ''t'', re_fsError = ''e''\<rparr>"

definition sample_start :: restore_state where
  "sample_start =
     \<lparr>st_fs = map_of [([], Dir), ([''b''], Dir), ([''b'', ''chain''], Dir), ([''b'', ''chain'', ''old''], File (Bytes ''1''))],
      st_cache = (\<lambda>_. \<lparr>ac_archive = None, ac_state = None\<rparr>), st_events = [], st_notes = []\<rparr>"

definition sample_workspace :: workspace_paths where
  "sample_workspace = blockchainBackupWorkspacePaths (\<lambda>_. ''5'') ''/w'' ''http://h/b.tar.gz'' sample_digest"

lemma sample_url:
  "normalizeBlockchainBackupArchiveUrl (re_parse_url (sample_env d)) (re_url (sample_env d)) = Inr ''http://h/b.tar.gz''"
  by code_simp

lemma sample_checksum:
  "\<exists>out. fetchBlockchainBackupChecksum (re_parse_url (sample_env d)) (re_checksum (sample_env d)) ''http://h/b.tar.gz'' =
     Inr (sample_digest, out)"
proof -
  have "map_sum id fst (fetchBlockchainBackupChecksum (re_parse_url (sample_env d)) (re_checksum (sample_env d))
      ''http://h/b.tar.gz'') = Inr sample_digest" by code_simp
  then show ?thesis
    by (cases "fetchBlockchainBackupChecksum (re_parse_url (sample_env d)) (re_checksum (sample_env d)) ''http://h/b.tar.gz''") auto
qed

lemma sample_sources: "harmless_sources (sample_env d) sample_workspace (st_fs sample_start)"
proof -
  have "readJsonFile (st_fs sample_start) (ws_extractStatePath sample_workspace) = None" by code_simp
  moreover have "harmless_listing (re_listing (sample_env d) archive)" for archive
    by (simp add: sample_env_def) code_simp
  ultimately show ?thesis
    by (simp add: harmless_sources_def stored_root_def stored_directories_def path_segments_def
        fetchBlockchainBackupMetadata_def sample_env_def http_ok_def)
qed


end
