(* ===== verification/BackupRun.thy ===== *)
theory BackupRun
  imports NativeConfig BackupFlow
begin

text \<open>
  What the operations on the native backup tool share (electron/lib/backup-service.ts): the connection to
  the admin listener of a running node, its requests, and the state an operation runs in.

  An operation awaits calls one after the other. A call (\<open>call\<close>) is logged with the state of the cancel
  flag when it is made and with its answer. What a call answers, how long it takes, what happens to
  the cancel flag and to the file system meanwhile is in the environment (\<open>run_env\<close>), indexed by the
  number of calls made before; a delay takes at least its time and the
  clock does not run backwards. Since the code runs on one thread, the flag
  and the file system change only while a call is out.
\<close>

section \<open>The admin listener\<close>

fun split_last :: "char \<Rightarrow> string \<Rightarrow> (string \<times> string) option" where
  "split_last d [] = None"
| "split_last d (c # s) =
     (case split_last d s of
        Some (a, b) \<Rightarrow> Some (c # a, b)
      | None \<Rightarrow> if c = d then Some ([], s) else None)"

record admin_connection =
  ad_baseUrl :: string
  ad_token :: string

text \<open>\<open>Inl\<close> is a thrown error; \<open>fs_error\<close> is the message of a failed read.\<close>

definition backupAdminConnection ::
  "variables \<Rightarrow> string \<Rightarrow> string \<Rightarrow> backup_settings \<Rightarrow> fs \<Rightarrow> string + admin_connection option" where
  "backupAdminConnection vars fs_error baseDir b fs =
     (let listen = js_or (js_trim (bs_adminListen b)) ''127.0.0.1:18088'';
          tokenPath = js_or (expandBackupFilePath vars (bs_adminTokenFile b)) (nativeBackupAdminTokenPath baseDir);
          bad_port = Inl (''Invalid backup admin port: '' @ listen)
      in if \<not> bs_adminEnabled b then Inr None
         else (case split_last (CHR '':'') listen of
             None \<Rightarrow> Inl (''Invalid backup admin listen address: '' @ listen)
           | Some (host, tail) \<Rightarrow>
               if host = [] \<or> tail = [] then Inl (''Invalid backup admin listen address: '' @ listen)
               else (case js_parse_int tail of
                   None \<Rightarrow> bad_port
                 | Some port \<Rightarrow>
                     if port \<le> 0 \<or> port > 65535 then bad_port
                     else (case fs (loc tokenPath) of
                         Some (File (Bytes raw)) \<Rightarrow>
                           if js_trim raw = [] then Inl (''Backup admin token file is empty: '' @ tokenPath)
                           else Inr (Some \<lparr>ad_baseUrl = ''http://'' @ host @ '':'' @ js_nat (nat port), ad_token = js_trim raw\<rparr>)
                       | _ \<Rightarrow> Inl fs_error))))"

text \<open>What \<open>fetch\<close> gives: an error with its message, the message of its cause and whether it is a timeout,
  or a response with status, status text and body.\<close>

datatype fetch_result = FetchFailed string string bool | Responded nat string string

definition unauthorized_re :: re where
  "unauthorized_re = alts [lit_i ''unauthorized'', lit_i ''forbidden'']"

definition backupAdminRequest ::
  "(string \<Rightarrow> jsval option) \<Rightarrow> string \<Rightarrow> string \<Rightarrow> string \<Rightarrow> fetch_result \<Rightarrow> string + jsval" where
  "backupAdminRequest parse baseUrl verb route answer =
     (case answer of
        FetchFailed detail cause timed_out \<Rightarrow>
          Inl (js_join '' ''
            [''Backup admin API is not reachable at '' @ baseUrl @ route @ ''.'',
             ''If the node is running, save Backup Admin settings and restart the node so the admin listener is active.'',
             ''If you do not want to restart, stop the node before creating an offline native backup.'',
             js_trim ((if timed_out then '' The request timed out.'' else []) @ '' Underlying error: '' @ detail @
               (if cause \<noteq> [] then '' ('' @ cause @ '')'' else []))])
      | Responded status statusText text \<Rightarrow>
          (case (if text = [] then Some (JObj []) else parse text) of
             None \<Rightarrow> Inl (''Backup admin returned non-JSON response: '' @ text)
           | Some payload \<Rightarrow>
               if payload = JNull
               then Inl (''Cannot read properties of null (reading '' @ sq @ (if http_ok status then ''ok'' else ''error'') @ sq @ '')'')
               else if \<not> http_ok status \<or> js_prop ''ok'' payload = JBool False
               then (let error = str_or statusText (js_prop ''error'' payload)
                 in if status = 401 \<or> js_test unauthorized_re error
                    then Inl (js_join '' ''
                      [''The running node rejected Koinos One'' @ sq @ ''s local Backup Admin token.'',
                       ''This usually means the node was started with an older backup-admin configuration.'',
                       ''Stop and start the node from Koinos One so it loads the current local token, then try again.'',
                       ''If this folder already has newer local node data, keep the local copy instead of restoring the public backup.''])
                    else Inl (''Backup admin '' @ verb @ '' '' @ route @ '' failed: '' @ error))
               else Inr payload))"

definition backupStatusPayload :: "jsval \<Rightarrow> jsval" where
  "backupStatusPayload v =
     (case v of
        JObj _ \<Rightarrow> (case js_prop ''status'' v of JObj ps \<Rightarrow> JObj ps | JArr vs \<Rightarrow> JArr vs | _ \<Rightarrow> v)
      | JArr _ \<Rightarrow> v
      | _ \<Rightarrow> JObj [])"

definition header_timeout_re :: re where
  "header_timeout_re =
     alts [lit_i ''Headers Timeout Error'', lit_i ''UND_ERR_HEADERS_TIMEOUT'',
       seqs [lit_i ''header'', Star (none_of [CHR ''.'']), lit_i ''timeout'']]"

definition backupAdminHeaderTimeout :: "string \<Rightarrow> bool" where
  "backupAdminHeaderTimeout message = js_test header_timeout_re message"

text \<open>\<open>`${v ?? ''}`\<close>, for the texts the status holds.\<close>

definition shown_text :: "jsval \<Rightarrow> string" where
  "shown_text v = (case v of JStr s \<Rightarrow> s | JBool b \<Rightarrow> (if b then ''true'' else ''false'') | _ \<Rightarrow> [])"

definition nodeStatusLooksRunning :: "jsval \<Rightarrow> bool" where
  "nodeStatusLooksRunning status =
     (case js_prop ''services'' status of
        JArr services \<Rightarrow>
          list_ex (\<lambda>service. js_prop ''managedByTeleno'' service = JBool True \<and>
            (js_lower (shown_text (js_prop ''state'' service)) = ''running'' \<or>
             js_includes (js_lower (shown_text (js_prop ''status'' service))) ''running'' \<or>
             js_includes (js_lower (shown_text (js_prop ''status'' service))) ''up'')) services
      | _ \<Rightarrow> False)"

text \<open>\<open>encodeURIComponent\<close>, for code units up to 255.\<close>

definition percent :: "nat \<Rightarrow> string" where
  "percent n = ''%'' @ map (\<lambda>d. ''0123456789ABCDEF'' ! d) [n div 16, n mod 16]"

definition uri_char :: "char \<Rightarrow> string" where
  "uri_char c =
     (let n = of_char c :: nat
      in if is_digit c \<or> lower_char c \<in> set ''abcdefghijklmnopqrstuvwxyz'' \<or> c \<in> set (CHR 0x27 # ''-_.!~*()'') then [c]
         else if n < 128 then percent n
         else percent (192 + n div 64) @ percent (128 + n mod 64))"

definition encodeURIComponent :: "string \<Rightarrow> string" where
  "encodeURIComponent s = concat (map uri_char s)"

section \<open>Calls and the state of an operation\<close>

datatype call =
    NodeStatus
  | NodeStop
  | AdminRequest string string jsval nat
  | RunCommand "string list" nat
  | TrackedCommand "string list"
  | Pause nat

datatype answer =
    StatusIs "jsval option"
  | Stopped bool string
  | Fetched fetch_result
  | CommandDone bool string
  | TrackedDone "progress_payload list" bool string
  | Elapsed

record log_entry =
  lg_call :: call
  lg_cancelled :: bool
  lg_answer :: answer

record backup_state =
  rn_log :: "log_entry list"
  rn_now :: nat
  rn_cancelled :: bool
  rn_process :: bool
  rn_operation :: "string option"
  rn_fs :: fs
  rn_events :: "backup_event list"

record run_outcome =
  rx_ok :: bool
  rx_output :: string
  rx_status :: string
  rx_state :: backup_state

type_synonym flow = "backup_state \<Rightarrow> run_outcome"

text \<open>\<open>rv_elapsed\<close>, \<open>rv_cancel\<close>, \<open>rv_process\<close> and \<open>rv_world\<close> say what a call takes and what happens meanwhile:
  to the cancel flag (another operation may start and reset it), to the process another operation has
  started, and to the file system.\<close>

record run_env =
  rv_status :: "nat \<Rightarrow> jsval option"
  rv_stop :: "nat \<Rightarrow> bool \<times> string"
  rv_fetch :: "nat \<Rightarrow> fetch_result"
  rv_command :: "nat \<Rightarrow> bool \<times> string"
  rv_tracked :: "nat \<Rightarrow> progress_payload list \<times> bool \<times> string"
  rv_elapsed :: "nat \<Rightarrow> nat"
  rv_cancel :: "nat \<Rightarrow> bool \<Rightarrow> bool"
  rv_process :: "nat \<Rightarrow> bool \<Rightarrow> bool"
  rv_world :: "nat \<Rightarrow> fs \<Rightarrow> fs"
  rv_size :: "fs \<Rightarrow> string \<Rightarrow> nat"
  rv_parse :: "string \<Rightarrow> jsval option"
  rv_pretty :: "jsval \<Rightarrow> string"
  rv_num_str :: "jsnum \<Rightarrow> string"
  rv_config :: config_env
  rv_notReady :: "string option"
  rv_binary :: string
  rv_network :: network
  rv_baseDir :: string
  rv_backup :: backup_settings

definition answer_of :: "run_env \<Rightarrow> nat \<Rightarrow> call \<Rightarrow> answer" where
  "answer_of env n c =
     (case c of
        NodeStatus \<Rightarrow> StatusIs (rv_status env n)
      | NodeStop \<Rightarrow> (case rv_stop env n of (ok, output) \<Rightarrow> Stopped ok output)
      | AdminRequest verb route body timeout \<Rightarrow> Fetched (rv_fetch env n)
      | RunCommand args timeout \<Rightarrow> (case rv_command env n of (ok, output) \<Rightarrow> CommandDone ok output)
      | TrackedCommand args \<Rightarrow> (case rv_tracked env n of (lines, ok, output) \<Rightarrow> TrackedDone lines ok output)
      | Pause ms \<Rightarrow> Elapsed)"

definition after :: "run_env \<Rightarrow> call \<Rightarrow> backup_state \<Rightarrow> backup_state" where
  "after env c s =
     (let n = length (rn_log s)
      in s\<lparr>rn_log := rn_log s @ [\<lparr>lg_call = c, lg_cancelled = rn_cancelled s, lg_answer = answer_of env n c\<rparr>],
           rn_now := rn_now s + (case c of Pause ms \<Rightarrow> ms | _ \<Rightarrow> 0) + rv_elapsed env n,
           rn_cancelled := rv_cancel env n (rn_cancelled s), rn_process := rv_process env n (rn_process s),
           rn_fs := rv_world env n (rn_fs s)\<rparr>)"

definition emit :: "backup_phase \<Rightarrow> rat \<Rightarrow> string \<Rightarrow> telemetry option \<Rightarrow> backup_state \<Rightarrow> backup_state" where
  "emit phase progress message data s =
     s\<lparr>rn_events := rn_events s @ [backup_event_of phase progress message data]\<rparr>"

definition emits :: "backup_phase \<Rightarrow> rat \<Rightarrow> string \<Rightarrow> flow \<Rightarrow> flow" where
  "emits phase progress message k s = k (emit phase progress message None s)"

definition finish_run :: "bool \<Rightarrow> string \<Rightarrow> string \<Rightarrow> flow" where
  "finish_run ok output status s = \<lparr>rx_ok = ok, rx_output = output, rx_status = status, rx_state = s\<rparr>"

text \<open>\<open>emitProgress('error', p, message); return { ok: false, output, status: 'error' }\<close>.\<close>

definition fail_run :: "rat \<Rightarrow> string \<Rightarrow> string \<Rightarrow> flow" where
  "fail_run progress message output = emits BpError progress message (finish_run False output ''error'')"

text \<open>The calls, for operations with any kind of result.\<close>

definition request ::
  "run_env \<Rightarrow> admin_connection \<Rightarrow> string \<Rightarrow> string \<Rightarrow> jsval \<Rightarrow> nat \<Rightarrow> (string + jsval \<Rightarrow> backup_state \<Rightarrow> 'r) \<Rightarrow> backup_state \<Rightarrow> 'r" where
  "request env ad verb route body timeout k s =
     k (backupAdminRequest (rv_parse env) (ad_baseUrl ad) verb route (rv_fetch env (length (rn_log s))))
       (after env (AdminRequest verb route body timeout) s)"

definition run_command :: "run_env \<Rightarrow> string list \<Rightarrow> nat \<Rightarrow> (bool \<Rightarrow> string \<Rightarrow> backup_state \<Rightarrow> 'r) \<Rightarrow> backup_state \<Rightarrow> 'r" where
  "run_command env args timeout k s =
     (case rv_command env (length (rn_log s)) of (ok, output) \<Rightarrow> k ok output (after env (RunCommand args timeout) s))"

definition stop_node :: "run_env \<Rightarrow> (bool \<Rightarrow> string \<Rightarrow> flow) \<Rightarrow> flow" where
  "stop_node env k s =
     (case rv_stop env (length (rn_log s)) of (ok, output) \<Rightarrow> k ok output (after env NodeStop s))"

definition add_events :: "backup_event list \<Rightarrow> backup_state \<Rightarrow> backup_state" where
  "add_events es s = s\<lparr>rn_events := rn_events s @ es\<rparr>"

text \<open>\<open>spawnTrackedBackupCommand\<close>: \<open>events\<close> is what the callback sends for a progress line. Its result is
  the trimmed standard output, or all output when the command failed or printed nothing there.\<close>

definition tracked_command ::
  "run_env \<Rightarrow> string list \<Rightarrow> (progress_payload \<Rightarrow> backup_event list) \<Rightarrow> (bool \<Rightarrow> string \<Rightarrow> flow) \<Rightarrow> flow" where
  "tracked_command env args events k s =
     (case rv_tracked env (length (rn_log s)) of
        (lines, ok, output) \<Rightarrow>
          k ok output (add_events (concat (map events lines)) ((after env (TrackedCommand args) s)\<lparr>rn_process := False\<rparr>)))"

definition runningBackupAdminConnection ::
  "run_env \<Rightarrow> (string + admin_connection option \<Rightarrow> backup_state \<Rightarrow> 'r) \<Rightarrow> backup_state \<Rightarrow> 'r" where
  "runningBackupAdminConnection env k s =
     (if \<not> bs_adminEnabled (rv_backup env) then k (Inr None) s
      else
        let s1 = after env NodeStatus s
        in (case rv_status env (length (rn_log s)) of
              Some status \<Rightarrow>
                if nodeStatusLooksRunning status
                then k (backupAdminConnection (ce_vars (rv_config env)) (ce_fsError (rv_config env)) (rv_baseDir env)
                  (rv_backup env) (rn_fs s1)) s1
                else k (Inr None) s1
            | None \<Rightarrow> k (Inr None) s1))"

section \<open>Waiting for a staging directory\<close>

definition six_hours :: nat where
  "six_hours = 6 * 60 * 60 * 1000"

definition nativeRestoreStagePayloadFromDisk :: "string \<Rightarrow> fs \<Rightarrow> string \<Rightarrow> string + jsval" where
  "nativeRestoreStagePayloadFromDisk fs_error fs stagingDir =
     (let metadataPath = path_join [stagingDir, ''.teleno-restore-stage.json'']
      in case fs (loc metadataPath) of
           Some (File (Json metadata)) \<Rightarrow>
             let text = (\<lambda>k. JStr (stringField (js_prop k metadata)));
                 num = (\<lambda>k. JNum (Fin (numberField (js_prop k metadata))));
                 skipped = (case js_prop ''skipped_optional_runtime_files'' metadata of
                     JArr items \<Rightarrow> filter (\<lambda>v. v \<noteq> JStr []) (map (JStr \<circ> stringField) items)
                   | _ \<Rightarrow> [])
             in Inr (JObj [(''ok'', JBool True), (''stage'', JObj
                  [(''backup_id'', text ''backup_id''), (''repository_dir'', text ''repository_dir''),
                   (''target_basedir'', text ''target_basedir''),
                   (''staging_dir'', JStr (js_or (stringField (js_prop ''staging_dir'' metadata)) stagingDir)),
                   (''metadata'', JStr metadataPath),
                   (''restored_file_count'', num ''restored_file_count''),
                   (''restored_bytes'', num ''restored_bytes''),
                   (''start_as_observer_first'', JBool (js_prop ''start_as_observer_first'' metadata \<noteq> JBool False)),
                   (''skipped_optional_runtime_files'', JArr skipped)])])
         | _ \<Rightarrow> Inl fs_error)"

text \<open>The loop looks at the clock before every round and pauses two seconds in it, so it ends within
  its time plus one round. \<open>Inl\<close> is a thrown error.\<close>

lemma now_after [simp]: "rn_now (after env c s) = rn_now s + (case c of Pause ms \<Rightarrow> ms | _ \<Rightarrow> 0) + rv_elapsed env (length (rn_log s))"
  by (simp add: after_def Let_def)

lemma now_emit [simp]: "rn_now (emit ph p m t s) = rn_now s"
  by (simp add: emit_def)

definition active_stage_dir :: "string \<Rightarrow> fs \<Rightarrow> string" where
  "active_stage_dir stagingDir fs =
     (if fs_exists fs (stagingDir @ ''.partial'') then stagingDir @ ''.partial''
      else if fs_exists fs stagingDir then stagingDir else [])"

definition stage_complete :: "string \<Rightarrow> fs \<Rightarrow> bool" where
  "stage_complete stagingDir fs \<longleftrightarrow>
     fs_exists fs (path_join [stagingDir, ''RESTORE_STAGE_COMPLETE'']) \<and>
     fs_exists fs (path_join [stagingDir, ''.teleno-restore-stage.json''])"

text \<open>The ways out of a round; \<open>None\<close> pauses.\<close>

definition stage_verdict :: "run_env \<Rightarrow> string \<Rightarrow> nat \<Rightarrow> nat \<Rightarrow> backup_state \<Rightarrow> (string + jsval) option" where
  "stage_verdict env stagingDir timeoutMs startedAt s =
     (let fs = rn_fs s
      in if \<not> rn_now s - startedAt < timeoutMs
         then Some (Inl (''Timed out waiting for native restore staging to complete: '' @ stagingDir))
         else if stage_complete stagingDir fs
         then Some (nativeRestoreStagePayloadFromDisk (ce_fsError (rv_config env)) fs stagingDir)
         else if active_stage_dir stagingDir fs = []
         then Some (Inl (''Native restore staging stopped before completion: '' @ stagingDir))
         else if active_stage_dir stagingDir fs = stagingDir \<and> \<not> fs_exists fs (stagingDir @ ''.partial'') \<and>
                 \<not> fs_exists fs (path_join [stagingDir, ''RESTORE_STAGE_COMPLETE'']) \<and>
                 rn_now s - startedAt > 10000 \<and> rv_size env fs stagingDir = 0
         then Some (Inl (''Native restore staging did not leave an active partial directory: '' @ stagingDir @ ''.partial''))
         else None)"

definition staging_progress :: "run_env \<Rightarrow> string \<Rightarrow> backup_state \<Rightarrow> backup_state" where
  "staging_progress env stagingDir s =
     emit BpRestore 80 (''Staging native backup restore ('' @
       formatByteCount (Fin (of_nat (rv_size env (rn_fs s) (active_stage_dir stagingDir (rn_fs s))))) @
       '' copied so far)'') None s"

lemma now_staging_progress [simp]: "rn_now (staging_progress env dir s) = rn_now s"
  by (simp add: staging_progress_def)

lemma verdict_None: "stage_verdict env dir t t0 s = None \<Longrightarrow> rn_now s - t0 < t"
  by (auto simp: stage_verdict_def Let_def split: if_splits)

function wait_for_stage ::
  "run_env \<Rightarrow> string \<Rightarrow> nat \<Rightarrow> nat \<Rightarrow> nat \<Rightarrow> backup_state \<Rightarrow> (string + jsval) \<times> backup_state" where
  "wait_for_stage env stagingDir timeoutMs startedAt nextProgressAt s =
     (case stage_verdict env stagingDir timeoutMs startedAt s of
        Some r \<Rightarrow> (r, s)
      | None \<Rightarrow>
          if rn_now s \<ge> nextProgressAt
          then wait_for_stage env stagingDir timeoutMs startedAt (rn_now s + 5000)
            (after env (Pause 2000) (staging_progress env stagingDir s))
          else wait_for_stage env stagingDir timeoutMs startedAt nextProgressAt (after env (Pause 2000) s))"
  by pat_completeness auto
termination
  by (relation "measure (\<lambda>(env, dir, timeoutMs, startedAt, next, s). timeoutMs + startedAt - rn_now s)")
    (auto dest: verdict_None)

declare wait_for_stage.simps [simp del]

definition waitForNativeRestoreStageCompletion ::
  "run_env \<Rightarrow> string \<Rightarrow> nat \<Rightarrow> backup_state \<Rightarrow> (string + jsval) \<times> backup_state" where
  "waitForNativeRestoreStageCompletion env stagingDir timeoutMs s =
     wait_for_stage env stagingDir timeoutMs (rn_now s) 0 s"

text \<open>\<open>Inl\<close> is a thrown error.\<close>

definition clearStaleRestorePartialStaging :: "string \<Rightarrow> backup_state \<Rightarrow> string + backup_state" where
  "clearStaleRestorePartialStaging stagingDir s =
     (let partialDir = stagingDir @ ''.partial''
      in if \<not> fs_exists (rn_fs s) partialDir then Inr s
         else if rn_process s
         then Inl ''A native restore is still running. Use Stop restore first, then retry after the restore process has stopped.''
         else Inr ((emit BpPrepare 6 ''Clearing stale partial restore staging left by a previous interrupted restore'' None s)
           \<lparr>rn_fs := rm_tree (loc partialDir) (rn_fs s)\<rparr>))"

section \<open>The wait comes to an end\<close>

lemma log_staging_progress [simp]: "rn_log (staging_progress env dir s) = rn_log s"
  by (simp add: staging_progress_def emit_def)

lemma length_log_after [simp]: "length (rn_log (after env c s)) = Suc (length (rn_log s))"
  by (simp add: after_def Let_def)

lemma round_up_step:
  fixes a :: nat assumes "now < a"
  shows "Suc ((a - (now + 2000 + e) + 1999) div 2000) \<le> (a - now + 1999) div 2000"
proof (cases "a \<le> now + 2000 + e")
  case True
  have "2000 div 2000 \<le> (a - now + 1999) div 2000" using assms by (intro div_le_mono) linarith
  with True show ?thesis by simp
next
  case False
  have "(a - (now + 2000 + e) + 1999 + 2000) div 2000 \<le> (a - now + 1999) div 2000"
    using False by (intro div_le_mono) linarith
  then show ?thesis by (simp only: div_add_self2)
qed

lemma rounds_bound:
  "length (rn_log (snd (wait_for_stage env dir t t0 nxt s))) \<le> length (rn_log s) + (t + t0 - rn_now s + 1999) div 2000"
proof (induction env dir t t0 nxt s rule: wait_for_stage.induct)
  case (1 env dir t t0 nxt s)
  show ?case
  proof (cases "stage_verdict env dir t t0 s")
    case None
    have step: "Suc (l + (t + t0 - (rn_now s + 2000 + e) + 1999) div 2000) \<le> l + (t + t0 - rn_now s + 1999) div 2000" for l e
      using round_up_step [of "rn_now s" "t + t0" e] verdict_None [OF None] by linarith
    show ?thesis
    proof (cases "rn_now s \<ge> nxt")
      case True
      with 1(1) [OF None True] step show ?thesis
        by (subst wait_for_stage.simps) (auto simp: None intro: order_trans)
    next
      case False
      with 1(2) [OF None False] step show ?thesis
        by (subst wait_for_stage.simps) (auto simp: None intro: order_trans)
    qed
  next
    case (Some r)
    then show ?thesis by (simp add: wait_for_stage.simps)
  qed
qed

text \<open>C36: The wait for a staging directory comes to an end: it looks at most once every two seconds of its time
  (plus once), whatever happens to the directory and however long the calls take.\<close>

theorem wait_is_bounded:
  "length (rn_log (snd (waitForNativeRestoreStageCompletion env stagingDir timeoutMs s)))
     \<le> length (rn_log s) + (timeoutMs + 1999) div 2000"
  using rounds_bound [of env stagingDir timeoutMs "rn_now s" 0 s]
  by (simp add: waitForNativeRestoreStageCompletion_def)

text \<open>The state at the start of a round, apart from the events sent.\<close>

definition stage_round :: "run_env \<Rightarrow> nat \<Rightarrow> backup_state \<Rightarrow> backup_state" where
  "stage_round env i s = (after env (Pause 2000) ^^ i) s"

lemma stage_round_Suc: "stage_round env (Suc i) s = stage_round env i (after env (Pause 2000) s)"
  by (simp only: stage_round_def funpow_Suc_right o_apply)

lemma after_events: "after env c (s\<lparr>rn_events := es\<rparr>) = (after env c s)\<lparr>rn_events := es\<rparr>"
  by (simp add: after_def Let_def)

lemma stage_round_events: "stage_round env i (s\<lparr>rn_events := es\<rparr>) = (stage_round env i s)\<lparr>rn_events := es\<rparr>"
  by (induction i arbitrary: s) (simp_all add: stage_round_Suc after_events, simp add: stage_round_def)

lemma verdict_events: "stage_verdict env dir t t0 (s\<lparr>rn_events := es\<rparr>) = stage_verdict env dir t t0 s"
  by (simp add: stage_verdict_def Let_def cong: if_cong)

lemma log_events: "rn_log (s\<lparr>rn_events := es\<rparr>) = rn_log s"
  by simp

lemma progress_events: "\<exists>es. staging_progress env dir s = s\<lparr>rn_events := es\<rparr>"
  by (auto simp: staging_progress_def emit_def)

lemma wait_rounds:
  "\<forall>i<n. stage_verdict env dir t t0 (stage_round env i s) = None \<Longrightarrow>
   stage_verdict env dir t t0 (stage_round env n s) = Some r \<Longrightarrow>
   \<exists>es. wait_for_stage env dir t t0 nxt s = (r, (stage_round env n s)\<lparr>rn_events := es\<rparr>)"
proof (induction n arbitrary: s nxt)
  case 0
  then show ?case by (subst wait_for_stage.simps) (auto simp: stage_round_def intro: exI [of _ "rn_events s"])
next
  case (Suc n)
  let ?s = "after env (Pause 2000) s"
  have now: "stage_verdict env dir t t0 s = None" using Suc.prems(1) by (auto simp: stage_round_def dest: spec [of _ 0])
  have later: "\<forall>i<n. stage_verdict env dir t t0 (stage_round env i ?s) = None"
    using Suc.prems(1) by (auto simp: stage_round_Suc dest: spec [of _ "Suc _"])
  have "\<exists>es. wait_for_stage env dir t t0 nx (?s\<lparr>rn_events := es0\<rparr>) = (r, (stage_round env (Suc n) s)\<lparr>rn_events := es\<rparr>)"
    for es0 nx
    using Suc.IH [of "?s\<lparr>rn_events := es0\<rparr>" nx] later Suc.prems(2)
    by (simp add: stage_round_events verdict_events stage_round_Suc)
  moreover obtain es1 where "staging_progress env dir s = s\<lparr>rn_events := es1\<rparr>" using progress_events by blast
  moreover have "?s = ?s\<lparr>rn_events := rn_events s\<rparr>" by (simp add: after_def Let_def)
  ultimately show ?case
    by (subst wait_for_stage.simps) (simp add: now after_events, metis)
qed

lemma round_now: "i \<le> n \<Longrightarrow> rn_now (stage_round env i s) \<le> rn_now (stage_round env n s)"
  by (induction n rule: dec_induct) (auto simp: stage_round_def)

text \<open>A run of the tool on a stopped node in which every command succeeds.\<close>

definition sample_run_env :: run_env where
  "sample_run_env =
     \<lparr>rv_status = (\<lambda>_. None), rv_stop = (\<lambda>_. (True, [])), rv_fetch = (\<lambda>_. FetchFailed [] [] False),
      rv_command = (\<lambda>_. (True, [])), rv_tracked = (\<lambda>_. ([], True, [])), rv_elapsed = (\<lambda>_. 1),
      rv_cancel = (\<lambda>_ c. c), rv_process = (\<lambda>_ p. p),
      rv_world = (\<lambda>_ _ l. if l = [''teleno_node''] then Some (File (Bytes [])) else None),
      rv_size = (\<lambda>_ _. 0), rv_parse = (\<lambda>_. None), rv_pretty = (\<lambda>_. []), rv_num_str = (\<lambda>_. []),
      rv_config = sample_config_env, rv_notReady = None, rv_binary = ''/teleno_node'', rv_network = Testnet,
      rv_baseDir = ''/b'', rv_backup = default_backup_settings\<rparr>"

definition sample_run_state :: backup_state where
  "sample_run_state = \<lparr>rn_log = [], rn_now = 0, rn_cancelled = True, rn_process = False, rn_operation = None,
     rn_fs = (\<lambda>_. None), rn_events = []\<rparr>"

text \<open>C13: The wait sees a staging that completes: when the partial directory is there at the start of every
  round before round n, and in round n, within the time, both marks of a complete staging
  are, the wait returns what is then on disk, after exactly n pauses.\<close>

theorem wait_sees_completion:
  assumes "\<forall>i<n. fs_exists (rn_fs (stage_round env i s)) (stagingDir @ ''.partial'') \<and>
      \<not> stage_complete stagingDir (rn_fs (stage_round env i s))"
    and "stage_complete stagingDir (rn_fs (stage_round env n s))"
    and "rn_now (stage_round env n s) < rn_now s + timeoutMs"
  shows "fst (waitForNativeRestoreStageCompletion env stagingDir timeoutMs s) =
      nativeRestoreStagePayloadFromDisk (ce_fsError (rv_config env)) (rn_fs (stage_round env n s)) stagingDir \<and>
    rn_log (snd (waitForNativeRestoreStageCompletion env stagingDir timeoutMs s)) = rn_log (stage_round env n s)"
proof -
  have start: "rn_now s \<le> rn_now (stage_round env i s)" for i
    using round_now [of 0 i env s] by (simp add: stage_round_def)
  have time: "rn_now (stage_round env i s) - rn_now s < timeoutMs" if "i \<le> n" for i
    using round_now [OF that, of env s] start [of i] assms(3) by linarith
  have "stage_verdict env stagingDir timeoutMs (rn_now s) (stage_round env i s) = None" if "i < n" for i
    using assms(1) that time [of i] by (simp add: stage_verdict_def active_stage_dir_def)
  moreover have "stage_verdict env stagingDir timeoutMs (rn_now s) (stage_round env n s) =
      Some (nativeRestoreStagePayloadFromDisk (ce_fsError (rv_config env)) (rn_fs (stage_round env n s)) stagingDir)"
    using assms(2) time [of n] by (simp add: stage_verdict_def)
  ultimately show ?thesis
    using wait_rounds [of n env stagingDir timeoutMs "rn_now s" s] unfolding waitForNativeRestoreStageCompletion_def by (metis fst_conv snd_conv backup_state.simps(1) log_events)
qed

text \<open>The staging is complete after the second pause.\<close>

definition sample_staging_env :: run_env where
  "sample_staging_env = sample_run_env\<lparr>rv_world := (\<lambda>n _ l.
     if n = 0 then (if l = [''s.partial''] then Some Dir else None)
     else if l = [''s'', ''RESTORE_STAGE_COMPLETE''] then Some (File (Bytes []))
     else if l = [''s'', ''.teleno-restore-stage.json''] then Some (File (Json (JObj [(''backup_id'', JStr ''b1'')])))
     else None)\<rparr>"

definition sample_staging_state :: backup_state where
  "sample_staging_state = sample_run_state\<lparr>rn_fs := (\<lambda>l. if l = [''s.partial''] then Some Dir else None)\<rparr>"

theorem wait_sees_completion_witness:
  "\<exists>v. fst (waitForNativeRestoreStageCompletion sample_staging_env ''/s'' six_hours sample_staging_state) = Inr v"
proof -
  have locs: "loc ''/s.partial'' = [''s.partial'']"
    "loc (path_join [''/s'', ''RESTORE_STAGE_COMPLETE'']) = [''s'', ''RESTORE_STAGE_COMPLETE'']"
    "loc (path_join [''/s'', ''.teleno-restore-stage.json'']) = [''s'', ''.teleno-restore-stage.json'']"
    by code_simp+
  let ?E = sample_staging_env and ?S = sample_staging_state
  have rounds: "rn_fs (stage_round ?E 0 ?S) = (\<lambda>l. if l = [''s.partial''] then Some Dir else None)"
    "rn_fs (stage_round ?E 1 ?S) = (\<lambda>l. if l = [''s.partial''] then Some Dir else None)"
    "rn_fs (stage_round ?E 2 ?S) = (\<lambda>l. if l = [''s'', ''RESTORE_STAGE_COMPLETE''] then Some (File (Bytes []))
     else if l = [''s'', ''.teleno-restore-stage.json''] then Some (File (Json (JObj [(''backup_id'', JStr ''b1'')]))) else None)"
    "rn_now (stage_round ?E 2 ?S) < rn_now ?S + six_hours"
    by (simp_all add: stage_round_def numeral_2_eq_2 sample_staging_env_def sample_staging_state_def sample_run_env_def
        sample_run_state_def after_def six_hours_def)
  have before: "\<forall>i<2. fs_exists (rn_fs (stage_round ?E i ?S)) (''/s'' @ ''.partial'') \<and>
      \<not> stage_complete ''/s'' (rn_fs (stage_round ?E i ?S))"
  proof (intro allI impI)
    fix i :: nat assume "i < 2"
    then consider "i = 0" | "i = 1" by linarith
    then show "fs_exists (rn_fs (stage_round ?E i ?S)) (''/s'' @ ''.partial'') \<and> \<not> stage_complete ''/s'' (rn_fs (stage_round ?E i ?S))"
      by cases (simp_all only: rounds, simp_all add: fs_exists_def stage_complete_def locs)
  qed
  have complete: "stage_complete ''/s'' (rn_fs (stage_round ?E 2 ?S))"
    by (simp add: rounds fs_exists_def stage_complete_def locs)
  note time = rounds(4)
  from wait_sees_completion [OF before complete time] show ?thesis
    by (simp add: nativeRestoreStagePayloadFromDisk_def Let_def rounds locs)
qed

end
