(* ===== verification/NativeRestore.thy ===== *)
theory NativeRestore
  imports BackupRun
begin

text \<open>
  Restoring a native backup: \<open>restoreNativeBackup\<close> of electron/lib/backup-service.ts. With a running node
  it works through the admin listener: fetch the objects and poll, check, stage, ask for activation. Without
  one it stops the node and runs the tool: check, stage and activate for a local backup, one command for
  a remote or public one. The cancel flag is looked at between the steps (\<open>unless_cancelled\<close>).
\<close>

section \<open>Pieces\<close>

definition cleanupRestoreOnCancel :: "rat \<Rightarrow> flow" where
  "cleanupRestoreOnCancel progress s =
     (let message = ''Restore stopped by user. Partial restore staging data was preserved; start restore again to run a clean restore flow.''
      in emits BpCancelled progress message (finish_run False message ''cancelled'')
           (s\<lparr>rn_process := False, rn_operation := None\<rparr>))"

definition unless_cancelled :: "rat \<Rightarrow> flow \<Rightarrow> flow" where
  "unless_cancelled progress k s = (if rn_cancelled s then cleanupRestoreOnCancel progress s else k s)"

text \<open>A thrown error as the surrounding catch handles it.\<close>

definition restore_throws :: "string \<Rightarrow> flow" where
  "restore_throws message =
     unless_cancelled 0 (fail_run 0 (''Error restoring native backup: '' @ message) message)"

definition or_throw :: "string + 'a \<Rightarrow> ('a \<Rightarrow> flow) \<Rightarrow> flow" where
  "or_throw r k = (case r of Inl message \<Rightarrow> restore_throws message | Inr v \<Rightarrow> k v)"

text \<open>The fresh staging directory: the stale partial one is cleared first.\<close>

definition fresh_staging :: "run_env \<Rightarrow> string \<Rightarrow> flow \<Rightarrow> flow" where
  "fresh_staging env stagingDir k s =
     (case clearStaleRestorePartialStaging stagingDir s of
        Inl message \<Rightarrow> restore_throws message s
      | Inr s1 \<Rightarrow>
          let fs1 = rm_tree (loc stagingDir) (rn_fs s1)
          in (case mkdir_all (loc stagingDir) fs1 of
                None \<Rightarrow> restore_throws (ce_fsError (rv_config env)) (s1\<lparr>rn_fs := fs1\<rparr>)
              | Some fs2 \<Rightarrow> k (s1\<lparr>rn_fs := fs2\<rparr>)))"

definition with_suffix :: "run_env \<Rightarrow> string \<Rightarrow> progress_payload \<Rightarrow> string" where
  "with_suffix env message p =
     (let suffix = nativeProgressSuffix (rv_num_str env) p
      in if suffix \<noteq> [] then message @ '' ('' @ suffix @ '')'' else message)"

text \<open>An event of a progress line: the part \<open>lo\<close> to \<open>hi\<close> of the bar.\<close>

definition range_event :: "run_env \<Rightarrow> backup_phase \<Rightarrow> rat \<Rightarrow> rat \<Rightarrow> string \<Rightarrow> progress_payload \<Rightarrow> backup_event" where
  "range_event env phase lo hi message p =
     backup_event_of phase (min hi (lo + nativeProgressFraction p * (hi - lo))) (with_suffix env message p)
       (Some (nativeProgressTelemetry p lo hi))"

definition record_in :: "string \<Rightarrow> jsval \<Rightarrow> jsval" where
  "record_in k v = record_of (js_prop k v)"

section \<open>Fetching through the admin listener\<close>

definition fetch_progress :: "string \<Rightarrow> jsval \<Rightarrow> progress_payload" where
  "fetch_progress backupId status = progress_of ''download'' backupId (record_in ''progress'' status)"

text \<open>The fraction of the polling loop counts batches only.\<close>

definition fetch_event :: "run_env \<Rightarrow> string \<Rightarrow> string \<Rightarrow> jsval \<Rightarrow> backup_event" where
  "fetch_event env backupId message status =
     (let p = fetch_progress backupId status;
          fraction = (if pl_totalBatches p \<noteq> 0 then max 0 (min 1 (pl_completedBatches p / pl_totalBatches p)) else 0)
      in backup_event_of BpDownload (min 60 (25 + fraction * 35)) (with_suffix env message p)
           (Some (nativeProgressTelemetry p 25 60)))"

record restore_plan =
  rp_backupId :: string
  rp_public :: bool
  rp_fetch :: bool
  rp_stagingDir :: string

definition admin_route :: "restore_plan \<Rightarrow> string \<Rightarrow> string" where
  "admin_route p step = (if rp_public p then ''/admin/backup/public/'' else ''/admin/backup/restore/'') @ step"

definition stage_route :: "restore_plan \<Rightarrow> string \<Rightarrow> string" where
  "stage_route p step = (if rp_public p then ''/admin/backup/public/restore/'' else ''/admin/backup/restore/'') @ step"

definition status_route :: "string \<Rightarrow> string" where
  "status_route operationId = ''/admin/backup/status/'' @ encodeURIComponent operationId"

definition id_body :: "restore_plan \<Rightarrow> jsval" where
  "id_body p = JObj [(''backup_id'', JStr (rp_backupId p))]"

definition stage_body :: "restore_plan \<Rightarrow> jsval" where
  "stage_body p = JObj [(''backup_id'', JStr (rp_backupId p)), (''staging_dir'', JStr (rp_stagingDir p))]"

text \<open>One round: \<open>Inl\<close> ends the polling with an outcome (\<open>None\<close>: go on with the restore).\<close>

definition operation_done :: "backup_state \<Rightarrow> backup_state" where
  "operation_done s = s\<lparr>rn_operation := None\<rparr>"

lemma now_done [simp]: "rn_now (operation_done s) = rn_now s"
  by (simp add: operation_done_def)

lemma now_add_events [simp]: "rn_now (add_events es s) = rn_now s"
  by (simp add: add_events_def)

definition fetch_message :: "jsval \<Rightarrow> string" where
  "fetch_message status =
     js_or (stringField (js_prop ''message'' status))
       (''Native restore fetch state: '' @ js_or (stringField (js_prop ''state'' status)) ''unknown'')"

text \<open>The ways out of a round of polling; \<open>None\<close> pauses and asks again.\<close>

datatype poll_end = PollOver | PollCancelled | PollFailed string

definition fetch_verdict :: "restore_plan \<Rightarrow> nat \<Rightarrow> jsval \<Rightarrow> backup_state \<Rightarrow> poll_end option" where
  "fetch_verdict p startedAt status s =
     (let state = stringField (js_prop ''state'' status);
          fetch_result = record_in (if rp_public p then ''public_restore_fetch'' else ''restore_fetch'') status
      in if \<not> rn_now s - startedAt < six_hours then Some PollOver
         else if rn_cancelled s then Some PollCancelled
         else if state = ''succeeded''
         then if js_prop ''ready_to_stage'' fetch_result = JBool False
              then Some (PollFailed (restoreBlockedMessage fetch_result (fetch_message status)))
              else Some PollOver
         else if state = ''failed'' then Some (PollFailed (fetch_message status))
         else None)"

definition status_call :: "string \<Rightarrow> call" where
  "status_call operationId = AdminRequest ''GET'' (status_route operationId) JUndefined 15000"

definition fetch_pause :: "run_env \<Rightarrow> restore_plan \<Rightarrow> jsval \<Rightarrow> backup_state \<Rightarrow> backup_state" where
  "fetch_pause env p status s =
     after env (Pause 1000) (add_events [fetch_event env (rp_backupId p) (fetch_message status) status] s)"

lemma now_fetch_pause: "rn_now (fetch_pause env p status s) \<ge> rn_now s + 1000"
  by (simp add: fetch_pause_def)

lemma fetch_verdict_None: "fetch_verdict p t0 status s = None \<Longrightarrow> rn_now s - t0 < six_hours"
  by (auto simp: fetch_verdict_def Let_def split: if_splits)

function poll_fetch ::
  "run_env \<Rightarrow> admin_connection \<Rightarrow> restore_plan \<Rightarrow> string \<Rightarrow> nat \<Rightarrow> flow \<Rightarrow> jsval \<Rightarrow> backup_state \<Rightarrow> run_outcome" where
  "poll_fetch env ad p operationId startedAt k status s =
     (case fetch_verdict p startedAt status s of
        Some PollOver \<Rightarrow> k (operation_done s)
      | Some PollCancelled \<Rightarrow> cleanupRestoreOnCancel 45 s
      | Some (PollFailed message) \<Rightarrow> fail_run 45 message message (operation_done s)
      | None \<Rightarrow>
          let s1 = fetch_pause env p status s
          in if rn_cancelled s1 then cleanupRestoreOnCancel 45 s1
             else (case backupAdminRequest (rv_parse env) (ad_baseUrl ad) ''GET'' (status_route operationId)
                     (rv_fetch env (length (rn_log s1))) of
                 Inl error \<Rightarrow> restore_throws error (operation_done (after env (status_call operationId) s1))
               | Inr payload \<Rightarrow>
                   poll_fetch env ad p operationId startedAt k (backupStatusPayload payload)
                     (after env (status_call operationId) s1)))"
  by pat_completeness auto
termination
proof (relation "measure (\<lambda>(env, ad, p, operationId, startedAt, k, status, s). six_hours + startedAt - rn_now s)", goal_cases)
  case (2 env ad p operationId startedAt k status s s1 payload)
  with fetch_verdict_None [OF 2(1)] now_fetch_pause [of s env p status] show ?case by auto
qed simp

declare poll_fetch.simps [simp del]

definition fetch_flow :: "run_env \<Rightarrow> admin_connection \<Rightarrow> restore_plan \<Rightarrow> flow \<Rightarrow> flow" where
  "fetch_flow env ad p k =
     emits BpDownload 20
       (if rp_public p then ''Fetching public bootstrap backup metadata and missing objects''
        else ''Fetching remote native backup metadata and missing objects'')
       (request env ad ''POST'' (admin_route p ''fetch'') (id_body p) 30000 (\<lambda>r. or_throw r (\<lambda>payload.
          let status = backupStatusPayload payload; operationId = stringField (js_prop ''operation_id'' status)
          in if operationId = [] then restore_throws ''Backup admin did not return a restore fetch operation id''
             else (\<lambda>s. poll_fetch env ad p operationId (rn_now s) k status (s\<lparr>rn_operation := Some operationId\<rparr>)))))"

section \<open>Restoring through the admin listener\<close>

definition stage_flow :: "run_env \<Rightarrow> admin_connection \<Rightarrow> restore_plan \<Rightarrow> (jsval \<Rightarrow> flow) \<Rightarrow> flow" where
  "stage_flow env ad p k =
     request env ad ''POST'' (stage_route p ''stage'') (stage_body p) six_hours (\<lambda>r.
       case r of
         Inr payload \<Rightarrow> k payload
       | Inl error \<Rightarrow>
           if \<not> backupAdminHeaderTimeout error then restore_throws error
           else unless_cancelled 78 (emits BpRestore 78
             ''Native restore staging is still running; waiting for local staging files to finish'' (\<lambda>s.
               case waitForNativeRestoreStageCompletion env (rp_stagingDir p) six_hours s of
                 (r1, s1) \<Rightarrow> or_throw r1 k s1)))"

definition activate_flow :: "run_env \<Rightarrow> admin_connection \<Rightarrow> restore_plan \<Rightarrow> native_backup \<Rightarrow> jsval \<Rightarrow> jsval \<Rightarrow> flow" where
  "activate_flow env ad p nb preflightPayload stagePayload =
     emits BpRestore 88 ''Writing restore activation request''
       (request env ad ''POST'' (stage_route p ''activate'') (stage_body p) 30000 (\<lambda>r. or_throw r (\<lambda>activationPayload.
          emits BpComplete 100 ''Native backup staged. Stop and restart the node to activate the staged restore.''
            (finish_run True (js_join nl
               [''Native backup staged through running-node admin API.'',
                ''The live database was not replaced. Stop and restart the node to activate the staged restore request.'',
                ''Native backup config: '' @ nb_configPath nb,
                ''Native backup repository: '' @ nb_repositoryDir nb,
                rv_pretty env (JObj [(''preflight'', preflightPayload), (''stage'', stagePayload),
                  (''activation'', activationPayload)])]) ''complete''))))"

definition verify_flow :: "run_env \<Rightarrow> admin_connection \<Rightarrow> restore_plan \<Rightarrow> native_backup \<Rightarrow> flow" where
  "verify_flow env ad p nb =
     unless_cancelled 60 (emits BpVerify 62 ''Verifying selected native backup before staging''
       (request env ad ''POST'' (admin_route p ''preflight'') (id_body p) 30000 (\<lambda>r. or_throw r (\<lambda>preflightPayload.
          let check = parseNativeBackupPreflightPayload preflightPayload
          in if \<not> pf_readyToRestore check
             then fail_run 62 (js_or (sc_message (pf_spaceCheck check)) ''Native backup is not ready to restore'')
               (rv_pretty env preflightPayload)
             else unless_cancelled 62 (fresh_staging env (rp_stagingDir p)
               (unless_cancelled 72 (emits BpRestore 72 ''Staging native backup restore''
                 (stage_flow env ad p (\<lambda>stagePayload.
                    unless_cancelled 88 (activate_flow env ad p nb preflightPayload stagePayload))))))))))"

definition admin_restore :: "run_env \<Rightarrow> admin_connection \<Rightarrow> restore_plan \<Rightarrow> native_backup \<Rightarrow> flow" where
  "admin_restore env ad p nb =
     emits BpPrepare 5 ''Preparing running-node native restore through admin API''
       (if rp_fetch p then fetch_flow env ad p (verify_flow env ad p nb) else verify_flow env ad p nb)"

section \<open>Restoring with the tool\<close>

definition tool_args :: "run_env \<Rightarrow> native_backup \<Rightarrow> string list \<Rightarrow> string list" where
  "tool_args env nb more_args = [''--basedir='' @ rv_baseDir env, ''--config='' @ nb_configPath nb] @ more_args"

definition id_args :: "string \<Rightarrow> string list" where
  "id_args requested = (if requested \<noteq> [] \<and> requested \<noteq> ''latest'' then [''--backup-id='' @ requested] else [])"

definition local_stage_events :: "run_env \<Rightarrow> progress_payload \<Rightarrow> backup_event list" where
  "local_stage_events env p =
     (if pl_phase p \<noteq> ''restore-stage'' then []
      else [range_event env BpRestore 55 88 ''Staging selected local native backup'' p])"

definition fetched_events :: "run_env \<Rightarrow> progress_payload \<Rightarrow> backup_event list" where
  "fetched_events env p =
     (if js_starts_with (pl_phase p) ''restore-metadata''
      then [range_event env BpDownload 25 35 ''Fetching remote backup metadata'' p]
      else if js_starts_with (pl_phase p) ''public-restore-metadata''
      then [range_event env BpDownload 25 35 ''Fetching public backup metadata'' p]
      else if pl_phase p = ''restore-objects''
      then [range_event env BpDownload 35 60 ''Fetching remote backup objects'' p]
      else if pl_phase p = ''public-restore-objects''
      then [range_event env BpDownload 35 60 ''Fetching public backup objects'' p]
      else if pl_phase p \<in> {''restore-stage'', ''public-restore-stage''}
      then [range_event env BpRestore 60 92 ''Staging restored database files'' p]
      else [])"

text \<open>\<open>v || ''\<close> in a text, for the ids a tool prints.\<close>

definition shown_id :: "run_env \<Rightarrow> jsval \<Rightarrow> string" where
  "shown_id env v =
     (case v of JStr t \<Rightarrow> t | JNum n \<Rightarrow> (if truthy v then rv_num_str env n else [])
      | JBool b \<Rightarrow> (if b then ''true'' else []) | _ \<Rightarrow> [])"

definition activation_id :: "run_env \<Rightarrow> string \<Rightarrow> string" where
  "activation_id env output =
     (case parseNativeBackupJsonOutput (rv_parse env) output of
        Inl _ \<Rightarrow> []
      | Inr payload \<Rightarrow> shown_id env (js_prop ''backup_id'' (js_prop ''activation'' payload)))"

definition tool_output :: "native_backup \<Rightarrow> string list \<Rightarrow> string" where
  "tool_output nb outputs =
     js_join nl (filter (\<lambda>t. t \<noteq> [])
       ([''Native backup config: '' @ nb_configPath nb, ''Native backup repository: '' @ nb_repositoryDir nb] @ outputs))"

definition local_restore :: "run_env \<Rightarrow> restore_plan \<Rightarrow> native_backup \<Rightarrow> string \<Rightarrow> flow" where
  "local_restore env p nb requested =
     unless_cancelled 25 (emits BpVerify 25 ''Verifying selected local native backup''
       (run_command env (tool_args env nb ([''--backup-restore-preflight'', ''--backup-json''] @ id_args requested)) 30000
         (\<lambda>checked check_output.
           let why = js_or check_output ''Native backup preflight failed''
           in if \<not> checked then fail_run 30 why why
              else unless_cancelled 55 (emits BpRestore 55 ''Staging selected local native backup''
                (tracked_command env (tool_args env nb ([''--backup-restore-stage'', ''--backup-json'',
                    ''--backup-output='' @ rp_stagingDir p] @ id_args requested)) (local_stage_events env)
                  (\<lambda>staged stage_output.
                    let why = js_or stage_output ''Native backup stage failed''
                    in unless_cancelled 70
                      (if \<not> staged then fail_run 70 why why
                       else unless_cancelled 85 (emits BpRestore 85 ''Writing restore activation request''
                         (run_command env (tool_args env nb [''--backup-restore-activate'', ''--backup-json'',
                             ''--backup-output='' @ rp_stagingDir p]) 30000
                           (\<lambda>activated act_output.
                             let why = js_or act_output ''Native backup activation request failed''
                             in if \<not> activated then fail_run 90 why why
                                else emits BpComplete 100 ''Native backup restored. Start as observer before enabling production.''
                                  (finish_run True (tool_output nb [check_output, stage_output, act_output]) ''complete'')))))))))))"

definition remote_restore :: "run_env \<Rightarrow> restore_plan \<Rightarrow> native_backup \<Rightarrow> string \<Rightarrow> flow" where
  "remote_restore env p nb requested =
     tracked_command env (tool_args env nb
         ([if rp_public p then ''--backup-public-restore'' else ''--backup-restore''] @
          (if rp_public p then publicBootstrapCliArgs (rv_network env) else []) @
          [''--backup-json'', ''--backup-output='' @ rp_stagingDir p] @ id_args requested))
       (fetched_events env)
       (\<lambda>ok output.
         unless_cancelled 92
           (let blocked = restoreBlockedMessageFromOutput (rv_parse env) output (js_or output ''Native restore command failed'');
                restoredBackupId = activation_id env output
            in if \<not> ok then fail_run 60 blocked blocked
               else emits BpComplete 100
                 ((if restoredBackupId \<noteq> [] then ''Native backup restored: '' @ restoredBackupId @ ''.'' else ''Native backup restored.'') @
                  '' Start as observer before enabling production.'')
                 (finish_run True (tool_output nb [output]) ''complete'')))"

definition tool_restore :: "run_env \<Rightarrow> restore_plan \<Rightarrow> native_backup \<Rightarrow> string \<Rightarrow> flow" where
  "tool_restore env p nb requested s =
     (let missing = ''teleno_node binary not found: '' @ rv_binary env
      in if \<not> fs_exists (rn_fs s) (rv_binary env) then fail_run 0 missing missing s
         else unless_cancelled 5 (emits BpPrepare 5 ''Preparing native backup restore''
           (fresh_staging env (rp_stagingDir p)
             (unless_cancelled 12 (emits BpStop 12 ''Stopping node before native restore''
               (stop_node env (\<lambda>stopped output.
                 let why = js_or output ''Could not stop node before native restore''
                 in if \<not> stopped then fail_run 12 why why
                    else emits BpDownload 25 ''Fetching and validating latest native backup''
                      (if \<not> rp_fetch p then local_restore env p nb requested
                       else remote_restore env p nb requested))))))) s)"

section \<open>The operation\<close>

definition nativeBackupRestoreSource :: "jsval \<Rightarrow> backup_source" where
  "nativeBackupRestoreSource v =
     (if v = JStr ''local'' then SrcLocal else if v = JStr ''remote'' then SrcRemote
      else if v = JStr ''public'' then SrcPublic else SrcAuto)"

definition requested_id :: "jsval \<Rightarrow> string" where
  "requested_id input = (case js_prop ''backupId'' input of JStr s \<Rightarrow> js_trim s | _ \<Rightarrow> [])"

definition restore_plan_of :: "run_env \<Rightarrow> jsval \<Rightarrow> restore_plan" where
  "restore_plan_of env input =
     (let source = nativeBackupRestoreSource (js_prop ''backupSource'' input);
          shouldFetchPublic = (source = SrcPublic);
          shouldFetchRemote = (source = SrcRemote \<or> (source = SrcAuto \<and> bs_remoteEnabled (rv_backup env)))
      in \<lparr>rp_backupId = js_or (requested_id input) ''latest'', rp_public = shouldFetchPublic,
          rp_fetch = (shouldFetchRemote \<or> shouldFetchPublic),
          rp_stagingDir = path_join [rv_baseDir env, native_backup_dir, ''restore-staging'']\<rparr>)"

definition restoreNativeBackup :: "run_env \<Rightarrow> jsval \<Rightarrow> flow" where
  "restoreNativeBackup env input s0 =
     (let s = s0\<lparr>rn_cancelled := False\<rparr>;
          source = nativeBackupRestoreSource (js_prop ''backupSource'' input);
          p = restore_plan_of env input
      in case rv_notReady env of
           Some message \<Rightarrow> restore_throws message s
         | None \<Rightarrow>
             (case writeNativeBackupConfig (rv_config env) (rv_network env) (rv_baseDir env) (rv_backup env) (rn_fs s) of
                (Inl message, fs1) \<Rightarrow> restore_throws message (s\<lparr>rn_fs := fs1\<rparr>)
              | (Inr nb, fs1) \<Rightarrow>
                  (if source = SrcRemote \<and> \<not> bs_remoteEnabled (rv_backup env)
                   then restore_throws ''Remote native backup restore was requested, but remote backup is disabled in settings''
                   else if source = SrcPublic \<and> backup_publicBootstrapUrlForNetwork (rv_network env) = []
                   then restore_throws ''Public bootstrap restore is not available for this network.''
                   else runningBackupAdminConnection env (\<lambda>r. or_throw r (\<lambda>conn.
                     case conn of
                       Some ad \<Rightarrow> admin_restore env ad p nb
                     | None \<Rightarrow> tool_restore env p nb (requested_id input)))) (s\<lparr>rn_fs := fs1\<rparr>)))"

section \<open>Calls that matter\<close>

text \<open>Calls that carry the restore forward; a noticed cancellation must keep them from being made. The
  fetch, its polling and the one command of a remote restore are not among them.\<close>

definition step_routes :: "string list" where
  "step_routes = map (\<lambda>b. (if b then ''/admin/backup/public/'' else ''/admin/backup/restore/'') @ ''preflight'') [True, False] @
     concat (map (\<lambda>step. map (\<lambda>b. (if b then ''/admin/backup/public/restore/'' else ''/admin/backup/restore/'') @ step)
       [True, False]) [''stage'', ''activate''])"

definition activating :: "call \<Rightarrow> bool" where
  "activating c =
     (case c of
        AdminRequest verb route body timeout \<Rightarrow>
          route \<in> {''/admin/backup/public/restore/activate'', ''/admin/backup/restore/activate''}
      | RunCommand args timeout \<Rightarrow> ''--backup-restore-activate'' \<in> set args
      | _ \<Rightarrow> False)"

definition guarded :: "call \<Rightarrow> bool" where
  "guarded c =
     (case c of
        AdminRequest verb route body timeout \<Rightarrow> route \<in> set step_routes
      | RunCommand args timeout \<Rightarrow> True
      | TrackedCommand args \<Rightarrow> ''--backup-restore-stage'' \<in> set args
      | NodeStop \<Rightarrow> True
      | _ \<Rightarrow> False)"

text \<open>A check that was passed.\<close>

definition passed_check :: "run_env \<Rightarrow> call \<Rightarrow> answer \<Rightarrow> bool" where
  "passed_check env c a =
     (case (c, a) of
        (AdminRequest verb route body timeout, Fetched r) \<Rightarrow>
          route \<in> {''/admin/backup/public/preflight'', ''/admin/backup/restore/preflight''} \<and>
          (case backupAdminRequest (rv_parse env) [] verb route r of
             Inr payload \<Rightarrow> pf_readyToRestore (parseNativeBackupPreflightPayload payload) | Inl _ \<Rightarrow> False)
      | (RunCommand args timeout, CommandDone ok output) \<Rightarrow> ''--backup-restore-preflight'' \<in> set args \<and> ok
      | _ \<Rightarrow> False)"

text \<open>A call that succeeded.\<close>

definition succeeded :: "run_env \<Rightarrow> call \<Rightarrow> answer \<Rightarrow> bool" where
  "succeeded env c a =
     (case (c, a) of
        (AdminRequest verb route body timeout, Fetched r) \<Rightarrow> (case backupAdminRequest (rv_parse env) [] verb route r of Inr _ \<Rightarrow> True | Inl _ \<Rightarrow> False)
      | (RunCommand args timeout, CommandDone ok output) \<Rightarrow> ok
      | (TrackedCommand args, TrackedDone lines ok output) \<Rightarrow> ok
      | _ \<Rightarrow> False)"

section \<open>Runs in terms of assertions\<close>

definition ends :: "(backup_state \<Rightarrow> bool) \<Rightarrow> (run_outcome \<Rightarrow> bool) \<Rightarrow> flow \<Rightarrow> bool" where
  "ends I Q k \<longleftrightarrow> (\<forall>s. I s \<longrightarrow> Q (k s))"

lemma endsI: "(\<And>s. I s \<Longrightarrow> Q (k s)) \<Longrightarrow> ends I Q k"
  by (simp add: ends_def)

lemma endsD: "ends I Q k \<Longrightarrow> I s \<Longrightarrow> Q (k s)"
  by (simp add: ends_def)

text \<open>An assertion \<open>I\<close> that allowed calls, progress events and the code's own work keep, and from which giving up
  is acceptable. A guarded call is only made when no cancellation was noticed.\<close>

locale run_rules =
  fixes env :: run_env and I :: "backup_state \<Rightarrow> bool" and Q :: "run_outcome \<Rightarrow> bool" and allowed :: "call \<Rightarrow> bool"
  assumes call: "I s \<Longrightarrow> allowed c \<Longrightarrow> (guarded c \<Longrightarrow> \<not> rn_cancelled s) \<Longrightarrow> I (after env c s)"
    and event: "I s \<Longrightarrow> ph \<notin> set terminal_backup_phases \<Longrightarrow> I (add_events [backup_event_of ph p m t] s)"
    and work: "I s \<Longrightarrow> I (s\<lparr>rn_fs := fs\<rparr>)" "I s \<Longrightarrow> I (s\<lparr>rn_operation := oper\<rparr>)" "I s \<Longrightarrow> I (s\<lparr>rn_process := proc\<rparr>)"
    and failed: "I s \<Longrightarrow> Q \<lparr>rx_ok = False, rx_output = out, rx_status = ''error'',
      rx_state = add_events [backup_event_of BpError p m None] s\<rparr>"
    and stopped: "I s \<Longrightarrow> Q \<lparr>rx_ok = False, rx_output = out, rx_status = ''cancelled'',
      rx_state = add_events [backup_event_of BpCancelled p m None] s\<rparr>"

locale run_complete = run_rules +
  assumes complete: "I s \<Longrightarrow> Q \<lparr>rx_ok = True, rx_output = out, rx_status = ''complete'',
      rx_state = add_events [backup_event_of BpComplete 100 m None] s\<rparr>"

lemma emit_add: "emit ph p m t s = add_events [backup_event_of ph p m t] s"
  by (simp add: emit_def add_events_def)

lemma add_events_append: "add_events (es @ fs) s = add_events fs (add_events es s)"
  by (simp add: add_events_def)

context run_rules begin

lemma emits_ends: "ends I Q k \<Longrightarrow> ph \<notin> set terminal_backup_phases \<Longrightarrow> ends I Q (emits ph p m k)"
  by (simp add: ends_def emits_def emit_add event)

lemma fail_ends: "ends I Q (fail_run p m t)"
  by (simp add: ends_def fail_run_def emits_def emit_add finish_run_def failed)

lemma cleanup_ends: "ends I Q (cleanupRestoreOnCancel p)"
  by (rule endsI) (simp add: cleanupRestoreOnCancel_def Let_def emits_def emit_add finish_run_def stopped work)

lemma unless_ends: "(\<And>s. I s \<Longrightarrow> \<not> rn_cancelled s \<Longrightarrow> Q (k s)) \<Longrightarrow> ends I Q (unless_cancelled p k)"
  by (rule endsI) (simp add: unless_cancelled_def endsD [OF cleanup_ends])

lemma throws_ends: "ends I Q (restore_throws m)"
  unfolding restore_throws_def by (rule unless_ends) (rule endsD [OF fail_ends])

lemma or_throw_ends: "(\<And>v. r = Inr v \<Longrightarrow> ends I Q (k v)) \<Longrightarrow> ends I Q (or_throw r k)"
  using throws_ends by (simp add: or_throw_def split: sum.split)

lemma events_kept:
  "I s \<Longrightarrow> \<forall>e \<in> set es. \<exists>ph p m t. ph \<notin> set terminal_backup_phases \<and> e = backup_event_of ph p m t \<Longrightarrow> I (add_events es s)"
proof (induction es arbitrary: s)
  case (Cons e es)
  then have "I (add_events [e] s)" using event by auto
  from Cons.IH [OF this] Cons.prems show ?case by (simp flip: add_events_append)
qed (simp add: add_events_def)

lemma stale_kept:
  assumes "I s" "clearStaleRestorePartialStaging dir s = Inr s'"
  shows "I s' \<and> rn_cancelled s' = rn_cancelled s"
proof -
  have "I (emit BpPrepare 6 m None s)" for m
    using event [OF assms(1)] by (simp add: emit_add terminal_backup_phases_def)
  from work(1) [OF this] assms show ?thesis
    by (auto simp: clearStaleRestorePartialStaging_def Let_def emit_def split: if_splits)
qed

lemma fresh_ends:
  assumes "ends I Q k" shows "ends I Q (fresh_staging env dir k)"
proof (rule endsI)
  fix s assume "I s"
  then show "Q (fresh_staging env dir k s)"
    using stale_kept [of s dir] endsD [OF throws_ends] endsD [OF assms] work(1)
    by (auto simp: fresh_staging_def Let_def split: sum.split option.split)
qed

lemma wait_kept: "e = env \<Longrightarrow> allowed (Pause 2000) \<Longrightarrow> I s \<Longrightarrow> I (snd (wait_for_stage e dir t t0 t1 s))"
proof (induction e dir t t0 t1 s rule: wait_for_stage.induct)
  case (1 e dir t t0 t1 s)
  have pause: "I (after e (Pause 2000) u)" if "I u" for u
    using call [of u "Pause 2000"] that 1(3,4) by (simp add: guarded_def)
  have shown: "I (staging_progress e dir s)"
    unfolding staging_progress_def emit_add using event [OF 1(5)] by (simp add: terminal_backup_phases_def)
  show ?case
  proof (cases "stage_verdict e dir t t0 s")
    case None
    with 1 pause shown show ?thesis by (simp add: wait_for_stage.simps [of env dir t t0 t1 s])
  qed (simp add: wait_for_stage.simps 1(5))
qed

lemma poll_ends:
  assumes k: "ends I Q k" and pause: "allowed (Pause 1000)"
    and get: "\<And>oper. allowed (status_call oper) \<and> \<not> guarded (status_call oper)"
  shows "I s \<Longrightarrow> Q (poll_fetch env ad p oper t0 k status s)"
proof -
  note free = work(2) [where oper = None, folded operation_done_def]
  have "e = env \<Longrightarrow> k' = k \<Longrightarrow> I s \<Longrightarrow> Q (poll_fetch e ad p oper t0 k' status s)" for e k'
  proof (induction e ad p oper t0 k' status s rule: poll_fetch.induct)
    case (1 e ad p oper t0 k' status s)
    let ?s1 = "fetch_pause env p status s"
    have "I (add_events [fetch_event env (rp_backupId p) (fetch_message status) status] s)"
      using event [OF 1(4)] by (simp add: fetch_event_def Let_def terminal_backup_phases_def)
    then have s1: "I ?s1"
      unfolding fetch_pause_def using pause by (intro call) (simp_all add: guarded_def)
    then have s2: "I (after env (status_call oper) ?s1)" using get by (intro call) auto
    show ?case
    proof (cases "fetch_verdict p t0 status s")
      case None
      with 1 s1 s2 free [OF s2] endsD [OF throws_ends] endsD [OF cleanup_ends] show ?thesis
        by (simp add: poll_fetch.simps [of env ad p oper t0 k status s] Let_def split: sum.split)
    next
      case (Some v)
      with 1(2-4) free [OF 1(4)] endsD [OF k] endsD [OF cleanup_ends] endsD [OF fail_ends] show ?thesis
        by (cases v) (simp_all add: poll_fetch.simps [of env ad p oper t0 k status s])
    qed
  qed
  then show "I s \<Longrightarrow> Q (poll_fetch env ad p oper t0 k status s)" by blast
qed

end

lemma request_base:
  "backupAdminRequest parse a verb route r = Inr v \<longleftrightarrow> backupAdminRequest parse b verb route r = Inr v"
  by (simp add: backupAdminRequest_def Let_def split: fetch_result.split option.split)

lemma emitted_fields [simp]:
  "rn_cancelled (emit ph p m t s) = rn_cancelled s" "rn_log (emit ph p m t s) = rn_log s"
  by (simp_all add: emit_def)

lemma admin_calls:
  "\<not> activating (AdminRequest v (admin_route p ''fetch'') b t)" "\<not> guarded (AdminRequest v (admin_route p ''fetch'') b t)"
  "\<not> activating (AdminRequest v (admin_route p ''preflight'') b t)"
  "\<not> activating (AdminRequest v (stage_route p ''stage'') b t)"
  "activating (AdminRequest v (stage_route p ''activate'') b t)"
  "\<not> activating (status_call oper)" "\<not> guarded (status_call oper)"
  "\<not> activating (Pause ms)" "\<not> guarded (Pause ms)" "\<not> activating NodeStatus" "\<not> guarded NodeStatus"
  "\<not> activating NodeStop" "\<not> activating (TrackedCommand args)"
  by (simp_all add: activating_def guarded_def admin_route_def stage_route_def step_routes_def status_call_def status_route_def)

lemma check_route: "admin_route p ''preflight'' \<in> {''/admin/backup/public/preflight'', ''/admin/backup/restore/preflight''}"
  by (simp add: admin_route_def)

text \<open>The assertions of a restore: \<open>I\<close> up to a passed check, \<open>J\<close> from then on, \<open>K\<close> after the call that
  finished it.\<close>

locale restore_phases =
  first: run_rules env I Q "\<lambda>c. \<not> activating c" + second: run_rules env J Q "\<lambda>c. True" +
  third: run_complete env K Q "\<lambda>c. \<not> activating c"
  for env I J K Q +
  assumes check: "I s \<Longrightarrow> \<not> rn_cancelled s \<Longrightarrow> \<not> activating c \<Longrightarrow>
      passed_check env c (answer_of env (length (rn_log s)) c) \<Longrightarrow> J (after env c s)"
    and activated: "J s \<Longrightarrow> \<not> rn_cancelled s \<Longrightarrow> activating c \<Longrightarrow>
      succeeded env c (answer_of env (length (rn_log s)) c) \<Longrightarrow> K (after env c s)"
    and restored: "I s \<Longrightarrow> ''--backup-restore'' \<in> set args \<or> ''--backup-public-restore'' \<in> set args \<Longrightarrow>
      \<not> guarded (TrackedCommand args) \<Longrightarrow>
      succeeded env (TrackedCommand args) (answer_of env (length (rn_log s)) (TrackedCommand args)) \<Longrightarrow>
      K (after env (TrackedCommand args) s)"
begin

lemma done_ends: "ends K Q (emits BpComplete 100 m (finish_run True out ''complete''))"
  by (simp add: ends_def emits_def emit_add finish_run_def third.complete)

lemma activate_ends:
  assumes "J s" "\<not> rn_cancelled s"
  shows "Q (activate_flow env ad p nb a b s)"
proof -
  let ?s = "emit BpRestore 88 ''Writing restore activation request'' None s"
  let ?c = "AdminRequest ''POST'' (stage_route p ''activate'') (stage_body p) 30000"
  let ?r = "rv_fetch env (length (rn_log s))"
  have J: "J ?s" using second.event [OF assms(1)] by (simp add: emit_add terminal_backup_phases_def)
  have tried: "J (after env ?c ?s)" using J assms(2) by (intro second.call) simp_all
  show ?thesis
  proof (cases "backupAdminRequest (rv_parse env) (ad_baseUrl ad) ''POST'' (stage_route p ''activate'') ?r")
    case (Inl e)
    with endsD [OF second.throws_ends tried] show ?thesis
      by (simp add: activate_flow_def emits_def request_def or_throw_def)
  next
    case (Inr v)
    then have "backupAdminRequest (rv_parse env) [] ''POST'' (stage_route p ''activate'') ?r = Inr v" using request_base by metis
    then have "K (after env ?c ?s)"
      using J assms(2) by (intro activated) (simp_all add: admin_calls succeeded_def answer_of_def)
    from endsD [OF done_ends this] Inr show ?thesis
      by (simp add: activate_flow_def emits_def request_def or_throw_def)
  qed
qed

lemma stage_ends:
  assumes "J s" "\<not> rn_cancelled s" and k: "\<And>v. ends J Q (k v)"
  shows "Q (stage_flow env ad p k s)"
proof -
  let ?s = "after env (AdminRequest ''POST'' (stage_route p ''stage'') (stage_body p) six_hours) s"
  have J: "J ?s" using assms(1,2) by (intro second.call) simp_all
  have wait: "Q (case waitForNativeRestoreStageCompletion env (rp_stagingDir p) six_hours u of (r1, s1) \<Rightarrow> or_throw r1 k s1)"
    if "J u" for u
    using second.wait_kept [OF refl _ that] endsD [OF second.or_throw_ends [where k = k, OF k]]
    by (simp add: waitForNativeRestoreStageCompletion_def split_beta)
  have still: "ends J Q (unless_cancelled 78 (emits BpRestore 78 m (\<lambda>s.
      case waitForNativeRestoreStageCompletion env (rp_stagingDir p) six_hours s of (r1, s1) \<Rightarrow> or_throw r1 k s1)))" for m
    using wait second.event by (intro second.unless_ends) (simp add: emits_def emit_add terminal_backup_phases_def)
  show ?thesis
    unfolding stage_flow_def request_def
    using endsD [OF k J] endsD [OF second.throws_ends J] endsD [OF still J] by (simp split: sum.split)
qed

lemma verify_ends: "ends I Q (verify_flow env ad p nb)"
  unfolding verify_flow_def
proof (rule first.unless_ends)
  fix s assume s: "I s" "\<not> rn_cancelled s"
  let ?s = "emit BpVerify 62 ''Verifying selected native backup before staging'' None s"
  let ?c = "AdminRequest ''POST'' (admin_route p ''preflight'') (id_body p) 30000"
  let ?r = "rv_fetch env (length (rn_log s))"
  have I: "I ?s" using first.event [OF s(1)] by (simp add: emit_add terminal_backup_phases_def)
  have tried: "I (after env ?c ?s)" using I s(2) by (intro first.call) (simp_all add: admin_calls)
  have staging: "ends J Q (fresh_staging env (rp_stagingDir p) (unless_cancelled 72 (emits BpRestore 72 m
      (stage_flow env ad p (\<lambda>b. unless_cancelled 88 (activate_flow env ad p nb a b))))))" for m a
    using second.event activate_ends
    by (intro second.fresh_ends second.unless_ends)
      (auto simp: emits_def emit_add terminal_backup_phases_def add_events_def intro!: stage_ends second.unless_ends)
  show "Q (emits BpVerify 62 ''Verifying selected native backup before staging''
       (request env ad ''POST'' (admin_route p ''preflight'') (id_body p) 30000 (\<lambda>r. or_throw r (\<lambda>preflightPayload.
          let check = parseNativeBackupPreflightPayload preflightPayload
          in if \<not> pf_readyToRestore check
             then fail_run 62 (js_or (sc_message (pf_spaceCheck check)) ''Native backup is not ready to restore'')
               (rv_pretty env preflightPayload)
             else unless_cancelled 62 (fresh_staging env (rp_stagingDir p)
               (unless_cancelled 72 (emits BpRestore 72 ''Staging native backup restore''
                 (stage_flow env ad p (\<lambda>stagePayload.
                    unless_cancelled 88 (activate_flow env ad p nb preflightPayload stagePayload))))))))) s)"
  proof (cases "backupAdminRequest (rv_parse env) (ad_baseUrl ad) ''POST'' (admin_route p ''preflight'') ?r")
    case (Inl e)
    with endsD [OF first.throws_ends tried] show ?thesis by (simp add: emits_def request_def or_throw_def)
  next
    case (Inr v)
    then have b: "backupAdminRequest (rv_parse env) [] ''POST'' (admin_route p ''preflight'') ?r = Inr v" using request_base by metis
    show ?thesis
    proof (cases "pf_readyToRestore (parseNativeBackupPreflightPayload v)")
      case True
      then have J: "J (after env ?c ?s)"
        using I s(2) b check_route
        by (intro check) (simp_all add: admin_calls passed_check_def answer_of_def)
      have "ends J Q (unless_cancelled 62 (fresh_staging env (rp_stagingDir p) (unless_cancelled 72 (emits BpRestore 72 m
        (stage_flow env ad p (\<lambda>b. unless_cancelled 88 (activate_flow env ad p nb v b)))))))" for m
        using staging by (intro second.unless_ends) (rule endsD)
      from endsD [OF this J] Inr True show ?thesis by (simp add: emits_def request_def or_throw_def Let_def)
    next
      case False
      with Inr endsD [OF first.fail_ends tried] show ?thesis
        by (simp add: emits_def request_def or_throw_def Let_def)
    qed
  qed
qed

lemma fetch_ends:
  assumes "ends I Q k" shows "ends I Q (fetch_flow env ad p k)"
  unfolding fetch_flow_def
proof (rule first.emits_ends, rule endsI)
  fix s assume "I s"
  let ?c = "AdminRequest ''POST'' (admin_route p ''fetch'') (id_body p) 30000"
  have I: "I (after env ?c s)" using \<open>I s\<close> by (intro first.call) (simp_all add: admin_calls)
  have poll: "ends I Q (\<lambda>s. poll_fetch env ad p oper (rn_now s) k status (s\<lparr>rn_operation := Some oper\<rparr>))" for oper status
    using first.work(2) by (intro endsI first.poll_ends [OF assms]) (simp_all add: admin_calls)
  have "ends I Q (or_throw r (\<lambda>payload.
      let status = backupStatusPayload payload; operationId = stringField (js_prop ''operation_id'' status)
      in if operationId = [] then restore_throws m
         else (\<lambda>s. poll_fetch env ad p operationId (rn_now s) k status (s\<lparr>rn_operation := Some operationId\<rparr>))))" for r m
    using poll first.throws_ends by (intro first.or_throw_ends) (simp add: Let_def)
  from endsD [OF this I]
  show "Q (request env ad ''POST'' (admin_route p ''fetch'') (id_body p) 30000 (\<lambda>r. or_throw r (\<lambda>payload.
      let status = backupStatusPayload payload; operationId = stringField (js_prop ''operation_id'' status)
      in if operationId = [] then restore_throws ''Backup admin did not return a restore fetch operation id''
         else (\<lambda>s. poll_fetch env ad p operationId (rn_now s) k status (s\<lparr>rn_operation := Some operationId\<rparr>)))) s)"
    unfolding request_def .
qed (simp add: terminal_backup_phases_def)

lemma admin_ends: "ends I Q (admin_restore env ad p nb)"
  unfolding admin_restore_def
  by (rule first.emits_ends) (simp_all add: verify_ends fetch_ends terminal_backup_phases_def)

lemma tool_activation_ends:
  "ends J Q (unless_cancelled 85 (emits BpRestore 85 m (run_command env (tool_args env nb
     [''--backup-restore-activate'', ''--backup-json'', out]) 30000 (\<lambda>ok r. if \<not> ok then fail_run 90 (why r) (why r)
       else emits BpComplete 100 m' (finish_run True (text r) ''complete'')))))"
proof (rule second.unless_ends)
  fix s assume s: "J s" "\<not> rn_cancelled s"
  let ?s = "emit BpRestore 85 m None s"
  let ?c = "RunCommand (tool_args env nb [''--backup-restore-activate'', ''--backup-json'', out]) 30000"
  have J: "J ?s" using second.event [OF s(1)] by (simp add: emit_add terminal_backup_phases_def)
  obtain ok r where r: "rv_command env (length (rn_log s)) = (ok, r)" by fastforce
  have "activating ?c" by (simp add: activating_def tool_args_def)
  then have "ok \<Longrightarrow> K (after env ?c ?s)"
    using J s(2) r by (intro activated) (simp_all add: succeeded_def answer_of_def)
  moreover have "J (after env ?c ?s)" using J s(2) by (intro second.call) simp_all
  ultimately show "Q (emits BpRestore 85 m (run_command env (tool_args env nb
     [''--backup-restore-activate'', ''--backup-json'', out]) 30000 (\<lambda>ok r. if \<not> ok then fail_run 90 (why r) (why r)
       else emits BpComplete 100 m' (finish_run True (text r) ''complete''))) s)"
    using endsD [OF done_ends] endsD [OF second.fail_ends] by (simp add: emits_def [of BpRestore] run_command_def r)
qed

lemma staged_ends:
  "ends J Q (unless_cancelled 55 (emits BpRestore 55 m (tracked_command env (tool_args env nb
     ([''--backup-restore-stage'', ''--backup-json'', out] @ id_args requested)) (local_stage_events env)
     (\<lambda>ok r. unless_cancelled 70 (if \<not> ok then fail_run 70 (why r) (why r)
       else unless_cancelled 85 (emits BpRestore 85 m' (run_command env (tool_args env nb
         [''--backup-restore-activate'', ''--backup-json'', out']) 30000 (\<lambda>ok a. if \<not> ok then fail_run 90 (why' a) (why' a)
           else emits BpComplete 100 m'' (finish_run True (text r a) ''complete'')))))))))"
proof (rule second.unless_ends)
  fix s assume s: "J s" "\<not> rn_cancelled s"
  let ?s = "emit BpRestore 55 m None s"
  let ?args = "tool_args env nb ([''--backup-restore-stage'', ''--backup-json'', out] @ id_args requested)"
  obtain lines ok r where r: "rv_tracked env (length (rn_log s)) = (lines, ok, r)" by (metis prod_cases3)
  have "J ?s" using second.event [OF s(1)] by (simp add: emit_add terminal_backup_phases_def)
  then have "J ((after env (TrackedCommand ?args) ?s)\<lparr>rn_process := False\<rparr>)"
    using s(2) by (intro second.work second.call) simp_all
  then have J: "J (add_events (concat (map (local_stage_events env) lines)) ((after env (TrackedCommand ?args) ?s)\<lparr>rn_process := False\<rparr>))"
    by (rule second.events_kept) (auto simp: local_stage_events_def range_event_def terminal_backup_phases_def)
  have rest: "ends J Q (unless_cancelled 70 (if \<not> ok then fail_run 70 (why r) (why r)
       else unless_cancelled 85 (emits BpRestore 85 m' (run_command env (tool_args env nb
         [''--backup-restore-activate'', ''--backup-json'', out']) 30000 (\<lambda>ok a. if \<not> ok then fail_run 90 (why' a) (why' a)
           else emits BpComplete 100 m'' (finish_run True (text r a) ''complete''))))))"
    using endsD [OF second.fail_ends] endsD [OF tool_activation_ends] by (intro second.unless_ends) simp
  show "Q (emits BpRestore 55 m (tracked_command env ?args (local_stage_events env)
     (\<lambda>ok r. unless_cancelled 70 (if \<not> ok then fail_run 70 (why r) (why r)
       else unless_cancelled 85 (emits BpRestore 85 m' (run_command env (tool_args env nb
         [''--backup-restore-activate'', ''--backup-json'', out']) 30000 (\<lambda>ok a. if \<not> ok then fail_run 90 (why' a) (why' a)
           else emits BpComplete 100 m'' (finish_run True (text r a) ''complete''))))))) s)"
    using endsD [OF rest J] by (simp add: emits_def [of BpRestore 55] tracked_command_def r)
qed

lemma local_ends: "ends I Q (local_restore env p nb requested)"
  unfolding local_restore_def
proof (rule first.unless_ends)
  fix s assume s: "I s" "\<not> rn_cancelled s"
  let ?s = "emit BpVerify 25 ''Verifying selected local native backup'' None s"
  let ?c = "RunCommand (tool_args env nb ([''--backup-restore-preflight'', ''--backup-json''] @ id_args requested)) 30000"
  obtain ok r where r: "rv_command env (length (rn_log s)) = (ok, r)" by fastforce
  have I: "I ?s" using first.event [OF s(1)] by (simp add: emit_add terminal_backup_phases_def)
  have plain: "\<not> activating ?c" by (simp add: activating_def tool_args_def id_args_def)
  have tried: "I (after env ?c ?s)" using I s(2) plain by (intro first.call) simp_all
  have "J (after env ?c ?s)" if ok
    using I s(2) plain r that by (intro check) (simp_all add: passed_check_def answer_of_def tool_args_def)
  note go = endsD [OF staged_ends this]
  show "Q (emits BpVerify 25 ''Verifying selected local native backup''
       (run_command env (tool_args env nb ([''--backup-restore-preflight'', ''--backup-json''] @ id_args requested)) 30000
         (\<lambda>checked check_output.
           let why = js_or check_output ''Native backup preflight failed''
           in if \<not> checked then fail_run 30 why why
              else unless_cancelled 55 (emits BpRestore 55 ''Staging selected local native backup''
                (tracked_command env (tool_args env nb ([''--backup-restore-stage'', ''--backup-json'',
                    ''--backup-output='' @ rp_stagingDir p] @ id_args requested)) (local_stage_events env)
                  (\<lambda>staged stage_output.
                    let why = js_or stage_output ''Native backup stage failed''
                    in unless_cancelled 70
                      (if \<not> staged then fail_run 70 why why
                       else unless_cancelled 85 (emits BpRestore 85 ''Writing restore activation request''
                         (run_command env (tool_args env nb [''--backup-restore-activate'', ''--backup-json'',
                             ''--backup-output='' @ rp_stagingDir p]) 30000
                           (\<lambda>activated act_output.
                             let why = js_or act_output ''Native backup activation request failed''
                             in if \<not> activated then fail_run 90 why why
                                else emits BpComplete 100 ''Native backup restored. Start as observer before enabling production.''
                                  (finish_run True (tool_output nb [check_output, stage_output, act_output]) ''complete'')))))))))) s)"
  proof (cases ok)
    case True
    show ?thesis
      unfolding emits_def [of BpVerify] run_command_def [of env _ _ _ ?s] emitted_fields r prod.case Let_def
      using True by (simp only: not_True_eq_False if_False) (rule go [OF True])
  next
    case False
    show ?thesis
      unfolding emits_def [of BpVerify] run_command_def [of env _ _ _ ?s] emitted_fields r prod.case Let_def
      using False endsD [OF first.fail_ends tried] by simp
  qed
qed

lemma fetched_event_phases:
  "\<forall>e \<in> set (concat (map (fetched_events env) lines)). \<exists>ph p m t. ph \<notin> set terminal_backup_phases \<and> e = backup_event_of ph p m t"
  by (auto simp: fetched_events_def range_event_def terminal_backup_phases_def)

lemma remote_ends: "ends I Q (remote_restore env p nb requested)"
proof (rule endsI)
  fix s assume I: "I s"
  let ?args = "tool_args env nb
         ([if rp_public p then ''--backup-public-restore'' else ''--backup-restore''] @
          (if rp_public p then publicBootstrapCliArgs (rv_network env) else []) @
          [''--backup-json'', ''--backup-output='' @ rp_stagingDir p] @ id_args requested)"
  obtain lines ok r where r: "rv_tracked env (length (rn_log s)) = (lines, ok, r)" by (metis prod_cases3)
  have restore: "''--backup-restore'' \<in> set ?args \<or> ''--backup-public-restore'' \<in> set ?args" by (simp add: tool_args_def)
  have free: "\<not> guarded (TrackedCommand ?args)"
    by (auto simp: guarded_def tool_args_def id_args_def publicBootstrapCliArgs_def Let_def backup_publicBootstrapUrlForNetwork_def
        public_testnet_bootstrap_url_def public_mainnet_bootstrap_url_def split: network.split if_splits)
  let ?t = "add_events (concat (map (fetched_events env) lines)) ((after env (TrackedCommand ?args) s)\<lparr>rn_process := False\<rparr>)"
  have tried: "I ?t"
    using I free by (intro first.events_kept [OF _ fetched_event_phases] first.work first.call) (simp_all add: admin_calls)
  have "K ?t" if ok
    using restored [OF I restore free] that r
    by (intro third.events_kept [OF _ fetched_event_phases] third.work) (simp_all add: succeeded_def answer_of_def)
  note go = endsD [OF done_ends this]
  show "Q (remote_restore env p nb requested s)"
    unfolding remote_restore_def tracked_command_def r prod.case unless_cancelled_def Let_def
    using endsD [OF first.cleanup_ends tried] endsD [OF first.fail_ends tried] go by simp
qed

lemma tool_ends: "ends I Q (tool_restore env p nb requested)"
proof -
  have stop: "ends I Q (unless_cancelled 12 (emits BpStop 12 m (stop_node env (\<lambda>stopped output.
      if \<not> stopped then fail_run 12 (why output) (why output)
      else emits BpDownload 25 m' (if \<not> rp_fetch p then local_restore env p nb requested
        else remote_restore env p nb requested)))))" for m m' why
  proof (rule first.unless_ends)
    fix s assume s: "I s" "\<not> rn_cancelled s"
    let ?s = "emit BpStop 12 m None s"
    obtain ok r where r: "rv_stop env (length (rn_log s)) = (ok, r)" by fastforce
    have "I ?s" using first.event [OF s(1)] by (simp add: emit_add terminal_backup_phases_def)
    then have I: "I (after env NodeStop ?s)" using s(2) by (intro first.call) (simp_all add: admin_calls)
    have "ends I Q (emits BpDownload 25 m' (if \<not> rp_fetch p then local_restore env p nb requested
        else remote_restore env p nb requested))"
      by (rule first.emits_ends) (simp_all add: local_ends remote_ends terminal_backup_phases_def)
    with I endsD [OF first.fail_ends I] show "Q (emits BpStop 12 m (stop_node env (\<lambda>stopped output.
      if \<not> stopped then fail_run 12 (why output) (why output)
      else emits BpDownload 25 m' (if \<not> rp_fetch p then local_restore env p nb requested
        else remote_restore env p nb requested))) s)"
      by (simp add: emits_def [of BpStop] stop_node_def r endsD)
  qed
  have "ends I Q (unless_cancelled 5 (emits BpPrepare 5 m0 (fresh_staging env (rp_stagingDir p)
      (unless_cancelled 12 (emits BpStop 12 m (stop_node env (\<lambda>stopped output.
      if \<not> stopped then fail_run 12 (why output) (why output)
      else emits BpDownload 25 m' (if \<not> rp_fetch p then local_restore env p nb requested
        else remote_restore env p nb requested))))))))" for m0 m m' why
    by (rule first.unless_ends, rule endsD [OF first.emits_ends [OF first.fresh_ends [OF stop]]])
      (simp_all add: terminal_backup_phases_def)
  note run = endsD [OF this]
  show ?thesis
  proof (rule endsI)
    fix s assume s: "I s"
    have pick: "(a \<Longrightarrow> Q x) \<Longrightarrow> (\<not> a \<Longrightarrow> Q y) \<Longrightarrow> Q (if a then x else y)" for a x y by simp
    show "Q (tool_restore env p nb requested s)"
      unfolding tool_restore_def Let_def by (rule pick) (rule endsD [OF first.fail_ends s] run [OF s])+
  qed
qed

lemma restore_ends:
  assumes "I (s\<lparr>rn_cancelled := False\<rparr>)" shows "Q (restoreNativeBackup env input s)"
proof -
  let ?s = "s\<lparr>rn_cancelled := False\<rparr>"
  have conn: "ends I Q (runningBackupAdminConnection env (\<lambda>r. or_throw r (\<lambda>conn.
      case conn of Some ad \<Rightarrow> admin_restore env ad p nb | None \<Rightarrow> tool_restore env p nb requested)))" for p nb requested
  proof -
    have k: "ends I Q (or_throw r (\<lambda>conn. case conn of Some ad \<Rightarrow> admin_restore env ad p nb | None \<Rightarrow> tool_restore env p nb requested))" for r
      by (rule first.or_throw_ends) (simp add: admin_ends tool_ends split: option.split)
    have "I (after env NodeStatus u)" if "I u" for u using that by (intro first.call) (simp_all add: admin_calls)
    then show ?thesis
      by (intro endsI) (simp add: runningBackupAdminConnection_def Let_def endsD [OF k] split: option.split)
  qed
  have written: "I (?s\<lparr>rn_fs := fs1\<rparr>)" for fs1 using first.work(1) [OF assms] by simp
  show ?thesis
    using endsD [OF first.throws_ends assms] endsD [OF first.throws_ends written] endsD [OF conn written]
    by (simp add: restoreNativeBackup_def Let_def split: option.split prod.split sum.split)
qed

end

section \<open>What the log of a restore shows\<close>

definition finishing :: "run_env \<Rightarrow> log_entry \<Rightarrow> bool" where
  "finishing env e \<longleftrightarrow> succeeded env (lg_call e) (lg_answer e) \<and>
     (activating (lg_call e) \<or>
      (case lg_call e of
         TrackedCommand args \<Rightarrow> ''--backup-restore'' \<in> set args \<or> ''--backup-public-restore'' \<in> set args
       | _ \<Rightarrow> False))"

definition heedless :: "log_entry \<Rightarrow> bool" where
  "heedless e \<longleftrightarrow> guarded (lg_call e) \<and> lg_cancelled e"

fun activations_checked :: "run_env \<Rightarrow> bool \<Rightarrow> log_entry list \<Rightarrow> bool" where
  "activations_checked env checked [] = True"
| "activations_checked env checked (e # es) =
     ((checked \<or> \<not> activating (lg_call e)) \<and>
      activations_checked env (checked \<or> passed_check env (lg_call e) (lg_answer e)) es)"

lemma activations_checked_snoc:
  "activations_checked env b (es @ [e]) \<longleftrightarrow> activations_checked env b es \<and>
     (b \<or> list_ex (\<lambda>e. passed_check env (lg_call e) (lg_answer e)) es \<or> \<not> activating (lg_call e))"
  by (induction es arbitrary: b) auto

lemma no_activation_checked: "list_all (\<lambda>e. \<not> activating (lg_call e)) es \<Longrightarrow> activations_checked env b es"
  by (induction es arbitrary: b) auto

definition heeds :: "run_env \<Rightarrow> log_entry list \<Rightarrow> (log_entry list \<Rightarrow> bool) \<Rightarrow> backup_state \<Rightarrow> bool" where
  "heeds env before P s \<longleftrightarrow> (\<exists>es. rn_log s = before @ es \<and> list_all (\<lambda>e. \<not> heedless e) es \<and>
     activations_checked env False es \<and> P es)"

definition ended_well :: "run_env \<Rightarrow> log_entry list \<Rightarrow> run_outcome \<Rightarrow> bool" where
  "ended_well env before r \<longleftrightarrow> heeds env before (\<lambda>es. rx_ok r \<longrightarrow> list_ex (finishing env) es) (rx_state r)"

definition tame :: "log_entry list \<Rightarrow> bool" where
  "tame es = list_all (\<lambda>e. \<not> activating (lg_call e)) es"

definition checked :: "run_env \<Rightarrow> log_entry list \<Rightarrow> bool" where
  "checked env es = list_ex (\<lambda>e. passed_check env (lg_call e) (lg_answer e)) es"

lemma log_add_events [simp]: "rn_log (add_events es s) = rn_log s"
  by (simp add: add_events_def)

lemma heeds_work [simp]:
  "heeds env b P (s\<lparr>rn_fs := fs\<rparr>) = heeds env b P s" "heeds env b P (s\<lparr>rn_operation := oper\<rparr>) = heeds env b P s"
  "heeds env b P (s\<lparr>rn_process := proc\<rparr>) = heeds env b P s" "heeds env b P (add_events es s) = heeds env b P s"
  by (simp_all add: heeds_def)

lemma log_after: "rn_log (after env c s) = rn_log s @
    [\<lparr>lg_call = c, lg_cancelled = rn_cancelled s, lg_answer = answer_of env (length (rn_log s)) c\<rparr>]"
  by (simp add: after_def Let_def)

lemma heeds_call:
  assumes "heeds env b P s" "guarded c \<Longrightarrow> \<not> rn_cancelled s"
    and "\<And>es e. P es \<Longrightarrow> lg_call e = c \<Longrightarrow> lg_answer e = answer_of env (length (rn_log s)) c \<Longrightarrow>
      R (es @ [e]) \<and> (checked env es \<or> \<not> activating c)"
  shows "heeds env b R (after env c s)"
proof -
  obtain es where es: "rn_log s = b @ es" "list_all (\<lambda>e. \<not> heedless e) es" "activations_checked env False es" "P es"
    using assms(1) by (auto simp: heeds_def)
  let ?e = "\<lparr>lg_call = c, lg_cancelled = rn_cancelled s, lg_answer = answer_of env (length (rn_log s)) c\<rparr>"
  have "R (es @ [?e]) \<and> (checked env es \<or> \<not> activating c)" using es(4) by (intro assms(3)) simp_all
  moreover have "\<not> heedless ?e" using assms(2) by (auto simp: heedless_def)
  ultimately show ?thesis
    unfolding heeds_def using es by (intro exI [of _ "es @ [?e]"])
      (simp add: log_after activations_checked_snoc checked_def)
qed

lemma ended_wellI: "heeds env b P s \<Longrightarrow> ok \<longrightarrow> (\<forall>es. P es \<longrightarrow> list_ex (finishing env) es) \<Longrightarrow> rn_log t = rn_log s \<Longrightarrow>
    ended_well env b \<lparr>rx_ok = ok, rx_output = out, rx_status = st, rx_state = t\<rparr>"
  unfolding ended_well_def heeds_def by auto

interpretation log_run: restore_phases env "heeds env before tame" "heeds env before (checked env)"
    "heeds env before (list_ex (finishing env))" "ended_well env before" for env before
proof (unfold_locales, goal_cases)
  case (1 s c)
  then show ?case by (intro heeds_call [OF 1(1)]) (auto simp: tame_def)
next
  case (8 s c)
  then show ?case by (intro heeds_call [OF 8(1)]) (auto simp: checked_def)
next
  case (15 s c)
  then show ?case by (intro heeds_call [OF 15(1)]) auto
next
  case (23 s c)
  then show ?case by (intro heeds_call [OF 23(1)]) (auto simp: checked_def)
next
  case (24 s c)
  then show ?case by (intro heeds_call [OF 24(1)]) (auto simp: finishing_def)
next
  case (25 s args)
  then show ?case by (intro heeds_call [OF 25(1)]) (auto simp: finishing_def admin_calls)
qed (auto intro: ended_wellI)



text \<open>A restore reports success only when the call that finishes it succeeded: the activation of a staged
  backup, or the tool's restore command.\<close>

theorem restored_only_when_finished:
  assumes "rx_ok (restoreNativeBackup env input s)"
  shows "list_ex (finishing env) (drop (length (rn_log s)) (rn_log (rx_state (restoreNativeBackup env input s))))"
proof -
  have "heeds env (rn_log s) tame (s\<lparr>rn_cancelled := False\<rparr>)" by (simp add: heeds_def tame_def)
  from log_run.restore_ends [OF this, of input] assms show ?thesis
    by (auto simp: ended_well_def heeds_def)
qed

lemma sample_restored: "rx_ok (restoreNativeBackup sample_run_env (JObj [(''backupSource'', JStr ''local'')]) sample_run_state)"
proof -
  obtain paths fs' where
    "writeNativeBackupConfig sample_config_env Testnet ''/b'' default_backup_settings (\<lambda>_. None) = (Inr paths, fs')"
    using sample_config_written by blast
  moreover have "loc ''/teleno_node'' = [''teleno_node'']" by code_simp
  moreover have "loc ''/b/.teleno-native-backups/restore-staging'' = [''b'', ''.teleno-native-backups'', ''restore-staging'']"
    "loc ''/b/.teleno-native-backups/restore-staging.partial'' = [''b'', ''.teleno-native-backups'', ''restore-staging.partial'']"
    "path_join [''/b'', native_backup_dir, ''restore-staging''] = ''/b/.teleno-native-backups/restore-staging''"
    by code_simp+
  ultimately show ?thesis
    by (simp add: restoreNativeBackup_def Let_def sample_run_env_def sample_run_state_def restore_plan_of_def
        nativeBackupRestoreSource_def runningBackupAdminConnection_def default_backup_settings_def or_throw_def
        tool_restore_def unless_cancelled_def emits_def emit_def fresh_staging_def clearStaleRestorePartialStaging_def
        fs_exists_def after_def stop_node_def local_restore_def run_command_def tracked_command_def finish_run_def
        mkdir_all_def rm_tree_def add_events_def)
qed

theorem restored_only_when_finished_witness:
  "list_ex (finishing sample_run_env) (rn_log (rx_state
     (restoreNativeBackup sample_run_env (JObj [(''backupSource'', JStr ''local'')]) sample_run_state)))"
  using restored_only_when_finished [OF sample_restored] by (simp add: sample_run_state_def)

section \<open>Reporting\<close>

definition going :: "backup_event list \<Rightarrow> backup_state \<Rightarrow> bool" where
  "going before s \<longleftrightarrow> (\<exists>es. rn_events s = before @ es \<and>
     list_all (\<lambda>e. fair_event e \<and> ev_phase e \<notin> set terminal_backup_phases) es)"

definition endings :: "(backup_phase \<times> bool \<times> string) set" where
  "endings = {(BpComplete, True, ''complete''), (BpCancelled, False, ''cancelled''), (BpError, False, ''error'')}"

definition told :: "backup_event list \<Rightarrow> run_outcome \<Rightarrow> bool" where
  "told before r \<longleftrightarrow> (\<exists>es e. rn_events (rx_state r) = before @ es @ [e] \<and> list_all fair_event (es @ [e]) \<and>
     list_all (\<lambda>e. ev_phase e \<notin> set terminal_backup_phases) es \<and> (ev_phase e, rx_ok r, rx_status r) \<in> endings)"

lemma going_work [simp]:
  "going b (s\<lparr>rn_fs := fs\<rparr>) = going b s" "going b (s\<lparr>rn_operation := oper\<rparr>) = going b s"
  "going b (s\<lparr>rn_process := proc\<rparr>) = going b s" "going b (after env c s) = going b s"
  by (simp_all add: going_def after_def Let_def)

lemma going_event: "going b s \<Longrightarrow> ph \<notin> set terminal_backup_phases \<Longrightarrow> going b (add_events [backup_event_of ph p m t] s)"
  by (auto simp: going_def add_events_def)

lemma toldI: "going b s \<Longrightarrow> (ph, ok, st) \<in> endings \<Longrightarrow>
    told b \<lparr>rx_ok = ok, rx_output = out, rx_status = st, rx_state = add_events [backup_event_of ph p m t] s\<rparr>"
  by (fastforce simp: going_def told_def add_events_def list_all_iff)

interpretation told_run: restore_phases env "going before" "going before" "going before" "told before" for env before
  by unfold_locales (auto intro: going_event toldI simp: endings_def)

text \<open>C35: Every restore of a native backup ends with exactly one final event, the last one, and it agrees
  with the status the caller gets: complete, cancelled or error; success is reported with the status
  complete only. Every progress value sent lies between 0 and 100.\<close>

theorem native_restore_reports_once:
  "\<exists>es e. rn_events (rx_state (restoreNativeBackup env input s)) = rn_events s @ es @ [e] \<and>
     list_all (\<lambda>e. 0 \<le> ev_progress e \<and> ev_progress e \<le> 100) (es @ [e]) \<and>
     list_all (\<lambda>e. ev_phase e \<notin> set terminal_backup_phases) es \<and>
     (ev_phase e, rx_ok (restoreNativeBackup env input s), rx_status (restoreNativeBackup env input s)) \<in>
       {(BpComplete, True, ''complete''), (BpCancelled, False, ''cancelled''), (BpError, False, ''error'')}"
proof -
  have "going (rn_events s) (s\<lparr>rn_cancelled := False\<rparr>)" by (simp add: going_def)
  from told_run.restore_ends [OF this, of env input] show ?thesis
    by (simp only: told_def endings_def fair_event_def [abs_def])
qed

end
