(* ===== verification/NativeBackups.thy ===== *)
theory NativeBackups
  imports NativeRestore
begin

text \<open>
  The other operations on native backups (electron/lib/backup-service.ts): creating one, stopping an
  operation, listing, purging, the restore check and the dry run.

  Main results: a backup is made with the tool only when the node was not seen running
  (\<open>offline_backup_needs_a_stopped_node\<close>), creating reports once (\<open>create_reports_once\<close>), a purge names
  one backup and confirms it (\<open>purge_names_one_backup\<close>).
\<close>

section \<open>Creating a backup\<close>

definition cleanupOnCancel :: flow where
  "cleanupOnCancel s =
     (let message = ''Backup stopped by user. Partial backup data may remain in the backup workspace.''
      in emits BpCancelled 0 message (finish_run False message ''cancelled'') (s\<lparr>rn_process := False\<rparr>))"

definition create_throws :: "string \<Rightarrow> flow" where
  "create_throws message = fail_run 0 (''Error creando backup: '' @ message) message"

definition created_message :: "string \<Rightarrow> rat \<Rightarrow> string \<Rightarrow> string" where
  "created_message backupId totalBytes remoteSummary =
     (if backupId \<noteq> []
      then ''Native hot backup created: '' @ backupId @
        (if totalBytes \<noteq> 0 then '' ('' @ formatByteCount (Fin totalBytes) @ '')'' else []) @ ''.'' @ remoteSummary
      else ''Native hot backup created'')"

definition create_message :: "jsval \<Rightarrow> string" where
  "create_message status =
     js_or (stringField (js_prop ''message'' status))
       (''Native admin backup state: '' @ js_or (stringField (js_prop ''state'' status)) ''unknown'')"

definition uploaded_to :: "string \<Rightarrow> string" where
  "uploaded_to remoteDirectory = (if remoteDirectory \<noteq> [] then '' Remote uploaded to '' @ remoteDirectory else [])"

text \<open>The event of a round: an upload shows its batches, the rest only where it is.\<close>

definition create_event :: "run_env \<Rightarrow> jsval \<Rightarrow> backup_event" where
  "create_event env status =
     (let currentPhase = stringField (js_prop ''phase'' status); message = create_message status
      in if currentPhase = ''upload'' \<or> currentPhase = ''upload-latest''
         then (let p = progress_of currentPhase [] (record_in ''progress'' status);
                   fraction = (if pl_totalBatches p \<noteq> 0 then max 0 (min 1 (pl_completedBatches p / pl_totalBatches p)) else 0)
               in backup_event_of BpUpload (min 95 (45 + fraction * 50)) (with_suffix env message p)
                    (Some (nativeProgressTelemetry p 45 95)))
         else backup_event_of BpSave (if currentPhase = ''checkpoint'' then 20 else 35) message None)"

datatype create_end = CreateTimedOut | CreateCancelled | CreateDone | CreateFailed

definition create_verdict :: "nat \<Rightarrow> jsval \<Rightarrow> backup_state \<Rightarrow> create_end option" where
  "create_verdict startedAt status s =
     (let state = stringField (js_prop ''state'' status)
      in if \<not> rn_now s - startedAt < six_hours then Some CreateTimedOut
         else if rn_cancelled s then Some CreateCancelled
         else if state = ''succeeded'' then Some CreateDone
         else if state = ''failed'' then Some CreateFailed
         else None)"

definition create_done :: "run_env \<Rightarrow> string \<Rightarrow> jsval \<Rightarrow> flow" where
  "create_done env operationId status =
     (let snapshot = record_in ''snapshot'' status; remoteUpload = record_in ''remote_upload'' status
      in emits BpComplete 100
           (created_message (stringField (js_prop ''backup_id'' snapshot)) (numberField (js_prop ''total_bytes'' snapshot))
             (uploaded_to (stringField (js_prop ''remote_directory'' remoteUpload))))
           (finish_run True (js_join nl
              [''Native backup created through running-node admin API'', ''Operation ID: '' @ operationId,
               rv_pretty env status]) ''complete''))"

definition create_pause :: "run_env \<Rightarrow> jsval \<Rightarrow> backup_state \<Rightarrow> backup_state" where
  "create_pause env status s = after env (Pause 1000) (add_events [create_event env status] s)"

definition interrupted_message :: "string \<Rightarrow> string" where
  "interrupted_message detail = js_join '' ''
     [''The running node stopped while the native backup was in progress.'',
      ''The backup did not complete; clear the partial local staging data and start the backup again.'', detail]"

lemma now_create_pause: "rn_now (create_pause env status s) \<ge> rn_now s + 1000"
  by (simp add: create_pause_def)

lemma create_verdict_None: "create_verdict t0 status s = None \<Longrightarrow> rn_now s - t0 < six_hours"
  by (auto simp: create_verdict_def Let_def split: if_splits)

function poll_create :: "run_env \<Rightarrow> admin_connection \<Rightarrow> string \<Rightarrow> nat \<Rightarrow> jsval \<Rightarrow> backup_state \<Rightarrow> run_outcome" where
  "poll_create env ad operationId startedAt status s =
     (case create_verdict startedAt status s of
        Some CreateTimedOut \<Rightarrow> create_throws ''Native admin backup timed out'' (operation_done s)
      | Some CreateCancelled \<Rightarrow> cleanupOnCancel (operation_done s)
      | Some CreateDone \<Rightarrow> create_done env operationId status (operation_done s)
      | Some CreateFailed \<Rightarrow> fail_run 70 (create_message status) (create_message status) (operation_done s)
      | None \<Rightarrow>
          let s1 = create_pause env status s
          in (case backupAdminRequest (rv_parse env) (ad_baseUrl ad) ''GET'' (status_route operationId)
                (rv_fetch env (length (rn_log s1))) of
                Inl detail \<Rightarrow> fail_run 70 (interrupted_message detail) (interrupted_message detail)
                  (operation_done (after env (status_call operationId) s1))
              | Inr payload \<Rightarrow>
                  poll_create env ad operationId startedAt (backupStatusPayload payload)
                    (after env (status_call operationId) s1)))"
  by pat_completeness auto
termination
proof (relation "measure (\<lambda>(env, ad, operationId, startedAt, status, s). six_hours + startedAt - rn_now s)", goal_cases)
  case (2 env ad operationId startedAt status s s1 payload)
  with create_verdict_None [OF 2(1)] now_create_pause [of s env status] show ?case by auto
qed simp

declare poll_create.simps [simp del]

definition admin_create :: "run_env \<Rightarrow> admin_connection \<Rightarrow> flow" where
  "admin_create env ad =
     emits BpPrepare 5 ''Requesting running-node backup through native admin API''
       (request env ad ''POST'' ''/admin/backup/create'' (JObj [(''remote'', JBool (bs_remoteEnabled (rv_backup env)))]) 15000
         (\<lambda>r. case r of
            Inl error \<Rightarrow> create_throws error
          | Inr payload \<Rightarrow>
              let status = backupStatusPayload payload; operationId = stringField (js_prop ''operation_id'' status)
              in if operationId = [] then create_throws ''Backup admin did not return an operation id''
                 else (\<lambda>s. poll_create env ad operationId (rn_now s) status (s\<lparr>rn_operation := Some operationId\<rparr>))))"

definition upload_events :: "run_env \<Rightarrow> progress_payload \<Rightarrow> backup_event list" where
  "upload_events env p =
     (if pl_phase p \<noteq> ''upload-latest'' then []
      else [range_event env BpUpload 45 95 ''Uploading native backup to remote SFTP'' p])"

text \<open>What the tool says it made: the id, the size and where it was uploaded.\<close>

definition made_message :: "run_env \<Rightarrow> string \<Rightarrow> string" where
  "made_message env output =
     (case parseNativeBackupJsonOutput (rv_parse env) output of
        Inl _ \<Rightarrow> created_message [] 0 []
      | Inr payload \<Rightarrow>
          let local_part = js_prop ''local_snapshot'' payload;
              amount = (\<lambda>v. case v of JNum (Fin b) \<Rightarrow> Some b | JNum _ \<Rightarrow> Some 0 | _ \<Rightarrow> None)
          in created_message
               (js_or (shown_id env (js_prop ''backup_id'' local_part)) (shown_id env (js_prop ''backup_id'' payload)))
               (case amount (js_prop ''total_bytes'' local_part) of
                  Some b \<Rightarrow> b
                | None \<Rightarrow> (case amount (js_prop ''total_bytes'' payload) of Some b \<Rightarrow> b | None \<Rightarrow> 0))
               (uploaded_to (shown_id env (js_prop ''remote_directory'' (js_prop ''remote_upload'' payload)))))"

definition tool_create :: "run_env \<Rightarrow> native_backup \<Rightarrow> flow" where
  "tool_create env nb s =
     (let missing = ''teleno_node binary not found: '' @ rv_binary env
      in if \<not> fs_exists (rn_fs s) (rv_binary env) then fail_run 0 missing missing s
         else emits BpPrepare 5 ''Preparing native hot backup repository''
           (emits BpSave 20 (''Creating hot RocksDB checkpoint in '' @ nb_workspaceDir nb)
             (tracked_command env (tool_args env nb [''--backup-create'', ''--backup-json'']) (upload_events env)
               (\<lambda>ok output s.
                  if rn_cancelled s then cleanupOnCancel s
                  else if \<not> ok then fail_run 60 (js_or output ''Native backup command failed'')
                    (js_or output ''Native backup command failed'') s
                  else emits BpComplete 100 (made_message env output)
                    (finish_run True (js_join nl (filter (\<lambda>t. t \<noteq> [])
                       [''Native backup repository: '' @ nb_repositoryDir nb, ''Native backup workspace: '' @ nb_workspaceDir nb,
                        output])) ''complete'') s))) s)"

definition running_message :: "run_env \<Rightarrow> string" where
  "running_message env =
     (if bs_adminEnabled (rv_backup env)
      then ''The node is already running, but the Backup Admin API is not reachable. Save Backup Admin settings and restart the node, then create the backup again.''
      else ''The node is already running, but Backup Admin is disabled. Enable Backup Admin, save settings, restart the node, then create the backup again.'')"

definition seen_running :: "jsval option \<Rightarrow> bool" where
  "seen_running status = (case status of Some v \<Rightarrow> nodeStatusLooksRunning v | None \<Rightarrow> False)"

definition createLocalBackup :: "run_env \<Rightarrow> flow" where
  "createLocalBackup env s0 =
     (let s = s0\<lparr>rn_cancelled := False\<rparr>
      in case rv_notReady env of
           Some message \<Rightarrow> create_throws message s
         | None \<Rightarrow>
             (case writeNativeBackupConfig (rv_config env) (rv_network env) (rv_baseDir env) (rv_backup env) (rn_fs s) of
                (Inl message, fs1) \<Rightarrow> create_throws message (s\<lparr>rn_fs := fs1\<rparr>)
              | (Inr nb, fs1) \<Rightarrow>
                  let nodeRunning = seen_running (rv_status env (length (rn_log s)))
                  in runningBackupAdminConnection env
                       (\<lambda>r. case r of
                          Inl message \<Rightarrow> create_throws message
                        | Inr (Some ad) \<Rightarrow> admin_create env ad
                        | Inr None \<Rightarrow>
                            if nodeRunning then fail_run 0 (running_message env) (running_message env)
                            else tool_create env nb)
                       (after env NodeStatus (s\<lparr>rn_fs := fs1\<rparr>))))"

section \<open>Stopping an operation\<close>

text \<open>\<open>ask\<close> is the cancel request for an operation of the node. The result: what the caller gets, whether
  the running process gets a signal, and the state.\<close>

definition cancelCreateBackup ::
  "(string \<Rightarrow> string + jsval) \<Rightarrow> backup_state \<Rightarrow> (bool \<times> string) \<times> bool \<times> backup_state" where
  "cancelCreateBackup ask s =
     (let s1 = s\<lparr>rn_cancelled := True\<rparr>
      in case rn_operation s of
           Some operationId \<Rightarrow>
             (case ask operationId of
                Inr _ \<Rightarrow> (True, ''Backup operation cancel signal sent through the admin API'')
              | Inl message \<Rightarrow> (False, message), False, s1)
         | None \<Rightarrow>
             if \<not> rn_process s \<and> \<not> rn_cancelled s
             then ((True, ''Cancel requested. The current backup operation will stop at the next safe checkpoint.''), False, s1)
             else ((True, ''Cancel signal sent to the native backup operation''), rn_process s, s1))"

definition isBackupOperationActive :: "backup_state \<Rightarrow> bool" where
  "isBackupOperationActive s \<longleftrightarrow> rn_process s \<or> rn_operation s \<noteq> None"

section \<open>Listing, checking, purging\<close>

record list_result =
  lr_ok :: bool
  lr_output :: string
  lr_source :: backup_source
  lr_paths :: "native_backup option"
  lr_list :: native_list

definition no_list :: native_list where
  "no_list = \<lparr>nl_latestBackupId = [], nl_remoteSpace = None, nl_snapshots = []\<rparr>"

definition list_public :: "jsval \<Rightarrow> bool" where
  "list_public input = truthy (js_prop ''public'' input)"

definition list_remote :: "jsval \<Rightarrow> bool" where
  "list_remote input \<longleftrightarrow> \<not> list_public input \<and> truthy (js_prop ''remote'' input)"

definition list_source :: "jsval \<Rightarrow> backup_source" where
  "list_source input = (if list_public input then SrcPublic else if list_remote input then SrcRemote else SrcLocal)"

definition list_timeout :: "jsval \<Rightarrow> nat" where
  "list_timeout input = (if list_remote input \<or> list_public input then 120000 else 30000)"

definition list_failed :: "jsval \<Rightarrow> string \<Rightarrow> backup_state \<Rightarrow> list_result \<times> backup_state" where
  "list_failed input message s =
     (\<lparr>lr_ok = False, lr_output = message, lr_source = list_source input, lr_paths = None, lr_list = no_list\<rparr>, s)"

definition list_route :: "jsval \<Rightarrow> string" where
  "list_route input =
     (if list_public input then ''/admin/backup/public/snapshots''
      else if list_remote input then ''/admin/backup/snapshots/remote'' else ''/admin/backup/snapshots/local'')"

definition list_args :: "run_env \<Rightarrow> native_backup \<Rightarrow> jsval \<Rightarrow> string list" where
  "list_args env nb input =
     tool_args env nb ([if list_public input then ''--backup-public-list''
         else if list_remote input then ''--backup-list-remote'' else ''--backup-list''] @
       (if list_public input then publicBootstrapCliArgs (rv_network env) else []) @ [''--backup-json''])"

text \<open>Without an answer of the node, or with one about a remote list that lacks the space there, the tool is
  asked; the answer of the node is kept when the tool fails.\<close>

definition tool_list ::
  "run_env \<Rightarrow> native_backup \<Rightarrow> jsval \<Rightarrow> list_result option \<Rightarrow> backup_state \<Rightarrow> list_result \<times> backup_state" where
  "tool_list env nb input adminList s =
     (if \<not> fs_exists (rn_fs s) (rv_binary env)
      then list_failed input (''teleno_node binary not found: '' @ rv_binary env) s
      else run_command env (list_args env nb input) (list_timeout input)
        (\<lambda>ok output s.
           case (if ok then parseNativeBackupListOutput (rv_parse env) output else Inr no_list) of
             Inl e \<Rightarrow> list_failed input (output_error_text e) s
           | Inr parsed \<Rightarrow>
               let cli = \<lparr>lr_ok = ok, lr_output = output, lr_source = list_source input, lr_paths = Some nb, lr_list = parsed\<rparr>
               in ((case adminList of Some r \<Rightarrow> if ok then cli else r | None \<Rightarrow> cli), s)) s)"

definition admin_list :: "run_env \<Rightarrow> admin_connection \<Rightarrow> native_backup \<Rightarrow> jsval \<Rightarrow> backup_state \<Rightarrow> list_result \<times> backup_state" where
  "admin_list env ad nb input =
     request env ad ''GET'' (list_route input) JUndefined (list_timeout input)
       (\<lambda>r s. case r of
          Inl _ \<Rightarrow> tool_list env nb input None s
        | Inr payload \<Rightarrow>
            let parsed = parseNativeBackupListPayload payload;
                answer = \<lparr>lr_ok = True, lr_output = rv_pretty env payload, lr_source = list_source input,
                  lr_paths = Some nb, lr_list = parsed\<rparr>
            in if list_public input \<or> \<not> list_remote input \<or> nl_remoteSpace parsed \<noteq> None then (answer, s)
               else tool_list env nb input (Some answer) s)"

definition nativeBackupList :: "run_env \<Rightarrow> jsval \<Rightarrow> backup_state \<Rightarrow> list_result \<times> backup_state" where
  "nativeBackupList env input s =
     (case rv_notReady env of
        Some message \<Rightarrow> list_failed input message s
      | None \<Rightarrow>
          (case writeNativeBackupConfig (rv_config env) (rv_network env) (rv_baseDir env) (rv_backup env) (rn_fs s) of
             (Inl message, fs1) \<Rightarrow> list_failed input message (s\<lparr>rn_fs := fs1\<rparr>)
           | (Inr nb, fs1) \<Rightarrow>
               runningBackupAdminConnection env
                 (\<lambda>r. case r of
                    Inl message \<Rightarrow> list_failed input message
                  | Inr (Some ad) \<Rightarrow> admin_list env ad nb input
                  | Inr None \<Rightarrow> tool_list env nb input None) (s\<lparr>rn_fs := fs1\<rparr>)))"

record purge_result =
  pu_ok :: bool
  pu_output :: string
  pu_backupId :: string
  pu_source :: backup_source
  pu_paths :: "native_backup option"

definition purge_source :: "jsval \<Rightarrow> backup_source" where
  "purge_source input = (if js_prop ''backupSource'' input = JStr ''remote'' then SrcRemote else SrcLocal)"

definition purge_args :: "string \<Rightarrow> backup_source \<Rightarrow> string list" where
  "purge_args backupId source =
     [''--backup-delete'', ''--backup-json'', ''--backup-id='' @ backupId, ''--backup-scope='' @ source_str source,
      ''--backup-delete-confirm='' @ backupId]"

definition purge_ends :: "jsval \<Rightarrow> bool \<Rightarrow> string \<Rightarrow> native_backup option \<Rightarrow> backup_state \<Rightarrow> purge_result \<times> backup_state" where
  "purge_ends input ok output paths s =
     (\<lparr>pu_ok = ok, pu_output = output, pu_backupId = requested_id input, pu_source = purge_source input,
       pu_paths = paths\<rparr>, s)"

definition nativeBackupPurge :: "run_env \<Rightarrow> jsval \<Rightarrow> backup_state \<Rightarrow> purge_result \<times> backup_state" where
  "nativeBackupPurge env input s =
     (let backupId = requested_id input; source = purge_source input
      in if backupId = [] \<or> backupId = ''latest''
         then purge_ends input False (''Native backup purge requires an exact backup ID; '' @ sq @ ''latest'' @ sq @ '' is not accepted'') None s
         else (case rv_notReady env of
             Some message \<Rightarrow> purge_ends input False message None s
           | None \<Rightarrow>
               (case writeNativeBackupConfig (rv_config env) (rv_network env) (rv_baseDir env) (rv_backup env) (rn_fs s) of
                  (Inl message, fs1) \<Rightarrow> purge_ends input False message None (s\<lparr>rn_fs := fs1\<rparr>)
                | (Inr nb, fs1) \<Rightarrow>
                    if \<not> fs_exists fs1 (rv_binary env)
                    then purge_ends input False (''teleno_node binary not found: '' @ rv_binary env) (Some nb) (s\<lparr>rn_fs := fs1\<rparr>)
                    else run_command env (tool_args env nb (purge_args backupId source))
                      (if source = SrcRemote then 600000 else 300000)
                      (\<lambda>ok output. purge_ends input ok output (Some nb)) (s\<lparr>rn_fs := fs1\<rparr>))))"

record check_result =
  ck_ok :: bool
  ck_output :: string
  ck_paths :: "native_backup option"
  ck_preflight :: preflight

definition check_failed :: "string \<Rightarrow> backup_state \<Rightarrow> check_result \<times> backup_state" where
  "check_failed message s =
     (\<lparr>ck_ok = False, ck_output = message, ck_paths = None, ck_preflight = empty_preflight\<rparr>, s)"

definition check_read ::
  "run_env \<Rightarrow> native_backup \<Rightarrow> (string \<Rightarrow> output_error + preflight) \<Rightarrow> bool \<Rightarrow> string \<Rightarrow> backup_state \<Rightarrow> check_result \<times> backup_state" where
  "check_read env nb parse_output ok output s =
     (case (if output \<noteq> [] then parse_output output else Inr empty_preflight) of
        Inl e \<Rightarrow> check_failed (output_error_text e) s
      | Inr parsed \<Rightarrow> (\<lparr>ck_ok = ok, ck_output = output, ck_paths = Some nb, ck_preflight = parsed\<rparr>, s))"

definition tool_check :: "run_env \<Rightarrow> native_backup \<Rightarrow> jsval \<Rightarrow> backup_state \<Rightarrow> check_result \<times> backup_state" where
  "tool_check env nb input s =
     (if \<not> fs_exists (rn_fs s) (rv_binary env)
      then check_failed (''teleno_node binary not found: '' @ rv_binary env) s
      else if nativeBackupRestoreSource (js_prop ''backupSource'' input) = SrcPublic
      then run_command env (tool_args env nb ([''--backup-public-fetch''] @ publicBootstrapCliArgs (rv_network env) @
          [''--backup-json''] @ id_args (requested_id input))) six_hours
        (check_read env nb (\<lambda>output. map_sum id publicRestorePreflightFromFetchPayload
          (parseNativeBackupJsonOutput (rv_parse env) output))) s
      else run_command env (tool_args env nb ([''--backup-restore-preflight'', ''--backup-json''] @ id_args (requested_id input))) 30000
        (check_read env nb (parseNativeBackupPreflightOutput (rv_parse env))) s)"

definition admin_check :: "run_env \<Rightarrow> admin_connection \<Rightarrow> native_backup \<Rightarrow> jsval \<Rightarrow> backup_state \<Rightarrow> check_result \<times> backup_state" where
  "admin_check env ad nb input =
     (let from_public = (nativeBackupRestoreSource (js_prop ''backupSource'' input) = SrcPublic)
      in request env ad ''POST'' (if from_public then ''/admin/backup/public/preflight'' else ''/admin/backup/restore/preflight'')
           (JObj [(''backup_id'', JStr (js_or (requested_id input) ''latest''))]) (if from_public then 120000 else 30000)
           (\<lambda>r s. case r of
              Inl _ \<Rightarrow> tool_check env nb input s
            | Inr payload \<Rightarrow> (\<lparr>ck_ok = True, ck_output = rv_pretty env payload, ck_paths = Some nb,
                ck_preflight = parseNativeBackupPreflightPayload payload\<rparr>, s)))"

definition nativeBackupRestorePreflight :: "run_env \<Rightarrow> jsval \<Rightarrow> backup_state \<Rightarrow> check_result \<times> backup_state" where
  "nativeBackupRestorePreflight env input s =
     (case rv_notReady env of
        Some message \<Rightarrow> check_failed message s
      | None \<Rightarrow>
          (case writeNativeBackupConfig (rv_config env) (rv_network env) (rv_baseDir env) (rv_backup env) (rn_fs s) of
             (Inl message, fs1) \<Rightarrow> check_failed message (s\<lparr>rn_fs := fs1\<rparr>)
           | (Inr nb, fs1) \<Rightarrow>
               runningBackupAdminConnection env
                 (\<lambda>r. case r of
                    Inl message \<Rightarrow> check_failed message
                  | Inr (Some ad) \<Rightarrow> admin_check env ad nb input
                  | Inr None \<Rightarrow> tool_check env nb input) (s\<lparr>rn_fs := fs1\<rparr>)))"

record dry_run_result =
  dr_ok :: bool
  dr_output :: string
  dr_paths :: "native_backup option"

definition nativeBackupDryRun :: "run_env \<Rightarrow> backup_state \<Rightarrow> dry_run_result \<times> backup_state" where
  "nativeBackupDryRun env s =
     (let failed = (\<lambda>message s. (\<lparr>dr_ok = False, dr_output = message, dr_paths = None\<rparr>, s))
      in case rv_notReady env of
           Some message \<Rightarrow> failed message s
         | None \<Rightarrow>
             if \<not> fs_exists (rn_fs s) (rv_binary env) then failed (''teleno_node binary not found: '' @ rv_binary env) s
             else (case writeNativeBackupConfig (rv_config env) (rv_network env) (rv_baseDir env) (rv_backup env) (rn_fs s) of
                 (Inl message, fs1) \<Rightarrow> failed message (s\<lparr>rn_fs := fs1\<rparr>)
               | (Inr nb, fs1) \<Rightarrow>
                   run_command env (tool_args env nb [''--backup-dry-run'', ''--backup-json'']) 30000
                     (\<lambda>ok output s. (\<lparr>dr_ok = ok, dr_output = output, dr_paths = Some nb\<rparr>, s)) (s\<lparr>rn_fs := fs1\<rparr>)))"

section \<open>Creating: assertions\<close>

context run_complete begin

lemma cleanup_create_ends: "ends I Q cleanupOnCancel"
  by (rule endsI) (simp add: cleanupOnCancel_def Let_def emits_def emit_add finish_run_def stopped work)

lemma create_throws_ends: "ends I Q (create_throws m)"
  unfolding create_throws_def by (rule fail_ends)

lemma create_done_ends: "ends I Q (emits BpComplete 100 m (finish_run True out ''complete''))"
  by (simp add: ends_def emits_def emit_add finish_run_def complete)

lemma poll_create_ends:
  assumes "allowed (Pause 1000)" "\<And>oper. allowed (status_call oper)"
  shows "e = env \<Longrightarrow> I s \<Longrightarrow> Q (poll_create e ad oper t0 status s)"
proof (induction e ad oper t0 status s rule: poll_create.induct)
  case (1 e ad oper t0 status s)
  let ?s1 = "create_pause env status s"
  note free = work(2) [where oper = None, folded operation_done_def]
  have "I (add_events [create_event env status] s)"
    unfolding create_event_def Let_def using event [OF 1(3)] by (simp add: terminal_backup_phases_def)
  then have s1: "I ?s1"
    unfolding create_pause_def using assms(1) by (intro call) (simp_all add: guarded_def)
  then have s2: "I (after env (status_call oper) ?s1)" using assms(2) by (intro call) (auto simp: admin_calls)
  show ?case
  proof (cases "create_verdict t0 status s")
    case None
    with 1 s1 s2 endsD [OF fail_ends free [OF s2]] show ?thesis
      by (simp add: poll_create.simps [of env ad oper t0 status s] Let_def split: sum.split)
  next
    case (Some v)
    with 1(2) endsD [OF create_throws_ends free [OF 1(3)]] endsD [OF cleanup_create_ends free [OF 1(3)]]
      endsD [OF fail_ends free [OF 1(3)]] endsD [OF create_done_ends free [OF 1(3)]]
    show ?thesis
      by (cases v) (simp_all add: poll_create.simps [of env ad oper t0 status s] create_done_def Let_def)
  qed
qed

lemma admin_create_ends:
  assumes "allowed (Pause 1000)" "\<And>oper. allowed (status_call oper)"
    and "\<And>b t. allowed (AdminRequest ''POST'' ''/admin/backup/create'' b t)"
  shows "ends I Q (admin_create env ad)"
  unfolding admin_create_def
proof (rule emits_ends)
  let ?c = "AdminRequest ''POST'' ''/admin/backup/create'' (JObj [(''remote'', JBool (bs_remoteEnabled (rv_backup env)))]) 15000"
  have "I (after env ?c s)" if "I s" for s
    using that assms(3) by (intro call) (auto simp: guarded_def step_routes_def)
  then show "ends I Q (request env ad ''POST'' ''/admin/backup/create'' (JObj [(''remote'', JBool (bs_remoteEnabled (rv_backup env)))]) 15000
         (\<lambda>r. case r of
            Inl error \<Rightarrow> create_throws error
          | Inr payload \<Rightarrow>
              let status = backupStatusPayload payload; operationId = stringField (js_prop ''operation_id'' status)
              in if operationId = [] then create_throws ''Backup admin did not return an operation id''
                 else (\<lambda>s. poll_create env ad operationId (rn_now s) status (s\<lparr>rn_operation := Some operationId\<rparr>))))"
    using endsD [OF create_throws_ends] poll_create_ends [OF assms(1,2) refl] work(2)
    by (auto simp: ends_def request_def Let_def split: sum.split)
qed (simp add: terminal_backup_phases_def)

lemma tool_create_ends:
  assumes "\<And>args. allowed (TrackedCommand args)"
  shows "ends I Q (tool_create env nb)"
proof (rule endsI)
  fix s assume s: "I s"
  let ?args = "tool_args env nb [''--backup-create'', ''--backup-json'']"
  have "ends I Q (tracked_command env ?args (upload_events env) (\<lambda>ok output s.
                  if rn_cancelled s then cleanupOnCancel s
                  else if \<not> ok then fail_run 60 (js_or output ''Native backup command failed'')
                    (js_or output ''Native backup command failed'') s
                  else emits BpComplete 100 (made_message env output)
                    (finish_run True (js_join nl (filter (\<lambda>t. t \<noteq> [])
                       [''Native backup repository: '' @ nb_repositoryDir nb, ''Native backup workspace: '' @ nb_workspaceDir nb,
                        output])) ''complete'') s))"
  proof (rule endsI)
    fix u assume "I u"
    then have "I ((after env (TrackedCommand ?args) u)\<lparr>rn_process := False\<rparr>)"
      by (intro work(3) call assms) (auto simp: guarded_def tool_args_def)
    then have "I (add_events (concat (map (upload_events env) ls)) ((after env (TrackedCommand ?args) u)\<lparr>rn_process := False\<rparr>))" for ls
      by (rule events_kept) (auto simp: upload_events_def range_event_def terminal_backup_phases_def)
    from endsD [OF cleanup_create_ends this] endsD [OF fail_ends this] endsD [OF create_done_ends this]
    show "Q (tracked_command env ?args (upload_events env) (\<lambda>ok output s.
                  if rn_cancelled s then cleanupOnCancel s
                  else if \<not> ok then fail_run 60 (js_or output ''Native backup command failed'')
                    (js_or output ''Native backup command failed'') s
                  else emits BpComplete 100 (made_message env output)
                    (finish_run True (js_join nl (filter (\<lambda>t. t \<noteq> [])
                       [''Native backup repository: '' @ nb_repositoryDir nb, ''Native backup workspace: '' @ nb_workspaceDir nb,
                        output])) ''complete'') s) u)"
      by (simp add: tracked_command_def split: prod.split)
  qed
  then have "ends I Q (emits BpPrepare 5 m (emits BpSave 20 m' (tracked_command env ?args (upload_events env) (\<lambda>ok output s.
                  if rn_cancelled s then cleanupOnCancel s
                  else if \<not> ok then fail_run 60 (js_or output ''Native backup command failed'')
                    (js_or output ''Native backup command failed'') s
                  else emits BpComplete 100 (made_message env output)
                    (finish_run True (js_join nl (filter (\<lambda>t. t \<noteq> [])
                       [''Native backup repository: '' @ nb_repositoryDir nb, ''Native backup workspace: '' @ nb_workspaceDir nb,
                        output])) ''complete'') s))))" for m m'
    by (intro emits_ends) (simp_all add: terminal_backup_phases_def)
  from endsD [OF this s] endsD [OF fail_ends s] show "Q (tool_create env nb s)"
    by (simp add: tool_create_def Let_def)
qed

text \<open>The run starts with the status of the node; the assertion holds from there.\<close>

lemma create_ends:
  assumes "allowed (Pause 1000)" "\<And>oper. allowed (status_call oper)" "allowed NodeStatus"
    and "\<And>b t. allowed (AdminRequest ''POST'' ''/admin/backup/create'' b t)"
    and "\<And>args. \<not> seen_running (rv_status env (length (rn_log s))) \<Longrightarrow> allowed (TrackedCommand args)"
    and "\<And>m fs. Q (create_throws m (s\<lparr>rn_cancelled := False, rn_fs := fs\<rparr>))"
    and "\<And>fs. I (after env NodeStatus (s\<lparr>rn_cancelled := False, rn_fs := fs\<rparr>))"
  shows "Q (createLocalBackup env s)"
proof -
  let ?run = "seen_running (rv_status env (length (rn_log s)))"
  have conn: "ends I Q (runningBackupAdminConnection env
                       (\<lambda>r. case r of
                          Inl message \<Rightarrow> create_throws message
                        | Inr (Some ad) \<Rightarrow> admin_create env ad
                        | Inr None \<Rightarrow>
                            if ?run then fail_run 0 (running_message env) (running_message env)
                            else tool_create env nb))" for nb
  proof -
    have "I (after env NodeStatus u)" if "I u" for u using that assms(3) by (intro call) (simp_all add: admin_calls)
    then show ?thesis
      using endsD [OF create_throws_ends] endsD [OF admin_create_ends [OF assms(1,2,4)]] endsD [OF fail_ends]
        endsD [OF tool_create_ends [OF assms(5)]]
      by (intro endsI) (auto simp: runningBackupAdminConnection_def Let_def split: option.split sum.split)
  qed
  have plain: "Q (create_throws m (s\<lparr>rn_cancelled := False\<rparr>))" for m
    using assms(6) [of m "rn_fs s"] by simp
  show ?thesis
    using plain assms(6) endsD [OF conn assms(7)]
    by (simp add: createLocalBackup_def Let_def split: option.split prod.split sum.split)
qed

end

section \<open>Creating: what is shown\<close>

definition tool_started :: "call \<Rightarrow> bool" where
  "tool_started c = (case c of TrackedCommand args \<Rightarrow> True | _ \<Rightarrow> False)"

definition spared :: "log_entry list \<Rightarrow> bool \<Rightarrow> backup_state \<Rightarrow> bool" where
  "spared before busy s \<longleftrightarrow> (\<exists>es. rn_log s = before @ es \<and>
     list_all (\<lambda>e. \<not> (tool_started (lg_call e) \<and> busy)) es)"

lemma spared_work [simp]:
  "spared b r (s\<lparr>rn_fs := fs\<rparr>) = spared b r s" "spared b r (s\<lparr>rn_operation := oper\<rparr>) = spared b r s"
  "spared b r (s\<lparr>rn_process := proc\<rparr>) = spared b r s" "spared b r (s\<lparr>rn_cancelled := c\<rparr>) = spared b r s"
  "spared b r (add_events es s) = spared b r s"
  by (simp_all add: spared_def)

lemma spared_call: "spared b r s \<Longrightarrow> \<not> (tool_started c \<and> r) \<Longrightarrow> spared b r (after env c s)"
  by (auto simp: spared_def log_after)

interpretation spare_run: run_complete env "spared before busy" "\<lambda>x. spared before busy (rx_state x)"
    "\<lambda>c. \<not> (tool_started c \<and> busy)" for env before busy
  by unfold_locales (auto intro: spared_call)

text \<open>A backup is made with the tool, which opens the database, only when the node was not seen running: the status
  asked for first decides, whatever is answered later.\<close>

theorem offline_backup_needs_a_stopped_node:
  "list_all (\<lambda>e. \<not> (tool_started (lg_call e) \<and> seen_running (rv_status env (length (rn_log s)))))
     (drop (length (rn_log s)) (rn_log (rx_state (createLocalBackup env s))))"
proof -
  let ?r = "seen_running (rv_status env (length (rn_log s)))"
  have start: "spared (rn_log s) ?r s" by (simp add: spared_def)
  have "spared (rn_log s) ?r (rx_state (createLocalBackup env s))"
  proof (rule spare_run.create_ends)
    fix m fs
    show "spared (rn_log s) ?r (rx_state (create_throws m (s\<lparr>rn_cancelled := False, rn_fs := fs\<rparr>)))"
      by (rule endsD [OF spare_run.create_throws_ends]) (simp add: start)
    show "spared (rn_log s) ?r (after env NodeStatus (s\<lparr>rn_cancelled := False, rn_fs := fs\<rparr>))"
      by (rule spared_call) (simp_all add: start tool_started_def)
  qed (simp_all add: tool_started_def status_call_def)
  then show ?thesis by (auto simp: spared_def)
qed

text \<open>Every creation of a backup ends with exactly one final event, the last one, which agrees with the status the
  caller gets; every progress value sent lies between 0 and 100.\<close>

theorem create_reports_once:
  "\<exists>es e. rn_events (rx_state (createLocalBackup env s)) = rn_events s @ es @ [e] \<and>
     list_all (\<lambda>e. 0 \<le> ev_progress e \<and> ev_progress e \<le> 100) (es @ [e]) \<and>
     list_all (\<lambda>e. ev_phase e \<notin> set terminal_backup_phases) es \<and>
     (ev_phase e, rx_ok (createLocalBackup env s), rx_status (createLocalBackup env s)) \<in>
       {(BpComplete, True, ''complete''), (BpCancelled, False, ''cancelled''), (BpError, False, ''error'')}"
proof -
  have start: "going (rn_events s) (s\<lparr>rn_cancelled := False, rn_fs := fs\<rparr>)" for fs by (simp add: going_def)
  have "told (rn_events s) (createLocalBackup env s)"
  proof (rule told_run.third.create_ends)
    fix m fs
    show "told (rn_events s) (create_throws m (s\<lparr>rn_cancelled := False, rn_fs := fs\<rparr>))"
      using told_run.third.create_throws_ends start by (rule endsD)
    show "going (rn_events s) (after env NodeStatus (s\<lparr>rn_cancelled := False, rn_fs := fs\<rparr>))"
      using start by simp
  qed (simp_all add: activating_def status_call_def status_route_def)
  then show ?thesis by (simp only: told_def endings_def fair_event_def [abs_def])
qed

section \<open>Purging: what is shown\<close>

text \<open>C37: A purge runs at most one command, which deletes one backup named by its exact id and confirmed with
  it, in the scope asked for; never the latest one by that name. It reports success only when the command
  succeeded.\<close>

theorem purge_names_one_backup:
  "\<exists>es. rn_log (snd (nativeBackupPurge env input s)) = rn_log s @ es \<and> length es \<le> 1 \<and>
     list_all (\<lambda>e. requested_id input \<notin> {[], ''latest''} \<and>
       (\<exists>config timeout. lg_call e = RunCommand
          [''--basedir='' @ rv_baseDir env, ''--config='' @ config, ''--backup-delete'', ''--backup-json'',
           ''--backup-id='' @ requested_id input,
           ''--backup-scope='' @ (if js_prop ''backupSource'' input = JStr ''remote'' then ''remote'' else ''local''),
           ''--backup-delete-confirm='' @ requested_id input] timeout)) es \<and>
     pu_ok (fst (nativeBackupPurge env input s)) = list_ex (\<lambda>e. succeeded env (lg_call e) (lg_answer e)) es"
  by (auto simp: nativeBackupPurge_def Let_def purge_ends_def run_command_def log_after tool_args_def purge_args_def purge_source_def
      succeeded_def answer_of_def split: option.split prod.split sum.split)

end
