(* ===== verification/NodeVerify.thy ===== *)
theory NodeVerify
  imports BackupRun
begin

text \<open>
  The rest of electron/lib/backup-service.ts: asking the local node for its head after a restore, the
  restore that is verified so, the copy of a base directory, the restore from a local archive, and the
  switch for block verification.

  Main results: the verification ends in time and finds a head that answers in time
  (\<open>verification_is_bounded\<close>, \<open>verification_sees_the_head\<close>), a verified restore is a restore whose node
  answered and reports once (\<open>verified_restore_reports_once\<close>), a copy overwrites nothing
  (\<open>copy_overwrites_nothing\<close>).
\<close>

section \<open>JSON-RPC\<close>

text \<open>What \<open>fetch\<close> and reading its JSON give.\<close>

datatype rpc_answer = RpcFailed string | RpcAnswered nat jsval

record rpc_result =
  jr_ok :: bool
  jr_method :: string
  jr_result :: jsval
  jr_output :: string

definition rpc_failed :: "string \<Rightarrow> string \<Rightarrow> rpc_result" where
  "rpc_failed rpc output = \<lparr>jr_ok = False, jr_method = rpc, jr_result = JUndefined, jr_output = output\<rparr>"

definition rpc_error_text :: "jsval \<Rightarrow> string" where
  "rpc_error_text error =
     (let message = js_or (stringField (js_prop ''message'' error)) ''RPC error''; detail = stringField (js_prop ''data'' error)
      in if detail \<noteq> [] then message @ '': '' @ detail else message)"

definition koinosJsonRpcProxy :: "string \<Rightarrow> string \<Rightarrow> rpc_answer \<Rightarrow> rpc_result" where
  "koinosJsonRpcProxy rawUrl rawMethod answer =
     (let rpcUrl = js_trim rawUrl; rpc = js_trim rawMethod
      in if rpcUrl = [] then rpc_failed rpc ''Parametro rpcUrl invalido''
         else if rpc = [] then rpc_failed [] ''Parametro method invalido''
         else (case answer of
             RpcFailed message \<Rightarrow> rpc_failed rpc message
           | RpcAnswered status payload \<Rightarrow>
               if \<not> http_ok status then rpc_failed rpc (''RPC HTTP '' @ js_nat status)
               else if payload = JNull
               then rpc_failed rpc (''Cannot read properties of null (reading '' @ sq @ ''error'' @ sq @ '')'')
               else if truthy (js_prop ''error'' payload) then rpc_failed rpc (rpc_error_text (js_prop ''error'' payload))
               else \<lparr>jr_ok = True, jr_method = rpc, jr_result = js_prop ''result'' payload, jr_output = []\<rparr>))"

record service_port =
  sv_host :: "string option"
  sv_publishedPort :: "nat option"

definition localNodeJsonRpcUrl :: "service_port option \<Rightarrow> string" where
  "localNodeJsonRpcUrl p =
     (let host = (case p of None \<Rightarrow> [] | Some q \<Rightarrow> (case sv_host q of None \<Rightarrow> [] | Some h \<Rightarrow> h));
          port = (case p of None \<Rightarrow> 8080 | Some q \<Rightarrow> (case sv_publishedPort q of None \<Rightarrow> 8080 | Some n \<Rightarrow> n))
      in ''http://'' @ (if host \<noteq> [] \<and> host \<noteq> ''0.0.0.0'' \<and> host \<noteq> ''::'' then host else ''127.0.0.1'') @
         '':'' @ js_nat port @ ''/'')"

record head_summary =
  hs_ok :: bool
  hs_height :: string
  hs_headId :: string
  hs_output :: string

text \<open>\<open>`${v ?? ''}`\<close>; \<open>num_str\<close> is the text of a number.\<close>

definition template_text :: "(jsnum \<Rightarrow> string) \<Rightarrow> jsval \<Rightarrow> string" where
  "template_text num_str v =
     (case v of
        JStr s \<Rightarrow> s | JNum n \<Rightarrow> num_str n | JBool b \<Rightarrow> (if b then ''true'' else ''false'')
      | JObj _ \<Rightarrow> ''[object Object]'' | _ \<Rightarrow> [])"

definition extractHeadInfoSummary :: "(jsnum \<Rightarrow> string) \<Rightarrow> jsval \<Rightarrow> head_summary" where
  "extractHeadInfoSummary num_str v =
     (let topology = js_prop ''head_topology'' v;
          height = js_trim (template_text num_str (js_prop ''height'' topology));
          headId = js_trim (template_text num_str (js_prop ''id'' topology))
      in if \<not> (case v of JObj _ \<Rightarrow> True | JArr _ \<Rightarrow> True | _ \<Rightarrow> False)
         then \<lparr>hs_ok = False, hs_height = [], hs_headId = [], hs_output = ''Respuesta invalida de chain.get_head_info''\<rparr>
         else if headId = []
         then \<lparr>hs_ok = False, hs_height = height, hs_headId = headId,
           hs_output = ''chain.get_head_info no devolvio head_topology.id''\<rparr>
         else \<lparr>hs_ok = True, hs_height = height, hs_headId = headId,
           hs_output = ''Verified local node head '' @ js_or height ''n/a'' @ '' ('' @ headId @ '')''\<rparr>)"

section \<open>Waiting for the head\<close>

text \<open>The answer to the request number n and how long the request takes.\<close>

record rpc_env =
  rq_answer :: "nat \<Rightarrow> rpc_answer"
  rq_elapsed :: "nat \<Rightarrow> nat"
  rq_num_str :: "jsnum \<Rightarrow> string"

text \<open>\<open>Inr\<close>: the head was verified; \<open>Inl\<close>: what to show when time runs out.\<close>

definition head_attempt :: "rpc_env \<Rightarrow> string \<Rightarrow> nat \<Rightarrow> string + string" where
  "head_attempt env rpcUrl n =
     (let r = koinosJsonRpcProxy rpcUrl ''chain.get_head_info'' (rq_answer env n);
          summary = extractHeadInfoSummary (rq_num_str env) (jr_result r)
      in if jr_ok r then (if hs_ok summary then Inr (hs_output summary @ '' via '' @ rpcUrl) else Inl (hs_output summary))
         else Inl (js_or (jr_output r) ''chain.get_head_info no responde todavia''))"

function verify_loop :: "rpc_env \<Rightarrow> string \<Rightarrow> nat \<Rightarrow> nat \<Rightarrow> nat \<Rightarrow> string \<Rightarrow> nat \<Rightarrow> (bool \<times> string) \<times> nat" where
  "verify_loop env rpcUrl timeoutMs startedAt n lastOutput now =
     (if \<not> now - startedAt < timeoutMs
      then ((False, ''No se pudo verificar chain.get_head_info via '' @ rpcUrl @ '' en '' @ js_nat timeoutMs @ ''ms'' @
          (if lastOutput \<noteq> [] then '': '' @ lastOutput else [])), n)
      else (case head_attempt env rpcUrl n of
          Inr output \<Rightarrow> ((True, output), Suc n)
        | Inl t \<Rightarrow> verify_loop env rpcUrl timeoutMs startedAt (Suc n) t (now + rq_elapsed env n + 2000)))"
  by pat_completeness auto
termination
  by (relation "measure (\<lambda>(env, url, t, t0, n, l, now). t + t0 - now)") auto

declare verify_loop.simps [simp del]

text \<open>The result with the number of requests made.\<close>

definition waitForLocalNodeJsonRpcVerification :: "rpc_env \<Rightarrow> service_port option \<Rightarrow> nat \<Rightarrow> nat \<Rightarrow> (bool \<times> string) \<times> nat" where
  "waitForLocalNodeJsonRpcVerification env p timeoutMs now =
     verify_loop env (localNodeJsonRpcUrl p) timeoutMs now 0 [] now"

section \<open>Restore and verify\<close>

record verify_env =
  ve_restore :: restore_env
  ve_jsonrpc :: bool
  ve_port :: "service_port option"
  ve_start :: "fs \<Rightarrow> bool \<times> string \<times> fs"
  ve_rpc :: rpc_env
  ve_now :: nat

definition no_jsonrpc_message :: string where
  "no_jsonrpc_message =
     ''Restore + Verify requiere que el profile actual incluya jsonrpc. A'' @ [CHR 0xF1] @
     ''ade jsonrpc al profile o usa Restore Backup sin verificacion.''"

definition note_of :: "string \<Rightarrow> string list" where
  "note_of t = (if t \<noteq> [] then [t] else [])"

text \<open>After a restore that succeeded: start the node and ask it.\<close>

definition started_restore :: "verify_env \<Rightarrow> string list \<Rightarrow> stage" where
  "started_restore env notes =
     report BpStart 84 ''Starting node after backup restore'' (\<lambda>s.
       case ve_start env (st_fs s) of
         (started, output, fs1) \<Rightarrow>
           let s1 = s\<lparr>st_fs := fs1, st_notes := notes @ note_of output\<rparr>;
               unstarted = js_or output ''No se pudo arrancar el nodo tras restaurar el backup''
           in if \<not> started
              then \<lparr>ro_ok = False, ro_output = noted (st_notes s1),
                ro_state = s1\<lparr>st_events := st_events s1 @ [backup_event_of BpError 84 unstarted None]\<rparr>\<rparr>
              else report BpVerify 92 ''Verifying local JSON-RPC response from chain.get_head_info'' (\<lambda>s.
                case fst (waitForLocalNodeJsonRpcVerification (ve_rpc env) (ve_port env) 120000 (ve_now env)) of
                  (ok, verified) \<Rightarrow>
                    \<lparr>ro_ok = ok, ro_output = noted (st_notes s @ [verified]),
                     ro_state = s\<lparr>st_notes := st_notes s @ [verified], st_events := st_events s @
                       [if ok then backup_event_of BpComplete 100 ''Backup restored and local node verified'' None
                        else backup_event_of BpError 96 verified None]\<rparr>\<rparr>) s1)"

text \<open>The notes of the inner restore are its own; its output becomes a note here.\<close>

definition telenoNodeRestoreBackupAndVerify :: "verify_env \<Rightarrow> stage" where
  "telenoNodeRestoreBackupAndVerify env s0 =
     (let renv = ve_restore env; s = s0\<lparr>st_notes := []\<rparr>
      in case re_notReady renv of
           Some message \<Rightarrow> throws message s
         | None \<Rightarrow>
             if \<not> ve_jsonrpc env then give_up 0 no_jsonrpc_message no_jsonrpc_message s
             else report BpPrepare 0 (''Preparing restore + verify for '' @ re_baseDir renv) (\<lambda>s.
               let r = telenoNodeRestoreBackup renv False s; notes = note_of (ro_output r)
               in if \<not> ro_ok r then r\<lparr>ro_output := noted notes\<rparr> else started_restore env notes (ro_state r)) s)"

section \<open>Copying a base directory\<close>

record copy_result =
  cy_ok :: bool
  cy_sourceBaseDir :: string
  cy_targetBaseDir :: string
  cy_output :: string

text \<open>\<open>children\<close> is \<open>readdirSync\<close>.\<close>

definition directoryHasEntries :: "(fs \<Rightarrow> string \<Rightarrow> string list) \<Rightarrow> fs \<Rightarrow> string \<Rightarrow> bool" where
  "directoryHasEntries children fs dir \<longleftrightarrow> fs_exists fs dir \<and> fs_is_dir fs dir \<and> children fs dir \<noteq> []"

record copy_env =
  cp_children :: "fs \<Rightarrow> string \<Rightarrow> string list"
  cp_ensure :: "string \<Rightarrow> string"
  cp_runtime :: "string \<Rightarrow> fs \<Rightarrow> string \<times> fs"
  cp_fsError :: string

text \<open>\<open>cpSync\<close> of a directory onto a file throws.\<close>

definition copy_directory :: "string \<Rightarrow> string \<Rightarrow> fs \<Rightarrow> fs option" where
  "copy_directory src dst fs =
     (case fs (loc dst) of Some (File _) \<Rightarrow> None | _ \<Rightarrow> cp_tree (loc src) (loc dst) fs)"

text \<open>\<open>configured\<close> is the base directory of the settings.\<close>

definition copyNodeBaseDirData ::
  "copy_env \<Rightarrow> string \<Rightarrow> string \<Rightarrow> string \<Rightarrow> fs \<Rightarrow> copy_result \<times> fs" where
  "copyNodeBaseDirData env configured rawSource rawTarget fs =
     (let source = cp_ensure env rawSource; target = cp_ensure env (js_or rawTarget configured);
          result = (\<lambda>ok output. \<lparr>cy_ok = ok, cy_sourceBaseDir = source, cy_targetBaseDir = target, cy_output = output\<rparr>)
      in if source = [] then (result False ''Parametro sourceBaseDir invalido'', fs)
         else if loc source = loc target then (result False ''El origen y destino del BASEDIR son el mismo'', fs)
         else if \<not> fs_is_dir fs source then (result False (''No existe el BASEDIR origen: '' @ source), fs)
         else if \<not> directoryHasEntries (cp_children env) fs source
         then (result False (''El BASEDIR origen esta vacio: '' @ source), fs)
         else if directoryHasEntries (cp_children env) fs target
         then (result False (''El BASEDIR destino ya contiene datos: '' @ target @
           ''. Usa Restore Backup o vacia la carpeta antes de copiar.''), fs)
         else (case copy_directory source target fs of
             None \<Rightarrow> (result False (cp_fsError env), fs)
           | Some fs1 \<Rightarrow>
               let copied = ''Copied local state from '' @ source @ '' to '' @ target
               in if fs_exists fs1 (path_join [target, ''config.yml'']) then (result True copied, fs1)
                  else (case cp_runtime env target fs1 of
                      (output, fs2) \<Rightarrow> (result True (noted [copied, output]), fs2))))"

section \<open>Block verification\<close>

text \<open>\<open>getIn\<close> gives the value the document has under \<open>chain.verify-blocks\<close>; \<open>None\<close> when parsing throws.\<close>

definition readConfigVerifyBlocks :: "(string \<Rightarrow> jsval option) \<Rightarrow> string \<Rightarrow> fs \<Rightarrow> bool option" where
  "readConfigVerifyBlocks getIn baseDir fs =
     (case fs (loc (path_join [baseDir, ''config.yml''])) of
        Some (File (Bytes raw)) \<Rightarrow> (case getIn raw of Some (JBool b) \<Rightarrow> Some b | _ \<Rightarrow> None)
      | _ \<Rightarrow> None)"

definition getVerifyBlocks :: "(string \<Rightarrow> jsval option) \<Rightarrow> string \<Rightarrow> fs \<Rightarrow> bool option \<times> string" where
  "getVerifyBlocks getIn baseDir fs =
     (let enabled = readConfigVerifyBlocks getIn baseDir fs
      in (enabled, case enabled of
           None \<Rightarrow> ''verify-blocks not set in config.yml''
         | Some b \<Rightarrow> ''verify-blocks='' @ (if b then ''true'' else ''false'')))"

definition setVerifyBlocks ::
  "(string \<Rightarrow> bool \<Rightarrow> string + string) \<Rightarrow> string \<Rightarrow> bool option \<Rightarrow> fs \<Rightarrow> (bool \<times> string) \<times> fs" where
  "setVerifyBlocks yaml_set baseDir enabled fs =
     setConfigVerifyBlocks yaml_set baseDir (case enabled of Some b \<Rightarrow> b | None \<Rightarrow> False) fs"

section \<open>The verification ends\<close>

lemma verify_rounds:
  "snd (verify_loop env url t t0 n l now) \<le> n + (t + t0 - now + 1999) div 2000"
proof (induction env url t t0 n l now rule: verify_loop.induct)
  case (1 env url t t0 n l now)
  show ?case
  proof (cases "now - t0 < t")
    case True
    have "Suc ((t + t0 - (now + 2000 + rq_elapsed env n) + 1999) div 2000) \<le> (t + t0 - now + 1999) div 2000"
      using True by (intro round_up_step) linarith
    with 1 True show ?thesis
      by (subst verify_loop.simps) (auto simp: ac_simps split: sum.split intro: order_trans)
  qed (simp add: verify_loop.simps)
qed

text \<open>The verification of a restored node ends: it asks at most once every two seconds of its time, whatever the
  node answers and however long the answers take.\<close>

theorem verification_is_bounded:
  "snd (waitForLocalNodeJsonRpcVerification env p timeoutMs now) \<le> (timeoutMs + 1999) div 2000"
  using verify_rounds [of env _ timeoutMs now 0 "[]" now] by (simp add: waitForLocalNodeJsonRpcVerification_def)

text \<open>When the request number n is sent, if all before it fail.\<close>

fun request_time :: "rpc_env \<Rightarrow> nat \<Rightarrow> nat \<Rightarrow> nat" where
  "request_time env now 0 = now"
| "request_time env now (Suc n) = request_time env now n + rq_elapsed env n + 2000"

lemma request_time_mono: "i \<le> n \<Longrightarrow> request_time env now i \<le> request_time env now n"
  by (induction n rule: dec_induct) auto

lemma verify_from:
  assumes "\<forall>j<n. \<exists>t. head_attempt env url j = Inl t" "head_attempt env url n = Inr out"
    and "request_time env now n < now + timeoutMs" "i \<le> n"
  shows "verify_loop env url timeoutMs now i l (request_time env now i) = ((True, out), Suc n)"
  using assms(4)
proof (induction "n - i" arbitrary: i l)
  case 0
  then have "i = n" by simp
  with assms(2,3) request_time_mono [of 0 n env now] show ?case by (subst verify_loop.simps) auto
next
  case (Suc d)
  then have i: "i < n" "d = n - Suc i" by simp_all
  then obtain t where t: "head_attempt env url i = Inl t" using assms(1) by blast
  have "request_time env now i - now < timeoutMs"
    using request_time_mono [of i n env now] request_time_mono [of 0 i env now] assms(3) i(1) by simp
  with Suc.hyps(1) [OF i(2), of t] i t show ?case by (subst verify_loop.simps) simp
qed

text \<open>The verification sees a node that answers: when every request before the request n failed, and the node
  answers the request n, sent within the time, with a head, the verification succeeds with that head.\<close>

theorem verification_sees_the_head:
  assumes "\<forall>j<n. \<exists>t. head_attempt env (localNodeJsonRpcUrl p) j = Inl t"
    and "head_attempt env (localNodeJsonRpcUrl p) n = Inr out"
    and "request_time env now n < now + timeoutMs"
  shows "waitForLocalNodeJsonRpcVerification env p timeoutMs now = ((True, out), Suc n)"
  using verify_from [OF assms, of 0 "[]"] by (simp add: waitForLocalNodeJsonRpcVerification_def)

definition sample_rpc_env :: rpc_env where
  "sample_rpc_env = \<lparr>rq_answer = (\<lambda>n. if n = 0 then RpcFailed ''refused''
     else RpcAnswered 200 (JObj [(''result'', JObj [(''head_topology'', JObj [(''id'', JStr ''0x12'')])])])),
     rq_elapsed = (\<lambda>_. 30), rq_num_str = (\<lambda>_. [])\<rparr>"

theorem verification_sees_the_head_witness:
  "waitForLocalNodeJsonRpcVerification sample_rpc_env (Some \<lparr>sv_host = None, sv_publishedPort = Some 80\<rparr>) 120000 0 =
     ((True, ''Verified local node head n/a (0x12) via http://127.0.0.1:80/''), 2)"
proof -
  let ?url = "localNodeJsonRpcUrl (Some \<lparr>sv_host = None, sv_publishedPort = Some 80\<rparr>)"
  have url: "?url = ''http://127.0.0.1:80/''" by code_simp
  have trimmed: "js_trim ''http://127.0.0.1:80/'' = ''http://127.0.0.1:80/''"
      "js_trim ''chain.get_head_info'' = ''chain.get_head_info''" "js_trim ''0x12'' = ''0x12''" "js_trim [] = []"
    by code_simp+
  have "head_attempt sample_rpc_env ?url 0 = Inl ''refused''"
    unfolding url by (simp add: head_attempt_def koinosJsonRpcProxy_def rpc_failed_def trimmed sample_rpc_env_def js_or_def)
  then have before: "\<forall>j<1. \<exists>t. head_attempt sample_rpc_env ?url j = Inl t" by auto
  have answer: "head_attempt sample_rpc_env ?url 1 = Inr ''Verified local node head n/a (0x12) via http://127.0.0.1:80/''"
    unfolding url by (simp add: head_attempt_def koinosJsonRpcProxy_def trimmed sample_rpc_env_def http_ok_def
        extractHeadInfoSummary_def template_text_def js_or_def)
  have "request_time sample_rpc_env 0 1 < 0 + 120000" by (simp add: sample_rpc_env_def)
  from verification_sees_the_head [OF before answer this] show ?thesis by (simp only: one_add_one Suc_eq_plus1)
qed

lemma verified_attempt: "fst (verify_loop env url t t0 n l now) = (True, out) \<Longrightarrow> \<exists>m. head_attempt env url m = Inr out"
proof (induction env url t t0 n l now rule: verify_loop.induct)
  case (1 env url t t0 n l now)
  note step = verify_loop.simps [of env url t t0 n l now]
  show ?case
  proof (cases "now - t0 < t")
    case True
    show ?thesis
    proof (cases "head_attempt env url n")
      case (Inl u)
      with 1 True step show ?thesis by simp
    next
      case (Inr v)
      with 1(2) True step show ?thesis by auto
    qed
  qed (use 1(2) step in simp)
qed

section \<open>A verified restore\<close>

lemma started_reports:
  "\<exists>ls l. st_events (ro_state (started_restore env notes s)) = st_events s @ ls @ [l] \<and>
     list_all (\<lambda>e. 0 \<le> ev_progress e \<and> ev_progress e \<le> 100) (ls @ [l]) \<and>
     list_all (\<lambda>e. ev_phase e \<notin> set terminal_backup_phases) ls \<and>
     ev_phase l = (if ro_ok (started_restore env notes s) then BpComplete else BpError)"
proof -
  have fair: "0 \<le> ev_progress (backup_event_of ph p m t)" "ev_progress (backup_event_of ph p m t) \<le> 100" for ph p m t
    using fair_event_of [of ph p m t] by (simp_all add: fair_event_def)
  obtain started out fs1 where st: "ve_start env (st_fs s) = (started, out, fs1)" by (metis prod_cases3)
  obtain ok verified where v: "fst (waitForLocalNodeJsonRpcVerification (ve_rpc env) (ve_port env) 120000 (ve_now env)) = (ok, verified)"
    by fastforce
  let ?start = "backup_event_of BpStart 84 ''Starting node after backup restore'' None"
  let ?ask = "backup_event_of BpVerify 92 ''Verifying local JSON-RPC response from chain.get_head_info'' None"
  show ?thesis
  proof (cases started)
    case False
    with st show ?thesis
      by (intro exI [of _ "[?start]"]) (simp add: started_restore_def report_def Let_def fair terminal_backup_phases_def)
  next
    case True
    with st v show ?thesis
      by (intro exI [of _ "[?start, ?ask]"]) (simp add: started_restore_def report_def Let_def fair terminal_backup_phases_def)
  qed
qed

text \<open>A restore that is verified ends with exactly one final event, the last one, which says whether it
  succeeded, although the restore inside it reports on its own; every progress value sent lies between 0 and
  100.\<close>

theorem verified_restore_reports_once:
  "\<exists>es e. st_events (ro_state (telenoNodeRestoreBackupAndVerify env s)) = st_events s @ es @ [e] \<and>
     list_all (\<lambda>e. 0 \<le> ev_progress e \<and> ev_progress e \<le> 100) (es @ [e]) \<and>
     list_all (\<lambda>e. ev_phase e \<notin> set terminal_backup_phases) es \<and>
     ev_phase e = (if ro_ok (telenoNodeRestoreBackupAndVerify env s) then BpComplete else BpError)"
proof -
  let ?renv = "ve_restore env"
  let ?s = "s\<lparr>st_notes := []\<rparr>"
  let ?first = "backup_event_of BpPrepare 0 (''Preparing restore + verify for '' @ re_baseDir ?renv) None"
  let ?begun = "?s\<lparr>st_events := st_events s @ [?first]\<rparr>"
  define r where "r = telenoNodeRestoreBackup ?renv False ?begun"
  have fair: "0 \<le> ev_progress (backup_event_of ph p m t)" "ev_progress (backup_event_of ph p m t) \<le> 100" for ph p m t
    using fair_event_of [of ph p m t] by (simp_all add: fair_event_def)
  obtain es ends where inner: "st_events (ro_state r) = st_events ?begun @ es @ ends"
      "list_all (\<lambda>e. 0 \<le> ev_progress e \<and> ev_progress e \<le> 100) (es @ ends)"
      "list_all (\<lambda>e. ev_phase e \<notin> set terminal_backup_phases) es"
      "map ev_phase ends = (if \<not> ro_ok r then [BpError] else [])"
    using restore_reports_once [of ?renv False ?begun] unfolding r_def by auto
  show ?thesis
  proof (cases "re_notReady ?renv = None \<and> ve_jsonrpc env")
    case False
    then show ?thesis
      by (auto simp: telenoNodeRestoreBackupAndVerify_def throws_def give_up_def Let_def fair split: option.split)
  next
    case ready: True
    have run: "telenoNodeRestoreBackupAndVerify env s =
        (if \<not> ro_ok r then r\<lparr>ro_output := noted (note_of (ro_output r))\<rparr> else started_restore env (note_of (ro_output r)) (ro_state r))"
      using ready by (simp add: telenoNodeRestoreBackupAndVerify_def report_def [of BpPrepare] Let_def r_def)
    show ?thesis
    proof (cases "ro_ok r")
      case False
      then obtain e where "ends = [e]" "ev_phase e = BpError" using inner(4) by auto
      with inner False show ?thesis
        unfolding run by (intro exI [of _ "?first # es"] exI [of _ e]) (simp add: fair terminal_backup_phases_def)
    next
      case True
      then have none: "ends = []" using inner(4) by simp
      obtain ls l where started: "st_events (ro_state (started_restore env (note_of (ro_output r)) (ro_state r))) =
            st_events (ro_state r) @ ls @ [l]"
          "list_all (\<lambda>e. 0 \<le> ev_progress e \<and> ev_progress e \<le> 100) (ls @ [l])"
          "list_all (\<lambda>e. ev_phase e \<notin> set terminal_backup_phases) ls"
          "ev_phase l = (if ro_ok (started_restore env (note_of (ro_output r)) (ro_state r)) then BpComplete else BpError)"
        using started_reports by blast
      with inner none True show ?thesis
        unfolding run by (intro exI [of _ "?first # es @ ls"] exI [of _ l]) (simp add: fair terminal_backup_phases_def)
    qed
  qed
qed

text \<open>A verified restore is a restore whose node answered with its head.\<close>

lemma verified_restore_answered:
  assumes "ro_ok (telenoNodeRestoreBackupAndVerify env s)"
  shows "\<exists>n out. head_attempt (ve_rpc env) (localNodeJsonRpcUrl (ve_port env)) n = Inr out"
  using assms verified_attempt
  by (auto simp: telenoNodeRestoreBackupAndVerify_def started_restore_def report_def throws_def give_up_def Let_def waitForLocalNodeJsonRpcVerification_def
      split: option.splits if_splits prod.splits) (metis fst_conv)+

section \<open>A copy overwrites nothing\<close>

text \<open>C20: Copying a base directory overwrites nothing: whatever the copy answers, every file and directory that was
  there is there with its content. \<open>children\<close> is relied on for the target only (what is below it is
  listed), and preparing the runtime files for working below the target.\<close>

theorem copy_overwrites_nothing:
  fixes env configured rawSource rawTarget
  defines "target \<equiv> cp_ensure env (js_or rawTarget configured)"
  assumes listed: "\<And>n r. fs (loc target @ n # r) \<noteq> None \<Longrightarrow>
      fs (loc target) = Some Dir \<and> cp_children env fs target \<noteq> []"
    and inside: "\<And>f q. \<not> strict_prefix (loc target) q \<Longrightarrow> snd (cp_runtime env target f) q = f q"
    and there: "fs q \<noteq> None"
  shows "snd (copyNodeBaseDirData env configured rawSource rawTarget fs) q = fs q"
proof -
  let ?source = "cp_ensure env rawSource"
  have copied: "f1 q = fs q \<and> \<not> strict_prefix (loc target) q"
    if free: "\<not> directoryHasEntries (cp_children env) fs target" and src: "fs_is_dir fs ?source"
      and f1: "copy_directory ?source target fs = Some f1" for f1
  proof -
    have "fs (loc target @ n # r) = None" for n r
    proof (rule ccontr)
      assume "fs (loc target @ n # r) \<noteq> None"
      from listed [OF this] free show False by (simp add: directoryHasEntries_def fs_exists_def fs_is_dir_def)
    qed
    with there have outside: "\<not> strict_prefix (loc target) q"
      by (metis append_Nil2 list.exhaust prefix_def strict_prefix_def)
    from f1 obtain f2 where tree: "mkdir_all (butlast (loc target)) fs = Some f2"
        "f1 = (\<lambda>q. if prefix (loc target) q then fs (loc ?source @ drop (length (loc target)) q) else f2 q)"
        "\<not> (\<exists>c. fs (loc target) = Some (File c))"
      by (auto simp: copy_directory_def cp_tree_def split: option.splits entry.splits if_splits)
    show ?thesis
    proof (cases "prefix (loc target) q")
      case True
      with outside have "q = loc target" by (simp add: strict_prefix_def)
      with tree(3) there have "fs q = Some Dir" by (metis entry.exhaust not_None_eq)
      with True \<open>q = loc target\<close> src outside tree(2) show ?thesis by (simp add: fs_is_dir_def)
    next
      case False
      with mkdir_all_SomeD [OF tree(1), of q] there outside tree(2) show ?thesis by auto
    qed
  qed
  show ?thesis
    using copied inside
    by (auto simp: copyNodeBaseDirData_def Let_def target_def [symmetric] split: option.split prod.split) (metis snd_conv)+
qed

definition sample_copy_env :: copy_env where
  "sample_copy_env = \<lparr>cp_children = (\<lambda>_ p. if p = ''/s'' then [''config.yml''] else []), cp_ensure = (\<lambda>p. p),
     cp_runtime = (\<lambda>_ f. ([], f)), cp_fsError = ''e''\<rparr>"

definition sample_copy_fs :: fs where
  "sample_copy_fs l = (if l = [''s''] then Some Dir else if l = [''s'', ''config.yml''] then Some (File (Bytes [])) else None)"

theorem copy_overwrites_nothing_witness:
  "snd (copyNodeBaseDirData sample_copy_env ''/d'' ''/s'' ''/t'' sample_copy_fs) [''s'', ''config.yml''] = Some (File (Bytes []))"
proof -
  have t: "js_or ''/t'' ''/d'' = ''/t''" "loc ''/t'' = [''t'']" by code_simp+
  show ?thesis
    using copy_overwrites_nothing [of sample_copy_fs sample_copy_env "''/t''" "''/d''" "[''s'', ''config.yml'']" "''/s''"]
    by (simp add: sample_copy_env_def sample_copy_fs_def t)
qed

end
