(* ===== verification/WalletStore.thy ===== *)
theory WalletStore
  imports Networks FleetNormalize JsText
begin

text \<open>
  The encrypted wallets and the unlocked session of the main process:
  electron/lib/teleno-storage.ts (wallet and producer-profile operations),
  electron/lib/wallet-accounts.ts and the wallet types of electron/lib/main-types.ts.

  State (\<open>wallet_store\<close>): one wallet file and one producer-profile file per network scope
  (\<open>None\<close> is the unscoped directory), and the closure variables \<open>unlockedWallet\<close> and
  \<open>unlockedWalletNetwork\<close>. A file holds a JSON value of any shape; loading it normalises it and
  writes a migrated legacy file back, as the code does. Failures of the file system are not
  modelled.

  What the operations take from outside src/ is the argument \<open>lib\<close>: the sealing and opening of
  a secret (PBKDF2 and AES-GCM of node:crypto), the derivation of an account from a seed phrase
  (ethers and koilib), the address of a WIF key (koilib) and \<open>String\<close> of a number. \<open>None\<close>
  stands for an exception. The clock, the random part of an account id and the randomness of a
  sealing are the argument \<open>env\<close>.
\<close>

section \<open>What comes from outside\<close>

type_synonym sealed = "string \<times> string \<times> string \<times> string"

record wallet_lib =
  wl_num_str :: "jsnum \<Rightarrow> string"
  wl_seal :: "nat \<Rightarrow> string \<Rightarrow> string \<Rightarrow> sealed"
  wl_open :: "sealed \<Rightarrow> string \<Rightarrow> string option"
  wl_derive :: "string \<Rightarrow> string \<Rightarrow> (string \<times> string) option"
  wl_wif_address :: "string \<Rightarrow> string option"

record wallet_env =
  we_now :: string
  we_written :: string
  we_idTail :: string
  we_salt :: nat

datatype wallet_error = DecryptFailed | DeriveFailed | BadKey

section \<open>Accounts and wallets\<close>

datatype account_kind = Derived | ImportedWif | WatchOnly

fun account_kind_str :: "account_kind \<Rightarrow> string" where
  "account_kind_str Derived = ''derived''"
| "account_kind_str ImportedWif = ''imported-wif''"
| "account_kind_str WatchOnly = ''watch-only''"

text \<open>A stored account; its encrypted key is whatever object the file holds.\<close>

record enc_account =
  ea_id :: string
  ea_name :: string
  ea_kind :: account_kind
  ea_address :: string
  ea_createdAt :: string
  ea_updatedAt :: string
  ea_derivationPath :: "string option"
  ea_encryptedKey :: "jsval option"

record enc_wallet =
  ew_address :: string
  ew_encryptedKey :: "jsval option"
  ew_encryptedSeedPhrase :: "jsval option"
  ew_seedDerivationPath :: "string option"
  ew_activeAccountId :: "string option"
  ew_accounts :: "enc_account list"
  ew_createdAt :: string
  ew_updatedAt :: string

record unlocked_account =
  ua_id :: string
  ua_name :: string
  ua_kind :: account_kind
  ua_address :: string
  ua_derivationPath :: "string option"
  ua_privateKey :: "string option"
  ua_createdAt :: string
  ua_updatedAt :: "string option"

record unlocked_wallet =
  uw_address :: string
  uw_privateKey :: "string option"
  uw_seedPhrase :: "string option"
  uw_seedDerivationPath :: "string option"
  uw_activeAccountId :: "string option"
  uw_accountName :: "string option"
  uw_accountKind :: "account_kind option"
  uw_accounts :: "unlocked_account list"

record account_summary =
  as_id :: string
  as_name :: string
  as_kind :: account_kind
  as_address :: string
  as_derivationPath :: "string option"
  as_createdAt :: string
  as_updatedAt :: "string option"
  as_hasPrivateKey :: bool
  as_isActive :: bool

record producer_profile =
  pp_network :: network
  pp_producerAddress :: string
  pp_registrationSignerAccountId :: string
  pp_burnAccountId :: string
  pp_localPublicKey :: string
  pp_localPublicKeyPath :: string
  pp_registeredPublicKey :: "string option"
  pp_lastRegistrationTxId :: "string option"
  pp_updatedAt :: string

record wallet_store =
  ws_files :: "network option \<Rightarrow> stored_file"
  ws_profiles :: "network option \<Rightarrow> stored_file"
  ws_unlocked :: "unlocked_wallet option"
  ws_unlockedNetwork :: "network option"

definition empty_store :: wallet_store where
  "empty_store = \<lparr>ws_files = (\<lambda>_. Missing), ws_profiles = (\<lambda>_. Missing), ws_unlocked = None,
     ws_unlockedNetwork = None\<rparr>"

section \<open>Text helpers\<close>

text \<open>\<open>s || null\<close> for a string, and \<open>`${s || ''}`.trim()\<close> for an optional one.\<close>

definition some_text :: "string \<Rightarrow> string option" where
  "some_text s = (if s = [] then None else Some s)"

definition opt_trim :: "string option \<Rightarrow> string" where
  "opt_trim x = (case x of None \<Rightarrow> [] | Some s \<Rightarrow> js_trim s)"

text \<open>A value inside a template string.\<close>

fun js_string :: "(jsnum \<Rightarrow> string) \<Rightarrow> jsval \<Rightarrow> string" where
  "js_string f JUndefined = ''undefined''"
| "js_string f JNull = ''null''"
| "js_string f (JBool b) = (if b then ''true'' else ''false'')"
| "js_string f (JNum x) = f x"
| "js_string f (JStr s) = s"
| "js_string f (JArr vs) =
     js_join '','' (map (\<lambda>v. if v = JUndefined \<or> v = JNull then [] else js_string f v) vs)"
| "js_string f (JObj ps) = ''[object Object]''"

text \<open>\<open>`${v || ''}`.trim()\<close> for a value of any kind.\<close>

definition text_field :: "wallet_lib \<Rightarrow> jsval \<Rightarrow> string" where
  "text_field lib v = (if truthy v then js_trim (js_string (wl_num_str lib) v) else [])"

text \<open>\<open>v && typeof v === 'object' ? v : null\<close>.\<close>

definition object_field :: "jsval \<Rightarrow> jsval option" where
  "object_field v = (case v of JObj _ \<Rightarrow> Some v | JArr _ \<Rightarrow> Some v | _ \<Rightarrow> None)"

text \<open>\<open>typeof v === 'string' && v ? v : d\<close>, and the same for a trimmed optional text.\<close>

definition text_or :: "jsval \<Rightarrow> string \<Rightarrow> string" where
  "text_or v d = (case v of JStr s \<Rightarrow> if s \<noteq> [] then s else d | _ \<Rightarrow> d)"

definition trimmed_field :: "jsval \<Rightarrow> string option" where
  "trimmed_field v = (case v of JStr s \<Rightarrow> some_text (js_trim s) | _ \<Rightarrow> None)"

section \<open>electron/lib/wallet-accounts.ts\<close>

definition walletDerivationPath :: "nat \<Rightarrow> string" where
  "walletDerivationPath index =
     ''m/44'' @ sq @ ''/659'' @ sq @ ''/'' @ js_nat index @ sq @ ''/0/0''"

definition derivation_path_re :: re where
  "derivation_path_re = seqs [Bol, lit (''m/44'' @ sq @ ''/659'' @ sq @ ''/''), Grp 1 (plus digit),
     lit (sq @ ''/0/0''), Eol]"

definition parseWalletDerivationIndex :: "string option \<Rightarrow> nat option" where
  "parseWalletDerivationIndex derivationPath =
     (let trimmed = opt_trim derivationPath
      in if trimmed = [] then None
         else case js_exec derivation_path_re trimmed of
                None \<Rightarrow> None
              | Some m \<Rightarrow> if cap 1 (match_caps m) = [] then None
                          else Some (parse_digits (cap 1 (match_caps m))))"

text \<open>The first accounts of a seed phrase, as index, path, address and key.\<close>

fun derive_from :: "wallet_lib \<Rightarrow> string \<Rightarrow> nat \<Rightarrow> nat \<Rightarrow> (nat \<times> string \<times> string \<times> string) list option" where
  "derive_from lib seedPhrase index 0 = Some []"
| "derive_from lib seedPhrase index (Suc n) =
     (case wl_derive lib seedPhrase (walletDerivationPath index) of
        None \<Rightarrow> None
      | Some (address, wif) \<Rightarrow>
          map_option (\<lambda>rest. (index + 1, walletDerivationPath index, address, wif) # rest)
            (derive_from lib seedPhrase (index + 1) n))"

definition deriveWalletAccountsFromSeed ::
  "wallet_lib \<Rightarrow> string \<Rightarrow> nat \<Rightarrow> (nat \<times> string \<times> string \<times> string) list option" where
  "deriveWalletAccountsFromSeed lib seedPhrase numAccounts = derive_from lib seedPhrase 0 numAccounts"

section \<open>Secrets\<close>

definition encryptTelenoWalletSecret :: "wallet_lib \<Rightarrow> nat \<Rightarrow> string \<Rightarrow> string \<Rightarrow> jsval" where
  "encryptTelenoWalletSecret lib salt v password =
     (case wl_seal lib salt v password of
        (encrypted, s, iv, authTag) \<Rightarrow>
          JObj [(''encrypted'', JStr encrypted), (''salt'', JStr s), (''iv'', JStr iv), (''authTag'', JStr authTag)])"

text \<open>A secret without its four texts makes \<open>Buffer.from\<close> throw.\<close>

definition decryptTelenoWalletSecret :: "wallet_lib \<Rightarrow> jsval \<Rightarrow> string \<Rightarrow> string option" where
  "decryptTelenoWalletSecret lib secret password =
     (case (js_prop ''encrypted'' secret, js_prop ''salt'' secret, js_prop ''iv'' secret, js_prop ''authTag'' secret) of
        (JStr encrypted, JStr s, JStr iv, JStr authTag) \<Rightarrow> wl_open lib (encrypted, s, iv, authTag) password
      | _ \<Rightarrow> None)"

section \<open>Reading a wallet file\<close>

definition accountSummary :: "enc_account \<Rightarrow> string option \<Rightarrow> account_summary" where
  "accountSummary account activeAccountId =
     \<lparr>as_id = ea_id account, as_name = ea_name account, as_kind = ea_kind account,
      as_address = ea_address account, as_derivationPath = some_text (opt_trim (ea_derivationPath account)),
      as_createdAt = ea_createdAt account, as_updatedAt = some_text (ea_updatedAt account),
      as_hasPrivateKey = (ea_kind account \<noteq> WatchOnly),
      as_isActive = (activeAccountId = Some (ea_id account))\<rparr>"

definition sanitizeAccountName :: "string option \<Rightarrow> string \<Rightarrow> string" where
  "sanitizeAccountName name fallback = js_or (opt_trim name) fallback"

definition createWalletAccountId :: "wallet_env \<Rightarrow> account_kind \<Rightarrow> string" where
  "createWalletAccountId env kind = ''acc_'' @ account_kind_str kind @ ''_'' @ we_idTail env"

text \<open>The number after the highest derivation index in use; \<open>0\<close> without derived accounts.\<close>

definition nextDerivationIndex :: "enc_account list \<Rightarrow> nat" where
  "nextDerivationIndex accounts =
     foldl (\<lambda>m a. max m (case parseWalletDerivationIndex (ea_derivationPath a) of None \<Rightarrow> 0 | Some i \<Rightarrow> i + 1)) 0
       (filter (\<lambda>a. ea_kind a = Derived) accounts)"

definition nextDefaultAccountName :: "enc_account list \<Rightarrow> account_kind \<Rightarrow> string" where
  "nextDefaultAccountName accounts kind =
     (if kind = Derived then ''Account '' @ js_nat (nextDerivationIndex accounts + 1)
      else if kind = WatchOnly then
        ''Watch Account '' @ js_nat (length (filter (\<lambda>a. ea_kind a = WatchOnly) accounts) + 1)
      else ''Imported Account '' @ js_nat (length (filter (\<lambda>a. ea_kind a = ImportedWif) accounts) + 1))"

definition kind_of_text :: "string \<Rightarrow> account_kind option" where
  "kind_of_text s =
     (if s = ''derived'' then Some Derived
      else if s = ''imported-wif'' then Some ImportedWif
      else if s = ''watch-only'' then Some WatchOnly else None)"

definition sanitizeWalletAccount :: "wallet_lib \<Rightarrow> wallet_env \<Rightarrow> jsval \<Rightarrow> enc_account option" where
  "sanitizeWalletAccount lib env v =
     (let i = text_field lib (js_prop ''id'' v);
          name = text_field lib (js_prop ''name'' v);
          kind = kind_of_text (text_field lib (js_prop ''kind'' v));
          address = text_field lib (js_prop ''address'' v);
          createdAt = text_or (js_prop ''createdAt'' v) (we_now env)
      in if i = [] \<or> name = [] \<or> address = [] \<or> kind = None then None
         else Some
           \<lparr>ea_id = i, ea_name = name, ea_kind = the kind, ea_address = address, ea_createdAt = createdAt,
            ea_updatedAt = text_or (js_prop ''updatedAt'' v) createdAt,
            ea_derivationPath = trimmed_field (js_prop ''derivationPath'' v),
            ea_encryptedKey = object_field (js_prop ''encryptedKey'' v)\<rparr>)"

definition array_of :: "jsval \<Rightarrow> jsval list" where
  "array_of v = (case v of JArr vs \<Rightarrow> vs | _ \<Rightarrow> [])"

text \<open>A file with accounts: the active one is looked up by its id and defaults to the first.\<close>

definition wallet_of_accounts :: "wallet_lib \<Rightarrow> wallet_env \<Rightarrow> jsval \<Rightarrow> enc_account list \<Rightarrow> enc_wallet" where
  "wallet_of_accounts lib env parsed accounts =
     (let activeAccountId = js_or (text_field lib (js_prop ''activeAccountId'' parsed)) (ea_id (hd accounts));
          activeAccount = (case find (\<lambda>a. ea_id a = activeAccountId) accounts of
             Some a \<Rightarrow> a | None \<Rightarrow> hd accounts)
      in \<lparr>ew_address = ea_address activeAccount, ew_encryptedKey = ea_encryptedKey activeAccount,
          ew_encryptedSeedPhrase = object_field (js_prop ''encryptedSeedPhrase'' parsed),
          ew_seedDerivationPath = ea_derivationPath activeAccount,
          ew_activeAccountId = Some (ea_id activeAccount), ew_accounts = accounts,
          ew_createdAt = text_or (js_prop ''createdAt'' parsed) (we_now env),
          ew_updatedAt = text_or (js_prop ''updatedAt'' parsed) (we_now env)\<rparr>)"

text \<open>A file of the first version: one key, with or without a seed phrase.\<close>

definition legacy_wallet :: "wallet_lib \<Rightarrow> wallet_env \<Rightarrow> jsval \<Rightarrow> enc_wallet option" where
  "legacy_wallet lib env parsed =
     (let address = text_field lib (js_prop ''address'' parsed);
          encryptedKey = object_field (js_prop ''encryptedKey'' parsed);
          hasSeedPhrase = truthy (js_prop ''encryptedSeedPhrase'' parsed);
          kind = (if hasSeedPhrase then Derived else ImportedWif);
          derivationPath = (case trimmed_field (js_prop ''seedDerivationPath'' parsed) of
             Some p \<Rightarrow> Some p
           | None \<Rightarrow> if hasSeedPhrase then Some (walletDerivationPath 0) else None);
          createdAt = text_or (js_prop ''createdAt'' parsed) (we_now env);
          account = \<lparr>ea_id = createWalletAccountId env kind,
            ea_name = (if hasSeedPhrase then ''Account 1'' else ''Imported Account 1''), ea_kind = kind,
            ea_address = address, ea_createdAt = createdAt, ea_updatedAt = createdAt,
            ea_derivationPath = derivationPath, ea_encryptedKey = encryptedKey\<rparr>
      in if address = [] \<or> encryptedKey = None then None
         else Some \<lparr>ew_address = address, ew_encryptedKey = encryptedKey,
           ew_encryptedSeedPhrase = object_field (js_prop ''encryptedSeedPhrase'' parsed),
           ew_seedDerivationPath = derivationPath, ew_activeAccountId = Some (ea_id account),
           ew_accounts = [account], ew_createdAt = createdAt,
           ew_updatedAt = text_or (js_prop ''updatedAt'' parsed) createdAt\<rparr>)"

definition normalizeWalletFilePayload :: "wallet_lib \<Rightarrow> wallet_env \<Rightarrow> jsval \<Rightarrow> enc_wallet option" where
  "normalizeWalletFilePayload lib env parsed =
     (let accounts = List.map_filter (sanitizeWalletAccount lib env) (array_of (js_prop ''accounts'' parsed))
      in if accounts \<noteq> [] then Some (wallet_of_accounts lib env parsed accounts)
         else legacy_wallet lib env parsed)"

definition findWalletAccount :: "enc_wallet option \<Rightarrow> string option \<Rightarrow> enc_account option" where
  "findWalletAccount wallet accountId =
     (case wallet of
        None \<Rightarrow> None
      | Some w \<Rightarrow>
          if ew_accounts w = [] then None
          else
            case (if opt_trim accountId \<noteq> [] then find (\<lambda>a. ea_id a = opt_trim accountId) (ew_accounts w) else None) of
              Some a \<Rightarrow> Some a
            | None \<Rightarrow>
                (case find (\<lambda>a. ea_id a = opt_trim (ew_activeAccountId w)) (ew_accounts w) of
                   Some a \<Rightarrow> Some a
                 | None \<Rightarrow> Some (hd (ew_accounts w))))"

section \<open>Writing a wallet file\<close>

definition syncWalletCompatibilityFields :: "wallet_env \<Rightarrow> enc_wallet \<Rightarrow> enc_wallet" where
  "syncWalletCompatibilityFields env w =
     (let active = findWalletAccount (Some w) (ew_activeAccountId w)
      in w\<lparr>ew_address := (case active of Some a \<Rightarrow> js_or (ea_address a) (ew_address w) | None \<Rightarrow> ew_address w),
           ew_encryptedKey := Option.bind active ea_encryptedKey,
           ew_seedDerivationPath := Option.bind active ea_derivationPath,
           ew_activeAccountId := Option.bind active (\<lambda>a. some_text (ea_id a)),
           ew_createdAt := js_or (ew_createdAt w) (we_written env),
           ew_updatedAt := we_written env\<rparr>)"

definition json_opt :: "jsval option \<Rightarrow> jsval" where
  "json_opt v = (case v of None \<Rightarrow> JNull | Some x \<Rightarrow> x)"

definition json_text :: "string option \<Rightarrow> jsval" where
  "json_text s = (case s of None \<Rightarrow> JNull | Some x \<Rightarrow> JStr x)"

definition account_json :: "enc_account \<Rightarrow> jsval" where
  "account_json a = JObj
     [(''id'', JStr (ea_id a)), (''name'', JStr (ea_name a)), (''kind'', JStr (account_kind_str (ea_kind a))),
      (''address'', JStr (ea_address a)), (''createdAt'', JStr (ea_createdAt a)),
      (''updatedAt'', JStr (ea_updatedAt a)), (''derivationPath'', json_text (ea_derivationPath a)),
      (''encryptedKey'', json_opt (ea_encryptedKey a))]"

definition wallet_json :: "enc_wallet \<Rightarrow> jsval" where
  "wallet_json w = JObj
     [(''version'', JNum (Fin 2)), (''address'', JStr (ew_address w)),
      (''encryptedKey'', json_opt (ew_encryptedKey w)),
      (''encryptedSeedPhrase'', json_opt (ew_encryptedSeedPhrase w)),
      (''seedDerivationPath'', json_text (ew_seedDerivationPath w)),
      (''activeAccountId'', json_text (ew_activeAccountId w)),
      (''accounts'', JArr (map account_json (ew_accounts w))),
      (''createdAt'', JStr (ew_createdAt w)), (''updatedAt'', JStr (ew_updatedAt w))]"

definition writeWalletFile :: "wallet_env \<Rightarrow> enc_wallet \<Rightarrow> network option \<Rightarrow> wallet_store \<Rightarrow> wallet_store" where
  "writeWalletFile env w net st =
     st\<lparr>ws_files := (ws_files st)(net := Content (wallet_json (syncWalletCompatibilityFields env w)))\<rparr>"

fun is_array :: "jsval \<Rightarrow> bool" where
  "is_array (JArr vs) = True"
| "is_array _ = False"

definition loadWalletFile ::
  "wallet_lib \<Rightarrow> wallet_env \<Rightarrow> network option \<Rightarrow> wallet_store \<Rightarrow> enc_wallet option \<times> wallet_store" where
  "loadWalletFile lib env net st =
     (case ws_files st net of
        Content parsed \<Rightarrow>
          (case normalizeWalletFilePayload lib env parsed of
             None \<Rightarrow> (None, st)
           | Some w \<Rightarrow>
               (Some w, if is_array (js_prop ''accounts'' parsed) then st else writeWalletFile env w net st))
      | _ \<Rightarrow> (None, st))"

section \<open>The unlocked session\<close>

text \<open>The first account found by its active id, by the wallet's address, or at the head.\<close>

definition session_account :: "enc_wallet \<Rightarrow> unlocked_account list \<Rightarrow> unlocked_account option" where
  "session_account w accounts =
     (case find (\<lambda>a. Some (ua_id a) = ew_activeAccountId w) accounts of
        Some a \<Rightarrow> Some a
      | None \<Rightarrow>
          (case find (\<lambda>a. ua_address a = ew_address w) accounts of
             Some a \<Rightarrow> Some a
           | None \<Rightarrow> (case accounts of [] \<Rightarrow> None | a # _ \<Rightarrow> Some a)))"

text \<open>The private key of one account: opened, derived, or absent.\<close>

definition account_key ::
  "wallet_lib \<Rightarrow> string option \<Rightarrow> string \<Rightarrow> enc_account \<Rightarrow> wallet_error + string option" where
  "account_key lib seedPhrase password a =
     (if ea_kind a = WatchOnly then Inr None
      else case ea_encryptedKey a of
        Some secret \<Rightarrow>
          (case decryptTelenoWalletSecret lib secret password of None \<Rightarrow> Inl DecryptFailed | Some k \<Rightarrow> Inr (Some k))
      | None \<Rightarrow>
          (case (seedPhrase, ea_derivationPath a) of
             (Some seed, Some path) \<Rightarrow>
               if seed = [] \<or> path = [] then Inr None
               else (case wl_derive lib seed path of None \<Rightarrow> Inl DeriveFailed | Some (addr, wif) \<Rightarrow> Inr (Some wif))
           | _ \<Rightarrow> Inr None))"

definition unlocked_as :: "enc_account \<Rightarrow> string option \<Rightarrow> unlocked_account" where
  "unlocked_as a key =
     \<lparr>ua_id = ea_id a, ua_name = ea_name a, ua_kind = ea_kind a, ua_address = ea_address a,
      ua_derivationPath = ea_derivationPath a, ua_privateKey = key, ua_createdAt = ea_createdAt a,
      ua_updatedAt = some_text (ea_updatedAt a)\<rparr>"

fun unlock_accounts ::
  "wallet_lib \<Rightarrow> string option \<Rightarrow> string \<Rightarrow> enc_account list \<Rightarrow> wallet_error + unlocked_account list" where
  "unlock_accounts lib seedPhrase password [] = Inr []"
| "unlock_accounts lib seedPhrase password (a # as) =
     (case account_key lib seedPhrase password a of
        Inl e \<Rightarrow> Inl e
      | Inr key \<Rightarrow>
          (case unlock_accounts lib seedPhrase password as of
             Inl e \<Rightarrow> Inl e
           | Inr us \<Rightarrow> Inr (unlocked_as a key # us)))"

definition session_of ::
  "enc_wallet \<Rightarrow> string option \<Rightarrow> unlocked_account list \<Rightarrow> unlocked_wallet" where
  "session_of w seedPhrase accounts =
     (let active = session_account w accounts
      in \<lparr>uw_address = (case active of Some a \<Rightarrow> js_or (ua_address a) (ew_address w) | None \<Rightarrow> ew_address w),
          uw_privateKey = Option.bind active ua_privateKey,
          uw_seedPhrase = seedPhrase,
          uw_seedDerivationPath = (case Option.bind active ua_derivationPath of
             Some p \<Rightarrow> Some p | None \<Rightarrow> ew_seedDerivationPath w),
          uw_activeAccountId = Option.bind active (\<lambda>a. some_text (ua_id a)),
          uw_accountName = Option.bind active (\<lambda>a. some_text (ua_name a)),
          uw_accountKind = map_option ua_kind active,
          uw_accounts = accounts\<rparr>)"

definition unlockedWalletFromFile :: "wallet_lib \<Rightarrow> enc_wallet \<Rightarrow> string \<Rightarrow> wallet_error + unlocked_wallet" where
  "unlockedWalletFromFile lib w password =
     (let opened = (case ew_encryptedSeedPhrase w of
            None \<Rightarrow> Inr None
          | Some secret \<Rightarrow> (case decryptTelenoWalletSecret lib secret password of
              None \<Rightarrow> Inl DecryptFailed | Some seed \<Rightarrow> Inr (Some seed)))
      in case opened of
           Inl e \<Rightarrow> Inl e
         | Inr seedPhrase \<Rightarrow>
             (case unlock_accounts lib seedPhrase password (ew_accounts w) of
                Inl e \<Rightarrow> Inl e
              | Inr accounts \<Rightarrow> Inr (session_of w seedPhrase accounts)))"

definition getUnlockedWalletForNetwork :: "network option \<Rightarrow> wallet_store \<Rightarrow> unlocked_wallet option" where
  "getUnlockedWalletForNetwork net st =
     (case net of
        None \<Rightarrow> ws_unlocked st
      | Some n \<Rightarrow> if ws_unlockedNetwork st \<noteq> Some n then None else ws_unlocked st)"

text \<open>Changing the session an operation works on, when there is one.\<close>

definition on_session ::
  "network option \<Rightarrow> (unlocked_wallet \<Rightarrow> unlocked_wallet) \<Rightarrow> wallet_store \<Rightarrow> wallet_store" where
  "on_session net f st =
     (case getUnlockedWalletForNetwork net st of
        None \<Rightarrow> st
      | Some u \<Rightarrow> st\<lparr>ws_unlocked := Some (f u)\<rparr>)"

text \<open>Making an account of the session the active one, from the account or from none.\<close>

definition with_active :: "unlocked_account option \<Rightarrow> string \<Rightarrow> unlocked_wallet \<Rightarrow> unlocked_wallet" where
  "with_active active walletAddress u =
     u\<lparr>uw_address := (case active of Some a \<Rightarrow> js_or (ua_address a) walletAddress | None \<Rightarrow> walletAddress),
       uw_privateKey := Option.bind active ua_privateKey,
       uw_seedDerivationPath := Option.bind active ua_derivationPath,
       uw_activeAccountId := Option.bind active (\<lambda>a. some_text (ua_id a)),
       uw_accountName := Option.bind active (\<lambda>a. some_text (ua_name a)),
       uw_accountKind := map_option ua_kind active\<rparr>"

text \<open>Adding an account to the session and making it active.\<close>

definition push_active :: "unlocked_account \<Rightarrow> unlocked_wallet \<Rightarrow> unlocked_wallet" where
  "push_active a u =
     u\<lparr>uw_accounts := uw_accounts u @ [a], uw_address := ua_address a, uw_privateKey := ua_privateKey a,
       uw_seedDerivationPath := ua_derivationPath a, uw_activeAccountId := Some (ua_id a),
       uw_accountName := Some (ua_name a), uw_accountKind := Some (ua_kind a)\<rparr>"

section \<open>Session operations\<close>

definition loadWallet ::
  "wallet_lib \<Rightarrow> wallet_env \<Rightarrow> string \<Rightarrow> network option \<Rightarrow> wallet_store
   \<Rightarrow> (wallet_error + unlocked_wallet option) \<times> wallet_store" where
  "loadWallet lib env password net st =
     (case loadWalletFile lib env net st of
        (None, st') \<Rightarrow> (Inr None, st')
      | (Some w, st') \<Rightarrow>
          (case unlockedWalletFromFile lib w password of
             Inl e \<Rightarrow> (Inl e, st')
           | Inr u \<Rightarrow> (Inr (Some u), st')))"

definition unlockWalletSession ::
  "wallet_lib \<Rightarrow> wallet_env \<Rightarrow> string \<Rightarrow> network option \<Rightarrow> wallet_store
   \<Rightarrow> (wallet_error + unlocked_wallet option) \<times> wallet_store" where
  "unlockWalletSession lib env password net st =
     (case loadWallet lib env password net st of
        (Inr (Some u), st') \<Rightarrow> (Inr (Some u), st'\<lparr>ws_unlocked := Some u, ws_unlockedNetwork := net\<rparr>)
      | other \<Rightarrow> other)"

text \<open>The wallet saveWallet writes: one account, derived when a seed phrase is given.\<close>

definition first_wallet ::
  "wallet_lib \<Rightarrow> wallet_env \<Rightarrow> string \<Rightarrow> string \<Rightarrow> string \<Rightarrow> string option \<Rightarrow> string option \<Rightarrow> enc_wallet" where
  "first_wallet lib env privateKey address password seed path =
     (let seedPhrase = opt_trim seed;
          derivationPath = opt_trim path;
          kind = (if seedPhrase \<noteq> [] then Derived else ImportedWif);
          firstAccount = \<lparr>ea_id = createWalletAccountId env kind,
            ea_name = (if seedPhrase \<noteq> [] then ''Account 1'' else ''Imported Account 1''),
            ea_kind = kind, ea_address = address, ea_createdAt = we_now env, ea_updatedAt = we_now env,
            ea_derivationPath = (if derivationPath \<noteq> [] then Some derivationPath
              else if seedPhrase \<noteq> [] then Some (walletDerivationPath 0) else None),
            ea_encryptedKey = Some (encryptTelenoWalletSecret lib (we_salt env) privateKey password)\<rparr>
      in \<lparr>ew_address = address, ew_encryptedKey = ea_encryptedKey firstAccount,
          ew_encryptedSeedPhrase = (if seedPhrase \<noteq> []
            then Some (encryptTelenoWalletSecret lib (we_salt env + 1) seedPhrase password) else None),
          ew_seedDerivationPath = ea_derivationPath firstAccount,
          ew_activeAccountId = Some (ea_id firstAccount), ew_accounts = [firstAccount],
          ew_createdAt = we_now env, ew_updatedAt = we_now env\<rparr>)"

text \<open>A failure to open what was just sealed throws after the file has been written.\<close>

definition saveWallet ::
  "wallet_lib \<Rightarrow> wallet_env \<Rightarrow> string \<Rightarrow> string \<Rightarrow> string \<Rightarrow> string option \<Rightarrow> string option \<Rightarrow> network option
   \<Rightarrow> wallet_store \<Rightarrow> (wallet_error + unit) \<times> wallet_store" where
  "saveWallet lib env privateKey address password seed path net st =
     (let payload = first_wallet lib env privateKey address password seed path;
          st' = writeWalletFile env payload net st
      in case unlockedWalletFromFile lib payload password of
           Inl e \<Rightarrow> (Inl e, st')
         | Inr u \<Rightarrow> (Inr (), st'\<lparr>ws_unlocked := Some u, ws_unlockedNetwork := net\<rparr>))"

definition clear_session :: "network option \<Rightarrow> wallet_store \<Rightarrow> wallet_store" where
  "clear_session net st =
     (if net = None \<or> ws_unlockedNetwork st = net
      then st\<lparr>ws_unlocked := None, ws_unlockedNetwork := None\<rparr> else st)"

definition clearProducerProfile :: "network option \<Rightarrow> wallet_store \<Rightarrow> bool \<times> wallet_store" where
  "clearProducerProfile net st =
     (if ws_profiles st net = Missing then (False, st)
      else (True, st\<lparr>ws_profiles := (ws_profiles st)(net := Missing)\<rparr>))"

definition deleteWallet :: "network option \<Rightarrow> wallet_store \<Rightarrow> bool \<times> wallet_store" where
  "deleteWallet net st =
     (if ws_files st net = Missing then (False, st)
      else (True, clear_session net
        (snd (clearProducerProfile net (st\<lparr>ws_files := (ws_files st)(net := Missing)\<rparr>)))))"

definition closeWalletSession ::
  "wallet_lib \<Rightarrow> wallet_env \<Rightarrow> network option \<Rightarrow> wallet_store \<Rightarrow> string option \<times> wallet_store" where
  "closeWalletSession lib env net st =
     (case Option.bind (getUnlockedWalletForNetwork net st) (\<lambda>u. some_text (uw_address u)) of
        Some address \<Rightarrow> (Some address, clear_session net st)
      | None \<Rightarrow>
          (case loadWalletFile lib env net st of
             (w, st') \<Rightarrow> (Option.bind w (\<lambda>w. some_text (ew_address w)), clear_session net st')))"

section \<open>Account operations\<close>

definition summaries :: "enc_wallet \<Rightarrow> account_summary list" where
  "summaries w = map (\<lambda>a. accountSummary a (ew_activeAccountId w)) (ew_accounts w)"

definition listWalletAccounts ::
  "wallet_lib \<Rightarrow> wallet_env \<Rightarrow> network option \<Rightarrow> wallet_store \<Rightarrow> account_summary list \<times> wallet_store" where
  "listWalletAccounts lib env net st =
     (case loadWalletFile lib env net st of
        (None, st') \<Rightarrow> ([], st')
      | (Some w, st') \<Rightarrow> (summaries w, st'))"

text \<open>The address a query is about: the given one, the session's account of that id, the stored one,
  the session's active account, the stored active account.\<close>

definition resolveWalletQueryAddress ::
  "wallet_lib \<Rightarrow> wallet_env \<Rightarrow> string option \<Rightarrow> string option \<Rightarrow> network option \<Rightarrow> wallet_store
   \<Rightarrow> string option \<times> wallet_store" where
  "resolveWalletQueryAddress lib env address accountId net st =
     (let session = getUnlockedWalletForNetwork net st;
          explicit = some_text (opt_trim address);
          requested = Option.bind session (\<lambda>u. find (\<lambda>a. ua_id a = opt_trim accountId) (uw_accounts u));
          unlocked = Option.bind requested (\<lambda>a. some_text (ua_address a))
      in if explicit \<noteq> None then (explicit, st)
         else if unlocked \<noteq> None then (unlocked, st)
         else
           let asked = Option.bind accountId some_text \<noteq> None;
               loaded = (if asked then loadWalletFile lib env net st else (None, st));
               stored = Option.bind (findWalletAccount (fst loaded) accountId) (\<lambda>a. some_text (ea_address a));
               active = Option.bind session (\<lambda>u. some_text (uw_address u))
           in if stored \<noteq> None then (stored, snd loaded)
              else if active \<noteq> None then (active, snd loaded)
              else
                let again = loadWalletFile lib env net (snd loaded)
                in (case Option.bind (findWalletAccount (fst again) (Option.bind (fst again) ew_activeAccountId))
                           (\<lambda>a. some_text (ea_address a)) of
                      Some a \<Rightarrow> Some a
                    | None \<Rightarrow> Option.bind (fst again) (\<lambda>w. some_text (js_trim (ew_address w))),
                    snd again))"

definition setActiveWalletAccount ::
  "wallet_lib \<Rightarrow> wallet_env \<Rightarrow> string \<Rightarrow> network option \<Rightarrow> wallet_store
   \<Rightarrow> account_summary option \<times> wallet_store" where
  "setActiveWalletAccount lib env accountId net st =
     (case loadWalletFile lib env net st of
        (None, st1) \<Rightarrow> (None, st1)
      | (Some w, st1) \<Rightarrow>
          (case findWalletAccount (Some w) (Some accountId) of
             None \<Rightarrow> (None, st1)
           | Some a \<Rightarrow>
               (Some (accountSummary a (Some (ea_id a))),
                on_session net
                  (\<lambda>u. with_active
                     (case find (\<lambda>e. ua_id e = ea_id a) (uw_accounts u) of
                        Some e \<Rightarrow> Some e
                      | None \<Rightarrow> (case uw_accounts u of [] \<Rightarrow> None | e # _ \<Rightarrow> Some e))
                     (ew_address w) u)
                  (writeWalletFile env (w\<lparr>ew_activeAccountId := Some (ea_id a)\<rparr>) net st1))))"

text \<open>Appending an account to the file and the session and making it active, as the three
  operations that add one do.\<close>

definition add_account ::
  "wallet_env \<Rightarrow> enc_account \<Rightarrow> string option \<Rightarrow> enc_wallet \<Rightarrow> network option \<Rightarrow> wallet_store
   \<Rightarrow> account_summary option \<times> wallet_store" where
  "add_account env a key w net st =
     (Some (accountSummary a (Some (ea_id a))),
      on_session net (push_active (unlocked_as a key))
        (writeWalletFile env
           (w\<lparr>ew_accounts := ew_accounts w @ [a], ew_activeAccountId := Some (ea_id a)\<rparr>) net st))"

definition new_account ::
  "wallet_env \<Rightarrow> account_kind \<Rightarrow> string option \<Rightarrow> enc_account list \<Rightarrow> string \<Rightarrow> string option \<Rightarrow> jsval option
   \<Rightarrow> enc_account" where
  "new_account env kind name accounts address path key =
     \<lparr>ea_id = createWalletAccountId env kind,
      ea_name = sanitizeAccountName name (nextDefaultAccountName accounts kind),
      ea_kind = kind, ea_address = address, ea_createdAt = we_now env, ea_updatedAt = we_now env,
      ea_derivationPath = path, ea_encryptedKey = key\<rparr>"

definition has_address :: "string \<Rightarrow> enc_account \<Rightarrow> bool" where
  "has_address address a \<longleftrightarrow> js_lower (ea_address a) = js_lower address"

definition createDerivedWalletAccount ::
  "wallet_lib \<Rightarrow> wallet_env \<Rightarrow> string option \<Rightarrow> network option \<Rightarrow> wallet_store
   \<Rightarrow> (wallet_error + account_summary option) \<times> wallet_store" where
  "createDerivedWalletAccount lib env name net st =
     (case loadWalletFile lib env net st of
        (None, st1) \<Rightarrow> (Inr None, st1)
      | (Some w, st1) \<Rightarrow>
          (case Option.bind (getUnlockedWalletForNetwork net st1) uw_seedPhrase of
             None \<Rightarrow> (Inr None, st1)
           | Some seed \<Rightarrow>
               if ew_accounts w = [] \<or> ew_encryptedSeedPhrase w = None \<or> seed = [] then (Inr None, st1)
               else
                 let path = walletDerivationPath (nextDerivationIndex (ew_accounts w))
                 in case wl_derive lib seed path of
                      None \<Rightarrow> (Inl DeriveFailed, st1)
                    | Some (address, wif) \<Rightarrow>
                        if list_ex (has_address address) (ew_accounts w) then (Inr None, st1)
                        else
                          let added = add_account env
                                (new_account env Derived name (ew_accounts w) address (Some path) None)
                                (Some wif) w net st1
                          in (Inr (fst added), snd added)))"

definition importWatchWalletAccount ::
  "wallet_lib \<Rightarrow> wallet_env \<Rightarrow> string \<Rightarrow> string option \<Rightarrow> network option \<Rightarrow> wallet_store
   \<Rightarrow> account_summary option \<times> wallet_store" where
  "importWatchWalletAccount lib env address name net st =
     (if js_trim address = [] then (None, st)
      else case loadWalletFile lib env net st of
        (None, st1) \<Rightarrow> (None, st1)
      | (Some w, st1) \<Rightarrow>
          if list_ex (has_address (js_trim address)) (ew_accounts w) then (None, st1)
          else add_account env (new_account env WatchOnly name (ew_accounts w) (js_trim address) None None) None w net st1)"

text \<open>The first index at which a predicate holds, and the list with that element replaced or, without
  one, appended.\<close>

definition replace_or_push :: "('a \<Rightarrow> bool) \<Rightarrow> 'a \<Rightarrow> 'a list \<Rightarrow> 'a list" where
  "replace_or_push P x xs = (case js_find_index P xs of Some i \<Rightarrow> xs[i := x] | None \<Rightarrow> xs @ [x])"

text \<open>Making an account that is already in the session, or pushed there, the active one.\<close>

definition put_active :: "unlocked_account \<Rightarrow> unlocked_wallet \<Rightarrow> unlocked_wallet" where
  "put_active a u =
     u\<lparr>uw_accounts := replace_or_push (\<lambda>e. ua_id e = ua_id a \<or> js_lower (ua_address e) = js_lower (ua_address a)) a
         (uw_accounts u),
       uw_address := ua_address a, uw_privateKey := ua_privateKey a,
       uw_seedDerivationPath := ua_derivationPath a, uw_activeAccountId := Some (ua_id a),
       uw_accountName := Some (ua_name a), uw_accountKind := Some (ua_kind a)\<rparr>"

text \<open>Importing the key of a watched address upgrades the watched account in place.\<close>

definition upgraded_account ::
  "wallet_lib \<Rightarrow> wallet_env \<Rightarrow> string \<Rightarrow> string \<Rightarrow> string option \<Rightarrow> enc_account \<Rightarrow> enc_account" where
  "upgraded_account lib env privateKey password name a =
     a\<lparr>ea_name := sanitizeAccountName name (ea_name a), ea_kind := ImportedWif, ea_updatedAt := we_now env,
       ea_derivationPath := None,
       ea_encryptedKey := Some (encryptTelenoWalletSecret lib (we_salt env) privateKey password)\<rparr>"

definition importWalletAccount ::
  "wallet_lib \<Rightarrow> wallet_env \<Rightarrow> string \<Rightarrow> string \<Rightarrow> string option \<Rightarrow> network option \<Rightarrow> wallet_store
   \<Rightarrow> (wallet_error + account_summary option) \<times> wallet_store" where
  "importWalletAccount lib env privateKey password name net st =
     (case wl_wif_address lib privateKey of
        None \<Rightarrow> (Inl BadKey, st)
      | Some address \<Rightarrow>
          (case loadWalletFile lib env net st of
             (None, st1) \<Rightarrow>
               (case saveWallet lib env privateKey address password None None net st1 of
                  (Inl e, st2) \<Rightarrow> (Inl e, st2)
                | (Inr _, st2) \<Rightarrow>
                    (case listWalletAccounts lib env net st2 of
                       (accounts, st3) \<Rightarrow> (Inr (case accounts of [] \<Rightarrow> None | a # _ \<Rightarrow> Some a), st3)))
           | (Some w, st1) \<Rightarrow>
               (case js_find_index (has_address address) (ew_accounts w) of
                  Some i \<Rightarrow>
                    let existing = ew_accounts w ! i;
                        a = upgraded_account lib env privateKey password name existing
                    in if ea_kind existing \<noteq> WatchOnly then (Inr None, st1)
                       else
                         (Inr (Some (accountSummary a (Some (ea_id a)))),
                          on_session net (put_active (unlocked_as a (Some privateKey)))
                            (writeWalletFile env
                               (w\<lparr>ew_accounts := (ew_accounts w)[i := a], ew_activeAccountId := Some (ea_id a)\<rparr>) net st1))
                | None \<Rightarrow>
                    let added = add_account env
                          (new_account env ImportedWif name (ew_accounts w) address None
                             (Some (encryptTelenoWalletSecret lib (we_salt env) privateKey password)))
                          (Some privateKey) w net st1
                    in (Inr (fst added), snd added))))"

text \<open>The account object of the wallet is changed in place.\<close>

definition rename_in :: "string \<Rightarrow> string \<Rightarrow> string \<Rightarrow> enc_account list \<Rightarrow> enc_account list" where
  "rename_in i name now accounts =
     (case js_find_index (\<lambda>a. ea_id a = i) accounts of
        None \<Rightarrow> accounts
      | Some k \<Rightarrow> accounts[k := (accounts ! k)\<lparr>ea_name := name, ea_updatedAt := now\<rparr>])"

definition rename_session :: "string \<Rightarrow> string \<Rightarrow> unlocked_wallet \<Rightarrow> unlocked_wallet" where
  "rename_session i name u =
     u\<lparr>uw_accounts := (case js_find_index (\<lambda>a. ua_id a = i) (uw_accounts u) of
          None \<Rightarrow> uw_accounts u
        | Some k \<Rightarrow> (uw_accounts u)[k := (uw_accounts u ! k)\<lparr>ua_name := name\<rparr>]),
       uw_accountName := (if uw_activeAccountId u = Some i then Some name else uw_accountName u)\<rparr>"

definition renameWalletAccount ::
  "wallet_lib \<Rightarrow> wallet_env \<Rightarrow> string \<Rightarrow> string \<Rightarrow> network option \<Rightarrow> wallet_store
   \<Rightarrow> account_summary option \<times> wallet_store" where
  "renameWalletAccount lib env accountId name net st =
     (case loadWalletFile lib env net st of
        (None, st1) \<Rightarrow> (None, st1)
      | (Some w, st1) \<Rightarrow>
          (case findWalletAccount (Some w) (Some accountId) of
             None \<Rightarrow> (None, st1)
           | Some a \<Rightarrow>
               if js_trim name = [] then (None, st1)
               else
                 (Some (accountSummary (a\<lparr>ea_name := js_trim name, ea_updatedAt := we_now env\<rparr>) (ew_activeAccountId w)),
                  on_session net (rename_session (ea_id a) (js_trim name))
                    (writeWalletFile env
                       (w\<lparr>ew_accounts := rename_in (ea_id a) (js_trim name) (we_now env) (ew_accounts w)\<rparr>) net st1))))"

definition without_account :: "string \<Rightarrow> enc_wallet \<Rightarrow> enc_wallet" where
  "without_account i w =
     (let nextAccounts = filter (\<lambda>a. ea_id a \<noteq> i) (ew_accounts w)
      in w\<lparr>ew_accounts := nextAccounts,
           ew_activeAccountId :=
             (if list_ex (\<lambda>a. Some (ea_id a) = ew_activeAccountId w) nextAccounts then ew_activeAccountId w
              else case nextAccounts of [] \<Rightarrow> None | a # _ \<Rightarrow> some_text (ea_id a))\<rparr>)"

definition remove_session :: "string \<Rightarrow> enc_wallet \<Rightarrow> unlocked_wallet \<Rightarrow> unlocked_wallet" where
  "remove_session i w u =
     (let accounts = filter (\<lambda>a. ua_id a \<noteq> i) (uw_accounts u);
          active = (case find (\<lambda>a. Some (ua_id a) = ew_activeAccountId w) accounts of
             Some a \<Rightarrow> Some a
           | None \<Rightarrow> (case accounts of [] \<Rightarrow> None | a # _ \<Rightarrow> Some a))
      in with_active active (ew_address w) (u\<lparr>uw_accounts := accounts\<rparr>))"

definition removeWalletAccount ::
  "wallet_lib \<Rightarrow> wallet_env \<Rightarrow> string \<Rightarrow> network option \<Rightarrow> wallet_store
   \<Rightarrow> account_summary list option \<times> wallet_store" where
  "removeWalletAccount lib env accountId net st =
     (case loadWalletFile lib env net st of
        (None, st1) \<Rightarrow> (None, st1)
      | (Some w, st1) \<Rightarrow>
          if length (ew_accounts w) \<le> 1 \<or> list_all (\<lambda>a. ea_id a \<noteq> accountId) (ew_accounts w) then (None, st1)
          else
            (Some (summaries (without_account accountId w)),
             on_session net (remove_session accountId (without_account accountId w))
               (writeWalletFile env (without_account accountId w) net st1)))"

record account_secrets =
  sc_walletAddress :: "string option"
  sc_accountId :: "string option"
  sc_accountName :: "string option"
  sc_accountKind :: "account_kind option"
  sc_accountAddress :: "string option"
  sc_privateKeyWif :: "string option"
  sc_derivationPath :: "string option"
  sc_seedPhrase :: "string option"

definition secrets_account :: "unlocked_wallet \<Rightarrow> string option \<Rightarrow> unlocked_account option" where
  "secrets_account u accountId =
     (case find (\<lambda>a. ua_id a = opt_trim accountId) (uw_accounts u) of
        Some a \<Rightarrow> Some a
      | None \<Rightarrow>
          (case find (\<lambda>a. Some (ua_id a) = Option.bind (uw_activeAccountId u) some_text) (uw_accounts u) of
             Some a \<Rightarrow> Some a
           | None \<Rightarrow> (case uw_accounts u of [] \<Rightarrow> None | a # _ \<Rightarrow> Some a)))"

definition loadWalletAccountSecrets ::
  "wallet_lib \<Rightarrow> wallet_env \<Rightarrow> string option \<Rightarrow> network option \<Rightarrow> wallet_store
   \<Rightarrow> account_secrets \<times> wallet_store" where
  "loadWalletAccountSecrets lib env accountId net st =
     (case loadWalletFile lib env net st of
        (w, st1) \<Rightarrow>
          let session = getUnlockedWalletForNetwork net st1;
              account = Option.bind session (\<lambda>u. secrets_account u accountId)
          in (\<lparr>sc_walletAddress = (case Option.bind w (\<lambda>w. some_text (ew_address w)) of
                 Some x \<Rightarrow> Some x | None \<Rightarrow> Option.bind session (\<lambda>u. some_text (uw_address u))),
               sc_accountId = Option.bind account (\<lambda>a. some_text (ua_id a)),
               sc_accountName = Option.bind account (\<lambda>a. some_text (ua_name a)),
               sc_accountKind = map_option ua_kind account,
               sc_accountAddress = Option.bind account (\<lambda>a. some_text (ua_address a)),
               sc_privateKeyWif = Option.bind account ua_privateKey,
               sc_derivationPath = Option.bind account ua_derivationPath,
               sc_seedPhrase = Option.bind session (\<lambda>u. Option.bind (uw_seedPhrase u) some_text)\<rparr>,
              st1))"

section \<open>Producer profiles\<close>

definition profile_json :: "producer_profile \<Rightarrow> jsval" where
  "profile_json p = JObj
     [(''network'', JStr (network_str (pp_network p))), (''producerAddress'', JStr (pp_producerAddress p)),
      (''registrationSignerAccountId'', JStr (pp_registrationSignerAccountId p)),
      (''burnAccountId'', JStr (pp_burnAccountId p)), (''localPublicKey'', JStr (pp_localPublicKey p)),
      (''localPublicKeyPath'', JStr (pp_localPublicKeyPath p)),
      (''registeredPublicKey'', json_text (pp_registeredPublicKey p)),
      (''lastRegistrationTxId'', json_text (pp_lastRegistrationTxId p)), (''updatedAt'', JStr (pp_updatedAt p))]"

fun string_opt :: "jsval \<Rightarrow> string option" where
  "string_opt (JStr s) = Some s"
| "string_opt _ = None"

definition loadProducerProfile ::
  "wallet_lib \<Rightarrow> wallet_env \<Rightarrow> network option \<Rightarrow> wallet_store \<Rightarrow> producer_profile option" where
  "loadProducerProfile lib env net st =
     (case ws_profiles st net of
        Content parsed \<Rightarrow>
          let profileNetwork = normalizeKoinosNetworkId (js_prop ''network'' parsed);
              field = (\<lambda>k. text_field lib (js_prop k parsed))
          in if net \<noteq> None \<and> net \<noteq> Some profileNetwork then None
             else if field ''producerAddress'' = [] \<or> field ''registrationSignerAccountId'' = [] \<or>
                  field ''burnAccountId'' = [] \<or> field ''localPublicKey'' = [] \<or> field ''localPublicKeyPath'' = []
             then None
             else Some
               \<lparr>pp_network = (case net of Some n \<Rightarrow> n | None \<Rightarrow> profileNetwork),
                pp_producerAddress = field ''producerAddress'',
                pp_registrationSignerAccountId = field ''registrationSignerAccountId'',
                pp_burnAccountId = field ''burnAccountId'', pp_localPublicKey = field ''localPublicKey'',
                pp_localPublicKeyPath = field ''localPublicKeyPath'',
                pp_registeredPublicKey = string_opt (js_prop ''registeredPublicKey'' parsed),
                pp_lastRegistrationTxId = string_opt (js_prop ''lastRegistrationTxId'' parsed),
                pp_updatedAt = text_or (js_prop ''updatedAt'' parsed) (we_now env)\<rparr>
      | _ \<Rightarrow> None)"

definition saveProducerProfile :: "producer_profile \<Rightarrow> network option \<Rightarrow> wallet_store \<Rightarrow> wallet_store" where
  "saveProducerProfile p net st =
     (let requestedNetwork = (case net of Some n \<Rightarrow> n | None \<Rightarrow> pp_network p)
      in st\<lparr>ws_profiles := (ws_profiles st)
             (Some requestedNetwork := Content (profile_json (p\<lparr>pp_network := requestedNetwork\<rparr>)))\<rparr>)"

end
