(* ===== verification/JsNumber.thy ===== *)
theory JsNumber
  imports JsValue "HOL-Library.Log_Nat"
begin

text \<open>
  Numbers of JavaScript where their rounding matters: the amounts of wallet-service.ts, which multiplies
  what the user typed by 1e8 and takes the floor.

  A double is the rational it stands for; \<open>js_round\<close> rounds to 53 significant bits, ties to even, and
  \<open>js_mul\<close> is the product with its overflow. Doubles below 2^-1022 have fewer bits; they are smaller than any
  unit of an amount and are not told apart here.

  Main results: the relative error of a rounding is at most 2^-53 (\<open>js_round_error\<close>), a rounding does not pass
  an integer above (\<open>js_round_le_int\<close>).
\<close>

text \<open>Round half to even.\<close>

definition round_even :: "rat \<Rightarrow> int" where
  "round_even y =
     (let f = \<lfloor>y\<rfloor>
      in if y - of_int f < 1 / 2 then f
         else if y - of_int f > 1 / 2 then f + 1
         else if even f then f else f + 1)"

text \<open>The exponent of the leading bit of a positive number.\<close>

definition leading_exponent :: "rat \<Rightarrow> int" where
  "leading_exponent x =
     (case quotient_of x of (p, q) \<Rightarrow>
        let k = bitlen p - bitlen q in if x < 2 powi k then k - 1 else k)"

text \<open>The weight of the last of 53 bits.\<close>

definition js_ulp :: "rat \<Rightarrow> rat" where
  "js_ulp x = 2 powi (leading_exponent x - 52)"

definition js_round :: "rat \<Rightarrow> rat" where
  "js_round x = (if x = 0 then 0 else sgn x * of_int (round_even (\<bar>x\<bar> / js_ulp \<bar>x\<bar>)) * js_ulp \<bar>x\<bar>)"

definition js_mul :: "rat \<Rightarrow> rat \<Rightarrow> jsnum" where
  "js_mul a b =
     (let x = js_round (a * b)
      in if x \<ge> 2 ^ 1024 then PosInf else if x \<le> - (2 ^ 1024) then NegInf else Fin x)"

text \<open>\<open>BigInt(Math.floor(x))\<close>, which throws for what is no integer.\<close>

definition js_big_floor :: "jsnum \<Rightarrow> string + int" where
  "js_big_floor x =
     (let none = (\<lambda>t. ''The number '' @ t @ '' cannot be converted to a BigInt because it is not an integer'')
      in case x of Fin r \<Rightarrow> Inr \<lfloor>r\<rfloor> | NaN \<Rightarrow> Inl (none ''NaN'') | PosInf \<Rightarrow> Inl (none ''Infinity'')
         | NegInf \<Rightarrow> Inl (none ''-Infinity''))"

section \<open>Lemmas\<close>

lemma round_even_error: "\<bar>of_int (round_even y) - y\<bar> \<le> 1 / 2"
  using floor_correct [of y] unfolding round_even_def Let_def by (auto simp: abs_le_iff split: if_split)

lemma round_even_of_int [simp]: "round_even (of_int n) = n"
  by (simp add: round_even_def)

lemma round_even_mono: "y \<le> of_int n \<Longrightarrow> round_even y \<le> n"
proof -
  assume le: "y \<le> of_int n"
  then have "\<lfloor>y\<rfloor> \<le> n" by linarith
  moreover have "y - of_int \<lfloor>y\<rfloor> < 1 / 2" if "\<lfloor>y\<rfloor> = n" using le that by simp
  ultimately show ?thesis
    unfolding round_even_def Let_def by (cases "\<lfloor>y\<rfloor> = n") auto
qed

lemma round_even_nonneg: "0 \<le> y \<Longrightarrow> 0 \<le> round_even y"
  unfolding round_even_def Let_def by (auto simp: le_floor_iff intro: add_nonneg_nonneg)

lemma leading_exponent_bounds:
  assumes "0 < x"
  shows "2 powi leading_exponent x \<le> x" and "x < 2 powi (leading_exponent x + 1)"
proof -
  obtain p q where pq: "quotient_of x = (p, q)" by fastforce
  have q: "0 < q" using pq by (rule quotient_of_denom_pos)
  have x: "x = of_int p / of_int q" using pq by (rule quotient_of_div)
  have p: "0 < p" using assms q by (simp add: x zero_less_divide_iff)
  define a b where "a = nat (bitlen p - 1)" and "b = nat (bitlen q - 1)"
  have len: "bitlen p = int a + 1" "bitlen q = int b + 1"
    using p q by (simp_all add: a_def b_def bitlen_alt_def)
  have "2 ^ a \<le> p" "p < 2 ^ Suc a" using bitlen_bounds [OF p] len by (simp_all add: nat_add_distrib)
  then have "(of_int (2 ^ a) :: rat) \<le> of_int p" "of_int p < (of_int (2 ^ Suc a) :: rat)"
    by (simp_all only: of_int_le_iff of_int_less_iff)
  then have bp: "(2::rat) ^ a \<le> of_int p" "of_int p < (2::rat) ^ Suc a" by simp_all
  have "2 ^ b \<le> q" "q < 2 ^ Suc b" using bitlen_bounds [OF q] len by (simp_all add: nat_add_distrib)
  then have "(of_int (2 ^ b) :: rat) \<le> of_int q" "of_int q < (of_int (2 ^ Suc b) :: rat)"
    by (simp_all only: of_int_le_iff of_int_less_iff)
  then have bq: "(2::rat) ^ b \<le> of_int q" "of_int q < (2::rat) ^ Suc b" by simp_all
  let ?k = "bitlen p - bitlen q"
  have k: "(2::rat) powi ?k = 2 ^ a / 2 ^ b" by (simp add: len power_int_diff)
  have up: "x < 2 powi (?k + 1)"
  proof -
    have "x < 2 ^ Suc a / 2 ^ b"
      unfolding x using bp(2) bq(1) q by (intro frac_less) (use p in auto)
    then show ?thesis using k by (simp add: power_int_add mult.commute)
  qed
  have low: "2 powi (?k - 1) \<le> x"
  proof -
    have "2 ^ a / 2 ^ Suc b \<le> x"
      unfolding x using bp(1) bq(2) q p by (intro frac_le) auto
    then show ?thesis using k by (simp add: power_int_diff)
  qed
  show "2 powi leading_exponent x \<le> x" "x < 2 powi (leading_exponent x + 1)"
    using up low by (simp_all add: leading_exponent_def pq Let_def)
qed

lemma js_ulp_pos: "0 < js_ulp x"
  by (simp add: js_ulp_def)

text \<open>A positive number has between 2^52 and 2^53 units of its last place.\<close>

lemma js_ulp_bounds:
  assumes "0 < x"
  shows "2 ^ 52 \<le> x / js_ulp x" "x / js_ulp x < 2 ^ 53"
proof -
  have "2 powi leading_exponent x = (2::rat) ^ 52 * js_ulp x"
    by (simp add: js_ulp_def power_int_diff)
  moreover have "2 powi (leading_exponent x + 1) = (2::rat) ^ 53 * js_ulp x"
    by (simp add: js_ulp_def power_int_diff power_int_add)
  ultimately show "2 ^ 52 \<le> x / js_ulp x" "x / js_ulp x < 2 ^ 53"
    using leading_exponent_bounds [OF assms] js_ulp_pos [of x]
    by (simp_all add: pos_le_divide_eq pos_divide_less_eq)
qed

lemma js_round_nonneg: "0 \<le> x \<Longrightarrow> 0 \<le> js_round x"
  using js_ulp_pos [of x] by (auto simp: js_round_def sgn_if intro!: mult_nonneg_nonneg round_even_nonneg)

lemma js_round_error:
  assumes "0 \<le> x"
  shows "\<bar>js_round x - x\<bar> \<le> x / 2 ^ 53"
proof (cases "x = 0")
  case False
  with assms have x: "0 < x" by simp
  let ?u = "js_ulp x"
  have u: "0 < ?u" by (rule js_ulp_pos)
  have "js_round x - x = (of_int (round_even (x / ?u)) - x / ?u) * ?u"
    using x u by (simp add: js_round_def algebra_simps)
  then have "\<bar>js_round x - x\<bar> = \<bar>of_int (round_even (x / ?u)) - x / ?u\<bar> * ?u"
    using u by (simp add: abs_mult)
  also have "\<dots> \<le> 1 / 2 * ?u" by (intro mult_right_mono round_even_error) (use u in simp)
  also have "\<dots> \<le> x / 2 ^ 53"
    using js_ulp_bounds(1) [OF x] u by (simp add: pos_le_divide_eq)
  finally show ?thesis .
qed (simp add: js_round_def)

lemma js_round_le_int:
  assumes "0 \<le> x" "x \<le> of_int n" "n < 2 ^ 53"
  shows "js_round x \<le> of_int n"
proof (cases "x = 0")
  case True
  with assms show ?thesis by (simp add: js_round_def)
next
  case False
  with assms have x: "0 < x" by simp
  let ?u = "js_ulp x"
  have u: "0 < ?u" by (rule js_ulp_pos)
  have "(of_int n :: rat) < of_int (2 ^ 53)" using assms(3) by (simp only: of_int_less_iff)
  with assms(2) leading_exponent_bounds(1) [OF x] have "2 powi leading_exponent x < (2::rat) powi 53"
    by simp
  then have "leading_exponent x < 53"
    using power_int_increasing [of 53 "leading_exponent x" "2 :: rat"] by linarith
  then obtain k where k: "52 - leading_exponent x = int k" using zero_le_imp_eq_int [of "52 - leading_exponent x"] by auto
  then have "leading_exponent x - 52 = - int k" by simp
  then have inv: "?u * 2 ^ k = 1" by (simp add: js_ulp_def power_int_minus)
  have "x / ?u = x * 2 ^ k" using inv u by (simp add: divide_eq_eq ac_simps)
  also have "\<dots> \<le> of_int (n * 2 ^ k)" using assms(2) by simp
  finally have "(of_int (round_even (x / ?u)) :: rat) \<le> of_int (n * 2 ^ k)"
    by (simp only: of_int_le_iff round_even_mono)
  then have "of_int (round_even (x / ?u)) * ?u \<le> of_int (n * 2 ^ k) * ?u" by (rule mult_right_mono) (use u in simp)
  also have "\<dots> = of_int n" using inv by (simp add: ac_simps)
  finally show ?thesis using x by (simp add: js_round_def)
qed

text \<open>A decimal with eight places, read as a double, times 1e8: the floor is the number meant or one less.\<close>

lemma decimal_units:
  assumes "0 < n" "n < 2 ^ 51"
  shows "js_big_floor (js_mul (js_round (of_int n / 10 ^ 8)) (10 ^ 8)) \<in> {Inr n, Inr (n - 1)}"
proof -
  let ?d = "of_int n / 10 ^ 8 :: rat"
  let ?a = "js_round ?d"
  let ?x = "js_round (?a * 10 ^ 8)"
  let ?e = "1 / 2 ^ 53 :: rat"
  have n: "0 < (of_int n :: rat)" "(of_int n :: rat) < 2 ^ 51"
    using assms by (simp, metis of_int_less_iff of_int_numeral of_int_power)
  have a: "\<bar>?a - ?d\<bar> \<le> ?d * ?e" using js_round_error [of ?d] n by simp
  have a0: "0 \<le> ?a * 10 ^ 8" using n by (simp add: js_round_nonneg)
  have an: "\<bar>?a * 10 ^ 8 - of_int n\<bar> \<le> of_int n * ?e"
    using a n by (simp add: abs_le_iff field_simps)
  have x: "\<bar>?x - ?a * 10 ^ 8\<bar> \<le> (?a * 10 ^ 8) * ?e" using js_round_error [OF a0] by simp
  have "(?a * 10 ^ 8) * ?e \<le> (of_int n + of_int n * ?e) * ?e"
    by (rule mult_right_mono) (use an in linarith, simp)
  then have close: "\<bar>?x - of_int n\<bar> \<le> of_int n * ?e + (of_int n + of_int n * ?e) * ?e"
    using x an by linarith
  have "of_int n * ?e + (of_int n + of_int n * ?e) * ?e = of_int n * (2 * ?e + ?e * ?e)"
    by (simp add: algebra_simps)
  also have "\<dots> \<le> 2 ^ 51 * (2 * ?e + ?e * ?e)" by (rule mult_right_mono) (use n in simp_all)
  also have "\<dots> < 1" by simp
  finally have "\<bar>?x - of_int n\<bar> < 1" using close by (rule le_less_trans [rotated])
  then have b: "of_int n - 1 < ?x" "?x < of_int n + 1" by linarith+
  with n have "\<not> 2 ^ 1024 \<le> ?x" "\<not> ?x \<le> - (2 ^ 1024)" by simp_all
  then have "js_big_floor (js_mul ?a (10 ^ 8)) = Inr \<lfloor>?x\<rfloor>" by (simp add: js_mul_def js_big_floor_def)
  moreover have "\<lfloor>?x\<rfloor> = n \<or> \<lfloor>?x\<rfloor> = n - 1" using b by linarith
  ultimately show ?thesis by auto
qed

text \<open>The second case happens: 0.29 is sent as 28999999 units.\<close>

lemma leading_exponent_eq:
  assumes "2 powi e \<le> x" "x < 2 powi (e + 1)"
  shows "leading_exponent x = e"
proof -
  have "(0::rat) < 2 powi e" by simp
  with assms have "0 < x" by linarith
  note b = leading_exponent_bounds [OF this]
  have "\<not> e + 1 \<le> leading_exponent x"
    using power_int_increasing [of "e + 1" "leading_exponent x" "2 :: rat"] assms(2) b(1) by auto
  moreover have "\<not> leading_exponent x + 1 \<le> e"
    using power_int_increasing [of "leading_exponent x + 1" e "2 :: rat"] assms(1) b(2) by auto
  ultimately show ?thesis by linarith
qed

lemma js_round_at:
  assumes "2 powi e \<le> x" "x < 2 powi (e + 1)"
  shows "js_round x = of_int (round_even (x / 2 powi (e - 52))) * 2 powi (e - 52)"
proof -
  have "(0::rat) < 2 powi e" by simp
  with assms have "0 < x" by linarith
  then show ?thesis by (simp add: js_round_def js_ulp_def leading_exponent_eq [OF assms])
qed

lemma round_even_near: "\<bar>y - of_int n\<bar> < 1 / 2 \<Longrightarrow> round_even y = n"
  using round_even_error [of y] by linarith

lemma unit_lost: "js_big_floor (js_mul (js_round (29 / 100)) (10 ^ 8)) = Inr 28999999"
proof -
  have r: "round_even (130604389193744384 / 25) = 5224175567749775" "round_even (2040693581152255859375 / 262144) = 7784628223999999"
    by (rule round_even_near, simp)+
  have a: "js_round (29 / 100) = 5224175567749775 / 18014398509481984"
    by (subst js_round_at [of "-2"]) (simp_all add: power_int_minus r)
  have b: "js_round (5224175567749775 / 18014398509481984 * 10 ^ 8) = 7784628223999999 / 268435456"
    by (subst js_round_at [of 24]) (simp_all add: power_int_minus r)
  show ?thesis by (simp only: a b js_mul_def Let_def) (simp add: js_big_floor_def floor_eq_iff)
qed

end
