(* ===== verification/JsFlow.thy ===== *)
theory JsFlow
  imports JsPrelude
begin

text \<open>
  Asynchronous handlers that end in \<open>return fail(message)\<close> or \<open>catch (error)\<close>: a step on a state that returns
  a value (\<open>Inr\<close>) or stops with a message (\<open>Inl\<close>). The state a step leaves is kept when it fails, as the
  effects before a \<open>throw\<close> are.

  \<open>ends f s P Q\<close> says how a step ends; its rules go along a program forwards (\<open>flow_rules\<close>, by rewriting) or as
  introduction rules (\<open>flow_intros\<close>).
\<close>

section \<open>Steps\<close>

type_synonym ('s, 'a) flow = "'s \<Rightarrow> (string + 'a) \<times> 's"

definition returns :: "'a \<Rightarrow> ('s, 'a) flow" where
  "returns x s = (Inr x, s)"

definition fails :: "string \<Rightarrow> ('s, 'a) flow" where
  "fails message s = (Inl message, s)"

definition and_then :: "('s, 'a) flow \<Rightarrow> ('a \<Rightarrow> ('s, 'b) flow) \<Rightarrow> ('s, 'b) flow" where
  "and_then f g s = (case f s of (Inl message, s1) \<Rightarrow> (Inl message, s1) | (Inr x, s1) \<Rightarrow> g x s1)"

definition awaited :: "string + 'a \<Rightarrow> ('s, 'a) flow" where
  "awaited r s = (r, s)"

definition unless :: "bool \<Rightarrow> string \<Rightarrow> ('s, 'a) flow \<Rightarrow> ('s, 'a) flow" where
  "unless c message f = (if c then fails message else f)"

fun all_awaited :: "(string + unit) list \<Rightarrow> ('s, unit) flow" where
  "all_awaited [] = returns ()"
| "all_awaited (r # rs) = and_then (awaited r) (\<lambda>_. all_awaited rs)"

text \<open>The surrounding \<open>catch\<close>.\<close>

definition or_failed :: "(string \<Rightarrow> 'r) \<Rightarrow> ('s, 'r) flow \<Rightarrow> 's \<Rightarrow> 'r \<times> 's" where
  "or_failed failed f s = (case f s of (Inl message, s1) \<Rightarrow> (failed message, s1) | (Inr r, s1) \<Rightarrow> (r, s1))"

section \<open>Reasoning about steps\<close>

text \<open>\<open>ends f s P Q\<close>: from s the step f fails with \<open>P\<close> or returns with \<open>Q\<close>. The rules rewrite it along the program.\<close>

definition ends :: "('s, 'a) flow \<Rightarrow> 's \<Rightarrow> (string \<Rightarrow> 's \<Rightarrow> bool) \<Rightarrow> ('a \<Rightarrow> 's \<Rightarrow> bool) \<Rightarrow> bool" where
  "ends f s P Q \<longleftrightarrow> (case f s of (Inl m, s1) \<Rightarrow> P m s1 | (Inr x, s1) \<Rightarrow> Q x s1)"

named_theorems flow_rules
named_theorems flow_intros

lemma ends_returns [flow_rules]: "ends (returns x) s P Q = Q x s"
  by (simp add: ends_def returns_def)

lemma ends_fails [flow_rules]: "ends (fails m) s P Q = P m s"
  by (simp add: ends_def fails_def)

lemma ends_and_then [flow_rules]: "ends (and_then f g) s P Q = ends f s P (\<lambda>x s1. ends (g x) s1 P Q)"
  by (simp add: ends_def and_then_def split: prod.split sum.split)

lemma ends_awaited [flow_rules]: "ends (awaited r) s P Q = (case r of Inl m \<Rightarrow> P m s | Inr x \<Rightarrow> Q x s)"
  by (simp add: ends_def awaited_def split: sum.split)

lemma ends_unless [flow_rules]: "ends (unless c m f) s P Q = (if c then P m s else ends f s P Q)"
  by (simp add: unless_def ends_fails)

lemma ends_and_thenI [flow_intros]: "ends f s P (\<lambda>x s1. ends (g x) s1 P Q) \<Longrightarrow> ends (and_then f g) s P Q"
  by (simp only: ends_and_then)

lemma ends_failsI [flow_intros]: "P m s \<Longrightarrow> ends (fails m) s P Q"
  by (simp only: ends_fails)

lemma ends_pairI [flow_intros]: "ends (f x y) s P Q \<Longrightarrow> ends (case (x, y) of (a, b) \<Rightarrow> f a b) s P Q"
  by simp

lemma ends_optionI [flow_intros]:
  "(v = None \<Longrightarrow> ends f s P Q) \<Longrightarrow> (\<And>x. v = Some x \<Longrightarrow> ends (g x) s P Q) \<Longrightarrow>
   ends (case v of None \<Rightarrow> f | Some x \<Rightarrow> g x) s P Q"
  by (cases v) simp_all

lemma ends_awaitedI [flow_intros]:
  "(\<And>m. r = Inl m \<Longrightarrow> P m s) \<Longrightarrow> (\<And>x. r = Inr x \<Longrightarrow> Q x s) \<Longrightarrow> ends (awaited r) s P Q"
  by (simp add: ends_awaited split: sum.split)

lemma ends_unlessI [flow_intros]: "(c \<Longrightarrow> P m s) \<Longrightarrow> (\<not> c \<Longrightarrow> ends f s P Q) \<Longrightarrow> ends (unless c m f) s P Q"
  by (simp add: ends_unless)

lemma ends_mono:
  assumes "ends f s P Q" "\<And>m s1. P m s1 \<Longrightarrow> P' m s1" "\<And>x s1. Q x s1 \<Longrightarrow> Q' x s1"
  shows "ends f s P' Q'"
  using assms by (auto simp: ends_def split: prod.splits sum.splits)

lemma ends_all_awaited [flow_intros]:
  assumes "\<And>m. P m s" "Q () s"
  shows "ends (all_awaited rs) s P Q"
  using assms by (induction rs) (simp_all add: flow_rules split: sum.split)

lemma or_failed_cases:
  assumes "ends f s (\<lambda>m s1. R (failed m) s1) R"
  shows "case or_failed failed f s of (r, s1) \<Rightarrow> R r s1"
  using assms by (auto simp: or_failed_def ends_def split: prod.splits sum.splits)

end
