(* ===== verification/WalletTransfers.thy ===== *)
theory WalletTransfers
  imports WalletStore JsNumber JsFlow
begin

text \<open>
  Spending from the wallet: electron/lib/wallet-service.ts, \<open>walletBurn\<close>, \<open>walletTransferVhp\<close>,
  \<open>walletTransferKoin\<close> and the sponsored transaction they share, with \<open>formatWholeUnits\<close>,
  \<open>safeIsChecksumAddress\<close> and \<open>resolveWalletRpcUrl\<close> of electron/main.ts.

  State (\<open>spending\<close>): the wallet store and the transactions sent so far, dry runs included. A step returns
  a message (\<open>Inl\<close>: an early \<open>return fail(message)\<close> or an Error that the surrounding catch turns into the
  same result) or a value. What the chain and koilib answer is the environment \<open>chain_env\<close>; of calls that run
  in one \<open>Promise.all\<close> the first in the list that fails is reported. An input is the JSON value the
  renderer sent.
\<close>

section \<open>State and steps\<close>

datatype wallet_op =
    Approve string string string int
  | BurnOp string int string string
  | TransferOp string string string int

record wallet_tx =
  tx_key :: string
  tx_payer :: "string option"
  tx_payee :: "string option"
  tx_rcLimit :: int
  tx_operations :: "wallet_op list"
  tx_broadcast :: bool

record spending =
  sp_store :: wallet_store
  sp_sent :: "wallet_tx list"

type_synonym 'a spend = "(spending, 'a) flow"

text \<open>The answers of the chain. \<open>ch_balance\<close> has the number of the reading as its last argument, \<open>ch_sign\<close>
  the number of the signature; amounts that are absent are \<open>None\<close>.\<close>

record chain_env =
  ch_lib :: wallet_lib
  ch_env :: wallet_env
  ch_message :: "wallet_error \<Rightarrow> string"
  ch_valid :: "string \<Rightarrow> bool"
  ch_signer :: "string \<Rightarrow> string + unit"
  ch_contract :: "string \<Rightarrow> string + unit"
  ch_balance :: "string \<Rightarrow> string \<Rightarrow> nat \<Rightarrow> string + int option"
  ch_rc :: "string \<Rightarrow> string + int option"
  ch_allowance :: "string \<Rightarrow> string \<Rightarrow> string + int option"
  ch_encode :: "wallet_op \<Rightarrow> string + unit"
  ch_push :: "wallet_op \<Rightarrow> string + unit"
  ch_prepare :: "wallet_tx \<Rightarrow> string + unit"
  ch_sign :: "nat \<Rightarrow> wallet_tx \<Rightarrow> string + unit"
  ch_estimate :: "wallet_tx \<Rightarrow> string + int option"
  ch_dry :: "wallet_tx \<Rightarrow> string + unit"
  ch_send :: "wallet_tx \<Rightarrow> string + unit"
  ch_txId :: "wallet_tx \<Rightarrow> string"
  ch_formatUnits :: "string \<Rightarrow> nat \<Rightarrow> string option"

definition or_zero :: "int option \<Rightarrow> int" where
  "or_zero v = (case v of None \<Rightarrow> 0 | Some n \<Rightarrow> n)"

text \<open>\<open>transaction.send\<close>: the transaction is on record whatever the answer.\<close>

definition sends :: "(wallet_tx \<Rightarrow> string + 'a) \<Rightarrow> wallet_tx \<Rightarrow> 'a spend" where
  "sends answer tx s = (answer tx, s\<lparr>sp_sent := sp_sent s @ [tx]\<rparr>)"

text \<open>\<open>v || \<close> for an optional text.\<close>

definition opt_text :: "string option \<Rightarrow> string" where
  "opt_text v = (case v of None \<Rightarrow> [] | Some t \<Rightarrow> t)"

section \<open>Helpers of main.ts\<close>

definition resolveWalletRpcUrl :: "wallet_lib \<Rightarrow> jsval \<Rightarrow> string" where
  "resolveWalletRpcUrl lib input =
     (let requested = text_field lib (js_prop ''rpcUrl'' input)
      in if requested \<noteq> [] then requested
         else primaryPublicRpcUrlForNetwork (profile_normalizeKoinosNetworkId (js_prop ''network'' input)))"

definition safeIsChecksumAddress :: "(string \<Rightarrow> bool) \<Rightarrow> string \<Rightarrow> bool" where
  "safeIsChecksumAddress valid v = (if v = [] then False else valid v)"

definition trailing_zeros :: "string \<Rightarrow> string" where
  "trailing_zeros formatted =
     (let whole = js_replace (seqs [chr (CHR ''.''), plus (chr (CHR ''0'')), Eol]) (\<lambda>_ _. []) formatted;
          short = js_replace (seqs [Grp 1 (Seq (chr (CHR ''.'')) (LazyStar digit)), plus (chr (CHR ''0'')), Eol]) (\<lambda>_ c. cap 1 c) whole
      in js_replace (seqs [chr (CHR ''.''), Eol]) (\<lambda>_ _. []) short)"

definition formatWholeUnits :: "(string \<Rightarrow> nat \<Rightarrow> string option) \<Rightarrow> int option \<Rightarrow> nat \<Rightarrow> string option" where
  "formatWholeUnits formatUnits v decimals =
     (case v of None \<Rightarrow> None
      | Some n \<Rightarrow>
          (case formatUnits (js_int n) decimals of
             None \<Rightarrow> None
           | Some formatted \<Rightarrow>
               if \<not> js_includes formatted ''.'' then Some formatted
               else Some (js_or (trailing_zeros formatted) ''0'')))"

definition whole_units :: "chain_env \<Rightarrow> int option \<Rightarrow> string option" where
  "whole_units env v = formatWholeUnits (ch_formatUnits env) v 8"

section \<open>Sponsored transactions\<close>

definition free_mana_sharer_address :: string where
  "free_mana_sharer_address = ''162GhJwsciDiKsgwzj2t6VoFHt3RMzGKdG''"

definition free_mana_meter_address :: string where
  "free_mana_meter_address = ''1MqveNK3piSGPHGocsRUCVhpCPLgQA58K9''"

definition setWalletTransactionSponsor :: "string \<Rightarrow> string \<Rightarrow> int \<Rightarrow> wallet_tx \<Rightarrow> wallet_tx" where
  "setWalletTransactionSponsor payer payee rcLimit tx =
     tx\<lparr>tx_payer := Some payer, tx_payee := Some payee, tx_rcLimit := rcLimit\<rparr>"

definition insufficient_rc_re :: re where
  "insufficient_rc_re = lit_i ''insufficient rc''"

text \<open>One round of the loop per attempt; the last argument counts the attempts left.\<close>

fun sponsor_attempts :: "chain_env \<Rightarrow> string \<Rightarrow> wallet_tx \<Rightarrow> int \<Rightarrow> nat \<Rightarrow> wallet_tx spend" where
  "sponsor_attempts env walletAddress tx limit 0 = fails ''Free mana transaction could not be prepared.''"
| "sponsor_attempts env walletAddress tx limit (Suc n) = (\<lambda>s.
     let tx1 = setWalletTransactionSponsor free_mana_sharer_address walletAddress limit tx
     in case and_then (awaited (ch_sign env (5 - n) tx1)) (\<lambda>_. sends (ch_dry env) tx1) s of
          (Inr _, s1) \<Rightarrow> (Inr tx1, s1)
        | (Inl message, s1) \<Rightarrow>
            if n = 0 \<or> \<not> js_test insufficient_rc_re message then (Inl message, s1)
            else sponsor_attempts env walletAddress tx1 (limit + 100000000) n s1)"

definition prepareWalletTransactionWithFreeMana :: "chain_env \<Rightarrow> string \<Rightarrow> string \<Rightarrow> wallet_op list \<Rightarrow> wallet_tx spend" where
  "prepareWalletTransactionWithFreeMana env key walletAddress operations =
     and_then (awaited (ch_rc env free_mana_meter_address)) (\<lambda>raw.
     let manaMeterRc = or_zero raw;
         initialRcLimit = manaMeterRc * 9 div 10;
         tx = \<lparr>tx_key = key, tx_payer = Some free_mana_sharer_address, tx_payee = Some walletAddress,
           tx_rcLimit = initialRcLimit, tx_operations = operations, tx_broadcast = False\<rparr>;
         tx1 = setWalletTransactionSponsor free_mana_meter_address walletAddress initialRcLimit tx
     in unless (manaMeterRc \<le> 0) ''Free mana is currently unavailable.''
       (and_then (all_awaited (map (ch_push env) operations)) (\<lambda>_.
        and_then (awaited (ch_prepare env tx1)) (\<lambda>_.
        and_then (awaited (ch_sign env 0 tx1)) (\<lambda>_.
        and_then (sends (ch_estimate env) tx1) (\<lambda>used.
        unless (or_zero used \<le> 0) ''Free mana dry run failed to estimate RC usage.''
          (sponsor_attempts env walletAddress tx1 ((or_zero used * 110 + 99) div 100) 5)))))))"

section \<open>The signing account\<close>

definition resolveUnlockedWalletAccount :: "unlocked_wallet \<Rightarrow> string \<Rightarrow> unlocked_account option" where
  "resolveUnlockedWalletAccount wallet accountId =
     (case (if accountId \<noteq> [] then find (\<lambda>a. ua_id a = accountId) (uw_accounts wallet) else None) of
        Some a \<Rightarrow> Some a
      | None \<Rightarrow>
          (case find (\<lambda>a. ua_id a = opt_trim (uw_activeAccountId wallet)) (uw_accounts wallet) of
             Some a \<Rightarrow> Some a
           | None \<Rightarrow> (case uw_accounts wallet of [] \<Rightarrow> None | a # _ \<Rightarrow> Some a)))"

text \<open>\<open>`${v || ''}`\<close> without trimming, for the password.\<close>

definition raw_text :: "wallet_lib \<Rightarrow> jsval \<Rightarrow> string" where
  "raw_text lib v = (if truthy v then js_string (wl_num_str lib) v else [])"

definition session_wallet :: "chain_env \<Rightarrow> network \<Rightarrow> string \<Rightarrow> unlocked_wallet option spend" where
  "session_wallet env net password s =
     (case getUnlockedWalletForNetwork (Some net) (sp_store s) of
        Some u \<Rightarrow> (Inr (Some u), s)
      | None \<Rightarrow>
          if password = [] then (Inr None, s)
          else (case unlockWalletSession (ch_lib env) (ch_env env) password (Some net) (sp_store s) of
              (Inl e, st) \<Rightarrow> (Inl (ch_message env e), s\<lparr>sp_store := st\<rparr>)
            | (Inr u, st) \<Rightarrow> (Inr u, s\<lparr>sp_store := st\<rparr>)))"

definition stored_wallet :: "chain_env \<Rightarrow> network \<Rightarrow> enc_wallet option spend" where
  "stored_wallet env net s =
     (case loadWalletFile (ch_lib env) (ch_env env) (Some net) (sp_store s) of
        (w, st) \<Rightarrow> (Inr w, s\<lparr>sp_store := st\<rparr>))"

definition signing_account :: "chain_env \<Rightarrow> network \<Rightarrow> jsval \<Rightarrow> string \<Rightarrow> (unlocked_account \<times> string) spend" where
  "signing_account env net input locked =
     and_then (session_wallet env net (raw_text (ch_lib env) (js_prop ''password'' input))) (\<lambda>w.
       case w of
         None \<Rightarrow> fails locked
       | Some wallet \<Rightarrow>
           (case resolveUnlockedWalletAccount wallet (text_field (ch_lib env) (js_prop ''accountId'' input)) of
              None \<Rightarrow> fails ''Selected wallet account is not unlocked in this Koinos One session.''
            | Some a \<Rightarrow>
                (case Option.bind (ua_privateKey a) some_text of
                   None \<Rightarrow> fails ''Selected wallet account is watch-only and cannot sign transactions.''
                 | Some key \<Rightarrow> returns (a, key))))"

section \<open>Making and sending a transaction\<close>

definition tenth :: "int \<Rightarrow> int" where
  "tenth manaValue = manaValue * 10 div 100"

text \<open>The transaction and who pays for it, before it is signed for good.\<close>

definition prepared :: "chain_env \<Rightarrow> bool \<Rightarrow> string \<Rightarrow> string \<Rightarrow> int \<Rightarrow> wallet_op list \<Rightarrow> (wallet_tx \<times> string) spend" where
  "prepared env useFreeMana key address manaValue operations =
     (if useFreeMana
      then and_then (prepareWalletTransactionWithFreeMana env key address operations)
        (\<lambda>tx. returns (tx, free_mana_sharer_address))
      else let tx = \<lparr>tx_key = key, tx_payer = None, tx_payee = None, tx_rcLimit = tenth manaValue,
             tx_operations = operations, tx_broadcast = False\<rparr>
           in and_then (all_awaited (map (ch_push env) operations)) (\<lambda>_.
              and_then (awaited (ch_prepare env tx)) (\<lambda>_. returns (tx, address))))"

definition submitted :: "chain_env \<Rightarrow> wallet_tx \<Rightarrow> wallet_tx spend" where
  "submitted env tx =
     (let tx1 = tx\<lparr>tx_broadcast := True\<rparr>
      in and_then (awaited (ch_sign env 6 tx1)) (\<lambda>_.
         and_then (sends (ch_send env) tx1) (\<lambda>_. returns tx1)))"

section \<open>Transfers\<close>

record transfer_result =
  tr_ok :: bool
  tr_output :: string
  tr_rpcUrl :: string
  tr_dryRun :: bool
  tr_fromAddress :: "string option"
  tr_toAddress :: "string option"
  tr_amount :: "string option"
  tr_usedFreeMana :: bool
  tr_payer :: "string option"
  tr_txId :: "string option"

definition transfer_failed :: "chain_env \<Rightarrow> jsval \<Rightarrow> string \<Rightarrow> transfer_result" where
  "transfer_failed env input message =
     \<lparr>tr_ok = False, tr_output = message, tr_rpcUrl = resolveWalletRpcUrl (ch_lib env) input,
      tr_dryRun = truthy (js_prop ''dryRun'' input), tr_fromAddress = None,
      tr_toAddress = some_text (text_field (ch_lib env) (js_prop ''toAddress'' input)), tr_amount = None,
      tr_usedFreeMana = truthy (js_prop ''useFreeMana'' input), tr_payer = None, tr_txId = None\<rparr>"

text \<open>\<open>BigInt(Math.floor(amount * 1e8))\<close>.\<close>

definition to_units :: "rat \<Rightarrow> string + int" where
  "to_units amount = js_big_floor (js_mul amount (10 ^ 8))"

definition requested_amount :: "jsval \<Rightarrow> rat option" where
  "requested_amount input =
     (case finite_num (js_prop ''amount'' input) of Some r \<Rightarrow> if r \<le> 0 then None else Some r | None \<Rightarrow> None)"

text \<open>The end both transfers share: prepare, then stop or send. \<open>token\<close> is the name in the texts.\<close>

definition finish_transfer ::
  "chain_env \<Rightarrow> string \<Rightarrow> jsval \<Rightarrow> unlocked_account \<Rightarrow> string \<Rightarrow> int \<Rightarrow> int \<Rightarrow> wallet_op \<Rightarrow> transfer_result spend" where
  "finish_transfer env token input a key transferAmount manaValue operation =
     (let useFreeMana = truthy (js_prop ''useFreeMana'' input); dryRun = truthy (js_prop ''dryRun'' input);
          toAddress = text_field (ch_lib env) (js_prop ''toAddress'' input);
          sponsored = (if useFreeMana then '' using free mana.'' else ''.'');
          done_with = (\<lambda>t payer tx. \<lparr>tr_ok = True, tr_output = t @ sponsored,
            tr_rpcUrl = resolveWalletRpcUrl (ch_lib env) input, tr_dryRun = dryRun, tr_fromAddress = Some (ua_address a),
            tr_toAddress = Some toAddress, tr_amount = whole_units env (Some transferAmount),
            tr_usedFreeMana = useFreeMana, tr_payer = Some payer, tr_txId = some_text (ch_txId env tx)\<rparr>)
      in and_then (prepared env useFreeMana key (ua_address a) manaValue [operation]) (\<lambda>(tx, payer).
         if dryRun then returns (done_with (''Dry run prepared '' @ token @ '' transfer operation'') payer tx)
         else and_then (submitted env tx) (\<lambda>tx1.
           returns (done_with (token @ '' transfer submitted from '' @ ua_address a @ '' to '' @ toAddress) payer tx1))))"

definition walletTransferVhp :: "chain_env \<Rightarrow> jsval \<Rightarrow> spending \<Rightarrow> transfer_result \<times> spending" where
  "walletTransferVhp env input =
     (let network = profile_normalizeKoinosNetworkId (js_prop ''network'' input);
          vhp = nc_vhp (contractsForNetwork network);
          toAddress = text_field (ch_lib env) (js_prop ''toAddress'' input)
      in or_failed (transfer_failed env input)
       (unless (\<not> safeIsChecksumAddress (ch_valid env) toAddress) ''A valid target address is required.''
       (case requested_amount input of
          None \<Rightarrow> fails ''Transfer amount must be greater than zero.''
        | Some amount \<Rightarrow>
       and_then (stored_wallet env network) (\<lambda>w.
       unless (w = None) ''No producer account stored in Koinos One yet.''
       (and_then (signing_account env network input ''Producer account is locked. Unlock it in the Wallet tab.'') (\<lambda>(a, key).
       and_then (awaited (ch_signer env key)) (\<lambda>_.
       and_then (awaited (ch_contract env vhp)) (\<lambda>_.
       and_then (awaited (to_units amount)) (\<lambda>transferAmount.
       unless (transferAmount \<le> 0) ''Transfer amount is too small.''
       (and_then (awaited (ch_balance env vhp (ua_address a) 0)) (\<lambda>balance.
       and_then (awaited (ch_rc env (ua_address a))) (\<lambda>raw.
       unless (transferAmount > or_zero balance) ''Insufficient VHP balance for transfer.''
       (unless (\<not> truthy (js_prop ''useFreeMana'' input) \<and> or_zero raw < 50000000) ''Insufficient mana to execute VHP transfer.''
       (let operation = TransferOp vhp (ua_address a) toAddress transferAmount
        in and_then (awaited (ch_encode env operation)) (\<lambda>_.
           finish_transfer env ''VHP'' input a key transferAmount (or_zero raw) operation)))))))))))))))"

definition walletTransferKoin :: "chain_env \<Rightarrow> jsval \<Rightarrow> spending \<Rightarrow> transfer_result \<times> spending" where
  "walletTransferKoin env input =
     (let network = profile_normalizeKoinosNetworkId (js_prop ''network'' input);
          koin = nc_koin (contractsForNetwork network);
          toAddress = text_field (ch_lib env) (js_prop ''toAddress'' input)
      in or_failed (transfer_failed env input)
       (unless (\<not> safeIsChecksumAddress (ch_valid env) toAddress) ''A valid target address is required.''
       (case requested_amount input of
          None \<Rightarrow> fails ''Transfer amount must be greater than zero.''
        | Some amount \<Rightarrow>
       and_then (stored_wallet env network) (\<lambda>w.
       unless (w = None) ''No producer account stored in Koinos One yet.''
       (and_then (signing_account env network input ''Producer account is locked. Unlock it in the Wallet tab.'') (\<lambda>(a, key).
       and_then (awaited (ch_signer env key)) (\<lambda>_.
       and_then (awaited (ch_contract env koin)) (\<lambda>_.
       and_then (awaited (to_units amount)) (\<lambda>transferAmount.
       unless (transferAmount \<le> 0) ''Transfer amount is too small.''
       (and_then (awaited (ch_balance env koin (ua_address a) 0)) (\<lambda>balance.
       and_then (awaited (ch_rc env (ua_address a))) (\<lambda>raw.
       unless (transferAmount > or_zero balance) ''Insufficient KOIN balance for transfer.''
       (unless (transferAmount > or_zero raw) ''The KOIN contract requires mana greater than or equal to the transfer amount.''
       (unless (\<not> truthy (js_prop ''useFreeMana'' input) \<and> or_zero raw < 50000000) ''Insufficient mana to execute KOIN transfer.''
       (let operation = TransferOp koin (ua_address a) toAddress transferAmount
        in and_then (awaited (ch_encode env operation)) (\<lambda>_.
           finish_transfer env ''KOIN'' input a key transferAmount (or_zero raw) operation))))))))))))))))"

section \<open>Burning\<close>

record burn_result =
  br_ok :: bool
  br_output :: string
  br_rpcUrl :: string
  br_dryRun :: bool
  br_walletAddress :: "string option"
  br_targetAddress :: "string option"
  br_burnAmountKoin :: "string option"
  br_remainingKoin :: "string option"
  br_previousKoin :: "string option"
  br_previousVhp :: "string option"
  br_newKoin :: "string option"
  br_newVhp :: "string option"
  br_usedFreeMana :: bool
  br_payer :: "string option"
  br_txId :: "string option"

definition burn_failed :: "chain_env \<Rightarrow> jsval \<Rightarrow> string \<Rightarrow> burn_result" where
  "burn_failed env input message =
     \<lparr>br_ok = False, br_output = message, br_rpcUrl = resolveWalletRpcUrl (ch_lib env) input,
      br_dryRun = truthy (js_prop ''dryRun'' input), br_walletAddress = None, br_targetAddress = None,
      br_burnAmountKoin = None, br_remainingKoin = None, br_previousKoin = None, br_previousVhp = None,
      br_newKoin = None, br_newVhp = None, br_usedFreeMana = truthy (js_prop ''useFreeMana'' input),
      br_payer = None, br_txId = None\<rparr>"

text \<open>What to burn: an amount, or a percentage of the balance in steps of a hundredth.\<close>

definition burn_amount :: "rat option \<Rightarrow> rat option \<Rightarrow> int \<Rightarrow> string + int" where
  "burn_amount percent amount balance =
     (case amount of
        Some r \<Rightarrow> to_units r
      | None \<Rightarrow>
          (case js_big_floor (js_mul (case percent of Some p \<Rightarrow> p | None \<Rightarrow> 0) 100) of
             Inl message \<Rightarrow> Inl message
           | Inr hundredths \<Rightarrow> Inr (balance * hundredths div 10000)))"

text \<open>The account that signs must be the burn account of the producer profile, by id or address.\<close>

definition burn_account_check :: "bool \<Rightarrow> producer_profile option \<Rightarrow> unlocked_account \<Rightarrow> string option" where
  "burn_account_check useProducerBurnAccount profile a =
     (if \<not> useProducerBurnAccount then None
      else case profile of
          None \<Rightarrow> Some ''No producer burn account is configured yet.''
        | Some p \<Rightarrow>
            if pp_burnAccountId p = [] then Some ''No producer burn account is configured yet.''
            else if js_lower (pp_burnAccountId p) \<noteq> js_lower (ua_id a) \<and> js_lower (pp_burnAccountId p) \<noteq> js_lower (ua_address a)
            then Some ''Unlocked wallet does not match the configured producer burn account.''
            else None)"

definition burn_operations :: "network_contracts \<Rightarrow> string \<Rightarrow> string \<Rightarrow> int \<Rightarrow> int \<Rightarrow> wallet_op list" where
  "burn_operations contracts owner target burnAmount currentAllowance =
     (if currentAllowance < burnAmount then [Approve (nc_koin contracts) owner (nc_pob contracts) burnAmount] else []) @
     [BurnOp (nc_pob contracts) burnAmount owner target]"

definition allowance_or_zero :: "string + int option \<Rightarrow> int" where
  "allowance_or_zero r = (case r of Inl _ \<Rightarrow> 0 | Inr v \<Rightarrow> or_zero v)"

text \<open>From the operations to the result. The last two readings happen after the transaction was sent.\<close>

definition finish_burn ::
  "chain_env \<Rightarrow> jsval \<Rightarrow> network_contracts \<Rightarrow> unlocked_account \<Rightarrow> string \<Rightarrow> string \<Rightarrow> int \<Rightarrow> int \<Rightarrow> int \<Rightarrow>
   int option \<Rightarrow> wallet_op list \<Rightarrow> burn_result spend" where
  "finish_burn env input contracts a key target balance burnAmount manaValue oldVhp operations =
     (let useFreeMana = truthy (js_prop ''useFreeMana'' input); dryRun = truthy (js_prop ''dryRun'' input);
          owner = ua_address a;
          sponsored = (if useFreeMana then '' using free mana.'' else ''.'');
          done_with = (\<lambda>t newKoin newVhp payer tx.
            \<lparr>br_ok = True, br_output = t @ sponsored, br_rpcUrl = resolveWalletRpcUrl (ch_lib env) input,
             br_dryRun = dryRun, br_walletAddress = Some owner, br_targetAddress = Some target,
             br_burnAmountKoin = whole_units env (Some burnAmount),
             br_remainingKoin = whole_units env (Some (balance - burnAmount)),
             br_previousKoin = whole_units env (Some balance),
             br_previousVhp = Some (js_or (opt_text (whole_units env oldVhp)) ''0''),
             br_newKoin = newKoin, br_newVhp = newVhp, br_usedFreeMana = useFreeMana, br_payer = Some payer,
             br_txId = some_text (ch_txId env tx)\<rparr>)
      in and_then (prepared env useFreeMana key owner manaValue operations) (\<lambda>(tx, payer).
         if dryRun
         then returns (done_with (''Dry run prepared '' @ js_nat (length operations) @ '' operation(s) for burn'')
           None None payer tx)
         else and_then (submitted env tx) (\<lambda>tx1.
           and_then (awaited (ch_balance env (nc_koin contracts) owner 1)) (\<lambda>newKoin.
           and_then (awaited (ch_balance env (nc_vhp contracts) owner 1)) (\<lambda>newVhp.
           returns (done_with (''Burn transaction submitted from '' @ owner @ '' into VHP for '' @ target)
             (Some (js_or (opt_text (whole_units env newKoin)) ''0''))
             (Some (js_or (opt_text (whole_units env newVhp)) ''0'')) payer tx1))))))"

definition walletBurn :: "chain_env \<Rightarrow> jsval \<Rightarrow> spending \<Rightarrow> burn_result \<times> spending" where
  "walletBurn env input s0 =
     (let network = profile_normalizeKoinosNetworkId (js_prop ''network'' input);
          contracts = contractsForNetwork network;
          profile = loadProducerProfile (ch_lib env) (ch_env env) (Some network) (sp_store s0);
          percent = finite_num (js_prop ''percent'' input); amount = finite_num (js_prop ''amount'' input);
          useFreeMana = truthy (js_prop ''useFreeMana'' input);
          requestedTarget = text_field (ch_lib env) (js_prop ''targetAddress'' input)
      in or_failed (burn_failed env input)
       (and_then (stored_wallet env network) (\<lambda>w.
       unless (w = None) ''No producer account stored in Koinos One yet.''
       (unless (percent = None \<and> amount = None) ''Provide either a percent or an amount to burn.''
       (unless (percent \<noteq> None \<and> amount \<noteq> None) ''Percent and amount are mutually exclusive.''
       (and_then (signing_account env network input ''Producer account is locked. Unlock it in the Producer tab.'') (\<lambda>(a, key).
       case burn_account_check (js_prop ''useProducerBurnAccount'' input \<noteq> JBool False) profile a of
         Some message \<Rightarrow> fails message
       | None \<Rightarrow>
       let target = js_or requestedTarget (ua_address a); owner = ua_address a
       in unless (\<not> safeIsChecksumAddress (ch_valid env) target) ''Invalid target address for VHP allocation.''
       (and_then (awaited (ch_signer env key)) (\<lambda>_.
       and_then (all_awaited (map (ch_contract env) [nc_koin contracts, nc_vhp contracts, nc_pob contracts])) (\<lambda>_.
       and_then (awaited (ch_balance env (nc_koin contracts) owner 0)) (\<lambda>koin.
       and_then (awaited (ch_balance env (nc_vhp contracts) owner 0)) (\<lambda>oldVhp.
       and_then (awaited (ch_rc env owner)) (\<lambda>raw.
       unless (or_zero koin \<le> 0) ''No KOIN balance available to burn.''
       (unless (case percent of Some p \<Rightarrow> p \<le> 0 \<or> p > 100 | None \<Rightarrow> False) ''Percent must be between 0 and 100.''
       (unless (case amount of Some r \<Rightarrow> r \<le> 0 | None \<Rightarrow> False) ''Amount must be greater than zero.''
       (and_then (awaited (burn_amount percent amount (or_zero koin))) (\<lambda>burnAmount.
       unless (burnAmount \<le> 0) ''Computed burn amount is zero.''
       (unless (burnAmount > or_zero koin) ''Insufficient KOIN balance for that burn amount.''
       (unless (\<not> useFreeMana \<and> or_zero raw < 50000000) ''Insufficient mana to execute burn transaction.''
       (let operations = burn_operations contracts owner target burnAmount
              (allowance_or_zero (ch_allowance env owner (nc_pob contracts)))
        in and_then (all_awaited (map (ch_encode env) operations)) (\<lambda>_.
           finish_burn env input contracts a key target (or_zero koin) burnAmount (or_zero raw) oldVhp operations))))))))))))))))))))
       s0)"

section \<open>Sending as a step\<close>

lemma ends_sends [flow_rules]:
  "ends (sends answer tx) s P Q =
     (case answer tx of Inl m \<Rightarrow> P m (s\<lparr>sp_sent := sp_sent s @ [tx]\<rparr>) | Inr x \<Rightarrow> Q x (s\<lparr>sp_sent := sp_sent s @ [tx]\<rparr>))"
  by (simp add: ends_def sends_def split: sum.split)

lemma ends_sendsI [flow_intros]:
  "(\<And>m. answer tx = Inl m \<Longrightarrow> P m (s\<lparr>sp_sent := sp_sent s @ [tx]\<rparr>)) \<Longrightarrow>
   (\<And>x. answer tx = Inr x \<Longrightarrow> Q x (s\<lparr>sp_sent := sp_sent s @ [tx]\<rparr>)) \<Longrightarrow> ends (sends answer tx) s P Q"
  by (simp add: ends_sends split: sum.split)

section \<open>Sponsored transactions stay within their bounds\<close>

text \<open>A transaction of the same signer with the same operations, not broadcast.\<close>

definition draft_of :: "string \<Rightarrow> wallet_op list \<Rightarrow> wallet_tx \<Rightarrow> bool" where
  "draft_of key operations t \<longleftrightarrow> tx_key t = key \<and> tx_operations t = operations \<and> \<not> tx_broadcast t"

definition sponsored_by :: "string \<Rightarrow> string \<Rightarrow> int \<Rightarrow> int \<Rightarrow> wallet_tx \<Rightarrow> bool" where
  "sponsored_by payer payee low high t \<longleftrightarrow>
     tx_payer t = Some payer \<and> tx_payee t = Some payee \<and> low \<le> tx_rcLimit t \<and> tx_rcLimit t \<le> high"

lemma ends_attempt:
  "ends (sponsor_attempts env wa tx limit (Suc n)) s P Q =
     (let tx1 = setWalletTransactionSponsor free_mana_sharer_address wa limit tx;
          retry = (\<lambda>m. if n = 0 \<or> \<not> js_test insufficient_rc_re m then fails m
            else sponsor_attempts env wa tx1 (limit + 100000000) n);
          s1 = s\<lparr>sp_sent := sp_sent s @ [tx1]\<rparr>
      in case ch_sign env (5 - n) tx1 of
           Inl m \<Rightarrow> ends (retry m) s P Q
         | Inr _ \<Rightarrow> (case ch_dry env tx1 of Inl m \<Rightarrow> ends (retry m) s1 P Q | Inr _ \<Rightarrow> Q tx1 s1))"
  by (auto simp: ends_def and_then_def awaited_def sends_def fails_def Let_def split: sum.split)

lemma attempts_bounded:
  assumes "draft_of key operations tx" "0 < n"
  shows "ends (sponsor_attempts env wa tx limit n) s
     (\<lambda>m s1. \<exists>sent. s1 = s\<lparr>sp_sent := sp_sent s @ sent\<rparr> \<and> length sent \<le> n \<and>
       list_all (\<lambda>t. draft_of key operations t \<and> sponsored_by free_mana_sharer_address wa limit (limit + (int n - 1) * 100000000) t) sent)
     (\<lambda>t s1. \<exists>sent. s1 = s\<lparr>sp_sent := sp_sent s @ sent\<rparr> \<and> length sent \<le> n \<and>
       list_all (\<lambda>t. draft_of key operations t \<and> sponsored_by free_mana_sharer_address wa limit (limit + (int n - 1) * 100000000) t) sent \<and>
       sent \<noteq> [] \<and> t = last sent \<and> ch_dry env t = Inr ())"
  using assms
proof (induction n arbitrary: tx limit s)
  case (Suc n)
  let ?t = "setWalletTransactionSponsor free_mana_sharer_address wa limit tx"
  let ?ok = "\<lambda>limit n t. draft_of key operations t \<and>
    sponsored_by free_mana_sharer_address wa limit (limit + (int n - 1) * 100000000) t"
  let ?P = "\<lambda>s limit n m s1. \<exists>sent. s1 = s\<lparr>sp_sent := sp_sent s @ sent\<rparr> \<and> length sent \<le> n \<and> list_all (?ok limit n) sent"
  let ?Q = "\<lambda>s limit n t s1. \<exists>sent. s1 = s\<lparr>sp_sent := sp_sent s @ sent\<rparr> \<and> length sent \<le> n \<and> list_all (?ok limit n) sent \<and>
       sent \<noteq> [] \<and> t = last sent \<and> ch_dry env t = Inr ()"
  have t: "draft_of key operations ?t" "?ok limit (Suc n) ?t"
    using Suc.prems by (simp_all add: draft_of_def sponsored_by_def setWalletTransactionSponsor_def)
  have retry: "ends (if n = 0 \<or> \<not> js_test insufficient_rc_re m then fails m
        else sponsor_attempts env wa ?t (limit + 100000000) n) (s\<lparr>sp_sent := sp_sent s @ tried\<rparr>)
      (?P s limit (Suc n)) (?Q s limit (Suc n))" if tried: "tried = [] \<or> tried = [?t]" for m tried
  proof (cases "n = 0 \<or> \<not> js_test insufficient_rc_re m")
    case True
    have "list_all (?ok limit (Suc n)) tried" "length tried \<le> Suc n" using tried t(2) by auto
    with True show ?thesis by (auto simp: flow_rules intro!: exI [of _ tried])
  next
    case False
    have more: "list_all (?ok limit (Suc n)) sent" if "list_all (?ok (limit + 100000000) n) sent" for sent
      using that False by (auto simp: list_all_iff sponsored_by_def algebra_simps)
    have tr: "list_all (?ok limit (Suc n)) tried" "length tried \<le> 1" using tried t(2) by auto
    have "ends (sponsor_attempts env wa ?t (limit + 100000000) n) (s\<lparr>sp_sent := sp_sent s @ tried\<rparr>)
        (?P s limit (Suc n)) (?Q s limit (Suc n))"
    proof (rule ends_mono [OF Suc.IH [OF t(1)]])
      show "0 < n" using False by simp
    next
      fix m s1
      assume "?P (s\<lparr>sp_sent := sp_sent s @ tried\<rparr>) (limit + 100000000) n m s1"
      then obtain sent where "s1 = s\<lparr>sp_sent := sp_sent s @ (tried @ sent)\<rparr>" "length sent \<le> n"
        "list_all (?ok (limit + 100000000) n) sent" by auto
      with more [of sent] tr show "?P s limit (Suc n) m s1" by (intro exI [of _ "tried @ sent"]) simp
    next
      fix t s1
      assume "?Q (s\<lparr>sp_sent := sp_sent s @ tried\<rparr>) (limit + 100000000) n t s1"
      then obtain sent where "s1 = s\<lparr>sp_sent := sp_sent s @ (tried @ sent)\<rparr>" "length sent \<le> n"
        "list_all (?ok (limit + 100000000) n) sent" "sent \<noteq> []" "t = last sent" "ch_dry env t = Inr ()" by auto
      with more [of sent] tr show "?Q s limit (Suc n) t s1" by (intro exI [of _ "tried @ sent"]) simp
    qed
    with False show ?thesis by simp
  qed
  have got: "?Q s limit (Suc n) ?t (s\<lparr>sp_sent := sp_sent s @ [?t]\<rparr>)" if "ch_dry env ?t = Inr ()"
    using t that by (intro exI [of _ "[?t]"]) simp
  show ?case
    unfolding ends_attempt Let_def
    using retry [of "[]"] retry [of "[?t]"] got by (cases "ch_sign env (5 - n) ?t"; cases "ch_dry env ?t") simp_all
qed simp

text \<open>A sponsored transaction: at most six dry runs, all by the same key with the same operations; the result is
  the last of them, which passed, paid by the sharer within 400000000 of the estimate and a tenth.\<close>

definition sponsored_run :: "chain_env \<Rightarrow> string \<Rightarrow> wallet_tx list \<Rightarrow> wallet_tx \<Rightarrow> bool" where
  "sponsored_run env wa sent t \<longleftrightarrow>
     (\<exists>used. ch_estimate env (hd sent) = Inr (Some used) \<and> 0 < used \<and> sent \<noteq> [] \<and> t = last sent \<and> ch_dry env t = Inr () \<and>
        sponsored_by free_mana_sharer_address wa ((used * 110 + 99) div 100) ((used * 110 + 99) div 100 + 400000000) t)"

lemma free_mana_run:
  "ends (prepareWalletTransactionWithFreeMana env key wa operations) s
     (\<lambda>m s1. \<exists>sent. s1 = s\<lparr>sp_sent := sp_sent s @ sent\<rparr> \<and> length sent \<le> 6 \<and> list_all (draft_of key operations) sent)
     (\<lambda>t s1. \<exists>sent. s1 = s\<lparr>sp_sent := sp_sent s @ sent\<rparr> \<and> length sent \<le> 6 \<and> list_all (draft_of key operations) sent \<and>
       sponsored_run env wa sent t)"
  (is "ends _ s ?P ?Q")
proof -
  have nothing: "?P m s" for m by (intro exI [of _ "[]"]) simp
  have attempts: "ends (sponsor_attempts env wa t limit 5) (s\<lparr>sp_sent := sp_sent s @ [t]\<rparr>) ?P ?Q"
    if t: "draft_of key operations t" and est: "ch_estimate env t = Inr (Some used)" "0 < used"
      and limit: "limit = (used * 110 + 99) div 100" for t used limit
  proof (rule ends_mono [OF attempts_bounded [OF t]])
    fix m s1
    assume "\<exists>sent. s1 = (s\<lparr>sp_sent := sp_sent s @ [t]\<rparr>)\<lparr>sp_sent := sp_sent (s\<lparr>sp_sent := sp_sent s @ [t]\<rparr>) @ sent\<rparr> \<and>
      length sent \<le> 5 \<and> list_all (\<lambda>t. draft_of key operations t \<and>
        sponsored_by free_mana_sharer_address wa limit (limit + (int 5 - 1) * 100000000) t) sent"
    then obtain sent where "s1 = s\<lparr>sp_sent := sp_sent s @ (t # sent)\<rparr>" "length sent \<le> 5" "list_all (draft_of key operations) sent"
      by (auto simp: list_all_iff)
    with t show "?P m s1" by (intro exI [of _ "t # sent"]) simp
  next
    fix t1 s1
    assume "\<exists>sent. s1 = (s\<lparr>sp_sent := sp_sent s @ [t]\<rparr>)\<lparr>sp_sent := sp_sent (s\<lparr>sp_sent := sp_sent s @ [t]\<rparr>) @ sent\<rparr> \<and>
      length sent \<le> 5 \<and> list_all (\<lambda>t. draft_of key operations t \<and>
        sponsored_by free_mana_sharer_address wa limit (limit + (int 5 - 1) * 100000000) t) sent \<and>
      sent \<noteq> [] \<and> t1 = last sent \<and> ch_dry env t1 = Inr ()"
    then obtain sent where "s1 = s\<lparr>sp_sent := sp_sent s @ (t # sent)\<rparr>" "length sent \<le> 5" "list_all (draft_of key operations) sent"
      "sponsored_by free_mana_sharer_address wa limit (limit + 400000000) (last sent)"
      "sent \<noteq> []" "t1 = last sent" "ch_dry env t1 = Inr ()"
      by (auto simp: list_all_iff)
    with t est limit show "?Q t1 s1" by (intro exI [of _ "t # sent"]) (simp add: sponsored_run_def)
  qed simp
  let ?tx = "\<lambda>initial. setWalletTransactionSponsor free_mana_meter_address wa initial
    \<lparr>tx_key = key, tx_payer = Some free_mana_sharer_address, tx_payee = Some wa,
      tx_rcLimit = initial, tx_operations = operations, tx_broadcast = False\<rparr>"
  have tx: "draft_of key operations (?tx i)" for i by (simp add: draft_of_def setWalletTransactionSponsor_def)
  have one: "?P m (s\<lparr>sp_sent := sp_sent s @ [?tx i]\<rparr>)" for m i by (intro exI [of _ "[?tx i]"]) (simp add: tx)
  have estimated: "ends (unless (or_zero v \<le> 0) m (sponsor_attempts env wa (?tx i) ((or_zero v * 110 + 99) div 100) 5))
      (s\<lparr>sp_sent := sp_sent s @ [?tx i]\<rparr>) ?P ?Q" if "ch_estimate env (?tx i) = Inr v" for v m i
    using one attempts [OF tx] that by (cases v) (auto simp: ends_unless or_zero_def)
  have run: "ends (prepareWalletTransactionWithFreeMana env key wa operations) s P Q"
    if "\<And>m. P m s" "\<And>m i. P m (s\<lparr>sp_sent := sp_sent s @ [?tx i]\<rparr>)"
      "\<And>v m i. ch_estimate env (?tx i) = Inr v \<Longrightarrow>
        ends (unless (or_zero v \<le> 0) m (sponsor_attempts env wa (?tx i) ((or_zero v * 110 + 99) div 100) 5))
          (s\<lparr>sp_sent := sp_sent s @ [?tx i]\<rparr>) P Q" for P Q
    unfolding prepareWalletTransactionWithFreeMana_def Let_def
    by (intro ends_and_thenI ends_awaitedI ends_sendsI ends_all_awaited that ends_unlessI [where f = "and_then _ _"])
  show ?thesis by (rule run) (fact nothing, fact one, fact estimated)
qed

lemma prepared_run:
  "ends (prepared env useFreeMana key address manaValue operations) s
     (\<lambda>m s1. \<exists>sent. s1 = s\<lparr>sp_sent := sp_sent s @ sent\<rparr> \<and> length sent \<le> 6 \<and> list_all (draft_of key operations) sent)
     (\<lambda>(t, payer) s1. \<exists>sent. s1 = s\<lparr>sp_sent := sp_sent s @ sent\<rparr> \<and> length sent \<le> 6 \<and> list_all (draft_of key operations) sent \<and>
       draft_of key operations t)"
  (is "ends _ s ?P ?Q")
proof (cases useFreeMana)
  case True
  have "ends (prepareWalletTransactionWithFreeMana env key address operations) s ?P (\<lambda>t s1. ?Q (t, free_mana_sharer_address) s1)"
    by (rule ends_mono [OF free_mana_run]) (auto simp: sponsored_run_def list_all_iff)
  with True show ?thesis by (simp add: prepared_def flow_rules)
next
  case False
  have run: "ends (prepared env useFreeMana key address manaValue operations) s P Q"
    if "\<And>m. P m s" "\<And>t p. draft_of key operations t \<Longrightarrow> Q (t, p) s" for P Q
    unfolding prepared_def Let_def if_not_P [OF False]
    by (intro flow_intros that) (simp add: ends_returns that draft_of_def)
  show ?thesis by (rule run [of ?P ?Q]) (auto intro!: exI [of _ "[]"])
qed

section \<open>What is spent is what was asked for\<close>

text \<open>What an operation sends: at most seven transactions, all by one key with the same operations, of which only
  the last is broadcast, and that exactly in a run that is reported as successful and is no dry run.\<close>

definition spends_once :: "chain_env \<Rightarrow> bool \<Rightarrow> string \<Rightarrow> wallet_op list \<Rightarrow> bool \<Rightarrow> wallet_tx list \<Rightarrow> bool" where
  "spends_once env dryRun key operations ok sent \<longleftrightarrow>
     length sent \<le> 7 \<and> list_all (\<lambda>t. tx_key t = key \<and> tx_operations t = operations) sent \<and>
     list_all (\<lambda>t. \<not> tx_broadcast t) (if dryRun then sent else butlast sent) \<and>
     (ok \<and> \<not> dryRun \<longrightarrow> sent \<noteq> [] \<and> tx_broadcast (last sent) \<and> ch_send env (last sent) = Inr ())"

definition none_accepted :: "chain_env \<Rightarrow> wallet_tx list \<Rightarrow> bool" where
  "none_accepted env sent \<longleftrightarrow> list_all (\<lambda>t. tx_broadcast t \<longrightarrow> ch_send env t \<noteq> Inr ()) sent"

lemma drafts_spend_once:
  assumes "length sent \<le> 7" "list_all (draft_of key operations) sent" "ok \<Longrightarrow> dryRun"
  shows "spends_once env dryRun key operations ok sent" and "none_accepted env sent"
proof -
  have "list_all (\<lambda>t. \<not> tx_broadcast t) (butlast sent)"
    using assms(2) by (auto simp: list_all_iff draft_of_def dest: in_set_butlastD)
  with assms show "spends_once env dryRun key operations ok sent"
    by (auto simp: spends_once_def list_all_iff draft_of_def)
  show "none_accepted env sent" using assms(2) by (auto simp: none_accepted_def list_all_iff draft_of_def)
qed

text \<open>A draft that is signed and sent after earlier drafts.\<close>

lemma submitted_run:
  assumes "s = s0\<lparr>sp_sent := sp_sent s0 @ sent\<rparr>" "length sent \<le> 6" "list_all (draft_of key operations) sent"
    "draft_of key operations t" "\<not> dryRun"
  shows "ends (submitted env t) s
    (\<lambda>m s1. \<exists>sent. s1 = s0\<lparr>sp_sent := sp_sent s0 @ sent\<rparr> \<and> spends_once env dryRun key operations False sent \<and> none_accepted env sent)
    (\<lambda>t1 s1. \<exists>sent. s1 = s0\<lparr>sp_sent := sp_sent s0 @ sent\<rparr> \<and> (\<forall>ok. spends_once env dryRun key operations ok sent))"
proof -
  have d: "spends_once env dryRun key operations False sent" "none_accepted env sent"
    using drafts_spend_once [of sent key operations False dryRun] assms by auto
  let ?t = "t\<lparr>tx_broadcast := True\<rparr>"
  have b: "list_all (\<lambda>t. tx_key t = key \<and> tx_operations t = operations) (sent @ [?t])"
    "list_all (\<lambda>t. \<not> tx_broadcast t) sent"
    using assms(3,4) by (auto simp: list_all_iff draft_of_def)
  have refused: "spends_once env dryRun key operations False (sent @ [?t])" "none_accepted env (sent @ [?t])"
    if "ch_send env ?t = Inl m" for m
    using b assms that d(2) by (auto simp: spends_once_def none_accepted_def)
  have accepted: "spends_once env dryRun key operations ok (sent @ [?t])" if "ch_send env ?t = Inr u" for u ok
    using b assms that by (auto simp: spends_once_def)
  show ?thesis
    unfolding submitted_def Let_def
    using d refused accepted by (intro flow_intros) (auto simp: ends_returns assms(1))
qed

lemma finish_transfer_run:
  "ends (finish_transfer env token input a key units mana operation) s
     (\<lambda>m s1. \<exists>sent. s1 = s\<lparr>sp_sent := sp_sent s @ sent\<rparr> \<and>
       spends_once env (truthy (js_prop ''dryRun'' input)) key [operation] False sent \<and> none_accepted env sent)
     (\<lambda>r s1. \<exists>sent. s1 = s\<lparr>sp_sent := sp_sent s @ sent\<rparr> \<and> tr_ok r \<and>
       spends_once env (truthy (js_prop ''dryRun'' input)) key [operation] True sent)"
  unfolding finish_transfer_def Let_def
proof (rule ends_and_thenI, rule ends_mono [OF prepared_run], goal_cases)
  case (1 m s1)
  then obtain sent where "s1 = s\<lparr>sp_sent := sp_sent s @ sent\<rparr>" "length sent \<le> 7" "list_all (draft_of key [operation]) sent"
    by auto
  then show ?case
    using drafts_spend_once [of sent key "[operation]" False "truthy (js_prop ''dryRun'' input)" env] by auto
next
  case (2 x s1)
  then obtain t payer sent where x: "x = (t, payer)" and sent: "s1 = s\<lparr>sp_sent := sp_sent s @ sent\<rparr>" "length sent \<le> 6"
    "list_all (draft_of key [operation]) sent" "draft_of key [operation] t" by (cases x) auto
  show ?case
  proof (cases "truthy (js_prop ''dryRun'' input)")
    case True
    then show ?thesis
      using sent drafts_spend_once [of sent key "[operation]" True "truthy (js_prop ''dryRun'' input)" env]
      by (auto simp: x ends_returns)
  next
    case False
    show ?thesis
      unfolding x prod.case if_not_P [OF False]
      by (rule ends_and_thenI, rule ends_mono [OF submitted_run [OF sent False]]) (auto simp: ends_returns False)
  qed
qed

lemma signing_account_run:
  "ends (signing_account env n input locked) s (\<lambda>m s1. sp_sent s1 = sp_sent s)
     (\<lambda>(a, key) s1. sp_sent s1 = sp_sent s \<and> ua_privateKey a = Some key \<and>
       (\<exists>u. getUnlockedWalletForNetwork (Some n) (sp_store s1) = Some u \<and> a \<in> set (uw_accounts u)))"
proof -
  have session: "ends (session_wallet env n password) s (\<lambda>m s1. sp_sent s1 = sp_sent s)
      (\<lambda>w s1. sp_sent s1 = sp_sent s \<and> (\<forall>u. w = Some u \<longrightarrow> getUnlockedWalletForNetwork (Some n) (sp_store s1) = Some u))"
    for password
    by (auto simp: ends_def session_wallet_def unlockWalletSession_def getUnlockedWalletForNetwork_def
        split: option.split sum.split prod.split option.splits sum.splits prod.splits)
  have member: "a \<in> set (uw_accounts u)" if "resolveUnlockedWalletAccount u i = Some a" for u i a
    using that unfolding resolveUnlockedWalletAccount_def
    by (auto split: option.splits if_splits list.splits simp: find_Some_iff)
  show ?thesis
    unfolding signing_account_def
    by (rule ends_and_thenI, rule ends_mono [OF session])
      (auto simp: flow_rules some_text_def bind_eq_Some_conv dest: member split: option.split if_splits)
qed

text \<open>The account and the amount behind what was sent.\<close>

definition transfer_as_asked :: "chain_env \<Rightarrow> jsval \<Rightarrow> string \<Rightarrow> transfer_result \<Rightarrow> spending \<Rightarrow> wallet_tx list \<Rightarrow> bool" where
  "transfer_as_asked env input contract r s1 sent \<longleftrightarrow>
     (\<exists>u a key amount units balance.
        getUnlockedWalletForNetwork (Some (profile_normalizeKoinosNetworkId (js_prop ''network'' input))) (sp_store s1) = Some u \<and>
        a \<in> set (uw_accounts u) \<and> ua_privateKey a = Some key \<and>
        safeIsChecksumAddress (ch_valid env) (text_field (ch_lib env) (js_prop ''toAddress'' input)) \<and>
        requested_amount input = Some amount \<and> to_units amount = Inr units \<and> 0 < units \<and>
        ch_balance env contract (ua_address a) 0 = Inr balance \<and> units \<le> or_zero balance \<and>
        spends_once env (truthy (js_prop ''dryRun'' input)) key
          [TransferOp contract (ua_address a) (text_field (ch_lib env) (js_prop ''toAddress'' input)) units] (tr_ok r) sent)"

lemma transfer_end:
  assumes "sp_sent s1 = sp_sent s" "ua_privateKey a = Some key" "a \<in> set (uw_accounts u)"
    "getUnlockedWalletForNetwork (Some (profile_normalizeKoinosNetworkId (js_prop ''network'' input))) (sp_store s1) = Some u"
    "safeIsChecksumAddress (ch_valid env) (text_field (ch_lib env) (js_prop ''toAddress'' input))"
    "requested_amount input = Some amount" "to_units amount = Inr units" "0 < units"
    "ch_balance env contract (ua_address a) 0 = Inr balance" "units \<le> or_zero balance"
    "operation = TransferOp contract (ua_address a) (text_field (ch_lib env) (js_prop ''toAddress'' input)) units"
  shows "ends (finish_transfer env token input a key units mana operation) s1
    (\<lambda>m s2. \<exists>sent. sp_sent s2 = sp_sent s @ sent \<and>
      transfer_as_asked env input contract (transfer_failed env input m) s2 sent \<and> none_accepted env sent)
    (\<lambda>r s2. \<exists>sent. sp_sent s2 = sp_sent s @ sent \<and> tr_ok r \<and> transfer_as_asked env input contract r s2 sent)"
proof (rule ends_mono [OF finish_transfer_run], goal_cases)
  case (1 m s2)
  then obtain sent where sent: "s2 = s1\<lparr>sp_sent := sp_sent s1 @ sent\<rparr>" "none_accepted env sent"
    "spends_once env (truthy (js_prop ''dryRun'' input)) key [operation] False sent" by blast
  have "transfer_as_asked env input contract (transfer_failed env input m) s2 sent"
    unfolding transfer_as_asked_def using assms(2-) sent
    by (intro exI [of _ u] exI [of _ a] exI [of _ key] exI [of _ amount] exI [of _ units] exI [of _ balance])
      (simp add: transfer_failed_def)
  with sent assms(1) show ?case by (intro exI [of _ sent]) simp
next
  case (2 r s2)
  then obtain sent where sent: "s2 = s1\<lparr>sp_sent := sp_sent s1 @ sent\<rparr>" "tr_ok r"
    "spends_once env (truthy (js_prop ''dryRun'' input)) key [operation] True sent" by blast
  have "transfer_as_asked env input contract r s2 sent"
    unfolding transfer_as_asked_def using assms(2-) sent
    by (intro exI [of _ u] exI [of _ a] exI [of _ key] exI [of _ amount] exI [of _ units] exI [of _ balance]) simp
  with sent assms(1) show ?case by (intro exI [of _ sent]) simp
qed

lemma stored_walletI [flow_intros]:
  assumes "\<And>w s1. sp_sent s1 = sp_sent s \<Longrightarrow> Q w s1"
  shows "ends (stored_wallet env n) s P Q"
  using assms by (simp add: ends_def stored_wallet_def split: prod.split)

lemma signing_accountI [flow_intros]:
  assumes "\<And>m s1. sp_sent s1 = sp_sent s \<Longrightarrow> P m s1"
    and "\<And>a key u s1. sp_sent s1 = sp_sent s \<Longrightarrow> ua_privateKey a = Some key \<Longrightarrow> a \<in> set (uw_accounts u) \<Longrightarrow>
      getUnlockedWalletForNetwork (Some n) (sp_store s1) = Some u \<Longrightarrow> Q (a, key) s1"
  shows "ends (signing_account env n input locked) s P Q"
  by (rule ends_mono [OF signing_account_run]) (use assms in auto)

text \<open>What a run says and what it sent: a success is a transfer as asked; a failure sent nothing or drafts of one, and
  nothing the chain accepted.\<close>

definition spends_as_asked :: "chain_env \<Rightarrow> jsval \<Rightarrow> string \<Rightarrow> spending \<Rightarrow> transfer_result \<Rightarrow> spending \<Rightarrow> bool" where
  "spends_as_asked env input contract s r s1 \<longleftrightarrow>
     (\<exists>sent. sp_sent s1 = sp_sent s @ sent \<and>
        (if tr_ok r then transfer_as_asked env input contract r s1 sent
         else none_accepted env sent \<and> (sent = [] \<or> transfer_as_asked env input contract r s1 sent)))"

lemma quiet_failure: "sp_sent s1 = sp_sent s \<Longrightarrow> spends_as_asked env input c s (transfer_failed env input m) s1"
  unfolding spends_as_asked_def by (intro exI [of _ "[]"]) (simp add: transfer_failed_def none_accepted_def)

lemma finish_transferI:
  assumes "sp_sent s1 = sp_sent s" "ua_privateKey a = Some key" "a \<in> set (uw_accounts u)"
    "getUnlockedWalletForNetwork (Some (profile_normalizeKoinosNetworkId (js_prop ''network'' input))) (sp_store s1) = Some u"
    "safeIsChecksumAddress (ch_valid env) (text_field (ch_lib env) (js_prop ''toAddress'' input))"
    "requested_amount input = Some amount" "to_units amount = Inr units" "0 < units"
    "ch_balance env contract (ua_address a) 0 = Inr balance" "units \<le> or_zero balance"
    "operation = TransferOp contract (ua_address a) (text_field (ch_lib env) (js_prop ''toAddress'' input)) units"
  shows "ends (finish_transfer env token input a key units mana operation) s1
    (\<lambda>m. spends_as_asked env input contract s (transfer_failed env input m)) (spends_as_asked env input contract s)"
  by (rule ends_mono [OF transfer_end [OF assms]]) (auto simp: spends_as_asked_def transfer_failed_def)

text \<open>C14: A KOIN or VHP transfer spends at most what was asked for, once: unless nothing at all is sent, every
  transaction it sends, dry runs included, is signed with the key of one unlocked account of that network and moves
  exactly the requested amount, positive and within the balance, from that account to the valid address asked for; at
  most the last one is broadcast, never in a dry run, exactly one when it reports success, and when it reports
  failure the chain has accepted none.\<close>

theorem transfers_spend_what_was_asked:
  fixes env input s
  defines "contracts \<equiv> contractsForNetwork (profile_normalizeKoinosNetworkId (js_prop ''network'' input))"
  shows "(case walletTransferKoin env input s of (r, s1) \<Rightarrow> spends_as_asked env input (nc_koin contracts) s r s1) \<and>
    (case walletTransferVhp env input s of (r, s1) \<Rightarrow> spends_as_asked env input (nc_vhp contracts) s r s1)"
proof
  show "case walletTransferKoin env input s of (r, s1) \<Rightarrow> spends_as_asked env input (nc_koin contracts) s r s1"
    unfolding walletTransferKoin_def Let_def contracts_def
    by (rule or_failed_cases, (intro flow_intros; (simp add: quiet_failure; fail)?))
      (rule finish_transferI, (assumption | linarith | simp)+)
  show "case walletTransferVhp env input s of (r, s1) \<Rightarrow> spends_as_asked env input (nc_vhp contracts) s r s1"
    unfolding walletTransferVhp_def Let_def contracts_def
    by (rule or_failed_cases, (intro flow_intros; (simp add: quiet_failure; fail)?))
      (rule finish_transferI, (assumption | linarith | simp)+)
qed

section \<open>Burns\<close>

text \<open>A reading of the new balances failed with the message.\<close>

definition late_reading_failed :: "chain_env \<Rightarrow> network_contracts \<Rightarrow> string \<Rightarrow> string \<Rightarrow> bool" where
  "late_reading_failed env contracts owner m \<longleftrightarrow>
     ch_balance env (nc_koin contracts) owner 1 = Inl m \<or> ch_balance env (nc_vhp contracts) owner 1 = Inl m"

lemma finish_burn_run:
  "ends (finish_burn env input contracts a key target balance units mana oldVhp operations) s
     (\<lambda>m s1. \<exists>sent. s1 = s\<lparr>sp_sent := sp_sent s @ sent\<rparr> \<and>
       spends_once env (truthy (js_prop ''dryRun'' input)) key operations False sent \<and>
       (none_accepted env sent \<or> late_reading_failed env contracts (ua_address a) m))
     (\<lambda>r s1. \<exists>sent. s1 = s\<lparr>sp_sent := sp_sent s @ sent\<rparr> \<and> br_ok r \<and>
       spends_once env (truthy (js_prop ''dryRun'' input)) key operations True sent)"
  unfolding finish_burn_def Let_def
proof (rule ends_and_thenI, rule ends_mono [OF prepared_run], goal_cases)
  case (1 m s1)
  then obtain sent where "s1 = s\<lparr>sp_sent := sp_sent s @ sent\<rparr>" "length sent \<le> 7" "list_all (draft_of key operations) sent"
    by auto
  then show ?case
    using drafts_spend_once [of sent key operations False "truthy (js_prop ''dryRun'' input)" env] by auto
next
  case (2 x s1)
  then obtain t payer sent where x: "x = (t, payer)" and sent: "s1 = s\<lparr>sp_sent := sp_sent s @ sent\<rparr>" "length sent \<le> 6"
    "list_all (draft_of key operations) sent" "draft_of key operations t" by (cases x) auto
  show ?case
  proof (cases "truthy (js_prop ''dryRun'' input)")
    case True
    then show ?thesis
      using sent drafts_spend_once [of sent key operations True "truthy (js_prop ''dryRun'' input)" env]
      by (auto simp: x ends_returns)
  next
    case False
    show ?thesis
      unfolding x prod.case if_not_P [OF False]
      by (rule ends_and_thenI, rule ends_mono [OF submitted_run [OF sent False]])
        (auto simp: flow_rules False late_reading_failed_def split: sum.split)
  qed
qed

definition burn_as_asked :: "chain_env \<Rightarrow> jsval \<Rightarrow> spending \<Rightarrow> burn_result \<Rightarrow> spending \<Rightarrow> wallet_tx list \<Rightarrow> bool" where
  "burn_as_asked env input s r s1 sent \<longleftrightarrow>
     (let network = profile_normalizeKoinosNetworkId (js_prop ''network'' input); contracts = contractsForNetwork network
      in \<exists>u a key units balance.
        getUnlockedWalletForNetwork (Some network) (sp_store s1) = Some u \<and> a \<in> set (uw_accounts u) \<and>
        ua_privateKey a = Some key \<and>
        burn_account_check (js_prop ''useProducerBurnAccount'' input \<noteq> JBool False)
          (loadProducerProfile (ch_lib env) (ch_env env) (Some network) (sp_store s)) a = None \<and>
        safeIsChecksumAddress (ch_valid env) (js_or (text_field (ch_lib env) (js_prop ''targetAddress'' input)) (ua_address a)) \<and>
        ch_balance env (nc_koin contracts) (ua_address a) 0 = Inr balance \<and>
        burn_amount (finite_num (js_prop ''percent'' input)) (finite_num (js_prop ''amount'' input)) (or_zero balance) = Inr units \<and>
        0 < units \<and> units \<le> or_zero balance \<and>
        (br_ok r \<or> none_accepted env sent \<or> late_reading_failed env contracts (ua_address a) (br_output r)) \<and>
        spends_once env (truthy (js_prop ''dryRun'' input)) key
          (burn_operations contracts (ua_address a) (js_or (text_field (ch_lib env) (js_prop ''targetAddress'' input)) (ua_address a))
            units (allowance_or_zero (ch_allowance env (ua_address a) (nc_pob contracts)))) (br_ok r) sent)"

definition burns_as_asked :: "chain_env \<Rightarrow> jsval \<Rightarrow> spending \<Rightarrow> burn_result \<Rightarrow> spending \<Rightarrow> bool" where
  "burns_as_asked env input s r s1 \<longleftrightarrow>
     (\<exists>sent. sp_sent s1 = sp_sent s @ sent \<and> (sent = [] \<and> \<not> br_ok r \<or> burn_as_asked env input s r s1 sent))"

lemma quiet_burn: "sp_sent s1 = sp_sent s \<Longrightarrow> burns_as_asked env input s (burn_failed env input m) s1"
  unfolding burns_as_asked_def by (intro exI [of _ "[]"]) (simp add: burn_failed_def)

lemma finish_burnI:
  fixes env input
  defines "network \<equiv> profile_normalizeKoinosNetworkId (js_prop ''network'' input)"
  assumes "sp_sent s1 = sp_sent s" "ua_privateKey a = Some key" "a \<in> set (uw_accounts u)"
    "getUnlockedWalletForNetwork (Some network) (sp_store s1) = Some u"
    "burn_account_check (js_prop ''useProducerBurnAccount'' input \<noteq> JBool False)
      (loadProducerProfile (ch_lib env) (ch_env env) (Some network) (sp_store s)) a = None"
    "safeIsChecksumAddress (ch_valid env) (js_or (text_field (ch_lib env) (js_prop ''targetAddress'' input)) (ua_address a))"
    "ch_balance env (nc_koin (contractsForNetwork network)) (ua_address a) 0 = Inr balance"
    "burn_amount (finite_num (js_prop ''percent'' input)) (finite_num (js_prop ''amount'' input)) (or_zero balance) = Inr units"
    "0 < units" "units \<le> or_zero balance"
  shows "ends (finish_burn env input (contractsForNetwork network) a key
      (js_or (text_field (ch_lib env) (js_prop ''targetAddress'' input)) (ua_address a)) (or_zero balance) units mana oldVhp
      (burn_operations (contractsForNetwork network) (ua_address a)
        (js_or (text_field (ch_lib env) (js_prop ''targetAddress'' input)) (ua_address a)) units
        (allowance_or_zero (ch_allowance env (ua_address a) (nc_pob (contractsForNetwork network)))))) s1
    (\<lambda>m. burns_as_asked env input s (burn_failed env input m)) (burns_as_asked env input s)"
proof (rule ends_mono [OF finish_burn_run], goal_cases)
  case (1 m s2)
  let ?spends = "spends_once env (truthy (js_prop ''dryRun'' input)) key
    (burn_operations (contractsForNetwork network) (ua_address a)
      (js_or (text_field (ch_lib env) (js_prop ''targetAddress'' input)) (ua_address a)) units
      (allowance_or_zero (ch_allowance env (ua_address a) (nc_pob (contractsForNetwork network)))))"
  from 1 obtain sent where sent: "s2 = s1\<lparr>sp_sent := sp_sent s1 @ sent\<rparr>" "?spends False sent"
    "none_accepted env sent \<or> late_reading_failed env (contractsForNetwork network) (ua_address a) m" by blast
  have "burn_as_asked env input s (burn_failed env input m) s2 sent"
    using assms(2-) sent unfolding burn_as_asked_def Let_def network_def [symmetric]
    by (intro exI [of _ u] exI [of _ a] exI [of _ key] exI [of _ units] exI [of _ balance]) (simp add: burn_failed_def)
  with sent assms(2) show ?case unfolding burns_as_asked_def by (intro exI [of _ sent]) simp
next
  case (2 r s2)
  let ?spends = "spends_once env (truthy (js_prop ''dryRun'' input)) key
    (burn_operations (contractsForNetwork network) (ua_address a)
      (js_or (text_field (ch_lib env) (js_prop ''targetAddress'' input)) (ua_address a)) units
      (allowance_or_zero (ch_allowance env (ua_address a) (nc_pob (contractsForNetwork network)))))"
  from 2 obtain sent where sent: "s2 = s1\<lparr>sp_sent := sp_sent s1 @ sent\<rparr>" "br_ok r" "?spends True sent" by blast
  have "burn_as_asked env input s r s2 sent"
    using assms(2-) sent unfolding burn_as_asked_def Let_def network_def [symmetric]
    by (intro exI [of _ u] exI [of _ a] exI [of _ key] exI [of _ units] exI [of _ balance]) simp
  with sent assms(2) show ?case unfolding burns_as_asked_def by (intro exI [of _ sent]) simp
qed

text \<open>C15: A burn spends at most what was asked for, once, and only from the account it may: unless nothing is sent,
  every transaction is signed with the key of an unlocked account of the network that is the producer's burn account
  (unless that check is switched off), approves and burns exactly the requested share, positive and within the
  balance, into VHP for a valid address; only the last is broadcast, never in a dry run, exactly one when success is
  reported. When failure is reported the chain has accepted none, or the failure is that of reading the new
  balances after the burn.\<close>

theorem burn_spends_what_was_asked:
  "case walletBurn env input s of (r, s1) \<Rightarrow> burns_as_asked env input s r s1"
  unfolding walletBurn_def Let_def
  by (rule or_failed_cases, (intro flow_intros; (simp add: quiet_burn; fail)?))
    (rule finish_burnI, (assumption | linarith | simp)+)

text \<open>The last case happens: a chain that takes the burn and then does not answer.\<close>

definition silent_chain :: chain_env where
  "silent_chain = \<lparr>
     ch_lib = \<lparr>wl_num_str = (\<lambda>_. ''0''), wl_seal = (\<lambda>_ _ _. ([], [], [], [])), wl_open = (\<lambda>_ _. None),
       wl_derive = (\<lambda>_ _. None), wl_wif_address = (\<lambda>_. None)\<rparr>,
     ch_env = \<lparr>we_now = ''t'', we_written = ''t'', we_idTail = ''1'', we_salt = 0\<rparr>,
     ch_message = (\<lambda>_. ''e''), ch_valid = (\<lambda>_. True), ch_signer = (\<lambda>_. Inr ()), ch_contract = (\<lambda>_. Inr ()),
     ch_balance = (\<lambda>_ _ n. if n = 0 then Inr (Some 300000000) else Inl ''timeout''),
     ch_rc = (\<lambda>_. Inr (Some 300000000)), ch_allowance = (\<lambda>_ _. Inr None), ch_encode = (\<lambda>_. Inr ()),
     ch_push = (\<lambda>_. Inr ()), ch_prepare = (\<lambda>_. Inr ()), ch_sign = (\<lambda>_ _. Inr ()), ch_estimate = (\<lambda>_. Inr None),
     ch_dry = (\<lambda>_. Inr ()), ch_send = (\<lambda>_. Inr ()), ch_txId = (\<lambda>_. ''0x1220''), ch_formatUnits = (\<lambda>_ _. None)\<rparr>"

definition only_account :: unlocked_account where
  "only_account = \<lparr>ua_id = ''a'', ua_name = ''A'', ua_kind = ImportedWif, ua_address = ''1A'', ua_derivationPath = None,
     ua_privateKey = Some ''K'', ua_createdAt = ''t'', ua_updatedAt = None\<rparr>"

definition unlocked_spending :: spending where
  "unlocked_spending = \<lparr>sp_store = empty_store\<lparr>
       ws_files := (\<lambda>_. Content (JObj [(''accounts'', JArr [JObj [(''id'', JStr ''a''), (''name'', JStr ''A''),
         (''kind'', JStr ''imported-wif''), (''address'', JStr ''1A'')]])])),
       ws_unlocked := Some \<lparr>uw_address = ''1A'', uw_privateKey = Some ''K'', uw_seedPhrase = None,
         uw_seedDerivationPath = None, uw_activeAccountId = Some ''a'', uw_accountName = None, uw_accountKind = None,
         uw_accounts = [only_account]\<rparr>,
       ws_unlockedNetwork := Some Mainnet\<rparr>, sp_sent = []\<rparr>"

definition burn_all_input :: jsval where
  "burn_all_input = JObj [(''percent'', JNum (Fin 100)), (''useProducerBurnAccount'', JBool False)]"

lemma hundred_percent: "js_big_floor (js_mul 100 100) = Inr 10000"
proof -
  have "round_even 5497558138880000 = 5497558138880000" using round_even_of_int [of 5497558138880000] by simp
  then have "js_round 10000 = 10000" by (subst js_round_at [of 13]) (simp_all add: power_int_minus)
  then show ?thesis by (simp add: js_mul_def js_big_floor_def)
qed

lemma silent_chain_answers:
  "ch_valid silent_chain v = True" "ch_signer silent_chain k = Inr ()" "ch_contract silent_chain c = Inr ()"
  "ch_balance silent_chain c o1 n = (if n = 0 then Inr (Some 300000000) else Inl ''timeout'')"
  "ch_rc silent_chain o1 = Inr (Some 300000000)" "ch_allowance silent_chain o1 p = Inr None"
  "ch_encode silent_chain op = Inr ()" "ch_push silent_chain op = Inr ()" "ch_prepare silent_chain t = Inr ()"
  "ch_sign silent_chain n t = Inr ()" "ch_send silent_chain t = Inr ()"
  by (simp_all add: silent_chain_def)

lemma burn_all_fields:
  "profile_normalizeKoinosNetworkId (js_prop ''network'' burn_all_input) = Mainnet"
  "finite_num (js_prop ''percent'' burn_all_input) = Some 100" "finite_num (js_prop ''amount'' burn_all_input) = None"
  "truthy (js_prop ''useFreeMana'' burn_all_input) = False" "truthy (js_prop ''dryRun'' burn_all_input) = False"
  "js_prop ''useProducerBurnAccount'' burn_all_input = JBool False"
  "js_or (text_field lib (js_prop ''targetAddress'' burn_all_input)) a = a"
  by (simp_all add: burn_all_input_def profile_normalizeKoinosNetworkId_def finite_num_def text_field_def js_or_def)

lemma stored_there: "\<exists>w. stored_wallet silent_chain Mainnet unlocked_spending = (Inr (Some w), unlocked_spending)"
  by (simp add: stored_wallet_def loadWalletFile_def unlocked_spending_def empty_store_def normalizeWalletFilePayload_def
      sanitizeWalletAccount_def silent_chain_def text_field_def kind_of_text_def Let_def array_of_def
      List.map_filter_simps js_trim_def js_trim_start_def is_space_def cu_def)

lemma signed_by_it: "signing_account silent_chain Mainnet burn_all_input locked unlocked_spending =
    (Inr (only_account, ''K''), unlocked_spending)"
  by (simp add: signing_account_def and_then_def session_wallet_def unlocked_spending_def getUnlockedWalletForNetwork_def
      resolveUnlockedWalletAccount_def only_account_def returns_def opt_trim_def js_trim_def js_trim_start_def is_space_def cu_def
      some_text_def text_field_def burn_all_input_def)

text \<open>Failure is reported, without a transaction id, for a burn of everything that the chain has accepted.\<close>

lemma burn_fails_after_burning:
  "case walletBurn silent_chain burn_all_input unlocked_spending of (r, s1) \<Rightarrow>
     \<not> br_ok r \<and> br_output r = ''timeout'' \<and> br_txId r = None \<and>
     (\<exists>t. sp_sent s1 = [t] \<and> tx_broadcast t \<and> ch_send silent_chain t = Inr () \<and>
        tx_operations t = [Approve (nc_koin mainnet_contracts) ''1A'' (nc_pob mainnet_contracts) 300000000,
          BurnOp (nc_pob mainnet_contracts) 300000000 ''1A'' ''1A''])"
proof -
  have addr: "ua_address only_account = ''1A''" by (simp add: only_account_def)
  obtain w where w: "stored_wallet silent_chain Mainnet unlocked_spending = (Inr (Some w), unlocked_spending)"
    using stored_there by blast
  show ?thesis
    unfolding walletBurn_def Let_def
    by (simp add: burn_all_fields silent_chain_answers w signed_by_it addr hundred_percent and_then_def awaited_def
        unless_def or_failed_def burn_account_check_def safeIsChecksumAddress_def burn_amount_def or_zero_def
        finish_burn_def prepared_def submitted_def returns_def sends_def Let_def burn_operations_def
        allowance_or_zero_def contractsForNetwork_def koinos_network_profiles_def burn_failed_def fails_def)
      (simp add: unlocked_spending_def)
qed

section \<open>Amounts and accounts\<close>

text \<open>C38: A sponsored transaction is prepared with at most six dry runs of the same operations under the same key and
  nothing is broadcast; what is handed on is the last of them, which the chain accepted, paid by the free-mana
  sharer, with a limit between the estimate plus a tenth and 4 units of 10^8 more.\<close>

theorem sponsored_transactions_are_bounded:
  "case prepareWalletTransactionWithFreeMana env key wa operations s of (r, s1) \<Rightarrow>
     \<exists>sent. s1 = s\<lparr>sp_sent := sp_sent s @ sent\<rparr> \<and> length sent \<le> 6 \<and> list_all (draft_of key operations) sent \<and>
       (case r of Inl _ \<Rightarrow> True | Inr t \<Rightarrow> sponsored_run env wa sent t)"
  using free_mana_run [of env key wa operations s] by (auto simp: ends_def split: prod.splits sum.splits)



text \<open>It does: 0.29 is sent as 28999999 units.\<close>

lemma twenty_nine_hundredths: "to_units (js_round (29 / 100)) = Inr 28999999"
  unfolding to_units_def by (rule unit_lost)

text \<open>A request for an account that is not in the wallet is served from the active one.\<close>

lemma unknown_account_is_the_active_one:
  assumes "accountId \<notin> ua_id ` set (uw_accounts u)"
  shows "resolveUnlockedWalletAccount u accountId = resolveUnlockedWalletAccount u []"
proof -
  have "find (\<lambda>a. ua_id a = accountId) (uw_accounts u) = None" using assms by (auto simp: find_None_iff)
  then show ?thesis by (simp add: resolveUnlockedWalletAccount_def)
qed

end
