(* ===== verification/WalletInvariant.thy ===== *)
theory WalletInvariant
  imports WalletStore
begin

text \<open>
  What every sequence of wallet operations keeps true. The operations of
  electron/lib/teleno-storage.ts, called with a network as electron/lib/wallet-service.ts calls
  them, are the rules of the step relation \<open>wallet_step\<close>; \<open>store_ok\<close> is the invariant:
  every wallet file holds a well-formed wallet (\<open>wallet_ok\<close>), and the unlocked session shows
  the same accounts and the same active account as the file of its network (\<open>mirrors\<close>).

  The steps take from outside what \<open>lib_ok\<close> and \<open>env_ok\<close> name: a sealed secret is opened by its
  password, addresses are texts without surrounding blanks, timestamps are not empty, and a new
  account id is not in use.
\<close>

section \<open>What is taken from outside\<close>

definition lib_ok :: "wallet_lib \<Rightarrow> bool" where
  "lib_ok lib \<longleftrightarrow>
     (\<forall>r v p. wl_open lib (wl_seal lib r v p) p = Some v) \<and>
     (\<forall>seed path a k. wl_derive lib seed path = Some (a, k) \<longrightarrow> normal_text a) \<and>
     (\<forall>k a. wl_wif_address lib k = Some a \<longrightarrow> normal_text a)"

lemma lib_okD:
  assumes "lib_ok lib"
  shows "wl_open lib (wl_seal lib r v p) p = Some v"
    and "wl_derive lib seed path = Some (a, k) \<Longrightarrow> normal_text a"
    and "wl_wif_address lib k = Some a \<Longrightarrow> normal_text a"
  using assms unfolding lib_ok_def by blast+

definition env_ok :: "wallet_env \<Rightarrow> bool" where
  "env_ok env \<longleftrightarrow> we_now env \<noteq> [] \<and> we_written env \<noteq> [] \<and> normal_text (we_idTail env)"

section \<open>Well-formed wallets\<close>

definition account_ok :: "enc_account \<Rightarrow> bool" where
  "account_ok a \<longleftrightarrow>
     normal_text (ea_id a) \<and> normal_text (ea_name a) \<and> normal_text (ea_address a) \<and>
     ea_createdAt a \<noteq> [] \<and> ea_updatedAt a \<noteq> [] \<and>
     (\<forall>p. ea_derivationPath a = Some p \<longrightarrow> normal_text p) \<and>
     (\<forall>v. ea_encryptedKey a = Some v \<longrightarrow> object_field v = Some v) \<and>
     (ea_kind a = WatchOnly \<longrightarrow> ea_encryptedKey a = None)"

definition accounts_ok :: "enc_account list \<Rightarrow> bool" where
  "accounts_ok as \<longleftrightarrow>
     (\<forall>a \<in> set as. account_ok a) \<and> distinct (map ea_id as) \<and>
     distinct (map (\<lambda>a. js_lower (ea_address a)) as)"

definition wallet_ok :: "enc_wallet \<Rightarrow> bool" where
  "wallet_ok w \<longleftrightarrow>
     accounts_ok (ew_accounts w) \<and>
     (\<exists>a \<in> set (ew_accounts w). ew_activeAccountId w = Some (ea_id a) \<and> ew_address w = ea_address a \<and>
        ew_encryptedKey w = ea_encryptedKey a \<and> ew_seedDerivationPath w = ea_derivationPath a) \<and>
     (\<forall>v. ew_encryptedSeedPhrase w = Some v \<longrightarrow> object_field v = Some v) \<and>
     ew_createdAt w \<noteq> [] \<and> ew_updatedAt w \<noteq> []"

text \<open>What a wallet needs before it is written: its compatibility fields may be out of date.\<close>

definition ready :: "enc_wallet \<Rightarrow> string \<Rightarrow> bool" where
  "ready w i \<longleftrightarrow>
     accounts_ok (ew_accounts w) \<and> i \<in> ea_id ` set (ew_accounts w) \<and> ew_activeAccountId w = Some i \<and>
     (\<forall>v. ew_encryptedSeedPhrase w = Some v \<longrightarrow> object_field v = Some v) \<and> ew_createdAt w \<noteq> []"

section \<open>Looking an account up\<close>

lemma find_unique:
  "distinct (map f xs) \<Longrightarrow> x \<in> set xs \<Longrightarrow> find (\<lambda>y. f y = f x) xs = Some x"
  by (induction xs) (auto simp: rev_image_eqI)

lemma find_unique_Some:
  "distinct (map f xs) \<Longrightarrow> x \<in> set xs \<Longrightarrow> find (\<lambda>y. Some (f y) = Some (f x)) xs = Some x"
  using find_unique by simp

lemma opt_trim_normal: "normal_text s \<Longrightarrow> opt_trim (Some s) = s"
  by (simp add: opt_trim_def normal_text_def trimmed_def)

lemma account_okD:
  "accounts_ok as \<Longrightarrow> a \<in> set as \<Longrightarrow> account_ok a"
  "account_ok a \<Longrightarrow> normal_text (ea_id a)" "account_ok a \<Longrightarrow> normal_text (ea_name a)"
  "account_ok a \<Longrightarrow> normal_text (ea_address a)"
  by (auto simp: accounts_ok_def account_ok_def)

lemma stored_texts:
  assumes "accounts_ok as" "a \<in> set as"
  shows "normal_text (ea_id a)" "normal_text (ea_name a)" "normal_text (ea_address a)"
  using assms account_okD by blast+

lemma normal_some_text: "normal_text s \<Longrightarrow> some_text s = Some s"
  by (simp add: some_text_def normal_text_def)

lemma normal_js_or: "normal_text s \<Longrightarrow> js_or s d = s"
  by (simp add: js_or_def normal_text_def)

lemma findWalletAccount_active:
  assumes "accounts_ok (ew_accounts w)" "a \<in> set (ew_accounts w)"
  shows "findWalletAccount (Some w) (Some (ea_id a)) = Some a"
proof -
  have "normal_text (ea_id a)" using assms account_okD by blast
  then have "opt_trim (Some (ea_id a)) = ea_id a" "ea_id a \<noteq> []"
    by (auto simp: opt_trim_normal normal_text_def)
  with assms find_unique [of ea_id "ew_accounts w" a] show ?thesis
    by (auto simp: findWalletAccount_def accounts_ok_def)
qed

lemma findWalletAccount_in: "findWalletAccount (Some w) i = Some a \<Longrightarrow> a \<in> set (ew_accounts w)"
  by (auto simp: findWalletAccount_def find_Some_iff split: option.splits if_splits)

section \<open>Writing and reading back\<close>

lemma sync_ready:
  assumes "ready w i" "env_ok env"
  shows "wallet_ok (syncWalletCompatibilityFields env w)"
    and "ew_accounts (syncWalletCompatibilityFields env w) = ew_accounts w"
    and "ew_activeAccountId (syncWalletCompatibilityFields env w) = Some i"
proof -
  from assms(1) obtain a where a: "a \<in> set (ew_accounts w)" "ew_activeAccountId w = Some (ea_id a)" "i = ea_id a"
    by (auto simp: ready_def)
  have ok: "accounts_ok (ew_accounts w)" using assms(1) by (simp add: ready_def)
  have f: "findWalletAccount (Some w) (ew_activeAccountId w) = Some a"
    using findWalletAccount_active [OF ok a(1)] a(2) by simp
  have id: "some_text (ea_id a) = Some (ea_id a)" "js_or (ea_address a) d = ea_address a" for d
    using stored_texts [OF ok a(1)] by (simp_all add: normal_some_text normal_js_or)
  show "ew_accounts (syncWalletCompatibilityFields env w) = ew_accounts w"
    by (simp add: syncWalletCompatibilityFields_def Let_def)
  show "ew_activeAccountId (syncWalletCompatibilityFields env w) = Some i"
    using f id a by (simp add: syncWalletCompatibilityFields_def Let_def)
  show "wallet_ok (syncWalletCompatibilityFields env w)"
    using assms ok a f id
    by (auto simp: syncWalletCompatibilityFields_def Let_def wallet_ok_def ready_def env_ok_def)
qed

lemma wallet_ok_ready: "wallet_ok w \<Longrightarrow> ready w (the (ew_activeAccountId w))"
  by (auto simp: wallet_ok_def ready_def)

lemma text_field_normal: "normal_text s \<Longrightarrow> text_field lib (JStr s) = s"
  by (simp add: text_field_def normal_text_def trimmed_def)

lemma kind_of_text_str [simp]: "kind_of_text (account_kind_str k) = Some k"
  by (cases k) (simp_all add: kind_of_text_def)

lemma normal_kind_str: "normal_text (account_kind_str k)"
proof -
  have "\<forall>k \<in> {Derived, ImportedWif, WatchOnly}. normal_text (account_kind_str k)" by code_simp
  then show ?thesis by (cases k) simp_all
qed

lemma account_json_fields:
  "js_prop ''id'' (account_json a) = JStr (ea_id a)"
  "js_prop ''name'' (account_json a) = JStr (ea_name a)"
  "js_prop ''kind'' (account_json a) = JStr (account_kind_str (ea_kind a))"
  "js_prop ''address'' (account_json a) = JStr (ea_address a)"
  "js_prop ''createdAt'' (account_json a) = JStr (ea_createdAt a)"
  "js_prop ''updatedAt'' (account_json a) = JStr (ea_updatedAt a)"
  "js_prop ''derivationPath'' (account_json a) = json_text (ea_derivationPath a)"
  "js_prop ''encryptedKey'' (account_json a) = json_opt (ea_encryptedKey a)"
  by (simp_all add: account_json_def)

lemma trimmed_field_json: "(\<And>p. x = Some p \<Longrightarrow> normal_text p) \<Longrightarrow> trimmed_field (json_text x) = x"
  by (cases x) (auto simp: trimmed_field_def json_text_def some_text_def normal_text_def trimmed_def)

lemma object_field_json: "(\<And>v. x = Some v \<Longrightarrow> object_field v = Some v) \<Longrightarrow> object_field (json_opt x) = x"
  by (cases x) (auto simp: json_opt_def object_field_def)

lemma text_or_JStr: "s \<noteq> [] \<Longrightarrow> text_or (JStr s) d = s"
  by (simp add: text_or_def)

lemma sanitize_account_json: "account_ok a \<Longrightarrow> sanitizeWalletAccount lib env (account_json a) = Some a"
  unfolding sanitizeWalletAccount_def account_json_fields Let_def
  by (auto simp: account_ok_def text_field_normal normal_kind_str trimmed_field_json object_field_json
      text_or_JStr normal_not_Nil intro!: enc_account.equality)

lemma map_filter_sanitize:
  "(\<And>a. a \<in> set as \<Longrightarrow> account_ok a) \<Longrightarrow>
   List.map_filter (sanitizeWalletAccount lib env) (map account_json as) = as"
  by (induction as) (simp_all add: sanitize_account_json List.map_filter_simps)

lemma wallet_json_fields:
  "js_prop ''accounts'' (wallet_json w) = JArr (map account_json (ew_accounts w))"
  "js_prop ''activeAccountId'' (wallet_json w) = json_text (ew_activeAccountId w)"
  "js_prop ''encryptedSeedPhrase'' (wallet_json w) = json_opt (ew_encryptedSeedPhrase w)"
  "js_prop ''createdAt'' (wallet_json w) = JStr (ew_createdAt w)"
  "js_prop ''updatedAt'' (wallet_json w) = JStr (ew_updatedAt w)"
  by (simp_all add: wallet_json_def)

text \<open>A well-formed wallet is read back from its file as it was written.\<close>

lemma normalize_wallet_json:
  assumes "wallet_ok w" shows "normalizeWalletFilePayload lib env (wallet_json w) = Some w"
proof -
  from assms obtain a where a: "a \<in> set (ew_accounts w)" "ew_activeAccountId w = Some (ea_id a)"
    "ew_address w = ea_address a" "ew_encryptedKey w = ea_encryptedKey a"
    "ew_seedDerivationPath w = ea_derivationPath a"
    and ok: "accounts_ok (ew_accounts w)"
    and seed: "\<And>v. ew_encryptedSeedPhrase w = Some v \<Longrightarrow> object_field v = Some v"
    and times: "ew_createdAt w \<noteq> []" "ew_updatedAt w \<noteq> []"
    by (auto simp: wallet_ok_def)
  have "normal_text (ea_id a)" by (rule stored_texts(1) [OF ok a(1)])
  then have i: "js_or (text_field lib (JStr (ea_id a))) d = ea_id a" for d
    by (simp add: text_field_normal normal_js_or)
  have f: "find (\<lambda>x. ea_id x = ea_id a) (ew_accounts w) = Some a"
    using find_unique [of ea_id "ew_accounts w" a] ok a(1) by (simp add: accounts_ok_def)
  have all: "List.map_filter (sanitizeWalletAccount lib env) (map account_json (ew_accounts w)) = ew_accounts w"
    by (rule map_filter_sanitize) (rule account_okD(1) [OF ok])
  show ?thesis
    unfolding normalizeWalletFilePayload_def wallet_json_fields array_of_def jsval.case all Let_def
      wallet_of_accounts_def
    using a f i times object_field_json [OF seed]
    by (auto simp: text_or_JStr json_text_def intro!: enc_wallet.equality)
qed

lemma load_written:
  "ws_files st net = Content (wallet_json w) \<Longrightarrow> wallet_ok w \<Longrightarrow> loadWalletFile lib env net st = (Some w, st)"
  by (simp add: loadWalletFile_def normalize_wallet_json wallet_json_fields)

section \<open>The session shows the file\<close>

definition same_account :: "enc_account \<Rightarrow> unlocked_account \<Rightarrow> bool" where
  "same_account a b \<longleftrightarrow>
     ua_id b = ea_id a \<and> ua_name b = ea_name a \<and> ua_kind b = ea_kind a \<and> ua_address b = ea_address a \<and>
     ua_derivationPath b = ea_derivationPath a \<and> (ea_kind a = WatchOnly \<longrightarrow> ua_privateKey b = None)"

definition shows_active :: "string \<Rightarrow> unlocked_wallet \<Rightarrow> bool" where
  "shows_active i u \<longleftrightarrow>
     (\<exists>b \<in> set (uw_accounts u). ua_id b = i \<and> uw_activeAccountId u = Some i \<and> uw_address u = ua_address b \<and>
        uw_privateKey u = ua_privateKey b \<and> uw_seedDerivationPath u = ua_derivationPath b \<and>
        uw_accountName u = Some (ua_name b) \<and> uw_accountKind u = Some (ua_kind b))"

definition shows_accounts :: "enc_account list \<Rightarrow> unlocked_wallet \<Rightarrow> bool" where
  "shows_accounts as u \<longleftrightarrow> list_all2 same_account as (uw_accounts u)"

definition mirrors :: "enc_wallet \<Rightarrow> unlocked_wallet \<Rightarrow> bool" where
  "mirrors w u \<longleftrightarrow> shows_accounts (ew_accounts w) u \<and> (\<exists>i. ew_activeAccountId w = Some i \<and> shows_active i u)"

lemma shown_ids: "list_all2 same_account as bs \<Longrightarrow> map ua_id bs = map ea_id as"
  by (induction rule: list_all2_induct) (auto simp: same_account_def)

lemma shown_account:
  assumes "list_all2 same_account as bs" "a \<in> set as"
  obtains b where "b \<in> set bs" "same_account a b"
  using assms by (metis list_all2_conv_all_nth in_set_conv_nth)

lemma stored_account:
  assumes "list_all2 same_account as bs" "b \<in> set bs"
  obtains a where "a \<in> set as" "same_account a b"
  using assms by (metis list_all2_conv_all_nth in_set_conv_nth)

lemma find_shown:
  assumes "list_all2 same_account as bs" "accounts_ok as" "a \<in> set as"
  obtains b where "b \<in> set bs" "same_account a b" "find (\<lambda>e. ua_id e = ea_id a) bs = Some b"
proof -
  obtain b where b: "b \<in> set bs" "same_account a b" using shown_account [OF assms(1,3)] by blast
  have "distinct (map ua_id bs)" using shown_ids [OF assms(1)] assms(2) by (simp add: accounts_ok_def)
  from find_unique [OF this b(1)] have "find (\<lambda>e. ua_id e = ua_id b) bs = Some b" .
  with b that show ?thesis by (simp add: same_account_def)
qed

text \<open>Setting the compatibility fields from an account makes it the one shown as active.\<close>

lemma shows_active_with:
  assumes "b \<in> set (uw_accounts u)" "normal_text (ua_id b)" "normal_text (ua_name b)" "normal_text (ua_address b)"
  shows "shows_active (ua_id b) (with_active (Some b) d u)"
  using assms by (auto simp: shows_active_def with_active_def normal_some_text normal_js_or intro!: bexI [of _ b])

lemma accounts_with_active [simp]: "uw_accounts (with_active x d u) = uw_accounts u"
  by (simp add: with_active_def)

lemma same_texts:
  assumes "same_account a b" "account_ok a"
  shows "normal_text (ua_id b)" "normal_text (ua_name b)" "normal_text (ua_address b)"
  using assms by (simp_all add: same_account_def account_ok_def)

section \<open>Unlocking gives a session that shows the file\<close>

lemma unlocked_as_same: "account_key lib seed pw a = Inr key \<Longrightarrow> same_account a (unlocked_as a key)"
  by (auto simp: same_account_def unlocked_as_def account_key_def)

lemma unlock_accounts_same:
  "unlock_accounts lib seed pw as = Inr bs \<Longrightarrow> list_all2 same_account as bs"
proof (induction as arbitrary: bs)
  case (Cons a as)
  then show ?case using unlocked_as_same by (auto split: sum.splits)
qed simp

lemma session_of_mirrors:
  assumes "wallet_ok w" "list_all2 same_account (ew_accounts w) bs"
  shows "mirrors w (session_of w seed bs)"
proof -
  from assms(1) obtain a where a: "a \<in> set (ew_accounts w)" "ew_activeAccountId w = Some (ea_id a)"
    "ew_seedDerivationPath w = ea_derivationPath a" and ok: "accounts_ok (ew_accounts w)"
    by (auto simp: wallet_ok_def)
  obtain b where b: "b \<in> set bs" "same_account a b" "find (\<lambda>e. ua_id e = ea_id a) bs = Some b"
    using find_shown [OF assms(2) ok a(1)] .
  then have "session_account w bs = Some b" by (simp add: session_account_def a(2))
  moreover note same_texts [OF b(2) account_okD(1) [OF ok a(1)]]
  ultimately have "shows_active (ea_id a) (session_of w seed bs)"
    using b a(3) by (auto simp: shows_active_def session_of_def Let_def same_account_def normal_some_text
        normal_js_or intro!: bexI [of _ b] split: option.splits)
  with assms(2) a(2) show ?thesis by (auto simp: mirrors_def shows_accounts_def session_of_def Let_def)
qed

lemma unlocked_mirrors:
  assumes "wallet_ok w" "unlockedWalletFromFile lib w pw = Inr u" shows "mirrors w u"
proof -
  from assms(2) obtain seed bs where "unlock_accounts lib seed pw (ew_accounts w) = Inr bs" "u = session_of w seed bs"
    by (auto simp: unlockedWalletFromFile_def Let_def split: option.splits sum.splits)
  with session_of_mirrors [OF assms(1) unlock_accounts_same] show ?thesis by blast
qed

section \<open>The store invariant\<close>

definition holds :: "wallet_store \<Rightarrow> network \<Rightarrow> enc_wallet \<Rightarrow> bool" where
  "holds st n w \<longleftrightarrow> ws_files st (Some n) = Content (wallet_json w) \<and> wallet_ok w"

definition store_ok :: "wallet_store \<Rightarrow> bool" where
  "store_ok st \<longleftrightarrow>
     (\<forall>n. ws_files st (Some n) = Missing \<or> (\<exists>w. holds st n w)) \<and>
     (ws_unlocked st = None \<or>
      (\<exists>n w u. ws_unlockedNetwork st = Some n \<and> ws_unlocked st = Some u \<and> holds st n w \<and> mirrors w u))"

lemma wallet_json_inj: "wallet_ok v \<Longrightarrow> wallet_ok w \<Longrightarrow> wallet_json v = wallet_json w \<Longrightarrow> v = w"
  using normalize_wallet_json by (metis option.inject)

lemma holds_unique: "holds st n v \<Longrightarrow> holds st n w \<Longrightarrow> v = w"
  by (auto simp: holds_def dest: wallet_json_inj)

lemma store_ok_empty: "store_ok empty_store"
  by (simp add: store_ok_def empty_store_def)

text \<open>Loading changes nothing: there is nothing to migrate.\<close>

lemma load_store_ok:
  assumes "store_ok st"
  obtains "loadWalletFile lib env (Some n) st = (None, st)" "ws_files st (Some n) = Missing"
  | w where "loadWalletFile lib env (Some n) st = (Some w, st)" "holds st n w"
proof (cases "ws_files st (Some n) = Missing")
  case True
  then show ?thesis using that(1) by (simp add: loadWalletFile_def)
next
  case False
  then obtain w where "holds st n w" using assms by (auto simp: store_ok_def)
  then show ?thesis using that(2) load_written by (auto simp: holds_def)
qed

text \<open>The session an operation works on shows the file of the operation's network.\<close>

lemma session_mirrors:
  assumes "store_ok st" "getUnlockedWalletForNetwork (Some n) st = Some u" "holds st n w"
  shows "mirrors w u"
  using assms holds_unique by (auto simp: store_ok_def getUnlockedWalletForNetwork_def split: if_splits)

text \<open>The pattern of every operation that changes accounts: write a ready wallet and change the
  session so that it shows it.\<close>

lemma write_step:
  assumes ok: "store_ok st" and w: "holds st n w" and r: "ready w' i" and env: "env_ok env"
    and f: "\<And>u. mirrors w u \<Longrightarrow> shows_accounts (ew_accounts w') (f u) \<and> shows_active i (f u)"
  shows "store_ok (on_session (Some n) f (writeWalletFile env w' (Some n) st))"
proof -
  let ?w = "syncWalletCompatibilityFields env w'"
  let ?st = "writeWalletFile env w' (Some n) st"
  have new: "holds ?st n ?w" using sync_ready(1) [OF r env] by (simp add: holds_def writeWalletFile_def)
  have others: "m \<noteq> n \<Longrightarrow> holds ?st m v \<longleftrightarrow> holds st m v" for m v by (simp add: holds_def writeWalletFile_def)
  have same: "getUnlockedWalletForNetwork (Some n) ?st = getUnlockedWalletForNetwork (Some n) st"
    by (simp add: getUnlockedWalletForNetwork_def writeWalletFile_def)
  have files: "ws_files ?st (Some m) = Missing \<or> (\<exists>v. holds ?st m v)" for m
  proof (cases "m = n")
    case False
    with ok others [OF False] show ?thesis by (auto simp: store_ok_def writeWalletFile_def)
  qed (use new in blast)
  show ?thesis
  proof (cases "getUnlockedWalletForNetwork (Some n) st")
    case None
    have "ws_unlocked ?st = None \<or>
        (\<exists>m v u. ws_unlockedNetwork ?st = Some m \<and> ws_unlocked ?st = Some u \<and> holds ?st m v \<and> mirrors v u)"
    proof (cases "ws_unlocked st")
      case (Some u)
      with ok obtain m v where m: "ws_unlockedNetwork st = Some m" "holds st m v" "mirrors v u"
        by (auto simp: store_ok_def)
      with Some None have "m \<noteq> n" by (auto simp: getUnlockedWalletForNetwork_def)
      with m Some others show ?thesis by (auto simp: writeWalletFile_def)
    qed (simp add: writeWalletFile_def)
    with files None same show ?thesis by (auto simp: store_ok_def on_session_def)
  next
    case (Some u)
    have "mirrors ?w (f u)"
      using f [OF session_mirrors [OF ok Some w]] sync_ready(2,3) [OF r env] by (auto simp: mirrors_def)
    moreover have "ws_unlockedNetwork st = Some n"
      using Some by (auto simp: getUnlockedWalletForNetwork_def split: if_splits)
    ultimately show ?thesis
      using files new Some same by (auto simp: store_ok_def on_session_def holds_def writeWalletFile_def)
  qed
qed

section \<open>Ready wallets\<close>

lemma holds_accounts: "holds st n w \<Longrightarrow> accounts_ok (ew_accounts w)"
  by (simp add: holds_def wallet_ok_def)

lemma mirrorsD:
  assumes "mirrors w u"
  obtains i where "list_all2 same_account (ew_accounts w) (uw_accounts u)" "ew_activeAccountId w = Some i"
    "shows_active i u"
  using assms by (auto simp: mirrors_def shows_accounts_def)

lemma ready_with_active:
  "wallet_ok w \<Longrightarrow> a \<in> set (ew_accounts w) \<Longrightarrow> ready (w\<lparr>ew_activeAccountId := Some (ea_id a)\<rparr>) (ea_id a)"
  by (auto simp: wallet_ok_def ready_def)

lemma setActive_ok:
  assumes ok: "store_ok st" and env: "env_ok env"
  shows "store_ok (snd (setActiveWalletAccount lib env accountId (Some n) st))"
proof (rule load_store_ok [OF ok, of lib env n])
  fix w assume l: "loadWalletFile lib env (Some n) st = (Some w, st)" and w: "holds st n w"
  show ?thesis
  proof (cases "findWalletAccount (Some w) (Some accountId)")
    case (Some a)
    then have a: "a \<in> set (ew_accounts w)" by (rule findWalletAccount_in)
    have r: "ready (w\<lparr>ew_activeAccountId := Some (ea_id a)\<rparr>) (ea_id a)"
      using w a ready_with_active by (simp add: holds_def)
    show ?thesis unfolding setActiveWalletAccount_def l prod.case option.case Some snd_conv
    proof (rule write_step [OF ok w r env])
      fix u assume "mirrors w u"
      then obtain i where m: "list_all2 same_account (ew_accounts w) (uw_accounts u)" by (rule mirrorsD)
      obtain b where b: "b \<in> set (uw_accounts u)" "same_account a b" "find (\<lambda>e. ua_id e = ea_id a) (uw_accounts u) = Some b"
        using find_shown [OF m holds_accounts [OF w] a] .
      have "shows_active (ua_id b) (with_active (Some b) (ew_address w) u)"
        using shows_active_with [OF b(1)] same_texts [OF b(2) account_okD(1) [OF holds_accounts [OF w] a]] by blast
      with b m show "shows_accounts (ew_accounts (w\<lparr>ew_activeAccountId := Some (ea_id a)\<rparr>))
          (with_active (case find (\<lambda>e. ua_id e = ea_id a) (uw_accounts u) of
             None \<Rightarrow> (case uw_accounts u of [] \<Rightarrow> None | e # _ \<Rightarrow> Some e) | Some e \<Rightarrow> Some e) (ew_address w) u) \<and>
          shows_active (ea_id a) (with_active (case find (\<lambda>e. ua_id e = ea_id a) (uw_accounts u) of
             None \<Rightarrow> (case uw_accounts u of [] \<Rightarrow> None | e # _ \<Rightarrow> Some e) | Some e \<Rightarrow> Some e) (ew_address w) u)"
        by (simp add: shows_accounts_def same_account_def)
    qed
  qed (use ok l in \<open>simp add: setActiveWalletAccount_def\<close>)
qed (use ok in \<open>simp add: setActiveWalletAccount_def\<close>)

section \<open>Adding an account\<close>

lemma normal_numbered: "normal_text w \<Longrightarrow> normal_text (w @ [CHR '' ''] @ js_nat k)"
proof -
  assume w: "normal_text w"
  have "js_nat k \<noteq> []" by (subst js_nat.simps) simp
  moreover have "\<not> is_space c" if "is_digit c" for c using that by (auto simp: is_digit_def is_space_def)
  ultimately have "normal_text (js_nat k)" using js_nat_digits [of k] by (intro normal_textI) auto
  with w show ?thesis by (rule normal_text_append3)
qed

lemma default_name_normal: "normal_text (nextDefaultAccountName accounts kind)"
proof -
  have t: "normal_text ''Account''" "normal_text ''Watch Account''" "normal_text ''Imported Account''" by code_simp+
  show ?thesis
    using normal_numbered [OF t(1)] normal_numbered [OF t(2)] normal_numbered [OF t(3)]
    by (auto simp: nextDefaultAccountName_def)
qed

lemma sanitized_name_normal: "normal_text fallback \<Longrightarrow> normal_text (sanitizeAccountName name fallback)"
  using trimmed_normal by (auto simp: sanitizeAccountName_def js_or_def opt_trim_def split: option.splits)

lemma created_id_normal: "env_ok env \<Longrightarrow> normal_text (createWalletAccountId env kind)"
proof -
  assume "env_ok env"
  then have "normal_text (we_idTail env)" by (simp add: env_ok_def)
  moreover have "normal_text ''acc_''" by code_simp
  ultimately show ?thesis
    using normal_text_append3 [of "''acc_''" "we_idTail env" "account_kind_str kind @ ''_''"]
    by (simp add: createWalletAccountId_def)
qed

lemma path_normal: "normal_text (walletDerivationPath k)"
proof -
  have "normal_text (''m/44'' @ sq)" "normal_text (sq @ ''/0/0'')" by code_simp+
  from normal_text_append3 [OF this, of "''/659'' @ sq @ ''/'' @ js_nat k"] show ?thesis
    by (simp add: walletDerivationPath_def)
qed

lemma new_account_ok:
  assumes "env_ok env" "normal_text address" "\<And>p. path = Some p \<Longrightarrow> normal_text p"
    and "\<And>v. key = Some v \<Longrightarrow> object_field v = Some v" "kind = WatchOnly \<Longrightarrow> key = None"
  shows "account_ok (new_account env kind name accounts address path key)"
  using assms created_id_normal [OF assms(1)] sanitized_name_normal [OF default_name_normal]
  by (simp add: account_ok_def new_account_def env_ok_def)

lemma sealed_object [simp]: "object_field (encryptTelenoWalletSecret lib r v pw) = Some (encryptTelenoWalletSecret lib r v pw)"
  by (simp add: encryptTelenoWalletSecret_def object_field_def split: prod.splits)

lemma add_account_ok:
  assumes ok: "store_ok st" and w: "holds st n w" and env: "env_ok env" and a: "account_ok a"
    and new: "ea_id a \<notin> ea_id ` set (ew_accounts w)" "\<not> list_ex (has_address (ea_address a)) (ew_accounts w)"
    and key: "ea_kind a = WatchOnly \<Longrightarrow> key = None"
  shows "store_ok (snd (add_account env a key w (Some n) st))"
  unfolding add_account_def snd_conv
proof (rule write_step [OF ok w _ env])
  show "ready (w\<lparr>ew_accounts := ew_accounts w @ [a], ew_activeAccountId := Some (ea_id a)\<rparr>) (ea_id a)"
    using w a new by (auto simp: ready_def holds_def wallet_ok_def accounts_ok_def list_ex_iff has_address_def)
next
  fix u assume "mirrors w u"
  then obtain i where "list_all2 same_account (ew_accounts w) (uw_accounts u)" by (rule mirrorsD)
  moreover have "same_account a (unlocked_as a key)" using key by (simp add: same_account_def unlocked_as_def)
  ultimately show "shows_accounts (ew_accounts (w\<lparr>ew_accounts := ew_accounts w @ [a], ew_activeAccountId := Some (ea_id a)\<rparr>))
      (push_active (unlocked_as a key) u) \<and> shows_active (ea_id a) (push_active (unlocked_as a key) u)"
    by (simp add: shows_accounts_def push_active_def list_all2_appendI shows_active_def unlocked_as_def)
qed

text \<open>New ids are not in use.\<close>

definition fresh :: "wallet_store \<Rightarrow> network \<Rightarrow> wallet_env \<Rightarrow> bool" where
  "fresh st n env \<longleftrightarrow> env_ok env \<and>
     (\<forall>w kind. holds st n w \<longrightarrow> createWalletAccountId env kind \<notin> ea_id ` set (ew_accounts w))"

lemma new_account_fields [simp]:
  "ea_id (new_account env kind name accounts address path key) = createWalletAccountId env kind"
  "ea_address (new_account env kind name accounts address path key) = address"
  "ea_kind (new_account env kind name accounts address path key) = kind"
  by (simp_all add: new_account_def)

lemma createDerived_ok:
  assumes ok: "store_ok st" and lib: "lib_ok lib" and env: "fresh st n env"
  shows "store_ok (snd (createDerivedWalletAccount lib env name (Some n) st))"
proof (rule load_store_ok [OF ok, of lib env n])
  fix w assume l: "loadWalletFile lib env (Some n) st = (Some w, st)" and w: "holds st n w"
  have "store_ok (snd (add_account env (new_account env Derived name (ew_accounts w) address (Some path) None)
        (Some wif) w (Some n) st))"
    if "wl_derive lib seed path = Some (address, wif)" "\<not> list_ex (has_address address) (ew_accounts w)"
      "normal_text path" for seed path address wif
    using that env w lib_okD(2) [OF lib that(1)]
    by (intro add_account_ok [OF ok w] new_account_ok) (auto simp: fresh_def)
  then show ?thesis using ok l path_normal
    by (auto simp: createDerivedWalletAccount_def Let_def split: option.splits prod.splits)
qed (use ok in \<open>simp add: createDerivedWalletAccount_def\<close>)

lemma importWatch_ok:
  assumes ok: "store_ok st" and env: "fresh st n env"
  shows "store_ok (snd (importWatchWalletAccount lib env address name (Some n) st))"
proof (rule load_store_ok [OF ok, of lib env n])
  fix w assume l: "loadWalletFile lib env (Some n) st = (Some w, st)" and w: "holds st n w"
  have "store_ok (snd (add_account env (new_account env WatchOnly name (ew_accounts w) (js_trim address) None None)
        None w (Some n) st))"
    if "js_trim address \<noteq> []" "\<not> list_ex (has_address (js_trim address)) (ew_accounts w)"
    using that env w trimmed_normal [OF that(1)]
    by (intro add_account_ok [OF ok w] new_account_ok) (auto simp: fresh_def)
  then show ?thesis using ok l by (auto simp: importWatchWalletAccount_def)
qed (use ok in \<open>simp add: importWatchWalletAccount_def\<close>)

section \<open>Changing an account in place\<close>

lemma js_find_index_SomeD:
  "js_find_index P xs = Some i \<Longrightarrow> i < length xs \<and> P (xs ! i) \<and> (\<forall>j < i. \<not> P (xs ! j))"
proof (induction xs arbitrary: i)
  case (Cons x xs)
  show ?case
  proof (cases "P x")
    case False
    with Cons.prems obtain k where "js_find_index P xs = Some k" "i = Suc k" by auto
    with Cons.IH [of k] False show ?thesis by (auto simp: less_Suc_eq_0_disj)
  qed (use Cons.prems in auto)
qed simp

lemma js_find_index_iff:
  "js_find_index P xs = Some i \<longleftrightarrow> i < length xs \<and> P (xs ! i) \<and> (\<forall>j < i. \<not> P (xs ! j))"
proof
  show "js_find_index P xs = Some i" if "i < length xs \<and> P (xs ! i) \<and> (\<forall>j < i. \<not> P (xs ! j))"
    using that
  proof (induction xs arbitrary: i)
    case (Cons x xs)
    then show ?case by (cases i) fastforce+
  qed simp
qed (rule js_find_index_SomeD)

lemma accounts_ok_update:
  assumes "accounts_ok as" "i < length as" "account_ok a" "ea_id a = ea_id (as ! i)" "ea_address a = ea_address (as ! i)"
  shows "accounts_ok (as[i := a])"
proof -
  have "map ea_id (as[i := a]) = map ea_id as" "map (\<lambda>a. js_lower (ea_address a)) (as[i := a]) = map (\<lambda>a. js_lower (ea_address a)) as"
    using assms(2,4,5) by (simp_all add: map_update list_update_same_conv)
  with assms(1,3) show ?thesis using set_update_subset_insert [of as i a] by (auto simp: accounts_ok_def)
qed

text \<open>In the session the changed account is at the place it has in the file.\<close>

lemma shown_index:
  assumes "list_all2 same_account as bs" "accounts_ok as" "i < length as"
  shows "js_find_index (\<lambda>e. ua_id e = ea_id (as ! i)) bs = Some i"
    and "js_find_index (\<lambda>e. ua_id e = ea_id (as ! i) \<or> js_lower (ua_address e) = js_lower (ea_address (as ! i))) bs = Some i"
proof -
  have len: "length bs = length as" and same: "\<And>j. j < length as \<Longrightarrow> same_account (as ! j) (bs ! j)"
    using assms(1) by (auto simp: list_all2_conv_all_nth)
  have "ea_id (as ! j) \<noteq> ea_id (as ! i) \<and> js_lower (ea_address (as ! j)) \<noteq> js_lower (ea_address (as ! i))" if "j < i" for j
    using assms(2,3) that by (auto simp: accounts_ok_def distinct_conv_nth)
  then have "ua_id (bs ! j) \<noteq> ea_id (as ! i) \<and> js_lower (ua_address (bs ! j)) \<noteq> js_lower (ea_address (as ! i))" if "j < i" for j
    using that same [of j] assms(3) by (auto simp: same_account_def)
  then show "js_find_index (\<lambda>e. ua_id e = ea_id (as ! i)) bs = Some i"
    and "js_find_index (\<lambda>e. ua_id e = ea_id (as ! i) \<or> js_lower (ua_address e) = js_lower (ea_address (as ! i))) bs = Some i"
    using same [OF assms(3)] len assms(3) by (auto simp: js_find_index_iff same_account_def)
qed

lemma upgrade_ok:
  assumes ok: "store_ok st" and w: "holds st n w" and env: "env_ok env" and i: "i < length (ew_accounts w)"
    and a: "a = upgraded_account lib env privateKey password name (ew_accounts w ! i)"
  shows "store_ok (on_session (Some n) (put_active (unlocked_as a (Some privateKey)))
    (writeWalletFile env (w\<lparr>ew_accounts := (ew_accounts w)[i := a], ew_activeAccountId := Some (ea_id a)\<rparr>) (Some n) st))"
proof (rule write_step [OF ok w _ env])
  let ?e = "ew_accounts w ! i"
  have accts: "accounts_ok (ew_accounts w)" by (rule holds_accounts [OF w])
  have e: "account_ok ?e" using accts i account_okD(1) by simp
  then have "account_ok a"
    using env sanitized_name_normal [of "ea_name ?e" name] by (auto simp: a upgraded_account_def account_ok_def env_ok_def)
  moreover have id: "ea_id a = ea_id ?e" "ea_address a = ea_address ?e" "ea_kind a \<noteq> WatchOnly"
    by (simp_all add: a upgraded_account_def)
  ultimately show "ready (w\<lparr>ew_accounts := (ew_accounts w)[i := a], ew_activeAccountId := Some (ea_id a)\<rparr>) (ea_id a)"
    using w accounts_ok_update [OF accts i] imageI [OF set_update_memI [OF i, of a], of ea_id]
    by (auto simp: ready_def holds_def wallet_ok_def)
  fix u assume "mirrors w u"
  then obtain k where m: "list_all2 same_account (ew_accounts w) (uw_accounts u)" by (rule mirrorsD)
  let ?b = "unlocked_as a (Some privateKey)"
  have len: "i < length (uw_accounts u)" using m i by (simp add: list_all2_lengthD)
  have "same_account a ?b" using id(3) by (simp add: same_account_def unlocked_as_def)
  with m have "list_all2 same_account ((ew_accounts w)[i := a]) ((uw_accounts u)[i := ?b])"
    by (rule list_all2_update_cong)
  moreover have "replace_or_push (\<lambda>e. ua_id e = ua_id ?b \<or> js_lower (ua_address e) = js_lower (ua_address ?b)) ?b (uw_accounts u)
      = (uw_accounts u)[i := ?b]"
    using shown_index(2) [OF m accts i] id by (simp add: replace_or_push_def unlocked_as_def)
  ultimately show "shows_accounts (ew_accounts (w\<lparr>ew_accounts := (ew_accounts w)[i := a], ew_activeAccountId := Some (ea_id a)\<rparr>))
      (put_active ?b u) \<and> shows_active (ea_id a) (put_active ?b u)"
    using set_update_memI [OF len, of ?b]
    by (auto simp: shows_accounts_def put_active_def shows_active_def unlocked_as_def intro!: bexI [of _ ?b])
qed

lemma rename_in_index:
  assumes "accounts_ok as" "i < length as"
  shows "rename_in (ea_id (as ! i)) name now as = as[i := (as ! i)\<lparr>ea_name := name, ea_updatedAt := now\<rparr>]"
proof -
  have "ea_id (as ! j) \<noteq> ea_id (as ! i)" if "j < i" for j
    using assms that by (auto simp: accounts_ok_def distinct_conv_nth)
  then have "js_find_index (\<lambda>a. ea_id a = ea_id (as ! i)) as = Some i" using assms(2) by (simp add: js_find_index_iff)
  then show ?thesis by (simp add: rename_in_def)
qed

lemma rename_ok:
  assumes ok: "store_ok st" and w: "holds st n w" and env: "env_ok env" and i: "i < length (ew_accounts w)"
    and name: "js_trim name \<noteq> []"
  shows "store_ok (on_session (Some n) (rename_session (ea_id (ew_accounts w ! i)) (js_trim name))
    (writeWalletFile env (w\<lparr>ew_accounts := rename_in (ea_id (ew_accounts w ! i)) (js_trim name) (we_now env) (ew_accounts w)\<rparr>)
      (Some n) st))"
proof -
  let ?e = "ew_accounts w ! i"
  let ?a = "?e\<lparr>ea_name := js_trim name, ea_updatedAt := we_now env\<rparr>"
  have accts: "accounts_ok (ew_accounts w)" by (rule holds_accounts [OF w])
  have e: "account_ok ?e" using accts i account_okD(1) by simp
  then have "account_ok ?a" using env trimmed_normal [OF name] by (simp add: account_ok_def env_ok_def)
  then have accts': "accounts_ok ((ew_accounts w)[i := ?a])" by (intro accounts_ok_update [OF accts i]) simp_all
  have "map ea_id ((ew_accounts w)[i := ?a]) = map ea_id (ew_accounts w)"
    using i by (simp add: map_update list_update_same_conv)
  then have ids: "ea_id ` set ((ew_accounts w)[i := ?a]) = ea_id ` set (ew_accounts w)"
    by (metis set_map)
  obtain k where k: "ew_activeAccountId w = Some k" "k \<in> ea_id ` set (ew_accounts w)"
    using w by (auto simp: holds_def wallet_ok_def)
  show ?thesis unfolding rename_in_index [OF accts i]
  proof (rule write_step [OF ok w _ env])
    show "ready (w\<lparr>ew_accounts := (ew_accounts w)[i := ?a]\<rparr>) k"
      using w k accts' ids by (auto simp: ready_def holds_def wallet_ok_def)
    fix u assume "mirrors w u"
    then obtain k' where m: "list_all2 same_account (ew_accounts w) (uw_accounts u)" "ew_activeAccountId w = Some k'"
      "shows_active k' u" by (rule mirrorsD)
    with k have act: "shows_active k u" by simp
    let ?b = "(uw_accounts u ! i)\<lparr>ua_name := js_trim name\<rparr>"
    have len: "i < length (uw_accounts u)" using m i by (simp add: list_all2_lengthD)
    have same: "same_account ?e (uw_accounts u ! i)" using m i by (simp add: list_all2_nthD)
    then have "same_account ?a ?b" by (simp add: same_account_def)
    with m(1) have "list_all2 same_account ((ew_accounts w)[i := ?a]) ((uw_accounts u)[i := ?b])"
      by (rule list_all2_update_cong)
    moreover note idx = shown_index(1) [OF m(1) accts i]
    from idx have accs: "uw_accounts (rename_session (ea_id ?e) (js_trim name) u) = (uw_accounts u)[i := ?b]"
      by (simp add: rename_session_def)
    moreover have "shows_active k (rename_session (ea_id ?e) (js_trim name) u)"
    proof -
      from act obtain b where b: "b \<in> set (uw_accounts u)" "ua_id b = k" "uw_activeAccountId u = Some k"
        "uw_address u = ua_address b" "uw_privateKey u = ua_privateKey b" "uw_seedDerivationPath u = ua_derivationPath b"
        "uw_accountName u = Some (ua_name b)" "uw_accountKind u = Some (ua_kind b)"
        by (auto simp: shows_active_def)
      have dist: "distinct (map ua_id (uw_accounts u))" using shown_ids [OF m(1)] accts by (simp add: accounts_ok_def)
      from b(1) obtain j where j: "j < length (uw_accounts u)" "uw_accounts u ! j = b" by (metis in_set_conv_nth)
      show ?thesis
      proof (cases "j = i")
        case True
        with j b same set_update_memI [OF len, of ?b] show ?thesis
          by (auto simp: shows_active_def rename_session_def idx same_account_def intro!: bexI [of _ ?b])
      next
        case False
        then have "ua_id b \<noteq> ea_id ?e"
          using nth_eq_iff_index_eq [OF dist, of j i] j len same by (simp add: same_account_def)
        moreover have "b \<in> set ((uw_accounts u)[i := ?b])"
          using j False by (metis length_list_update nth_list_update_neq nth_mem)
        ultimately show ?thesis using b
          by (auto simp: shows_active_def rename_session_def idx intro!: bexI [of _ b])
      qed
    qed
    ultimately show "shows_accounts (ew_accounts (w\<lparr>ew_accounts := (ew_accounts w)[i := ?a]\<rparr>))
        (rename_session (ea_id ?e) (js_trim name) u) \<and> shows_active k (rename_session (ea_id ?e) (js_trim name) u)"
      by (simp add: shows_accounts_def accs)
  qed
qed

end
