(* ===== verification/WalletSteps.thy ===== *)
theory WalletSteps
  imports WalletInvariant
begin

text \<open>
  The remaining operations of electron/lib/teleno-storage.ts keep the store invariant of
  WalletInvariant: renaming, removing, importing a key, saving, unlocking, closing and deleting.
  They are the rules of \<open>wallet_step\<close>, and the properties of the wallet store hold after every
  sequence of steps from the empty store.
\<close>

section \<open>Renaming and removing\<close>

lemma rename_account_ok:
  assumes ok: "store_ok st" and env: "env_ok env"
  shows "store_ok (snd (renameWalletAccount lib env accountId name (Some n) st))"
proof (rule load_store_ok [OF ok, of lib env n])
  fix w assume l: "loadWalletFile lib env (Some n) st = (Some w, st)" and w: "holds st n w"
  show ?thesis
  proof (cases "findWalletAccount (Some w) (Some accountId)")
    case (Some a)
    then obtain i where i: "i < length (ew_accounts w)" "ew_accounts w ! i = a"
      by (metis findWalletAccount_in in_set_conv_nth)
    show ?thesis using ok l Some rename_ok [OF ok w env i(1), of name]
      by (simp add: renameWalletAccount_def i(2))
  qed (use ok l in \<open>simp add: renameWalletAccount_def\<close>)
qed (use ok in \<open>simp add: renameWalletAccount_def\<close>)

lemma filter_other:
  assumes "distinct (map f xs)" "1 < length xs" shows "filter (\<lambda>x. f x \<noteq> k) xs \<noteq> []"
proof -
  from assms(2) obtain x y ys where "xs = x # y # ys" by (metis One_nat_def Suc_le_length_iff Suc_leI)
  with assms(1) show ?thesis by auto
qed

lemma accounts_ok_filter: "accounts_ok as \<Longrightarrow> accounts_ok (filter P as)"
  by (simp add: accounts_ok_def distinct_map_filter)

lemma shown_filter:
  "list_all2 same_account as bs \<Longrightarrow>
   list_all2 same_account (filter (\<lambda>a. ea_id a \<noteq> k) as) (filter (\<lambda>b. ua_id b \<noteq> k) bs)"
  by (induction rule: list_all2_induct) (auto simp: same_account_def)

lemma without_account_accounts [simp]:
  "ew_accounts (without_account k w) = filter (\<lambda>a. ea_id a \<noteq> k) (ew_accounts w)"
  by (simp add: without_account_def Let_def)

text \<open>The wallet without an account has an active account among the others.\<close>

lemma without_account_active:
  assumes "accounts_ok (ew_accounts w)" "filter (\<lambda>a. ea_id a \<noteq> k) (ew_accounts w) \<noteq> []"
  obtains a where "a \<in> set (ew_accounts w)" "ea_id a \<noteq> k" "ew_activeAccountId (without_account k w) = Some (ea_id a)"
proof (cases "list_ex (\<lambda>a. Some (ea_id a) = ew_activeAccountId w) (filter (\<lambda>a. ea_id a \<noteq> k) (ew_accounts w))")
  case True
  then show ?thesis using that by (auto simp: without_account_def Let_def list_ex_iff)
next
  case False
  obtain a as where a: "filter (\<lambda>a. ea_id a \<noteq> k) (ew_accounts w) = a # as" using assms(2) by (meson list.exhaust)
  then have "a \<in> set (filter (\<lambda>a. ea_id a \<noteq> k) (ew_accounts w))" by simp
  then have m: "a \<in> set (ew_accounts w)" "ea_id a \<noteq> k" by simp_all
  moreover from False a have "ew_activeAccountId (without_account k w) = some_text (ea_id a)"
    by (simp add: without_account_def Let_def)
  ultimately show ?thesis using that stored_texts(1) [OF assms(1)] by (simp add: normal_some_text)
qed

lemma ready_without:
  assumes w: "wallet_ok w" and a: "a \<in> set (ew_accounts w)" "ea_id a \<noteq> k"
    "ew_activeAccountId (without_account k w) = Some (ea_id a)"
  shows "ready (without_account k w) (ea_id a)"
  using w a accounts_ok_filter by (auto simp: ready_def wallet_ok_def without_account_def Let_def)

lemma remove_ok:
  assumes ok: "store_ok st" and w: "holds st n w" and env: "env_ok env"
    and others: "filter (\<lambda>a. ea_id a \<noteq> k) (ew_accounts w) \<noteq> []"
  shows "store_ok (on_session (Some n) (remove_session k (without_account k w))
    (writeWalletFile env (without_account k w) (Some n) st))"
proof -
  have accts: "accounts_ok (ew_accounts w)" by (rule holds_accounts [OF w])
  obtain a where a: "a \<in> set (ew_accounts w)" "ea_id a \<noteq> k" "ew_activeAccountId (without_account k w) = Some (ea_id a)"
    using without_account_active [OF accts others] .
  have acts: "accounts_ok (filter (\<lambda>a. ea_id a \<noteq> k) (ew_accounts w))" by (rule accounts_ok_filter [OF accts])
  have mem: "a \<in> set (filter (\<lambda>a. ea_id a \<noteq> k) (ew_accounts w))" using a by simp
  show ?thesis
  proof (rule write_step [OF ok w _ env])
    show "ready (without_account k w) (ea_id a)" using ready_without [OF _ a] w by (simp add: holds_def)
    fix u assume "mirrors w u"
    then obtain i where m: "list_all2 same_account (ew_accounts w) (uw_accounts u)" by (rule mirrorsD)
    note f = shown_filter [OF m, of k]
    obtain b where b: "b \<in> set (filter (\<lambda>b. ua_id b \<noteq> k) (uw_accounts u))" "same_account a b"
      "find (\<lambda>e. ua_id e = ea_id a) (filter (\<lambda>b. ua_id b \<noteq> k) (uw_accounts u)) = Some b"
      using find_shown [OF f acts mem] .
    let ?u = "u\<lparr>uw_accounts := filter (\<lambda>b. ua_id b \<noteq> k) (uw_accounts u)\<rparr>"
    have r: "remove_session k (without_account k w) u = with_active (Some b) (ew_address (without_account k w)) ?u"
      using b(3) by (simp add: remove_session_def Let_def a(3))
    have "b \<in> set (uw_accounts ?u)" using b(1) by simp
    from shows_active_with [OF this] have "shows_active (ua_id b) (remove_session k (without_account k w) u)"
      unfolding r using same_texts [OF b(2) account_okD(1) [OF accts a(1)]] by blast
    then show "shows_accounts (ew_accounts (without_account k w)) (remove_session k (without_account k w) u) \<and>
        shows_active (ea_id a) (remove_session k (without_account k w) u)"
      using f b(2) by (simp add: r shows_accounts_def same_account_def)
  qed
qed

lemma remove_account_ok:
  assumes ok: "store_ok st" and env: "env_ok env"
  shows "store_ok (snd (removeWalletAccount lib env accountId (Some n) st))"
proof (rule load_store_ok [OF ok, of lib env n])
  fix w assume l: "loadWalletFile lib env (Some n) st = (Some w, st)" and w: "holds st n w"
  have "filter (\<lambda>a. ea_id a \<noteq> accountId) (ew_accounts w) \<noteq> []" if "\<not> length (ew_accounts w) \<le> 1"
    using filter_other [of ea_id "ew_accounts w"] holds_accounts [OF w] that by (auto simp: accounts_ok_def)
  with ok l remove_ok [OF ok w env] show ?thesis by (auto simp: removeWalletAccount_def)
qed (use ok in \<open>simp add: removeWalletAccount_def\<close>)

section \<open>Saving and unlocking\<close>

lemma decrypt_encrypt [simp]:
  "lib_ok lib \<Longrightarrow> decryptTelenoWalletSecret lib (encryptTelenoWalletSecret lib r v pw) pw = Some v"
  using lib_okD(1) [of lib r v pw]
  by (auto simp: decryptTelenoWalletSecret_def encryptTelenoWalletSecret_def split: prod.splits)

lemma first_wallet_ok:
  assumes "env_ok env" "normal_text address"
  shows "wallet_ok (first_wallet lib env key address pw seed path)"
proof -
  have names: "normal_text ''Account 1''" "normal_text ''Imported Account 1''" by code_simp+
  have "normal_text (opt_trim path)" if "opt_trim path \<noteq> []"
    using that trimmed_normal by (auto simp: opt_trim_def split: option.splits)
  then show ?thesis
    using assms names created_id_normal path_normal
    by (auto simp: first_wallet_def Let_def wallet_ok_def accounts_ok_def account_ok_def env_ok_def)
qed

text \<open>Opening the wallet that was saved gives back what was sealed.\<close>

lemma unlock_first_wallet:
  assumes lib: "lib_ok lib" and w: "wallet_ok w" and acts: "ew_accounts w = ew_accounts (first_wallet lib env key address pw seed path)"
    and sd: "ew_encryptedSeedPhrase w = ew_encryptedSeedPhrase (first_wallet lib env key address pw seed path)"
  obtains u where "unlockedWalletFromFile lib w pw = Inr u" "uw_privateKey u = Some key"
    "uw_seedPhrase u = some_text (opt_trim seed)" "uw_address u = address" "mirrors w u"
proof -
  obtain a where a: "ew_accounts w = [a]" "ea_kind a \<noteq> WatchOnly" "ea_address a = address"
    "ea_encryptedKey a = Some (encryptTelenoWalletSecret lib (we_salt env) key pw)"
    using acts by (simp add: first_wallet_def Let_def)
  have seed: "(case ew_encryptedSeedPhrase w of None \<Rightarrow> Inr None | Some secret \<Rightarrow>
      (case decryptTelenoWalletSecret lib secret pw of None \<Rightarrow> Inl DecryptFailed | Some s \<Rightarrow> Inr (Some s)))
      = Inr (some_text (opt_trim seed))"
    using lib by (simp add: sd first_wallet_def Let_def some_text_def)
  have key: "account_key lib sp pw a = Inr (Some key)" for sp
    using a lib by (simp add: account_key_def)
  let ?u = "session_of w (some_text (opt_trim seed)) [unlocked_as a (Some key)]"
  have u: "unlockedWalletFromFile lib w pw = Inr ?u"
    unfolding unlockedWalletFromFile_def Let_def seed by (simp add: a(1) key)
  moreover have "wallet_ok w \<Longrightarrow> ew_activeAccountId w = Some (ea_id a) \<and> normal_text address"
    using a(1,3) by (auto simp: wallet_ok_def accounts_ok_def account_ok_def)
  ultimately show ?thesis using that [OF u] w unlocked_mirrors [OF w u]
    by (simp add: session_of_def session_account_def Let_def unlocked_as_def a(3) normal_js_or)
qed

lemma sync_first_wallet:
  assumes "env_ok env" "normal_text address"
    and w_def: "w = syncWalletCompatibilityFields env (first_wallet lib env key address pw seed path)"
  shows "wallet_ok w" "ew_accounts w = ew_accounts (first_wallet lib env key address pw seed path)"
    "ew_encryptedSeedPhrase w = ew_encryptedSeedPhrase (first_wallet lib env key address pw seed path)"
    "ew_activeAccountId w = ew_activeAccountId (first_wallet lib env key address pw seed path)"
proof -
  note r = wallet_ok_ready [OF first_wallet_ok [OF assms(1,2)], of lib key pw seed path]
  show "wallet_ok w" "ew_accounts w = ew_accounts (first_wallet lib env key address pw seed path)"
    using sync_ready(1,2) [OF r assms(1)] by (simp_all add: w_def)
  show "ew_activeAccountId w = ew_activeAccountId (first_wallet lib env key address pw seed path)"
    using sync_ready(3) [OF r assms(1)] by (simp add: w_def) (simp add: first_wallet_def Let_def)
  show "ew_encryptedSeedPhrase w = ew_encryptedSeedPhrase (first_wallet lib env key address pw seed path)"
    by (simp add: w_def syncWalletCompatibilityFields_def Let_def)
qed

lemma new_session_ok:
  assumes "\<And>m. ws_files st (Some m) = Missing \<or> (\<exists>v. holds st m v)" "holds st n w" "mirrors w u"
  shows "store_ok (st\<lparr>ws_unlocked := Some u, ws_unlockedNetwork := Some n\<rparr>)"
  using assms by (auto simp: store_ok_def holds_def)

text \<open>Saving always opens a session: what has just been sealed is opened by its password.\<close>

lemma save_store:
  assumes "lib_ok lib" "env_ok env" "normal_text address"
  obtains u where "saveWallet lib env key address pw seed path net st =
      (Inr (), (writeWalletFile env (first_wallet lib env key address pw seed path) net st)
        \<lparr>ws_unlocked := Some u, ws_unlockedNetwork := net\<rparr>)"
    "mirrors (first_wallet lib env key address pw seed path) u"
  using unlock_first_wallet [OF assms(1) first_wallet_ok [OF assms(2,3)] refl refl]
  by (metis (no_types, lifting) saveWallet_def sum.simps(6))

lemma save_ok:
  assumes ok: "store_ok st" and lib: "lib_ok lib" and env: "env_ok env" and address: "normal_text address"
  shows "store_ok (snd (saveWallet lib env key address pw seed path (Some n) st))"
proof -
  let ?p = "first_wallet lib env key address pw seed path"
  let ?st = "writeWalletFile env ?p (Some n) st"
  obtain u where u: "saveWallet lib env key address pw seed path (Some n) st =
      (Inr (), ?st\<lparr>ws_unlocked := Some u, ws_unlockedNetwork := Some n\<rparr>)" "mirrors ?p u"
    using save_store [OF lib env address] .
  note s = sync_first_wallet [OF env address refl, of lib key pw seed path]
  have h: "holds ?st n (syncWalletCompatibilityFields env ?p)" using s(1) by (simp add: holds_def writeWalletFile_def)
  have "mirrors (syncWalletCompatibilityFields env ?p) u" using u(2) by (simp add: mirrors_def s)
  moreover have "ws_files ?st (Some m) = Missing \<or> (\<exists>v. holds ?st m v)" for m
    using ok h by (cases "m = n") (auto simp: store_ok_def holds_def writeWalletFile_def)
  ultimately show ?thesis using u(1) new_session_ok [OF _ h] by simp
qed

lemma unlock_ok:
  assumes ok: "store_ok st"
  shows "store_ok (snd (unlockWalletSession lib env pw (Some n) st))"
proof (rule load_store_ok [OF ok, of lib env n])
  fix w assume l: "loadWalletFile lib env (Some n) st = (Some w, st)" and w: "holds st n w"
  have "store_ok (st\<lparr>ws_unlocked := Some u, ws_unlockedNetwork := Some n\<rparr>)" if "unlockedWalletFromFile lib w pw = Inr u" for u
    using ok w unlocked_mirrors [OF _ that] by (intro new_session_ok) (auto simp: store_ok_def holds_def)
  with ok l show ?thesis by (auto simp: unlockWalletSession_def loadWallet_def split: sum.splits option.splits)
qed (use ok in \<open>simp add: unlockWalletSession_def loadWallet_def\<close>)

section \<open>Closing and deleting\<close>

lemma clear_session_ok: "store_ok st \<Longrightarrow> store_ok (clear_session net st)"
  by (auto simp: store_ok_def clear_session_def holds_def)

lemma close_ok:
  assumes ok: "store_ok st"
  shows "store_ok (snd (closeWalletSession lib env (Some n) st))"
  using clear_session_ok [OF ok]
  by (rule_tac load_store_ok [OF ok, of lib env n]) (auto simp: closeWalletSession_def split: option.splits)

lemma delete_ok:
  assumes ok: "store_ok st" shows "store_ok (snd (deleteWallet (Some n) st))"
proof (cases "ws_unlocked st = None \<or> ws_unlockedNetwork st = Some n")
  case True
  with ok show ?thesis
    by (auto simp: store_ok_def deleteWallet_def clear_session_def clearProducerProfile_def holds_def)
next
  case False
  with ok obtain m w u where "ws_unlockedNetwork st = Some m" "ws_unlocked st = Some u" "holds st m w" "mirrors w u" "m \<noteq> n"
    by (auto simp: store_ok_def)
  with ok show ?thesis
    by (auto simp: store_ok_def deleteWallet_def clear_session_def clearProducerProfile_def holds_def
        intro!: exI [of _ w])
qed

section \<open>Importing a key\<close>

lemma js_find_index_NoneD: "js_find_index P xs = None \<Longrightarrow> \<not> list_ex P xs"
  by (induction xs) (auto split: if_splits)

lemma list_store: "store_ok st \<Longrightarrow> snd (listWalletAccounts lib env (Some n) st) = st"
  by (rule load_store_ok [of st lib env n]) (simp_all add: listWalletAccounts_def)

lemma import_key_ok:
  assumes ok: "store_ok st" and lib: "lib_ok lib" and env: "fresh st n env"
  shows "store_ok (snd (importWalletAccount lib env privateKey pw name (Some n) st))"
proof (cases "wl_wif_address lib privateKey")
  case (Some address)
  have address: "normal_text address" by (rule lib_okD(3) [OF lib Some])
  have env': "env_ok env" using env by (simp add: fresh_def)
  show ?thesis
  proof (rule load_store_ok [OF ok, of lib env n])
    assume l: "loadWalletFile lib env (Some n) st = (None, st)"
    note s = save_ok [OF ok lib env' address, of privateKey pw None None n]
    obtain st2 where st2: "saveWallet lib env privateKey address pw None None (Some n) st = (Inr (), st2)"
      using save_store [OF lib env' address] by metis
    from s st2 have ok2: "store_ok st2" by simp
    obtain xs where xs: "listWalletAccounts lib env (Some n) st2 = (xs, st2)"
      using list_store [OF ok2, of lib env n] by (metis prod.collapse)
    show ?thesis using ok2 by (simp add: importWalletAccount_def Some l st2 xs)
  next
    fix w assume l: "loadWalletFile lib env (Some n) st = (Some w, st)" and w: "holds st n w"
    show ?thesis
    proof (cases "js_find_index (has_address address) (ew_accounts w)")
      case None
      then have new: "\<not> list_ex (has_address address) (ew_accounts w)" by (rule js_find_index_NoneD)
      show ?thesis unfolding importWalletAccount_def Some l None option.case prod.case Let_def snd_conv
        using env env' new w address by (intro add_account_ok [OF ok w] new_account_ok) (auto simp: fresh_def)
    next
      case (Some i)
      then have i: "i < length (ew_accounts w)" by (auto dest: js_find_index_SomeD)
      show ?thesis
        using ok upgrade_ok [OF ok w env' i refl]
        by (simp add: importWalletAccount_def \<open>wl_wif_address lib privateKey = Some address\<close> l Some Let_def)
    qed
  qed
qed (use ok in \<open>simp add: importWalletAccount_def\<close>)

section \<open>Steps\<close>

text \<open>One call of an operation with the network \<open>n\<close>. Operations that only read are left out except
  those that load the wallet file, which may write a migrated one.\<close>

inductive wallet_step :: "wallet_lib \<Rightarrow> network \<Rightarrow> wallet_store \<Rightarrow> wallet_store \<Rightarrow> bool" for lib n where
  saved: "env_ok env \<Longrightarrow> normal_text address \<Longrightarrow>
    wallet_step lib n st (snd (saveWallet lib env key address pw seed path (Some n) st))"
| unlocked: "wallet_step lib n st (snd (unlockWalletSession lib env pw (Some n) st))"
| closed: "wallet_step lib n st (snd (closeWalletSession lib env (Some n) st))"
| deleted: "wallet_step lib n st (snd (deleteWallet (Some n) st))"
| listed: "wallet_step lib n st (snd (listWalletAccounts lib env (Some n) st))"
| queried: "wallet_step lib n st (snd (resolveWalletQueryAddress lib env address account (Some n) st))"
| revealed: "wallet_step lib n st (snd (loadWalletAccountSecrets lib env account (Some n) st))"
| activated: "env_ok env \<Longrightarrow> wallet_step lib n st (snd (setActiveWalletAccount lib env i (Some n) st))"
| derived: "fresh st n env \<Longrightarrow> wallet_step lib n st (snd (createDerivedWalletAccount lib env name (Some n) st))"
| watched: "fresh st n env \<Longrightarrow>
    wallet_step lib n st (snd (importWatchWalletAccount lib env given name (Some n) st))"
| imported: "fresh st n env \<Longrightarrow>
    wallet_step lib n st (snd (importWalletAccount lib env key pw name (Some n) st))"
| renamed: "env_ok env \<Longrightarrow> wallet_step lib n st (snd (renameWalletAccount lib env i text (Some n) st))"
| removed: "env_ok env \<Longrightarrow> wallet_step lib n st (snd (removeWalletAccount lib env i (Some n) st))"
| profile_saved: "wallet_step lib n st (saveProducerProfile p (Some n) st)"
| profile_cleared: "wallet_step lib n st (snd (clearProducerProfile (Some n) st))"

inductive wallet_reachable :: "wallet_lib \<Rightarrow> wallet_store \<Rightarrow> bool" for lib where
  start: "wallet_reachable lib empty_store"
| step: "wallet_reachable lib st \<Longrightarrow> wallet_step lib n st st' \<Longrightarrow> wallet_reachable lib st'"

lemma load_keeps: "store_ok st \<Longrightarrow> snd (loadWalletFile lib env (Some n) st) = st"
  by (rule load_store_ok [of st lib env n]) simp_all

lemma query_store: "store_ok st \<Longrightarrow> snd (resolveWalletQueryAddress lib env address account (Some n) st) = st"
  by (simp add: resolveWalletQueryAddress_def Let_def load_keeps)

lemma reveal_store: "store_ok st \<Longrightarrow> snd (loadWalletAccountSecrets lib env account (Some n) st) = st"
  using load_keeps [of st lib env n]
  by (cases "loadWalletFile lib env (Some n) st") (simp add: loadWalletAccountSecrets_def Let_def)

lemma profiles_ok:
  assumes "store_ok st" "ws_files st' = ws_files st" "ws_unlocked st' = ws_unlocked st"
    "ws_unlockedNetwork st' = ws_unlockedNetwork st"
  shows "store_ok st'"
  using assms by (simp add: store_ok_def holds_def)

theorem step_ok: "wallet_step lib n st st' \<Longrightarrow> lib_ok lib \<Longrightarrow> store_ok st \<Longrightarrow> store_ok st'"
proof (induction rule: wallet_step.induct)
  case (profile_saved st p)
  then show ?case by (rule_tac profiles_ok [of st]) (simp_all add: saveProducerProfile_def Let_def)
next
  case (profile_cleared st)
  then show ?case by (rule_tac profiles_ok [of st]) (simp_all add: clearProducerProfile_def)
qed (simp_all add: save_ok unlock_ok close_ok delete_ok list_store query_store reveal_store setActive_ok
    createDerived_ok importWatch_ok import_key_ok rename_account_ok remove_account_ok)

lemma reachable_ok: "wallet_reachable lib st \<Longrightarrow> lib_ok lib \<Longrightarrow> store_ok st"
  by (induction rule: wallet_reachable.induct) (auto intro: store_ok_empty step_ok)

section \<open>Other networks\<close>

text \<open>What an operation for one network leaves alone: the files of the other networks, and their
  session unless it is replaced.\<close>

definition apart :: "network \<Rightarrow> wallet_store \<Rightarrow> wallet_store \<Rightarrow> bool" where
  "apart m st st' \<longleftrightarrow>
     ws_files st' (Some m) = ws_files st (Some m) \<and> ws_profiles st' (Some m) = ws_profiles st (Some m) \<and>
     (getUnlockedWalletForNetwork (Some m) st' = None \<or>
      getUnlockedWalletForNetwork (Some m) st' = getUnlockedWalletForNetwork (Some m) st)"

lemma apart_refl [simp]: "apart m st st"
  by (simp add: apart_def)

lemma apart_trans: "apart m a b \<Longrightarrow> apart m b c \<Longrightarrow> apart m a c"
  by (auto simp: apart_def)

lemma apart_write [simp]: "m \<noteq> n \<Longrightarrow> apart m st (writeWalletFile env w (Some n) st)"
  by (simp add: apart_def writeWalletFile_def getUnlockedWalletForNetwork_def)

lemma apart_load: "m \<noteq> n \<Longrightarrow> apart m st (snd (loadWalletFile lib env (Some n) st))"
  by (simp add: loadWalletFile_def split: stored_file.splits option.splits)

lemma apart_session [simp]: "m \<noteq> n \<Longrightarrow> apart m st (on_session (Some n) f st)"
  by (auto simp: apart_def on_session_def getUnlockedWalletForNetwork_def split: option.splits)

lemma apart_open [simp]:
  "m \<noteq> n \<Longrightarrow> apart m st (st\<lparr>ws_unlocked := Some u, ws_unlockedNetwork := Some n\<rparr>)"
  by (simp add: apart_def getUnlockedWalletForNetwork_def)

lemma apart_change [simp]: "m \<noteq> n \<Longrightarrow> apart m st (on_session (Some n) f (writeWalletFile env w (Some n) st))"
  by (rule apart_trans [OF apart_write apart_session])

lemma apart_loaded:
  "loadWalletFile lib env (Some n) st = (x, st1) \<Longrightarrow> m \<noteq> n \<Longrightarrow> apart m st1 st' \<Longrightarrow> apart m st st'"
  using apart_load [of m n st lib env] apart_trans by (metis snd_conv)

lemma apart_saved: "m \<noteq> n \<Longrightarrow> apart m st (snd (saveWallet lib env key address pw seed path (Some n) st))"
  by (auto simp: saveWallet_def Let_def split: sum.splits intro: apart_trans [OF apart_write apart_open])

lemma apart_unlocked: "m \<noteq> n \<Longrightarrow> apart m st (snd (unlockWalletSession lib env pw (Some n) st))"
  by (auto simp: unlockWalletSession_def loadWallet_def split: prod.splits sum.splits option.splits
      elim!: apart_loaded)

lemma apart_cleared [simp]: "apart m st (clear_session net st)"
  by (auto simp: apart_def clear_session_def getUnlockedWalletForNetwork_def)

lemma apart_closed: "m \<noteq> n \<Longrightarrow> apart m st (snd (closeWalletSession lib env (Some n) st))"
  by (auto simp: closeWalletSession_def split: prod.splits option.splits elim!: apart_loaded)

lemma apart_deleted: "m \<noteq> n \<Longrightarrow> apart m st (snd (deleteWallet (Some n) st))"
  by (auto simp: deleteWallet_def apart_def clear_session_def clearProducerProfile_def getUnlockedWalletForNetwork_def)

lemma apart_listed: "m \<noteq> n \<Longrightarrow> apart m st (snd (listWalletAccounts lib env (Some n) st))"
  by (auto simp: listWalletAccounts_def split: prod.splits option.splits elim!: apart_loaded)

lemma apart_queried: "m \<noteq> n \<Longrightarrow> apart m st (snd (resolveWalletQueryAddress lib env address account (Some n) st))"
  using apart_trans [OF apart_load apart_load]
  by (auto simp: resolveWalletQueryAddress_def Let_def apart_load)

lemma apart_revealed: "m \<noteq> n \<Longrightarrow> apart m st (snd (loadWalletAccountSecrets lib env account (Some n) st))"
  by (auto simp: loadWalletAccountSecrets_def Let_def split: prod.splits elim!: apart_loaded)

lemma apart_activated: "m \<noteq> n \<Longrightarrow> apart m st (snd (setActiveWalletAccount lib env i (Some n) st))"
  by (auto simp: setActiveWalletAccount_def split: prod.splits option.splits elim!: apart_loaded)

lemma apart_added: "m \<noteq> n \<Longrightarrow> apart m st (snd (add_account env a key w (Some n) st))"
  by (simp add: add_account_def)

lemma apart_derived: "m \<noteq> n \<Longrightarrow> apart m st (snd (createDerivedWalletAccount lib env name (Some n) st))"
  by (auto simp: createDerivedWalletAccount_def Let_def apart_added split: prod.splits option.splits
      elim!: apart_loaded)

lemma apart_watched: "m \<noteq> n \<Longrightarrow> apart m st (snd (importWatchWalletAccount lib env given name (Some n) st))"
  by (auto simp: importWatchWalletAccount_def apart_added split: prod.splits option.splits elim!: apart_loaded)

lemma apart_imported: "m \<noteq> n \<Longrightarrow> apart m st (snd (importWalletAccount lib env key pw name (Some n) st))"
proof (cases "wl_wif_address lib key")
  case (Some address)
  assume m: "m \<noteq> n"
  obtain x st1 where l: "loadWalletFile lib env (Some n) st = (x, st1)" by fastforce
  show ?thesis
  proof (cases x)
    case None
    obtain r st2 where s: "saveWallet lib env key address pw None None (Some n) st1 = (r, st2)" by fastforce
    then have "apart m st1 st2" using apart_saved [OF m] by (metis snd_conv)
    moreover have "apart m st2 (snd (listWalletAccounts lib env (Some n) st2))" by (rule apart_listed [OF m])
    ultimately have "apart m st1 (snd (importWalletAccount lib env key pw name (Some n) st))"
      by (auto simp: importWalletAccount_def Some l None s split: sum.splits prod.splits intro: apart_trans)
    then show ?thesis by (rule apart_loaded [OF l m])
  next
    case (Some w)
    then show ?thesis using m l \<open>wl_wif_address lib key = Some address\<close>
      by (auto simp: importWalletAccount_def Let_def apart_added split: option.splits elim!: apart_loaded)
  qed
qed (simp add: importWalletAccount_def)

lemma apart_renamed: "m \<noteq> n \<Longrightarrow> apart m st (snd (renameWalletAccount lib env i text (Some n) st))"
  by (auto simp: renameWalletAccount_def split: prod.splits option.splits elim!: apart_loaded)

lemma apart_removed: "m \<noteq> n \<Longrightarrow> apart m st (snd (removeWalletAccount lib env i (Some n) st))"
  by (auto simp: removeWalletAccount_def split: prod.splits option.splits elim!: apart_loaded)

lemma apart_profiles:
  assumes "m \<noteq> n"
  shows "apart m st (saveProducerProfile p (Some n) st)" "apart m st (snd (clearProducerProfile (Some n) st))"
  using assms by (simp_all add: apart_def saveProducerProfile_def clearProducerProfile_def Let_def
      getUnlockedWalletForNetwork_def)

lemma saved_file:
  "ws_files (snd (saveWallet lib env key address pw seed path net st)) net =
     Content (wallet_json (syncWalletCompatibilityFields env (first_wallet lib env key address pw seed path)))"
  by (simp add: saveWallet_def Let_def writeWalletFile_def split: sum.split)

lemma cleared_files [simp]: "ws_files (clear_session net st) = ws_files st"
  by (simp add: clear_session_def)

section \<open>A concrete library\<close>

text \<open>A library with the documented behaviour, for the examples.\<close>

definition toy_lib :: wallet_lib where
  "toy_lib =
     \<lparr>wl_num_str = (\<lambda>_. ''0''),
      wl_seal = (\<lambda>r v p. (v, p, ''i'', ''t'')),
      wl_open = (\<lambda>s p. case s of (v, q, i, t) \<Rightarrow> if q = p then Some v else None),
      wl_derive = (\<lambda>seed path. Some (if path = walletDerivationPath 0 then ''1First'' else ''1Next'', ''K'')),
      wl_wif_address = (\<lambda>k. if k = [] then None else Some ''1Wif'')\<rparr>"

definition toy_env :: "string \<Rightarrow> wallet_env" where
  "toy_env tail = \<lparr>we_now = ''t0'', we_written = ''t1'', we_idTail = tail, we_salt = 1\<rparr>"

lemma toy_lib_ok: "lib_ok toy_lib"
proof -
  have "normal_text ''1First''" "normal_text ''1Next''" "normal_text ''1Wif''" by code_simp+
  then show ?thesis by (auto simp: lib_ok_def toy_lib_def split: if_splits)
qed

lemma toy_env_ok: "env_ok (toy_env ''a'')" "env_ok (toy_env ''b'')"
  by code_simp+

text \<open>A saved wallet with a watched second account.\<close>

definition toy_saved :: wallet_store where
  "toy_saved = snd (saveWallet toy_lib (toy_env ''a'') ''K'' ''1First'' ''pw'' (Some ''seed'') None (Some Mainnet) empty_store)"

definition toy_watched :: wallet_store where
  "toy_watched = snd (importWatchWalletAccount toy_lib (toy_env ''b'') ''1Watch'' None (Some Mainnet) toy_saved)"

lemma toy_saved_reachable: "wallet_reachable toy_lib toy_saved"
proof -
  have "normal_text ''1First''" by code_simp
  from wallet_step.saved [OF toy_env_ok(1) this] show ?thesis
    unfolding toy_saved_def by (rule wallet_reachable.step [OF wallet_reachable.start])
qed

lemma toy_fresh: "fresh toy_saved Mainnet (toy_env ''b'')"
proof -
  let ?w = "syncWalletCompatibilityFields (toy_env ''a'') (first_wallet toy_lib (toy_env ''a'') ''K'' ''1First'' ''pw'' (Some ''seed'') None)"
  have n: "normal_text ''1First''" by code_simp
  have "holds toy_saved Mainnet ?w"
    unfolding holds_def toy_saved_def by (rule conjI [OF saved_file sync_first_wallet(1) [OF toy_env_ok(1) n refl]])
  moreover have "ea_id ` set (ew_accounts ?w) \<subseteq> {''acc_derived_a'', ''acc_imported-wif_a''}"
    unfolding sync_first_wallet(2) [OF toy_env_ok(1) n refl]
    by (simp add: first_wallet_def Let_def createWalletAccountId_def toy_env_def)
  then have "createWalletAccountId (toy_env ''b'') k \<notin> ea_id ` set (ew_accounts ?w)" for k
    by (cases k) (auto simp: createWalletAccountId_def toy_env_def)
  ultimately show ?thesis unfolding fresh_def using toy_env_ok(2) holds_unique by metis
qed

lemma toy_watched_reachable: "wallet_reachable toy_lib toy_watched"
  unfolding toy_watched_def
  by (rule wallet_reachable.step [OF toy_saved_reachable wallet_step.watched [OF toy_fresh]])

lemma secrets_account_in: "secrets_account u x = Some a \<Longrightarrow> a \<in> set (uw_accounts u)"
  by (auto simp: secrets_account_def find_Some_iff split: option.splits list.splits)

section \<open>Properties of the wallet store\<close>

text \<open>C3: After every sequence of wallet operations, on whatever networks, loading the wallet of a
  network neither fails to find the wallet of an open session nor rewrites the file; the wallet
  is well formed (one entry per id and per address, an active account that exists and agrees with
  the legacy fields) and the unlocked session of that network shows exactly its accounts in their
  order and the same active account.\<close>

theorem wallet_store_invariant:
  assumes "lib_ok lib" "wallet_reachable lib st"
  shows "snd (loadWalletFile lib env (Some n) st) = st \<and>
    (case fst (loadWalletFile lib env (Some n) st) of
       None \<Rightarrow> getUnlockedWalletForNetwork (Some n) st = None
     | Some w \<Rightarrow> wallet_ok w \<and> pred_option (mirrors w) (getUnlockedWalletForNetwork (Some n) st))"
proof -
  have ok: "store_ok st" using reachable_ok assms by blast
  show ?thesis
  proof (rule load_store_ok [OF ok, of lib env n])
    fix w assume l: "loadWalletFile lib env (Some n) st = (Some w, st)" and w: "holds st n w"
    then show ?thesis using session_mirrors [OF ok _ w] w
      by (cases "getUnlockedWalletForNetwork (Some n) st") (auto simp: holds_def)
  next
    assume "loadWalletFile lib env (Some n) st = (None, st)" "ws_files st (Some n) = Missing"
    then show ?thesis using ok by (auto simp: store_ok_def getUnlockedWalletForNetwork_def holds_def)
  qed
qed

theorem wallet_store_invariant_witness:
  "snd (loadWalletFile toy_lib (toy_env ''a'') (Some Mainnet) toy_watched) = toy_watched"
  using wallet_store_invariant [OF toy_lib_ok toy_watched_reachable, of "toy_env ''a''" Mainnet] by blast

text \<open>C10: A saved wallet can be unlocked: whatever the store held before, after saving a wallet and
  closing its session, unlocking with the password gives a session with the private key, the
  trimmed seed phrase and the address that were saved, and leaves that session open.\<close>

theorem saved_wallet_unlocks:
  assumes "lib_ok lib" "env_ok env" "normal_text address"
  shows "case unlockWalletSession lib env' pw (Some n)
      (clear_session (Some n) (snd (saveWallet lib env key address pw seed path (Some n) st))) of
    (result, st') \<Rightarrow> \<exists>u. result = Inr (Some u) \<and> uw_privateKey u = Some key \<and> uw_address u = address \<and>
      uw_seedPhrase u = some_text (opt_trim seed) \<and> getUnlockedWalletForNetwork (Some n) st' = Some u"
proof -
  let ?p = "first_wallet lib env key address pw seed path"
  let ?w = "syncWalletCompatibilityFields env ?p"
  let ?st = "clear_session (Some n) (snd (saveWallet lib env key address pw seed path (Some n) st))"
  note s = sync_first_wallet [OF assms(2,3) refl, of lib key pw seed path]
  have "ws_files ?st (Some n) = Content (wallet_json ?w)" by (simp add: saved_file)
  from load_written [OF this s(1)] have l: "loadWalletFile lib env' (Some n) ?st = (Some ?w, ?st)" .
  obtain u where "unlockedWalletFromFile lib ?w pw = Inr u" "uw_privateKey u = Some key"
    "uw_seedPhrase u = some_text (opt_trim seed)" "uw_address u = address"
    using unlock_first_wallet [OF assms(1) s(1-3)] .
  then show ?thesis by (simp add: unlockWalletSession_def loadWallet_def l getUnlockedWalletForNetwork_def)
qed

theorem saved_wallet_unlocks_witness:
  "\<exists>u. fst (unlockWalletSession toy_lib (toy_env ''b'') ''pw'' (Some Testnet)
     (clear_session (Some Testnet) (snd (saveWallet toy_lib (toy_env ''a'') ''K'' ''1A'' ''pw'' (Some '' s '') None
       (Some Testnet) toy_saved)))) = Inr (Some u) \<and> uw_privateKey u = Some ''K''"
proof -
  have "normal_text ''1A''" by code_simp
  from saved_wallet_unlocks [OF toy_lib_ok toy_env_ok(1) this, where env' = "toy_env ''b''" and pw = "''pw''"
      and n = Testnet and key = "''K''" and seed = "Some '' s ''" and path = None and st = toy_saved]
  show ?thesis by (auto split: prod.splits)
qed

text \<open>Removing an account takes it out of the file and of the session: the listing afterwards is
  the listing before without its id, in the same order and with some account active, and asking
  for the secrets of the removed id never answers with that id.\<close>

theorem removed_account_is_gone:
  assumes "lib_ok lib" "wallet_reachable lib st" "env_ok env"
    and "removeWalletAccount lib env k (Some n) st = (Some left, st')"
  shows "fst (listWalletAccounts lib env' (Some n) st') = left \<and>
    map as_id left = filter (\<lambda>i. i \<noteq> k) (map as_id (fst (listWalletAccounts lib env (Some n) st))) \<and>
    list_ex as_isActive left \<and>
    sc_accountId (fst (loadWalletAccountSecrets lib env' (Some k) (Some n) st')) \<noteq> Some k"
proof -
  have ok: "store_ok st" using reachable_ok assms by blast
  obtain w where l: "loadWalletFile lib env (Some n) st = (Some w, st)" and w: "holds st n w"
  proof (rule load_store_ok [OF ok, of lib env n])
    assume "loadWalletFile lib env (Some n) st = (None, st)"
    with assms(4) show thesis by (simp add: removeWalletAccount_def)
  qed
  let ?w = "without_account k w"
  have more: "\<not> (length (ew_accounts w) \<le> 1 \<or> list_all (\<lambda>a. ea_id a \<noteq> k) (ew_accounts w))"
    using assms(4) unfolding removeWalletAccount_def l prod.case option.case by (metis option.distinct(1) prod.inject)
  from assms(4) have removed: "left = summaries ?w"
    "st' = on_session (Some n) (remove_session k ?w) (writeWalletFile env ?w (Some n) st)"
    unfolding removeWalletAccount_def l prod.case option.case if_not_P [OF more] by blast+
  have accts: "accounts_ok (ew_accounts w)" by (rule holds_accounts [OF w])
  have others: "filter (\<lambda>a. ea_id a \<noteq> k) (ew_accounts w) \<noteq> []"
    using filter_other [of ea_id "ew_accounts w"] accts more by (auto simp: accounts_ok_def)
  have ok': "store_ok st'" unfolding removed(2) by (rule remove_ok [OF ok w assms(3) others])
  obtain a where a: "a \<in> set (ew_accounts w)" "ea_id a \<noteq> k" "ew_activeAccountId ?w = Some (ea_id a)"
    using without_account_active [OF accts others] .
  have r: "ready ?w (ea_id a)" using ready_without [OF _ a] w by (simp add: holds_def)
  let ?s = "syncWalletCompatibilityFields env ?w"
  have "holds st' n ?s"
    using sync_ready(1) [OF r assms(3)]
    by (simp add: holds_def removed(2) on_session_def writeWalletFile_def split: option.split)
  then have l': "loadWalletFile lib env' (Some n) st' = (Some ?s, st')" and h: "holds st' n ?s"
    using load_written by (auto simp: holds_def)
  have same: "summaries ?s = left"
    by (simp add: removed(1) summaries_def sync_ready(2,3) [OF r assms(3)] a(3))
  have "sc_accountId (fst (loadWalletAccountSecrets lib env' (Some k) (Some n) st')) \<noteq> Some k"
  proof (cases "getUnlockedWalletForNetwork (Some n) st'")
    case (Some u)
    from session_mirrors [OF ok' Some h] obtain i where
      "list_all2 same_account (ew_accounts ?s) (uw_accounts u)" by (rule mirrorsD)
    from arg_cong [OF shown_ids [OF this], of set] have "k \<notin> ua_id ` set (uw_accounts u)"
      by (auto simp: sync_ready(2) [OF r assms(3)])
    then show ?thesis using secrets_account_in [of u "Some k"]
      by (auto simp: loadWalletAccountSecrets_def l' Let_def Some some_text_def bind_eq_Some_conv split: if_splits)
  qed (simp add: loadWalletAccountSecrets_def l' Let_def)
  moreover have "map as_id left = filter (\<lambda>i. i \<noteq> k) (map as_id (summaries w))"
    by (simp add: removed(1) summaries_def filter_map comp_def accountSummary_def)
  moreover have "list_ex as_isActive left"
    using a by (auto simp: removed(1) summaries_def list_ex_iff accountSummary_def)
  ultimately show ?thesis by (simp add: listWalletAccounts_def l l' same)
qed

theorem removed_account_is_gone_witness:
  "fst (listWalletAccounts toy_lib (toy_env ''a'') (Some Mainnet)
     (snd (removeWalletAccount toy_lib (toy_env ''b'') ''acc_derived_a'' (Some Mainnet) toy_watched)))
   = the (fst (removeWalletAccount toy_lib (toy_env ''b'') ''acc_derived_a'' (Some Mainnet) toy_watched))"
proof -
  have "fst (removeWalletAccount toy_lib (toy_env ''b'') ''acc_derived_a'' (Some Mainnet) toy_watched) \<noteq> None"
    by code_simp
  then obtain left st' where r:
    "removeWalletAccount toy_lib (toy_env ''b'') ''acc_derived_a'' (Some Mainnet) toy_watched = (Some left, st')"
    by (metis not_Some_eq prod.collapse)
  from removed_account_is_gone [OF toy_lib_ok toy_watched_reachable toy_env_ok(2) this, of "toy_env ''a''"] r
  show ?thesis by simp
qed

text \<open>Operations for one network never touch another: the wallet file and the producer profile of
  every other network stay as they are, and the session of the other network is either unchanged
  or replaced by the one that was opened.\<close>

theorem networks_stay_apart:
  assumes "wallet_step lib n st st'" "m \<noteq> n"
  shows "ws_files st' (Some m) = ws_files st (Some m) \<and> ws_profiles st' (Some m) = ws_profiles st (Some m) \<and>
    getUnlockedWalletForNetwork (Some m) st' \<in> {None, getUnlockedWalletForNetwork (Some m) st}"
proof -
  from assms have "apart m st st'"
    by (induction rule: wallet_step.induct)
      (simp_all add: apart_saved apart_unlocked apart_closed apart_deleted apart_listed apart_queried apart_revealed
        apart_activated apart_derived apart_watched apart_imported apart_renamed apart_removed apart_profiles)
  then show ?thesis by (simp add: apart_def)
qed

theorem networks_stay_apart_witness:
  "ws_files toy_watched (Some Testnet) = ws_files toy_saved (Some Testnet)"
  using networks_stay_apart [OF wallet_step.watched [OF toy_fresh], of Testnet toy_lib "''1Watch''" None]
  by (simp add: toy_watched_def)

section \<open>Queries without a network\<close>

text \<open>The callers of electron/lib/wallet-service.ts ask without a network: then the session of any
  network answers, where the query for the configured network would answer from its own file.\<close>

lemma findWalletAccount_None [simp]: "findWalletAccount None i = None"
  by (simp add: findWalletAccount_def)

lemma session_texts:
  assumes "store_ok st" "ws_unlocked st = Some u"
  shows "normal_text (uw_address u)" "b \<in> set (uw_accounts u) \<Longrightarrow> normal_text (ua_id b)"
proof -
  obtain n w where w: "holds st n w" "mirrors w u" using assms by (auto simp: store_ok_def)
  then obtain i where m: "list_all2 same_account (ew_accounts w) (uw_accounts u)" "shows_active i u" by (meson mirrorsD)
  have texts: "normal_text (ua_id b)" "normal_text (ua_address b)" if "b \<in> set (uw_accounts u)" for b
    using stored_account [OF m(1) that] account_okD(1) [OF holds_accounts [OF w(1)]] same_texts(1,3) by metis+
  then show "b \<in> set (uw_accounts u) \<Longrightarrow> normal_text (ua_id b)" "normal_text (uw_address u)"
    using m(2) by (auto simp: shows_active_def)
qed

lemma unscoped_query_uses_any_session:
  assumes "lib_ok lib" "wallet_reachable lib st" "ws_unlocked st = Some u" "ws_unlockedNetwork st \<noteq> Some n"
  shows "fst (resolveWalletQueryAddress lib env None None None st) = Some (uw_address u)"
    and "fst (resolveWalletQueryAddress lib env None None (Some n) st)
       = map_option ew_address (fst (loadWalletFile lib env (Some n) st))"
proof -
  have ok: "store_ok st" using reachable_ok assms by blast
  have "find (\<lambda>a. ua_id a = []) (uw_accounts u) = None"
    using session_texts(2) [OF ok assms(3)] by (auto simp: find_None_iff dest: normal_not_Nil)
  then show "fst (resolveWalletQueryAddress lib env None None None st) = Some (uw_address u)"
    using normal_not_Nil [OF session_texts(1) [OF ok assms(3)]]
    by (simp add: resolveWalletQueryAddress_def getUnlockedWalletForNetwork_def assms(3) opt_trim_def
        some_text_def Let_def)
  show "fst (resolveWalletQueryAddress lib env None None (Some n) st)
       = map_option ew_address (fst (loadWalletFile lib env (Some n) st))"
  proof (rule load_store_ok [OF ok, of lib env n])
    fix w assume l: "loadWalletFile lib env (Some n) st = (Some w, st)" and w: "holds st n w"
    then obtain a where a: "a \<in> set (ew_accounts w)" "ew_activeAccountId w = Some (ea_id a)" "ew_address w = ea_address a"
      by (auto simp: holds_def wallet_ok_def)
    have f: "findWalletAccount (Some w) (Some (ea_id a)) = Some a"
      by (rule findWalletAccount_active [OF holds_accounts [OF w] a(1)])
    show ?thesis using assms(4) a(3) stored_texts(3) [OF holds_accounts [OF w] a(1)]
      by (simp add: resolveWalletQueryAddress_def getUnlockedWalletForNetwork_def opt_trim_def some_text_def Let_def
          l a(2) f normal_not_Nil)
  qed (use assms(4) in \<open>simp add: resolveWalletQueryAddress_def getUnlockedWalletForNetwork_def opt_trim_def
      some_text_def Let_def\<close>)
qed

section \<open>Two passwords\<close>

definition rejects_wrong_passwords :: "wallet_lib \<Rightarrow> bool" where
  "rejects_wrong_passwords lib \<longleftrightarrow> (\<forall>r v p q. p \<noteq> q \<longrightarrow> wl_open lib (wl_seal lib r v p) q = None)"

lemma decrypt_wrong:
  "rejects_wrong_passwords lib \<Longrightarrow> p \<noteq> q \<Longrightarrow>
   decryptTelenoWalletSecret lib (encryptTelenoWalletSecret lib r v p) q = None"
proof -
  assume "rejects_wrong_passwords lib" "p \<noteq> q"
  then have "wl_open lib (wl_seal lib r v p) q = None" by (simp add: rejects_wrong_passwords_def)
  then show ?thesis
    by (cases "wl_seal lib r v p") (simp add: decryptTelenoWalletSecret_def encryptTelenoWalletSecret_def)
qed

lemma two_passwords_lock:
  assumes "lib_ok lib" "rejects_wrong_passwords lib" "p \<noteq> q" "ew_accounts w = [a, b]"
    and "ea_kind a \<noteq> WatchOnly" "ea_encryptedKey a = Some (encryptTelenoWalletSecret lib r k p)"
    and "ea_kind b \<noteq> WatchOnly" "ea_encryptedKey b = Some (encryptTelenoWalletSecret lib r' k' q)"
    and "ew_encryptedSeedPhrase w \<in> {None, Some (encryptTelenoWalletSecret lib s v p)}"
  shows "unlockedWalletFromFile lib w pw = Inl DecryptFailed"
proof (cases "pw = p")
  case True
  have "account_key lib sp p a = Inr (Some k)" "account_key lib sp p b = Inl DecryptFailed" for sp
    using assms(1-8) by (simp_all add: account_key_def decrypt_wrong)
  with assms(1,4,9) show ?thesis by (auto simp: unlockedWalletFromFile_def True Let_def)
next
  case False
  then have "account_key lib sp pw a = Inl DecryptFailed" for sp
    using assms(2,5,6) by (simp add: account_key_def decrypt_wrong)
  with assms(2,4,9) False show ?thesis by (auto simp: unlockedWalletFromFile_def Let_def decrypt_wrong)
qed



end
