(* ===== verification/WalletHandlers.thy ===== *)
theory WalletHandlers
  imports WalletTransfers WalletSteps
begin

text \<open>
  The handlers of electron/lib/wallet-service.ts over the wallet store: what the renderer asks of wallets and
  accounts, with the checks, the texts and the effect on the runtime configuration of the block producer.

  State (\<open>handler_state\<close>): the wallet store and the producer addresses that were written to a runtime
  configuration, with their network. \<open>handler_env\<close> holds what comes from outside: the wallet library, the texts of
  errors, the check of an address, the environment variable of protected addresses and the writer of the
  configuration.
\<close>

section \<open>State and steps\<close>

record handler_state =
  hs_store :: wallet_store
  hs_config :: "(network \<times> string) list"

record handler_env =
  hd_lib :: wallet_lib
  hd_env :: wallet_env
  hd_message :: "wallet_error \<Rightarrow> string"
  hd_wifMessage :: string
  hd_valid :: "string \<Rightarrow> bool"
  hd_protected :: string
  hd_update :: "string \<Rightarrow> jsval \<Rightarrow> string + string"
  hd_walletPath :: "network \<Rightarrow> string"
  hd_phrase :: string

type_synonym 'a step = "(handler_state, 'a) flow"

definition on_store :: "(wallet_store \<Rightarrow> 'a \<times> wallet_store) \<Rightarrow> 'a step" where
  "on_store f s = (case f (hs_store s) of (x, st) \<Rightarrow> (Inr x, s\<lparr>hs_store := st\<rparr>))"

definition try_store :: "(wallet_error \<Rightarrow> string) \<Rightarrow> (wallet_store \<Rightarrow> (wallet_error + 'a) \<times> wallet_store) \<Rightarrow> 'a step" where
  "try_store message f s =
     (case f (hs_store s) of
        (Inl e, st) \<Rightarrow> (Inl (message e), s\<lparr>hs_store := st\<rparr>)
      | (Inr x, st) \<Rightarrow> (Inr x, s\<lparr>hs_store := st\<rparr>))"

text \<open>\<open>catch (error)\<close> with effects of its own.\<close>

definition or_caught :: "(string \<Rightarrow> 's \<Rightarrow> 'r \<times> 's) \<Rightarrow> ('s, 'r) flow \<Rightarrow> 's \<Rightarrow> 'r \<times> 's" where
  "or_caught handler f s = (case f s of (Inl message, s1) \<Rightarrow> handler message s1 | (Inr r, s1) \<Rightarrow> (r, s1))"

definition stored_file_of :: "handler_env \<Rightarrow> network \<Rightarrow> enc_wallet option step" where
  "stored_file_of env n = on_store (loadWalletFile (hd_lib env) (hd_env env) (Some n))"

definition accounts_of :: "handler_env \<Rightarrow> network \<Rightarrow> account_summary list step" where
  "accounts_of env n = on_store (listWalletAccounts (hd_lib env) (hd_env env) (Some n))"

definition session_in :: "network \<Rightarrow> unlocked_wallet option step" where
  "session_in n s = (Inr (getUnlockedWalletForNetwork (Some n) (hs_store s)), s)"

text \<open>\<open>wallet?.address || null\<close> and \<open>wallet?.address ?? null\<close>.\<close>

definition address_or_null :: "enc_wallet option \<Rightarrow> string option" where
  "address_or_null w = Option.bind w (\<lambda>w. some_text (ew_address w))"

definition walletNetwork :: "jsval \<Rightarrow> network" where
  "walletNetwork input = profile_normalizeKoinosNetworkId (js_prop ''network'' input)"

text \<open>An optional name, as it is passed on.\<close>

definition name_given :: "handler_env \<Rightarrow> jsval \<Rightarrow> string option" where
  "name_given env input = some_text (raw_text (hd_lib env) (js_prop ''name'' input))"

section \<open>The producer address in the runtime configuration\<close>

definition protectedMainnetProducerAddresses :: "string \<Rightarrow> string list" where
  "protectedMainnetProducerAddresses raw =
     filter (\<lambda>t. t \<noteq> []) (map js_trim (js_split_re (plus (Alt space (chr (CHR '','')))) raw))"

definition isProtectedMainnetProducerAddress :: "string \<Rightarrow> string \<Rightarrow> bool" where
  "isProtectedMainnetProducerAddress raw address \<longleftrightarrow> address \<in> set (protectedMainnetProducerAddresses raw)"

text \<open>The call of \<open>updateConfigProducerAddress\<close>: the write is on record whatever it answers.\<close>

definition write_producer :: "handler_env \<Rightarrow> string \<Rightarrow> jsval \<Rightarrow> string step" where
  "write_producer env address input s =
     (hd_update env address input, s\<lparr>hs_config := hs_config s @ [(walletNetwork input, address)]\<rparr>)"

definition syncNonMainnetProducerRuntimeConfig :: "handler_env \<Rightarrow> string \<Rightarrow> jsval \<Rightarrow> bool \<Rightarrow> string option step" where
  "syncNonMainnetProducerRuntimeConfig env address input accountHasPrivateKey =
     (let trimmedAddress = js_trim address
      in if walletNetwork input = Mainnet then returns None
         else if \<not> accountHasPrivateKey \<or> trimmedAddress = [] then returns None
         else if \<not> safeIsChecksumAddress (hd_valid env) trimmedAddress then returns None
         else (\<lambda>s. case write_producer env trimmedAddress input s of
             (Inl _, s1) \<Rightarrow> (Inr None, s1)
           | (Inr path, s1) \<Rightarrow> (Inr (some_text path), s1)))"

definition appendProducerConfigSyncNote :: "string \<Rightarrow> string option \<Rightarrow> string" where
  "appendProducerConfigSyncNote t configPath =
     (case configPath of
        None \<Rightarrow> t
      | Some p \<Rightarrow> t @ nl @ ''Updated runtime producer config: '' @ p @ nl @
          ''Restart the node for a running block producer to use this address.'')"

section \<open>Looking at the wallet\<close>

definition activeWalletSummary :: "enc_wallet option \<Rightarrow> account_summary list \<Rightarrow> account_summary option" where
  "activeWalletSummary wallet accounts =
     (let activeId = opt_trim (Option.bind wallet ew_activeAccountId)
      in case find (\<lambda>a. as_id a = activeId) accounts of
           Some a \<Rightarrow> Some a
         | None \<Rightarrow> (case accounts of [] \<Rightarrow> None | a # _ \<Rightarrow> Some a))"

record overview_result =
  ov_output :: string
  ov_rpcUrl :: string
  ov_walletFilePath :: string
  ov_walletExists :: bool
  ov_walletAddress :: "string option"
  ov_walletCreatedAt :: "string option"
  ov_active :: "account_summary option"
  ov_accounts :: "account_summary list"
  ov_unlocked :: bool
  ov_hasSeedPhrase :: bool

definition walletOverview :: "handler_env \<Rightarrow> jsval \<Rightarrow> overview_result step" where
  "walletOverview env input =
     (let network = walletNetwork input
      in and_then (stored_file_of env network) (\<lambda>wallet.
         and_then (accounts_of env network) (\<lambda>accounts.
         and_then (session_in network) (\<lambda>session.
         returns
           \<lparr>ov_output = (case wallet of Some w \<Rightarrow> ''Wallet vault stored for '' @ ew_address w
              | None \<Rightarrow> ''No wallet stored in Koinos One yet.''),
            ov_rpcUrl = resolveWalletRpcUrl (hd_lib env) input, ov_walletFilePath = hd_walletPath env network,
            ov_walletExists = (wallet \<noteq> None), ov_walletAddress = address_or_null wallet,
            ov_walletCreatedAt = Option.bind wallet (\<lambda>w. some_text (ew_createdAt w)),
            ov_active = activeWalletSummary wallet accounts, ov_accounts = accounts,
            ov_unlocked = (wallet \<noteq> None \<and> Option.bind (Option.bind session uw_activeAccountId) some_text \<noteq> None),
            ov_hasSeedPhrase = (Option.bind wallet ew_encryptedSeedPhrase \<noteq> None)\<rparr>))))"

record accounts_result =
  al_output :: string
  al_walletAddress :: "string option"
  al_activeAccountId :: "string option"
  al_accounts :: "account_summary list"

definition walletListAccounts :: "handler_env \<Rightarrow> jsval \<Rightarrow> accounts_result step" where
  "walletListAccounts env input =
     (let network = walletNetwork input
      in and_then (stored_file_of env network) (\<lambda>wallet.
         and_then (accounts_of env network) (\<lambda>accounts.
         returns
           \<lparr>al_output = (if wallet \<noteq> None then ''Loaded '' @ js_nat (length accounts) @ '' wallet account(s).''
              else ''No wallet stored in Koinos One yet.''),
            al_walletAddress = address_or_null wallet,
            al_activeAccountId = Option.bind (Option.bind wallet ew_activeAccountId) some_text, al_accounts = accounts\<rparr>)))"

section \<open>Keys and seed phrases\<close>

record generate_result =
  ge_ok :: bool
  ge_output :: string
  ge_account :: "(string \<times> string \<times> string) option"
  ge_seedPhrase :: "string option"

definition walletGenerate :: "handler_env \<Rightarrow> generate_result" where
  "walletGenerate env =
     (let seedPhrase = js_trim (hd_phrase env);
          failed = (\<lambda>t. \<lparr>ge_ok = False, ge_output = t, ge_account = None, ge_seedPhrase = None\<rparr>)
      in if seedPhrase = [] then failed ''Could not generate a seed phrase.''
         else (case deriveWalletAccountsFromSeed (hd_lib env) seedPhrase 1 of
             None \<Rightarrow> failed (hd_message env DeriveFailed)
           | Some ((_, path, address, wif) # _) \<Rightarrow>
               \<lparr>ge_ok = True, ge_output = ''Generated a new seed phrase. Write it down before creating the wallet.'',
                ge_account = Some (address, wif, path), ge_seedPhrase = Some seedPhrase\<rparr>
           | Some [] \<Rightarrow> failed ''Could not derive the first wallet account from the generated seed.''))"

definition walletAddressFromWif :: "handler_env \<Rightarrow> jsval \<Rightarrow> string + string" where
  "walletAddressFromWif env input =
     (let privateKey = text_field (hd_lib env) (js_prop ''privateKey'' input)
      in if privateKey = [] then Inl ''Private key is required.''
         else (case wl_wif_address (hd_lib env) privateKey of None \<Rightarrow> Inl (hd_wifMessage env) | Some a \<Rightarrow> Inr a))"

definition walletDeriveFromSeed :: "handler_env \<Rightarrow> jsval \<Rightarrow> string + (nat \<times> string \<times> string \<times> string) list" where
  "walletDeriveFromSeed env input =
     (let seedPhrase = text_field (hd_lib env) (js_prop ''seedPhrase'' input);
          numAccounts = (case finite_num (js_prop ''numAccounts'' input) of Some r \<Rightarrow> r | None \<Rightarrow> 2)
      in if seedPhrase = [] then Inl ''Seed phrase is required.''
         else if of_int \<lfloor>numAccounts\<rfloor> \<noteq> numAccounts \<or> numAccounts < 1 \<or> numAccounts > 100
         then Inl ''Number of accounts must be between 1 and 100.''
         else (case deriveWalletAccountsFromSeed (hd_lib env) seedPhrase (nat \<lfloor>numAccounts\<rfloor>) of
             None \<Rightarrow> Inl (hd_message env DeriveFailed)
           | Some accounts \<Rightarrow> Inr accounts))"

section \<open>Storing, opening and closing a wallet\<close>

record wallet_import_result =
  ir_ok :: bool
  ir_output :: string
  ir_address :: "string option"
  ir_walletFilePath :: string
  ir_unlocked :: bool

definition walletImport :: "handler_env \<Rightarrow> jsval \<Rightarrow> handler_state \<Rightarrow> wallet_import_result \<times> handler_state" where
  "walletImport env input =
     (let network = walletNetwork input; lib = hd_lib env;
          privateKey = text_field lib (js_prop ''privateKey'' input);
          password = raw_text lib (js_prop ''password'' input);
          seedPhrase = text_field lib (js_prop ''seedPhrase'' input);
          derivationPath = text_field lib (js_prop ''derivationPath'' input)
      in or_failed (\<lambda>t. \<lparr>ir_ok = False, ir_output = t, ir_address = None, ir_walletFilePath = hd_walletPath env network,
           ir_unlocked = False\<rparr>)
        (unless (privateKey = []) ''Private key is required.''
        (unless (length password < 8) ''Password must be at least 8 characters long.''
        (case wl_wif_address lib privateKey of
           None \<Rightarrow> fails (hd_wifMessage env)
         | Some address \<Rightarrow>
             and_then (try_store (hd_message env)
               (saveWallet lib (hd_env env) privateKey address password (some_text seedPhrase) (some_text derivationPath)
                 (Some network))) (\<lambda>_.
             and_then (syncNonMainnetProducerRuntimeConfig env address input True) (\<lambda>path.
             returns \<lparr>ir_ok = True,
               ir_output = appendProducerConfigSyncNote (''Producer account imported for '' @ address @ ''.'') path,
               ir_address = Some address, ir_walletFilePath = hd_walletPath env network, ir_unlocked = True\<rparr>))))))"

record session_result =
  se_ok :: bool
  se_output :: string
  se_walletAddress :: "string option"
  se_unlocked :: bool

definition walletUnlockFailureMessage :: "string \<Rightarrow> string" where
  "walletUnlockFailureMessage message =
     (if js_test (alts [lit_i ''unsupported state'', lit_i ''authenticate data'', lit_i ''bad decrypt'', lit_i ''decrypt'', lit_i ''auth'']) message
      then ''The password did not unlock the stored wallet, or the local wallet file could not be decrypted. Use recovery options in the Wallet tab if you need to replace it.''
      else js_or message ''Could not unlock producer account'')"

definition walletUnlock :: "handler_env \<Rightarrow> jsval \<Rightarrow> handler_state \<Rightarrow> session_result \<times> handler_state" where
  "walletUnlock env input =
     (let network = walletNetwork input; password = raw_text (hd_lib env) (js_prop ''password'' input);
          failed = (\<lambda>t address. \<lparr>se_ok = False, se_output = t, se_walletAddress = address, se_unlocked = False\<rparr>)
      in or_caught (\<lambda>message s. case stored_file_of env network s of (r, s1) \<Rightarrow>
            (failed (walletUnlockFailureMessage message)
              (case r of Inr (Some w) \<Rightarrow> Some (ew_address w) | _ \<Rightarrow> None), s1))
        (and_then (stored_file_of env network) (\<lambda>file.
         case file of
           None \<Rightarrow> returns (failed ''No producer account stored in Koinos One yet.'' None)
         | Some w \<Rightarrow>
             if password = [] then returns (failed ''Password is required to unlock the producer account.'' (Some (ew_address w)))
             else and_then (try_store (hd_message env) (unlockWalletSession (hd_lib env) (hd_env env) password (Some network)))
               (\<lambda>u. case u of
                  None \<Rightarrow> returns (failed ''Could not unlock the producer account.'' (Some (ew_address w)))
                | Some wallet \<Rightarrow> returns \<lparr>se_ok = True,
                    se_output = ''Producer account unlocked for this Koinos One session: '' @ uw_address wallet @ ''.'',
                    se_walletAddress = Some (uw_address wallet), se_unlocked = True\<rparr>))))"

definition walletClose :: "handler_env \<Rightarrow> jsval \<Rightarrow> session_result step" where
  "walletClose env input =
     (let network = walletNetwork input
      in and_then (stored_file_of env network) (\<lambda>file.
         case file of
           None \<Rightarrow> returns \<lparr>se_ok = False, se_output = ''No producer account stored in Koinos One yet.'',
             se_walletAddress = None, se_unlocked = False\<rparr>
         | Some w \<Rightarrow>
             and_then (on_store (closeWalletSession (hd_lib env) (hd_env env) (Some network))) (\<lambda>closed.
             let address = (case Option.bind closed some_text of Some a \<Rightarrow> a | None \<Rightarrow> ew_address w)
             in returns \<lparr>se_ok = True, se_output = ''Producer account closed for this Koinos One session: '' @ address @ ''.'',
               se_walletAddress = Some address, se_unlocked = False\<rparr>)))"

definition walletDelete :: "handler_env \<Rightarrow> jsval \<Rightarrow> (bool \<times> string \<times> string) step" where
  "walletDelete env input =
     (let network = walletNetwork input
      in and_then (on_store (deleteWallet (Some network))) (\<lambda>deleted.
         returns (deleted, if deleted then ''Producer account deleted.'' else ''No producer account stored.'',
           hd_walletPath env network)))"

record secrets_result =
  sr_ok :: bool
  sr_output :: string
  sr_walletAddress :: "string option"
  sr_accountId :: "string option"
  sr_accountName :: "string option"
  sr_accountKind :: "account_kind option"
  sr_firstAccountAddress :: "string option"
  sr_firstAccountPrivateKeyWif :: "string option"
  sr_firstAccountDerivationPath :: "string option"
  sr_seedPhrase :: "string option"

definition no_secrets :: "string \<Rightarrow> string option \<Rightarrow> string option \<Rightarrow> secrets_result" where
  "no_secrets t address accountId =
     \<lparr>sr_ok = False, sr_output = t, sr_walletAddress = address, sr_accountId = accountId, sr_accountName = None,
      sr_accountKind = None, sr_firstAccountAddress = None, sr_firstAccountPrivateKeyWif = None,
      sr_firstAccountDerivationPath = None, sr_seedPhrase = None\<rparr>"

definition walletShowSeed :: "handler_env \<Rightarrow> jsval \<Rightarrow> secrets_result step" where
  "walletShowSeed env input =
     (let network = walletNetwork input
      in and_then (stored_file_of env network) (\<lambda>file.
         case file of
           None \<Rightarrow> returns (no_secrets ''No producer account stored in Koinos One yet.'' None None)
         | Some w \<Rightarrow>
             and_then (session_in network) (\<lambda>session.
             if map_option uw_address session \<noteq> Some (ew_address w)
             then returns (no_secrets ''Unlock the wallet first to show the stored secrets.'' (Some (ew_address w))
               (Option.bind (ew_activeAccountId w) some_text))
             else and_then (on_store (loadWalletAccountSecrets (hd_lib env) (hd_env env)
                 (some_text (raw_text (hd_lib env) (js_prop ''accountId'' input))) (Some network))) (\<lambda>secrets.
               let seedPhrase = some_text (opt_trim (sc_seedPhrase secrets));
                   of_whom = (case Option.bind (sc_accountAddress secrets) some_text of Some a \<Rightarrow> a | None \<Rightarrow> ew_address w)
               in returns
                 \<lparr>sr_ok = True,
                  sr_output = (if seedPhrase = None then ''Stored WIF loaded for '' else ''Stored secrets loaded for '') @ of_whom @ ''.'',
                  sr_walletAddress = Some (ew_address w), sr_accountId = sc_accountId secrets,
                  sr_accountName = sc_accountName secrets, sr_accountKind = sc_accountKind secrets,
                  sr_firstAccountAddress = sc_accountAddress secrets,
                  sr_firstAccountPrivateKeyWif = sc_privateKeyWif secrets,
                  sr_firstAccountDerivationPath = sc_derivationPath secrets, sr_seedPhrase = seedPhrase\<rparr>))))"

section \<open>Accounts\<close>

record active_result =
  ac_ok :: bool
  ac_output :: string
  ac_walletAddress :: "string option"
  ac_activeAccountId :: "string option"
  ac_activeAccount :: "account_summary option"
  ac_configPath :: "string option"

definition active_failed :: "handler_env \<Rightarrow> network \<Rightarrow> string \<Rightarrow> handler_state \<Rightarrow> active_result \<times> handler_state" where
  "active_failed env network message s =
     (case stored_file_of env network s of
        (Inl _, s1) \<Rightarrow> (\<lparr>ac_ok = False, ac_output = message, ac_walletAddress = None, ac_activeAccountId = None,
          ac_activeAccount = None, ac_configPath = None\<rparr>, s1)
      | (Inr w, s1) \<Rightarrow>
          (\<lparr>ac_ok = False, ac_output = message, ac_walletAddress = map_option ew_address w,
            ac_activeAccountId = Option.bind w ew_activeAccountId, ac_activeAccount = None, ac_configPath = None\<rparr>, s1))"

definition walletSetActiveAccount :: "handler_env \<Rightarrow> jsval \<Rightarrow> handler_state \<Rightarrow> active_result \<times> handler_state" where
  "walletSetActiveAccount env input =
     (let network = walletNetwork input; accountId = text_field (hd_lib env) (js_prop ''accountId'' input)
      in or_caught (active_failed env network)
        (unless (accountId = []) ''Account id is required.''
        (and_then (on_store (setActiveWalletAccount (hd_lib env) (hd_env env) accountId (Some network))) (\<lambda>account.
         and_then (stored_file_of env network) (\<lambda>wallet.
         case (account, wallet) of
           (Some a, Some w) \<Rightarrow>
             and_then (syncNonMainnetProducerRuntimeConfig env (as_address a) input (as_hasPrivateKey a)) (\<lambda>path.
             returns \<lparr>ac_ok = True,
               ac_output = appendProducerConfigSyncNote (''Active wallet account set to '' @ as_name a @ ''.'') path,
               ac_walletAddress = Some (ew_address w), ac_activeAccountId = Some (as_id a), ac_activeAccount = Some a,
               ac_configPath = None\<rparr>)
         | _ \<Rightarrow> fails ''Could not set the active wallet account.'')))))"

definition walletSetProducerAccount :: "handler_env \<Rightarrow> jsval \<Rightarrow> handler_state \<Rightarrow> active_result \<times> handler_state" where
  "walletSetProducerAccount env input =
     (let network = walletNetwork input; accountId = text_field (hd_lib env) (js_prop ''accountId'' input)
      in or_caught (active_failed env network)
        (unless (accountId = []) ''Account id is required.''
        (and_then (stored_file_of env network) (\<lambda>wallet.
         and_then (accounts_of env network) (\<lambda>accounts.
         case (wallet, find (\<lambda>a. as_id a = accountId) accounts) of
           (Some w, Some a) \<Rightarrow>
             unless (\<not> as_hasPrivateKey a) ''Only an account with a private key can be used as producer.''
             (let address = js_trim (as_address a)
              in unless (\<not> safeIsChecksumAddress (hd_valid env) address) ''Invalid producer address format.''
                (unless (network = Mainnet \<and> isProtectedMainnetProducerAddress (hd_protected env) address)
                   ''This mainnet producer address is protected by local safety configuration and was not written to runtime config.''
                (and_then (write_producer env address input) (\<lambda>configPath.
                 unless (configPath = []) ''Could not update runtime producer config.''
                 (returns \<lparr>ac_ok = True,
                    ac_output = js_join nl [''Set block_producer.producer = '' @ address @ ''.'',
                      ''Updated runtime producer config: '' @ configPath,
                      ''Restart the node for a running block producer to use this address.''],
                    ac_walletAddress = Some (ew_address w), ac_activeAccountId = Some (as_id a), ac_activeAccount = Some a,
                    ac_configPath = Some configPath\<rparr>)))))
         | _ \<Rightarrow> fails ''Could not find the selected wallet account.'')))))"

record mutation_result =
  mu_ok :: bool
  mu_output :: string
  mu_walletAddress :: "string option"
  mu_activeAccountId :: "string option"
  mu_account :: "account_summary option"
  mu_accounts :: "account_summary list"

definition wallet_address_of :: "handler_env \<Rightarrow> network \<Rightarrow> string option step" where
  "wallet_address_of env n = and_then (stored_file_of env n) (\<lambda>w. returns (map_option ew_address w))"

definition active_id_of :: "handler_env \<Rightarrow> network \<Rightarrow> string option step" where
  "active_id_of env n = and_then (stored_file_of env n) (\<lambda>w. returns (Option.bind w ew_activeAccountId))"

text \<open>The object literal of a failure and of a success, read in its order.\<close>

definition mutation_of ::
  "handler_env \<Rightarrow> network \<Rightarrow> bool \<Rightarrow> string \<Rightarrow> string option step \<Rightarrow> account_summary option \<Rightarrow> mutation_result step" where
  "mutation_of env n ok t activeId account =
     and_then (wallet_address_of env n) (\<lambda>address.
     and_then activeId (\<lambda>activeAccountId.
     and_then (accounts_of env n) (\<lambda>accounts.
     returns \<lparr>mu_ok = ok, mu_output = t, mu_walletAddress = address, mu_activeAccountId = activeAccountId,
       mu_account = account, mu_accounts = accounts\<rparr>)))"

definition mutation_failed :: "handler_env \<Rightarrow> network \<Rightarrow> string \<Rightarrow> mutation_result step" where
  "mutation_failed env n message = mutation_of env n False message (active_id_of env n) None"

definition caught_as :: "(string \<Rightarrow> ('s, 'r) flow) \<Rightarrow> ('s, 'r) flow \<Rightarrow> ('s, 'r) flow" where
  "caught_as handler f s = (case f s of (Inl message, s1) \<Rightarrow> handler message s1 | (Inr r, s1) \<Rightarrow> (Inr r, s1))"

definition walletCreateDerivedAccount :: "handler_env \<Rightarrow> jsval \<Rightarrow> mutation_result step" where
  "walletCreateDerivedAccount env input =
     (let network = walletNetwork input
      in caught_as (mutation_failed env network)
        (and_then (stored_file_of env network) (\<lambda>wallet.
         unless (wallet = None) ''No wallet stored in Koinos One yet.''
         (and_then (session_in network) (\<lambda>session.
          unless (Option.bind (Option.bind session uw_seedPhrase) some_text = None)
            ''Unlock a seed-backed wallet first to derive another account.''
          (and_then (try_store (hd_message env)
             (createDerivedWalletAccount (hd_lib env) (hd_env env) (name_given env input) (Some network))) (\<lambda>account.
           case account of
             None \<Rightarrow> fails ''Could not create a derived wallet account.''
           | Some a \<Rightarrow>
               and_then (syncNonMainnetProducerRuntimeConfig env (as_address a) input (as_hasPrivateKey a)) (\<lambda>path.
               mutation_of env network True
                 (appendProducerConfigSyncNote (''Created derived wallet account '' @ as_name a @ ''.'') path)
                 (returns (Some (as_id a))) (Some a)))))))))"

definition walletImportAccount :: "handler_env \<Rightarrow> jsval \<Rightarrow> mutation_result step" where
  "walletImportAccount env input =
     (let network = walletNetwork input;
          privateKey = text_field (hd_lib env) (js_prop ''privateKey'' input);
          password = raw_text (hd_lib env) (js_prop ''password'' input)
      in caught_as (mutation_failed env network)
        (and_then (stored_file_of env network) (\<lambda>wallet.
         unless (wallet = None) ''No wallet stored in Koinos One yet.''
         (unless (privateKey = []) ''Private key is required.''
         (unless (length password < 8) ''Password must be at least 8 characters long.''
         (and_then (try_store (\<lambda>e. if e = BadKey then hd_wifMessage env else hd_message env e)
            (importWalletAccount (hd_lib env) (hd_env env) privateKey password (name_given env input) (Some network))) (\<lambda>account.
          case account of
            None \<Rightarrow> fails ''Could not import the wallet account.''
          | Some a \<Rightarrow>
              and_then (syncNonMainnetProducerRuntimeConfig env (as_address a) input (as_hasPrivateKey a)) (\<lambda>path.
              mutation_of env network True
                (appendProducerConfigSyncNote (''Imported wallet account '' @ as_name a @ ''.'') path)
                (returns (Some (as_id a))) (Some a)))))))))"

definition walletImportWatchAccount :: "handler_env \<Rightarrow> jsval \<Rightarrow> mutation_result step" where
  "walletImportWatchAccount env input =
     (let network = walletNetwork input; address = text_field (hd_lib env) (js_prop ''address'' input)
      in caught_as (mutation_failed env network)
        (and_then (stored_file_of env network) (\<lambda>wallet.
         unless (wallet = None) ''No wallet stored in Koinos One yet.''
         (unless (address = []) ''Address is required.''
         (and_then (on_store (importWatchWalletAccount (hd_lib env) (hd_env env) address (name_given env input) (Some network)))
          (\<lambda>account. case account of
            None \<Rightarrow> fails ''Could not import the watch-only account.''
          | Some a \<Rightarrow> mutation_of env network True (''Imported watch-only account '' @ as_name a @ ''.'')
              (returns (Some (as_id a))) (Some a)))))))"

definition walletRenameAccount :: "handler_env \<Rightarrow> jsval \<Rightarrow> mutation_result step" where
  "walletRenameAccount env input =
     (let network = walletNetwork input; accountId = text_field (hd_lib env) (js_prop ''accountId'' input);
          name = text_field (hd_lib env) (js_prop ''name'' input)
      in caught_as (mutation_failed env network)
        (unless (accountId = []) ''Account id is required.''
        (unless (name = []) ''Account name is required.''
        (and_then (on_store (renameWalletAccount (hd_lib env) (hd_env env) accountId name (Some network))) (\<lambda>account.
         case account of
           None \<Rightarrow> fails ''Could not rename the wallet account.''
         | Some a \<Rightarrow> mutation_of env network True (''Renamed wallet account to '' @ as_name a @ ''.'')
             (active_id_of env network) (Some a))))))"

definition walletRemoveAccount :: "handler_env \<Rightarrow> jsval \<Rightarrow> mutation_result step" where
  "walletRemoveAccount env input =
     (let network = walletNetwork input; accountId = text_field (hd_lib env) (js_prop ''accountId'' input)
      in caught_as (mutation_failed env network)
        (unless (accountId = []) ''Account id is required.''
        (and_then (on_store (removeWalletAccount (hd_lib env) (hd_env env) accountId (Some network))) (\<lambda>accounts.
         case accounts of
           None \<Rightarrow> fails ''Could not remove the wallet account.''
         | Some as \<Rightarrow>
             and_then (wallet_address_of env network) (\<lambda>address.
             and_then (active_id_of env network) (\<lambda>activeAccountId.
             and_then (stored_file_of env network) (\<lambda>wallet.
             returns \<lparr>mu_ok = True, mu_output = ''Wallet account removed.'', mu_walletAddress = address,
               mu_activeAccountId = activeAccountId, mu_account = activeWalletSummary wallet as, mu_accounts = as\<rparr>)))))))"

section \<open>All handlers\<close>

text \<open>A request of the renderer; those that keep no state are left out.\<close>

datatype wallet_request =
    Overview jsval | ListAccounts jsval | Import jsval | Unlock jsval | CloseSession jsval | DeleteWallet jsval
  | ShowSeed jsval | SetActive jsval | SetProducer jsval | CreateDerived jsval | ImportAccount jsval
  | ImportWatch jsval | RenameAccount jsval | RemoveAccount jsval

fun request_input :: "wallet_request \<Rightarrow> jsval" where
  "request_input (Overview i) = i"
| "request_input (ListAccounts i) = i"
| "request_input (Import i) = i"
| "request_input (Unlock i) = i"
| "request_input (CloseSession i) = i"
| "request_input (DeleteWallet i) = i"
| "request_input (ShowSeed i) = i"
| "request_input (SetActive i) = i"
| "request_input (SetProducer i) = i"
| "request_input (CreateDerived i) = i"
| "request_input (ImportAccount i) = i"
| "request_input (ImportWatch i) = i"
| "request_input (RenameAccount i) = i"
| "request_input (RemoveAccount i) = i"

fun handle :: "handler_env \<Rightarrow> wallet_request \<Rightarrow> handler_state \<Rightarrow> handler_state" where
  "handle env (Overview i) s = snd (walletOverview env i s)"
| "handle env (ListAccounts i) s = snd (walletListAccounts env i s)"
| "handle env (Import i) s = snd (walletImport env i s)"
| "handle env (Unlock i) s = snd (walletUnlock env i s)"
| "handle env (CloseSession i) s = snd (walletClose env i s)"
| "handle env (DeleteWallet i) s = snd (walletDelete env i s)"
| "handle env (ShowSeed i) s = snd (walletShowSeed env i s)"
| "handle env (SetActive i) s = snd (walletSetActiveAccount env i s)"
| "handle env (SetProducer i) s = snd (walletSetProducerAccount env i s)"
| "handle env (CreateDerived i) s = snd (walletCreateDerivedAccount env i s)"
| "handle env (ImportAccount i) s = snd (walletImportAccount env i s)"
| "handle env (ImportWatch i) s = snd (walletImportWatchAccount env i s)"
| "handle env (RenameAccount i) s = snd (walletRenameAccount env i s)"
| "handle env (RemoveAccount i) s = snd (walletRemoveAccount env i s)"

text \<open>A session of requests, each with its own clock, random ids and answers.\<close>

fun handle_all :: "(handler_env \<times> wallet_request) list \<Rightarrow> handler_state \<Rightarrow> handler_state" where
  "handle_all [] s = s"
| "handle_all ((env, r) # rs) s = handle_all rs (handle env r s)"

section \<open>The configuration of the producer is guarded\<close>

text \<open>What a request may write: nothing, or one address for its own network that passes the address check, and on
  mainnet only when it asks for the producer account and the address is not protected.\<close>

definition fair_write :: "handler_env \<Rightarrow> wallet_request \<Rightarrow> network \<Rightarrow> string \<Rightarrow> bool" where
  "fair_write env r n a \<longleftrightarrow>
     n = walletNetwork (request_input r) \<and> safeIsChecksumAddress (hd_valid env) a \<and>
     (n = Mainnet \<longrightarrow> (\<exists>i. r = SetProducer i) \<and> \<not> isProtectedMainnetProducerAddress (hd_protected env) a)"

definition fair_config :: "handler_env \<Rightarrow> wallet_request \<Rightarrow> handler_state \<Rightarrow> handler_state \<Rightarrow> bool" where
  "fair_config env r s s1 \<longleftrightarrow>
     hs_config s1 = hs_config s \<or>
     (\<exists>a. hs_config s1 = hs_config s @ [(walletNetwork (request_input r), a)] \<and>
        fair_write env r (walletNetwork (request_input r)) a)"

named_theorems config_intros

lemma on_storeI [config_intros]:
  "(\<And>x s1. hs_config s1 = hs_config s \<Longrightarrow> Q x s1) \<Longrightarrow> ends (on_store f) s P Q"
  by (simp add: ends_def on_store_def split: prod.split)

lemma try_storeI [config_intros]:
  "(\<And>m s1. hs_config s1 = hs_config s \<Longrightarrow> P m s1) \<Longrightarrow> (\<And>x s1. hs_config s1 = hs_config s \<Longrightarrow> Q x s1) \<Longrightarrow>
   ends (try_store message f) s P Q"
  by (auto simp: ends_def try_store_def split: prod.split sum.split)

lemma stored_file_ofI [config_intros]:
  "(\<And>w s1. hs_config s1 = hs_config s \<Longrightarrow> Q w s1) \<Longrightarrow> ends (stored_file_of env n) s P Q"
  by (simp add: stored_file_of_def on_storeI)

lemma accounts_ofI [config_intros]:
  "(\<And>as s1. hs_config s1 = hs_config s \<Longrightarrow> Q as s1) \<Longrightarrow> ends (accounts_of env n) s P Q"
  by (simp add: accounts_of_def on_storeI)

lemma session_inI [config_intros]: "(\<And>u. Q u s) \<Longrightarrow> ends (session_in n) s P Q"
  by (simp add: ends_def session_in_def)

lemma ends_returnsI [config_intros]: "Q x s \<Longrightarrow> ends (returns x) s P Q"
  by (simp add: ends_returns)

lemma wallet_address_ofI [config_intros]:
  "(\<And>a s1. hs_config s1 = hs_config s \<Longrightarrow> Q a s1) \<Longrightarrow> ends (wallet_address_of env n) s P Q"
  unfolding wallet_address_of_def by (intro ends_and_thenI config_intros)

lemma active_id_ofI [config_intros]:
  "(\<And>a s1. hs_config s1 = hs_config s \<Longrightarrow> Q a s1) \<Longrightarrow> ends (active_id_of env n) s P Q"
  unfolding active_id_of_def by (intro ends_and_thenI config_intros)

lemma ends_caught_as:
  "ends (caught_as handler f) s P Q = ends f s (\<lambda>m s1. ends (handler m) s1 P Q) Q"
  by (simp add: ends_def caught_as_def split: prod.split sum.split)

lemma mutation_failedI:
  "(\<And>r s1. hs_config s1 = hs_config s \<Longrightarrow> Q r s1) \<Longrightarrow> ends (mutation_failed env n m) s P Q"
  unfolding mutation_failed_def mutation_of_def by (intro ends_and_thenI config_intros) simp

lemma mutation_of_return:
  "(\<And>r s1. hs_config s1 = hs_config s \<Longrightarrow> Q r s1) \<Longrightarrow> ends (mutation_of env n ok t (returns i) a) s P Q"
  unfolding mutation_of_def by (intro ends_and_thenI config_intros) simp

lemma mutation_of_active:
  "(\<And>r s1. hs_config s1 = hs_config s \<Longrightarrow> Q r s1) \<Longrightarrow> ends (mutation_of env n ok t (active_id_of env n) a) s P Q"
  unfolding mutation_of_def by (intro ends_and_thenI config_intros) simp

definition synced :: "handler_env \<Rightarrow> jsval \<Rightarrow> handler_state \<Rightarrow> handler_state \<Rightarrow> bool" where
  "synced env input s s1 \<longleftrightarrow>
     hs_config s1 = hs_config s \<or>
     (\<exists>a. hs_config s1 = hs_config s @ [(walletNetwork input, a)] \<and> walletNetwork input \<noteq> Mainnet \<and>
        safeIsChecksumAddress (hd_valid env) a)"

lemma sync_runI [config_intros]:
  assumes "\<And>p s1. synced env input s s1 \<Longrightarrow> Q p s1"
  shows "ends (syncNonMainnetProducerRuntimeConfig env address input key) s P Q"
  using assms
  by (auto simp: syncNonMainnetProducerRuntimeConfig_def Let_def ends_def returns_def write_producer_def synced_def
      split: sum.split)

lemma or_caught_ends:
  "ends f s (\<lambda>m s1. R (snd (handler m s1))) (\<lambda>x s1. R s1) \<Longrightarrow> R (snd (or_caught handler f s))"
  by (auto simp: or_caught_def ends_def split: prod.splits sum.splits)

lemma ends_snd: "ends f s (\<lambda>m. R) (\<lambda>x. R) \<Longrightarrow> R (snd (f s))"
  by (auto simp: ends_def split: prod.splits sum.splits)

lemma or_failed_snd: "ends f s (\<lambda>m. R) (\<lambda>x. R) \<Longrightarrow> R (snd (or_failed failed f s))"
  by (auto simp: or_failed_def ends_def split: prod.splits sum.splits)

lemma active_failed_config [simp]: "hs_config (snd (active_failed env n m s)) = hs_config s"
proof -
  have "ends (stored_file_of env n) s (\<lambda>m s1. hs_config s1 = hs_config s) (\<lambda>w s1. hs_config s1 = hs_config s)"
    by (intro config_intros)
  then show ?thesis by (auto simp: active_failed_def ends_def split: prod.splits sum.splits)
qed

lemmas fair_defs = fair_config_def fair_write_def synced_def

lemma write_producer_ends:
  "ends (write_producer env a input) s P Q =
     (case hd_update env a input of
        Inl m \<Rightarrow> P m (s\<lparr>hs_config := hs_config s @ [(walletNetwork input, a)]\<rparr>)
      | Inr p \<Rightarrow> Q p (s\<lparr>hs_config := hs_config s @ [(walletNetwork input, a)]\<rparr>))"
  by (simp add: ends_def write_producer_def split: sum.split)

lemma caught_mutation:
  assumes "ends f s (\<lambda>m s1. hs_config s1 = hs_config s) (\<lambda>x s1. fair_config env r s s1)"
  shows "fair_config env r s (snd (caught_as (mutation_failed env' n) f s))"
  by (rule ends_snd, unfold ends_caught_as, rule ends_mono [OF assms])
    (auto intro!: mutation_failedI simp: fair_config_def)

lemma handle_fair: "fair_config env r s (handle env r s)"
proof (cases r)
  case (Overview i)
  show ?thesis unfolding Overview handle.simps
    by (rule ends_snd, unfold walletOverview_def Let_def) (intro ends_and_thenI config_intros; simp add: fair_config_def)
next
  case (ListAccounts i)
  show ?thesis unfolding ListAccounts handle.simps
    by (rule ends_snd, unfold walletListAccounts_def Let_def) (intro ends_and_thenI config_intros; simp add: fair_config_def)
next
  case (Import i)
  show ?thesis unfolding Import handle.simps walletImport_def Let_def
    by (rule or_failed_snd) (intro flow_intros config_intros; auto simp: fair_defs)
next
  case (Unlock i)
  have same: "hs_config (snd (case stored_file_of env n s1 of (r, s2) \<Rightarrow> (f r, s2))) = hs_config s1" for n s1 f
  proof -
    have "ends (stored_file_of env n) s1 (\<lambda>m s2. hs_config s2 = hs_config s1) (\<lambda>w s2. hs_config s2 = hs_config s1)"
      by (intro config_intros) simp
    from ends_snd [OF this] show ?thesis by (cases "stored_file_of env n s1") simp
  qed
  show ?thesis unfolding Unlock handle.simps walletUnlock_def Let_def
    by (rule or_caught_ends, rule ends_and_thenI, intro config_intros, intro ends_optionI)
      (auto intro!: flow_intros config_intros simp: fair_config_def same)
next
  case (CloseSession i)
  show ?thesis unfolding CloseSession handle.simps
    by (rule ends_snd, unfold walletClose_def Let_def) (intro flow_intros config_intros; simp add: fair_config_def)
next
  case (DeleteWallet i)
  show ?thesis unfolding DeleteWallet handle.simps
    by (rule ends_snd, unfold walletDelete_def Let_def) (intro flow_intros config_intros; simp add: fair_config_def)
next
  case (ShowSeed i)
  show ?thesis unfolding ShowSeed handle.simps
    by (rule ends_snd, unfold walletShowSeed_def Let_def)
      (intro flow_intros config_intros; auto intro!: flow_intros config_intros simp: fair_config_def)
next
  case (SetActive i)
  show ?thesis unfolding SetActive handle.simps walletSetActiveAccount_def Let_def
    by (rule or_caught_ends)
      (intro flow_intros config_intros; auto intro!: flow_intros config_intros simp: fair_defs split: option.split)
next
  case (SetProducer i)
  show ?thesis unfolding SetProducer handle.simps walletSetProducerAccount_def Let_def
    by (rule or_caught_ends)
      (intro flow_intros config_intros; auto intro!: flow_intros config_intros
        simp: fair_defs write_producer_ends flow_rules split: option.split sum.split)
next
  case (CreateDerived i)
  show ?thesis unfolding CreateDerived handle.simps walletCreateDerivedAccount_def Let_def
    by (rule caught_mutation) (intro flow_intros config_intros mutation_of_return; auto simp: fair_defs)
next
  case (ImportAccount i)
  show ?thesis unfolding ImportAccount handle.simps walletImportAccount_def Let_def
    by (rule caught_mutation) (intro flow_intros config_intros mutation_of_return; auto simp: fair_defs)
next
  case (ImportWatch i)
  show ?thesis unfolding ImportWatch handle.simps walletImportWatchAccount_def Let_def
    by (rule caught_mutation) (intro flow_intros config_intros mutation_of_return; auto simp: fair_defs)
next
  case (RenameAccount i)
  show ?thesis unfolding RenameAccount handle.simps walletRenameAccount_def Let_def
    by (rule caught_mutation) (intro flow_intros config_intros mutation_of_active; auto simp: fair_defs)
next
  case (RemoveAccount i)
  show ?thesis unfolding RemoveAccount handle.simps walletRemoveAccount_def Let_def
    by (rule caught_mutation) (intro flow_intros config_intros; auto simp: fair_defs)
qed

text \<open>C16: The producer address of a runtime configuration is guarded: in every session of wallet requests each
  write is caused by a request for its own network and writes an address that passes the address check; on
  mainnet only the request to set the producer account writes at all, and never a protected address.\<close>

theorem producer_config_is_guarded:
  "\<exists>written. hs_config (handle_all rs s) = hs_config s @ written \<and>
     list_all (\<lambda>(n, a). list_ex (\<lambda>(env, r). fair_write env r n a) rs) written"
proof (induction rs arbitrary: s)
  case (Cons e rs)
  obtain env r where e: "e = (env, r)" by (cases e)
  from Cons.IH obtain later where later: "hs_config (handle_all rs (handle env r s)) = hs_config (handle env r s) @ later"
    "list_all (\<lambda>(n, a). list_ex (\<lambda>(env, r). fair_write env r n a) rs) later" by blast
  from handle_fair [of env r s] obtain now where now: "hs_config (handle env r s) = hs_config s @ now"
    "list_all (\<lambda>(n, a). fair_write env r n a) now" by (force simp: fair_config_def)
  show ?case
    using later now by (intro exI [of _ "now @ later"]) (auto simp: e list_all_iff)
qed simp

section \<open>Requests keep the wallet store in order\<close>

text \<open>New ids are new when a request is served.\<close>

fun fresh_session :: "wallet_lib \<Rightarrow> (handler_env \<times> wallet_request) list \<Rightarrow> handler_state \<Rightarrow> bool" where
  "fresh_session lib [] s = True"
| "fresh_session lib ((env, r) # rs) s \<longleftrightarrow>
     hd_lib env = lib \<and> fresh (hs_store s) (walletNetwork (request_input r)) (hd_env env) \<and>
     fresh_session lib rs (handle env r s)"

text \<open>In a store in order, loading a wallet changes nothing; every other operation is a step of the store.\<close>

definition in_order :: "wallet_lib \<Rightarrow> handler_state \<Rightarrow> bool" where
  "in_order lib s \<longleftrightarrow> lib_ok lib \<and> wallet_reachable lib (hs_store s)"

lemma in_orderD: "in_order lib s \<Longrightarrow> store_ok (hs_store s)"
  using reachable_ok by (auto simp: in_order_def)

named_theorems order_intros

lemma stored_orderI [order_intros]:
  "in_order lib s \<Longrightarrow> (\<And>w. Q w s) \<Longrightarrow> ends (stored_file_of env n) s P Q"
  using load_keeps [OF in_orderD, of lib s "hd_lib env" "hd_env env" n]
  by (cases "loadWalletFile (hd_lib env) (hd_env env) (Some n) (hs_store s)")
    (simp add: ends_def stored_file_of_def on_store_def)

lemma listed_orderI [order_intros]:
  "in_order lib s \<Longrightarrow> (\<And>w. Q w s) \<Longrightarrow> ends (accounts_of env n) s P Q"
  using list_store [OF in_orderD, of lib s "hd_lib env" "hd_env env" n]
  by (cases "listWalletAccounts (hd_lib env) (hd_env env) (Some n) (hs_store s)")
    (simp add: ends_def accounts_of_def on_store_def)

lemma revealed_orderI [order_intros]:
  "in_order lib s \<Longrightarrow> (\<And>x. Q x s) \<Longrightarrow> ends (on_store (loadWalletAccountSecrets l e i (Some n))) s P Q"
  using reveal_store [OF in_orderD, of lib s l e i n]
  by (cases "loadWalletAccountSecrets l e i (Some n) (hs_store s)") (simp add: ends_def on_store_def)

lemma step_in_order: "in_order lib s \<Longrightarrow> wallet_step lib n (hs_store s) st \<Longrightarrow> in_order lib (s\<lparr>hs_store := st\<rparr>)"
  by (auto simp: in_order_def intro: wallet_reachable.step)

lemma on_store_order:
  assumes "in_order lib s" "wallet_step lib n (hs_store s) (snd (f (hs_store s)))" "\<And>x s1. in_order lib s1 \<Longrightarrow> Q x s1"
  shows "ends (on_store f) s P Q"
  using step_in_order [OF assms(1,2)] assms(3)
  by (cases "f (hs_store s)") (simp add: ends_def on_store_def)

lemma try_store_order:
  assumes "in_order lib s" "wallet_step lib n (hs_store s) (snd (f (hs_store s)))"
    "\<And>m s1. in_order lib s1 \<Longrightarrow> P m s1" "\<And>x s1. in_order lib s1 \<Longrightarrow> Q x s1"
  shows "ends (try_store message f) s P Q"
  using step_in_order [OF assms(1,2)] assms(3,4)
  by (cases "f (hs_store s)") (auto simp: ends_def try_store_def split: sum.split)

lemma config_in_order [simp]: "in_order lib (s\<lparr>hs_config := c\<rparr>) = in_order lib s"
  by (simp add: in_order_def)

lemma sync_orderI [order_intros]:
  assumes "in_order lib s" "\<And>p s1. in_order lib s1 \<Longrightarrow> Q p s1"
  shows "ends (syncNonMainnetProducerRuntimeConfig env address input key) s P Q"
  using assms
  by (auto simp: syncNonMainnetProducerRuntimeConfig_def Let_def ends_def returns_def write_producer_def split: sum.split)

lemma address_orderI [order_intros]:
  "in_order lib s \<Longrightarrow> (\<And>a. Q a s) \<Longrightarrow> ends (wallet_address_of env n) s P Q"
  unfolding wallet_address_of_def by (intro ends_and_thenI stored_orderI ends_returnsI)

lemma active_orderI [order_intros]:
  "in_order lib s \<Longrightarrow> (\<And>a. Q a s) \<Longrightarrow> ends (active_id_of env n) s P Q"
  unfolding active_id_of_def by (intro ends_and_thenI stored_orderI ends_returnsI)

lemma mutation_failed_order [order_intros]:
  "in_order lib s \<Longrightarrow> (\<And>r. Q r s) \<Longrightarrow> ends (mutation_failed env n m) s P Q"
  unfolding mutation_failed_def mutation_of_def by (intro ends_and_thenI order_intros ends_returnsI)

lemma mutation_return_order [order_intros]:
  "in_order lib s \<Longrightarrow> (\<And>r. Q r s) \<Longrightarrow> ends (mutation_of env n ok t (returns i) a) s P Q"
  unfolding mutation_of_def by (intro ends_and_thenI order_intros ends_returnsI)

lemma mutation_active_order [order_intros]:
  "in_order lib s \<Longrightarrow> (\<And>r. Q r s) \<Longrightarrow> ends (mutation_of env n ok t (active_id_of env n) a) s P Q"
  unfolding mutation_of_def by (intro ends_and_thenI order_intros ends_returnsI)

lemma active_failed_order: "in_order lib s \<Longrightarrow> in_order lib (snd (active_failed env n m s))"
proof -
  assume s: "in_order lib s"
  have "ends (stored_file_of env n) s (\<lambda>m. in_order lib) (\<lambda>w. in_order lib)"
    by (rule stored_orderI [OF s]) (rule s)
  then show ?thesis by (auto simp: active_failed_def ends_def split: prod.splits sum.splits)
qed

lemma caught_order:
  assumes "ends f s (\<lambda>m. in_order lib) (\<lambda>x. in_order lib)"
  shows "in_order lib (snd (caught_as (mutation_failed env n) f s))"
  by (rule ends_snd, unfold ends_caught_as, rule ends_mono [OF assms]) (auto intro: mutation_failed_order)

lemma handle_order:
  assumes s: "in_order lib s" and l: "hd_lib env = lib" and new: "fresh (hs_store s) (walletNetwork (request_input r)) (hd_env env)"
  shows "in_order lib (handle env r s)"
proof -
  have e: "env_ok (hd_env env)" using new by (simp add: fresh_def)
  note ord = order_intros [where lib = lib]
  note lib = s [unfolded in_order_def, THEN conjunct1]
  show ?thesis
  proof (cases r)
    case (Overview i)
    show ?thesis unfolding Overview handle.simps
      by (rule ends_snd, unfold walletOverview_def Let_def) (intro ends_and_thenI ord config_intros(5,6); rule s)
  next
    case (ListAccounts i)
    show ?thesis unfolding ListAccounts handle.simps
      by (rule ends_snd, unfold walletListAccounts_def Let_def) (intro ends_and_thenI ord ends_returnsI; rule s)
  next
    case (Import i)
    show ?thesis unfolding Import handle.simps walletImport_def Let_def
      by (rule or_failed_snd, intro flow_intros ends_returnsI try_store_order [where lib = lib] ord)
        (auto simp: s l e intro: wallet_step.saved lib_okD(3) [OF lib])
  next
    case (CreateDerived i)
    have n: "fresh (hs_store s) (walletNetwork i) (hd_env env)" using new CreateDerived by simp
    show ?thesis unfolding CreateDerived handle.simps walletCreateDerivedAccount_def Let_def l
      by (rule caught_order, intro flow_intros session_inI try_store_order [where lib = lib] ord)
        (auto simp: s intro: wallet_step.derived [OF n])
  next
    case (ImportAccount i)
    have n: "fresh (hs_store s) (walletNetwork i) (hd_env env)" using new ImportAccount by simp
    show ?thesis unfolding ImportAccount handle.simps walletImportAccount_def Let_def l
      by (rule caught_order, intro flow_intros session_inI on_store_order [where lib = lib] try_store_order [where lib = lib] ord ends_returnsI)
        (auto simp: s intro: wallet_step.imported [OF n])
  next
    case (ImportWatch i)
    have n: "fresh (hs_store s) (walletNetwork i) (hd_env env)" using new ImportWatch by simp
    show ?thesis unfolding ImportWatch handle.simps walletImportWatchAccount_def Let_def l
      by (rule caught_order, intro flow_intros session_inI on_store_order [where lib = lib] try_store_order [where lib = lib] ord ends_returnsI)
        (auto simp: s intro: wallet_step.watched [OF n])
  next
    case (RenameAccount i)
    show ?thesis unfolding RenameAccount handle.simps walletRenameAccount_def Let_def l
      by (rule caught_order, intro flow_intros session_inI on_store_order [where lib = lib] try_store_order [where lib = lib] ord ends_returnsI)
        (auto simp: s intro: wallet_step.renamed [OF e])
  next
    case (RemoveAccount i)
    show ?thesis unfolding RemoveAccount handle.simps walletRemoveAccount_def Let_def l
      by (rule caught_order, intro flow_intros session_inI on_store_order [where lib = lib] try_store_order [where lib = lib] ord ends_returnsI)
        (auto simp: s intro: wallet_step.removed [OF e])
  next
    case (CloseSession i)
    show ?thesis unfolding CloseSession handle.simps
      by (rule ends_snd, unfold walletClose_def Let_def,
          intro flow_intros session_inI on_store_order [where lib = lib] ord ends_returnsI)
        (auto simp: s l intro: wallet_step.closed)
  next
    case (DeleteWallet i)
    show ?thesis unfolding DeleteWallet handle.simps
      by (rule ends_snd, unfold walletDelete_def Let_def,
          intro flow_intros session_inI on_store_order [where lib = lib] ord ends_returnsI)
        (auto simp: s l intro: wallet_step.deleted)
  next
    case (ShowSeed i)
    show ?thesis unfolding ShowSeed handle.simps
      by (rule ends_snd, unfold walletShowSeed_def Let_def, intro flow_intros session_inI ord ends_returnsI)
        (auto simp: s intro!: flow_intros revealed_orderI [where lib = lib] ends_returnsI)
  next
    case (Unlock i)
    have again: "in_order lib (snd (case stored_file_of env n s1 of (r, s2) \<Rightarrow> (f r, s2)))" if "in_order lib s1" for n s1 f
    proof -
      have "ends (stored_file_of env n) s1 (\<lambda>m. in_order lib) (\<lambda>w. in_order lib)"
        by (rule stored_orderI [OF that]) (rule that)
      from ends_snd [OF this] show ?thesis by (cases "stored_file_of env n s1") simp
    qed
    show ?thesis unfolding Unlock handle.simps walletUnlock_def Let_def l
      by (rule or_caught_ends, rule ends_and_thenI, rule stored_orderI [OF s], intro ends_optionI)
        (auto simp: s intro!: flow_intros try_store_order [where lib = lib] ends_returnsI again intro: wallet_step.unlocked)
  next
    case (SetActive i)
    show ?thesis unfolding SetActive handle.simps walletSetActiveAccount_def Let_def l
      by (rule or_caught_ends, intro flow_intros on_store_order [where lib = lib] ord)
        (auto simp: s intro!: flow_intros ord active_failed_order ends_returnsI intro: wallet_step.activated [OF e] split: option.split)
  next
    case (SetProducer i)
    show ?thesis unfolding SetProducer handle.simps walletSetProducerAccount_def Let_def
      by (rule or_caught_ends, intro flow_intros ord)
        (auto simp: s write_producer_ends flow_rules intro!: flow_intros active_failed_order ends_returnsI
          split: option.split sum.split)
  qed
qed

text \<open>C40: Every session of wallet requests is a run of the wallet store: whatever the renderer asks, in any order and
  for any networks, with new ids for new accounts, the store that results is reached by steps of the wallet
  operations, so that its invariant (\<open>wallet_store_invariant\<close>) holds after every request.\<close>

theorem requests_keep_the_wallet_store:
  assumes "lib_ok lib" "wallet_reachable lib (hs_store s)" "fresh_session lib rs s"
  shows "wallet_reachable lib (hs_store (handle_all rs s))"
  using assms
proof (induction rs arbitrary: s)
  case (Cons e rs)
  obtain env r where e: "e = (env, r)" by (cases e)
  have "in_order lib (handle env r s)"
    using Cons.prems by (intro handle_order) (auto simp: e in_order_def)
  with Cons.IH [of "handle env r s"] Cons.prems show ?case by (simp add: e in_order_def)
qed simp

definition toy_handler :: handler_env where
  "toy_handler = \<lparr>hd_lib = toy_lib, hd_env = toy_env ''b'', hd_message = (\<lambda>_. ''e''), hd_wifMessage = ''e'',
     hd_valid = (\<lambda>_. True), hd_protected = [], hd_update = (\<lambda>_ _. Inr ''/config.yml''), hd_walletPath = (\<lambda>_. ''/w''),
     hd_phrase = []\<rparr>"

theorem requests_keep_the_wallet_store_witness:
  "wallet_reachable toy_lib (hs_store (handle_all
     [(toy_handler, ImportWatch (JObj [(''address'', JStr ''1Watch'')]))] \<lparr>hs_store = toy_saved, hs_config = []\<rparr>))"
  by (rule requests_keep_the_wallet_store [OF toy_lib_ok])
    (simp_all add: toy_saved_reachable toy_handler_def walletNetwork_def profile_normalizeKoinosNetworkId_def toy_fresh)

section \<open>Secrets\<close>

text \<open>Keys and seed phrases are shown only from the open session of the network, and only when it is of the stored
  wallet.\<close>

lemma secrets_need_an_open_session:
  assumes "walletShowSeed env input s = (Inr r, s1)" "sr_firstAccountPrivateKeyWif r \<noteq> None \<or> sr_seedPhrase r \<noteq> None"
  shows "\<exists>u w. getUnlockedWalletForNetwork (Some (walletNetwork input))
      (snd (loadWalletFile (hd_lib env) (hd_env env) (Some (walletNetwork input)) (hs_store s))) = Some u \<and>
    fst (loadWalletFile (hd_lib env) (hd_env env) (Some (walletNetwork input)) (hs_store s)) = Some w \<and>
    uw_address u = ew_address w"
  using assms
  by (auto simp: walletShowSeed_def Let_def and_then_def stored_file_of_def on_store_def session_in_def returns_def no_secrets_def
      split: prod.splits option.splits if_splits)

end
