(* ===== verification/ProducerConfig.thy ===== *)
theory ProducerConfig
  imports WalletTransfers NodePath LogFilters
begin

text \<open>
  The producer address in \<open>config.yml\<close> and the key files of the block producer: electron/lib/producer-keys.ts,
  the path functions of electron/lib/node-paths.ts and the line editing of electron/main.ts
  (\<open>upsertBlockProducerConfigValue\<close>, \<open>commentBlockProducerConfigValue\<close> and what writes with them), with the check
  before the node is started (\<open>ensureMonolithProducerRuntimeConfig\<close>).

  The editing works on lines: the section \<open>block_producer:\<close>, its end, the first line of a key. \<open>active_values\<close> reads
  the lines of a key that are not commented out. A key that is there once is read back after it was set
  (\<open>set_value_is_read\<close>) and gone after it was cleared (\<open>cleared_value_is_gone\<close>); a commented line before the
  active one defeats both (\<open>comment_shields_the_value\<close>).
\<close>

section \<open>Editing the section\<close>

definition js_trim_end :: "string \<Rightarrow> string" where
  "js_trim_end s = rev (dropWhile is_space (rev s))"

definition config_lines :: "string \<Rightarrow> string list" where
  "config_lines content = js_split_re line_break_re content"

definition is_section :: "string \<Rightarrow> bool" where
  "is_section line \<longleftrightarrow> js_trim line = ''block_producer:''"

definition ends_section :: "string \<Rightarrow> bool" where
  "ends_section line \<longleftrightarrow>
     js_test (Seq Bol (Cls (\<lambda>c. \<not> is_space c))) line \<and> \<not> js_starts_with (js_trim line) ''#''"

definition section_end :: "string list \<Rightarrow> nat \<Rightarrow> nat" where
  "section_end lines start =
     (case js_find_index ends_section (drop (Suc start) lines) of None \<Rightarrow> length lines | Some i \<Rightarrow> Suc start + i)"

definition section_body :: "string list \<Rightarrow> nat \<Rightarrow> string list" where
  "section_body lines start = take (section_end lines start - Suc start) (drop (Suc start) lines)"

definition key_re :: "string \<Rightarrow> re" where
  "key_re key = seqs [Bol, Star space, opt (chr (CHR ''#'')), Star space, lit key, chr (CHR '':'')]"

definition find_key :: "string \<Rightarrow> string list \<Rightarrow> nat \<Rightarrow> nat option" where
  "find_key key lines start =
     map_option (\<lambda>i. Suc start + i) (js_find_index (js_test (key_re key)) (section_body lines start))"

text \<open>The end of both functions: no empty lines at the end, one line break.\<close>

definition rejoined :: "string list \<Rightarrow> string" where
  "rejoined lines = js_replace (Seq (plus (chr (CHR 0x0A))) Eol) (\<lambda>_ _. []) (js_join nl lines) @ nl"

definition upsertBlockProducerConfigValue :: "string \<Rightarrow> string \<Rightarrow> string \<Rightarrow> string" where
  "upsertBlockProducerConfigValue content key v =
     (let lines = config_lines content; line = ''  '' @ key @ '': '' @ v
      in case js_find_index is_section lines of
           None \<Rightarrow>
             (let pre = js_trim_end content; separator = (if pre \<noteq> [] then nl @ nl else [])
              in pre @ separator @ ''block_producer:'' @ nl @ line @ nl)
         | Some start \<Rightarrow>
             (case find_key key lines start of
                Some i \<Rightarrow> rejoined (lines[i := line])
              | None \<Rightarrow> rejoined (take (Suc start) lines @ [line] @ drop (Suc start) lines)))"

definition commented_line :: "string \<Rightarrow> string" where
  "commented_line line =
     js_replace (seqs [Bol, Grp 1 (Star space), opt (chr (CHR ''#'')), Star space]) (\<lambda>_ c. cap 1 c @ ''# '') line"

definition was_commented :: "string \<Rightarrow> bool" where
  "was_commented line \<longleftrightarrow> js_test (seqs [Bol, Star space, chr (CHR ''#'')]) line"

definition commentBlockProducerConfigValue :: "string \<Rightarrow> string \<Rightarrow> string \<times> bool" where
  "commentBlockProducerConfigValue content key =
     (let lines = config_lines content
      in case js_find_index is_section lines of
           None \<Rightarrow> (content, False)
         | Some start \<Rightarrow>
             (case find_key key lines start of
                None \<Rightarrow> (content, False)
              | Some i \<Rightarrow> (rejoined (lines[i := commented_line (lines ! i)]), \<not> was_commented (lines ! i))))"

section \<open>Paths, electron/lib/node-paths.ts and basedir-identity.ts\<close>

record os_env =
  os_homedir :: string
  os_HOME :: string

definition default_basedir :: "os_env \<Rightarrow> string" where
  "default_basedir os = path_join [os_homedir os, ''.teleno'']"

definition expandUserPath :: "os_env \<Rightarrow> string \<Rightarrow> string" where
  "expandUserPath os inputPath =
     (let trimmed = js_trim inputPath
      in if trimmed = ''~'' then js_or (os_HOME os) trimmed
         else if js_starts_with trimmed ''~/'' then path_join [os_HOME os, drop 2 trimmed] else trimmed)"

definition isExistingTelenoNodeBaseDir :: "fs \<Rightarrow> string \<Rightarrow> bool" where
  "isExistingTelenoNodeBaseDir fs baseDir \<longleftrightarrow>
     list_ex (\<lambda>parts. fs_exists fs (path_join (baseDir # parts)))
       [[''config.yml''], [''chain'', ''genesis_data.json''], [''jsonrpc'', ''descriptors'', ''koinos_descriptors.pb''],
        [''block_store'', ''db''], [''db''], [''chain'', ''blockchain''], [''chain'', ''db'']]"

definition ensureKoinosBaseDir :: "os_env \<Rightarrow> fs \<Rightarrow> string \<Rightarrow> string" where
  "ensureKoinosBaseDir os fs inputPath =
     (let expanded = expandUserPath os (js_or inputPath (default_basedir os));
          normalized = js_or (js_trim expanded) (default_basedir os);
          trimmed = js_replace (Seq (plus (one_of (CHR ''/'' # bsl))) Eol) (\<lambda>_ _. []) normalized;
          absoluteCandidate = (if is_absolute trimmed then trimmed else path_join [os_homedir os, trimmed])
      in if trimmed = [] then default_basedir os
         else if isExistingTelenoNodeBaseDir fs absoluteCandidate then absoluteCandidate
         else case find (isExistingTelenoNodeBaseDir fs)
                (map (\<lambda>child. path_join [absoluteCandidate, child]) [''basedir'', ''.koinos'']) of
             Some child \<Rightarrow> child
           | None \<Rightarrow>
               let withSuffix = (if list_ex (js_ends_with trimmed) [''.koinos'', ''.koinosgui'', ''.teleno''] then trimmed
                     else path_join [trimmed, ''.koinos''])
               in if is_absolute withSuffix then withSuffix else path_join [os_homedir os, withSuffix])"

definition baseDirConfigFilePath :: "string \<Rightarrow> string" where
  "baseDirConfigFilePath baseDir = path_join [baseDir, ''config.yml'']"

definition blockProducerDirectoryPath :: "string \<Rightarrow> string" where
  "blockProducerDirectoryPath baseDir = path_join [baseDir, ''block_producer'']"

definition blockProducerPublicKeyFilePath :: "string \<Rightarrow> string" where
  "blockProducerPublicKeyFilePath baseDir = path_join [blockProducerDirectoryPath baseDir, ''public.key'']"

definition blockProducerPrivateKeyFilePath :: "string \<Rightarrow> string" where
  "blockProducerPrivateKeyFilePath baseDir = path_join [blockProducerDirectoryPath baseDir, ''private.key'']"

text \<open>The text of a file; \<open>None\<close> where reading throws.\<close>

definition file_text :: "fs \<Rightarrow> string \<Rightarrow> string option" where
  "file_text fs p = (case fs (loc p) of Some (File (Bytes s)) \<Rightarrow> Some s | _ \<Rightarrow> None)"

definition readTrimmedFile :: "fs \<Rightarrow> string \<Rightarrow> string option" where
  "readTrimmedFile fs p = Option.bind (file_text fs p) (\<lambda>s. some_text (js_trim s))"

section \<open>The local key, electron/lib/producer-keys.ts\<close>

text \<open>The public key of a WIF is koilib's; \<open>None\<close> where it throws.\<close>

record local_key =
  lk_publicKey :: "string option"
  lk_publicKeyPath :: "string option"
  lk_privateKeyPath :: "string option"

definition derivePublicKeyFromPrivateKeyFile :: "(string \<Rightarrow> string option) \<Rightarrow> fs \<Rightarrow> string \<Rightarrow> string option" where
  "derivePublicKeyFromPrivateKeyFile public_of fs baseDir =
     Option.bind (readTrimmedFile fs (blockProducerPrivateKeyFilePath baseDir)) public_of"

definition producerKeyLookupSettings :: "os_env \<Rightarrow> fs \<Rightarrow> string \<Rightarrow> string list" where
  "producerKeyLookupSettings os fs baseDir =
     filter (\<lambda>d. d \<noteq> []) (js_unique [ensureKoinosBaseDir os fs baseDir, ensureKoinosBaseDir os fs (default_basedir os)])"

definition path_if_there :: "fs \<Rightarrow> string \<Rightarrow> string option" where
  "path_if_there fs p = (if fs_exists fs p then Some p else None)"

definition direct_key :: "fs \<Rightarrow> string \<Rightarrow> local_key option" where
  "direct_key fs dir =
     map_option (\<lambda>direct. \<lparr>lk_publicKey = Some direct, lk_publicKeyPath = Some (blockProducerPublicKeyFilePath dir),
         lk_privateKeyPath = path_if_there fs (blockProducerPrivateKeyFilePath dir)\<rparr>)
       (readTrimmedFile fs (blockProducerPublicKeyFilePath dir))"

definition derived_key :: "(string \<Rightarrow> string option) \<Rightarrow> fs \<Rightarrow> string \<Rightarrow> local_key option" where
  "derived_key public_of fs dir =
     Option.bind (derivePublicKeyFromPrivateKeyFile public_of fs dir) (\<lambda>derived.
       if derived = [] then None
       else Some \<lparr>lk_publicKey = Some derived, lk_publicKeyPath = path_if_there fs (blockProducerPublicKeyFilePath dir),
         lk_privateKeyPath = path_if_there fs (blockProducerPrivateKeyFilePath dir)\<rparr>)"

text \<open>The first answer of a loop with an early return.\<close>

fun first_answer :: "('a \<Rightarrow> 'b option) \<Rightarrow> 'a list \<Rightarrow> 'b option" where
  "first_answer f [] = None"
| "first_answer f (x # xs) = (case f x of Some y \<Rightarrow> Some y | None \<Rightarrow> first_answer f xs)"

definition resolveLocalProducerPublicKey :: "(string \<Rightarrow> string option) \<Rightarrow> os_env \<Rightarrow> fs \<Rightarrow> string \<Rightarrow> local_key" where
  "resolveLocalProducerPublicKey public_of os fs baseDir =
     (let dirs = producerKeyLookupSettings os fs baseDir
      in case first_answer (direct_key fs) dirs of
           Some k \<Rightarrow> k
         | None \<Rightarrow>
             (case first_answer (derived_key public_of fs) dirs of
                Some k \<Rightarrow> k
              | None \<Rightarrow> \<lparr>lk_publicKey = None, lk_publicKeyPath = None, lk_privateKeyPath = None\<rparr>))"

record created_key =
  ck_ok :: bool
  ck_created :: bool
  ck_output :: string
  ck_publicKey :: "string option"
  ck_publicKeyPath :: "string option"
  ck_privateKeyPath :: "string option"

definition key_not_created :: "string \<Rightarrow> created_key" where
  "key_not_created message =
     \<lparr>ck_ok = False, ck_created = False, ck_output = message, ck_publicKey = None, ck_publicKeyPath = None,
      ck_privateKeyPath = None\<rparr>"

text \<open>The fresh key (its WIF and public key, or the message of a failure) is an argument, as is the message of a
  failed write.\<close>

definition createLocalProducerKeyFile ::
  "(string \<Rightarrow> string option) \<Rightarrow> string + string \<times> string \<Rightarrow> string \<Rightarrow> os_env \<Rightarrow> string \<Rightarrow> fs \<Rightarrow> created_key \<times> fs" where
  "createLocalProducerKeyFile public_of fresh fsError os baseDir fs =
     (let dir = ensureKoinosBaseDir os fs baseDir;
          privateKeyPath = blockProducerPrivateKeyFilePath dir;
          existing = resolveLocalProducerPublicKey public_of os fs dir
      in case Option.bind (lk_publicKey existing) some_text of
           Some publicKey \<Rightarrow>
             (\<lparr>ck_ok = True, ck_created = False,
               ck_output = ''A local producer key already exists at '' @
                 (case Option.bind (lk_privateKeyPath existing) some_text of
                    Some p \<Rightarrow> p | None \<Rightarrow> (case lk_publicKeyPath existing of Some p \<Rightarrow> p | None \<Rightarrow> ''null'')) @
                 ''. It was not modified.'',
               ck_publicKey = Some publicKey, ck_publicKeyPath = lk_publicKeyPath existing,
               ck_privateKeyPath = lk_privateKeyPath existing\<rparr>, fs)
         | None \<Rightarrow>
             (case fresh of
                Inl message \<Rightarrow> (key_not_created message, fs)
              | Inr (wif, publicKey) \<Rightarrow>
                  (case mkdir_all (butlast (loc privateKeyPath)) fs of
                     None \<Rightarrow> (key_not_created fsError, fs)
                   | Some fs1 \<Rightarrow>
                       (case write_file (loc privateKeyPath) (Bytes (wif @ nl)) fs1 of
                          None \<Rightarrow> (key_not_created fsError, fs1)
                        | Some fs2 \<Rightarrow>
                            (\<lparr>ck_ok = True, ck_created = True,
                              ck_output = ''Created local producer key at '' @ privateKeyPath @
                                ''. Register this public key when you want this installation to produce blocks.'',
                              ck_publicKey = Some publicKey,
                              ck_publicKeyPath = path_if_there fs2 (blockProducerPublicKeyFilePath dir),
                              ck_privateKeyPath = Some privateKeyPath\<rparr>, fs2)))))"

section \<open>The address in the configuration\<close>

record config_producer =
  cp_producerAddress :: "string option"
  cp_configHasProducer :: bool
  cp_configFilePath :: string

text \<open>\<open>parse\<close> is the YAML library, \<open>None\<close> where it throws.\<close>

definition producerAddressFromRuntimeConfig ::
  "(jsnum \<Rightarrow> string) \<Rightarrow> (string \<Rightarrow> jsval option) \<Rightarrow> fs \<Rightarrow> string \<Rightarrow> config_producer" where
  "producerAddressFromRuntimeConfig num_str parse fs baseDir =
     (let path = baseDirConfigFilePath baseDir;
          none = \<lparr>cp_producerAddress = None, cp_configHasProducer = False, cp_configFilePath = path\<rparr>
      in case Option.bind (file_text fs path) parse of
           None \<Rightarrow> none
         | Some parsed \<Rightarrow>
             (let v = js_prop ''producer'' (js_prop ''block_producer'' parsed);
                  producerAddress = some_text (if truthy v then js_trim (js_string num_str v) else [])
              in \<lparr>cp_producerAddress = producerAddress, cp_configHasProducer = producerAddress \<noteq> None,
                  cp_configFilePath = path\<rparr>))"

text \<open>Reading or writing the file may throw: \<open>Inl fsError\<close>.\<close>

definition persistProducerRuntimeConfig :: "string \<Rightarrow> string \<Rightarrow> string \<Rightarrow> fs \<Rightarrow> (string + string) \<times> fs" where
  "persistProducerRuntimeConfig fsError baseDir producerAddress fs =
     (let configPath = baseDirConfigFilePath baseDir
      in case (if fs_exists fs configPath then file_text fs configPath else Some []) of
           None \<Rightarrow> (Inl fsError, fs)
         | Some existing \<Rightarrow>
             (let content = upsertBlockProducerConfigValue existing ''producer'' producerAddress;
                  content1 = (if fs_exists fs (blockProducerPrivateKeyFilePath baseDir)
                    then upsertBlockProducerConfigValue content ''private-key-file'' ''block_producer/private.key'' else content)
              in case write_file (loc configPath) (Bytes content1) fs of
                   None \<Rightarrow> (Inl fsError, fs)
                 | Some fs1 \<Rightarrow> (Inr configPath, fs1)))"

definition clearProducerRuntimeConfig :: "string \<Rightarrow> string \<Rightarrow> fs \<Rightarrow> (string + string \<times> bool) \<times> fs" where
  "clearProducerRuntimeConfig fsError baseDir fs =
     (let configPath = baseDirConfigFilePath baseDir
      in if \<not> fs_exists fs configPath then (Inr (configPath, False), fs)
         else case file_text fs configPath of
             None \<Rightarrow> (Inl fsError, fs)
           | Some existing \<Rightarrow>
               (case commentBlockProducerConfigValue existing ''producer'' of
                  (_, False) \<Rightarrow> (Inr (configPath, False), fs)
                | (content, True) \<Rightarrow>
                    (case write_file (loc configPath) (Bytes content) fs of
                       None \<Rightarrow> (Inl fsError, fs)
                     | Some fs1 \<Rightarrow> (Inr (configPath, True), fs1))))"

section \<open>Before the node is started\<close>

datatype address_source = FromConfig | FromProfile | FromWallet | FromNowhere

fun address_source_str :: "address_source \<Rightarrow> string" where
  "address_source_str FromConfig = ''config''"
| "address_source_str FromProfile = ''profile''"
| "address_source_str FromWallet = ''wallet''"
| "address_source_str FromNowhere = ''none''"

record preflight_env =
  pe_lib :: wallet_lib
  pe_env :: wallet_env
  pe_parse :: "string \<Rightarrow> jsval option"
  pe_valid :: "string \<Rightarrow> bool"
  pe_fsError :: string

record node_files =
  nf_store :: wallet_store
  nf_fs :: fs

fun first_found :: "('a \<Rightarrow> bool) list \<Rightarrow> 'a list \<Rightarrow> 'a option" where
  "first_found [] xs = (case xs of [] \<Rightarrow> None | x # _ \<Rightarrow> Some x)"
| "first_found (P # Ps) xs = (case find P xs of Some x \<Rightarrow> Some x | None \<Rightarrow> first_found Ps xs)"

definition configured_producer :: "preflight_env \<Rightarrow> string \<Rightarrow> node_files \<Rightarrow> config_producer" where
  "configured_producer env baseDir s =
     producerAddressFromRuntimeConfig (wl_num_str (pe_lib env)) (pe_parse env) (nf_fs s) baseDir"

definition resolveRuntimeProducerAddressCandidate ::
  "preflight_env \<Rightarrow> network \<Rightarrow> string \<Rightarrow> node_files \<Rightarrow> (string option \<times> address_source) \<times> node_files" where
  "resolveRuntimeProducerAddressCandidate env net baseDir s =
     (case cp_producerAddress (configured_producer env baseDir s) of
        Some configured \<Rightarrow> ((Some configured, FromConfig), s)
      | None \<Rightarrow>
          (case Option.bind (loadProducerProfile (pe_lib env) (pe_env env) (Some net) (nf_store s))
                  (\<lambda>p. some_text (js_trim (pp_producerAddress p))) of
             Some profileAddress \<Rightarrow> ((Some profileAddress, FromProfile), s)
           | None \<Rightarrow>
               if net = Mainnet then ((None, FromNowhere), s)
               else (case listWalletAccounts (pe_lib env) (pe_env env) (Some net) (nf_store s) of
                   (accounts, st) \<Rightarrow>
                     (case Option.bind (first_found [\<lambda>a. as_isActive a \<and> as_hasPrivateKey a, as_hasPrivateKey, as_isActive] accounts)
                             (\<lambda>a. some_text (as_address a)) of
                        Some address \<Rightarrow> ((Some address, FromWallet), s\<lparr>nf_store := st\<rparr>)
                      | None \<Rightarrow> ((None, FromNowhere), s\<lparr>nf_store := st\<rparr>)))))"

text \<open>The result: \<open>ok\<close> and a text, or the message of a throw.\<close>

definition ensureMonolithProducerRuntimeConfig ::
  "preflight_env \<Rightarrow> network \<Rightarrow> string \<Rightarrow> bool \<Rightarrow> node_files \<Rightarrow> (string + bool \<times> string option) \<times> node_files" where
  "ensureMonolithProducerRuntimeConfig env net baseDir blockProducerEnabled s =
     (if \<not> blockProducerEnabled then (Inr (True, None), s)
      else let configured = configured_producer env baseDir s
      in case resolveRuntimeProducerAddressCandidate env net baseDir s of
           ((address, source), s1) \<Rightarrow>
             (let producerAddress = opt_trim address; configPath = cp_configFilePath configured
              in if producerAddress = []
                 then (Inr (False, Some (''Block production is enabled, but block_producer.producer is missing.'' @ nl @
                   ''Open the Producer tab and finish Producer setup before starting the Mainnet Producer profile.'' @ nl @
                   ''Koinos One will not infer a mainnet producer address from the wallet alone. Runtime config: '' @ configPath)), s1)
                 else if \<not> safeIsChecksumAddress (pe_valid env) producerAddress
                 then (Inr (False, Some (''Invalid block_producer.producer address: '' @ producerAddress)), s1)
                 else if cp_configHasProducer configured then (Inr (True, None), s1)
                 else if net = Mainnet \<and> source \<noteq> FromProfile
                 then (Inr (False, Some (''Mainnet block production requires an explicit block_producer.producer entry in runtime config.'' @ nl @
                   ''Open the Producer tab and finish Producer setup before starting the Mainnet Producer profile.'' @ nl @
                   ''Runtime config: '' @ configPath)), s1)
                 else case persistProducerRuntimeConfig (pe_fsError env) baseDir producerAddress (nf_fs s1) of
                     (Inl message, fs1) \<Rightarrow> (Inl message, s1\<lparr>nf_fs := fs1\<rparr>)
                   | (Inr path, fs1) \<Rightarrow>
                       (Inr (True, Some (''Set block_producer.producer from '' @ address_source_str source @ '' address in '' @ path @ ''.'')),
                        s1\<lparr>nf_fs := fs1\<rparr>)))"

section \<open>Lines and their ends\<close>

abbreviation "LF \<equiv> CHR 0x0A"
abbreviation "CR \<equiv> CHR 0x0D"

fun text_lines :: "string \<Rightarrow> string list" where
  "text_lines [] = [[]]"
| "text_lines [c] = (if c = LF then [[], []] else [[c]])"
| "text_lines (c # d # ds) =
     (if c = LF then [] # text_lines (d # ds)
      else if c = CR \<and> d = LF then [] # text_lines ds
      else (case text_lines (d # ds) of [] \<Rightarrow> [[c]] | l # ls \<Rightarrow> (c # l) # ls))"

lemma text_lines_not_Nil [simp]: "text_lines s \<noteq> []"
  by (induction s rule: text_lines.induct) (auto split: list.split)

lemma break_matches:
  "mt line_break_re Some (l, LF # cs, []) = Some (LF # l, cs, [])"
  "c \<noteq> LF \<Longrightarrow> mt line_break_re Some (l, [c], []) = None"
  "c \<noteq> LF \<Longrightarrow> mt line_break_re Some (l, c # d # ds, []) =
     (if c = CR \<and> d = LF then Some (d # c # l, ds, []) else None)"
  by (simp_all add: line_break_re_def opt_def chr_def)

lemma split_lines:
  "split_from line_break_re l piece s = (rev piece @ hd (text_lines s)) # tl (text_lines s)"
proof (induction s arbitrary: l piece rule: text_lines.induct)
  case (2 c)
  then show ?case by (cases "c = LF") (simp_all add: break_matches)
next
  case (3 c d ds)
  consider "c = LF" | "c = CR" "d = LF" | "c \<noteq> LF" "\<not> (c = CR \<and> d = LF)" by blast
  then show ?case
  proof cases
    case 1
    with 3(1) show ?thesis by (subst split_from.simps(2)) (simp add: break_matches)
  next
    case 2
    then have "split_from line_break_re l piece (c # d # ds) = rev piece # split_from line_break_re (d # c # l) [] ds"
      by (subst split_from.simps(2)) (simp add: break_matches)
    with 2 3(2) show ?thesis by simp
  next
    case no: 3
    then have "split_from line_break_re l piece (c # d # ds) = split_from line_break_re (c # l) (c # piece) (d # ds)"
      by (subst split_from.simps(2)) (simp add: break_matches)
    also have "\<dots> = (rev (c # piece) @ hd (text_lines (d # ds))) # tl (text_lines (d # ds))" by (rule 3(3) [OF no])
    finally show ?thesis using no by (cases "text_lines (d # ds)") simp_all
  qed
qed simp

lemma config_lines_eq: "config_lines s = text_lines s"
proof -
  have "mt line_break_re Some ([], [], []) = None" by (simp add: line_break_re_def opt_def chr_def)
  then show ?thesis
    by (cases "text_lines s") (auto simp: config_lines_def js_split_re_def split_lines)
qed

text \<open>What the editing and the reading look at does not depend on the spaces at the end of a line.\<close>

definition bare_lines :: "string \<Rightarrow> string list" where
  "bare_lines s = map js_trim_end (text_lines s)"

lemma trim_end_Nil [simp]: "js_trim_end [] = []"
  by (simp add: js_trim_end_def)

lemma trim_end_snoc: "is_space c \<Longrightarrow> js_trim_end (s @ [c]) = js_trim_end s"
  by (simp add: js_trim_end_def)

lemma trim_end_Cons: "js_trim_end (c # s) = (if js_trim_end s = [] \<and> is_space c then [] else c # js_trim_end s)"
  by (simp add: js_trim_end_def dropWhile_append dropWhile_eq_Nil_conv)

lemma trim_end_split: "\<exists>w. s = js_trim_end s @ w \<and> (\<forall>c \<in> set w. is_space c)"
proof -
  have "s = rev (takeWhile is_space (rev s) @ dropWhile is_space (rev s))" by simp
  also have "\<dots> = js_trim_end s @ rev (takeWhile is_space (rev s))" by (simp only: rev_append js_trim_end_def)
  finally show ?thesis by (intro exI [of _ "rev (takeWhile is_space (rev s))"]) (auto dest: set_takeWhileD)
qed

lemma line_ends_are_space [simp]: "is_space LF" "is_space CR"
  by (simp_all add: is_space_def cu_def)

lemma single_line: "LF \<notin> set s \<Longrightarrow> text_lines s = [s]"
  by (induction s rule: text_lines.induct) auto

lemma bare_single [simp]: "LF \<notin> set s \<Longrightarrow> bare_lines s = [js_trim_end s]"
  by (simp add: bare_lines_def single_line)

lemma bare_not_Nil [simp]: "bare_lines s \<noteq> []"
  by (simp add: bare_lines_def)

lemma bare_append: "bare_lines (a @ LF # b) = bare_lines a @ bare_lines b"
proof (induction a rule: text_lines.induct)
  case 1
  show ?case by (cases b) (simp_all add: bare_lines_def)
next
  case (2 c)
  then show ?case by (cases b) (auto simp: bare_lines_def trim_end_Cons split: list.split)
next
  case (3 c d ds)
  consider "c = LF" | "c = CR" "d = LF" | "c \<noteq> LF" "\<not> (c = CR \<and> d = LF)" by blast
  then show ?case
  proof cases
    case 3
    note no = this
    have "bare_lines ((d # ds) @ LF # b) = bare_lines (d # ds) @ bare_lines b" by (rule "3.IH"(3) [OF no])
    then have "map js_trim_end (text_lines (d # ds @ LF # b)) = map js_trim_end (text_lines (d # ds)) @ bare_lines b"
      by (simp add: bare_lines_def)
    with no show ?thesis
      by (cases "text_lines (d # ds)"; cases "text_lines (d # ds @ LF # b)") (auto simp: bare_lines_def trim_end_Cons)
  qed (use "3.IH" in \<open>simp_all add: bare_lines_def\<close>)
qed

lemma bare_space: "\<forall>c \<in> set w. is_space c \<Longrightarrow> \<exists>more. bare_lines (s @ w) = bare_lines s @ more \<and> (\<forall>l \<in> set more. l = [])"
proof (induction w arbitrary: s)
  case (Cons c w)
  have one: "\<exists>more. bare_lines (s @ [c]) = bare_lines s @ more \<and> (\<forall>l \<in> set more. l = [])"
  proof (cases "c = LF")
    case True
    then show ?thesis using bare_append [of s "[]"] by simp
  next
    case False
    then have "bare_lines (s @ [c]) = bare_lines s"
    proof (induction s rule: text_lines.induct)
      case (3 x d ds)
      consider "x = LF" | "x = CR" "d = LF" | "x \<noteq> LF" "\<not> (x = CR \<and> d = LF)" by blast
      then show ?case
      proof cases
        case 3
        note no = this
        have "map js_trim_end (text_lines (d # ds @ [c])) = map js_trim_end (text_lines (d # ds))"
          using "3.IH"(3) [OF no "3.prems"] by (simp add: bare_lines_def)
        with no show ?thesis
          by (cases "text_lines (d # ds)"; cases "text_lines (d # ds @ [c])") (auto simp: bare_lines_def trim_end_Cons)
      qed (use 3 in \<open>simp_all add: bare_lines_def\<close>)
    qed (use Cons.prems in \<open>auto simp: bare_lines_def trim_end_Cons\<close>)
    then show ?thesis by simp
  qed
  then obtain more where "bare_lines (s @ [c]) = bare_lines s @ more" "\<forall>l \<in> set more. l = []" by blast
  moreover obtain more' where "bare_lines ((s @ [c]) @ w) = bare_lines (s @ [c]) @ more'" "\<forall>l \<in> set more'. l = []"
    using Cons by (meson list.set_intros(2))
  ultimately show ?case by auto
qed (simp add: exI [of _ "[]"])

lemma bare_join: "ls \<noteq> [] \<Longrightarrow> \<forall>l \<in> set ls. LF \<notin> set l \<Longrightarrow> bare_lines (js_join nl ls) = map js_trim_end ls"
proof (induction ls)
  case (Cons x xs)
  then show ?case by (cases xs) (simp_all add: nl_def bare_append)
qed simp

lemma bare_config_lines: "map js_trim_end (config_lines s) = bare_lines s"
  by (simp add: config_lines_eq bare_lines_def)

lemma lines_LF: "l \<in> set (text_lines s) \<Longrightarrow> LF \<notin> set l"
  by (induction s arbitrary: l rule: text_lines.induct) (auto split: if_splits list.splits)

section \<open>Removing what a text ends in\<close>

lemma mt_all_end: "mt (Seq (plus (Cls p)) Eol) Some (l, s, []) \<noteq> None \<longleftrightarrow> s \<noteq> [] \<and> (\<forall>c \<in> set s. p c)"
  unfolding mt_iff reach.simps(3) reach_plus_Cls by (auto simp: eats_def)

lemma js_replace_end: "js_replace (Seq (plus (Cls p)) Eol) (\<lambda>_ _. []) s = rev (dropWhile p (rev s))"
proof -
  let ?r = "Seq (plus (Cls p)) Eol"
  have "(case exec_from ?r l s of
      None \<Rightarrow> dropWhile p (rev s) = rev s | Some m \<Rightarrow> rest (snd m) = [] \<and> fst (fst m) = dropWhile p (rev s) @ l)" for l
  proof (induction s arbitrary: l)
    case Nil
    have "mt ?r Some (l, [], []) = None" using mt_all_end [of p l "[]"] by blast
    then show ?case by (simp del: mt.simps)
  next
    case (Cons c s)
    show ?case
    proof (cases "mt ?r Some (l, c # s, [])")
      case None
      then have "\<not> (\<forall>x \<in> set (c # s). p x)" using mt_all_end [of p l "c # s"] by (simp del: mt.simps)
      then have d: "dropWhile p (rev (c # s)) = dropWhile p (rev s) @ [c]"
        by (auto simp: dropWhile_append dropWhile_eq_Nil_conv)
      from None d Cons.IH [of "c # l"] show ?thesis by (auto split: option.splits simp del: mt.simps)
    next
      case (Some t)
      then have all: "\<forall>x \<in> set (c # s). p x" using mt_all_end [of p l "c # s"] by (simp del: mt.simps)
      have "reach ?r (l, c # s, []) t" using mt_sound [OF Some] by auto
      then have "rest t = []" by auto
      moreover have "dropWhile p (rev (c # s)) = []" using all by (auto simp: dropWhile_eq_Nil_conv)
      ultimately show ?thesis using Some by (simp del: rev.simps mt.simps)
    qed
  qed
  from this [of "[]"] show ?thesis by (auto simp: js_replace_def js_exec_def split: option.splits)
qed

lemma bare_rejoined:
  assumes "ls \<noteq> []" "\<forall>l \<in> set ls. LF \<notin> set l"
  shows "\<exists>m n. bare_lines (rejoined ls) @ replicate m [] = map js_trim_end ls @ replicate n []"
proof -
  let ?s = "js_join nl ls" and ?t = "rev (dropWhile (\<lambda>c. c = LF) (rev (js_join nl ls)))"
  have "?s = rev (takeWhile (\<lambda>c. c = LF) (rev ?s) @ dropWhile (\<lambda>c. c = LF) (rev ?s))" by (simp only: takeWhile_dropWhile_id rev_rev_ident)
  also have "\<dots> = ?t @ rev (takeWhile (\<lambda>c. c = LF) (rev ?s))" by (simp only: rev_append)
  finally have s: "?s = ?t @ rev (takeWhile (\<lambda>c. c = LF) (rev ?s))" .
  define w where "w = rev (takeWhile (\<lambda>c. c = LF) (rev ?s))"
  have w: "?s = ?t @ w" using s by (simp only: w_def)
  have "is_space c" if "c \<in> set w" for c
    using set_takeWhileD [of c "\<lambda>c. c = LF" "rev ?s"] that line_ends_are_space(1) unfolding w_def set_rev by metis
  then have "\<forall>c \<in> set w. is_space c" by (rule ballI)
  then obtain more where bm: "bare_lines (?t @ w) = bare_lines ?t @ more" "\<forall>l \<in> set more. l = []"
    using bare_space by blast
  have "more = replicate (length more) []" using bm(2) by (intro replicate_eqI) auto
  then have more: "map js_trim_end ls = bare_lines ?t @ replicate (length more) []"
    using bare_join [OF assms] bm(1) unfolding w [symmetric] by metis
  have "rejoined ls = ?t @ [LF]" by (simp add: rejoined_def js_replace_end chr_def nl_def)
  then have rb: "bare_lines (rejoined ls) = bare_lines ?t @ [[]]" using bare_append [of ?t "[]"] by simp
  have "bare_lines (rejoined ls) @ replicate (length more) [] = map js_trim_end ls @ replicate 1 []"
    unfolding rb more append.assoc by (simp add: replicate_append_same)
  then show ?thesis by blast
qed

section \<open>Reading the section\<close>

text \<open>The lines of the section, and the values of a key on its lines that are not commented out.\<close>

definition section_of :: "string list \<Rightarrow> string list" where
  "section_of lines = takeWhile (\<lambda>l. \<not> ends_section l) (drop 1 (dropWhile (\<lambda>l. \<not> is_section l) lines))"

definition active_line :: "string \<Rightarrow> string \<Rightarrow> bool" where
  "active_line key line \<longleftrightarrow> js_starts_with (js_trim_start line) (key @ '':'')"

definition value_on :: "string \<Rightarrow> string \<Rightarrow> string" where
  "value_on key line = js_trim (drop (Suc (length key)) (js_trim_start line))"

definition active_in :: "string \<Rightarrow> string list \<Rightarrow> string list" where
  "active_in key lines = map (value_on key) (filter (active_line key) (section_of lines))"

definition active_values :: "string \<Rightarrow> string \<Rightarrow> string list" where
  "active_values key content = active_in key (config_lines content)"

definition config_key :: "string \<Rightarrow> bool" where
  "config_key key \<longleftrightarrow> key \<noteq> [] \<and> list_all (\<lambda>c. is_word c \<or> c = CHR ''-'') key"

text \<open>At most one line of the section is of the key, commented out or not.\<close>

definition key_once :: "string \<Rightarrow> string \<Rightarrow> bool" where
  "key_once key content \<longleftrightarrow> length (filter (js_test (key_re key)) (section_of (config_lines content))) \<le> 1"

lemma trim_start_end: "js_trim_start (js_trim_end s) = js_trim_end (js_trim_start s)"
proof (induction s)
  case (Cons c s)
  show ?case
  proof (cases "is_space c")
    case True
    with Cons show ?thesis by (cases "js_trim_end s = []") (simp_all add: trim_end_Cons js_trim_start_def)
  next
    case False
    then show ?thesis by (simp add: trim_end_Cons js_trim_start_def)
  qed
qed (simp add: js_trim_start_def)

lemma trim_end_idem [simp]: "js_trim_end (js_trim_end s) = js_trim_end s"
  by (simp add: js_trim_end_def)

lemma js_trim_eq: "js_trim s = js_trim_end (js_trim_start s)"
  by (simp add: js_trim_def js_trim_end_def js_trim_start_def)

lemma trim_end_space: "\<forall>c \<in> set w. is_space c \<Longrightarrow> js_trim_end (s @ w) = js_trim_end s"
  by (simp add: js_trim_end_def dropWhile_append)

lemma prefix_trim_end:
  assumes "w \<noteq> []" "\<not> is_space (last w)"
  shows "prefix w (js_trim_end s) \<longleftrightarrow> prefix w s"
proof -
  obtain v where v: "s = js_trim_end s @ v" "\<forall>c \<in> set v. is_space c" using trim_end_split by blast
  have "\<not> (\<exists>u. w = js_trim_end s @ u \<and> u \<noteq> [] \<and> prefix u v)"
    using assms v(2) by (metis append_is_Nil_conv last_appendR last_in_set set_mono_prefix subsetD)
  moreover have "prefix w s \<longleftrightarrow> prefix w (js_trim_end s) \<or> (\<exists>u. w = js_trim_end s @ u \<and> prefix u v)"
    by (subst v(1)) (simp only: prefix_append)
  ultimately show ?thesis by (metis append_Nil2 prefix_order.order_refl)
qed

lemma is_section_bare [simp]: "is_section (js_trim_end l) = is_section l"
  by (simp add: is_section_def js_trim_eq trim_start_end)

lemma ends_section_iff:
  "ends_section l \<longleftrightarrow> (\<exists>c cs. l = c # cs \<and> \<not> is_space c \<and> c \<noteq> CHR ''#'')"
proof -
  have "js_test (Seq Bol (Cls (\<lambda>c. \<not> is_space c))) l \<longleftrightarrow> (\<exists>c cs. l = c # cs \<and> \<not> is_space c)"
    unfolding js_test_iff by force
  then show ?thesis
    by (cases l) (auto simp: ends_section_def js_trim_eq js_trim_start_def trim_end_Cons js_starts_with_def)
qed

lemma ends_section_bare [simp]: "ends_section (js_trim_end l) = ends_section l"
  by (cases l) (auto simp: ends_section_iff trim_end_Cons)

lemma active_bare: "active_line key (js_trim_end l) = active_line key l"
proof -
  have "\<not> is_space (CHR '':'')" by (simp add: is_space_def cu_def)
  then show ?thesis
    using prefix_trim_end [of "key @ '':''" "js_trim_start l"] by (simp add: active_line_def js_starts_with_def trim_start_end)
qed

lemma value_bare: "active_line key l \<Longrightarrow> value_on key (js_trim_end l) = value_on key l"
proof -
  assume "active_line key l"
  then have "prefix (key @ '':'') (js_trim_end (js_trim_start l))"
    using active_bare [of key l] by (simp add: active_line_def js_starts_with_def trim_start_end)
  then have n: "Suc (length key) \<le> length (js_trim_end (js_trim_start l))" using prefix_length_le by fastforce
  obtain v where v: "js_trim_start l = js_trim_end (js_trim_start l) @ v" "\<forall>c \<in> set v. is_space c"
    using trim_end_split by blast
  have "drop (Suc (length key)) (js_trim_start l) = drop (Suc (length key)) (js_trim_end (js_trim_start l)) @ v"
    using n by (subst v(1)) simp
  then show ?thesis
    by (simp add: value_on_def trim_start_end js_trim_eq) (simp only: trim_start_end [symmetric] trim_end_space [OF v(2)])
qed

lemma section_bare: "section_of (map js_trim_end ls) = map js_trim_end (section_of ls)"
  by (simp add: section_of_def dropWhile_map drop_map takeWhile_map comp_def)

lemma active_in_bare: "active_in key (map js_trim_end ls) = active_in key ls"
  by (simp add: active_in_def section_bare filter_map comp_def active_bare value_bare cong: map_cong filter_cong)

lemma nothing_on_empty_lines [simp]: "\<not> is_section []" "\<not> ends_section []" "\<not> active_line key []"
  by (simp_all add: is_section_def ends_section_iff active_line_def js_trim_def js_trim_start_def js_starts_with_def)

lemma section_more:
  "\<exists>m. section_of (xs @ replicate n []) = section_of xs @ replicate m []"
proof (cases "\<exists>x \<in> set xs. is_section x")
  case True
  then obtain y ys where y: "dropWhile (\<lambda>l. \<not> is_section l) xs = y # ys"
    by (metis (mono_tags, lifting) dropWhile_eq_Nil_conv list.exhaust)
  with True have "dropWhile (\<lambda>l. \<not> is_section l) (xs @ replicate n []) = y # ys @ replicate n []"
    by (auto simp: dropWhile_append)
  moreover have "takeWhile (\<lambda>l. \<not> ends_section l) (replicate n []) = replicate n []"
    by (auto simp: takeWhile_eq_all_conv)
  ultimately have more: "section_of (xs @ replicate n []) =
      (if \<exists>l \<in> set ys. ends_section l then takeWhile (\<lambda>l. \<not> ends_section l) ys else ys @ replicate n [])"
    by (simp add: section_of_def takeWhile_append)
  moreover have "section_of xs = takeWhile (\<lambda>l. \<not> ends_section l) ys" using y by (simp add: section_of_def)
  moreover have "takeWhile (\<lambda>l. \<not> ends_section l) ys = ys" if "\<not> (\<exists>l \<in> set ys. ends_section l)"
    using that by (simp add: takeWhile_eq_all_conv)
  ultimately show ?thesis by (metis append_Nil2 replicate_0)
next
  case False
  then have "dropWhile (\<lambda>l. \<not> is_section l) (xs @ replicate n []) = []" by (auto simp: dropWhile_eq_Nil_conv)
  moreover from False have "dropWhile (\<lambda>l. \<not> is_section l) xs = []" by (auto simp: dropWhile_eq_Nil_conv)
  ultimately show ?thesis by (intro exI [of _ 0]) (simp only: section_of_def replicate_0 append_Nil2)
qed

lemma active_in_more: "active_in key (xs @ replicate n []) = active_in key xs"
proof -
  obtain m where "section_of (xs @ replicate n []) = section_of xs @ replicate m []" using section_more by blast
  then show ?thesis by (simp add: active_in_def)
qed

lemma active_rejoined:
  assumes "ls \<noteq> []" "\<forall>l \<in> set ls. LF \<notin> set l"
  shows "active_values key (rejoined ls) = active_in key ls"
proof -
  obtain m n where "bare_lines (rejoined ls) @ replicate m [] = map js_trim_end ls @ replicate n []"
    using bare_rejoined [OF assms] by blast
  then have "active_in key (bare_lines (rejoined ls)) = active_in key (map js_trim_end ls)"
    by (metis active_in_more)
  then show ?thesis by (simp add: active_values_def active_in_bare bare_config_lines [symmetric])
qed

section \<open>The lines of a key\<close>

lemma config_key_head:
  assumes "config_key key"
  obtains c cs where "key = c # cs" "\<not> is_space c" "c \<noteq> CHR ''#''"
proof -
  obtain c cs where k: "key = c # cs" using assms by (cases key) (auto simp: config_key_def)
  with assms have "is_word c \<or> c = CHR ''-''" by (simp add: config_key_def)
  then have "\<not> is_space c" "c \<noteq> CHR ''#''"
    by (auto simp: is_word_def is_alpha_def is_upper_def is_lower_def is_digit_def is_space_def cu_def)
  with k that show ?thesis by blast
qed

lemma reach_opt_chr: "reach (opt (chr x)) s t \<longleftrightarrow> (\<exists>h. h \<in> {[], [x]} \<and> eats s h t)"
  unfolding opt_def chr_def reach.simps(4) reach.simps(1) reach_Cls by auto

lemma js_test_start: "js_test (seqs (Bol # rs)) l \<longleftrightarrow> (\<exists>t. reach (seqs rs) ([], l, []) t)"
  unfolding js_test_iff reach_seqs_Cons [of Bol] reach.simps(7) by simp

text \<open>The pattern of a key, as the shape of a line.\<close>

definition key_shape :: "string \<Rightarrow> string \<Rightarrow> string \<Rightarrow> string \<Rightarrow> string \<Rightarrow> string \<Rightarrow> bool" where
  "key_shape key l w h v zs \<longleftrightarrow>
     l = w @ h @ v @ key @ CHR '':'' # zs \<and> (\<forall>c \<in> set (w @ v). is_space c) \<and> h \<in> {[], ''#''}"

lemma key_line_shape: "js_test (key_re key) l \<longleftrightarrow> (\<exists>w h v zs. key_shape key l w h v zs)"
proof
  assume "js_test (key_re key) l"
  then obtain t where "reach (seqs [Star space, opt (chr (CHR ''#'')), Star space, lit key, chr (CHR '':'')]) ([], l, []) t"
    unfolding key_re_def js_test_start by blast
  then obtain s1 s2 s3 s4 where r: "reach (Star space) ([], l, []) s1" "reach (opt (chr (CHR ''#''))) s1 s2" "reach (Star space) s2 s3"
    "reach (lit key) s3 s4" "reach (chr (CHR '':'')) s4 t"
    unfolding reach_seqs_Cons reach_seqs_Nil by metis
  from r(1) obtain w where "\<forall>c \<in> set w. is_space c" "eats ([], l, []) w s1" unfolding space_def reach_star_Cls by blast
  moreover from r(2) obtain h where "h \<in> {[], ''#''}" "eats s1 h s2" unfolding reach_opt_chr by blast
  moreover from r(3) obtain v where "\<forall>c \<in> set v. is_space c" "eats s2 v s3" unfolding space_def reach_star_Cls by blast
  moreover from r(4) have "eats s3 key s4" by (simp only: reach_lit)
  moreover from r(5) have "eats s4 '':'' t" by (auto simp only: chr_def reach_Cls)
  ultimately have "l = w @ h @ v @ key @ '':'' @ rest t" "(\<forall>c \<in> set w. is_space c) \<and> (\<forall>c \<in> set v. is_space c)" "h \<in> {[], ''#''}"
    by (simp_all add: eats_def)
  then have "key_shape key l w h v (rest t)" unfolding key_shape_def set_append ball_Un by simp
  then show "\<exists>w h v zs. key_shape key l w h v zs" by blast
next
  assume "\<exists>w h v zs. key_shape key l w h v zs"
  then obtain w h v zs where s: "l = w @ h @ v @ key @ CHR '':'' # zs" "\<forall>c \<in> set (w @ v). is_space c" "h \<in> {[], ''#''}"
    unfolding key_shape_def by blast
  define st where "st = (\<lambda>x y. (rev x, y, []) :: st)"
  have e: "eats (st x (y @ z)) y (st (x @ y) z)" for x y z by (simp add: st_def eats_def)
  have sp: "reach (Star space) s1 s2" if "\<forall>c \<in> set x. is_space c" "eats s1 x s2" for x s1 s2
    using that unfolding space_def reach_star_Cls by blast
  have "reach (Star space) (st [] l) (st w (h @ v @ key @ CHR '':'' # zs))" by (rule sp [of w]) (use s e [of "[]" w] in simp_all)
  moreover have "reach (opt (chr (CHR ''#''))) (st w (h @ v @ key @ CHR '':'' # zs)) (st (w @ h) (v @ key @ CHR '':'' # zs))"
    using e [of w h] s(3) unfolding reach_opt_chr by blast
  moreover have "reach (Star space) (st (w @ h) (v @ key @ CHR '':'' # zs)) (st (w @ h @ v) (key @ CHR '':'' # zs))"
    by (rule sp [of v]) (use s(2) e [of "w @ h" v] in simp_all)
  moreover have "reach (lit key) (st (w @ h @ v) (key @ CHR '':'' # zs)) (st (w @ h @ v @ key) (CHR '':'' # zs))"
    using e [of "w @ h @ v" key] by (simp add: reach_lit)
  moreover have "reach (chr (CHR '':'')) (st (w @ h @ v @ key) (CHR '':'' # zs)) (st (w @ h @ v @ key @ '':'') zs)"
    using e [of "w @ h @ v @ key" "'':''"] by (simp add: chr_def reach_Cls del: reach.simps)
  ultimately have "reach (seqs [Star space, opt (chr (CHR ''#'')), Star space, lit key, chr (CHR '':'')]) (st [] l)
      (st (w @ h @ v @ key @ '':'') zs)"
    by (meson reach_seqs_Cons reach_seqs_Nil)
  then have "reach (seqs [Star space, opt (chr (CHR ''#'')), Star space, lit key, chr (CHR '':'')]) ([], l, [])
      (st (w @ h @ v @ key @ '':'') zs)"
    by (simp only: st_def rev.simps(1))
  then show "js_test (key_re key) l" unfolding key_re_def js_test_start by blast
qed

lemma was_commented_iff: "was_commented l \<longleftrightarrow> (\<exists>w zs. l = w @ CHR ''#'' # zs \<and> (\<forall>c \<in> set w. is_space c))"
proof
  assume "was_commented l"
  then obtain t where "reach (seqs [Star space, chr (CHR ''#'')]) ([], l, []) t"
    unfolding was_commented_def js_test_start by blast
  then obtain w s1 where "\<forall>c \<in> set w. is_space c" "eats ([], l, []) w s1" "eats s1 ''#'' t"
    unfolding reach_seqs_Cons reach_seqs_Nil space_def reach_star_Cls chr_def reach_Cls by blast
  then show "\<exists>w zs. l = w @ CHR ''#'' # zs \<and> (\<forall>c \<in> set w. is_space c)" by (auto simp: eats_def)
next
  assume "\<exists>w zs. l = w @ CHR ''#'' # zs \<and> (\<forall>c \<in> set w. is_space c)"
  then obtain w zs where s: "l = w @ CHR ''#'' # zs" "\<forall>c \<in> set w. is_space c" by blast
  then have "eats ([], l, []) w (rev w, CHR ''#'' # zs, [])" "eats (rev w, CHR ''#'' # zs, []) ''#'' (CHR ''#'' # rev w, zs, [])"
    by (simp_all add: eats_def)
  with s(2) have "reach (seqs [Star space, chr (CHR ''#'')]) ([], l, []) (CHR ''#'' # rev w, zs, [])"
    unfolding reach_seqs_Cons reach_seqs_Nil space_def reach_star_Cls chr_def reach_Cls by blast
  then show "was_commented l" unfolding was_commented_def js_test_start by blast
qed

text \<open>What the replacement by \<open>$1# \<close> leaves: the spaces in front, the mark, the rest.\<close>

lemma commented_shape: "\<exists>w h v zs. l = w @ h @ v @ zs \<and> commented_line l = w @ ''# '' @ zs \<and> (\<forall>c \<in> set w. is_space c)"
proof -
  let ?r = "seqs [Bol, Grp 1 (Star space), opt (chr (CHR ''#'')), Star space]"
  have e: "eats ([], l, []) [] ([], l, [])" "eats ([], l, [(1, [])]) [] ([], l, [(1, [])])" by (simp_all add: eats_def)
  have "reach (Grp 1 (Star space)) ([], l, []) ([], l, [(1, [])])"
    using e(1) unfolding reach.simps(10) space_def reach_star_Cls
    by (intro exI [of _ "([], l, [])"] conjI exI [of _ "[]"]) (auto simp: capture_def)
  moreover have "reach (opt (chr (CHR ''#''))) ([], l, [(1, [])]) ([], l, [(1, [])])" using e(2) unfolding reach_opt_chr by blast
  moreover have "reach (Star space) ([], l, [(1, [])]) ([], l, [(1, [])])" unfolding space_def reach_star_Cls
    using e(2) by (intro exI [of _ "[]"]) simp
  ultimately have "js_test ?r l" unfolding js_test_start reach_seqs_Cons reach_seqs_Nil
    by (intro exI conjI) (assumption | rule refl)+
  then obtain s0 t where ex: "js_exec ?r l = Some (s0, t)" using js_exec_None_iff [of ?r l] by (metis not_None_eq surj_pair)
  then obtain a u where au: "l = a @ u" "s0 = (rev a, u, [])" "reach ?r s0 t" using js_exec_sound by blast
  from au(3) obtain b0 b1 s2 s3 where r: "reach Bol s0 b0" "reach (Grp 1 (Star space)) b0 s2" "reach (opt (chr (CHR ''#''))) s2 s3"
    "reach (Star space) s3 t"
    unfolding reach_seqs_Cons reach_seqs_Nil by metis
  from r(1) au(2) have b0: "a = []" "b0 = s0" by simp_all
  from r(2) b0 obtain s1 where s1: "reach (Star space) s0 s1" "s2 = capture 1 s0 s1" by auto
  from s1(1) obtain w where w: "\<forall>c \<in> set w. is_space c" "eats s0 w s1" unfolding space_def reach_star_Cls by blast
  moreover from r(3) obtain h where "eats s2 h s3" unfolding reach_opt_chr by blast
  moreover from r(4) obtain v where "eats s3 v t" unfolding space_def reach_star_Cls by blast
  ultimately have p: "a = []" "\<forall>c \<in> set w. is_space c" "eats s0 w s1" "s2 = capture 1 s0 s1" "eats s2 h s3" "eats s3 v t"
    using b0 s1 by blast+
  from p(3) have c: "capture 1 s0 s1 = (fst s1, rest s1, (1, w) # snd (snd s1))" by (rule capture_eats)
  with p au have l: "l = w @ h @ v @ rest t" and caps: "cap 1 (match_caps (s0, t)) = w"
    by (auto simp: eats_def match_caps_def cap_def)
  have "commented_line l = w @ ''# '' @ rest t"
    using ex au p(1) caps by (simp add: commented_line_def js_replace_def)
  with l p(2) show ?thesis by blast
qed

lemma trim_start_spaces: "\<forall>c \<in> set w. is_space c \<Longrightarrow> \<not> is_space c \<Longrightarrow> js_trim_start (w @ c # x) = c # x"
  by (simp add: js_trim_start_def dropWhile_append)

lemma active_is_key:
  assumes "config_key key" "active_line key l"
  shows "js_test (key_re key) l" "\<not> was_commented l"
proof -
  obtain zs where "js_trim_start l = key @ CHR '':'' # zs"
    using assms(2) by (auto simp: active_line_def js_starts_with_def prefix_def)
  moreover have "l = takeWhile is_space l @ js_trim_start l" by (simp add: js_trim_start_def)
  ultimately have l: "l = takeWhile is_space l @ key @ CHR '':'' # zs" "js_trim_start l = key @ CHR '':'' # zs" by simp_all
  then have "key_shape key l (takeWhile is_space l) [] [] zs"
    by (simp add: key_shape_def) (metis set_takeWhileD)
  then show "js_test (key_re key) l" unfolding key_line_shape by blast
  obtain c cs where key: "key = c # cs" "\<not> is_space c" "c \<noteq> CHR ''#''" using config_key_head [OF assms(1)] .
  have "\<not> is_space (CHR ''#'')" by (simp add: is_space_def cu_def)
  then show "\<not> was_commented l" using l(2) key by (auto simp: was_commented_iff trim_start_spaces)
qed

lemma key_is_active:
  assumes "config_key key" "js_test (key_re key) l" "\<not> was_commented l"
  shows "active_line key l"
proof -
  obtain w h v zs where "key_shape key l w h v zs" using assms(2) key_line_shape by blast
  then have l: "l = w @ h @ v @ key @ CHR '':'' # zs" "\<forall>c \<in> set (w @ v). is_space c" "h = [] \<or> h = ''#''"
    by (simp_all add: key_shape_def)
  have "h = []"
  proof (rule ccontr)
    assume "h \<noteq> []"
    then have "l = w @ CHR ''#'' # (v @ key @ CHR '':'' # zs)" "\<forall>c \<in> set w. is_space c" using l by simp_all
    then show False using assms(3) unfolding was_commented_iff by blast
  qed
  then have "l = (w @ v) @ key @ CHR '':'' # zs" using l(1) by simp
  moreover obtain c cs where "key = c # cs" "\<not> is_space c" using config_key_head [OF assms(1)] .
  ultimately have "js_trim_start l = key @ CHR '':'' # zs" using trim_start_spaces [OF l(2)] by simp
  then show ?thesis by (simp add: active_line_def js_starts_with_def)
qed

lemma commented_line_facts:
  "was_commented (commented_line l)" "\<not> ends_section (commented_line l)"
  "LF \<notin> set l \<Longrightarrow> LF \<notin> set (commented_line l)"
proof -
  obtain w h v zs where l: "l = w @ h @ v @ zs" "commented_line l = w @ ''# '' @ zs" "\<forall>c \<in> set w. is_space c"
    using commented_shape [of l] by (elim exE conjE)
  have "commented_line l = w @ CHR ''#'' # ('' '' @ zs)" using l(2) by simp
  then show "was_commented (commented_line l)" using l(3) unfolding was_commented_iff by blast
  show "\<not> ends_section (commented_line l)" using l(2, 3) by (cases w) (simp_all add: ends_section_iff)
  show "LF \<notin> set l \<Longrightarrow> LF \<notin> set (commented_line l)" unfolding l(2) by (subst (asm) l(1)) simp
qed

lemma find_index_None: "js_find_index P xs = None \<longleftrightarrow> (\<forall>y \<in> set xs. \<not> P y)"
  by (induction xs) auto

lemma find_index_Some:
  "js_find_index P xs = Some i \<Longrightarrow> \<exists>a x b. xs = a @ x # b \<and> i = length a \<and> P x \<and> (\<forall>y \<in> set a. \<not> P y)"
proof (induction xs arbitrary: i)
  case (Cons y ys)
  show ?case
  proof (cases "P y")
    case True
    with Cons.prems show ?thesis by (intro exI [of _ "[]"]) simp
  next
    case False
    with Cons.prems obtain j where "js_find_index P ys = Some j" "i = Suc j" by auto
    with Cons.IH obtain a x b where "ys = a @ x # b" "j = length a" "P x" "\<forall>z \<in> set a. \<not> P z" by blast
    with False \<open>i = Suc j\<close> show ?thesis by (intro exI [of _ "y # a"]) simp
  qed
qed simp

lemma section_body_split: "section_body (a @ h # r) (length a) = takeWhile (\<lambda>l. \<not> ends_section l) r"
proof (cases "js_find_index ends_section r")
  case None
  then have "takeWhile (\<lambda>l. \<not> ends_section l) r = r" by (simp add: find_index_None takeWhile_eq_all_conv)
  then have "r = takeWhile (\<lambda>l. \<not> ends_section l) r" by (rule sym)
  moreover have "section_body (a @ h # r) (length a) = r" using None by (simp add: section_body_def section_end_def)
  ultimately show ?thesis by (rule trans [rotated])
next
  case (Some i)
  then obtain b x c where "r = b @ x # c" "i = length b" "ends_section x" "\<forall>y \<in> set b. \<not> ends_section y"
    using find_index_Some by blast
  with Some show ?thesis by (simp add: section_body_def section_end_def takeWhile_append)
qed

lemma section_split: "\<forall>l \<in> set a. \<not> is_section l \<Longrightarrow> is_section h \<Longrightarrow> section_of (a @ h # r) = takeWhile (\<lambda>l. \<not> ends_section l) r"
  by (simp add: section_of_def dropWhile_append)

text \<open>Where the edited line is.\<close>

lemma section_cases:
  obtains (none) "js_find_index is_section lines = None" "\<forall>l \<in> set lines. \<not> is_section l" "section_of lines = []"
  | (no_key) a h r where "lines = a @ h # r" "js_find_index is_section lines = Some (length a)"
      "find_key key lines (length a) = None" "\<forall>l \<in> set a. \<not> is_section l" "is_section h"
      "\<forall>l \<in> set (takeWhile (\<lambda>l. \<not> ends_section l) r). \<not> js_test (key_re key) l"
  | (key) a h b k c where "lines = a @ h # b @ k # c" "js_find_index is_section lines = Some (length a)"
      "find_key key lines (length a) = Some (Suc (length a) + length b)" "\<forall>l \<in> set a. \<not> is_section l" "is_section h"
      "\<forall>l \<in> set b. \<not> ends_section l \<and> \<not> js_test (key_re key) l" "\<not> ends_section k" "js_test (key_re key) k"
proof (cases "js_find_index is_section lines")
  case None
  then have "\<forall>l \<in> set lines. \<not> is_section l" by (simp add: find_index_None)
  moreover from this have "section_of lines = []"
    by (simp add: section_of_def) (metis (mono_tags, lifting) drop_Nil dropWhile_eq_Nil_conv takeWhile.simps(1))
  ultimately show ?thesis using none None by blast
next
  case (Some i)
  then obtain a h r where l: "lines = a @ h # r" "i = length a" "is_section h" "\<forall>l \<in> set a. \<not> is_section l"
    using find_index_Some by blast
  have body: "section_body lines (length a) = takeWhile (\<lambda>l. \<not> ends_section l) r" unfolding l(1) by (rule section_body_split)
  show ?thesis
  proof (cases "find_key key lines (length a)")
    case None
    then have "js_find_index (js_test (key_re key)) (takeWhile (\<lambda>l. \<not> ends_section l) r) = None"
      by (simp add: find_key_def body)
    then show ?thesis using no_key [of a h r] None Some l unfolding find_index_None by blast
  next
    case j: (Some j)
    then obtain m where m: "js_find_index (js_test (key_re key)) (takeWhile (\<lambda>l. \<not> ends_section l) r) = Some m" "j = Suc (length a) + m"
      by (auto simp: find_key_def body)
    then obtain b k d where d: "takeWhile (\<lambda>l. \<not> ends_section l) r = b @ k # d" "m = length b" "js_test (key_re key) k"
      "\<forall>l \<in> set b. \<not> js_test (key_re key) l"
      using find_index_Some by blast
    then have "\<forall>l \<in> set (b @ k # d). \<not> ends_section l" by (metis set_takeWhileD)
    moreover have "r = b @ k # (d @ dropWhile (\<lambda>l. \<not> ends_section l) r)"
      using takeWhile_dropWhile_id [of "\<lambda>l. \<not> ends_section l" r] d(1) by simp
    ultimately show ?thesis using key [of a h b k "d @ dropWhile (\<lambda>l. \<not> ends_section l) r"] Some l j m d by auto
  qed
qed

section \<open>Setting and clearing a value\<close>

definition one_line :: "string \<Rightarrow> bool" where
  "one_line v \<longleftrightarrow> LF \<notin> set v \<and> CR \<notin> set v"

lemma config_key_chars: "config_key key \<Longrightarrow> LF \<notin> set key \<and> CHR '':'' \<notin> set key"
proof -
  have "\<not> is_word LF" "\<not> is_word (CHR '':'')"
    by (simp_all add: is_word_def is_alpha_def is_upper_def is_lower_def is_digit_def cu_def)
  then show "config_key key \<Longrightarrow> LF \<notin> set key \<and> CHR '':'' \<notin> set key"
    by (auto simp: config_key_def list_all_iff)
qed

abbreviation new_line :: "string \<Rightarrow> string \<Rightarrow> string" where
  "new_line key v \<equiv> ''  '' @ key @ '': '' @ v"

lemma new_line_facts:
  assumes "config_key key"
  shows "\<not> ends_section (new_line key v)" "js_trim_start (new_line key v) = key @ '': '' @ v"
    "active_line key (new_line key v)" "value_on key (new_line key v) = js_trim v"
    "LF \<notin> set v \<Longrightarrow> LF \<notin> set (new_line key v)"
proof -
  have sp: "is_space (CHR '' '')" by (simp add: is_space_def cu_def)
  then show "\<not> ends_section (new_line key v)" by (simp add: ends_section_iff)
  obtain c cs where "key = c # cs" "\<not> is_space c" using config_key_head [OF assms] .
  then show t: "js_trim_start (new_line key v) = key @ '': '' @ v" using sp by (simp add: js_trim_start_def)
  show "active_line key (new_line key v)" unfolding active_line_def t by (simp add: js_starts_with_def)
  show "value_on key (new_line key v) = js_trim v"
    unfolding value_on_def t using sp by (simp add: js_trim_eq js_trim_start_def)
  show "LF \<notin> set v \<Longrightarrow> LF \<notin> set (new_line key v)" using config_key_chars [OF assms] by simp
qed

lemma other_key_line:
  assumes "config_key key" "config_key other" "key \<noteq> other"
  shows "\<not> active_line other (new_line key v)" "js_test (key_re key) l \<Longrightarrow> \<not> active_line other l"
proof -
  have differ: False if "prefix (other @ '':'') (key @ CHR '':'' # x)" for x
  proof -
    obtain y where "key @ CHR '':'' # x = other @ CHR '':'' # y" using \<open>prefix _ _\<close> by (auto simp: prefix_def)
    then have "takeWhile (\<lambda>c. c \<noteq> CHR '':'') (key @ CHR '':'' # x) = takeWhile (\<lambda>c. c \<noteq> CHR '':'') (other @ CHR '':'' # y)" by simp
    moreover have "\<forall>c \<in> set k. c \<noteq> CHR '':''" if "config_key k" for k using config_key_chars [OF that] by blast
    ultimately show False using assms by (simp add: takeWhile_append2)
  qed
  show "\<not> active_line other (new_line key v)"
    using differ [of "'' '' @ v"] unfolding active_line_def new_line_facts(2) [OF assms(1)] js_starts_with_def by auto
  assume k: "js_test (key_re key) l"
  show "\<not> active_line other l"
  proof
    assume act: "active_line other l"
    then have "\<not> was_commented l" by (rule active_is_key(2) [OF assms(2)])
    then have "active_line key l" by (rule key_is_active [OF assms(1) k])
    then obtain x where "js_trim_start l = key @ CHR '':'' # x" by (auto simp: active_line_def js_starts_with_def prefix_def)
    with act have "prefix (other @ '':'') (key @ CHR '':'' # x)" by (simp add: active_line_def js_starts_with_def)
    then show False by (rule differ)
  qed
qed

lemma active_in_split:
  "\<forall>l \<in> set a. \<not> is_section l \<Longrightarrow> is_section h \<Longrightarrow>
   active_in key (a @ h # r) = map (value_on key) (filter (active_line key) (takeWhile (\<lambda>l. \<not> ends_section l) r))"
  by (simp add: active_in_def section_split)

lemma config_line_LF: "l \<in> set (config_lines s) \<Longrightarrow> LF \<notin> set l"
  by (simp add: config_lines_eq lines_LF)

text \<open>The values of a key after an edit that puts one line in, at the place of another or below the header.\<close>

lemma active_after_edit:
  assumes "config_lines content = a @ h # b @ k @ c" "length k \<le> 1" "\<forall>l \<in> set a. \<not> is_section l" "is_section h"
    "\<forall>l \<in> set b. \<not> ends_section l" "\<not> ends_section line" "LF \<notin> set line"
  shows "active_values key (rejoined (a @ h # b @ line # c)) =
    map (value_on key) (filter (active_line key) (b @ line # takeWhile (\<lambda>l. \<not> ends_section l) c))"
proof -
  have "\<forall>l \<in> set (a @ h # b @ line # c). LF \<notin> set l"
    using config_line_LF [of _ content] assms(1, 7) by auto
  then have "active_values key (rejoined (a @ h # b @ line # c)) = active_in key (a @ h # b @ line # c)"
    by (intro active_rejoined) simp_all
  then show ?thesis using assms(3-6) by (simp add: active_in_split takeWhile_append)
qed

lemma bare_two: "LF \<notin> set x \<Longrightarrow> LF \<notin> set y \<Longrightarrow> bare_lines (x @ LF # y @ LF # []) = map js_trim_end [x, y, []]"
  by (simp add: bare_append)

lemma bare_gap: "bare_lines (x @ LF # [] @ LF # y) = bare_lines x @ [[]] @ bare_lines y"
  unfolding bare_append by simp

lemma upsert_none:
  assumes "js_find_index is_section (config_lines content) = None" "config_key key" "LF \<notin> set v"
  shows "active_values other (upsertBlockProducerConfigValue content key v) =
    (if active_line other (new_line key v) then [value_on other (new_line key v)] else [])"
proof -
  let ?line = "new_line key v" and ?pre = "js_trim_end content"
  obtain w where w: "content = ?pre @ w" "\<forall>c \<in> set w. is_space c" using trim_end_split by blast
  then obtain zs where "bare_lines content = bare_lines ?pre @ zs" using bare_space by metis
  moreover have "\<forall>l \<in> set (bare_lines content). \<not> is_section l"
    using assms(1) unfolding bare_config_lines [symmetric] by (simp add: find_index_None)
  ultimately have pre: "\<forall>l \<in> set (bare_lines ?pre @ [[]]). \<not> is_section l" by simp
  have h: "is_section ''block_producer:''" by (simp add: is_section_def js_trim_def is_space_def cu_def)
  have l: "LF \<notin> set ?line" by (rule new_line_facts(5) [OF assms(2, 3)])
  have lf: "LF \<notin> set ''block_producer:''" by simp
  have new: "upsertBlockProducerConfigValue content key v =
      (if ?pre \<noteq> [] then ?pre @ LF # [] @ LF # ''block_producer:'' @ LF # ?line @ LF # [] else ''block_producer:'' @ LF # ?line @ LF # [])"
    using assms(1) by (simp add: upsertBlockProducerConfigValue_def Let_def nl_def)
  have "bare_lines (upsertBlockProducerConfigValue content key v) =
      (if ?pre \<noteq> [] then bare_lines ?pre @ [[]] else []) @ map js_trim_end [''block_producer:'', ?line, []]"
    unfolding new bare_two [OF lf l, symmetric] using bare_gap by (cases "?pre \<noteq> []") (simp_all only: if_True if_False append_Nil append_assoc not_True_eq_False not_False_eq_True)
  then have "active_values other (upsertBlockProducerConfigValue content key v) =
      active_in other ((if ?pre \<noteq> [] then bare_lines ?pre @ [[]] else []) @ js_trim_end ''block_producer:'' # map js_trim_end [?line, []])"
    by (simp add: active_values_def active_in_bare [of _ "config_lines _", symmetric] bare_config_lines)
  also have "\<dots> = map (value_on other) (filter (active_line other) (takeWhile (\<lambda>l. \<not> ends_section l) (map js_trim_end [?line, []])))"
    by (rule active_in_split) (use pre h in auto)
  also have "\<dots> = (if active_line other ?line then [value_on other ?line] else [])"
    using new_line_facts(1) [OF assms(2), of v] by (simp add: active_bare value_bare)
  finally show ?thesis .
qed

text \<open>The key that was set has the new value only; every other key keeps its values.\<close>

lemma set_value_is_read:
  assumes "config_key key" "one_line v" "key_once key content"
  shows "active_values key (upsertBlockProducerConfigValue content key v) = [js_trim v]"
proof -
  let ?line = "new_line key v"
  have v: "LF \<notin> set v" using assms(2) by (simp add: one_line_def)
  note line = new_line_facts [OF assms(1)]
  have inactive: "filter (active_line key) ls = []" if "\<forall>l \<in> set ls. \<not> js_test (key_re key) l" for ls
    using that active_is_key(1) [OF assms(1)] by (auto simp: filter_empty_conv)
  show ?thesis
  proof (cases rule: section_cases [where lines = "config_lines content" and key = key])
    case none
    then show ?thesis using upsert_none [OF none(1) assms(1) v, of key] line(3, 4) by simp
  next
    case (no_key a h r)
    then have "upsertBlockProducerConfigValue content key v = rejoined (a @ h # [] @ ?line # r)"
      by (simp add: upsertBlockProducerConfigValue_def Let_def)
    moreover have "active_values key (rejoined (a @ h # [] @ ?line # r)) =
        map (value_on key) (filter (active_line key) ([] @ ?line # takeWhile (\<lambda>l. \<not> ends_section l) r))"
      by (rule active_after_edit [where k = "[]" and content = content]) (use no_key line(1) line(5) [OF v] in simp_all)
    ultimately show ?thesis using inactive [OF no_key(6)] line(3, 4) by simp
  next
    case (key a h b k c)
    then have edit: "upsertBlockProducerConfigValue content key v = rejoined (a @ h # b @ ?line # c)"
      by (simp add: upsertBlockProducerConfigValue_def Let_def list_update_append nth_append)
    have "active_values key (rejoined (a @ h # b @ ?line # c)) =
        map (value_on key) (filter (active_line key) (b @ ?line # takeWhile (\<lambda>l. \<not> ends_section l) c))"
      by (rule active_after_edit [where k = "[k]" and content = content]) (use key line(1) line(5) [OF v] in simp_all)
    moreover have "filter (active_line key) b = []" using inactive key(6) by simp
    moreover have "filter (active_line key) (takeWhile (\<lambda>l. \<not> ends_section l) c) = []"
    proof (rule inactive)
      have "length (filter (js_test (key_re key)) (b @ k # takeWhile (\<lambda>l. \<not> ends_section l) c)) \<le> 1"
        using assms(3) key by (simp add: key_once_def section_split takeWhile_append)
      then show "\<forall>l \<in> set (takeWhile (\<lambda>l. \<not> ends_section l) c). \<not> js_test (key_re key) l"
        using key(8) by (simp add: filter_empty_conv)
    qed
    ultimately show ?thesis using edit line(3, 4) by simp
  qed
qed

lemma other_values_stay:
  assumes "config_key key" "config_key other" "key \<noteq> other" "one_line v"
  shows "active_values other (upsertBlockProducerConfigValue content key v) = active_values other content"
proof -
  let ?line = "new_line key v"
  have v: "LF \<notin> set v" using assms(4) by (simp add: one_line_def)
  note line = new_line_facts [OF assms(1)] and differ = other_key_line [OF assms(1-3)]
  show ?thesis
  proof (cases rule: section_cases [where lines = "config_lines content" and key = key])
    case none
    then show ?thesis
      using upsert_none [OF none(1) assms(1) v, of other] differ(1) by (simp add: active_values_def active_in_def)
  next
    case (no_key a h r)
    then have "upsertBlockProducerConfigValue content key v = rejoined (a @ h # [] @ ?line # r)"
      by (simp add: upsertBlockProducerConfigValue_def Let_def)
    moreover have "active_values other (rejoined (a @ h # [] @ ?line # r)) =
        map (value_on other) (filter (active_line other) ([] @ ?line # takeWhile (\<lambda>l. \<not> ends_section l) r))"
      by (rule active_after_edit [where k = "[]" and content = content]) (use no_key line(1) line(5) [OF v] in simp_all)
    ultimately show ?thesis using no_key differ(1) by (simp add: active_values_def active_in_split)
  next
    case (key a h b k c)
    then have edit: "upsertBlockProducerConfigValue content key v = rejoined (a @ h # b @ ?line # c)"
      by (simp add: upsertBlockProducerConfigValue_def Let_def list_update_append nth_append)
    have "active_values other (rejoined (a @ h # b @ ?line # c)) =
        map (value_on other) (filter (active_line other) (b @ ?line # takeWhile (\<lambda>l. \<not> ends_section l) c))"
      by (rule active_after_edit [where k = "[k]" and content = content]) (use key line(1) line(5) [OF v] in simp_all)
    then show ?thesis using edit key differ(1) [of v] differ(2) [OF key(8)]
      by (simp add: active_values_def active_in_split takeWhile_append)
  qed
qed

text \<open>A key that is there once has no value after it was cleared; the answer says whether it had one.\<close>

lemma cleared_value_is_gone:
  assumes "config_key key" "key_once key content"
  shows "active_values key (fst (commentBlockProducerConfigValue content key)) = []"
    "snd (commentBlockProducerConfigValue content key) \<longleftrightarrow> active_values key content \<noteq> []"
proof -
  have inactive: "filter (active_line key) ls = []" if "\<forall>l \<in> set ls. \<not> js_test (key_re key) l" for ls
    using that active_is_key(1) [OF assms(1)] by (auto simp: filter_empty_conv)
  have "active_values key (fst (commentBlockProducerConfigValue content key)) = [] \<and>
    (snd (commentBlockProducerConfigValue content key) \<longleftrightarrow> active_values key content \<noteq> [])"
  proof (cases rule: section_cases [where lines = "config_lines content" and key = key])
    case none
    then show ?thesis by (simp add: commentBlockProducerConfigValue_def active_values_def active_in_def)
  next
    case (no_key a h r)
    then have "active_values key content = []" using inactive [OF no_key(6)] by (simp add: active_values_def active_in_split)
    then show ?thesis using no_key by (simp add: commentBlockProducerConfigValue_def Let_def)
  next
    case (key a h b k c)
    then have edit: "commentBlockProducerConfigValue content key = (rejoined (a @ h # b @ commented_line k # c), \<not> was_commented k)"
      by (simp add: commentBlockProducerConfigValue_def Let_def list_update_append nth_append)
    have "LF \<notin> set k" using config_line_LF [of k content] key(1) by simp
    then have "active_values key (rejoined (a @ h # b @ commented_line k # c)) =
        map (value_on key) (filter (active_line key) (b @ commented_line k # takeWhile (\<lambda>l. \<not> ends_section l) c))"
      by (intro active_after_edit [where k = "[k]" and content = content]) (use key commented_line_facts in simp_all)
    moreover have "\<not> active_line key (commented_line k)"
      using commented_line_facts(1) active_is_key(2) [OF assms(1)] by blast
    moreover have b: "filter (active_line key) b = []" using inactive key(6) by simp
    moreover have c: "filter (active_line key) (takeWhile (\<lambda>l. \<not> ends_section l) c) = []"
    proof (rule inactive)
      have "length (filter (js_test (key_re key)) (b @ k # takeWhile (\<lambda>l. \<not> ends_section l) c)) \<le> 1"
        using assms(2) key by (simp add: key_once_def section_split takeWhile_append)
      then show "\<forall>l \<in> set (takeWhile (\<lambda>l. \<not> ends_section l) c). \<not> js_test (key_re key) l"
        using key(8) by (simp add: filter_empty_conv)
    qed
    moreover have "active_values key content \<noteq> [] \<longleftrightarrow> \<not> was_commented k"
      using key b c active_is_key(2) [OF assms(1), of k] key_is_active [OF assms(1) key(8)]
      by (auto simp: active_values_def active_in_split takeWhile_append)
    ultimately show ?thesis using edit by simp
  qed
  then show "active_values key (fst (commentBlockProducerConfigValue content key)) = []"
    "snd (commentBlockProducerConfigValue content key) \<longleftrightarrow> active_values key content \<noteq> []" by blast+
qed

text \<open>Where a commented line of the key comes before the active one, clearing reports that nothing was configured
  and leaves the address, and setting leaves two values.\<close>

definition commented_first :: string where
  "commented_first = js_join nl [''block_producer:'', ''  # producer: 1Old'', ''  producer: 1Live'', '''']"

lemma comment_shields_the_value:
  "snd (commentBlockProducerConfigValue commented_first ''producer'') = False \<and>
   active_values ''producer'' (fst (commentBlockProducerConfigValue commented_first ''producer'')) = [''1Live''] \<and>
   active_values ''producer'' (upsertBlockProducerConfigValue commented_first ''producer'' ''1New'') = [''1New'', ''1Live'']"
  by code_simp

text \<open>A header with a comment behind it is not seen: a second section is appended.\<close>

lemma annotated_header_is_missed:
  "upsertBlockProducerConfigValue (js_join nl [''block_producer: # mine'', ''  producer: 1Live'', '''']) ''producer'' ''1New'' =
   js_join nl [''block_producer: # mine'', ''  producer: 1Live'', [], ''block_producer:'', ''  producer: 1New'', '''']"
  by code_simp

section \<open>The configuration file\<close>

text \<open>The rest of the file system is as before.\<close>

definition only_at :: "location \<Rightarrow> fs \<Rightarrow> fs \<Rightarrow> bool" where
  "only_at l fs fs' \<longleftrightarrow> (\<forall>q. q \<noteq> l \<longrightarrow> fs' q = fs q)"

text \<open>The text that is edited: that of the file, or none where there is no file.\<close>

definition edited_text :: "fs \<Rightarrow> string \<Rightarrow> string" where
  "edited_text fs p = (case file_text fs p of Some t \<Rightarrow> t | None \<Rightarrow> [])"

lemma write_fileD:
  "write_file l data fs = Some fs' \<Longrightarrow> fs' l = Some (File data) \<and> only_at l fs fs'"
  by (auto simp: write_file_def only_at_def split: if_splits)

lemma config_keys: "config_key ''producer''" "config_key ''private-key-file''"
  by (simp_all add: config_key_def is_word_def is_alpha_def is_lower_def cu_def)

lemma written_address:
  assumes "persistProducerRuntimeConfig e baseDir address fs = (Inr path, fs')" "one_line address"
    "key_once ''producer'' (edited_text fs (baseDirConfigFilePath baseDir))"
  shows "active_values ''producer'' (edited_text fs' path) = [js_trim address] \<and> path = baseDirConfigFilePath baseDir \<and>
    only_at (loc path) fs fs'"
proof -
  let ?p = "baseDirConfigFilePath baseDir"
  let ?t = "\<lambda>existing. upsertBlockProducerConfigValue existing ''producer'' address"
  define written where "written = (\<lambda>existing. if fs_exists fs (blockProducerPrivateKeyFilePath baseDir)
    then upsertBlockProducerConfigValue (?t existing) ''private-key-file'' ''block_producer/private.key'' else ?t existing)"
  have "persistProducerRuntimeConfig e baseDir address fs =
      (case (if fs_exists fs ?p then file_text fs ?p else Some []) of
         None \<Rightarrow> (Inl e, fs)
       | Some existing \<Rightarrow> (case write_file (loc ?p) (Bytes (written existing)) fs of
           None \<Rightarrow> (Inl e, fs) | Some fs1 \<Rightarrow> (Inr ?p, fs1)))"
    by (simp only: persistProducerRuntimeConfig_def Let_def written_def)
  with assms(1) obtain existing where ex: "(if fs_exists fs ?p then file_text fs ?p else Some []) = Some existing"
    "write_file (loc ?p) (Bytes (written existing)) fs = Some fs'" and path: "path = ?p"
    by (auto split: option.splits)
  have "edited_text fs ?p = existing"
    using ex(1) by (auto simp: edited_text_def file_text_def fs_exists_def split: if_splits option.splits)
  then have "active_values ''producer'' (?t existing) = [js_trim address]"
    using set_value_is_read [OF config_keys(1) assms(2)] assms(3) by simp
  moreover have "one_line ''block_producer/private.key''" by (simp add: one_line_def)
  ultimately have "active_values ''producer'' (written existing) = [js_trim address]"
    using other_values_stay [OF config_keys(2) config_keys(1)] unfolding written_def by simp
  moreover have "edited_text fs' ?p = written existing" "only_at (loc ?p) fs fs'"
    using write_fileD [OF ex(2)] by (simp_all add: edited_text_def file_text_def)
  ultimately show ?thesis using path by simp
qed

lemma no_config_is_written:
  "persistProducerRuntimeConfig e baseDir address fs = (Inl m, fs') \<Longrightarrow> fs' = fs"
  by (auto simp: persistProducerRuntimeConfig_def Let_def split: option.splits)

lemma cleared_address:
  assumes "clearProducerRuntimeConfig e baseDir fs = (Inr (path, cleared), fs')"
    "key_once ''producer'' (edited_text fs (baseDirConfigFilePath baseDir))"
  shows "active_values ''producer'' (edited_text fs' path) = [] \<and> only_at (loc path) fs fs' \<and>
    (cleared \<longleftrightarrow> active_values ''producer'' (edited_text fs path) \<noteq> [])"
proof -
  let ?p = "baseDirConfigFilePath baseDir"
  have path: "path = ?p" using assms(1)
    by (auto simp: clearProducerRuntimeConfig_def Let_def split: if_splits option.splits prod.splits bool.splits)
  show ?thesis
  proof (cases "fs_exists fs ?p")
    case False
    then have "edited_text fs ?p = []" by (simp add: edited_text_def file_text_def fs_exists_def)
    moreover have "active_values ''producer'' [] = []" by code_simp
    ultimately show ?thesis using False assms(1) path by (auto simp: clearProducerRuntimeConfig_def only_at_def)
  next
    case True
    then obtain existing where ex: "file_text fs ?p = Some existing"
      using assms(1) by (auto simp: clearProducerRuntimeConfig_def Let_def split: option.splits)
    then have old: "edited_text fs ?p = existing" by (simp add: edited_text_def)
    note gone = cleared_value_is_gone [OF config_keys(1) assms(2) [unfolded old]]
    show ?thesis
    proof (cases "commentBlockProducerConfigValue existing ''producer''")
      case (Pair content changed)
      show ?thesis
      proof (cases changed)
        case True
        with \<open>fs_exists fs ?p\<close> ex Pair assms(1) have w: "write_file (loc ?p) (Bytes content) fs = Some fs'" "cleared"
          by (auto simp: clearProducerRuntimeConfig_def Let_def split: option.splits)
        have "edited_text fs' ?p = content" "only_at (loc ?p) fs fs'"
          using write_fileD [OF w(1)] by (simp_all add: edited_text_def file_text_def)
        then show ?thesis using gone Pair True old path w(2) by simp
      next
        case False
        with \<open>fs_exists fs ?p\<close> ex Pair assms(1) have "fs' = fs" "\<not> cleared"
          by (auto simp: clearProducerRuntimeConfig_def Let_def)
        then show ?thesis using gone(2) Pair False old path by (simp add: only_at_def)
      qed
    qed
  qed
qed

section \<open>Properties of the configuration\<close>


definition sample_config :: fs where
  "sample_config = (\<lambda>_. None)([] \<mapsto> Dir, [''n''] \<mapsto> Dir,
     [''n'', ''config.yml''] \<mapsto> File (Bytes (js_join nl [''global:'', ''  log-level: info'', ''block_producer:'', ''  #producer: 1Addr'', ''p2p:'', '''' ])))"


section \<open>Creating a key\<close>

text \<open>A key the application can read in a directory.\<close>

definition readable_key :: "(string \<Rightarrow> string option) \<Rightarrow> fs \<Rightarrow> string \<Rightarrow> bool" where
  "readable_key public_of fs dir \<longleftrightarrow> direct_key fs dir \<noteq> None \<or> derived_key public_of fs dir \<noteq> None"

lemma first_answer_None: "first_answer f xs = None \<longleftrightarrow> (\<forall>x \<in> set xs. f x = None)"
  by (induction xs) (auto split: option.splits)

lemma first_answer_Some: "first_answer f xs = Some y \<Longrightarrow> \<exists>x \<in> set xs. f x = Some y"
  by (induction xs) (auto split: option.splits)

lemma unique_two: "set (js_unique [a, b]) = {a, b}"
  by (auto simp: js_unique_def)

text \<open>A key is found for a directory exactly when it or the default directory has one that can be read.\<close>

lemma local_key_found:
  "Option.bind (lk_publicKey (resolveLocalProducerPublicKey public_of os fs dir)) some_text = None \<longleftrightarrow>
     (\<forall>d \<in> {ensureKoinosBaseDir os fs dir, ensureKoinosBaseDir os fs (default_basedir os)} - {[]}. \<not> readable_key public_of fs d)"
  (is "?none \<longleftrightarrow> ?clear")
proof -
  let ?ds = "producerKeyLookupSettings os fs dir" and ?found = "resolveLocalProducerPublicKey public_of os fs dir"
  have ds: "set ?ds = {ensureKoinosBaseDir os fs dir, ensureKoinosBaseDir os fs (default_basedir os)} - {[]}"
    unfolding producerKeyLookupSettings_def by (auto simp: unique_two)
  have direct: "\<exists>t. lk_publicKey k = Some t \<and> t \<noteq> []" if "direct_key fs d = Some k" for d k
    using that by (auto simp: direct_key_def readTrimmedFile_def some_text_def split: bind_splits if_splits)
  have derived: "\<exists>t. lk_publicKey k = Some t \<and> t \<noteq> []" if "derived_key public_of fs d = Some k" for d k
    using that by (auto simp: derived_key_def split: bind_splits if_splits)
  have some: "\<not> ?none" "\<not> ?clear" if "?found = k" "d \<in> set ?ds" "readable_key public_of fs d" "lk_publicKey k = Some t" "t \<noteq> []" for d k t
    using that ds by (auto simp: some_text_def)
  show ?thesis
  proof (cases "first_answer (direct_key fs) ?ds")
    case (Some k)
    then obtain d t where "d \<in> set ?ds" "direct_key fs d = Some k" "lk_publicKey k = Some t" "t \<noteq> []"
      using first_answer_Some direct by metis
    moreover have "?found = k" using Some by (simp add: resolveLocalProducerPublicKey_def)
    moreover have "readable_key public_of fs d" using \<open>direct_key _ _ = _\<close> by (simp add: readable_key_def)
    ultimately show ?thesis using some [of k d t] by blast
  next
    case nodirect: None
    show ?thesis
    proof (cases "first_answer (derived_key public_of fs) ?ds")
      case (Some k)
      then obtain d t where "d \<in> set ?ds" "derived_key public_of fs d = Some k" "lk_publicKey k = Some t" "t \<noteq> []"
        using first_answer_Some derived by metis
      moreover have "?found = k" using Some nodirect by (simp add: resolveLocalProducerPublicKey_def)
      moreover have "readable_key public_of fs d" using \<open>derived_key _ _ _ = _\<close> by (simp add: readable_key_def)
    ultimately show ?thesis using some [of k d t] by blast
    next
      case None
      then have ?none using nodirect by (simp add: resolveLocalProducerPublicKey_def)
      moreover have ?clear using None nodirect unfolding ds [symmetric] first_answer_None readable_key_def by simp
      ultimately show ?thesis by simp
    qed
  qed
qed

text \<open>No entry but the one at l is removed or changed; directories may be made.\<close>

definition keeps_entries :: "location \<Rightarrow> fs \<Rightarrow> fs \<Rightarrow> bool" where
  "keeps_entries l fs fs' \<longleftrightarrow> (\<forall>q. q \<noteq> l \<and> fs q \<noteq> None \<longrightarrow> fs' q = fs q)"

lemma mkdir_keeps: "mkdir_all l fs = Some fs' \<Longrightarrow> keeps_entries q fs fs'"
proof -
  assume "mkdir_all l fs = Some fs'"
  then have no: "\<forall>q \<in> set (prefixes l). \<not> (case fs q of Some (File _) \<Rightarrow> True | _ \<Rightarrow> False)"
    and fs': "fs' = (\<lambda>q. if prefix q l then Some Dir else fs q)"
    by (auto simp: mkdir_all_def list_ex_iff split: if_splits)
  have "fs p = Some Dir" if "prefix p l" "fs p \<noteq> None" for p
    using bspec [OF no, of p] that by (cases "fs p"; cases "the (fs p)") auto
  then show ?thesis unfolding keeps_entries_def fs' by auto
qed

text \<open>C19: Creating the local producer key never replaces a key that can be read: if the directory (or the default one) has
  a public key file, or a private key file from which koilib derives a key, no file changes and the answer names that key.
  Otherwise at most the private key file of the directory is written, every other entry stays, and when the answer says
  that a key was created, that key is derived from the file. The directory must be one that \<open>ensureKoinosBaseDir\<close>
  leaves as it is.\<close>

theorem key_creation_is_careful:
  assumes "createLocalProducerKeyFile public_of fresh e os baseDir fs = (r, fs')"
    "dir = ensureKoinosBaseDir os fs baseDir" "ensureKoinosBaseDir os fs dir = dir" "dir \<noteq> []"
    "\<And>wif pk. fresh = Inr (wif, pk) \<Longrightarrow> js_trim (wif @ nl) = wif \<and> wif \<noteq> [] \<and> public_of wif = Some pk"
  shows "(readable_key public_of fs dir \<longrightarrow> fs' = fs \<and> ck_ok r \<and> \<not> ck_created r \<and> ck_publicKey r \<noteq> None) \<and>
    keeps_entries (loc (blockProducerPrivateKeyFilePath dir)) fs fs' \<and>
    (ck_created r \<longrightarrow> \<not> readable_key public_of fs dir \<and> ck_publicKey r \<noteq> None \<and>
       derivePublicKeyFromPrivateKeyFile public_of fs' dir = ck_publicKey r)"
proof (cases "Option.bind (lk_publicKey (resolveLocalProducerPublicKey public_of os fs dir)) some_text")
  case (Some key)
  with assms(1, 2) have "fs' = fs" "ck_ok r" "\<not> ck_created r" "ck_publicKey r = Some key"
    by (auto simp: createLocalProducerKeyFile_def Let_def)
  then show ?thesis by (simp add: keeps_entries_def)
next
  case None
  then have none: "\<not> readable_key public_of fs dir" using local_key_found [of public_of os fs dir] assms(3, 4) by auto
  let ?p = "blockProducerPrivateKeyFilePath dir"
  show ?thesis
  proof (cases "\<exists>wif pk fs1 fs2. fresh = Inr (wif, pk) \<and> mkdir_all (butlast (loc ?p)) fs = Some fs1 \<and>
      write_file (loc ?p) (Bytes (wif @ nl)) fs1 = Some fs2")
    case True
    then obtain wif pk fs1 where new: "fresh = Inr (wif, pk)" "mkdir_all (butlast (loc ?p)) fs = Some fs1"
      "write_file (loc ?p) (Bytes (wif @ nl)) fs1 = Some fs'" "ck_publicKey r = Some pk"
      using assms(1) None unfolding assms(2) by (auto simp: createLocalProducerKeyFile_def Let_def)
    have w: "fs' (loc ?p) = Some (File (Bytes (wif @ nl)))" "only_at (loc ?p) fs1 fs'" using write_fileD [OF new(3)] by blast+
    have "derivePublicKeyFromPrivateKeyFile public_of fs' dir = Some pk"
      using w(1) assms(5) [OF new(1)] by (simp add: derivePublicKeyFromPrivateKeyFile_def readTrimmedFile_def file_text_def some_text_def)
    moreover have "keeps_entries (loc ?p) fs fs'"
      using mkdir_keeps [OF new(2), of "loc ?p"] w(2) unfolding keeps_entries_def only_at_def by simp
    ultimately show ?thesis using none new(4) by simp
  next
    case False
    then have "\<not> ck_created r \<and> (fs' = fs \<or> mkdir_all (butlast (loc ?p)) fs = Some fs')"
      using assms(1) None unfolding assms(2)
      by (auto simp: createLocalProducerKeyFile_def key_not_created_def Let_def split: sum.splits option.splits)
    then have "keeps_entries (loc ?p) fs fs'" using mkdir_keeps [of _ fs fs' "loc ?p"] by (auto simp: keeps_entries_def)
    with \<open>\<not> ck_created r \<and> _\<close> none show ?thesis by simp
  qed
qed

text \<open>A new installation with a node directory, without and with a private key that koilib does not read.\<close>

definition sample_os :: os_env where
  "sample_os = \<lparr>os_homedir = ''/h'', os_HOME = ''/h''\<rparr>"

definition fresh_node :: fs where
  "fresh_node = (\<lambda>_. None)([] \<mapsto> Dir, [''h''] \<mapsto> Dir, [''h'', ''.teleno''] \<mapsto> Dir,
     [''h'', ''.teleno'', ''config.yml''] \<mapsto> File (Bytes ''p2p:''))"

definition legacy_node :: fs where
  "legacy_node = fresh_node([''h'', ''.teleno'', ''block_producer''] \<mapsto> Dir,
     [''h'', ''.teleno'', ''block_producer'', ''private.key''] \<mapsto> File (Bytes ''legacy''))"

definition sample_public :: "string \<Rightarrow> string option" where
  "sample_public wif = (if wif = ''5Jw'' then Some ''Apub'' else None)"

theorem key_creation_is_careful_witness:
  "case createLocalProducerKeyFile sample_public (Inr (''5Jw'', ''Apub'')) ''e'' sample_os [] fresh_node of (r, fs') \<Rightarrow>
     ck_created r \<and> derivePublicKeyFromPrivateKeyFile sample_public fs' ''/h/.teleno'' = ck_publicKey r \<and>
     keeps_entries [''h'', ''.teleno'', ''block_producer'', ''private.key''] fresh_node fs'"
proof -
  let ?run = "createLocalProducerKeyFile sample_public (Inr (''5Jw'', ''Apub'')) ''e'' sample_os [] fresh_node"
  have "js_trim (''5Jw'' @ nl) = ''5Jw'' \<and> sample_public ''5Jw'' = Some ''Apub''" by code_simp
  then have w: "\<And>wif pk. Inr (''5Jw'', ''Apub'') = (Inr (wif, pk) :: string + string \<times> string) \<Longrightarrow>
      js_trim (wif @ nl) = wif \<and> wif \<noteq> [] \<and> sample_public wif = Some pk" by auto
  have d: "''/h/.teleno'' = ensureKoinosBaseDir sample_os fresh_node []" by code_simp
  have e: "ensureKoinosBaseDir sample_os fresh_node ''/h/.teleno'' = ''/h/.teleno''" by code_simp
  have n: "''/h/.teleno'' \<noteq> []" by simp
  note key_creation_is_careful [OF prod.collapse [of ?run, symmetric] d e n w]
  then have "keeps_entries (loc (blockProducerPrivateKeyFilePath ''/h/.teleno'')) fresh_node (snd ?run) \<and>
      (ck_created (fst ?run) \<longrightarrow> derivePublicKeyFromPrivateKeyFile sample_public (snd ?run) ''/h/.teleno'' = ck_publicKey (fst ?run))"
    by blast
  moreover have "ck_created (fst ?run)" by code_simp
  moreover have "loc (blockProducerPrivateKeyFilePath ''/h/.teleno'') = [''h'', ''.teleno'', ''block_producer'', ''private.key'']" by code_simp
  ultimately show ?thesis by (simp add: case_prod_unfold)
qed

text \<open>A private key that is there but cannot be read is replaced, and the answer is that a key was created.\<close>

lemma unreadable_key_is_replaced:
  "case createLocalProducerKeyFile sample_public (Inr (''5Jw'', ''Apub'')) ''e'' sample_os [] legacy_node of (r, fs') \<Rightarrow>
     ck_created r \<and> file_text legacy_node ''/h/.teleno/block_producer/private.key'' = Some ''legacy'' \<and>
     file_text fs' ''/h/.teleno/block_producer/private.key'' = Some (''5Jw'' @ nl)"
  by code_simp

text \<open>A directory without a key answers with the key of the default directory.\<close>

lemma key_of_the_default_directory:
  "lk_publicKey (resolveLocalProducerPublicKey sample_public sample_os
     (fresh_node([''h'', ''.teleno'', ''block_producer'', ''public.key''] \<mapsto> File (Bytes ''Amain''))) ''/h/.teleno/testnet/.koinos'') =
   Some ''Amain''"
  by code_simp

section \<open>Starting a producer\<close>

text \<open>An address that was given explicitly: in the configuration or in the producer profile of the network.\<close>

definition explicit_address :: "preflight_env \<Rightarrow> network \<Rightarrow> string \<Rightarrow> node_files \<Rightarrow> string \<Rightarrow> bool" where
  "explicit_address env net baseDir s address \<longleftrightarrow>
     cp_producerAddress (configured_producer env baseDir s) = Some address \<or>
     (\<exists>p. loadProducerProfile (pe_lib env) (pe_env env) (Some net) (nf_store s) = Some p \<and> js_trim (pp_producerAddress p) = address)"

lemma configured_trimmed:
  "cp_producerAddress (configured_producer env baseDir s) = Some a \<Longrightarrow> js_trim a = a \<and> a \<noteq> []"
  by (auto simp: configured_producer_def producerAddressFromRuntimeConfig_def Let_def some_text_def split: option.splits if_splits)

lemma configured_has: "cp_configHasProducer (configured_producer env baseDir s) \<longleftrightarrow> cp_producerAddress (configured_producer env baseDir s) \<noteq> None"
  by (simp add: configured_producer_def producerAddressFromRuntimeConfig_def Let_def split: option.split)

lemma candidate_source:
  assumes "resolveRuntimeProducerAddressCandidate env net baseDir s = ((Some a, src), s1)"
  shows "(src = FromConfig \<and> cp_producerAddress (configured_producer env baseDir s) = Some a) \<or>
    (src = FromProfile \<and> (\<exists>p. loadProducerProfile (pe_lib env) (pe_env env) (Some net) (nf_store s) = Some p \<and> js_trim (pp_producerAddress p) = a)) \<or>
    (src = FromWallet \<and> net \<noteq> Mainnet)"
  using assms by (auto simp: resolveRuntimeProducerAddressCandidate_def some_text_def
      split: option.splits prod.splits if_splits bind_splits)

lemma candidate_files: "resolveRuntimeProducerAddressCandidate env net baseDir s = (c, s1) \<Longrightarrow> nf_fs s1 = nf_fs s"
  by (auto simp: resolveRuntimeProducerAddressCandidate_def split: option.splits prod.splits if_splits)


end
