(* ===== verification/FirstRun.thy ===== *)
theory FirstRun
  imports JsText
begin

text \<open>
  The marker of the first-run set-up: electron/lib/first-run-setup.ts.

  State: the marker file. A write can fail before the file is replaced, or after it (the
  permissions are set last); the argument \<open>w\<close> of the writing operations says which. Completing
  and resetting pass the failure on, the migration of an existing set-up swallows it.
\<close>

section \<open>Types\<close>

record install_descriptor =
  fi_appName :: string
  fi_appVersion :: string
  fi_appPath :: string
  fi_packaged :: bool
  fi_mtimeMs :: "rat option"
  fi_birthtimeMs :: "rat option"

record setup_evidence =
  fe_detected :: bool
  fe_reason :: string

datatype setup_source = MarkerFile | MarkerMissing | MarkerUnreadable | MigratedSetup | MarkerReset

record setup_state =
  fs_completed :: bool
  fs_filePath :: string
  fs_install :: install_descriptor
  fs_completedAt :: jsval
  fs_setup :: jsval
  fs_source :: setup_source
  fs_migrated :: bool
  fs_migrationReason :: "string option"
  fs_installChanged :: bool

datatype write_result = Written | NotReplaced | ReplacedButFailed

section \<open>Reading\<close>

fun isRecord :: "jsval \<Rightarrow> bool" where
  "isRecord (JObj _) = True"
| "isRecord _ = False"

definition sanitizeStoredSetup :: "jsval \<Rightarrow> jsval" where
  "sanitizeStoredSetup v = (if isRecord v then v else JNull)"

definition field_changed :: "jsval \<Rightarrow> string \<Rightarrow> string \<Rightarrow> bool" where
  "field_changed previous key current \<longleftrightarrow>
     js_prop key previous \<noteq> JUndefined \<and> js_prop key previous \<noteq> JStr current"

definition installChanged :: "jsval \<Rightarrow> install_descriptor \<Rightarrow> bool" where
  "installChanged previous current \<longleftrightarrow>
     truthy previous \<and>
     (field_changed previous ''appName'' (fi_appName current) \<or>
      field_changed previous ''appVersion'' (fi_appVersion current) \<or>
      field_changed previous ''appPath'' (fi_appPath current))"

definition completedState ::
  "string \<Rightarrow> install_descriptor \<Rightarrow> jsval \<Rightarrow> setup_source \<Rightarrow> string option \<Rightarrow> setup_state" where
  "completedState path install raw source reason =
     \<lparr>fs_completed = True, fs_filePath = path, fs_install = install,
      fs_completedAt = (if truthy (js_prop ''completedAt'' raw) then js_prop ''completedAt'' raw else JNull),
      fs_setup = sanitizeStoredSetup (js_prop ''setup'' raw), fs_source = source,
      fs_migrated = (source = MigratedSetup), fs_migrationReason = reason,
      fs_installChanged = installChanged (js_prop ''install'' raw) install\<rparr>"

definition incompleteState :: "string \<Rightarrow> install_descriptor \<Rightarrow> setup_source \<Rightarrow> jsval \<Rightarrow> setup_state" where
  "incompleteState path install source setup =
     \<lparr>fs_completed = False, fs_filePath = path, fs_install = install, fs_completedAt = JNull,
      fs_setup = setup, fs_source = source, fs_migrated = False, fs_migrationReason = None,
      fs_installChanged = False\<rparr>"

text \<open>A marker that holds \<open>null\<close> throws at the first property.\<close>

definition readFirstRunSetupStateFile :: "string \<Rightarrow> install_descriptor \<Rightarrow> stored_file \<Rightarrow> setup_state" where
  "readFirstRunSetupStateFile path install marker_file =
     (case marker_file of
        Missing \<Rightarrow> incompleteState path install MarkerMissing JNull
      | Garbled \<Rightarrow> incompleteState path install MarkerUnreadable JNull
      | Content raw \<Rightarrow>
          if raw = JNull then incompleteState path install MarkerUnreadable JNull
          else if js_prop ''completed'' raw = JBool True then completedState path install raw MarkerFile None
          else incompleteState path install MarkerFile (sanitizeStoredSetup (js_prop ''setup'' raw)))"

section \<open>Writing\<close>

definition json_num :: "rat option \<Rightarrow> jsval" where
  "json_num x = (case x of None \<Rightarrow> JNull | Some r \<Rightarrow> JNum (Fin r))"

definition install_json :: "install_descriptor \<Rightarrow> jsval" where
  "install_json d = JObj
     [(''appName'', JStr (fi_appName d)), (''appVersion'', JStr (fi_appVersion d)),
      (''appPath'', JStr (fi_appPath d)), (''packaged'', JBool (fi_packaged d)),
      (''mtimeMs'', json_num (fi_mtimeMs d)), (''birthtimeMs'', json_num (fi_birthtimeMs d))]"

text \<open>The file after the write, and whether the write returned.\<close>

definition writeStateFile :: "write_result \<Rightarrow> jsval \<Rightarrow> stored_file \<Rightarrow> bool \<times> stored_file" where
  "writeStateFile w payload marker_file =
     (case w of
        Written \<Rightarrow> (True, Content (json_stored payload))
      | NotReplaced \<Rightarrow> (False, marker_file)
      | ReplacedButFailed \<Rightarrow> (False, Content (json_stored payload)))"

definition migration_payload :: "string \<Rightarrow> install_descriptor \<Rightarrow> string \<Rightarrow> jsval" where
  "migration_payload now install reason = JObj
     [(''completed'', JBool True), (''completedAt'', JStr now), (''install'', install_json install),
      (''setup'', JObj [(''completedFrom'', JStr ''existing-install-migration''),
         (''migrationReason'', JStr reason)])]"

definition readOrMigrateFirstRunSetupState ::
  "write_result \<Rightarrow> string \<Rightarrow> string \<Rightarrow> install_descriptor \<Rightarrow> setup_evidence option \<Rightarrow> stored_file
   \<Rightarrow> setup_state \<times> stored_file" where
  "readOrMigrateFirstRunSetupState w now path install evidence marker_file =
     (let state = readFirstRunSetupStateFile path install marker_file
      in case evidence of
           None \<Rightarrow> (state, marker_file)
         | Some e \<Rightarrow>
             if fs_completed state \<or> fs_source state \<notin> {MarkerMissing, MarkerUnreadable} \<or> \<not> fe_detected e
             then (state, marker_file)
             else
               (completedState path install (migration_payload now install (fe_reason e)) MigratedSetup
                  (Some (fe_reason e)),
                snd (writeStateFile w (migration_payload now install (fe_reason e)) marker_file)))"

definition completion_payload :: "string \<Rightarrow> install_descriptor \<Rightarrow> jsval \<Rightarrow> jsval" where
  "completion_payload now install setup = JObj
     [(''completed'', JBool True), (''completedAt'', JStr now), (''install'', install_json install),
      (''setup'', sanitizeStoredSetup setup)]"

text \<open>\<open>None\<close>: the failure of the write is thrown.\<close>

definition completeFirstRunSetupState ::
  "write_result \<Rightarrow> string \<Rightarrow> string \<Rightarrow> install_descriptor \<Rightarrow> jsval \<Rightarrow> stored_file
   \<Rightarrow> setup_state option \<times> stored_file" where
  "completeFirstRunSetupState w now path install setup marker_file =
     (case writeStateFile w (completion_payload now install setup) marker_file of
        (ok, file1) \<Rightarrow> (if ok then Some (readFirstRunSetupStateFile path install file1) else None, file1))"

definition reset_setup :: jsval where
  "reset_setup = JObj [(''completedFrom'', JStr ''manual-reset'')]"

definition reset_payload :: "install_descriptor \<Rightarrow> jsval" where
  "reset_payload install = JObj
     [(''completed'', JBool False), (''install'', install_json install), (''setup'', reset_setup)]"

definition resetFirstRunSetupState ::
  "write_result \<Rightarrow> string \<Rightarrow> install_descriptor \<Rightarrow> stored_file \<Rightarrow> setup_state option \<times> stored_file" where
  "resetFirstRunSetupState w path install marker_file =
     (case writeStateFile w (reset_payload install) marker_file of
        (ok, file1) \<Rightarrow> (if ok then Some (incompleteState path install MarkerReset reset_setup) else None, file1))"

section \<open>Sequences of operations\<close>

datatype setup_op =
    OpRead install_descriptor "setup_evidence option"
  | OpComplete install_descriptor jsval
  | OpReset install_descriptor

text \<open>One launch-time or user operation, with the fate of its write and its time.\<close>

fun setup_step :: "string \<Rightarrow> write_result \<times> string \<times> setup_op \<Rightarrow> stored_file \<Rightarrow> stored_file" where
  "setup_step path (w, now, OpRead install evidence) f =
     snd (readOrMigrateFirstRunSetupState w now path install evidence f)"
| "setup_step path (w, now, OpComplete install setup) f =
     snd (completeFirstRunSetupState w now path install setup f)"
| "setup_step path (w, now, OpReset install) f = snd (resetFirstRunSetupState w path install f)"

definition setup_run :: "string \<Rightarrow> (write_result \<times> string \<times> setup_op) list \<Rightarrow> stored_file \<Rightarrow> stored_file" where
  "setup_run path ops f = foldl (\<lambda>f op. setup_step path op f) f ops"

datatype marker = NoMarker | Done | Open

text \<open>What the marker file says.\<close>

definition marker_of :: "stored_file \<Rightarrow> marker" where
  "marker_of f =
     (case f of
        Content raw \<Rightarrow>
          if raw = JNull then NoMarker else if js_prop ''completed'' raw = JBool True then Done else Open
      | _ \<Rightarrow> NoMarker)"

text \<open>The specification: how an operation whose write takes effect moves the marker.\<close>

fun marker_step :: "setup_op \<Rightarrow> marker \<Rightarrow> marker" where
  "marker_step (OpRead _ evidence) m =
     (if m = NoMarker \<and> pred_option fe_detected evidence \<and> evidence \<noteq> None then Done else m)"
| "marker_step (OpComplete _ _) m = Done"
| "marker_step (OpReset _) m = Open"

lemma read_marker:
  "fs_completed (readFirstRunSetupStateFile path install f) \<longleftrightarrow> marker_of f = Done"
  "fs_source (readFirstRunSetupStateFile path install f) \<in> {MarkerMissing, MarkerUnreadable} \<longleftrightarrow> marker_of f = NoMarker"
  by (simp_all add: readFirstRunSetupStateFile_def marker_of_def completedState_def incompleteState_def
      split: stored_file.split)

lemma stored_completed:
  "js_prop ''completed'' (json_stored (JObj ((''completed'', JBool b) # ps))) = JBool b"
  by simp

lemma marker_of_payloads [simp]:
  "marker_of (Content (json_stored (migration_payload now install reason))) = Done"
  "marker_of (Content (json_stored (completion_payload now install setup))) = Done"
  "marker_of (Content (json_stored (reset_payload install))) = Open"
  by (simp_all add: marker_of_def migration_payload_def completion_payload_def reset_payload_def)

lemma written_marker:
  "marker_of (snd (writeStateFile w payload f)) =
     (if w = NotReplaced then marker_of f else marker_of (Content (json_stored payload)))"
  by (cases w) (simp_all add: writeStateFile_def)

lemma setup_step_refines:
  "marker_of (setup_step path (w, now, op) f) =
     (if w = NotReplaced then marker_of f else marker_step op (marker_of f))"
proof (cases op)
  case (OpRead install evidence)
  then show ?thesis
    using read_marker [of path install f]
    by (cases evidence) (auto simp: readOrMigrateFirstRunSetupState_def Let_def written_marker)
qed (simp_all add: completeFirstRunSetupState_def resetFirstRunSetupState_def written_marker case_prod_unfold)

text \<open>The first-run marker is a machine with the states none, done and open: reading moves it only
  from none to done, and only with evidence of an existing set-up; completing makes it done and
  resetting open, whenever the write takes effect. The wizard is skipped exactly when the marker
  is done, or there is none and evidence was found, even if the migrated marker cannot be written.\<close>

theorem first_run_marker_refines:
  "marker_of (setup_run path ops f) =
     foldl (\<lambda>m (w, now, op). if w = NotReplaced then m else marker_step op m) (marker_of f) ops \<and>
   (fs_completed (fst (readOrMigrateFirstRunSetupState w now path install evidence f)) \<longleftrightarrow>
     marker_step (OpRead install evidence) (marker_of f) = Done)"
proof
  show "marker_of (setup_run path ops f) =
      foldl (\<lambda>m (w, now, op). if w = NotReplaced then m else marker_step op m) (marker_of f) ops"
  proof (induction ops arbitrary: f)
    case (Cons x ops)
    obtain w now op where "x = (w, now, op)" by (cases x)
    with Cons [of "setup_step path x f"] show ?case by (simp add: setup_run_def setup_step_refines)
  qed (simp add: setup_run_def)
  show "fs_completed (fst (readOrMigrateFirstRunSetupState w now path install evidence f)) \<longleftrightarrow>
      marker_step (OpRead install evidence) (marker_of f) = Done"
    using read_marker [of path install f]
    by (cases evidence) (auto simp: readOrMigrateFirstRunSetupState_def Let_def completedState_def)
qed

text \<open>A completed set-up stays completed until it is reset.\<close>

fun is_reset :: "setup_op \<Rightarrow> bool" where
  "is_reset (OpReset _) = True"
| "is_reset _ = False"

corollary completed_until_reset:
  "list_all (\<lambda>(w, now, op). \<not> is_reset op) ops \<Longrightarrow> marker_of f = Done \<Longrightarrow> marker_of (setup_run path ops f) = Done"
proof (induction ops arbitrary: f)
  case (Cons x ops)
  obtain w now op where x: "x = (w, now, op)" by (cases x)
  with Cons.prems have "marker_of (setup_step path x f) = Done" by (cases op) (simp_all add: setup_step_refines del: setup_step.simps)
  with Cons x show ?case by (simp add: setup_run_def)
qed (simp add: setup_run_def)

end
