(* ===== verification/NodeSettings.thy ===== *)
theory NodeSettings
  imports BackupSettings Networks
begin

text \<open>
  The node settings of the renderer, src/app/utils.tsx and src/app/constants.ts: the base
  directory kept for each network in localStorage, the settings read at start with the
  overrides the main process passes at launch, and the settings handed to the main process.

  State (\<open>ui_storage\<close>): the localStorage items, each absent, not JSON, or with its value; the
  items under the names of the first release are only read. \<open>None\<close> for the storage stands for
  a browser without localStorage, and a write can be refused.
\<close>

section \<open>Defaults\<close>

record node_settings =
  ns_network :: network
  ns_repoPath :: string
  ns_baseDir :: string
  ns_profiles :: string
  ns_blockchainBackupUrl :: string
  ns_backup :: backup_settings

definition default_node_settings :: node_settings where
  "default_node_settings =
     \<lparr>ns_network = Mainnet, ns_repoPath = ''/Users/pgarcgo/code/koinos_code/koinos'',
      ns_baseDir = ''~/.teleno'', ns_profiles = ''mainnet_observer'',
      ns_blockchainBackupUrl = ''http://seed.koinosfoundation.org/backups/koinos_blockchain_backup.tar.gz'',
      ns_backup = default_node_backup_settings\<rparr>"

definition defaultNodeBaseDirForNetwork :: "network \<Rightarrow> string" where
  "defaultNodeBaseDirForNetwork n =
     (case n of Mainnet \<Rightarrow> ns_baseDir default_node_settings
      | Testnet \<Rightarrow> ''~/.teleno/testnet/.koinos''
      | Custom \<Rightarrow> ''~/.teleno/custom/.koinos'')"

definition defaultNodeProfilesForNetwork :: "network \<Rightarrow> string" where
  "defaultNodeProfilesForNetwork n =
     (case n of Mainnet \<Rightarrow> ''mainnet_observer'' | Testnet \<Rightarrow> ''testnet_observer'' | Custom \<Rightarrow> ''custom_advanced'')"

section \<open>Paths\<close>

definition is_sep :: "char \<Rightarrow> bool" where
  "is_sep c \<longleftrightarrow> c = CHR ''/'' \<or> c = CHR 0x5C"

text \<open>\<open>s.replace(/[\\/]+$/, '')\<close>.\<close>

definition drop_seps :: "string \<Rightarrow> string" where
  "drop_seps s = rev (dropWhile is_sep (rev s))"

text \<open>The last entry of \<open>s.split(/[\\/]+/).filter(Boolean)\<close> for a text without a trailing
  separator, and nothing when there is no entry.\<close>

definition last_segment :: "string \<Rightarrow> string" where
  "last_segment s = rev (takeWhile (\<lambda>c. \<not> is_sep c) (rev s))"

definition base_dir_names :: "string list" where
  "base_dir_names = [''.koinos'', ''.koinosgui'', ''.teleno'', ''basedir'']"

definition normalizeNodeBaseDirInput :: "string \<Rightarrow> string" where
  "normalizeNodeBaseDirInput v =
     (let trimmed = js_or (js_trim v) (ns_baseDir default_node_settings);
          normalized = drop_seps trimmed
      in if normalized = [] then ns_baseDir default_node_settings
         else if last_segment normalized \<in> set base_dir_names then normalized
         else normalized @ ''/.koinos'')"

text \<open>\<open>childPath.replace(/^\.?[\\/]+/, '')\<close>.\<close>

definition drop_lead :: "string \<Rightarrow> string" where
  "drop_lead s =
     (let t = (if s \<noteq> [] \<and> hd s = CHR ''.'' then tl s else s)
      in if t \<noteq> [] \<and> is_sep (hd t) then dropWhile is_sep t else s)"

definition joinDisplayPath :: "string \<Rightarrow> string \<Rightarrow> string" where
  "joinDisplayPath basePath childPath =
     (let base = drop_seps basePath; child = drop_lead childPath
      in if base = [] then childPath else if child = [] then base else base @ ''/'' @ child)"

section \<open>Backup paths inside the base directory\<close>

definition native_backup_root :: "string \<Rightarrow> string" where
  "native_backup_root baseDir = joinDisplayPath (normalizeNodeBaseDirInput baseDir) ''.teleno-native-backups''"

definition nativeBackupDefaultPaths :: "string \<Rightarrow> string \<times> string \<times> string" where
  "nativeBackupDefaultPaths baseDir =
     (let root = native_backup_root baseDir
      in (joinDisplayPath root ''repository'', joinDisplayPath root ''workspace'', joinDisplayPath root ''admin.token''))"

definition normalizeBackupPathForDefaultMatch :: "string \<Rightarrow> string" where
  "normalizeBackupPathForDefaultMatch v =
     map (\<lambda>c. if c = CHR 0x5C then CHR ''/'' else c) (drop_seps (js_trim v))"

definition shouldUseBaseDirBackupDefault :: "string \<Rightarrow> string \<Rightarrow> bool" where
  "shouldUseBaseDirBackupDefault v ending \<longleftrightarrow>
     normalizeBackupPathForDefaultMatch v = [] \<or>
     js_ends_with (normalizeBackupPathForDefaultMatch v) (''/.teleno-native-backups/'' @ ending)"

definition syncLocalBackupPathsToBaseDir :: "backup_settings \<Rightarrow> string \<Rightarrow> backup_settings" where
  "syncLocalBackupPathsToBaseDir b baseDir =
     (case nativeBackupDefaultPaths baseDir of (localDirectory, workspace, adminTokenFile) \<Rightarrow>
        b\<lparr>bs_localDirectory := (if shouldUseBaseDirBackupDefault (bs_localDirectory b) ''repository''
            then localDirectory else bs_localDirectory b),
          bs_workspace := (if shouldUseBaseDirBackupDefault (bs_workspace b) ''workspace''
            then workspace else bs_workspace b),
          bs_adminTokenFile := (if shouldUseBaseDirBackupDefault (bs_adminTokenFile b) ''admin.token''
            then adminTokenFile else bs_adminTokenFile b)\<rparr>)"

section \<open>Base directories by network\<close>

record ui_storage =
  us_baseDirs :: stored_file
  us_legacyBaseDirs :: stored_file
  us_nodeSettings :: stored_file
  us_legacyNodeSettings :: stored_file

type_synonym base_dirs = "network \<Rightarrow> string option"

definition stored_or_legacy :: "stored_file \<Rightarrow> stored_file \<Rightarrow> stored_file" where
  "stored_or_legacy primary legacy = (if primary \<noteq> Missing then primary else legacy)"

definition stored_dir :: "jsval \<Rightarrow> string option" where
  "stored_dir v =
     (case v of JStr s \<Rightarrow> if js_trim s \<noteq> [] then Some (normalizeNodeBaseDirInput s) else None | _ \<Rightarrow> None)"

definition loadNodeBaseDirsByNetwork :: "ui_storage option \<Rightarrow> base_dirs" where
  "loadNodeBaseDirsByNetwork storage =
     (case storage of
        None \<Rightarrow> (\<lambda>_. None)
      | Some st \<Rightarrow>
          (case stored_or_legacy (us_baseDirs st) (us_legacyBaseDirs st) of
             Content parsed \<Rightarrow> (\<lambda>n. stored_dir (js_prop (network_str n) parsed))
           | _ \<Rightarrow> (\<lambda>_. None)))"

definition word_in_path_re :: "string \<Rightarrow> re" where
  "word_in_path_re w =
     (let outside = Cls (\<lambda>c. \<not> (is_lower c \<or> is_digit c))
      in seqs [Alt Bol outside, lit w, Alt outside Eol])"

definition candidate_dir :: "base_dirs \<Rightarrow> network \<Rightarrow> string" where
  "candidate_dir dirs n =
     (case Option.bind (dirs n) (\<lambda>d. if d = [] then None else Some d) of
        Some d \<Rightarrow> d | None \<Rightarrow> defaultNodeBaseDirForNetwork n)"

definition networks :: "network list" where
  "networks = [Mainnet, Testnet, Custom]"

definition knownBaseDirMatchesDifferentNetwork :: "string \<Rightarrow> network \<Rightarrow> base_dirs \<Rightarrow> bool" where
  "knownBaseDirMatchesDifferentNetwork baseDir n dirs =
     (let normalized = normalizeNodeBaseDirInput baseDir; lower = js_lower normalized
      in if n = Mainnet \<and> js_test (word_in_path_re ''testnet'') lower then True
         else if n = Testnet \<and> js_test (word_in_path_re ''mainnet'') lower then True
         else list_ex (\<lambda>m. m \<noteq> n \<and> normalizeNodeBaseDirInput (candidate_dir dirs m) = normalized) networks)"

definition resolveStoredNodeBaseDir :: "network \<Rightarrow> string option \<Rightarrow> base_dirs \<Rightarrow> string" where
  "resolveStoredNodeBaseDir n fallback dirs =
     (let usable = (\<lambda>d. d \<noteq> [] \<and> \<not> knownBaseDirMatchesDifferentNetwork d n dirs)
      in if pred_option usable (dirs n) \<and> dirs n \<noteq> None then normalizeNodeBaseDirInput (the (dirs n))
         else if pred_option usable fallback \<and> fallback \<noteq> None then normalizeNodeBaseDirInput (the fallback)
         else normalizeNodeBaseDirInput (defaultNodeBaseDirForNetwork n))"

definition resolveNodeBaseDirForNetwork :: "network \<Rightarrow> string option \<Rightarrow> ui_storage option \<Rightarrow> string" where
  "resolveNodeBaseDirForNetwork n fallback storage =
     resolveStoredNodeBaseDir n fallback (loadNodeBaseDirsByNetwork storage)"

definition base_dirs_json :: "base_dirs \<Rightarrow> jsval" where
  "base_dirs_json dirs =
     JObj (List.map_filter (\<lambda>n. map_option (\<lambda>d. (network_str n, JStr d)) (dirs n)) networks)"

text \<open>Storing: nothing without a storage, and a refused write is swallowed.\<close>

definition storeNodeBaseDirForNetwork :: "bool \<Rightarrow> network \<Rightarrow> string \<Rightarrow> ui_storage option \<Rightarrow> ui_storage option" where
  "storeNodeBaseDirForNetwork writable n baseDir storage =
     (case storage of
        None \<Rightarrow> None
      | Some st \<Rightarrow>
          let dirs = loadNodeBaseDirsByNetwork storage;
              normalized = normalizeNodeBaseDirInput baseDir
          in if knownBaseDirMatchesDifferentNetwork normalized n dirs \<or> \<not> writable then storage
             else Some (st\<lparr>us_baseDirs := Content (base_dirs_json (dirs(n := Some normalized)))\<rparr>))"

section \<open>Profiles\<close>

definition parseProfilesCsv :: "string \<Rightarrow> string list" where
  "parseProfilesCsv v = filter (\<lambda>p. p \<noteq> []) (map js_trim (js_split (CHR '','') v))"

definition normalizeStringList :: "string list \<Rightarrow> string list" where
  "normalizeStringList vs = js_sort (filter (\<lambda>p. p \<noteq> []) (map js_trim vs))"

definition expandNodeProfiles :: "string list \<Rightarrow> string list" where
  "expandNodeProfiles profiles = normalizeStringList profiles"

definition sameStringList :: "string list \<Rightarrow> string list \<Rightarrow> bool" where
  "sameStringList left right =
     (let l = normalizeStringList left; r = normalizeStringList right
      in length l = length r \<and> list_all (\<lambda>(x, y). x = y) (zip l r))"

definition sameProfiles :: "string list \<Rightarrow> string list \<Rightarrow> bool" where
  "sameProfiles left right = sameStringList (expandNodeProfiles left) (expandNodeProfiles right)"

section \<open>Reading the settings\<close>

definition string_opt_of :: "jsval \<Rightarrow> string option" where
  "string_opt_of v = (case v of JStr s \<Rightarrow> Some s | _ \<Rightarrow> None)"

definition raw_profiles :: "jsval \<Rightarrow> string" where
  "raw_profiles v =
     (case v of
        JArr vs \<Rightarrow> js_join '','' (expandNodeProfiles (List.map_filter string_opt_of vs))
      | JStr s \<Rightarrow> js_join '','' (expandNodeProfiles (parseProfilesCsv s))
      | _ \<Rightarrow> [])"

definition text_setting :: "jsval \<Rightarrow> string \<Rightarrow> string" where
  "text_setting v d = (case v of JStr s \<Rightarrow> if js_trim s \<noteq> [] then s else d | _ \<Rightarrow> d)"

definition normalizeInitialNodeSettings :: "jsval \<Rightarrow> bool \<Rightarrow> ui_storage option \<Rightarrow> node_settings" where
  "normalizeInitialNodeSettings input preferInputBaseDir storage =
     (let rawProfiles = raw_profiles (js_prop ''profiles'' input);
          storedNetwork = js_prop ''network'' input;
          net = (if truthy storedNetwork then normalizeKoinosNetworkId storedNetwork
                 else if list_ex (\<lambda>p. js_starts_with (js_trim p) ''testnet_'') (js_split (CHR '','') rawProfiles)
                 then Testnet else ns_network default_node_settings);
          parsedBaseDir = text_setting (js_prop ''baseDir'' input) (defaultNodeBaseDirForNetwork net);
          baseDir = (if preferInputBaseDir \<and> parsedBaseDir \<noteq> [] then normalizeNodeBaseDirInput parsedBaseDir
                     else resolveNodeBaseDirForNetwork net (Some parsedBaseDir) storage)
      in \<lparr>ns_network = net,
          ns_repoPath = text_setting (js_prop ''repoPath'' input) (ns_repoPath default_node_settings),
          ns_baseDir = baseDir,
          ns_profiles = js_or rawProfiles (defaultNodeProfilesForNetwork net),
          ns_blockchainBackupUrl = text_setting (js_prop ''blockchainBackupUrl'' input)
            (ns_blockchainBackupUrl default_node_settings),
          ns_backup = syncLocalBackupPathsToBaseDir (normalizeNodeBackupSettings (js_prop ''backup'' input)) baseDir\<rparr>)"

text \<open>The settings as an object, and the own properties a spread copies.\<close>

definition node_settings_json :: "node_settings \<Rightarrow> (string \<times> jsval) list" where
  "node_settings_json s =
     [(''network'', JStr (network_str (ns_network s))), (''repoPath'', JStr (ns_repoPath s)),
      (''baseDir'', JStr (ns_baseDir s)), (''profiles'', JStr (ns_profiles s)),
      (''blockchainBackupUrl'', JStr (ns_blockchainBackupUrl s)), (''backup'', settings_json (ns_backup s))]"

fun own_props :: "jsval \<Rightarrow> (string \<times> jsval) list" where
  "own_props (JObj ps) = ps"
| "own_props _ = []"

definition launch_profiles_given :: "jsval \<Rightarrow> bool" where
  "launch_profiles_given v =
     (case v of
        JStr s \<Rightarrow> js_trim s \<noteq> []
      | JArr vs \<Rightarrow> list_ex (\<lambda>p. js_trim p \<noteq> []) (List.map_filter string_opt_of vs)
      | _ \<Rightarrow> False)"

text \<open>The launch override is an object of the preload script, or \<open>None\<close>.\<close>

definition applyLaunchNodeSettingsOverride ::
  "(string \<times> jsval) list option \<Rightarrow> node_settings \<Rightarrow> ui_storage option \<Rightarrow> node_settings" where
  "applyLaunchNodeSettingsOverride launch s storage =
     (case launch of
        None \<Rightarrow> s
      | Some ps \<Rightarrow>
          let get = (\<lambda>k. js_prop k (JObj ps));
              net = (if truthy (get ''network'') then Some (normalizeKoinosNetworkId (get ''network'')) else None);
              hasProfiles = launch_profiles_given (get ''profiles'');
              hasBaseDir = (case get ''baseDir'' of JStr d \<Rightarrow> js_trim d \<noteq> [] | _ \<Rightarrow> False);
              changed = (net \<noteq> None \<and> net \<noteq> Some (ns_network s));
              profiles = (if hasProfiles then get ''profiles''
                 else if changed then JStr (defaultNodeProfilesForNetwork (the net)) else JStr (ns_profiles s));
              baseDir = (if hasBaseDir then get ''baseDir''
                 else if changed then JStr (defaultNodeBaseDirForNetwork (the net)) else JStr (ns_baseDir s));
              backup = JObj (js_put_all (own_props (settings_json (ns_backup s))) (own_props (get ''backup'')));
              merged = js_put_all (js_put_all (node_settings_json s) ps)
                [(''profiles'', profiles), (''baseDir'', baseDir), (''backup'', backup)]
          in normalizeInitialNodeSettings (JObj merged) hasBaseDir storage)"

definition loadInitialNodeSettings :: "(string \<times> jsval) list option \<Rightarrow> ui_storage option \<Rightarrow> node_settings" where
  "loadInitialNodeSettings launch storage =
     (let item = (case storage of
            None \<Rightarrow> Missing
          | Some st \<Rightarrow> stored_or_legacy (us_nodeSettings st) (us_legacyNodeSettings st));
          settings = normalizeInitialNodeSettings (case item of Content v \<Rightarrow> v | _ \<Rightarrow> JUndefined) False storage
      in applyLaunchNodeSettingsOverride launch settings storage)"

record api_settings =
  ap_network :: network
  ap_repoPath :: string
  ap_baseDir :: string
  ap_profiles :: "string list"
  ap_blockchainBackupUrl :: string
  ap_backup :: backup_settings

definition toNodeApiSettings :: "node_settings \<Rightarrow> api_settings" where
  "toNodeApiSettings s =
     \<lparr>ap_network = ns_network s, ap_repoPath = js_trim (ns_repoPath s),
      ap_baseDir = normalizeNodeBaseDirInput (ns_baseDir s),
      ap_profiles = expandNodeProfiles (parseProfilesCsv (ns_profiles s)),
      ap_blockchainBackupUrl = js_trim (ns_blockchainBackupUrl s),
      ap_backup = normalizeNodeBackupSettings (settings_json (ns_backup s))\<rparr>"

section \<open>Normalised base directories\<close>

definition base_dir_ok :: "string \<Rightarrow> bool" where
  "base_dir_ok d \<longleftrightarrow> normal_text d \<and> \<not> is_sep (last d) \<and> last_segment d \<in> set base_dir_names"

lemma drop_seps_id: "s = [] \<or> \<not> is_sep (last s) \<Longrightarrow> drop_seps s = s"
  by (cases "rev s") (auto simp: drop_seps_def last_conv_nth hd_rev[symmetric] hd_conv_nth)

lemma drop_seps_prefix: "\<exists>t. s = drop_seps s @ t"
proof -
  have "rev s = takeWhile is_sep (rev s) @ dropWhile is_sep (rev s)" by simp
  then have "s = rev (dropWhile is_sep (rev s)) @ rev (takeWhile is_sep (rev s))"
    by (metis rev_append rev_rev_ident)
  then show ?thesis by (auto simp: drop_seps_def)
qed

lemma drop_seps_last: "drop_seps s \<noteq> [] \<Longrightarrow> \<not> is_sep (last (drop_seps s))"
  using hd_dropWhile [of is_sep "rev s"] by (simp add: drop_seps_def last_rev)

lemma base_dir_name_ends: "w \<in> set base_dir_names \<Longrightarrow> w \<noteq> [] \<and> \<not> is_space (last w) \<and> \<not> is_sep (last w)"
proof -
  have "\<forall>w \<in> set base_dir_names. w \<noteq> [] \<and> \<not> is_space (last w) \<and> \<not> is_sep (last w)" by code_simp
  then show "w \<in> set base_dir_names \<Longrightarrow> w \<noteq> [] \<and> \<not> is_space (last w) \<and> \<not> is_sep (last w)" by blast
qed

lemma last_of_last_segment: "last_segment s \<noteq> [] \<Longrightarrow> s \<noteq> [] \<and> last (last_segment s) = last s"
  by (cases "rev s") (auto simp: last_segment_def last_rev hd_rev[symmetric] split: if_splits)

lemma last_segment_append: "last_segment (s @ ''/.koinos'') = ''.koinos''"
  by (simp add: last_segment_def is_sep_def)

lemma default_dir_ok: "base_dir_ok (ns_baseDir default_node_settings)"
  by code_simp

lemma normalized_dir_ok: "base_dir_ok (normalizeNodeBaseDirInput v)"
proof -
  let ?t = "js_or (js_trim v) (ns_baseDir default_node_settings)"
  let ?n = "drop_seps ?t"
  have t: "normal_text ?t" using default_dir_ok trimmed_normal [of v] by (auto simp: js_or_def base_dir_ok_def)
  show ?thesis
  proof (cases "?n = []")
    case False
    then have "hd ?n = hd ?t" using drop_seps_prefix [of ?t] by (metis hd_append2)
    then have hd: "\<not> is_space (hd ?n)" using normal_textD(2) [OF t] by simp
    show ?thesis
    proof (cases "last_segment ?n \<in> set base_dir_names")
      case True
      note e = base_dir_name_ends [OF True]
      then have "\<not> is_space (last ?n)" using last_of_last_segment [of ?n] by simp
      with True False hd show ?thesis
        using drop_seps_last [OF False] by (simp add: normalizeNodeBaseDirInput_def Let_def base_dir_ok_def normal_textI)
    next
      case no: False
      have "normal_text (?n @ ''/.koinos'')" using False hd by (intro normal_textI) simp_all
      moreover have "\<not> is_sep (last (?n @ ''/.koinos''))" by (simp add: is_sep_def)
      moreover have "''.koinos'' \<in> set base_dir_names" by (simp add: base_dir_names_def)
      ultimately show ?thesis using False no
        by (simp add: normalizeNodeBaseDirInput_def Let_def base_dir_ok_def last_segment_append)
    qed
  qed (simp add: normalizeNodeBaseDirInput_def Let_def default_dir_ok)
qed

lemma normalize_ok_dir: "base_dir_ok d \<Longrightarrow> normalizeNodeBaseDirInput d = d"
  by (simp add: normalizeNodeBaseDirInput_def Let_def base_dir_ok_def normal_text_def trimmed_def js_or_def drop_seps_id)

lemma normalize_dir_idem [simp]: "normalizeNodeBaseDirInput (normalizeNodeBaseDirInput v) = normalizeNodeBaseDirInput v"
  by (rule normalize_ok_dir [OF normalized_dir_ok])

lemma ok_dir_not_Nil: "base_dir_ok d \<Longrightarrow> d \<noteq> []"
  by (auto simp: base_dir_ok_def normal_text_def)

section \<open>Base directories stay apart\<close>

definition in_use :: "base_dirs \<Rightarrow> network \<Rightarrow> string" where
  "in_use dirs n = normalizeNodeBaseDirInput (candidate_dir dirs n)"

definition named_for_other :: "network \<Rightarrow> string \<Rightarrow> bool" where
  "named_for_other n d \<longleftrightarrow>
     n = Mainnet \<and> js_test (word_in_path_re ''testnet'') (js_lower d) \<or>
     n = Testnet \<and> js_test (word_in_path_re ''mainnet'') (js_lower d)"

definition dirs_ok :: "base_dirs \<Rightarrow> bool" where
  "dirs_ok dirs \<longleftrightarrow>
     (\<forall>n d. dirs n = Some d \<longrightarrow> base_dir_ok d \<and> \<not> named_for_other n d) \<and>
     (\<forall>m n. m \<noteq> n \<longrightarrow> in_use dirs m \<noteq> in_use dirs n)"

lemma known_iff:
  "knownBaseDirMatchesDifferentNetwork d n dirs \<longleftrightarrow>
     named_for_other n (normalizeNodeBaseDirInput d) \<or> (\<exists>m. m \<noteq> n \<and> in_use dirs m = normalizeNodeBaseDirInput d)"
proof -
  have "(\<exists>m \<in> set networks. P m) \<longleftrightarrow> (\<exists>m. P m)" for P
    by (auto simp: networks_def) (metis network.exhaust)
  then show ?thesis
    by (auto simp: knownBaseDirMatchesDifferentNetwork_def Let_def named_for_other_def in_use_def list_ex_iff)
qed

lemma in_use_Some: "dirs n = Some d \<Longrightarrow> base_dir_ok d \<Longrightarrow> in_use dirs n = d"
  using ok_dir_not_Nil [of d] by (simp add: in_use_def candidate_dir_def normalize_ok_dir)

lemma in_use_None: "dirs n = None \<Longrightarrow> in_use dirs n = normalizeNodeBaseDirInput (defaultNodeBaseDirForNetwork n)"
  by (simp add: in_use_def candidate_dir_def)

lemma in_use_other [simp]: "m \<noteq> n \<Longrightarrow> in_use (dirs(n := d)) m = in_use dirs m"
  by (simp add: in_use_def candidate_dir_def)

lemma dirs_ok_empty: "dirs_ok (\<lambda>_. None)"
proof -
  have "normalizeNodeBaseDirInput (defaultNodeBaseDirForNetwork n) = defaultNodeBaseDirForNetwork n" for n
  proof -
    have "base_dir_ok (defaultNodeBaseDirForNetwork Mainnet)" "base_dir_ok (defaultNodeBaseDirForNetwork Testnet)"
      "base_dir_ok (defaultNodeBaseDirForNetwork Custom)" by code_simp+
    then show ?thesis by (cases n) (simp_all add: normalize_ok_dir)
  qed
  then have "in_use (\<lambda>_. None) n = defaultNodeBaseDirForNetwork n" for n by (simp add: in_use_None)
  moreover have "defaultNodeBaseDirForNetwork m \<noteq> defaultNodeBaseDirForNetwork n" if "m \<noteq> n" for m n
    using that by (cases m; cases n) (simp_all add: defaultNodeBaseDirForNetwork_def default_node_settings_def)
  ultimately show ?thesis by (simp add: dirs_ok_def)
qed

lemma dirs_ok_store:
  assumes ok: "dirs_ok dirs" and fine: "\<not> knownBaseDirMatchesDifferentNetwork d n dirs"
  shows "dirs_ok (dirs(n := Some (normalizeNodeBaseDirInput d)))"
proof -
  let ?d = "normalizeNodeBaseDirInput d"
  have d: "base_dir_ok ?d" by (rule normalized_dir_ok)
  then have use: "in_use (dirs(n := Some ?d)) n = ?d" by (simp add: in_use_Some)
  have "in_use (dirs(n := Some ?d)) k \<noteq> in_use (dirs(n := Some ?d)) m" if "k \<noteq> m" for k m
    using that ok fine use by (cases "k = n"; cases "m = n") (auto simp: known_iff dirs_ok_def)
  with ok fine d show ?thesis by (auto simp: dirs_ok_def known_iff)
qed

lemma load_stored_dirs:
  assumes "\<And>n d. dirs n = Some d \<Longrightarrow> base_dir_ok d"
  shows "loadNodeBaseDirsByNetwork (Some (st\<lparr>us_baseDirs := Content (base_dirs_json dirs)\<rparr>)) = dirs"
proof
  fix n
  have "stored_dir (JStr d) = Some d" if "dirs m = Some d" for m d
    using assms [OF that] by (simp add: stored_dir_def base_dir_ok_def normal_text_def trimmed_def
        normalize_ok_dir [unfolded base_dir_ok_def normal_text_def trimmed_def])
  moreover have "stored_dir JUndefined = None" by (simp add: stored_dir_def)
  ultimately show "loadNodeBaseDirsByNetwork (Some (st\<lparr>us_baseDirs := Content (base_dirs_json dirs)\<rparr>)) n = dirs n"
    by (cases n; cases "dirs Mainnet"; cases "dirs Testnet"; cases "dirs Custom")
      (auto simp: loadNodeBaseDirsByNetwork_def stored_or_legacy_def base_dirs_json_def networks_def
        List.map_filter_simps)
qed

lemma resolve_dirs_ok:
  assumes "dirs_ok dirs"
  shows "dirs n = Some d \<Longrightarrow> resolveStoredNodeBaseDir n fallback dirs = d"
    and "resolveStoredNodeBaseDir n None dirs = in_use dirs n"
    and "m \<noteq> n \<Longrightarrow> resolveStoredNodeBaseDir n fallback dirs \<noteq> in_use dirs m"
proof -
  have some: "resolveStoredNodeBaseDir n fallback dirs = d" if "dirs n = Some d" for d fallback
  proof -
    have d: "base_dir_ok d" "\<not> named_for_other n d" using assms that by (auto simp: dirs_ok_def)
    have "in_use dirs n = d" using in_use_Some [of dirs n d] that d(1) by blast
    then have "in_use dirs m \<noteq> d" if "m \<noteq> n" for m
      using assms that by (metis dirs_ok_def)
    with d have "\<not> knownBaseDirMatchesDifferentNetwork d n dirs" by (auto simp: known_iff normalize_ok_dir)
    with that d show ?thesis by (simp add: resolveStoredNodeBaseDir_def Let_def normalize_ok_dir ok_dir_not_Nil)
  qed
  then show "dirs n = Some d \<Longrightarrow> resolveStoredNodeBaseDir n fallback dirs = d" by blast
  show "resolveStoredNodeBaseDir n None dirs = in_use dirs n"
  proof (cases "dirs n")
    case (Some d)
    with some assms show ?thesis by (auto simp: dirs_ok_def in_use_Some)
  qed (simp add: resolveStoredNodeBaseDir_def Let_def in_use_None)
  show "resolveStoredNodeBaseDir n fallback dirs \<noteq> in_use dirs m" if m: "m \<noteq> n"
  proof (cases "dirs n")
    case (Some d)
    then have "resolveStoredNodeBaseDir n fallback dirs = in_use dirs n"
      using some [OF Some] assms by (auto simp: dirs_ok_def in_use_Some)
    with assms m show ?thesis by (metis dirs_ok_def)
  next
    case None
    have "in_use dirs n \<noteq> in_use dirs m" using assms m by (metis dirs_ok_def)
    then show ?thesis using None m
      by (auto simp: resolveStoredNodeBaseDir_def Let_def in_use_None known_iff split: if_splits)
  qed
qed

inductive storage_reachable :: "ui_storage \<Rightarrow> bool" where
  start: "us_baseDirs st = Missing \<Longrightarrow> us_legacyBaseDirs st = Missing \<Longrightarrow> storage_reachable st"
| store: "storage_reachable st \<Longrightarrow> storeNodeBaseDirForNetwork writable n d (Some st) = Some st' \<Longrightarrow>
    storage_reachable st'"

lemma store_cases:
  "storeNodeBaseDirForNetwork writable n d (Some st) =
     (if knownBaseDirMatchesDifferentNetwork d n (loadNodeBaseDirsByNetwork (Some st)) \<or> \<not> writable then Some st
      else Some (st\<lparr>us_baseDirs := Content (base_dirs_json
        ((loadNodeBaseDirsByNetwork (Some st))(n := Some (normalizeNodeBaseDirInput d))))\<rparr>))"
  by (simp add: storeNodeBaseDirForNetwork_def Let_def known_iff)

lemma load_after_store:
  assumes "dirs_ok (loadNodeBaseDirsByNetwork (Some st))"
    and "\<not> knownBaseDirMatchesDifferentNetwork d n (loadNodeBaseDirsByNetwork (Some st))"
  shows "loadNodeBaseDirsByNetwork (storeNodeBaseDirForNetwork True n d (Some st)) =
    (loadNodeBaseDirsByNetwork (Some st))(n := Some (normalizeNodeBaseDirInput d))"
proof -
  let ?dirs = "(loadNodeBaseDirsByNetwork (Some st))(n := Some (normalizeNodeBaseDirInput d))"
  have "base_dir_ok e" if "?dirs k = Some e" for k e
    using dirs_ok_store [OF assms] that unfolding dirs_ok_def by blast
  from load_stored_dirs [OF this] assms(2) show ?thesis
    by (simp only: store_cases if_False simp_thms not_True_eq_False)
qed

lemma reachable_dirs: "storage_reachable st \<Longrightarrow> dirs_ok (loadNodeBaseDirsByNetwork (Some st))"
proof (induction rule: storage_reachable.induct)
  case (start st)
  then show ?case using dirs_ok_empty by (simp add: loadNodeBaseDirsByNetwork_def stored_or_legacy_def)
next
  case (store st writable n d st')
  let ?known = "knownBaseDirMatchesDifferentNetwork d n (loadNodeBaseDirsByNetwork (Some st))"
  show ?case
  proof (cases "?known \<or> \<not> writable")
    case True
    with store.hyps(2) have "st' = st" by (simp only: store_cases if_True option.inject)
    with store.IH show ?thesis by simp
  next
    case False
    then have known: "\<not> ?known" and st': "storeNodeBaseDirForNetwork True n d (Some st) = Some st'"
      using store.hyps(2) by simp_all
    from load_after_store [OF store.IH known] dirs_ok_store [OF store.IH known]
    show ?thesis by (simp only: st')
  qed
qed

text \<open>The base directories of the networks stay apart: after any sequence of stored choices, the
  directory resolved for a network, whatever fallback is offered, is never the one in use for another
  network; and a directory that is stored and not refused is the one resolved from then on.\<close>

theorem base_dirs_stay_apart:
  assumes "storage_reachable st" "m \<noteq> n"
  shows "resolveNodeBaseDirForNetwork n fallback (Some st) \<noteq> resolveNodeBaseDirForNetwork m None (Some st) \<and>
    (knownBaseDirMatchesDifferentNetwork d n (loadNodeBaseDirsByNetwork (Some st)) \<or>
     resolveNodeBaseDirForNetwork n fallback (storeNodeBaseDirForNetwork True n d (Some st)) =
       normalizeNodeBaseDirInput d)"
proof -
  note ok = reachable_dirs [OF assms(1)]
  have "resolveNodeBaseDirForNetwork n fallback (storeNodeBaseDirForNetwork True n d (Some st)) = normalizeNodeBaseDirInput d"
    if "\<not> knownBaseDirMatchesDifferentNetwork d n (loadNodeBaseDirsByNetwork (Some st))"
    using resolve_dirs_ok(1) [OF dirs_ok_store [OF ok that]] load_after_store [OF ok that]
    by (simp add: resolveNodeBaseDirForNetwork_def)
  then show ?thesis
    using resolve_dirs_ok(2,3) [OF ok] assms(2) by (auto simp: resolveNodeBaseDirForNetwork_def)
qed

definition sample_storage :: ui_storage where
  "sample_storage = \<lparr>us_baseDirs = Missing, us_legacyBaseDirs = Missing, us_nodeSettings = Missing,
     us_legacyNodeSettings = Missing\<rparr>"

theorem base_dirs_stay_apart_witness:
  "resolveNodeBaseDirForNetwork Mainnet (Some ''/data/testnet'') (Some sample_storage) \<noteq>
   resolveNodeBaseDirForNetwork Testnet None (Some sample_storage)"
proof -
  have "storage_reachable sample_storage" by (rule storage_reachable.start) (simp_all add: sample_storage_def)
  from base_dirs_stay_apart [OF this, of Testnet Mainnet "Some ''/data/testnet''" "[]"] show ?thesis by simp
qed

end
