(* ===== verification/Spec2Isabelle.thy ===== *)
theory Spec2Isabelle
  imports ChainSync FleetService FleetProvider NodeProfiles LogFilters ProducerRules NativeBackups NodeVerify WalletHandlers ProducerConfig
    FirstRun NodeSettings
begin

text \<open>
  A verification library for the Koinos One desktop application (src/): an Electron program that
  runs a Koinos node, keeps wallets for it and manages a fleet of remote nodes over ssh.

  The renderer (src/src/) shows panels and decides; the main process (src/electron/) owns files,
  secrets and child processes. They talk over IPC with plain JSON objects. The parts modelled
  here are the decisions: what is planned, what is let through, what is written, what is kept.

  \<^bold>\<open>How the code is read.\<close> A JavaScript string is a HOL \<open>string\<close> of the code units 0 to 255
  (JsPrelude); its regular expressions are a deep embedding with a backtracking matcher
  (JsRegex: the matcher's loops carry the length of the text as fuel and consume at least one
  character per round); a JSON value is \<open>jsval\<close> (JsValue) with numbers as reals, NaN and the
  infinities; split, matchAll, sort, property update and \<open>Number\<close> are in JsText. Objects are
  records named after the source's types, unions are datatypes, \<open>null\<close> and \<open>undefined\<close> of an
  optional field are \<open>None\<close>, exceptions are values of a sum. What the source calls but does
  not contain is an argument: \<open>parse\<close> (JSON.parse), \<open>num_str\<close> (String of a number),
  the command runner and the clock of the executor, \<open>doc\<close> (the parsed YAML file), and
  \<open>wallet_lib\<close> and \<open>wallet_env\<close> (node:crypto, koilib, ethers, the clock, random ids).

  \<^bold>\<open>Networks and monitors.\<close>
  \<^item> Networks: src/src/app/network.ts, public-bootstrap.ts, src/electron/lib/network-profiles.ts.
  \<^item> ChainSync: src/src/app/chain-sync.ts. The two monitors are step functions on their state; the
    locale \<open>restart_monitor\<close> states when such a monitor keeps its restarts apart, and is
    interpreted as \<open>chain_mon\<close> and \<open>p2p_mon\<close>. Cooldowns are five minutes and two checks, as in
    constants.ts.

  \<^bold>\<open>The fleet of remote nodes\<close> (src/src/app/remote-nodes.ts, remote-node-execution.ts and
  src/electron/lib/remote-node-service.ts).
  \<^item> FleetTypes, FleetNormalize: the inventory and its normalisation from any JSON value.
  \<^item> ShellQuote, FleetCommands: quoting and every remote command. A small reader of POSIX
    quoting says what the remote shell makes of a command; the locale \<open>shell_quoting\<close> (one
    argument comes back as itself) is interpreted for \<open>q\<close> and \<open>remotePath\<close>.
  \<^item> FleetValidate, FleetPlan: the inventory check, the plan of an action and of a rollout.
  \<^item> FleetGate, FleetHealth: the renderer's gates before execution, and the reading of the output.
  \<^item> FleetService: the main process: its own validation, redaction and the step loop with its
    progress events and receipt. The locale \<open>safety_gate\<close> is the contract both gates meet
    (\<open>renderer\<close>, \<open>main_process\<close>). The bounds are the code's: 128 KiB of collected
    output, 12000 characters of output and 6000 of an excerpt.
  \<^item> FleetProvider: the import of pasted provider metadata, from the redacted preview (4000
    characters) to the fleet nodes; names are cut at 96, slugs at 48 characters. The search for a
    free id is a \<open>function\<close> with a termination measure: the used ids not yet tried.

  \<^bold>\<open>The node.\<close>
  \<^item> NodeProfiles: src/electron/lib/monolith-profile-plan.ts, component-health.ts,
    runtime-listen.ts: presets, feature flags, component states, listen addresses.
  \<^item> LogFilters: src/src/app/log-filters.ts.
  \<^item> ProducerRules: src/src/app/producer.ts, wallet-actions.ts: which address is meant, and the order
    of the reasons that block a producer set-up.
  \<^item> BackupSelection: src/src/app/native-backups.ts.

  \<^bold>\<open>Backups\<close> (src/electron/lib/backup-service.ts).
  \<^item> NodePath: what the code uses of node:path and node:fs; a file system is a map from locations
    (lists of names) to entries.
  \<^item> NativeOutput: what the native tool prints: progress lines and the final JSON result.
  \<^item> BackupArchive: URLs, the published checksum and directory list, the archive cache, extraction
    and installation; BackupRestore: what an installation and an extraction do to the file system.
  \<^item> BackupFlow: the operation \<open>telenoNodeRestoreBackup\<close>, stage by stage in continuation-passing
    style. The locales \<open>restore_run\<close> and \<open>restore_install\<close> are assertions kept by the
    stages; \<open>restore_leads\<close> composes them over the whole operation. Each level of the search for
    a payload consumes one of the code's four levels.

  \<^item> NativeConfig: the configuration file of the native tool, as the settings write it and as it is
    read back; a YAML document is its list of leaves, the YAML library an argument with the laws that
    what is printed is parsed as itself.
  \<^item> BackupRun: the admin listener of a running node and the state of an operation on native backups.
    An operation is a \<open>flow\<close>: it awaits calls one after the other, and every call is logged with the
    cancel flag at that moment and its answer. What a call answers and what happens meanwhile is the
    environment \<open>run_env\<close>, indexed by the number of calls made; the clock does not run
    backwards and a delay takes at least its time, so the loops end within the six hours of the code.
  \<^item> NativeRestore: \<open>restoreNativeBackup\<close>. The locale \<open>run_rules\<close> is the contract of an assertion
    that calls and events keep; \<open>restore_phases\<close> chains three of them (before a passed check,
    after it, after the finishing call) over the whole operation. It is interpreted on the log of calls
    (\<open>log_run\<close>) and on the events (\<open>told_run\<close>).
  \<^item> NativeBackups: creating, stopping, listing, checking, purging, the dry run.
  \<^item> NodeVerify: the JSON-RPC request to the local node and the wait for its head after a restore, with a
    termination measure (the time left), the verified restore and the copy of a base directory.

  \<^bold>\<open>Wallets\<close> (src/electron/lib/teleno-storage.ts, wallet-accounts.ts, wallet-service.ts).
  \<^item> WalletStore: one wallet file and one producer profile per network and the unlocked session, as
    the record \<open>wallet_store\<close>; one definition per operation, the compatibility fields, the
    migration of old files and the fallbacks for unknown ids included.
  \<^item> WalletInvariant, WalletSteps: the invariant \<open>store_ok\<close> and its preservation by every
    operation; \<open>wallet_step\<close> and \<open>wallet_reachable\<close> are the calls made with a network.
    \<open>lib_ok\<close> says what is relied on outside: a sealed secret is opened by its password, and
    derived addresses are texts without surrounding blanks. \<open>fresh\<close> says that a random id is
    not in use.
  \<^item> JsFlow: handlers that stop with a message, as steps on a state, and the rules along them; JsNumber: the
    rounding of products in doubles.
  \<^item> WalletTransfers: \<open>walletBurn\<close>, \<open>walletTransferKoin\<close>, \<open>walletTransferVhp\<close> and the transaction
    sponsored with free mana, over the log of transactions sent; what the chain and koilib answer is
    the environment \<open>chain_env\<close>. The code makes at most five attempts.
  \<^item> WalletHandlers: the handlers over the wallet store and the writes of a producer address to the
    runtime configuration.

  \<^bold>\<open>The block producer\<close> (src/electron/lib/producer-keys.ts, node-paths.ts, producer-service.ts, main.ts).
  \<^item> ProducerConfig: the line editing of \<open>block_producer\<close> in \<open>config.yml\<close>, the key files and the check before
    a node with block production is started. The edited text is read as lines (\<open>active_values\<close>), the YAML
    parser is an argument.

  \<^bold>\<open>What the lemmas show.\<close> For the fleet: what is planned is one remote command per step,
  with every value quoted (ShellQuote, FleetCommands, FleetPlan); an unblocked plan and an open gate mean
  the safety conditions hold, and the two processes agree (FleetValidate, FleetPlan, FleetGate,
  FleetService); the executor runs exactly the accepted prefix and reports it (FleetService); stored
  and imported inventories are well formed (FleetNormalize, FleetProvider). For wallets: files stay well formed, the
  session shows its file, what is saved can be unlocked, what is removed is gone, and networks do not
  touch each other; every session of requests is a run of these operations; a transfer or burn sends
  at most the one transaction that was asked for; the producer address of mainnet is written only on request. For the producer: an address that is written
  is read back, mainnet starts only with an explicit one, keys that can be read are never replaced. For the node: restarts are spaced, flags and addresses are as configured,
  filtered logs keep whole entries. For backups: an
  archive that is used has the published checksum, nothing of the node is touched before, the
  installation replaces exactly the listed directories, and every run ends with one final event; a
  native restore heeds a cancellation, activates only what was checked and reports success only when
  the finishing call succeeded.

  Where the code does something else than it says, a theorem states what it does: a path that holds the
  here-document's delimiter escapes it, the main process accepts text after the document, an
  import under a second password locks the wallet, a burn can be reported as failed after it was
  accepted, a decimal amount can lose a unit, a query without a network is answered by
  another network's session, a commented line hides the producer address from the edit, an unreadable key file
  is overwritten, a directory list can name a
  parent directory, and an installation that fails leaves a mixture.

  \<^bold>\<open>Not modelled.\<close> The React panels and texts, Electron wiring and windows, process and file-system
  calls and their failures, downloads and builds, the inside of koilib. Of the backup service the restore
  from a local file and the directory dialog, of the wallet service the read-only queries, the services around
  the producer and the runtime, and the rest of teleno-storage.ts (preferences, RPC lists, the inventory
  file, receipts) are not modelled.
\<close>

end
